(* ===== verification/Prelude.thy ===== *)
theory Prelude
  imports Main "HOL-Library.AList" "HOL-Library.Char_ord" "HOL-Library.List_Lexorder"
    "HOL-Library.Product_Lexorder"
begin

text \<open>
  The Python values and the control flow that the model of \<open>waje_vnext\<close> shares.

  A Python \<open>str\<close> is an HOL \<open>string\<close> that holds its UTF-8 bytes (so byte order is code-point
  order, as Python compares).  A raise is a value of \<open>py_error\<close> with the class and the message of
  the exception; a fallible pure function returns \<open>'a result\<close>, a method that mutates an object
  returns \<open>'a result\<close> together with the object as the method leaves it, so a raise after a
  partial mutation keeps that mutation.
\<close>

section \<open>Exceptions and results\<close>

text \<open>Why a measurement could not be resolved (\<open>domain/measurement_resolver.py\<close>).\<close>

datatype ResolutionBoundaryCode =
    InvalidMeasurementGraph
  | MissingAnchor
  | UnsupportedCalendar
  | MissingCalendarContract
  | InvalidWindowRule
  | SnapshotOutOfRange
  | IncompletePeriod
  | InsufficientValidExposure
  | IncompatibleUnit
  | IncomparableExposure

fun boundary_code_value :: "ResolutionBoundaryCode \<Rightarrow> string" where
  "boundary_code_value InvalidMeasurementGraph = ''invalid_measurement_graph''"
| "boundary_code_value MissingAnchor = ''missing_anchor''"
| "boundary_code_value UnsupportedCalendar = ''unsupported_calendar''"
| "boundary_code_value MissingCalendarContract = ''missing_calendar_contract''"
| "boundary_code_value InvalidWindowRule = ''invalid_window_rule''"
| "boundary_code_value SnapshotOutOfRange = ''snapshot_out_of_range''"
| "boundary_code_value IncompletePeriod = ''incomplete_period''"
| "boundary_code_value InsufficientValidExposure = ''insufficient_valid_exposure''"
| "boundary_code_value IncompatibleUnit = ''incompatible_unit''"
| "boundary_code_value IncomparableExposure = ''incomparable_exposure''"

datatype py_error =
    ValueError string
  | TypeError string
  | KeyError string
  | IndexError string
  | AttributeError string
  | StopIteration
  | AuthorityNotFound string
  | AuthorityConflict string
  | StaleHead string
  | InvalidAuthorityTransition string
  | LeaseConflict string
  | LeaseFenceLost string
  | WorkflowCursorGap string
  | WorkflowFactConflict string
  | WorkflowTransitionRejected string
  | WorkflowJournalAdapterError string
  | WorkflowJournalEventUnsupported string
  | OverflowError string
  | AssertionError
  | ResolutionFailure ResolutionBoundaryCode "string list" "string list"

text \<open>\<open>except ValueError\<close> also catches the subclasses declared in \<open>domain/workflow.py\<close> and
  \<open>domain/workflow_adapter.py\<close>.\<close>

fun is_value_error :: "py_error \<Rightarrow> bool" where
  "is_value_error (ValueError _) = True"
| "is_value_error (WorkflowCursorGap _) = True"
| "is_value_error (WorkflowFactConflict _) = True"
| "is_value_error (WorkflowTransitionRejected _) = True"
| "is_value_error (WorkflowJournalAdapterError _) = True"
| "is_value_error (WorkflowJournalEventUnsupported _) = True"
| "is_value_error _ = False"

fun error_text :: "py_error \<Rightarrow> string" where
  "error_text (ValueError m) = m"
| "error_text (TypeError m) = m"
| "error_text (KeyError m) = m"
| "error_text (IndexError m) = m"
| "error_text (AttributeError m) = m"
| "error_text StopIteration = ''''"
| "error_text (AuthorityNotFound m) = m"
| "error_text (AuthorityConflict m) = m"
| "error_text (StaleHead m) = m"
| "error_text (InvalidAuthorityTransition m) = m"
| "error_text (LeaseConflict m) = m"
| "error_text (LeaseFenceLost m) = m"
| "error_text (WorkflowCursorGap m) = m"
| "error_text (WorkflowFactConflict m) = m"
| "error_text (WorkflowTransitionRejected m) = m"
| "error_text (WorkflowJournalAdapterError m) = m"
| "error_text (WorkflowJournalEventUnsupported m) = m"
| "error_text (OverflowError m) = m"
| "error_text AssertionError = ''''"
| "error_text (ResolutionFailure c _ _) = boundary_code_value c"

type_synonym 'a result = "py_error + 'a"

fun bindR :: "'a result \<Rightarrow> ('a \<Rightarrow> 'b result) \<Rightarrow> 'b result" where
  "bindR (Inl e) f = Inl e"
| "bindR (Inr x) f = f x"

text \<open>\<open>require c e\<close> is \<open>if not c: raise e\<close>; \<open>checks\<close> runs guards in order up to the first raise.\<close>

definition require :: "bool \<Rightarrow> py_error \<Rightarrow> unit result" where
  "require c e = (if c then Inr () else Inl e)"

primrec checks :: "unit result list \<Rightarrow> unit result" where
  "checks [] = Inr ()"
| "checks (r # rs) = bindR r (\<lambda>_. checks rs)"

primrec sequenceR :: "'a result list \<Rightarrow> 'a list result" where
  "sequenceR [] = Inr []"
| "sequenceR (r # rs) = bindR r (\<lambda>x. bindR (sequenceR rs) (\<lambda>xs. Inr (x # xs)))"

text \<open>A constructor call: the fields, once \<open>__post_init__\<close> has accepted them.\<close>

definition construct :: "('a \<Rightarrow> unit result) \<Rightarrow> 'a \<Rightarrow> 'a result" where
  "construct check x = bindR (check x) (\<lambda>_. Inr x)"

text \<open>A \<open>for\<close> loop whose body may raise.\<close>

primrec foldR :: "('a \<Rightarrow> 'b \<Rightarrow> 'b result) \<Rightarrow> 'a list \<Rightarrow> 'b \<Rightarrow> 'b result" where
  "foldR f [] s = Inr s"
| "foldR f (x # xs) s = bindR (f x s) (foldR f xs)"

text \<open>\<open>try: ... except ValueError as error: raise InvalidAuthorityTransition(str(error))\<close>\<close>

fun as_transition_error :: "'a result \<Rightarrow> 'a result" where
  "as_transition_error (Inl e) =
     Inl (if is_value_error e then InvalidAuthorityTransition (error_text e) else e)"
| "as_transition_error (Inr x) = Inr x"

named_theorems result_simps \<open>inversion of results\<close>

lemma bindR_Inr_iff [result_simps]: "bindR m f = Inr y \<longleftrightarrow> (\<exists>x. m = Inr x \<and> f x = Inr y)"
  by (cases m) auto

lemma bindR_Inl_iff: "bindR m f = Inl e \<longleftrightarrow> m = Inl e \<or> (\<exists>x. m = Inr x \<and> f x = Inl e)"
  by (cases m) auto

lemma require_Inr_iff [simp, result_simps]: "require c e = Inr u \<longleftrightarrow> c"
  by (simp add: require_def)

lemma require_Inl_iff [simp]: "require c e = Inl e' \<longleftrightarrow> \<not> c \<and> e' = e"
  by (auto simp: require_def)

lemma require_True [simp]: "require True e = Inr ()"
  by (simp add: require_def)

lemma checks_Inr_iff: "checks rs = Inr u \<longleftrightarrow> (\<forall>r \<in> set rs. r = Inr ())"
  by (induction rs) (auto simp: result_simps)

lemma checks_Cons_Inr [simp, result_simps]:
  "checks (r # rs) = Inr u \<longleftrightarrow> r = Inr () \<and> checks rs = Inr ()"
  by (auto simp: result_simps checks.simps)

declare checks.simps(2) [simp del]

lemma checks_Cons_ok [simp]: "checks (Inr u # rs) = checks rs"
  by (simp add: checks.simps)

lemma checks_append_Inr [simp, result_simps]:
  "checks (rs @ ss) = Inr u \<longleftrightarrow> checks rs = Inr () \<and> checks ss = Inr ()"
  by (auto simp: checks_Inr_iff)

lemma checks_map_Inr [simp, result_simps]:
  "checks (map f xs) = Inr u \<longleftrightarrow> (\<forall>x \<in> set xs. f x = Inr ())"
  by (auto simp: checks_Inr_iff)

lemma checks_Inl_D: "checks rs = Inl e \<Longrightarrow> Inl e \<in> set rs"
  by (induction rs) (auto simp: bindR_Inl_iff checks.simps)

lemma sequenceR_Inr_iff: "sequenceR rs = Inr xs \<longleftrightarrow> rs = map Inr xs"
  by (induction rs arbitrary: xs) (auto simp: result_simps Cons_eq_map_conv)

lemma sequenceR_map_Inr [simp]: "sequenceR (map Inr xs) = Inr xs"
  by (simp add: sequenceR_Inr_iff)

lemma construct_Inr_iff [simp, result_simps]: "construct c x = Inr y \<longleftrightarrow> c x = Inr () \<and> y = x"
  by (auto simp: construct_def bindR_Inr_iff)

lemma construct_ok [simp]: "c x = Inr () \<Longrightarrow> construct c x = Inr x"
  by simp

lemma construct_Inl_iff: "construct c x = Inl e \<longleftrightarrow> c x = Inl e"
  by (cases "c x") (auto simp: construct_def)

lemma foldR_append: "foldR f (xs @ ys) s = bindR (foldR f xs s) (foldR f ys)"
proof (induction xs arbitrary: s)
  case (Cons x xs)
  show ?case by (cases "f x s") (simp_all add: Cons.IH)
qed simp

lemma foldR_invariant:
  assumes "foldR f xs s = Inr t" and "P s"
    and "\<And>x s t. x \<in> set xs \<Longrightarrow> P s \<Longrightarrow> f x s = Inr t \<Longrightarrow> P t"
  shows "P t"
  using assms
proof (induction xs arbitrary: s)
  case (Cons x xs)
  then obtain u where u: "f x s = Inr u" and r: "foldR f xs u = Inr t"
    by (auto simp: result_simps)
  have "P u" using Cons.prems(2,3) u by auto
  then show ?case using r Cons.IH Cons.prems(3) by (metis list.set_intros(2))
qed simp

section \<open>Methods that mutate an object\<close>

type_synonym ('s, 'a) prog = "'s \<Rightarrow> 'a result \<times> 's"

definition returnP :: "'a \<Rightarrow> ('s, 'a) prog" where
  "returnP x s = (Inr x, s)"

definition raiseP :: "py_error \<Rightarrow> ('s, 'a) prog" where
  "raiseP e s = (Inl e, s)"

definition bindP :: "('s, 'a) prog \<Rightarrow> ('a \<Rightarrow> ('s, 'b) prog) \<Rightarrow> ('s, 'b) prog" where
  "bindP m f s = (case m s of (Inl e, t) \<Rightarrow> (Inl e, t) | (Inr x, t) \<Rightarrow> f x t)"

text \<open>\<open>readP\<close> is a computation that only reads the object, \<open>writeP\<close> an assignment to it.\<close>

definition readP :: "('s \<Rightarrow> 'a result) \<Rightarrow> ('s, 'a) prog" where
  "readP f s = (f s, s)"

definition writeP :: "('s \<Rightarrow> 's) \<Rightarrow> ('s, unit) prog" where
  "writeP f s = (Inr (), f s)"

lemma returnP_eq [simp]: "returnP x s = (r, t) \<longleftrightarrow> r = Inr x \<and> t = s"
  by (auto simp: returnP_def)

lemma raiseP_eq [simp]: "raiseP e s = (r, t) \<longleftrightarrow> r = Inl e \<and> t = s"
  by (auto simp: raiseP_def)

lemma readP_eq [simp]: "readP f s = (r, t) \<longleftrightarrow> r = f s \<and> t = s"
  by (auto simp: readP_def)

lemma writeP_eq [simp]: "writeP f s = (r, t) \<longleftrightarrow> r = Inr () \<and> t = f s"
  by (auto simp: writeP_def)

lemma bindP_Inr_iff [result_simps]:
  "bindP m f s = (Inr y, t) \<longleftrightarrow> (\<exists>x u. m s = (Inr x, u) \<and> f x u = (Inr y, t))"
  by (auto simp: bindP_def split: prod.splits sum.splits)

lemma bindP_readP [simp]:
  "bindP (readP g) f s = (case g s of Inl e \<Rightarrow> (Inl e, s) | Inr x \<Rightarrow> f x s)"
  by (simp add: bindP_def readP_def)

lemma bindP_writeP [simp]: "bindP (writeP g) f s = f () (g s)"
  by (simp add: bindP_def writeP_def)

lemma bindP_returnP [simp]: "bindP (returnP x) f s = f x s"
  by (simp add: bindP_def returnP_def)

lemma bindP_raiseP [simp]: "bindP (raiseP e) f s = (Inl e, s)"
  by (simp add: bindP_def raiseP_def)

section \<open>Strings, sequences and instants\<close>

text \<open>
  The characters \<open>str.strip\<close> removes: the ASCII white space, and the other white-space code points
  in their UTF-8 encoding.
\<close>

fun blank_codes :: "nat list \<Rightarrow> bool" where
  "blank_codes [] = True"
| "blank_codes (c # cs) =
     (if (9 \<le> c \<and> c \<le> 13) \<or> (28 \<le> c \<and> c \<le> 32) then blank_codes cs
      else if c = 194 then (case cs of d # ds \<Rightarrow> d \<in> {133, 160} \<and> blank_codes ds | [] \<Rightarrow> False)
      else if c \<in> {225, 226, 227} then
        (case cs of
           d # e # ds \<Rightarrow>
             ((c, d, e) \<in> {(225, 154, 128), (226, 128, 168), (226, 128, 169), (226, 128, 175),
                           (226, 129, 159), (227, 128, 128)}
              \<or> (c = 226 \<and> d = 128 \<and> 128 \<le> e \<and> e \<le> 138)) \<and> blank_codes ds
         | _ \<Rightarrow> False)
      else False)"

definition blank :: "string \<Rightarrow> bool" where
  "blank s = blank_codes (map of_char s)"

fun py_index :: "'a list \<Rightarrow> int \<Rightarrow> 'a result" where
  "py_index xs i =
     (if 0 \<le> i \<and> i < int (length xs) then Inr (xs ! nat i)
      else if - int (length xs) \<le> i \<and> i < 0 then Inr (xs ! nat (int (length xs) + i))
      else Inl (IndexError ''tuple index out of range''))"

text \<open>\<open>next((x for x in xs if p(x)), None)\<close> is \<open>List.find\<close>; the position of that element:\<close>

fun find_index :: "('a \<Rightarrow> bool) \<Rightarrow> 'a list \<Rightarrow> nat option" where
  "find_index p [] = None"
| "find_index p (x # xs) = (if p x then Some 0 else map_option Suc (find_index p xs))"

lemma find_index_Some_iff:
  "find_index p xs = Some i \<longleftrightarrow> i < length xs \<and> p (xs ! i) \<and> (\<forall>j < i. \<not> p (xs ! j))"
proof (induction xs arbitrary: i)
  case (Cons x xs)
  show ?case
  proof (cases i)
    case 0
    then show ?thesis by (auto simp: Cons.IH)
  next
    case (Suc k)
    have "(\<forall>j < Suc k. \<not> p ((x # xs) ! j)) \<longleftrightarrow> \<not> p x \<and> (\<forall>j < k. \<not> p (xs ! j))"
      by (auto simp: less_Suc_eq_0_disj)
    then show ?thesis using Suc by (auto simp: Cons.IH)
  qed
qed simp

lemma find_index_None_iff: "find_index p xs = None \<longleftrightarrow> (\<forall>x \<in> set xs. \<not> p x)"
  by (induction xs) auto

lemma distinct_map_sort_key [simp]: "distinct (map f (sort_key f xs)) = distinct (map f xs)"
  by (simp add: distinct_map)

text \<open>
  A \<open>datetime\<close> with \<open>tzinfo\<close> is the instant in microseconds since 1970-01-01T00:00Z: Python
  compares and subtracts aware values as instants.  A naive one holds its wall-clock reading.
\<close>

datatype datetime = Naive int | Aware int

fun dt_less :: "datetime \<Rightarrow> datetime \<Rightarrow> bool result" where
  "dt_less (Aware a) (Aware b) = Inr (a < b)"
| "dt_less (Naive a) (Naive b) = Inr (a < b)"
| "dt_less _ _ = Inl (TypeError ''can't compare offset-naive and offset-aware datetimes'')"

fun dt_minus :: "datetime \<Rightarrow> datetime \<Rightarrow> int result" where
  "dt_minus (Aware a) (Aware b) = Inr (a - b)"
| "dt_minus (Naive a) (Naive b) = Inr (a - b)"
| "dt_minus _ _ = Inl (TypeError ''can't subtract offset-naive and offset-aware datetimes'')"

fun dt_plus :: "datetime \<Rightarrow> int \<Rightarrow> datetime" where
  "dt_plus (Aware a) d = Aware (a + d)"
| "dt_plus (Naive a) d = Naive (a + d)"

fun is_aware :: "datetime \<Rightarrow> bool" where
  "is_aware (Aware _) = True"
| "is_aware (Naive _) = False"

text \<open>The instant, for the comparisons the code makes after both sides were found to be aware.\<close>

fun instant :: "datetime \<Rightarrow> int" where
  "instant (Aware a) = a"
| "instant (Naive a) = a"

section \<open>Dictionaries\<close>

text \<open>
  A Python \<open>dict\<close> whose order may matter is the list of its items in insertion order: assigning to
  a key that is present keeps its place, which is \<open>AList.update\<close>.  \<open>dict_of\<close> is a dict
  comprehension.
\<close>

definition dict_of :: "('k \<times> 'v) list \<Rightarrow> ('k \<times> 'v) list" where
  "dict_of kvs = fold (\<lambda>(k, v) d. AList.update k v d) kvs []"

text \<open>A subscript of a dict.\<close>

definition item :: "(string \<times> 'a) list \<Rightarrow> string \<Rightarrow> 'a result" where
  "item d k = (case map_of d k of Some v \<Rightarrow> Inr v | None \<Rightarrow> Inl (KeyError k))"

lemma dict_of_snoc [simp]: "dict_of (kvs @ [(k, v)]) = AList.update k v (dict_of kvs)"
  by (simp add: dict_of_def)

lemma map_of_dict_of: "map_of (dict_of kvs) = map_of (rev kvs)"
proof (induction kvs rule: rev_induct)
  case (snoc x kvs)
  then show ?case by (cases x) (simp add: update_conv')
qed (simp add: dict_of_def)

lemma keys_dict_of [simp]: "fst ` set (dict_of kvs) = fst ` set kvs"
  using arg_cong [OF map_of_dict_of, of dom kvs] by (simp add: dom_map_of_conv_image_fst)

lemma distinct_dict_of: "distinct (map fst (dict_of kvs))"
  by (induction kvs rule: rev_induct) (auto simp: dict_of_def distinct_update)

lemma map_of_distinct_rev: "distinct (map fst kvs) \<Longrightarrow> map_of (rev kvs) = map_of kvs"
  using map_of_inject_set [of "rev kvs" kvs] by (simp add: rev_map [symmetric])

end
