(* ===== verification/Sha256.thy ===== *)
theory Sha256 imports Prelude "HOL-Library.Word" begin

text \<open>
  \<open>hashlib.sha256(b).hexdigest()\<close> (FIPS 180-4), the one function of the standard library every
  identity of \<open>waje_vnext\<close> goes through.  It is defined in full on 32-bit words; the development
  uses only that it is a function of the bytes and that its result is 64 lowercase hex digits, so
  no proof assumes that digests are collision-free.
\<close>

unbundle bit_operations_syntax

type_synonym u32 = "32 word"

definition sha256_k :: "u32 list" where
  "sha256_k =
    [1116352408, 1899447441, 3049323471, 3921009573,  961987163, 1508970993, 2453635748,
     2870763221, 3624381080,  310598401,  607225278, 1426881987, 1925078388, 2162078206,
     2614888103, 3248222580, 3835390401, 4022224774,  264347078,  604807628,  770255983,
     1249150122, 1555081692, 1996064986, 2554220882, 2821834349, 2952996808, 3210313671,
     3336571891, 3584528711,  113926993,  338241895,  666307205,  773529912, 1294757372,
     1396182291, 1695183700, 1986661051, 2177026350, 2456956037, 2730485921, 2820302411,
     3259730800, 3345764771, 3516065817, 3600352804, 4094571909,  275423344,  430227734,
      506948616,  659060556,  883997877,  958139571, 1322822218, 1537002063, 1747873779,
     1955562222, 2024104815, 2227730452, 2361852424, 2428436474, 2756734187, 3204031479,
     3329325298]"

definition sha256_h0 :: "u32 list" where
  "sha256_h0 =
    [1779033703, 3144134277, 1013904242, 2773480762,
     1359893119, 2600822924,  528734635, 1541459225]"

definition rotr :: "nat \<Rightarrow> u32 \<Rightarrow> u32" where
  "rotr n x = (drop_bit n x) OR (push_bit (32 - n) x)"

text \<open>Padding: one bit, zeros up to 56 modulo 64, the bit length in eight big-endian bytes.\<close>

definition sha256_pad :: "nat list \<Rightarrow> nat list" where
  "sha256_pad bs =
     (let n = length bs; z = (119 - n mod 64) mod 64
      in bs @ [128] @ replicate z 0 @ map (\<lambda>i. (8 * n) div 256 ^ (7 - i) mod 256) [0..<8])"

fun sha256_words :: "nat list \<Rightarrow> u32 list" where
  "sha256_words (a # b # c # d # rest) =
     of_nat (((a * 256 + b) * 256 + c) * 256 + d) # sha256_words rest"
| "sha256_words _ = []"

text \<open>The message schedule, newest word first, from the sixteen words of a block to sixty-four.\<close>

primrec sha256_extend :: "nat \<Rightarrow> u32 list \<Rightarrow> u32 list" where
  "sha256_extend 0 ws = ws"
| "sha256_extend (Suc n) ws =
     (let w15 = ws ! 14; w2 = ws ! 1;
          s0 = rotr 7 w15 XOR rotr 18 w15 XOR drop_bit 3 w15;
          s1 = rotr 17 w2 XOR rotr 19 w2 XOR drop_bit 10 w2
      in sha256_extend n ((ws ! 15 + s0 + ws ! 6 + s1) # ws))"

fun sha256_round :: "u32 \<times> u32 \<Rightarrow> u32 list \<Rightarrow> u32 list" where
  "sha256_round (k, w) [a, b, c, d, e, f, g, h] =
     (let s1 = rotr 6 e XOR rotr 11 e XOR rotr 25 e;
          ch = (e AND f) XOR (NOT e AND g);
          t1 = h + s1 + ch + k + w;
          s0 = rotr 2 a XOR rotr 13 a XOR rotr 22 a;
          maj = (a AND b) XOR (a AND c) XOR (b AND c)
      in [t1 + s0 + maj, a, b, c, d + t1, e, f, g])"
| "sha256_round _ st = st"

definition sha256_block :: "u32 list \<Rightarrow> u32 list \<Rightarrow> u32 list" where
  "sha256_block h ws =
     map2 (+) h (fold sha256_round (zip sha256_k (rev (sha256_extend 48 (rev ws)))) h)"

fun sha256_blocks :: "nat \<Rightarrow> u32 list \<Rightarrow> u32 list \<Rightarrow> u32 list" where
  "sha256_blocks 0 ws h = h"
| "sha256_blocks (Suc n) ws h = sha256_blocks n (drop 16 ws) (sha256_block h (take 16 ws))"

definition sha256 :: "nat list \<Rightarrow> u32 list" where
  "sha256 bs = (let ws = sha256_words (sha256_pad bs)
                in sha256_blocks (length ws div 16) ws sha256_h0)"

definition hex_digit :: "nat \<Rightarrow> char" where
  "hex_digit n = ''0123456789abcdef'' ! (n mod 16)"

definition hex_word :: "u32 \<Rightarrow> string" where
  "hex_word w = map (\<lambda>i. hex_digit (unat w div 16 ^ (7 - i))) [0..<8]"

definition sha256_hex :: "string \<Rightarrow> string" where
  "sha256_hex s = concat (map hex_word (sha256 (map of_char s)))"

section \<open>The shape of a digest\<close>

lemma sha256_round_length [simp]: "length st = 8 \<Longrightarrow> length (sha256_round kw st) = 8"
  by (cases "(kw, st)" rule: sha256_round.cases) (auto simp: Let_def)

lemma sha256_rounds_length: "length st = 8 \<Longrightarrow> length (fold sha256_round kws st) = 8"
  by (induction kws arbitrary: st) auto

lemma sha256_block_length [simp]: "length h = 8 \<Longrightarrow> length (sha256_block h ws) = 8"
  by (simp add: sha256_block_def sha256_rounds_length)

lemma sha256_blocks_length: "length h = 8 \<Longrightarrow> length (sha256_blocks n ws h) = 8"
  by (induction n ws h rule: sha256_blocks.induct) auto

lemma sha256_length: "length (sha256 bs) = 8"
  by (simp add: sha256_def Let_def sha256_blocks_length sha256_h0_def)

definition hex_chars :: "char set" where
  "hex_chars = set ''0123456789abcdef''"

lemma hex_digit_in: "hex_digit n \<in> hex_chars"
  unfolding hex_digit_def hex_chars_def by (rule nth_mem) simp

lemma length_concat_const: "(\<forall>x \<in> set xs. length (f x) = k) \<Longrightarrow> length (concat (map f xs)) = k * length xs"
  by (induction xs) auto

lemma sha256_hex_shape: "length (sha256_hex s) = 64 \<and> set (sha256_hex s) \<subseteq> hex_chars"
proof
  show "length (sha256_hex s) = 64"
    by (simp add: sha256_hex_def length_concat_const [where k = 8] hex_word_def sha256_length)
  show "set (sha256_hex s) \<subseteq> hex_chars"
    by (auto simp: sha256_hex_def hex_word_def hex_digit_in)
qed

end
