(* ===== verification/Canonical.thy ===== *)
theory Canonical imports Sha256 begin

text \<open>
  \<open>domain/canonical.py\<close>: JSON values as Python holds them, \<open>freeze_json\<close>, the canonical text
  (\<open>to_jsonable\<close> followed by \<open>json.dumps\<close> with sorted keys and minimal separators) and the
  \<open>require_*\<close> guards of every constructor.

  A list (\<open>JList\<close>) and a tuple (\<open>JTuple\<close>) differ, as they do under Python's \<open>==\<close>.  A dict is
  the list of its items in insertion order, keys already under \<open>str\<close>; a finite float is its
  \<open>repr\<close>; \<open>JOpaque\<close> is any object JSON has no form for.
\<close>

datatype pyfloat = Finite string | NotFinite string

datatype json =
    JNull
  | JBool bool
  | JInt int
  | JFloat pyfloat
  | JStr string
  | JList "json list"
  | JTuple "json list"
  | JObj "(string \<times> json) list"
  | JOpaque string

section \<open>Freezing\<close>

definition seq_pairs :: "(string \<times> json result) list \<Rightarrow> (string \<times> json) list result" where
  "seq_pairs kvs = sequenceR (map (\<lambda>(k, r). bindR r (\<lambda>v. Inr (k, v))) kvs)"

fun freeze_json :: "json \<Rightarrow> json result" where
  "freeze_json (JFloat (NotFinite r)) = Inl (ValueError ''JSON numbers must be finite'')"
| "freeze_json (JList xs) = bindR (sequenceR (map freeze_json xs)) (\<lambda>ys. Inr (JTuple ys))"
| "freeze_json (JTuple xs) = bindR (sequenceR (map freeze_json xs)) (\<lambda>ys. Inr (JTuple ys))"
| "freeze_json (JObj kvs) =
     bindR (seq_pairs (sort_key fst (map (\<lambda>kv. (fst kv, freeze_json (snd kv))) kvs)))
       (\<lambda>ys. if distinct (map fst kvs) then Inr (JObj ys)
             else Inl (ValueError ''JSON object keys must remain unique when converted to strings''))"
| "freeze_json (JOpaque t) = Inl (TypeError (''value is not JSON-compatible: '' @ t))"
| "freeze_json v = Inr v"

fun is_object :: "json \<Rightarrow> bool" where
  "is_object (JObj _) = True"
| "is_object _ = False"

text \<open>\<open>_freeze_object\<close> of the record modules: a frozen value that has to be a JSON object.\<close>

definition freeze_object :: "json \<Rightarrow> string \<Rightarrow> json result" where
  "freeze_object v field_name =
     bindR (freeze_json v) (\<lambda>f.
       if is_object f then Inr f else Inl (TypeError (field_name @ '' must be a JSON object'')))"

text \<open>\<open>mapping.get(key)\<close> and \<open>mapping[key]\<close> of a frozen object.\<close>

fun obj_get :: "json \<Rightarrow> string \<Rightarrow> json option" where
  "obj_get (JObj kvs) k = map_of kvs k"
| "obj_get _ k = None"

text \<open>
  Python's \<open>==\<close> between two JSON values: objects compare as mappings and a bool is the integer it
  equals; a list never equals a tuple.  \<open>eq_form\<close> is the normal form two equal values share.
  A float is equal to a float with its \<open>repr\<close>: that Python identifies 0.0 with -0.0, and a float with
  the integer it equals, is not modelled.
\<close>

fun eq_form :: "json \<Rightarrow> json" where
  "eq_form (JBool b) = JInt (if b then 1 else 0)"
| "eq_form (JList xs) = JList (map eq_form xs)"
| "eq_form (JTuple xs) = JTuple (map eq_form xs)"
| "eq_form (JObj kvs) = JObj (sort_key fst (map (\<lambda>kv. (fst kv, eq_form (snd kv))) kvs))"
| "eq_form v = v"

definition py_eq :: "json \<Rightarrow> json \<Rightarrow> bool" where
  "py_eq a b \<longleftrightarrow> eq_form a = eq_form b"

section \<open>Canonical text\<close>

definition digits_of :: "nat \<Rightarrow> char" where
  "digits_of n = ''0123456789'' ! (n mod 10)"

fun show_nat :: "nat \<Rightarrow> string" where
  "show_nat n = (if n < 10 then [digits_of n] else show_nat (n div 10) @ [digits_of n])"

declare show_nat.simps [simp del]

definition show_int :: "int \<Rightarrow> string" where
  "show_int i = (if i < 0 then ''-'' @ show_nat (nat (- i)) else show_nat (nat i))"

text \<open>The escapes of \<open>json.dumps\<close> with \<open>ensure_ascii=False\<close>; other bytes stand for themselves.\<close>

definition escape_char :: "char \<Rightarrow> string" where
  "escape_char c =
     (let n = of_char c :: nat in
      if n = 34 then [char_of (92 :: nat), char_of (34 :: nat)]
      else if n = 92 then [char_of (92 :: nat), char_of (92 :: nat)]
      else if n = 10 then char_of (92 :: nat) # ''n''
      else if n = 13 then char_of (92 :: nat) # ''r''
      else if n = 9 then char_of (92 :: nat) # ''t''
      else if n = 12 then char_of (92 :: nat) # ''f''
      else if n = 8 then char_of (92 :: nat) # ''b''
      else if n < 32 then char_of (92 :: nat) # ''u00'' @ [hex_digit (n div 16), hex_digit n]
      else [c])"

definition quote :: "string \<Rightarrow> string" where
  "quote s = [char_of (34 :: nat)] @ concat (map escape_char s) @ [char_of (34 :: nat)]"

fun join_comma :: "string list \<Rightarrow> string" where
  "join_comma [] = ''''"
| "join_comma [s] = s"
| "join_comma (s # t # rest) = s @ '','' @ join_comma (t # rest)"

text \<open>A dict comprehension keeps the last value of a repeated key.\<close>

fun last_wins :: "(string \<times> 'a) list \<Rightarrow> (string \<times> 'a) list" where
  "last_wins [] = []"
| "last_wins ((k, v) # kvs) =
     (if k \<in> set (map fst kvs) then last_wins kvs else (k, v) # last_wins kvs)"

fun dumps :: "json \<Rightarrow> string" where
  "dumps JNull = ''null''"
| "dumps (JBool b) = (if b then ''true'' else ''false'')"
| "dumps (JInt i) = show_int i"
| "dumps (JFloat (Finite r)) = r"
| "dumps (JFloat (NotFinite r)) = r"
| "dumps (JStr s) = quote s"
| "dumps (JList xs) = ''['' @ join_comma (map dumps xs) @ '']''"
| "dumps (JTuple xs) = ''['' @ join_comma (map dumps xs) @ '']''"
| "dumps (JObj kvs) =
     ''{'' @ join_comma (map (\<lambda>(k, s). quote k @ '':'' @ s)
              (last_wins (sort_key fst (map (\<lambda>kv. (fst kv, dumps (snd kv))) kvs)))) @ ''}''"
| "dumps (JOpaque t) = t"

fun all_parts :: "(json \<Rightarrow> bool) \<Rightarrow> json \<Rightarrow> bool" where
  "all_parts p (JList xs) = list_all (all_parts p) xs"
| "all_parts p (JTuple xs) = list_all (all_parts p) xs"
| "all_parts p (JObj kvs) = list_all (\<lambda>kv. all_parts p (snd kv)) kvs"
| "all_parts p v = p v"

fun not_opaque :: "json \<Rightarrow> bool" where
  "not_opaque (JOpaque _) = False"
| "not_opaque _ = True"

fun finite_number :: "json \<Rightarrow> bool" where
  "finite_number (JFloat (NotFinite _)) = False"
| "finite_number _ = True"

text \<open>
  \<open>to_jsonable\<close> refuses an object without a JSON form before \<open>json.dumps\<close> with
  \<open>allow_nan=False\<close> refuses a number that is not finite.
\<close>

definition canonical_json_bytes :: "json \<Rightarrow> string result" where
  "canonical_json_bytes v =
     (if \<not> all_parts not_opaque v then Inl (TypeError ''cannot serialize value'')
      else if \<not> all_parts finite_number v
      then Inl (ValueError ''Out of range float values are not JSON compliant'')
      else Inr (dumps v))"

definition content_sha256 :: "json \<Rightarrow> string result" where
  "content_sha256 v = bindR (canonical_json_bytes v) (\<lambda>b. Inr (sha256_hex b))"

text \<open>The digest of a value that has a canonical text, as every validated record has.\<close>

definition digest :: "json \<Rightarrow> string" where
  "digest v = sha256_hex (dumps v)"

definition jsonable :: "json \<Rightarrow> bool" where
  "jsonable v \<longleftrightarrow> all_parts (\<lambda>x. not_opaque x \<and> finite_number x) v"

section \<open>Guards\<close>

definition is_sha256 :: "string \<Rightarrow> bool" where
  "is_sha256 v \<longleftrightarrow> length v = 64 \<and> set v \<subseteq> set ''0123456789abcdef''"

definition require_sha256 :: "string \<Rightarrow> string \<Rightarrow> unit result" where
  "require_sha256 v field_name =
     require (is_sha256 v) (ValueError (field_name @ '' must be a lowercase SHA-256 hex digest''))"

definition nonempty :: "string \<Rightarrow> bool" where
  "nonempty v \<longleftrightarrow> v \<noteq> '''' \<and> \<not> blank v"

definition require_nonempty :: "string \<Rightarrow> string \<Rightarrow> unit result" where
  "require_nonempty v field_name =
     require (nonempty v) (ValueError (field_name @ '' must be non-empty''))"

definition require_aware_datetime :: "datetime \<Rightarrow> string \<Rightarrow> unit result" where
  "require_aware_datetime v field_name =
     require (is_aware v) (ValueError (field_name @ '' must be timezone-aware''))"

text \<open>A guard on an optional field runs when the field is present.\<close>

fun when_some :: "'a option \<Rightarrow> ('a \<Rightarrow> unit result) \<Rightarrow> unit result" where
  "when_some None f = Inr ()"
| "when_some (Some x) f = f x"

lemma require_sha256_ok [simp, result_simps]: "require_sha256 v n = Inr u \<longleftrightarrow> is_sha256 v"
  by (simp add: require_sha256_def)

lemma require_nonempty_ok [simp, result_simps]: "require_nonempty v n = Inr u \<longleftrightarrow> nonempty v"
  by (simp add: require_nonempty_def)

lemma require_aware_ok [simp, result_simps]: "require_aware_datetime v n = Inr u \<longleftrightarrow> is_aware v"
  by (simp add: require_aware_datetime_def)

lemma when_some_ok: "when_some x f = Inr () \<longleftrightarrow> (\<forall>y. x = Some y \<longrightarrow> f y = Inr ())"
  by (cases x) auto

section \<open>Rendering of the optional and enumerated fields of records\<close>

fun opt_str :: "string option \<Rightarrow> json" where
  "opt_str None = JNull"
| "opt_str (Some s) = JStr s"

fun opt_int :: "int option \<Rightarrow> json" where
  "opt_int None = JNull"
| "opt_int (Some i) = JInt i"

abbreviation strs :: "string list \<Rightarrow> json" where
  "strs xs \<equiv> JTuple (map JStr xs)"

section \<open>Facts about digests and freezing\<close>

lemma digest_is_sha256 [simp]: "is_sha256 (digest v)"
  using sha256_hex_shape by (simp add: is_sha256_def digest_def hex_chars_def)

lemma all_parts_conj: "all_parts (\<lambda>x. p x \<and> q x) v \<longleftrightarrow> all_parts p v \<and> all_parts q v"
  by (induction p v rule: all_parts.induct) (auto simp: list_all_iff)

lemma content_sha256_jsonable: "jsonable v \<Longrightarrow> content_sha256 v = Inr (digest v)"
  by (simp add: jsonable_def all_parts_conj content_sha256_def canonical_json_bytes_def digest_def)

lemma content_sha256_Inr: "content_sha256 v = Inr d \<longleftrightarrow> jsonable v \<and> d = digest v"
  by (auto simp: jsonable_def all_parts_conj content_sha256_def canonical_json_bytes_def digest_def)

text \<open>Digests for the examples of the other theories.\<close>

definition ex_sha :: "char \<Rightarrow> string" where
  "ex_sha c = replicate 64 c"

lemma sha_nonempty: "is_sha256 v \<Longrightarrow> nonempty v"
  by (cases v) (auto simp: is_sha256_def nonempty_def blank_def)

lemma ex_sha_ok [simp]: "c \<in> set ''0123456789abcdef'' \<Longrightarrow> is_sha256 (ex_sha c)"
  by (simp add: is_sha256_def ex_sha_def)

lemma ex_sha_eq [simp]: "ex_sha c = ex_sha d \<longleftrightarrow> c = d"
  by (simp add: ex_sha_def)

end
