(* ===== verification/WorkflowTypes.thy ===== *)
theory WorkflowTypes imports Canonical begin

text \<open>
  The facts, projections and receipts of \<open>domain/workflow.py\<close>.  Each dataclass is a record (or a
  constructor of \<open>WorkflowFact\<close>), each \<open>__post_init__\<close> a \<open>check_\<dots>\<close> that runs its guards in
  order; \<open>isinstance\<close> guards are discharged by the types.  \<open>\<dots>_json\<close> is the value
  \<open>to_jsonable\<close> builds of a record, which its digests are taken of.
\<close>

section \<open>The four axes\<close>

datatype ExecutionState = ExPending | ExRunning | ExSucceeded | ExFailed | ExSuperseded
datatype ObligationState = ObOpen | ObSatisfied | ObBoundary | ObBlocked | ObSuperseded
datatype PublicationState = PubNotReady | PubProvisional | PubSettled | PubBlocked
datatype DeliveryState = NotDelivered | Delivered | DeliverySuperseded

fun execution_value :: "ExecutionState \<Rightarrow> string" where
  "execution_value ExPending = ''pending''"
| "execution_value ExRunning = ''running''"
| "execution_value ExSucceeded = ''succeeded''"
| "execution_value ExFailed = ''failed''"
| "execution_value ExSuperseded = ''superseded''"

fun obligation_value :: "ObligationState \<Rightarrow> string" where
  "obligation_value ObOpen = ''open''"
| "obligation_value ObSatisfied = ''satisfied''"
| "obligation_value ObBoundary = ''boundary''"
| "obligation_value ObBlocked = ''blocked''"
| "obligation_value ObSuperseded = ''superseded''"

fun publication_value :: "PublicationState \<Rightarrow> string" where
  "publication_value PubNotReady = ''not_ready''"
| "publication_value PubProvisional = ''provisional''"
| "publication_value PubSettled = ''settled''"
| "publication_value PubBlocked = ''blocked''"

fun delivery_value :: "DeliveryState \<Rightarrow> string" where
  "delivery_value NotDelivered = ''not_delivered''"
| "delivery_value Delivered = ''delivered''"
| "delivery_value DeliverySuperseded = ''superseded''"

text \<open>\<open>ExecutionRealm\<close> of \<open>domain/planning.py\<close>, \<open>EvidenceAdmissionProfile\<close> of \<open>domain/evidence.py\<close>.\<close>

datatype ExecutionRealm = RealmConformance
datatype EvidenceAdmissionProfile = ProfileConformance | ProfileProduction

fun realm_value :: "ExecutionRealm \<Rightarrow> string" where
  "realm_value RealmConformance = ''conformance''"

fun profile_value :: "EvidenceAdmissionProfile \<Rightarrow> string" where
  "profile_value ProfileConformance = ''conformance''"
| "profile_value ProfileProduction = ''production''"

section \<open>Facts\<close>

record FactHeader =
  fact_case_id :: string
  fact_cursor :: int
  fact_source_event_id :: string
  fact_source_event_sha256 :: string

record WorkflowTaskDefinition =
  td_task_id :: string
  td_business_label :: string

record WorkflowObligationDefinition =
  od_obligation_id :: string
  od_task_id :: string
  od_business_label :: string

record PlanAccepted =
  pa_question_revision_id :: string
  pa_question_content_sha256 :: string
  pa_frame_revision_id :: string
  pa_frame_content_sha256 :: string
  pa_plan_revision_id :: string
  pa_prior_plan_revision_id :: "string option"
  pa_plan_content_sha256 :: string
  pa_plan_adoption_id :: string
  pa_plan_adoption_sha256 :: string
  pa_tasks :: "WorkflowTaskDefinition list"
  pa_obligations :: "WorkflowObligationDefinition list"

record AuthoritySuperseded =
  as_superseded_plan_revision_id :: string
  as_superseded_plan_content_sha256 :: string
  as_superseded_plan_adoption_id :: string
  as_superseded_plan_adoption_sha256 :: string
  as_superseding_authority_revision_id :: string
  as_superseding_authority_content_sha256 :: string

record TaskExecutionUpdate =
  tu_task_id :: string
  tu_state :: ExecutionState

datatype WorkflowFact =
    PlanAcceptedFact FactHeader PlanAccepted
  | AuthoritySupersededFact FactHeader AuthoritySuperseded
  | TaskExecutionFact FactHeader string string ExecutionState
  | TaskExecutionBatchFact FactHeader string "TaskExecutionUpdate list"
  | ObligationDispositionFact FactHeader string string ObligationState
  | PublicationDispositionFact FactHeader PublicationState "string option"
  | DeliveryDispositionFact FactHeader DeliveryState
  | WorkflowNoChangeFact FactHeader

fun header :: "WorkflowFact \<Rightarrow> FactHeader" where
  "header (PlanAcceptedFact h _) = h"
| "header (AuthoritySupersededFact h _) = h"
| "header (TaskExecutionFact h _ _ _) = h"
| "header (TaskExecutionBatchFact h _ _) = h"
| "header (ObligationDispositionFact h _ _ _) = h"
| "header (PublicationDispositionFact h _ _) = h"
| "header (DeliveryDispositionFact h _) = h"
| "header (WorkflowNoChangeFact h) = h"

abbreviation case_of :: "WorkflowFact \<Rightarrow> string" where
  "case_of f \<equiv> fact_case_id (header f)"
abbreviation cursor_of :: "WorkflowFact \<Rightarrow> int" where
  "cursor_of f \<equiv> fact_cursor (header f)"
abbreviation event_of :: "WorkflowFact \<Rightarrow> string" where
  "event_of f \<equiv> fact_source_event_id (header f)"
abbreviation event_sha_of :: "WorkflowFact \<Rightarrow> string" where
  "event_sha_of f \<equiv> fact_source_event_sha256 (header f)"

definition validate_fact_header :: "FactHeader \<Rightarrow> unit result" where
  "validate_fact_header h = checks [
     require_nonempty (fact_case_id h) ''case_id'',
     require_nonempty (fact_source_event_id h) ''source_event_id'',
     require_sha256 (fact_source_event_sha256 h) ''source_event_sha256'',
     require (\<not> fact_cursor h < 1) (ValueError ''workflow fact cursor must be positive'')]"

definition check_task_definition :: "WorkflowTaskDefinition \<Rightarrow> unit result" where
  "check_task_definition t = checks [
     require_nonempty (td_task_id t) ''task_id'',
     require_nonempty (td_business_label t) ''business_label'']"

definition check_obligation_definition :: "WorkflowObligationDefinition \<Rightarrow> unit result" where
  "check_obligation_definition t = checks [
     require_nonempty (od_obligation_id t) ''obligation_id'',
     require_nonempty (od_task_id t) ''task_id'',
     require_nonempty (od_business_label t) ''business_label'']"

text \<open>The members were constructed before the fact that holds them, so their guards come first.\<close>

definition check_plan_accepted :: "FactHeader \<Rightarrow> PlanAccepted \<Rightarrow> unit result" where
  "check_plan_accepted h p = checks (
     map check_task_definition (pa_tasks p) @
     map check_obligation_definition (pa_obligations p) @ [
     validate_fact_header h,
     require_nonempty (pa_question_revision_id p) ''question_revision_id'',
     require_nonempty (pa_frame_revision_id p) ''frame_revision_id'',
     require_nonempty (pa_plan_revision_id p) ''plan_revision_id'',
     require_sha256 (pa_question_content_sha256 p) ''question_content_sha256'',
     require_sha256 (pa_frame_content_sha256 p) ''frame_content_sha256'',
     require_sha256 (pa_plan_content_sha256 p) ''plan_content_sha256'',
     require_sha256 (pa_plan_adoption_id p) ''plan_adoption_id'',
     require_sha256 (pa_plan_adoption_sha256 p) ''plan_adoption_sha256'',
     when_some (pa_prior_plan_revision_id p) (\<lambda>x. require_nonempty x ''prior_plan_revision_id''),
     require (pa_tasks p \<noteq> []) (ValueError ''accepted plan requires at least one task''),
     require (distinct (map td_task_id (pa_tasks p))) (ValueError ''plan task IDs must be unique''),
     require (distinct (map od_obligation_id (pa_obligations p)))
       (ValueError ''plan obligation IDs must be unique''),
     require (set (map od_task_id (pa_obligations p)) \<subseteq> set (map td_task_id (pa_tasks p)))
       (ValueError ''every obligation must bind a plan task'')])"

definition check_authority_superseded :: "FactHeader \<Rightarrow> AuthoritySuperseded \<Rightarrow> unit result" where
  "check_authority_superseded h a = checks [
     validate_fact_header h,
     require_nonempty (as_superseded_plan_revision_id a) ''superseded_plan_revision_id'',
     require_nonempty (as_superseding_authority_revision_id a) ''superseding_authority_revision_id'',
     require_sha256 (as_superseded_plan_content_sha256 a) ''superseded_plan_content_sha256'',
     require_sha256 (as_superseded_plan_adoption_id a) ''superseded_plan_adoption_id'',
     require_sha256 (as_superseded_plan_adoption_sha256 a) ''superseded_plan_adoption_sha256'',
     require_sha256 (as_superseding_authority_content_sha256 a)
       ''superseding_authority_content_sha256'']"

definition check_task_execution :: "FactHeader \<Rightarrow> string \<Rightarrow> string \<Rightarrow> unit result" where
  "check_task_execution h plan task = checks [
     validate_fact_header h,
     require_nonempty plan ''plan_revision_id'',
     require_nonempty task ''task_id'']"

definition check_task_batch :: "FactHeader \<Rightarrow> string \<Rightarrow> TaskExecutionUpdate list \<Rightarrow> unit result" where
  "check_task_batch h plan us = checks (
     map (\<lambda>u. require_nonempty (tu_task_id u) ''task_id'') us @ [
     validate_fact_header h,
     require_nonempty plan ''plan_revision_id'',
     require (us \<noteq> []) (ValueError ''task execution batch requires updates''),
     require (distinct (map tu_task_id us))
       (ValueError ''task execution batch task IDs must be unique'')])"

definition check_obligation_fact :: "FactHeader \<Rightarrow> string \<Rightarrow> string \<Rightarrow> unit result" where
  "check_obligation_fact h plan ob = checks [
     validate_fact_header h,
     require_nonempty plan ''plan_revision_id'',
     require_nonempty ob ''obligation_id'']"

definition check_publication_fact ::
    "FactHeader \<Rightarrow> PublicationState \<Rightarrow> string option \<Rightarrow> unit result" where
  "check_publication_fact h st ans = checks [
     validate_fact_header h,
     when_some ans (\<lambda>x. require_nonempty x ''answer_version_id''),
     require (\<not> (st = PubProvisional \<and> ans = None))
       (ValueError ''provisional publication requires answer_version_id''),
     require (\<not> (st \<noteq> PubProvisional \<and> ans \<noteq> None))
       (ValueError ''only provisional publication may bind an answer version'')]"

fun check_fact :: "WorkflowFact \<Rightarrow> unit result" where
  "check_fact (PlanAcceptedFact h p) = check_plan_accepted h p"
| "check_fact (AuthoritySupersededFact h a) = check_authority_superseded h a"
| "check_fact (TaskExecutionFact h plan task st) = check_task_execution h plan task"
| "check_fact (TaskExecutionBatchFact h plan us) = check_task_batch h plan us"
| "check_fact (ObligationDispositionFact h plan ob st) = check_obligation_fact h plan ob"
| "check_fact (PublicationDispositionFact h st ans) = check_publication_fact h st ans"
| "check_fact (DeliveryDispositionFact h st) = validate_fact_header h"
| "check_fact (WorkflowNoChangeFact h) = validate_fact_header h"

text \<open>A fact that a program can hold: its constructor returned.\<close>

definition valid_fact :: "WorkflowFact \<Rightarrow> bool" where
  "valid_fact f \<longleftrightarrow> check_fact f = Inr ()"

lemma valid_fact_header: "valid_fact f \<Longrightarrow> validate_fact_header (header f) = Inr ()"
  by (cases f) (simp_all add: valid_fact_def check_plan_accepted_def check_authority_superseded_def
    check_task_execution_def check_task_batch_def check_obligation_fact_def
    check_publication_fact_def result_simps)

lemma valid_fact_cursor: "valid_fact f \<Longrightarrow> 1 \<le> cursor_of f"
  by (drule valid_fact_header) (simp add: validate_fact_header_def)

section \<open>Projections\<close>

record WorkflowTaskProjection =
  tp_case_id :: string
  tp_plan_revision_id :: string
  tp_task_id :: string
  tp_business_label :: string
  tp_execution_state :: ExecutionState

record WorkflowObligationProjection =
  op_case_id :: string
  op_plan_revision_id :: string
  op_obligation_id :: string
  op_task_id :: string
  op_business_label :: string
  op_obligation_state :: ObligationState

record WorkflowCaseProjection =
  cp_case_id :: string
  cp_active_plan_revision_id :: "string option"
  cp_publication_state :: PublicationState
  cp_accepted_answer_version_id :: "string option"
  cp_delivery_state :: DeliveryState

definition check_task_projection :: "WorkflowTaskProjection \<Rightarrow> unit result" where
  "check_task_projection t = checks [
     require_nonempty (tp_case_id t) ''case_id'',
     require_nonempty (tp_plan_revision_id t) ''plan_revision_id'',
     require_nonempty (tp_task_id t) ''task_id'',
     require_nonempty (tp_business_label t) ''business_label'']"

definition check_obligation_projection :: "WorkflowObligationProjection \<Rightarrow> unit result" where
  "check_obligation_projection t = checks [
     require_nonempty (op_case_id t) ''case_id'',
     require_nonempty (op_plan_revision_id t) ''plan_revision_id'',
     require_nonempty (op_obligation_id t) ''obligation_id'',
     require_nonempty (op_task_id t) ''task_id'',
     require_nonempty (op_business_label t) ''business_label'']"

definition check_case_projection :: "WorkflowCaseProjection \<Rightarrow> unit result" where
  "check_case_projection c = checks [
     require_nonempty (cp_case_id c) ''case_id'',
     when_some (cp_active_plan_revision_id c) (\<lambda>x. require_nonempty x ''active_plan_revision_id''),
     require (cp_publication_state c \<noteq> PubSettled)
       (WorkflowTransitionRejected ''Gate 3 cannot project settled publication''),
     require (cp_delivery_state c \<noteq> Delivered)
       (WorkflowTransitionRejected ''Gate 3 cannot project delivered cases''),
     when_some (cp_accepted_answer_version_id c)
       (\<lambda>x. require_nonempty x ''accepted_answer_version_id''),
     require ((cp_publication_state c = PubProvisional) = (cp_accepted_answer_version_id c \<noteq> None))
       (ValueError ''only provisional publication binds an answer version'')]"

end
