(* ===== verification/WorkflowReducer.thy ===== *)
theory WorkflowReducer imports WorkflowTypes begin

text \<open>
  \<open>WorkflowSnapshot\<close> of \<open>domain/workflow.py\<close>, its digest and identity, and the reducer
  \<open>_reduce_snapshot\<close> with one function per fact variant.  \<open>dataclasses.replace\<close> runs the
  constructor again, so every update goes through \<open>construct\<close>.
\<close>

section \<open>The snapshot\<close>

definition workflow_schema_version :: string where
  "workflow_schema_version = ''gate3-workflow.v2''"

definition workflow_policy_version :: string where
  "workflow_policy_version = ''workflow-projection.g3.5.v1''"

definition workflow_policy_sha256 :: string where
  "workflow_policy_sha256 = digest (JObj [
     (''version'', JStr workflow_policy_version),
     (''schema_version'', JStr workflow_schema_version),
     (''axes'', strs [''execution'', ''obligation'', ''publication'', ''delivery'']),
     (''facts'', strs [''PlanAcceptedFact'', ''AuthoritySupersededFact'', ''TaskExecutionFact'',
        ''TaskExecutionBatchFact'', ''ObligationDispositionFact'', ''PublicationDispositionFact'',
        ''DeliveryDispositionFact'', ''WorkflowNoChangeFact'']),
     (''rules'', JObj [
        (''authority_supersession_clears_active_plan'', JBool True),
        (''authority_supersession_preserves_history'', JBool True),
        (''late_superseded_plan_facts_are_audit_only'', JBool True),
        (''gate3_settled_publication_allowed'', JBool False),
        (''gate3_delivery_allowed'', JBool False)])])"

record WorkflowSnapshot =
  ws_case :: WorkflowCaseProjection
  ws_tasks :: "WorkflowTaskProjection list"
  ws_obligations :: "WorkflowObligationProjection list"
  ws_applied_cursor :: int
  ws_realm :: ExecutionRealm
  ws_evidence_profile :: EvidenceAdmissionProfile
  ws_plan_revision_id :: "string option"
  ws_question_revision_id :: "string option"
  ws_question_content_sha256 :: "string option"
  ws_frame_revision_id :: "string option"
  ws_frame_content_sha256 :: "string option"
  ws_plan_content_sha256 :: "string option"
  ws_plan_adoption_id :: "string option"
  ws_plan_adoption_sha256 :: "string option"
  ws_schema_version :: string
  ws_policy_version :: string
  ws_policy_sha256 :: string

abbreviation active_plan :: "WorkflowSnapshot \<Rightarrow> string option" where
  "active_plan s \<equiv> cp_active_plan_revision_id (ws_case s)"

definition task_key :: "WorkflowTaskProjection \<Rightarrow> string \<times> string" where
  "task_key t = (tp_plan_revision_id t, tp_task_id t)"

definition obligation_key :: "WorkflowObligationProjection \<Rightarrow> string \<times> string" where
  "obligation_key t = (op_plan_revision_id t, op_obligation_id t)"

definition accepted_plan_values :: "WorkflowSnapshot \<Rightarrow> string option list" where
  "accepted_plan_values s =
    [ws_question_revision_id s, ws_question_content_sha256 s, ws_frame_revision_id s,
     ws_frame_content_sha256 s, ws_plan_revision_id s, ws_plan_content_sha256 s,
     ws_plan_adoption_id s, ws_plan_adoption_sha256 s]"

definition check_snapshot :: "WorkflowSnapshot \<Rightarrow> unit result" where
  "check_snapshot s =
    (let task_keys = map task_key (ws_tasks s);
         obligation_keys = map obligation_key (ws_obligations s);
         vs = accepted_plan_values s in
     checks [
       require (\<not> ws_applied_cursor s < 0) (ValueError ''applied_cursor must be non-negative''),
       require (ws_schema_version s = workflow_schema_version)
         (ValueError ''workflow snapshot schema version is stale''),
       require (ws_policy_version s = workflow_policy_version \<and>
                ws_policy_sha256 s = workflow_policy_sha256)
         (ValueError ''workflow projection policy is stale''),
       require (list_ex (\<lambda>v. v = None) vs = list_all (\<lambda>v. v = None) vs)
         (ValueError ''accepted Plan identity must be entirely present or absent''),
       when_some (ws_plan_revision_id s) (\<lambda>_. checks [
         when_some (ws_question_revision_id s)
           (\<lambda>v. require_nonempty v ''accepted_question_revision_id''),
         when_some (ws_frame_revision_id s) (\<lambda>v. require_nonempty v ''accepted_frame_revision_id''),
         when_some (ws_plan_revision_id s) (\<lambda>v. require_nonempty v ''accepted_plan_revision_id''),
         when_some (ws_question_content_sha256 s)
           (\<lambda>v. require_sha256 v ''accepted_question_content_sha256''),
         when_some (ws_frame_content_sha256 s)
           (\<lambda>v. require_sha256 v ''accepted_frame_content_sha256''),
         when_some (ws_plan_content_sha256 s)
           (\<lambda>v. require_sha256 v ''accepted_plan_content_sha256''),
         when_some (ws_plan_adoption_id s) (\<lambda>v. require_sha256 v ''accepted_plan_adoption_id''),
         when_some (ws_plan_adoption_sha256 s)
           (\<lambda>v. require_sha256 v ''accepted_plan_adoption_sha256'')]),
       require (\<not> (active_plan s \<noteq> None \<and> active_plan s \<noteq> ws_plan_revision_id s))
         (ValueError ''active Plan must equal the latest accepted Plan''),
       require (task_keys = sort task_keys) (ValueError ''workflow tasks must use canonical order''),
       require (obligation_keys = sort obligation_keys)
         (ValueError ''workflow obligations must use canonical order''),
       require (distinct task_keys) (ValueError ''workflow task projection keys must be unique''),
       require (distinct obligation_keys)
         (ValueError ''workflow obligation projection keys must be unique''),
       require (\<forall>t \<in> set (ws_tasks s). tp_case_id t = cp_case_id (ws_case s))
         (ValueError ''workflow task belongs to another case''),
       require (\<forall>t \<in> set (ws_obligations s). op_case_id t = cp_case_id (ws_case s))
         (ValueError ''workflow obligation belongs to another case'')])"

definition task_projection_json :: "WorkflowTaskProjection \<Rightarrow> json" where
  "task_projection_json t = JObj [
     (''case_id'', JStr (tp_case_id t)), (''plan_revision_id'', JStr (tp_plan_revision_id t)),
     (''task_id'', JStr (tp_task_id t)), (''business_label'', JStr (tp_business_label t)),
     (''execution_state'', JStr (execution_value (tp_execution_state t)))]"

definition obligation_projection_json :: "WorkflowObligationProjection \<Rightarrow> json" where
  "obligation_projection_json t = JObj [
     (''case_id'', JStr (op_case_id t)), (''plan_revision_id'', JStr (op_plan_revision_id t)),
     (''obligation_id'', JStr (op_obligation_id t)), (''task_id'', JStr (op_task_id t)),
     (''business_label'', JStr (op_business_label t)),
     (''obligation_state'', JStr (obligation_value (op_obligation_state t)))]"

definition case_projection_json :: "WorkflowCaseProjection \<Rightarrow> json" where
  "case_projection_json c = JObj [
     (''case_id'', JStr (cp_case_id c)),
     (''active_plan_revision_id'', opt_str (cp_active_plan_revision_id c)),
     (''publication_state'', JStr (publication_value (cp_publication_state c))),
     (''accepted_answer_version_id'', opt_str (cp_accepted_answer_version_id c)),
     (''delivery_state'', JStr (delivery_value (cp_delivery_state c)))]"

definition snapshot_json :: "WorkflowSnapshot \<Rightarrow> json" where
  "snapshot_json s = JObj [
     (''case'', case_projection_json (ws_case s)),
     (''tasks'', JTuple (map task_projection_json (ws_tasks s))),
     (''obligations'', JTuple (map obligation_projection_json (ws_obligations s))),
     (''applied_cursor'', JInt (ws_applied_cursor s)),
     (''realm'', JStr (realm_value (ws_realm s))),
     (''evidence_profile'', JStr (profile_value (ws_evidence_profile s))),
     (''accepted_plan_revision_id'', opt_str (ws_plan_revision_id s)),
     (''accepted_question_revision_id'', opt_str (ws_question_revision_id s)),
     (''accepted_question_content_sha256'', opt_str (ws_question_content_sha256 s)),
     (''accepted_frame_revision_id'', opt_str (ws_frame_revision_id s)),
     (''accepted_frame_content_sha256'', opt_str (ws_frame_content_sha256 s)),
     (''accepted_plan_content_sha256'', opt_str (ws_plan_content_sha256 s)),
     (''accepted_plan_adoption_id'', opt_str (ws_plan_adoption_id s)),
     (''accepted_plan_adoption_sha256'', opt_str (ws_plan_adoption_sha256 s)),
     (''schema_version'', JStr (ws_schema_version s)),
     (''projection_policy_version'', JStr (ws_policy_version s)),
     (''projection_policy_sha256'', JStr (ws_policy_sha256 s))]"

definition snapshot_sha256 :: "WorkflowSnapshot \<Rightarrow> string" where
  "snapshot_sha256 s = digest (snapshot_json s)"

definition snapshot_id :: "WorkflowSnapshot \<Rightarrow> string" where
  "snapshot_id s = digest (JObj [
     (''kind'', JStr ''workflow-snapshot.v1''),
     (''case_id'', JStr (cp_case_id (ws_case s))),
     (''applied_cursor'', JInt (ws_applied_cursor s)),
     (''content_sha256'', JStr (snapshot_sha256 s))])"

definition initial_snapshot ::
    "string \<Rightarrow> ExecutionRealm \<Rightarrow> EvidenceAdmissionProfile \<Rightarrow> WorkflowSnapshot result" where
  "initial_snapshot cid realm profile =
     bindR (construct check_case_projection
       \<lparr>cp_case_id = cid, cp_active_plan_revision_id = None, cp_publication_state = PubNotReady,
        cp_accepted_answer_version_id = None, cp_delivery_state = NotDelivered\<rparr>) (\<lambda>c.
     construct check_snapshot
       \<lparr>ws_case = c, ws_tasks = [], ws_obligations = [], ws_applied_cursor = 0,
        ws_realm = realm, ws_evidence_profile = profile,
        ws_plan_revision_id = None, ws_question_revision_id = None,
        ws_question_content_sha256 = None, ws_frame_revision_id = None,
        ws_frame_content_sha256 = None, ws_plan_content_sha256 = None,
        ws_plan_adoption_id = None, ws_plan_adoption_sha256 = None,
        ws_schema_version = workflow_schema_version, ws_policy_version = workflow_policy_version,
        ws_policy_sha256 = workflow_policy_sha256\<rparr>)"

section \<open>The reducer\<close>

fun task_transition_allowed :: "ExecutionState \<Rightarrow> ExecutionState \<Rightarrow> bool" where
  "task_transition_allowed current proposed =
     (if current = ExSuperseded then proposed = ExSuperseded
      else if proposed = ExSuperseded \<or> proposed = current then True
      else proposed \<in> (case current of
          ExPending \<Rightarrow> {ExRunning, ExSucceeded, ExFailed}
        | ExRunning \<Rightarrow> {ExSucceeded, ExFailed}
        | ExFailed \<Rightarrow> {ExRunning}
        | _ \<Rightarrow> {}))"

definition require_active_plan :: "WorkflowSnapshot \<Rightarrow> string \<Rightarrow> unit result" where
  "require_active_plan s plan =
     require (active_plan s = Some plan)
       (WorkflowTransitionRejected ''workflow fact does not target the active plan'')"

definition find_task :: "WorkflowSnapshot \<Rightarrow> string \<Rightarrow> string \<Rightarrow> nat result" where
  "find_task s plan task =
     (case find_index (\<lambda>t. tp_plan_revision_id t = plan \<and> tp_task_id t = task) (ws_tasks s) of
        Some i \<Rightarrow> Inr i
      | None \<Rightarrow> Inl (WorkflowTransitionRejected ''workflow task does not exist''))"

definition find_obligation :: "WorkflowSnapshot \<Rightarrow> string \<Rightarrow> string \<Rightarrow> nat result" where
  "find_obligation s plan ob =
     (case find_index (\<lambda>t. op_plan_revision_id t = plan \<and> op_obligation_id t = ob)
             (ws_obligations s) of
        Some i \<Rightarrow> Inr i
      | None \<Rightarrow> Inl (WorkflowTransitionRejected ''workflow obligation does not exist''))"

text \<open>\<open>replace(item, \<dots>=SUPERSEDED) if item.plan_revision_id == plan else item\<close>\<close>

definition supersede_task ::
    "string option \<Rightarrow> WorkflowTaskProjection \<Rightarrow> WorkflowTaskProjection result" where
  "supersede_task plan t =
     (if Some (tp_plan_revision_id t) = plan
      then construct check_task_projection (t\<lparr>tp_execution_state := ExSuperseded\<rparr>) else Inr t)"

definition supersede_obligation ::
    "string option \<Rightarrow> WorkflowObligationProjection \<Rightarrow> WorkflowObligationProjection result" where
  "supersede_obligation plan t =
     (if Some (op_plan_revision_id t) = plan
      then construct check_obligation_projection (t\<lparr>op_obligation_state := ObSuperseded\<rparr>)
      else Inr t)"

definition same_measurement_authority :: "WorkflowSnapshot \<Rightarrow> PlanAccepted \<Rightarrow> bool" where
  "same_measurement_authority s p \<longleftrightarrow>
     Some (pa_question_revision_id p) = ws_question_revision_id s \<and>
     Some (pa_question_content_sha256 p) = ws_question_content_sha256 s \<and>
     Some (pa_frame_revision_id p) = ws_frame_revision_id s \<and>
     Some (pa_frame_content_sha256 p) = ws_frame_content_sha256 s"

definition expected_prior_plan :: "WorkflowSnapshot \<Rightarrow> PlanAccepted \<Rightarrow> string option" where
  "expected_prior_plan s p =
     (if active_plan s = None \<and> same_measurement_authority s p
      then ws_plan_revision_id s else active_plan s)"

definition accepted_task ::
    "FactHeader \<Rightarrow> PlanAccepted \<Rightarrow> WorkflowTaskDefinition \<Rightarrow> WorkflowTaskProjection" where
  "accepted_task h p d =
     \<lparr>tp_case_id = fact_case_id h, tp_plan_revision_id = pa_plan_revision_id p,
      tp_task_id = td_task_id d, tp_business_label = td_business_label d,
      tp_execution_state = ExPending\<rparr>"

definition accepted_obligation ::
    "FactHeader \<Rightarrow> PlanAccepted \<Rightarrow> WorkflowObligationDefinition \<Rightarrow> WorkflowObligationProjection" where
  "accepted_obligation h p d =
     \<lparr>op_case_id = fact_case_id h, op_plan_revision_id = pa_plan_revision_id p,
      op_obligation_id = od_obligation_id d, op_task_id = od_task_id d,
      op_business_label = od_business_label d, op_obligation_state = ObOpen\<rparr>"

definition accepted_snapshot ::
    "WorkflowSnapshot \<Rightarrow> PlanAccepted \<Rightarrow> WorkflowCaseProjection \<Rightarrow>
     WorkflowTaskProjection list \<Rightarrow> WorkflowObligationProjection list \<Rightarrow> WorkflowSnapshot" where
  "accepted_snapshot s p c ts obs =
     \<lparr>ws_case = c, ws_tasks = sort_key task_key ts, ws_obligations = sort_key obligation_key obs,
      ws_applied_cursor = ws_applied_cursor s, ws_realm = ws_realm s,
      ws_evidence_profile = ws_evidence_profile s,
      ws_plan_revision_id = Some (pa_plan_revision_id p),
      ws_question_revision_id = Some (pa_question_revision_id p),
      ws_question_content_sha256 = Some (pa_question_content_sha256 p),
      ws_frame_revision_id = Some (pa_frame_revision_id p),
      ws_frame_content_sha256 = Some (pa_frame_content_sha256 p),
      ws_plan_content_sha256 = Some (pa_plan_content_sha256 p),
      ws_plan_adoption_id = Some (pa_plan_adoption_id p),
      ws_plan_adoption_sha256 = Some (pa_plan_adoption_sha256 p),
      ws_schema_version = workflow_schema_version, ws_policy_version = workflow_policy_version,
      ws_policy_sha256 = workflow_policy_sha256\<rparr>"

definition accept_plan ::
    "WorkflowSnapshot \<Rightarrow> FactHeader \<Rightarrow> PlanAccepted \<Rightarrow> WorkflowSnapshot result" where
  "accept_plan s h p =
     (if pa_prior_plan_revision_id p \<noteq> expected_prior_plan s p
      then Inl (WorkflowTransitionRejected ''accepted plan does not extend its measurement authority'')
      else if \<exists>t \<in> set (ws_tasks s). tp_plan_revision_id t = pa_plan_revision_id p
      then Inl (WorkflowFactConflict ''plan revision already has workflow projections'')
      else
        bindR (sequenceR (map (supersede_task (active_plan s)) (ws_tasks s))) (\<lambda>old_tasks.
        bindR (sequenceR (map (supersede_obligation (active_plan s)) (ws_obligations s)))
          (\<lambda>old_obligations.
        bindR (sequenceR (map (\<lambda>d. construct check_task_projection (accepted_task h p d))
                 (pa_tasks p))) (\<lambda>new_tasks.
        bindR (sequenceR (map (\<lambda>d. construct check_obligation_projection (accepted_obligation h p d))
                 (pa_obligations p))) (\<lambda>new_obligations.
        bindR (construct check_case_projection
          \<lparr>cp_case_id = fact_case_id h, cp_active_plan_revision_id = Some (pa_plan_revision_id p),
           cp_publication_state = PubNotReady, cp_accepted_answer_version_id = None,
           cp_delivery_state = NotDelivered\<rparr>) (\<lambda>c.
        construct check_snapshot
          (accepted_snapshot s p c (old_tasks @ new_tasks) (old_obligations @ new_obligations))))))))"

definition supersede_authority ::
    "WorkflowSnapshot \<Rightarrow> AuthoritySuperseded \<Rightarrow> WorkflowSnapshot result" where
  "supersede_authority s a =
     (if active_plan s = None
      then Inl (WorkflowTransitionRejected ''authority supersession requires an active plan'')
      else if Some (as_superseded_plan_revision_id a) \<noteq> active_plan s \<or>
              Some (as_superseded_plan_revision_id a) \<noteq> ws_plan_revision_id s \<or>
              Some (as_superseded_plan_content_sha256 a) \<noteq> ws_plan_content_sha256 s \<or>
              Some (as_superseded_plan_adoption_id a) \<noteq> ws_plan_adoption_id s \<or>
              Some (as_superseded_plan_adoption_sha256 a) \<noteq> ws_plan_adoption_sha256 s
      then Inl (WorkflowTransitionRejected
             ''authority supersession does not identify the active accepted plan'')
      else
        bindR (sequenceR (map (supersede_task (Some (as_superseded_plan_revision_id a)))
                 (ws_tasks s))) (\<lambda>ts.
        bindR (sequenceR (map (supersede_obligation (Some (as_superseded_plan_revision_id a)))
                 (ws_obligations s))) (\<lambda>obs.
        bindR (construct check_case_projection
          ((ws_case s)\<lparr>cp_active_plan_revision_id := None, cp_publication_state := PubNotReady,
             cp_accepted_answer_version_id := None, cp_delivery_state := DeliverySuperseded\<rparr>)) (\<lambda>c.
        construct check_snapshot (s\<lparr>ws_case := c, ws_tasks := ts, ws_obligations := obs\<rparr>)))))"

definition change_task_execution ::
    "WorkflowSnapshot \<Rightarrow> string \<Rightarrow> string \<Rightarrow> ExecutionState \<Rightarrow> WorkflowSnapshot result" where
  "change_task_execution s plan task st =
     bindR (find_task s plan task) (\<lambda>i.
       let current = ws_tasks s ! i in
       if tp_execution_state current = ExSuperseded then Inr s
       else bindR (require_active_plan s plan) (\<lambda>_.
         if \<not> task_transition_allowed (tp_execution_state current) st
         then Inl (WorkflowTransitionRejected (''invalid execution transition '' @
                execution_value (tp_execution_state current) @ '' -> '' @ execution_value st))
         else bindR (construct check_task_projection (current\<lparr>tp_execution_state := st\<rparr>)) (\<lambda>t.
           construct check_snapshot (s\<lparr>ws_tasks := (ws_tasks s)[i := t]\<rparr>))))"

definition change_task_execution_batch ::
    "WorkflowSnapshot \<Rightarrow> FactHeader \<Rightarrow> string \<Rightarrow> TaskExecutionUpdate list \<Rightarrow> WorkflowSnapshot result" where
  "change_task_execution_batch s h plan us =
     foldR (\<lambda>u r. bindR (check_task_execution h plan (tu_task_id u)) (\<lambda>_.
                    change_task_execution r plan (tu_task_id u) (tu_state u))) us s"

definition change_obligation ::
    "WorkflowSnapshot \<Rightarrow> string \<Rightarrow> string \<Rightarrow> ObligationState \<Rightarrow> WorkflowSnapshot result" where
  "change_obligation s plan ob st =
     bindR (find_obligation s plan ob) (\<lambda>i.
       let current = ws_obligations s ! i in
       if op_obligation_state current = ObSuperseded then Inr s
       else bindR (require_active_plan s plan) (\<lambda>_.
         bindR (construct check_obligation_projection (current\<lparr>op_obligation_state := st\<rparr>)) (\<lambda>t.
           construct check_snapshot (s\<lparr>ws_obligations := (ws_obligations s)[i := t]\<rparr>))))"

definition change_publication ::
    "WorkflowSnapshot \<Rightarrow> PublicationState \<Rightarrow> string option \<Rightarrow> WorkflowSnapshot result" where
  "change_publication s st ans =
     (if st = PubSettled
      then Inl (WorkflowTransitionRejected ''Gate 3 cannot project settled publication'')
      else if active_plan s = None
      then Inl (WorkflowTransitionRejected ''publication requires an active plan'')
      else bindR (construct check_case_projection
             ((ws_case s)\<lparr>cp_publication_state := st, cp_accepted_answer_version_id := ans\<rparr>)) (\<lambda>c.
           construct check_snapshot (s\<lparr>ws_case := c\<rparr>)))"

definition change_delivery :: "WorkflowSnapshot \<Rightarrow> DeliveryState \<Rightarrow> WorkflowSnapshot result" where
  "change_delivery s st =
     (if st = Delivered
      then Inl (WorkflowTransitionRejected ''Gate 3 cannot project delivered cases'')
      else bindR (construct check_case_projection ((ws_case s)\<lparr>cp_delivery_state := st\<rparr>)) (\<lambda>c.
           construct check_snapshot (s\<lparr>ws_case := c\<rparr>)))"

fun reduce_snapshot :: "WorkflowSnapshot \<Rightarrow> WorkflowFact \<Rightarrow> WorkflowSnapshot result" where
  "reduce_snapshot s (PlanAcceptedFact h p) = accept_plan s h p"
| "reduce_snapshot s (AuthoritySupersededFact h a) = supersede_authority s a"
| "reduce_snapshot s (TaskExecutionFact h plan task st) = change_task_execution s plan task st"
| "reduce_snapshot s (TaskExecutionBatchFact h plan us) = change_task_execution_batch s h plan us"
| "reduce_snapshot s (ObligationDispositionFact h plan ob st) = change_obligation s plan ob st"
| "reduce_snapshot s (PublicationDispositionFact h st ans) = change_publication s st ans"
| "reduce_snapshot s (DeliveryDispositionFact h st) = change_delivery s st"
| "reduce_snapshot s (WorkflowNoChangeFact h) = Inr s"

end
