(* ===== verification/WorkflowModel.thy ===== *)
theory WorkflowModel imports WorkflowReducer begin

text \<open>
  Receipts, projection head and read model of \<open>domain/workflow.py\<close>; \<open>apply_workflow_fact\<close>,
  \<open>replay_workflow\<close> and the customer projection.
\<close>

section \<open>Digests of facts\<close>

fun fact_type :: "WorkflowFact \<Rightarrow> string" where
  "fact_type (PlanAcceptedFact _ _) = ''PlanAcceptedFact''"
| "fact_type (AuthoritySupersededFact _ _) = ''AuthoritySupersededFact''"
| "fact_type (TaskExecutionFact _ _ _ _) = ''TaskExecutionFact''"
| "fact_type (TaskExecutionBatchFact _ _ _) = ''TaskExecutionBatchFact''"
| "fact_type (ObligationDispositionFact _ _ _ _) = ''ObligationDispositionFact''"
| "fact_type (PublicationDispositionFact _ _ _) = ''PublicationDispositionFact''"
| "fact_type (DeliveryDispositionFact _ _) = ''DeliveryDispositionFact''"
| "fact_type (WorkflowNoChangeFact _) = ''WorkflowNoChangeFact''"

definition header_fields :: "FactHeader \<Rightarrow> (string \<times> json) list" where
  "header_fields h = [
     (''case_id'', JStr (fact_case_id h)), (''cursor'', JInt (fact_cursor h)),
     (''source_event_id'', JStr (fact_source_event_id h)),
     (''source_event_sha256'', JStr (fact_source_event_sha256 h))]"

definition task_definition_json :: "WorkflowTaskDefinition \<Rightarrow> json" where
  "task_definition_json d = JObj [
     (''task_id'', JStr (td_task_id d)), (''business_label'', JStr (td_business_label d))]"

definition obligation_definition_json :: "WorkflowObligationDefinition \<Rightarrow> json" where
  "obligation_definition_json d = JObj [
     (''obligation_id'', JStr (od_obligation_id d)), (''task_id'', JStr (od_task_id d)),
     (''business_label'', JStr (od_business_label d))]"

fun body_fields :: "WorkflowFact \<Rightarrow> (string \<times> json) list" where
  "body_fields (PlanAcceptedFact h p) = [
     (''question_revision_id'', JStr (pa_question_revision_id p)),
     (''question_content_sha256'', JStr (pa_question_content_sha256 p)),
     (''frame_revision_id'', JStr (pa_frame_revision_id p)),
     (''frame_content_sha256'', JStr (pa_frame_content_sha256 p)),
     (''plan_revision_id'', JStr (pa_plan_revision_id p)),
     (''prior_plan_revision_id'', opt_str (pa_prior_plan_revision_id p)),
     (''plan_content_sha256'', JStr (pa_plan_content_sha256 p)),
     (''plan_adoption_id'', JStr (pa_plan_adoption_id p)),
     (''plan_adoption_sha256'', JStr (pa_plan_adoption_sha256 p)),
     (''tasks'', JTuple (map task_definition_json (pa_tasks p))),
     (''obligations'', JTuple (map obligation_definition_json (pa_obligations p)))]"
| "body_fields (AuthoritySupersededFact h a) = [
     (''superseded_plan_revision_id'', JStr (as_superseded_plan_revision_id a)),
     (''superseded_plan_content_sha256'', JStr (as_superseded_plan_content_sha256 a)),
     (''superseded_plan_adoption_id'', JStr (as_superseded_plan_adoption_id a)),
     (''superseded_plan_adoption_sha256'', JStr (as_superseded_plan_adoption_sha256 a)),
     (''superseding_authority_revision_id'', JStr (as_superseding_authority_revision_id a)),
     (''superseding_authority_content_sha256'', JStr (as_superseding_authority_content_sha256 a))]"
| "body_fields (TaskExecutionFact h plan task st) = [
     (''plan_revision_id'', JStr plan), (''task_id'', JStr task),
     (''state'', JStr (execution_value st))]"
| "body_fields (TaskExecutionBatchFact h plan us) = [
     (''plan_revision_id'', JStr plan),
     (''updates'', JTuple (map (\<lambda>u. JObj [(''task_id'', JStr (tu_task_id u)),
                              (''state'', JStr (execution_value (tu_state u)))]) us))]"
| "body_fields (ObligationDispositionFact h plan ob st) = [
     (''plan_revision_id'', JStr plan), (''obligation_id'', JStr ob),
     (''state'', JStr (obligation_value st))]"
| "body_fields (PublicationDispositionFact h st ans) = [
     (''state'', JStr (publication_value st)), (''answer_version_id'', opt_str ans)]"
| "body_fields (DeliveryDispositionFact h st) = [(''state'', JStr (delivery_value st))]"
| "body_fields (WorkflowNoChangeFact h) = []"

definition fact_sha256 :: "WorkflowFact \<Rightarrow> string" where
  "fact_sha256 f = digest (JObj (header_fields (header f) @ body_fields f))"

definition workflow_fact_id :: "WorkflowFact \<Rightarrow> string" where
  "workflow_fact_id f = digest (JObj [
     (''kind'', JStr ''workflow-fact.v1''), (''fact_type'', JStr (fact_type f)),
     (''fact_sha256'', JStr (fact_sha256 f))])"

section \<open>Receipts, head and read model\<close>

record WorkflowApplicationReceipt =
  wr_receipt_id :: string
  wr_case_id :: string
  wr_cursor :: int
  wr_source_event_id :: string
  wr_source_event_sha256 :: string
  wr_fact_id :: string
  wr_fact_sha256 :: string
  wr_prior_receipt_id :: "string option"
  wr_prior_snapshot_sha256 :: string
  wr_resulting_snapshot_id :: string
  wr_resulting_snapshot_sha256 :: string

definition receipt_id :: "WorkflowApplicationReceipt \<Rightarrow> string" where
  "receipt_id r = digest (JObj [
     (''kind'', JStr ''workflow-application-receipt.v1''),
     (''case_id'', JStr (wr_case_id r)), (''cursor'', JInt (wr_cursor r)),
     (''source_event_id'', JStr (wr_source_event_id r)),
     (''source_event_sha256'', JStr (wr_source_event_sha256 r)),
     (''fact_id'', JStr (wr_fact_id r)), (''fact_sha256'', JStr (wr_fact_sha256 r)),
     (''prior_receipt_id'', opt_str (wr_prior_receipt_id r)),
     (''prior_snapshot_sha256'', JStr (wr_prior_snapshot_sha256 r)),
     (''resulting_snapshot_id'', JStr (wr_resulting_snapshot_id r)),
     (''resulting_snapshot_sha256'', JStr (wr_resulting_snapshot_sha256 r))])"

definition check_receipt :: "WorkflowApplicationReceipt \<Rightarrow> unit result" where
  "check_receipt r = checks [
     require_nonempty (wr_case_id r) ''case_id'',
     require_nonempty (wr_source_event_id r) ''source_event_id'',
     require_sha256 (wr_source_event_sha256 r) ''source_event_sha256'',
     require (\<not> wr_cursor r < 1) (ValueError ''receipt cursor must be positive''),
     require_sha256 (wr_receipt_id r) ''receipt_id'',
     require_sha256 (wr_fact_id r) ''fact_id'',
     require_sha256 (wr_fact_sha256 r) ''fact_sha256'',
     require_sha256 (wr_resulting_snapshot_id r) ''resulting_snapshot_id'',
     require_sha256 (wr_prior_snapshot_sha256 r) ''prior_snapshot_sha256'',
     require_sha256 (wr_resulting_snapshot_sha256 r) ''resulting_snapshot_sha256'',
     when_some (wr_prior_receipt_id r) (\<lambda>x. require_sha256 x ''prior_receipt_id''),
     require ((wr_cursor r = 1) = (wr_prior_receipt_id r = None))
       (ValueError ''only the first application receipt may omit its prior''),
     require (wr_receipt_id r = receipt_id r) (ValueError ''receipt_id is not canonically derived'')]"

definition build_receipt ::
    "WorkflowSnapshot \<Rightarrow> string option \<Rightarrow> WorkflowSnapshot \<Rightarrow> WorkflowFact \<Rightarrow>
     WorkflowApplicationReceipt result" where
  "build_receipt prior prior_receipt resulting f =
     (let r = \<lparr>wr_receipt_id = '''', wr_case_id = case_of f, wr_cursor = cursor_of f,
               wr_source_event_id = event_of f, wr_source_event_sha256 = event_sha_of f,
               wr_fact_id = workflow_fact_id f, wr_fact_sha256 = fact_sha256 f,
               wr_prior_receipt_id = prior_receipt,
               wr_prior_snapshot_sha256 = snapshot_sha256 prior,
               wr_resulting_snapshot_id = snapshot_id resulting,
               wr_resulting_snapshot_sha256 = snapshot_sha256 resulting\<rparr>
      in construct check_receipt (r\<lparr>wr_receipt_id := receipt_id r\<rparr>))"

record WorkflowProjectionHead =
  wh_case_id :: string
  wh_version :: int
  wh_last_applied_cursor :: int
  wh_snapshot_id :: string
  wh_snapshot_sha256 :: string
  wh_last_receipt_id :: "string option"

definition check_head :: "WorkflowProjectionHead \<Rightarrow> unit result" where
  "check_head h = checks [
     require_nonempty (wh_case_id h) ''case_id'',
     require (\<not> wh_version h < 0) (ValueError ''head version must be non-negative''),
     require (\<not> wh_last_applied_cursor h < 0)
       (ValueError ''head last_applied_cursor must be non-negative''),
     require (wh_version h = wh_last_applied_cursor h)
       (ValueError ''workflow head version must equal its applied cursor''),
     require_sha256 (wh_snapshot_id h) ''snapshot_id'',
     require_sha256 (wh_snapshot_sha256 h) ''snapshot_sha256'',
     when_some (wh_last_receipt_id h) (\<lambda>x. require_sha256 x ''last_receipt_id''),
     require ((wh_last_applied_cursor h = 0) = (wh_last_receipt_id h = None))
       (ValueError ''only an initial head may omit last_receipt_id'')]"

record WorkflowReadModel =
  wm_head :: WorkflowProjectionHead
  wm_snapshot :: WorkflowSnapshot
  wm_receipts :: "WorkflowApplicationReceipt list"

abbreviation last_cursor :: "WorkflowReadModel \<Rightarrow> int" where
  "last_cursor m \<equiv> wh_last_applied_cursor (wm_head m)"

text \<open>The receipt and snapshot digest each receipt has to extend, for the receipts in order.\<close>

fun check_chain ::
    "string option \<Rightarrow> string \<Rightarrow> WorkflowApplicationReceipt list \<Rightarrow> unit result" where
  "check_chain prior_id prior_sha [] = Inr ()"
| "check_chain prior_id prior_sha (r # rs) = checks [
     require (wr_prior_receipt_id r = prior_id)
       (ValueError ''workflow receipt does not extend the prior receipt''),
     require (wr_prior_snapshot_sha256 r = prior_sha)
       (ValueError ''workflow receipt snapshot chain is discontinuous''),
     check_chain (Some (wr_receipt_id r)) (wr_resulting_snapshot_sha256 r) rs]"

definition check_read_model :: "WorkflowReadModel \<Rightarrow> unit result" where
  "check_read_model m =
    (let h = wm_head m; s = wm_snapshot m; rs = wm_receipts m in
     checks [
       require (wh_case_id h = cp_case_id (ws_case s))
         (ValueError ''workflow head and snapshot case differ''),
       require (wh_last_applied_cursor h = ws_applied_cursor s \<and> wh_snapshot_id h = snapshot_id s \<and>
                wh_snapshot_sha256 h = snapshot_sha256 s)
         (ValueError ''workflow head does not identify its snapshot''),
       require (map wr_cursor rs = [1..wh_last_applied_cursor h])
         (ValueError ''workflow receipts must cover every applied cursor''),
       require (\<forall>r \<in> set rs. wr_case_id r = wh_case_id h)
         (ValueError ''workflow receipt belongs to another case''),
       require (distinct (map wr_source_event_id rs))
         (ValueError ''workflow receipts cannot reuse a source event ID''),
       require (distinct (map wr_source_event_sha256 rs))
         (ValueError ''workflow receipts cannot reuse a source event digest''),
       (if rs = [] then Inr () else
        bindR (initial_snapshot (wh_case_id h) (ws_realm s) (ws_evidence_profile s)) (\<lambda>s0.
          check_chain None (snapshot_sha256 s0) rs)),
       require (rs = [] \<or> (wh_last_receipt_id h = Some (wr_receipt_id (last rs)) \<and>
                wh_snapshot_id h = wr_resulting_snapshot_id (last rs) \<and>
                wh_snapshot_sha256 h = wr_resulting_snapshot_sha256 (last rs)))
         (ValueError ''workflow head does not identify its last receipt'')])"

definition initial_workflow_read_model ::
    "string \<Rightarrow> ExecutionRealm \<Rightarrow> EvidenceAdmissionProfile \<Rightarrow> WorkflowReadModel result" where
  "initial_workflow_read_model cid realm profile =
     bindR (require_nonempty cid ''case_id'') (\<lambda>_.
     bindR (initial_snapshot cid realm profile) (\<lambda>s.
     bindR (construct check_head
       \<lparr>wh_case_id = cid, wh_version = 0, wh_last_applied_cursor = 0,
        wh_snapshot_id = snapshot_id s, wh_snapshot_sha256 = snapshot_sha256 s,
        wh_last_receipt_id = None\<rparr>) (\<lambda>h.
     construct check_read_model \<lparr>wm_head = h, wm_snapshot = s, wm_receipts = []\<rparr>)))"

section \<open>Applying a fact\<close>

definition next_model ::
    "WorkflowReadModel \<Rightarrow> WorkflowFact \<Rightarrow> WorkflowReadModel result" where
  "next_model m f =
     bindR (reduce_snapshot (wm_snapshot m) f) (\<lambda>reduced.
     bindR (construct check_snapshot (reduced\<lparr>ws_applied_cursor := cursor_of f\<rparr>)) (\<lambda>s.
     bindR (build_receipt (wm_snapshot m) (wh_last_receipt_id (wm_head m)) s f) (\<lambda>r.
     bindR (construct check_head
       \<lparr>wh_case_id = wh_case_id (wm_head m), wh_version = wh_version (wm_head m) + 1,
        wh_last_applied_cursor = cursor_of f, wh_snapshot_id = snapshot_id s,
        wh_snapshot_sha256 = snapshot_sha256 s, wh_last_receipt_id = Some (wr_receipt_id r)\<rparr>) (\<lambda>h.
     construct check_read_model
       \<lparr>wm_head = h, wm_snapshot = s, wm_receipts = wm_receipts m @ [r]\<rparr>))))"

definition apply_workflow_fact ::
    "WorkflowReadModel \<Rightarrow> WorkflowFact \<Rightarrow> WorkflowReadModel result" where
  "apply_workflow_fact m f =
     (if case_of f \<noteq> wh_case_id (wm_head m)
      then Inl (WorkflowFactConflict ''workflow fact belongs to another case'')
      else if cursor_of f \<le> last_cursor m
      then bindR (py_index (wm_receipts m) (cursor_of f - 1)) (\<lambda>prior.
             if wr_fact_id prior = workflow_fact_id f \<and> wr_fact_sha256 prior = fact_sha256 f
             then Inr m
             else Inl (WorkflowFactConflict
                    ''workflow cursor already has different fact content''))
      else if \<exists>r \<in> set (wm_receipts m). wr_source_event_id r = event_of f \<or>
                wr_source_event_sha256 r = event_sha_of f
      then Inl (WorkflowFactConflict
             ''source event identity already has a Workflow application receipt'')
      else if cursor_of f \<noteq> last_cursor m + 1
      then Inl (WorkflowCursorGap
             (''workflow fact cursor must equal '' @ show_int (last_cursor m + 1)))
      else next_model m f)"

definition replay_workflow ::
    "string \<Rightarrow> WorkflowFact list \<Rightarrow> ExecutionRealm \<Rightarrow> EvidenceAdmissionProfile \<Rightarrow>
     WorkflowReadModel result" where
  "replay_workflow cid fs realm profile =
     bindR (initial_workflow_read_model cid realm profile)
       (foldR (\<lambda>f m. apply_workflow_fact m f) fs)"

section \<open>The customer projection\<close>

definition workflow_customer_projection :: "WorkflowSnapshot \<Rightarrow> json result" where
  "workflow_customer_projection s =
     bindR (freeze_json (JObj [
       (''case'', JObj [
          (''case_id'', JStr (cp_case_id (ws_case s))),
          (''active_plan_revision_id'', opt_str (active_plan s)),
          (''publication_state'', JStr (publication_value (cp_publication_state (ws_case s)))),
          (''delivery_state'', JStr (delivery_value (cp_delivery_state (ws_case s))))]),
       (''tasks'', JList (map (\<lambda>t. JObj [
          (''plan_revision_id'', JStr (tp_plan_revision_id t)),
          (''task_id'', JStr (tp_task_id t)),
          (''business_label'', JStr (tp_business_label t)),
          (''execution_state'', JStr (execution_value (tp_execution_state t)))]) (ws_tasks s))),
       (''obligations'', JList (map (\<lambda>t. JObj [
          (''plan_revision_id'', JStr (op_plan_revision_id t)),
          (''obligation_id'', JStr (op_obligation_id t)),
          (''task_id'', JStr (op_task_id t)),
          (''business_label'', JStr (op_business_label t)),
          (''obligation_state'', JStr (obligation_value (op_obligation_state t)))])
          (ws_obligations s)))])) (\<lambda>v.
       if is_object v then Inr v
       else Inl (TypeError ''customer workflow projection must be an object''))"

end
