(* ===== verification/WorkflowInvariants.thy ===== *)
theory WorkflowInvariants imports WorkflowModel begin

text \<open>
  What every reachable snapshot satisfies (\<open>snapshot_inv\<close>), that each reducer keeps it, and
  that from such a snapshot a reducer raises only the errors of \<open>domain/workflow.py\<close>: none of the
  constructors it calls ever refuses its arguments.
\<close>

section \<open>The invariant\<close>

definition snapshot_inv :: "WorkflowSnapshot \<Rightarrow> bool" where
  "snapshot_inv s \<longleftrightarrow>
     check_snapshot s = Inr () \<and> check_case_projection (ws_case s) = Inr () \<and>
     (\<forall>t \<in> set (ws_tasks s). check_task_projection t = Inr ()) \<and>
     (\<forall>t \<in> set (ws_obligations s). check_obligation_projection t = Inr ()) \<and>
     (\<forall>t \<in> set (ws_tasks s). Some (tp_plan_revision_id t) \<noteq> active_plan s \<longrightarrow>
        tp_execution_state t = ExSuperseded) \<and>
     (\<forall>t \<in> set (ws_obligations s). Some (op_plan_revision_id t) \<noteq> active_plan s \<longrightarrow>
        op_obligation_state t = ObSuperseded) \<and>
     (\<forall>t \<in> set (ws_obligations s).
        (op_plan_revision_id t, op_task_id t) \<in> task_key ` set (ws_tasks s))"

definition same_frame :: "WorkflowSnapshot \<Rightarrow> WorkflowSnapshot \<Rightarrow> bool" where
  "same_frame s t \<longleftrightarrow> cp_case_id (ws_case t) = cp_case_id (ws_case s) \<and>
     ws_applied_cursor t = ws_applied_cursor s \<and> ws_realm t = ws_realm s \<and>
     ws_evidence_profile t = ws_evidence_profile s"

lemma same_frame_refl [simp]: "same_frame s s"
  by (simp add: same_frame_def)

lemma same_frame_trans: "same_frame s t \<Longrightarrow> same_frame t u \<Longrightarrow> same_frame s u"
  by (simp add: same_frame_def)

definition all_present :: "WorkflowSnapshot \<Rightarrow> bool" where
  "all_present s \<longleftrightarrow> list_ex (\<lambda>v. v = None) (accepted_plan_values s) =
     list_all (\<lambda>v. v = None) (accepted_plan_values s)"

definition plan_identity_ok :: "WorkflowSnapshot \<Rightarrow> bool" where
  "plan_identity_ok s \<longleftrightarrow>
     ws_schema_version s = workflow_schema_version \<and>
     ws_policy_version s = workflow_policy_version \<and> ws_policy_sha256 s = workflow_policy_sha256 \<and>
     list_ex (\<lambda>v. v = None) (accepted_plan_values s) =
       list_all (\<lambda>v. v = None) (accepted_plan_values s) \<and>
     (ws_plan_revision_id s \<noteq> None \<longrightarrow>
        pred_option nonempty (ws_question_revision_id s) \<and>
        pred_option nonempty (ws_frame_revision_id s) \<and>
        pred_option nonempty (ws_plan_revision_id s) \<and>
        pred_option is_sha256 (ws_question_content_sha256 s) \<and>
        pred_option is_sha256 (ws_frame_content_sha256 s) \<and>
        pred_option is_sha256 (ws_plan_content_sha256 s) \<and>
        pred_option is_sha256 (ws_plan_adoption_id s) \<and>
        pred_option is_sha256 (ws_plan_adoption_sha256 s))"

lemma when_some_pred:
  "(\<And>y. f y = Inr () \<longleftrightarrow> p y) \<Longrightarrow> when_some x f = Inr () \<longleftrightarrow> pred_option p x"
  by (cases x) auto

lemma when_some_nonempty [simp]:
  "when_some x (\<lambda>v. require_nonempty v n) = Inr () \<longleftrightarrow> pred_option nonempty x"
  by (rule when_some_pred) simp

lemma when_some_sha256 [simp]:
  "when_some x (\<lambda>v. require_sha256 v n) = Inr () \<longleftrightarrow> pred_option is_sha256 x"
  by (rule when_some_pred) simp

lemma when_some_const: "when_some x (\<lambda>_. r) = Inr () \<longleftrightarrow> (x \<noteq> None \<longrightarrow> r = Inr ())"
  by (cases x) auto

lemma check_snapshot_iff:
  "check_snapshot s = Inr () \<longleftrightarrow>
     0 \<le> ws_applied_cursor s \<and> plan_identity_ok s \<and>
     (active_plan s \<noteq> None \<longrightarrow> active_plan s = ws_plan_revision_id s) \<and>
     sorted (map task_key (ws_tasks s)) \<and> sorted (map obligation_key (ws_obligations s)) \<and>
     distinct (map task_key (ws_tasks s)) \<and> distinct (map obligation_key (ws_obligations s)) \<and>
     (\<forall>t \<in> set (ws_tasks s). tp_case_id t = cp_case_id (ws_case s)) \<and>
     (\<forall>t \<in> set (ws_obligations s). op_case_id t = cp_case_id (ws_case s))"
proof -
  have eq: "xs = sort xs \<longleftrightarrow> sorted xs" for xs :: "(string \<times> string) list"
    by (metis sorted_sort sorted_sort_id)
  show ?thesis
    unfolding check_snapshot_def Let_def plan_identity_ok_def
    by (simp only: checks_Cons_Inr require_Inr_iff when_some_const when_some_nonempty
        when_some_sha256 eq checks.simps(1)) (auto simp: not_less)
qed

section \<open>Initial snapshot\<close>

lemma check_case_projection_iff:
  "check_case_projection c = Inr () \<longleftrightarrow>
     nonempty (cp_case_id c) \<and> pred_option nonempty (cp_active_plan_revision_id c) \<and>
     cp_publication_state c \<noteq> PubSettled \<and> cp_delivery_state c \<noteq> Delivered \<and>
     pred_option nonempty (cp_accepted_answer_version_id c) \<and>
     (cp_publication_state c = PubProvisional) = (cp_accepted_answer_version_id c \<noteq> None)"
  by (simp add: check_case_projection_def)

lemma initial_snapshot_total:
  assumes "nonempty cid"
  obtains s where "initial_snapshot cid realm profile = Inr s" and "snapshot_inv s"
    and "cp_case_id (ws_case s) = cid" and "ws_applied_cursor s = 0" and "ws_realm s = realm"
    and "ws_evidence_profile s = profile" and "ws_tasks s = []" and "ws_obligations s = []"
    and "active_plan s = None" and "ws_plan_revision_id s = None"
proof -
  let ?c = "\<lparr>cp_case_id = cid, cp_active_plan_revision_id = None, cp_publication_state = PubNotReady,
        cp_accepted_answer_version_id = None, cp_delivery_state = NotDelivered\<rparr>"
  have c: "check_case_projection ?c = Inr ()"
    using assms by (simp add: check_case_projection_iff)
  obtain s where s: "initial_snapshot cid realm profile = construct check_snapshot s"
    "ws_case s = ?c" "ws_tasks s = []" "ws_obligations s = []" "ws_applied_cursor s = 0"
    "ws_realm s = realm" "ws_evidence_profile s = profile" "ws_plan_revision_id s = None"
    and p: "plan_identity_ok s"
    using c by (simp add: initial_snapshot_def construct_def plan_identity_ok_def
        accepted_plan_values_def)
  have "check_snapshot s = Inr ()"
    using p s by (simp add: check_snapshot_iff)
  then have "initial_snapshot cid realm profile = Inr s" and "snapshot_inv s"
    using s c by (simp_all add: snapshot_inv_def construct_def)
  then show thesis using that s by simp
qed

section \<open>Only the errors of the projection\<close>

fun projection_error :: "py_error \<Rightarrow> bool" where
  "projection_error (WorkflowFactConflict _) = True"
| "projection_error (WorkflowTransitionRejected _) = True"
| "projection_error (WorkflowCursorGap _) = True"
| "projection_error _ = False"

text \<open>
  \<open>reduces s r\<close>: \<open>r\<close> is a snapshot that keeps the invariant and the frame of \<open>s\<close>, or a
  projection error.
\<close>

definition reduces :: "WorkflowSnapshot \<Rightarrow> WorkflowSnapshot result \<Rightarrow> bool" where
  "reduces s r \<longleftrightarrow> (case r of Inl e \<Rightarrow> projection_error e | Inr t \<Rightarrow> snapshot_inv t \<and> same_frame s t)"

lemma reduces_Inl [simp]: "reduces s (Inl e) \<longleftrightarrow> projection_error e"
  by (simp add: reduces_def)

lemma reduces_Inr [simp]: "reduces s (Inr t) \<longleftrightarrow> snapshot_inv t \<and> same_frame s t"
  by (simp add: reduces_def)

lemma reduces_construct: "snapshot_inv t \<Longrightarrow> same_frame s t \<Longrightarrow> reduces s (construct check_snapshot t)"
  by (simp add: construct_def snapshot_inv_def)

lemma sequence_map_total:
  "(\<And>x. x \<in> set xs \<Longrightarrow> f x = Inr (g x)) \<Longrightarrow> sequenceR (map f xs) = Inr (map g xs)"
  by (simp add: sequenceR_Inr_iff)

subsection \<open>Superseding projections\<close>

definition superseded_task :: "string option \<Rightarrow> WorkflowTaskProjection \<Rightarrow> WorkflowTaskProjection" where
  "superseded_task plan t =
     (if Some (tp_plan_revision_id t) = plan then t\<lparr>tp_execution_state := ExSuperseded\<rparr> else t)"

definition superseded_obligation ::
    "string option \<Rightarrow> WorkflowObligationProjection \<Rightarrow> WorkflowObligationProjection" where
  "superseded_obligation plan t =
     (if Some (op_plan_revision_id t) = plan then t\<lparr>op_obligation_state := ObSuperseded\<rparr> else t)"

lemma superseded_task_fields [simp]:
  "tp_case_id (superseded_task p t) = tp_case_id t"
  "tp_plan_revision_id (superseded_task p t) = tp_plan_revision_id t"
  "tp_task_id (superseded_task p t) = tp_task_id t"
  "tp_business_label (superseded_task p t) = tp_business_label t"
  "task_key (superseded_task p t) = task_key t"
  by (simp_all add: superseded_task_def task_key_def)

lemma superseded_obligation_fields [simp]:
  "op_case_id (superseded_obligation p t) = op_case_id t"
  "op_plan_revision_id (superseded_obligation p t) = op_plan_revision_id t"
  "op_task_id (superseded_obligation p t) = op_task_id t"
  "op_obligation_id (superseded_obligation p t) = op_obligation_id t"
  "op_business_label (superseded_obligation p t) = op_business_label t"
  "obligation_key (superseded_obligation p t) = obligation_key t"
  by (simp_all add: superseded_obligation_def obligation_key_def)

lemma check_superseded [simp]:
  "check_task_projection (superseded_task p t) = check_task_projection t"
  "check_obligation_projection (superseded_obligation p u) = check_obligation_projection u"
  by (simp_all add: check_task_projection_def check_obligation_projection_def)

lemma map_key_superseded [simp]:
  "map task_key (map (superseded_task p) ts) = map task_key ts"
  "map obligation_key (map (superseded_obligation p) us) = map obligation_key us"
  by simp_all

lemma map_comp_key_superseded [simp]:
  "task_key \<circ> superseded_task p = task_key" "obligation_key \<circ> superseded_obligation p = obligation_key"
  by (simp_all add: fun_eq_iff)

lemma supersede_tasks_total:
  assumes "\<forall>t \<in> set ts. check_task_projection t = Inr ()"
  shows "sequenceR (map (supersede_task p) ts) = Inr (map (superseded_task p) ts)"
proof (rule sequence_map_total)
  fix t assume "t \<in> set ts"
  then have "check_task_projection (superseded_task p t) = Inr ()" using assms by simp
  then show "supersede_task p t = Inr (superseded_task p t)"
    by (auto simp: supersede_task_def superseded_task_def split: if_splits)
qed

lemma supersede_obligations_total:
  assumes "\<forall>t \<in> set ts. check_obligation_projection t = Inr ()"
  shows "sequenceR (map (supersede_obligation p) ts) = Inr (map (superseded_obligation p) ts)"
proof (rule sequence_map_total)
  fix t assume "t \<in> set ts"
  then have "check_obligation_projection (superseded_obligation p t) = Inr ()" using assms by simp
  then show "supersede_obligation p t = Inr (superseded_obligation p t)"
    by (auto simp: supersede_obligation_def superseded_obligation_def split: if_splits)
qed

lemma superseded_task_state:
  "tp_execution_state (superseded_task p t) =
     (if Some (tp_plan_revision_id t) = p then ExSuperseded else tp_execution_state t)"
  by (simp add: superseded_task_def)

lemma superseded_obligation_state:
  "op_obligation_state (superseded_obligation p t) =
     (if Some (op_plan_revision_id t) = p then ObSuperseded else op_obligation_state t)"
  by (simp add: superseded_obligation_def)

subsection \<open>Accepting and superseding plans\<close>

lemma check_plan_accepted_D:
  assumes "check_plan_accepted h p = Inr ()"
  shows "\<forall>d \<in> set (pa_tasks p). nonempty (td_task_id d) \<and> nonempty (td_business_label d)"
    and "\<forall>d \<in> set (pa_obligations p). nonempty (od_obligation_id d) \<and> nonempty (od_task_id d) \<and>
           nonempty (od_business_label d)"
    and "nonempty (fact_case_id h)" and "nonempty (pa_plan_revision_id p)"
    and "nonempty (pa_question_revision_id p)" and "nonempty (pa_frame_revision_id p)"
    and "is_sha256 (pa_question_content_sha256 p)" and "is_sha256 (pa_frame_content_sha256 p)"
    and "is_sha256 (pa_plan_content_sha256 p)" and "is_sha256 (pa_plan_adoption_id p)"
    and "is_sha256 (pa_plan_adoption_sha256 p)" and "pa_tasks p \<noteq> []"
    and "distinct (map td_task_id (pa_tasks p))"
    and "distinct (map od_obligation_id (pa_obligations p))"
    and "od_task_id ` set (pa_obligations p) \<subseteq> td_task_id ` set (pa_tasks p)"
  using assms
  by (simp_all add: check_plan_accepted_def check_task_definition_def
      check_obligation_definition_def validate_fact_header_def)

lemma new_keys:
  "task_key \<circ> accepted_task h p = (\<lambda>d. (pa_plan_revision_id p, td_task_id d))"
  "obligation_key \<circ> accepted_obligation h p = (\<lambda>d. (pa_plan_revision_id p, od_obligation_id d))"
  by (auto simp: fun_eq_iff task_key_def obligation_key_def accepted_task_def accepted_obligation_def)

lemma accepted_plan_present:
  "plan_identity_ok (accepted_snapshot s p c ts obs) \<longleftrightarrow>
     nonempty (pa_question_revision_id p) \<and> nonempty (pa_frame_revision_id p) \<and>
     nonempty (pa_plan_revision_id p) \<and> is_sha256 (pa_question_content_sha256 p) \<and>
     is_sha256 (pa_frame_content_sha256 p) \<and> is_sha256 (pa_plan_content_sha256 p) \<and>
     is_sha256 (pa_plan_adoption_id p) \<and> is_sha256 (pa_plan_adoption_sha256 p)"
  by (simp add: plan_identity_ok_def accepted_snapshot_def accepted_plan_values_def)

lemma accepted_keys_distinct:
  assumes inv: "snapshot_inv s" and p: "check_plan_accepted h p = Inr ()"
    and fresh: "\<forall>t \<in> set (ws_tasks s). tp_plan_revision_id t \<noteq> pa_plan_revision_id p"
  shows "distinct (map task_key (map (superseded_task a) (ws_tasks s) @
           map (accepted_task h p) (pa_tasks p)))"
    and "distinct (map obligation_key (map (superseded_obligation a) (ws_obligations s) @
           map (accepted_obligation h p) (pa_obligations p)))"
proof -
  note pd = check_plan_accepted_D [OF p]
  have d: "distinct (map task_key (ws_tasks s))" "distinct (map obligation_key (ws_obligations s))"
    using inv by (simp_all add: snapshot_inv_def check_snapshot_iff)
  have "distinct (map (\<lambda>d. (pa_plan_revision_id p, td_task_id d)) (pa_tasks p))"
    using pd(13) by (simp add: distinct_map inj_on_def)
  moreover have "task_key ` set (ws_tasks s) \<inter>
      (\<lambda>d. (pa_plan_revision_id p, td_task_id d)) ` set (pa_tasks p) = {}"
    using fresh by (auto simp: task_key_def)
  ultimately show "distinct (map task_key (map (superseded_task a) (ws_tasks s) @
           map (accepted_task h p) (pa_tasks p)))"
    using d(1) by (simp add: new_keys image_image)
  have fresh_ob: "op_plan_revision_id u \<noteq> pa_plan_revision_id p" if "u \<in> set (ws_obligations s)" for u
  proof -
    have "(op_plan_revision_id u, op_task_id u) \<in> task_key ` set (ws_tasks s)"
      using inv that by (simp add: snapshot_inv_def)
    then show ?thesis using fresh by (auto simp: task_key_def)
  qed
  have "distinct (map (\<lambda>d. (pa_plan_revision_id p, od_obligation_id d)) (pa_obligations p))"
    using pd(14) by (simp add: distinct_map inj_on_def)
  moreover have "obligation_key ` set (ws_obligations s) \<inter>
      (\<lambda>d. (pa_plan_revision_id p, od_obligation_id d)) ` set (pa_obligations p) = {}"
    using fresh_ob by (auto simp: obligation_key_def)
  ultimately show "distinct (map obligation_key (map (superseded_obligation a) (ws_obligations s) @
           map (accepted_obligation h p) (pa_obligations p)))"
    using d(2) by (simp add: new_keys image_image)
qed

lemma accepted_snapshot_inv:
  assumes inv: "snapshot_inv s" and p: "check_plan_accepted h p = Inr ()"
    and cid: "fact_case_id h = cp_case_id (ws_case s)"
    and fresh: "\<forall>t \<in> set (ws_tasks s). tp_plan_revision_id t \<noteq> pa_plan_revision_id p"
    and c: "c = \<lparr>cp_case_id = fact_case_id h, cp_active_plan_revision_id = Some (pa_plan_revision_id p),
           cp_publication_state = PubNotReady, cp_accepted_answer_version_id = None,
           cp_delivery_state = NotDelivered\<rparr>"
  shows "snapshot_inv (accepted_snapshot s p c
     (map (superseded_task (active_plan s)) (ws_tasks s) @ map (accepted_task h p) (pa_tasks p))
     (map (superseded_obligation (active_plan s)) (ws_obligations s) @
        map (accepted_obligation h p) (pa_obligations p)))" (is "snapshot_inv ?t")
proof -
  note pd = check_plan_accepted_D [OF p]
  note keys = accepted_keys_distinct [OF inv p fresh, of "active_plan s"]
  have I: "check_snapshot s = Inr ()"
    "\<forall>t \<in> set (ws_tasks s). check_task_projection t = Inr ()"
    "\<forall>t \<in> set (ws_obligations s). check_obligation_projection t = Inr ()"
    "\<forall>t \<in> set (ws_tasks s). Some (tp_plan_revision_id t) \<noteq> active_plan s \<longrightarrow>
        tp_execution_state t = ExSuperseded"
    "\<forall>t \<in> set (ws_obligations s). Some (op_plan_revision_id t) \<noteq> active_plan s \<longrightarrow>
        op_obligation_state t = ObSuperseded"
    "\<forall>t \<in> set (ws_obligations s).
        (op_plan_revision_id t, op_task_id t) \<in> task_key ` set (ws_tasks s)"
    using inv by (simp_all add: snapshot_inv_def)
  have case_ok: "check_case_projection c = Inr ()"
    using pd(3,4) c by (simp add: check_case_projection_iff)
  have own: "\<forall>u \<in> set (ws_obligations ?t).
      (op_plan_revision_id u, op_task_id u) \<in> task_key ` set (ws_tasks ?t)"
    using I(6) pd(15)
    by (force simp: accepted_snapshot_def accepted_obligation_def accepted_task_def task_key_def
        image_Un image_image)
  have "check_snapshot ?t = Inr ()"
    unfolding check_snapshot_iff accepted_plan_present
    using I(1) pd(4-11) cid c keys
    by (auto simp: check_snapshot_iff accepted_snapshot_def accepted_task_def
        accepted_obligation_def simp del: map_append map_map)
  then show ?thesis
    using own case_ok I(2-5) pd(1-4) c
    by (auto simp: snapshot_inv_def accepted_snapshot_def accepted_task_def accepted_obligation_def
        check_task_projection_def check_obligation_projection_def superseded_task_state
        superseded_obligation_state)
qed

lemma accept_plan_reduces:
  assumes inv: "snapshot_inv s" and p: "check_plan_accepted h p = Inr ()"
    and cid: "fact_case_id h = cp_case_id (ws_case s)"
  shows "reduces s (accept_plan s h p)"
proof (cases "pa_prior_plan_revision_id p \<noteq> expected_prior_plan s p \<or>
    (\<exists>t \<in> set (ws_tasks s). tp_plan_revision_id t = pa_plan_revision_id p)")
  case True
  then show ?thesis by (auto simp: accept_plan_def)
next
  case False
  let ?c = "\<lparr>cp_case_id = fact_case_id h, cp_active_plan_revision_id = Some (pa_plan_revision_id p),
           cp_publication_state = PubNotReady, cp_accepted_answer_version_id = None,
           cp_delivery_state = NotDelivered\<rparr>"
  let ?t = "accepted_snapshot s p ?c
     (map (superseded_task (active_plan s)) (ws_tasks s) @ map (accepted_task h p) (pa_tasks p))
     (map (superseded_obligation (active_plan s)) (ws_obligations s) @
        map (accepted_obligation h p) (pa_obligations p))"
  note pd = check_plan_accepted_D [OF p]
  have old: "sequenceR (map (supersede_task (active_plan s)) (ws_tasks s)) =
      Inr (map (superseded_task (active_plan s)) (ws_tasks s))"
    "sequenceR (map (supersede_obligation (active_plan s)) (ws_obligations s)) =
      Inr (map (superseded_obligation (active_plan s)) (ws_obligations s))"
    using inv by (simp_all add: snapshot_inv_def supersede_tasks_total supersede_obligations_total)
  have new: "sequenceR (map (\<lambda>d. construct check_task_projection (accepted_task h p d)) (pa_tasks p)) =
      Inr (map (accepted_task h p) (pa_tasks p))"
    "sequenceR (map (\<lambda>d. construct check_obligation_projection (accepted_obligation h p d))
       (pa_obligations p)) = Inr (map (accepted_obligation h p) (pa_obligations p))"
    using pd(1-4) by (auto intro!: sequence_map_total simp: check_task_projection_def
        check_obligation_projection_def accepted_task_def accepted_obligation_def)
  have c: "construct check_case_projection ?c = Inr ?c"
    using pd(3,4) by (simp add: check_case_projection_iff)
  have t: "snapshot_inv ?t"
    using accepted_snapshot_inv [OF inv p cid] False by blast
  have "accept_plan s h p = construct check_snapshot ?t"
    using False by (simp add: accept_plan_def old new c)
  moreover have "same_frame s ?t" using cid by (simp add: same_frame_def accepted_snapshot_def)
  ultimately show ?thesis using reduces_construct [OF t] by simp
qed

definition fenced_case :: "WorkflowCaseProjection \<Rightarrow> WorkflowCaseProjection" where
  "fenced_case c = c\<lparr>cp_active_plan_revision_id := None, cp_publication_state := PubNotReady,
     cp_accepted_answer_version_id := None, cp_delivery_state := DeliverySuperseded\<rparr>"

lemma supersede_authority_reduces:
  assumes inv: "snapshot_inv s"
  shows "reduces s (supersede_authority s a)"
proof -
  let ?p = "Some (as_superseded_plan_revision_id a)"
  let ?t = "s\<lparr>ws_case := fenced_case (ws_case s), ws_tasks := map (superseded_task ?p) (ws_tasks s),
    ws_obligations := map (superseded_obligation ?p) (ws_obligations s)\<rparr>"
  have old: "sequenceR (map (supersede_task ?p) (ws_tasks s)) = Inr (map (superseded_task ?p) (ws_tasks s))"
    "sequenceR (map (supersede_obligation ?p) (ws_obligations s)) =
      Inr (map (superseded_obligation ?p) (ws_obligations s))"
    using inv by (simp_all add: snapshot_inv_def supersede_tasks_total supersede_obligations_total)
  have c: "check_case_projection (fenced_case (ws_case s)) = Inr ()"
    using inv by (simp add: snapshot_inv_def check_case_projection_iff fenced_case_def)
  have inv_t: "snapshot_inv ?t" if "active_plan s = ?p"
    using inv c that
    by (auto simp: snapshot_inv_def check_snapshot_iff fenced_case_def plan_identity_ok_def
        accepted_plan_values_def superseded_task_state superseded_obligation_state image_image)
  have run: "supersede_authority s a = construct check_snapshot ?t"
    if "\<not> (active_plan s = None \<or> ?p \<noteq> active_plan s \<or> ?p \<noteq> ws_plan_revision_id s \<or>
         Some (as_superseded_plan_content_sha256 a) \<noteq> ws_plan_content_sha256 s \<or>
         Some (as_superseded_plan_adoption_id a) \<noteq> ws_plan_adoption_id s \<or>
         Some (as_superseded_plan_adoption_sha256 a) \<noteq> ws_plan_adoption_sha256 s)"
    using that old c by (auto simp: supersede_authority_def fenced_case_def)
  have frame: "same_frame s ?t" by (simp add: same_frame_def fenced_case_def)
  show ?thesis
  proof (cases "active_plan s = None \<or> ?p \<noteq> active_plan s \<or> ?p \<noteq> ws_plan_revision_id s \<or>
         Some (as_superseded_plan_content_sha256 a) \<noteq> ws_plan_content_sha256 s \<or>
         Some (as_superseded_plan_adoption_id a) \<noteq> ws_plan_adoption_id s \<or>
         Some (as_superseded_plan_adoption_sha256 a) \<noteq> ws_plan_adoption_sha256 s")
    case True
    then show ?thesis by (auto simp: supersede_authority_def)
  next
    case False
    then have "active_plan s = ?p" by simp
    then show ?thesis using run [OF False] reduces_construct [OF inv_t frame] by simp
  qed
qed

subsection \<open>Changing one projection\<close>

lemma map_list_update_same:
  "i < length xs \<Longrightarrow> f y = f (xs ! i) \<Longrightarrow> map f (xs[i := y]) = map f xs"
  by (metis list_update_id map_update)

lemma image_list_update_same:
  "i < length xs \<Longrightarrow> f y = f (xs ! i) \<Longrightarrow> f ` set (xs[i := y]) = f ` set xs"
  using map_list_update_same [of i xs f y] by (metis list.set_map)

lemma ball_list_update:
  "\<forall>x \<in> set xs. P x \<Longrightarrow> P y \<Longrightarrow> \<forall>x \<in> set (xs[i := y]). P x"
  by (auto dest!: set_update_subset_insert [THEN subsetD])

lemma check_state_update [simp]:
  "check_task_projection (t\<lparr>tp_execution_state := st\<rparr>) = check_task_projection t"
  "check_obligation_projection (u\<lparr>op_obligation_state := su\<rparr>) = check_obligation_projection u"
  by (simp_all add: check_task_projection_def check_obligation_projection_def)

lemma snapshot_inv_task:
  "snapshot_inv s \<Longrightarrow> t \<in> set (ws_tasks s) \<Longrightarrow>
     tp_case_id t = cp_case_id (ws_case s) \<and> check_task_projection t = Inr ()"
  by (simp add: snapshot_inv_def check_snapshot_iff)

lemma snapshot_inv_obligation:
  "snapshot_inv s \<Longrightarrow> t \<in> set (ws_obligations s) \<Longrightarrow>
     op_case_id t = cp_case_id (ws_case s) \<and> check_obligation_projection t = Inr () \<and>
     (op_plan_revision_id t, op_task_id t) \<in> task_key ` set (ws_tasks s)"
  by (simp add: snapshot_inv_def check_snapshot_iff)

lemma find_task_Inr:
  "find_task s plan task = Inr i \<Longrightarrow> i < length (ws_tasks s) \<and>
     tp_plan_revision_id (ws_tasks s ! i) = plan \<and> tp_task_id (ws_tasks s ! i) = task"
  by (auto simp: find_task_def find_index_Some_iff split: option.splits)

lemma find_obligation_Inr:
  "find_obligation s plan ob = Inr i \<Longrightarrow> i < length (ws_obligations s) \<and>
     op_plan_revision_id (ws_obligations s ! i) = plan \<and>
     op_obligation_id (ws_obligations s ! i) = ob"
  by (auto simp: find_obligation_def find_index_Some_iff split: option.splits)

lemma find_Inl:
  "find_task s plan task = Inl e \<Longrightarrow> projection_error e"
  "find_obligation s plan ob = Inl e \<Longrightarrow> projection_error e"
  by (auto simp: find_task_def find_obligation_def split: option.splits)

definition with_task :: "WorkflowSnapshot \<Rightarrow> nat \<Rightarrow> ExecutionState \<Rightarrow> WorkflowSnapshot" where
  "with_task s i st = s\<lparr>ws_tasks := (ws_tasks s)[i := (ws_tasks s ! i)\<lparr>tp_execution_state := st\<rparr>]\<rparr>"

definition with_obligation :: "WorkflowSnapshot \<Rightarrow> nat \<Rightarrow> ObligationState \<Rightarrow> WorkflowSnapshot" where
  "with_obligation s i st =
     s\<lparr>ws_obligations := (ws_obligations s)[i := (ws_obligations s ! i)\<lparr>op_obligation_state := st\<rparr>]\<rparr>"

lemma with_task_inv:
  assumes inv: "snapshot_inv s" and i: "i < length (ws_tasks s)"
    and act: "active_plan s = Some (tp_plan_revision_id (ws_tasks s ! i))"
  shows "snapshot_inv (with_task s i st)"
proof -
  let ?y = "(ws_tasks s ! i)\<lparr>tp_execution_state := st\<rparr>"
  have mem: "ws_tasks s ! i \<in> set (ws_tasks s)" using i by simp
  have key: "task_key ?y = task_key (ws_tasks s ! i)" by (simp add: task_key_def)
  have keys: "map task_key ((ws_tasks s)[i := ?y]) = map task_key (ws_tasks s)"
    "task_key ` set ((ws_tasks s)[i := ?y]) = task_key ` set (ws_tasks s)"
    using i key by (simp_all only: map_list_update_same image_list_update_same)
  have y: "tp_case_id ?y = cp_case_id (ws_case s)" "check_task_projection ?y = Inr ()"
    using snapshot_inv_task [OF inv mem] by simp_all
  have all: "\<forall>t \<in> set ((ws_tasks s)[i := ?y]). tp_case_id t = cp_case_id (ws_case s)"
    "\<forall>t \<in> set ((ws_tasks s)[i := ?y]). check_task_projection t = Inr ()"
    "\<forall>t \<in> set ((ws_tasks s)[i := ?y]). Some (tp_plan_revision_id t) \<noteq> active_plan s \<longrightarrow>
        tp_execution_state t = ExSuperseded"
    using inv y act
    by (intro ball_list_update; simp add: snapshot_inv_def check_snapshot_iff)+
  show ?thesis
    using inv keys all
    by (simp add: snapshot_inv_def check_snapshot_iff with_task_def plan_identity_ok_def
        accepted_plan_values_def)
qed

lemma with_obligation_inv:
  assumes inv: "snapshot_inv s" and i: "i < length (ws_obligations s)"
    and act: "active_plan s = Some (op_plan_revision_id (ws_obligations s ! i))"
  shows "snapshot_inv (with_obligation s i st)"
proof -
  let ?y = "(ws_obligations s ! i)\<lparr>op_obligation_state := st\<rparr>"
  have mem: "ws_obligations s ! i \<in> set (ws_obligations s)" using i by simp
  have key: "obligation_key ?y = obligation_key (ws_obligations s ! i)"
    by (simp add: obligation_key_def)
  have keys: "map obligation_key ((ws_obligations s)[i := ?y]) = map obligation_key (ws_obligations s)"
    using i key by (simp only: map_list_update_same)
  have y: "op_case_id ?y = cp_case_id (ws_case s)" "check_obligation_projection ?y = Inr ()"
    "(op_plan_revision_id ?y, op_task_id ?y) \<in> task_key ` set (ws_tasks s)"
    using snapshot_inv_obligation [OF inv mem] by simp_all
  have all: "\<forall>t \<in> set ((ws_obligations s)[i := ?y]). op_case_id t = cp_case_id (ws_case s)"
    "\<forall>t \<in> set ((ws_obligations s)[i := ?y]). check_obligation_projection t = Inr ()"
    "\<forall>t \<in> set ((ws_obligations s)[i := ?y]). Some (op_plan_revision_id t) \<noteq> active_plan s \<longrightarrow>
        op_obligation_state t = ObSuperseded"
    "\<forall>t \<in> set ((ws_obligations s)[i := ?y]).
        (op_plan_revision_id t, op_task_id t) \<in> task_key ` set (ws_tasks s)"
    using inv y act
    by (intro ball_list_update; simp add: snapshot_inv_def check_snapshot_iff)+
  show ?thesis
    using inv keys all
    by (simp add: snapshot_inv_def check_snapshot_iff with_obligation_def plan_identity_ok_def
        accepted_plan_values_def)
qed

text \<open>The four outcomes of a task execution fact, as the code branches.\<close>

lemma change_task_execution_cases:
  assumes inv: "snapshot_inv s"
  obtains (missing) e where "find_task s plan task = Inl e"
      "change_task_execution s plan task st = Inl e"
  | (late) i where "find_task s plan task = Inr i"
      "tp_execution_state (ws_tasks s ! i) = ExSuperseded"
      "change_task_execution s plan task st = Inr s"
  | (refused) i e where "find_task s plan task = Inr i"
      "tp_execution_state (ws_tasks s ! i) \<noteq> ExSuperseded"
      "change_task_execution s plan task st = Inl e" "projection_error e"
  | (changed) i where "find_task s plan task = Inr i"
      "tp_execution_state (ws_tasks s ! i) \<noteq> ExSuperseded" "active_plan s = Some plan"
      "task_transition_allowed (tp_execution_state (ws_tasks s ! i)) st"
      "change_task_execution s plan task st = Inr (with_task s i st)"
      "snapshot_inv (with_task s i st)"
proof (cases "find_task s plan task")
  case (Inl e)
  then show ?thesis by (intro missing) (simp_all add: change_task_execution_def)
next
  case (Inr i)
  note fi = find_task_Inr [OF Inr]
  show ?thesis
  proof (cases "tp_execution_state (ws_tasks s ! i) = ExSuperseded")
    case True
    then show ?thesis using Inr by (intro late) (simp_all add: change_task_execution_def)
  next
    case ns: False
    show ?thesis
    proof (cases "active_plan s = Some plan \<and>
        task_transition_allowed (tp_execution_state (ws_tasks s ! i)) st")
      case True
      have inv': "snapshot_inv (with_task s i st)"
        using with_task_inv [OF inv] fi True by simp
      have t: "check_task_projection ((ws_tasks s ! i)\<lparr>tp_execution_state := st\<rparr>) = Inr ()"
        using snapshot_inv_task [OF inv] fi by simp
      have cs: "check_snapshot (with_task s i st) = Inr ()" using inv' by (simp add: snapshot_inv_def)
      have "change_task_execution s plan task st = construct check_snapshot (with_task s i st)"
        using Inr ns True t
        by (simp add: change_task_execution_def require_active_plan_def Let_def with_task_def
            del: task_transition_allowed.simps)
      then have "change_task_execution s plan task st = Inr (with_task s i st)"
        using cs by simp
      with Inr ns True inv' show ?thesis by (intro changed) simp_all
    next
      case False
      then have "\<exists>e. change_task_execution s plan task st = Inl e \<and> projection_error e"
        using Inr ns by (cases "active_plan s = Some plan")
          (simp_all add: change_task_execution_def require_active_plan_def require_def Let_def
            del: task_transition_allowed.simps)
      then show ?thesis using Inr ns by (metis refused)
    qed
  qed
qed

lemma with_task_frame [simp]: "same_frame s (with_task s i st)"
  by (simp add: same_frame_def with_task_def)

lemma change_task_execution_reduces:
  assumes inv: "snapshot_inv s"
  shows "reduces s (change_task_execution s plan task st)"
  by (rule change_task_execution_cases [OF inv, of plan task st])
    (simp_all add: find_Inl inv)

lemma change_task_execution_batch_reduces:
  assumes "snapshot_inv s" and "check_task_batch h plan us = Inr ()"
  shows "reduces s (change_task_execution_batch s h plan us)"
proof -
  have ok: "\<forall>u \<in> set us. check_task_execution h plan (tu_task_id u) = Inr ()"
    using assms(2) by (simp add: check_task_batch_def check_task_execution_def)
  show ?thesis
    using assms(1) ok unfolding change_task_execution_batch_def
  proof (induction us arbitrary: s)
    case (Cons u us)
    have r: "reduces s (change_task_execution s plan (tu_task_id u) (tu_state u))"
      using Cons.prems(1) by (rule change_task_execution_reduces)
    show ?case
    proof (cases "change_task_execution s plan (tu_task_id u) (tu_state u)")
      case (Inl e)
      then show ?thesis using r Cons.prems by simp
    next
      case (Inr t)
      then have t: "snapshot_inv t" "same_frame s t" using r by simp_all
      have "reduces t (foldR (\<lambda>u r. bindR (check_task_execution h plan (tu_task_id u)) (\<lambda>_.
          change_task_execution r plan (tu_task_id u) (tu_state u))) us t)"
        using Cons.IH [OF t(1)] Cons.prems(2) by simp
      then have "reduces s (foldR (\<lambda>u r. bindR (check_task_execution h plan (tu_task_id u)) (\<lambda>_.
          change_task_execution r plan (tu_task_id u) (tu_state u))) us t)"
        using same_frame_trans [OF t(2)] by (auto simp: reduces_def split: sum.splits)
      then show ?thesis using Inr Cons.prems by simp
    qed
  qed simp
qed

lemma change_obligation_reduces:
  assumes inv: "snapshot_inv s"
  shows "reduces s (change_obligation s plan ob st)"
proof (cases "find_obligation s plan ob")
  case (Inl e)
  then show ?thesis by (simp add: change_obligation_def find_Inl)
next
  case (Inr i)
  note fi = find_obligation_Inr [OF Inr]
  show ?thesis
  proof (cases "op_obligation_state (ws_obligations s ! i) \<noteq> ObSuperseded \<and> active_plan s = Some plan")
    case False
    then show ?thesis using Inr inv
      by (auto simp: change_obligation_def require_active_plan_def require_def Let_def)
  next
    case True
    have inv': "snapshot_inv (with_obligation s i st)"
      using with_obligation_inv [OF inv] fi True by simp
    have t: "check_obligation_projection
        ((ws_obligations s ! i)\<lparr>op_obligation_state := st\<rparr>) = Inr ()"
      using snapshot_inv_obligation [OF inv] fi by simp
    have "change_obligation s plan ob st = construct check_snapshot (with_obligation s i st)"
      using Inr True t
      by (simp add: change_obligation_def require_active_plan_def Let_def with_obligation_def)
    moreover have "same_frame s (with_obligation s i st)"
      by (simp add: same_frame_def with_obligation_def)
    ultimately show ?thesis using reduces_construct [OF inv'] by simp
  qed
qed

subsection \<open>Changing the case axis\<close>

lemma with_case_inv:
  assumes "snapshot_inv s" and "check_case_projection c = Inr ()"
    and "cp_case_id c = cp_case_id (ws_case s)"
    and "cp_active_plan_revision_id c = cp_active_plan_revision_id (ws_case s)"
  shows "snapshot_inv (s\<lparr>ws_case := c\<rparr>)"
  using assms
  by (simp add: snapshot_inv_def check_snapshot_iff plan_identity_ok_def accepted_plan_values_def)

lemma change_publication_reduces:
  assumes inv: "snapshot_inv s" and f: "check_publication_fact h st ans = Inr ()"
  shows "reduces s (change_publication s st ans)"
proof (cases "st = PubSettled \<or> active_plan s = None")
  case True
  then show ?thesis by (auto simp: change_publication_def)
next
  case False
  let ?c = "(ws_case s)\<lparr>cp_publication_state := st, cp_accepted_answer_version_id := ans\<rparr>"
  have c: "check_case_projection ?c = Inr ()"
    using inv f False
    by (auto simp: snapshot_inv_def check_case_projection_iff check_publication_fact_def)
  have "change_publication s st ans = construct check_snapshot (s\<lparr>ws_case := ?c\<rparr>)"
    using False c by (auto simp: change_publication_def)
  moreover have "snapshot_inv (s\<lparr>ws_case := ?c\<rparr>)" using with_case_inv [OF inv c] by simp
  moreover have "same_frame s (s\<lparr>ws_case := ?c\<rparr>)" by (simp add: same_frame_def)
  ultimately show ?thesis using reduces_construct by simp
qed

lemma change_delivery_reduces:
  assumes inv: "snapshot_inv s"
  shows "reduces s (change_delivery s st)"
proof (cases "st = Delivered")
  case True
  then show ?thesis by (simp add: change_delivery_def)
next
  case False
  let ?c = "(ws_case s)\<lparr>cp_delivery_state := st\<rparr>"
  have c: "check_case_projection ?c = Inr ()"
    using inv False by (auto simp: snapshot_inv_def check_case_projection_iff)
  have "change_delivery s st = construct check_snapshot (s\<lparr>ws_case := ?c\<rparr>)"
    using False c by (simp add: change_delivery_def)
  moreover have "snapshot_inv (s\<lparr>ws_case := ?c\<rparr>)" using with_case_inv [OF inv c] by simp
  moreover have "same_frame s (s\<lparr>ws_case := ?c\<rparr>)" by (simp add: same_frame_def)
  ultimately show ?thesis using reduces_construct by simp
qed

theorem reduce_snapshot_reduces:
  assumes "snapshot_inv s" and "valid_fact f" and "case_of f = cp_case_id (ws_case s)"
  shows "reduces s (reduce_snapshot s f)"
  using assms
  by (cases f) (simp_all add: valid_fact_def accept_plan_reduces supersede_authority_reduces
      change_task_execution_reduces change_task_execution_batch_reduces change_obligation_reduces
      change_publication_reduces change_delivery_reduces)

section \<open>How the state of one task moves\<close>

text \<open>\<open>moves x t\<close>: the projection \<open>x\<close> is still in \<open>t\<close>, one allowed transition further at most.\<close>

definition moves :: "WorkflowTaskProjection \<Rightarrow> WorkflowSnapshot \<Rightarrow> bool" where
  "moves x t \<longleftrightarrow> (\<exists>y \<in> set (ws_tasks t). task_key y = task_key x \<and> tp_case_id y = tp_case_id x \<and>
     tp_business_label y = tp_business_label x \<and>
     task_transition_allowed (tp_execution_state x) (tp_execution_state y))"

lemma transition_refl [simp]: "task_transition_allowed st st"
  by simp

lemma transition_superseded [simp]:
  "task_transition_allowed ExSuperseded st \<longleftrightarrow> st = ExSuperseded"
  "task_transition_allowed st ExSuperseded"
  by simp_all

declare task_transition_allowed.simps [simp del]

lemma moves_stay: "x \<in> set (ws_tasks t) \<Longrightarrow> moves x t"
  unfolding moves_def by (rule bexI [of _ x]) simp_all

lemma moves_superseded:
  "superseded_task p x \<in> set (ws_tasks t) \<Longrightarrow> moves x t"
  unfolding moves_def by (rule bexI [of _ "superseded_task p x"]) (simp_all add: superseded_task_state)

lemma with_task_moves:
  assumes x: "x \<in> set (ws_tasks s)" and i: "i < length (ws_tasks s)"
    and tr: "task_transition_allowed (tp_execution_state (ws_tasks s ! i)) st"
  shows "moves x (with_task s i st)" and "x \<noteq> ws_tasks s ! i \<Longrightarrow> x \<in> set (ws_tasks (with_task s i st))"
proof -
  obtain j where j: "j < length (ws_tasks s)" "x = ws_tasks s ! j"
    using x by (auto simp: in_set_conv_nth)
  have stay: "x \<in> set (ws_tasks (with_task s i st))" if "j \<noteq> i"
    using j that by (auto simp: with_task_def in_set_conv_nth nth_list_update intro!: exI [of _ j])
  then show "x \<noteq> ws_tasks s ! i \<Longrightarrow> x \<in> set (ws_tasks (with_task s i st))" using j by blast
  show "moves x (with_task s i st)"
  proof (cases "j = i")
    case True
    then show ?thesis unfolding moves_def
      by (intro bexI [of _ "x\<lparr>tp_execution_state := st\<rparr>"])
        (use j tr in \<open>auto simp: task_key_def with_task_def in_set_conv_nth intro!: exI [of _ i]\<close>)
  qed (use stay moves_stay in blast)
qed

lemma change_task_execution_moves:
  assumes inv: "snapshot_inv s" and run: "change_task_execution s plan task st = Inr t"
    and x: "x \<in> set (ws_tasks s)"
  shows "moves x t" and "task_key x \<noteq> (plan, task) \<Longrightarrow> x \<in> set (ws_tasks t)"
    and "tp_execution_state x = ExSuperseded \<Longrightarrow> x \<in> set (ws_tasks t)"
proof -
  have "moves x t \<and> (task_key x \<noteq> (plan, task) \<longrightarrow> x \<in> set (ws_tasks t)) \<and>
      (tp_execution_state x = ExSuperseded \<longrightarrow> x \<in> set (ws_tasks t))"
    using inv
  proof (cases rule: change_task_execution_cases [of s plan task st])
    case (late i)
    then show ?thesis using run x moves_stay by auto
  next
    case (changed i)
    note fi = find_task_Inr [OF changed(1)]
    have t: "t = with_task s i st" using changed run by simp
    show ?thesis
      using with_task_moves [OF x conjunct1 [OF fi] changed(4)] t fi changed(2)
      by (auto simp: task_key_def)
  qed (use run in auto)
  then show "moves x t" and "task_key x \<noteq> (plan, task) \<Longrightarrow> x \<in> set (ws_tasks t)"
    and "tp_execution_state x = ExSuperseded \<Longrightarrow> x \<in> set (ws_tasks t)" by blast+
qed

lemma change_task_execution_batch_moves:
  assumes "snapshot_inv s" and "change_task_execution_batch s h plan us = Inr t"
    and "distinct (map tu_task_id us)" and "x \<in> set (ws_tasks s)"
  shows "moves x t \<and> (task_key x \<notin> set (map (\<lambda>u. (plan, tu_task_id u)) us) \<longrightarrow> x \<in> set (ws_tasks t)) \<and>
    (tp_execution_state x = ExSuperseded \<longrightarrow> x \<in> set (ws_tasks t))"
  using assms unfolding change_task_execution_batch_def
proof (induction us arbitrary: s x)
  case Nil
  then show ?case by (simp add: moves_stay)
next
  case (Cons u us)
  let ?run = "foldR (\<lambda>u r. bindR (check_task_execution h plan (tu_task_id u)) (\<lambda>_.
          change_task_execution r plan (tu_task_id u) (tu_state u))) us"
  from Cons.prems(2) obtain s1 where s1: "change_task_execution s plan (tu_task_id u) (tu_state u) = Inr s1"
    and rest: "?run s1 = Inr t" by (auto simp: result_simps)
  note mv = change_task_execution_moves [OF Cons.prems(1) s1 Cons.prems(4)]
  have "reduces s (change_task_execution s plan (tu_task_id u) (tu_state u))"
    using Cons.prems(1) by (rule change_task_execution_reduces)
  then have inv1: "snapshot_inv s1" using s1 by simp
  have IH: "y \<in> set (ws_tasks s1) \<Longrightarrow> moves y t \<and>
      (task_key y \<notin> set (map (\<lambda>u. (plan, tu_task_id u)) us) \<longrightarrow> y \<in> set (ws_tasks t)) \<and>
      (tp_execution_state y = ExSuperseded \<longrightarrow> y \<in> set (ws_tasks t))" for y
    using Cons.IH [OF inv1 rest] Cons.prems(3) by simp
  show ?case
  proof (cases "task_key x = (plan, tu_task_id u)")
    case False
    then show ?thesis using IH [OF mv(2)] mv(3) by auto
  next
    case True
    obtain y where y: "y \<in> set (ws_tasks s1)" "task_key y = task_key x" "tp_case_id y = tp_case_id x"
      "tp_business_label y = tp_business_label x"
      "task_transition_allowed (tp_execution_state x) (tp_execution_state y)"
      using mv(1) by (auto simp: moves_def)
    have "task_key y \<notin> set (map (\<lambda>u. (plan, tu_task_id u)) us)"
      using y(2) True Cons.prems(3) by auto
    then have "y \<in> set (ws_tasks t)" using IH [OF y(1)] by blast
    then have "moves x t" unfolding moves_def using y by blast
    then show ?thesis using True mv(3) IH by auto
  qed
qed

lemma accept_plan_run:
  assumes inv: "snapshot_inv s" and run: "accept_plan s h p = Inr t"
  shows "ws_tasks t = sort_key task_key
      (map (superseded_task (active_plan s)) (ws_tasks s) @ map (accepted_task h p) (pa_tasks p))"
    and "ws_obligations t = sort_key obligation_key
      (map (superseded_obligation (active_plan s)) (ws_obligations s) @
       map (accepted_obligation h p) (pa_obligations p))"
    and "active_plan t = Some (pa_plan_revision_id p)"
proof -
  have old: "sequenceR (map (supersede_task (active_plan s)) (ws_tasks s)) =
      Inr (map (superseded_task (active_plan s)) (ws_tasks s))"
    "sequenceR (map (supersede_obligation (active_plan s)) (ws_obligations s)) =
      Inr (map (superseded_obligation (active_plan s)) (ws_obligations s))"
    using inv by (simp_all add: snapshot_inv_def supersede_tasks_total supersede_obligations_total)
  have new: "sequenceR (map (\<lambda>d. construct check_task_projection (accepted_task h p d)) ds) = Inr ts \<Longrightarrow>
      ts = map (accepted_task h p) ds"
    "sequenceR (map (\<lambda>d. construct check_obligation_projection (accepted_obligation h p d)) es) = Inr us \<Longrightarrow>
      us = map (accepted_obligation h p) es" for ds ts es us
    by (auto simp: sequenceR_Inr_iff list_eq_iff_nth_eq)
  obtain ts us c where "sequenceR (map (\<lambda>d. construct check_task_projection (accepted_task h p d)) (pa_tasks p)) = Inr ts"
    "sequenceR (map (\<lambda>d. construct check_obligation_projection (accepted_obligation h p d)) (pa_obligations p)) = Inr us"
    "t = accepted_snapshot s p c (map (superseded_task (active_plan s)) (ws_tasks s) @ ts)
       (map (superseded_obligation (active_plan s)) (ws_obligations s) @ us)"
    "cp_active_plan_revision_id c = Some (pa_plan_revision_id p)"
    using run old by (auto simp: accept_plan_def result_simps split: if_splits)
  then show "ws_tasks t = sort_key task_key
      (map (superseded_task (active_plan s)) (ws_tasks s) @ map (accepted_task h p) (pa_tasks p))"
    and "ws_obligations t = sort_key obligation_key
      (map (superseded_obligation (active_plan s)) (ws_obligations s) @
       map (accepted_obligation h p) (pa_obligations p))"
    and "active_plan t = Some (pa_plan_revision_id p)"
    using new by (simp_all add: accepted_snapshot_def)
qed

lemma supersede_authority_run:
  assumes inv: "snapshot_inv s" and run: "supersede_authority s a = Inr t"
  shows "ws_tasks t = map (superseded_task (active_plan s)) (ws_tasks s)"
    and "ws_obligations t = map (superseded_obligation (active_plan s)) (ws_obligations s)"
    and "active_plan t = None"
proof -
  let ?p = "Some (as_superseded_plan_revision_id a)"
  have old: "sequenceR (map (supersede_task ?p) (ws_tasks s)) = Inr (map (superseded_task ?p) (ws_tasks s))"
    "sequenceR (map (supersede_obligation ?p) (ws_obligations s)) =
      Inr (map (superseded_obligation ?p) (ws_obligations s))"
    using inv by (simp_all add: snapshot_inv_def supersede_tasks_total supersede_obligations_total)
  show "ws_tasks t = map (superseded_task (active_plan s)) (ws_tasks s)"
    and "ws_obligations t = map (superseded_obligation (active_plan s)) (ws_obligations s)"
    and "active_plan t = None"
    using run old by (auto simp: supersede_authority_def result_simps split: if_splits)
qed

lemma superseded_task_fixed: "tp_execution_state x = ExSuperseded \<Longrightarrow> superseded_task p x = x"
  by (cases x) (simp add: superseded_task_def)

lemma superseded_obligation_fixed:
  "op_obligation_state x = ObSuperseded \<Longrightarrow> superseded_obligation p x = x"
  by (cases x) (simp add: superseded_obligation_def)

theorem reduce_snapshot_moves:
  assumes inv: "snapshot_inv s" and f: "valid_fact f" and run: "reduce_snapshot s f = Inr t"
    and x: "x \<in> set (ws_tasks s)"
  shows "moves x t \<and> (tp_execution_state x = ExSuperseded \<longrightarrow> x \<in> set (ws_tasks t))"
proof (cases f)
  case (PlanAcceptedFact h p)
  then have "superseded_task (active_plan s) x \<in> set (ws_tasks t)"
    using accept_plan_run(1) [OF inv] run x by simp
  then show ?thesis using moves_superseded superseded_task_fixed by metis
next
  case (AuthoritySupersededFact h a)
  then have "superseded_task (active_plan s) x \<in> set (ws_tasks t)"
    using supersede_authority_run(1) [OF inv] run x by simp
  then show ?thesis using moves_superseded superseded_task_fixed by metis
next
  case (TaskExecutionFact h plan task st)
  then show ?thesis using change_task_execution_moves [OF inv _ x] run by auto
next
  case (TaskExecutionBatchFact h plan us)
  then have "distinct (map tu_task_id us)" using f by (simp add: valid_fact_def check_task_batch_def)
  then show ?thesis
    using change_task_execution_batch_moves [OF inv _ _ x] run TaskExecutionBatchFact by auto
next
  case (ObligationDispositionFact h plan ob st)
  then show ?thesis using run x
    by (auto simp: change_obligation_def result_simps Let_def moves_stay split: if_splits)
next
  case (PublicationDispositionFact h st ans)
  then show ?thesis using run x
    by (auto simp: change_publication_def result_simps moves_stay split: if_splits)
next
  case (DeliveryDispositionFact h st)
  then show ?thesis using run x
    by (auto simp: change_delivery_def result_simps moves_stay split: if_splits)
next
  case (WorkflowNoChangeFact h)
  then show ?thesis using run x by (simp add: moves_stay)
qed

lemma change_task_execution_obligations:
  "change_task_execution s plan task st = Inr t \<Longrightarrow> ws_obligations t = ws_obligations s"
  by (auto simp: change_task_execution_def result_simps Let_def split: if_splits)

theorem reduce_snapshot_keeps_superseded_obligation:
  assumes inv: "snapshot_inv s" and run: "reduce_snapshot s f = Inr t"
    and x: "x \<in> set (ws_obligations s)" and sup: "op_obligation_state x = ObSuperseded"
  shows "x \<in> set (ws_obligations t)"
proof (cases f)
  case (PlanAcceptedFact h p)
  then have "superseded_obligation (active_plan s) x \<in> set (ws_obligations t)"
    using accept_plan_run(2) [OF inv] run x by simp
  then show ?thesis using superseded_obligation_fixed [OF sup] by simp
next
  case (AuthoritySupersededFact h a)
  then have "superseded_obligation (active_plan s) x \<in> set (ws_obligations t)"
    using supersede_authority_run(2) [OF inv] run x by simp
  then show ?thesis using superseded_obligation_fixed [OF sup] by simp
next
  case (TaskExecutionFact h plan task st)
  then show ?thesis using change_task_execution_obligations run x by fastforce
next
  case (TaskExecutionBatchFact h plan us)
  then have "foldR (\<lambda>u r. bindR (check_task_execution h plan (tu_task_id u)) (\<lambda>_.
          change_task_execution r plan (tu_task_id u) (tu_state u))) us s = Inr t"
    using run by (simp add: change_task_execution_batch_def)
  then have "ws_obligations t = ws_obligations s"
    by (rule foldR_invariant [where P = "\<lambda>r. ws_obligations r = ws_obligations s"])
      (auto simp: result_simps change_task_execution_obligations)
  then show ?thesis using x by simp
next
  case (ObligationDispositionFact h plan ob st)
  show ?thesis
  proof (cases "t = s")
    case False
    then obtain i y where y: "op_obligation_state (ws_obligations s ! i) \<noteq> ObSuperseded"
      "ws_obligations t = (ws_obligations s)[i := y]"
      using run ObligationDispositionFact
      by (auto simp: change_obligation_def result_simps Let_def split: if_splits)
    obtain j where j: "j < length (ws_obligations s)" "x = ws_obligations s ! j"
      using x by (auto simp: in_set_conv_nth)
    then have "j \<noteq> i" using y(1) sup by auto
    then show ?thesis using y(2) j
      by (auto simp: in_set_conv_nth nth_list_update intro!: exI [of _ j])
  qed (use x in simp)
qed (use run x in \<open>auto simp: change_publication_def change_delivery_def result_simps split: if_splits\<close>)

end
