(* ===== verification/EventProjection.thy ===== *)
theory EventProjection imports Prelude begin

text \<open>
  The contract of an idempotent consumer: an operation that is delivered events at least once and
  recognises the ones it has consumed.  The Workflow projection and the event journal provide it.
\<close>

primrec first_deliveries :: "'f list \<Rightarrow> 'f list \<Rightarrow> 'f list" where
  "first_deliveries seen [] = []"
| "first_deliveries seen (f # fs) =
     (if f \<in> set seen then first_deliveries seen fs else f # first_deliveries (f # seen) fs)"

locale idempotent_consumer =
  fixes consume :: "'f \<Rightarrow> 'm \<Rightarrow> 'm result"
    and consumed :: "'m \<Rightarrow> 'f \<Rightarrow> bool"
    and inv :: "'m \<Rightarrow> bool"
    and ok :: "'f \<Rightarrow> bool"
  assumes keeps: "inv m \<Longrightarrow> ok f \<Longrightarrow> consume f m = Inr m' \<Longrightarrow> inv m'"
    and records: "inv m \<Longrightarrow> ok f \<Longrightarrow> consume f m = Inr m' \<Longrightarrow> consumed m' f"
    and remembers: "inv m \<Longrightarrow> ok f \<Longrightarrow> consume f m = Inr m' \<Longrightarrow> consumed m g \<Longrightarrow> consumed m' g"
    and skips: "inv m \<Longrightarrow> consumed m f \<Longrightarrow> consume f m = Inr m"
begin

lemma run_inv:
  "inv m \<Longrightarrow> \<forall>f \<in> set fs. ok f \<Longrightarrow> foldR consume fs m = Inr m' \<Longrightarrow> inv m'"
proof (induction fs arbitrary: m)
  case (Cons f fs)
  then obtain u where "consume f m = Inr u" "foldR consume fs u = Inr m'"
    by (auto simp: result_simps)
  then show ?case using Cons keeps by (metis list.set_intros)
qed simp

lemma run_remembers:
  "inv m \<Longrightarrow> \<forall>f \<in> set fs. ok f \<Longrightarrow> foldR consume fs m = Inr m' \<Longrightarrow> consumed m g \<or> g \<in> set fs \<Longrightarrow>
   consumed m' g"
proof (induction fs arbitrary: m)
  case (Cons f fs)
  then obtain u where u: "consume f m = Inr u" "foldR consume fs u = Inr m'"
    by (auto simp: result_simps)
  have "ok f" using Cons.prems by simp
  then have iu: "inv u" and "consumed u f" and "consumed m g \<Longrightarrow> consumed u g"
    using Cons.prems(1) u(1) keeps records remembers by blast+
  then have "consumed u g \<or> g \<in> set fs" using Cons.prems(4) by auto
  then show ?case using Cons.IH [OF iu] Cons.prems(2) u(2) by simp
qed simp

lemma redelivery:
  assumes "inv m" and "\<forall>f \<in> set fs. ok f" and "foldR consume fs m = Inr m'" and "g \<in> set fs"
  shows "consume g m' = Inr m'"
  using run_inv [OF assms(1-3)] run_remembers [OF assms(1-3)] assms(4) skips by blast

lemma run_first_deliveries_seen:
  "inv m \<Longrightarrow> \<forall>f \<in> set fs. ok f \<Longrightarrow> \<forall>g \<in> set seen. consumed m g \<Longrightarrow>
   foldR consume fs m = foldR consume (first_deliveries seen fs) m"
proof (induction fs arbitrary: m seen)
  case (Cons f fs)
  show ?case
  proof (cases "f \<in> set seen")
    case True
    then have "consume f m = Inr m" using Cons.prems skips by blast
    then show ?thesis using True Cons.IH [OF Cons.prems(1), of seen] Cons.prems by simp
  next
    case False
    show ?thesis
    proof (cases "consume f m")
      case (Inr u)
      have "ok f" using Cons.prems by simp
      then have "inv u" and "\<forall>g \<in> set (f # seen). consumed u g"
        using Cons.prems(1,3) Inr keeps records remembers by (blast, auto)
      then show ?thesis using False Inr Cons.IH [of u "f # seen"] Cons.prems(2) by simp
    qed (use False in simp)
  qed
qed simp

lemma run_first_deliveries:
  assumes "inv m" and "\<forall>f \<in> set fs. ok f"
  shows "foldR consume fs m = foldR consume (first_deliveries [] fs) m"
  using run_first_deliveries_seen [of m fs "[]"] assms by simp

end

end
