(* ===== verification/WorkflowTheorems.thy ===== *)
theory WorkflowTheorems imports WorkflowInvariants EventProjection begin

text \<open>
  The read model: its invariant, that \<open>apply_workflow_fact\<close> keeps it, and the properties of
  replays.
\<close>

section \<open>The invariant of the read model\<close>

definition model_inv :: "WorkflowReadModel \<Rightarrow> bool" where
  "model_inv m \<longleftrightarrow>
     check_read_model m = Inr () \<and> check_head (wm_head m) = Inr () \<and>
     (\<forall>r \<in> set (wm_receipts m). check_receipt r = Inr ()) \<and> snapshot_inv (wm_snapshot m) \<and>
     (wm_receipts m = [] \<longrightarrow>
        initial_snapshot (wh_case_id (wm_head m)) (ws_realm (wm_snapshot m))
          (ws_evidence_profile (wm_snapshot m)) = Inr (wm_snapshot m))"

lemma check_chain_snoc:
  "check_chain p d (rs @ [r]) = Inr () \<longleftrightarrow>
     check_chain p d rs = Inr () \<and>
     wr_prior_receipt_id r = (if rs = [] then p else Some (wr_receipt_id (last rs))) \<and>
     wr_prior_snapshot_sha256 r = (if rs = [] then d else wr_resulting_snapshot_sha256 (last rs))"
  by (induction rs arbitrary: p d) auto

lemma model_inv_facts:
  assumes "model_inv m"
  shows "wh_case_id (wm_head m) = cp_case_id (ws_case (wm_snapshot m))"
    and "last_cursor m = ws_applied_cursor (wm_snapshot m)" and "0 \<le> last_cursor m"
    and "wh_version (wm_head m) = last_cursor m"
    and "wh_snapshot_sha256 (wm_head m) = snapshot_sha256 (wm_snapshot m)"
    and "map wr_cursor (wm_receipts m) = [1..last_cursor m]"
    and "length (wm_receipts m) = nat (last_cursor m)"
    and "nonempty (wh_case_id (wm_head m))"
proof -
  have c: "check_read_model m = Inr ()" "check_head (wm_head m) = Inr ()"
    using assms by (simp_all add: model_inv_def)
  then show "wh_case_id (wm_head m) = cp_case_id (ws_case (wm_snapshot m))"
    and "last_cursor m = ws_applied_cursor (wm_snapshot m)"
    and "0 \<le> last_cursor m" and "wh_version (wm_head m) = last_cursor m"
    and "wh_snapshot_sha256 (wm_head m) = snapshot_sha256 (wm_snapshot m)"
    and cur: "map wr_cursor (wm_receipts m) = [1..last_cursor m]"
    and "nonempty (wh_case_id (wm_head m))"
    by (simp_all add: check_read_model_def check_head_def Let_def not_less)
  from arg_cong [OF cur, of length]
  show "length (wm_receipts m) = nat (last_cursor m)" by simp
qed

lemma initial_model_total:
  assumes "nonempty cid"
  obtains m where "initial_workflow_read_model cid realm profile = Inr m" and "model_inv m"
    and "wm_receipts m = []" and "last_cursor m = 0" and "wh_case_id (wm_head m) = cid"
    and "initial_snapshot cid realm profile = Inr (wm_snapshot m)"
proof -
  obtain s where s: "initial_snapshot cid realm profile = Inr s" "snapshot_inv s"
    "cp_case_id (ws_case s) = cid" "ws_applied_cursor s = 0" "ws_realm s = realm"
    "ws_evidence_profile s = profile"
    using assms by (rule initial_snapshot_total)
  let ?h = "\<lparr>wh_case_id = cid, wh_version = 0, wh_last_applied_cursor = 0,
        wh_snapshot_id = snapshot_id s, wh_snapshot_sha256 = snapshot_sha256 s,
        wh_last_receipt_id = None\<rparr>"
  let ?m = "\<lparr>wm_head = ?h, wm_snapshot = s, wm_receipts = []\<rparr>"
  have h: "check_head ?h = Inr ()"
    using assms by (simp add: check_head_def snapshot_id_def snapshot_sha256_def)
  have m: "check_read_model ?m = Inr ()"
    using s by (simp add: check_read_model_def)
  have "initial_workflow_read_model cid realm profile = Inr ?m"
    using s(1) h m assms
    by (simp add: initial_workflow_read_model_def require_nonempty_def)
  moreover have "model_inv ?m" using s h m by (simp add: model_inv_def)
  ultimately show thesis using s by (intro that [of ?m]) simp_all
qed

section \<open>One fact\<close>

lemma build_receipt_total:
  assumes "valid_fact f" and "case_of f = cid" and "nonempty cid"
    and "(cursor_of f = 1) = (prior = None)" and "pred_option is_sha256 prior"
  obtains r where "build_receipt s prior t f = Inr r" and "check_receipt r = Inr ()"
    and "wr_cursor r = cursor_of f" and "wr_case_id r = cid" and "wr_source_event_id r = event_of f"
    and "wr_source_event_sha256 r = event_sha_of f" and "wr_fact_id r = workflow_fact_id f"
    and "wr_fact_sha256 r = fact_sha256 f" and "wr_prior_receipt_id r = prior"
    and "wr_prior_snapshot_sha256 r = snapshot_sha256 s" and "is_sha256 (wr_receipt_id r)"
    and "wr_resulting_snapshot_id r = snapshot_id t"
    and "wr_resulting_snapshot_sha256 r = snapshot_sha256 t"
proof -
  let ?r = "\<lparr>wr_receipt_id = '''', wr_case_id = case_of f, wr_cursor = cursor_of f,
               wr_source_event_id = event_of f, wr_source_event_sha256 = event_sha_of f,
               wr_fact_id = workflow_fact_id f, wr_fact_sha256 = fact_sha256 f,
               wr_prior_receipt_id = prior,
               wr_prior_snapshot_sha256 = snapshot_sha256 s,
               wr_resulting_snapshot_id = snapshot_id t,
               wr_resulting_snapshot_sha256 = snapshot_sha256 t\<rparr>"
  define r where "r = ?r\<lparr>wr_receipt_id := receipt_id ?r\<rparr>"
  have h: "validate_fact_header (header f) = Inr ()" using assms(1) by (rule valid_fact_header)
  have id: "receipt_id r = receipt_id ?r" by (simp add: r_def receipt_id_def)
  have "check_receipt r = Inr ()"
    using h assms id
    by (simp add: check_receipt_def validate_fact_header_def r_def workflow_fact_id_def
        fact_sha256_def snapshot_id_def snapshot_sha256_def receipt_id_def)
  then show thesis
    using that [of r] assms(2)
    by (simp add: build_receipt_def Let_def r_def receipt_id_def)
qed

lemma snapshot_inv_cursor:
  "snapshot_inv s \<Longrightarrow> 0 \<le> k \<Longrightarrow> snapshot_inv (s\<lparr>ws_applied_cursor := k\<rparr>)"
  by (simp add: snapshot_inv_def check_snapshot_iff plan_identity_ok_def accepted_plan_values_def)

lemma model_inv_last_receipt:
  assumes "model_inv m"
  shows "(last_cursor m = 0) = (wm_receipts m = [])"
    and "wh_last_receipt_id (wm_head m) =
      (if wm_receipts m = [] then None else Some (wr_receipt_id (last (wm_receipts m))))"
    and "pred_option is_sha256 (wh_last_receipt_id (wm_head m))"
    and "wm_receipts m \<noteq> [] \<Longrightarrow>
      wr_resulting_snapshot_sha256 (last (wm_receipts m)) = snapshot_sha256 (wm_snapshot m)"
proof -
  note mf = model_inv_facts [OF assms]
  show e: "(last_cursor m = 0) = (wm_receipts m = [])"
    using mf(3,7) by (metis length_0_conv nat_0_iff order_antisym_conv)
  have c: "check_read_model m = Inr ()" "check_head (wm_head m) = Inr ()"
    using assms by (simp_all add: model_inv_def)
  then show "wh_last_receipt_id (wm_head m) =
      (if wm_receipts m = [] then None else Some (wr_receipt_id (last (wm_receipts m))))"
    using e by (auto simp: check_read_model_def check_head_def Let_def)
  show "pred_option is_sha256 (wh_last_receipt_id (wm_head m))"
    using c by (simp add: check_head_def)
  show "wm_receipts m \<noteq> [] \<Longrightarrow>
      wr_resulting_snapshot_sha256 (last (wm_receipts m)) = snapshot_sha256 (wm_snapshot m)"
    using c mf(5) by (simp add: check_read_model_def Let_def)
qed

lemma extended_read_model_ok:
  assumes inv: "model_inv m" and k: "k = last_cursor m + 1"
    and frame: "same_frame (wm_snapshot m) t"
    and r: "wr_cursor r = k" "wr_case_id r = wh_case_id (wm_head m)"
      "wr_prior_receipt_id r = wh_last_receipt_id (wm_head m)"
      "wr_prior_snapshot_sha256 r = snapshot_sha256 (wm_snapshot m)"
      "wr_resulting_snapshot_id r = snapshot_id u" "wr_resulting_snapshot_sha256 r = snapshot_sha256 u"
    and u: "u = t\<lparr>ws_applied_cursor := k\<rparr>"
    and fresh: "\<forall>q \<in> set (wm_receipts m). wr_source_event_id q \<noteq> wr_source_event_id r \<and>
        wr_source_event_sha256 q \<noteq> wr_source_event_sha256 r"
    and h: "h = \<lparr>wh_case_id = wh_case_id (wm_head m), wh_version = wh_version (wm_head m) + 1,
        wh_last_applied_cursor = k, wh_snapshot_id = snapshot_id u,
        wh_snapshot_sha256 = snapshot_sha256 u, wh_last_receipt_id = Some (wr_receipt_id r)\<rparr>"
  shows "check_read_model \<lparr>wm_head = h, wm_snapshot = u, wm_receipts = wm_receipts m @ [r]\<rparr> = Inr ()"
proof -
  note mf = model_inv_facts [OF inv] and ml = model_inv_last_receipt [OF inv]
  let ?cid = "wh_case_id (wm_head m)" and ?rs = "wm_receipts m" and ?s = "wm_snapshot m"
  have rm: "check_read_model m = Inr ()" using inv by (simp add: model_inv_def)
  have fr: "ws_realm u = ws_realm ?s" "ws_evidence_profile u = ws_evidence_profile ?s"
    "cp_case_id (ws_case u) = ?cid"
    using frame u mf(1) by (simp_all add: same_frame_def)
  obtain s0 where s0: "initial_snapshot ?cid (ws_realm ?s) (ws_evidence_profile ?s) = Inr s0"
    using initial_snapshot_total [OF mf(8)] by blast
  have chain: "check_chain None (snapshot_sha256 s0) (?rs @ [r]) = Inr ()"
  proof (cases "?rs = []")
    case True
    then have "s0 = ?s" using inv s0 by (simp add: model_inv_def)
    then show ?thesis using True r ml(2) by simp
  next
    case False
    have "check_chain None (snapshot_sha256 s0) ?rs = Inr ()"
      using rm False s0 by (simp add: check_read_model_def Let_def)
    then show ?thesis using False r ml by (simp add: check_chain_snoc)
  qed
  have cur: "map wr_cursor (?rs @ [r]) = [1..k]"
    using mf(3,6) r(1) k by (simp add: upto_rec2)
  have dist: "distinct (map wr_source_event_id (?rs @ [r]))"
    "distinct (map wr_source_event_sha256 (?rs @ [r]))"
    using rm fresh by (auto simp: check_read_model_def Let_def)
  have own: "\<forall>q \<in> set (?rs @ [r]). wr_case_id q = ?cid"
    using rm r(2) by (auto simp: check_read_model_def Let_def)
  show ?thesis
    using chain cur dist own fr s0 u r(5,6)
    by (simp add: check_read_model_def Let_def h del: map_append set_append distinct_append)
qed

text \<open>
  \<open>applies m r\<close>: \<open>r\<close> is the extension of \<open>m\<close> by one receipt, or a projection error.
\<close>

lemma next_model_cases:
  assumes inv: "model_inv m" and f: "valid_fact f" and cid: "case_of f = wh_case_id (wm_head m)"
    and cur: "cursor_of f = last_cursor m + 1"
    and fresh: "\<forall>q \<in> set (wm_receipts m). wr_source_event_id q \<noteq> event_of f \<and>
        wr_source_event_sha256 q \<noteq> event_sha_of f"
  obtains (refused) e where "next_model m f = Inl e" and "projection_error e"
      and "reduce_snapshot (wm_snapshot m) f = Inl e"
  | (extended) m' t r where "next_model m f = Inr m'" and "model_inv m'"
      and "reduce_snapshot (wm_snapshot m) f = Inr t"
      and "wm_snapshot m' = t\<lparr>ws_applied_cursor := cursor_of f\<rparr>" and "snapshot_inv t"
      and "wm_receipts m' = wm_receipts m @ [r]" and "wr_fact_id r = workflow_fact_id f"
      and "wr_fact_sha256 r = fact_sha256 f" and "wr_source_event_id r = event_of f"
      and "wr_source_event_sha256 r = event_sha_of f" and "last_cursor m' = last_cursor m + 1"
      and "wh_case_id (wm_head m') = wh_case_id (wm_head m)"
proof -
  note mf = model_inv_facts [OF inv] and ml = model_inv_last_receipt [OF inv]
  have si: "snapshot_inv (wm_snapshot m)" using inv by (simp add: model_inv_def)
  have red: "reduces (wm_snapshot m) (reduce_snapshot (wm_snapshot m) f)"
    using reduce_snapshot_reduces [OF si f] cid mf(1) by simp
  show thesis
  proof (cases "reduce_snapshot (wm_snapshot m) f")
    case (Inl e)
    then show ?thesis using red by (intro refused) (simp_all add: next_model_def)
  next
    case (Inr t)
    then have t: "snapshot_inv t" "same_frame (wm_snapshot m) t" using red by simp_all
    let ?u = "t\<lparr>ws_applied_cursor := cursor_of f\<rparr>"
    have u: "snapshot_inv ?u" using t(1) cur mf(3) by (intro snapshot_inv_cursor) simp_all
    then have cu: "check_snapshot ?u = Inr ()" by (simp add: snapshot_inv_def)
    have pr: "(cursor_of f = 1) = (wh_last_receipt_id (wm_head m) = None)"
      using cur ml(1,2) by auto
    obtain r where r: "build_receipt (wm_snapshot m) (wh_last_receipt_id (wm_head m)) ?u f = Inr r"
      "check_receipt r = Inr ()" "wr_cursor r = cursor_of f" "wr_case_id r = wh_case_id (wm_head m)"
      "wr_source_event_id r = event_of f" "wr_source_event_sha256 r = event_sha_of f"
      "wr_fact_id r = workflow_fact_id f" "wr_fact_sha256 r = fact_sha256 f"
      "wr_prior_receipt_id r = wh_last_receipt_id (wm_head m)"
      "wr_prior_snapshot_sha256 r = snapshot_sha256 (wm_snapshot m)" "is_sha256 (wr_receipt_id r)"
      "wr_resulting_snapshot_id r = snapshot_id ?u"
      "wr_resulting_snapshot_sha256 r = snapshot_sha256 ?u"
      by (rule build_receipt_total [OF f cid mf(8) pr ml(3), of "wm_snapshot m" ?u])
    define h where "h = \<lparr>wh_case_id = wh_case_id (wm_head m), wh_version = wh_version (wm_head m) + 1,
        wh_last_applied_cursor = cursor_of f, wh_snapshot_id = snapshot_id ?u,
        wh_snapshot_sha256 = snapshot_sha256 ?u, wh_last_receipt_id = Some (wr_receipt_id r)\<rparr>"
    let ?m = "\<lparr>wm_head = h, wm_snapshot = ?u, wm_receipts = wm_receipts m @ [r]\<rparr>"
    have h: "check_head h = Inr ()"
      using mf(3,4,8) cur r(11) by (simp add: check_head_def h_def snapshot_id_def snapshot_sha256_def)
    have rm: "check_read_model ?m = Inr ()"
      by (rule extended_read_model_ok [OF inv cur t(2) r(3,4,9,10,12,13) refl _ h_def])
        (use fresh r(5,6) in auto)
    have "next_model m f = Inr ?m"
      using Inr cu r(1) h rm by (simp add: next_model_def flip: h_def)
    moreover have "model_inv ?m"
      using inv rm h r(2) u by (auto simp: model_inv_def)
    ultimately show ?thesis
      using Inr t(1) r(5-8) cur by (intro extended [of ?m t r]) (simp_all add: h_def)
  qed
qed

section \<open>Applying a fact\<close>

definition consumed :: "WorkflowReadModel \<Rightarrow> WorkflowFact \<Rightarrow> bool" where
  "consumed m f \<longleftrightarrow> case_of f = wh_case_id (wm_head m) \<and> 1 \<le> cursor_of f \<and> cursor_of f \<le> last_cursor m \<and>
     wr_fact_id (wm_receipts m ! nat (cursor_of f - 1)) = workflow_fact_id f \<and>
     wr_fact_sha256 (wm_receipts m ! nat (cursor_of f - 1)) = fact_sha256 f"

lemma receipt_at:
  assumes "model_inv m" and "1 \<le> k" and "k \<le> last_cursor m"
  shows "py_index (wm_receipts m) (k - 1) = Inr (wm_receipts m ! nat (k - 1))"
    and "nat (k - 1) < length (wm_receipts m)"
  using model_inv_facts [OF assms(1)] assms(2,3) by simp_all

lemma apply_consumed: "model_inv m \<Longrightarrow> consumed m f \<Longrightarrow> apply_workflow_fact m f = Inr m"
  by (auto simp: apply_workflow_fact_def consumed_def receipt_at simp del: py_index.simps)

lemma apply_cases:
  assumes inv: "model_inv m" and f: "valid_fact f"
  obtains (refused) e where "apply_workflow_fact m f = Inl e" "projection_error e"
  | (redelivered) "consumed m f" "apply_workflow_fact m f = Inr m"
  | (extended) m' t r where "apply_workflow_fact m f = Inr m'" "model_inv m'"
      "reduce_snapshot (wm_snapshot m) f = Inr t" "cursor_of f = last_cursor m + 1"
      "wm_snapshot m' = t\<lparr>ws_applied_cursor := cursor_of f\<rparr>" "snapshot_inv t"
      "wm_receipts m' = wm_receipts m @ [r]" "wr_fact_id r = workflow_fact_id f"
      "wr_fact_sha256 r = fact_sha256 f" "wr_source_event_id r = event_of f"
      "wr_source_event_sha256 r = event_sha_of f" "last_cursor m' = last_cursor m + 1"
      "case_of f = wh_case_id (wm_head m)" "wh_case_id (wm_head m') = wh_case_id (wm_head m)"
proof (cases "case_of f = wh_case_id (wm_head m)")
  case False
  then show thesis by (intro refused) (auto simp: apply_workflow_fact_def)
next
  case cid: True
  note c1 = valid_fact_cursor [OF f]
  show thesis
  proof (cases "cursor_of f \<le> last_cursor m")
    case True
    note at = receipt_at [OF inv c1 True]
    show thesis
    proof (cases "consumed m f")
      case True
      then show ?thesis using apply_consumed [OF inv] redelivered by blast
    next
      case False
      then show ?thesis using cid True at c1
        by (intro refused) (auto simp: apply_workflow_fact_def consumed_def simp del: py_index.simps)
    qed
  next
    case new: False
    show thesis
    proof (cases "(\<exists>r \<in> set (wm_receipts m). wr_source_event_id r = event_of f \<or>
        wr_source_event_sha256 r = event_sha_of f) \<or> cursor_of f \<noteq> last_cursor m + 1")
      case True
      then have "\<exists>e. apply_workflow_fact m f = Inl e \<and> projection_error e"
        using cid new unfolding apply_workflow_fact_def by auto
      then show ?thesis using refused by blast
    next
      case False
      then have cur: "cursor_of f = last_cursor m + 1"
        and fresh: "\<forall>q \<in> set (wm_receipts m). wr_source_event_id q \<noteq> event_of f \<and>
          wr_source_event_sha256 q \<noteq> event_sha_of f" by auto
      have eq: "apply_workflow_fact m f = next_model m f"
        using cid new False unfolding apply_workflow_fact_def by auto
      show ?thesis
        by (rule next_model_cases [OF inv f cid cur fresh])
          (use eq cur cid refused extended in auto)
    qed
  qed
qed

lemma apply_keeps_inv:
  assumes "model_inv m" and "valid_fact f" and "apply_workflow_fact m f = Inr m'"
  shows "model_inv m'"
  using assms(1,2) by (cases rule: apply_cases) (use assms in auto)

lemma apply_projection_error:
  assumes "model_inv m" and "valid_fact f" and "apply_workflow_fact m f = Inl e"
  shows "projection_error e"
  using assms(1,2) by (cases rule: apply_cases) (use assms in auto)

lemma apply_records:
  assumes "model_inv m" and f: "valid_fact f" and "apply_workflow_fact m f = Inr m'"
  shows "consumed m' f"
  using assms(1,2)
proof (cases rule: apply_cases)
  case (extended u t r)
  then have "nat (cursor_of f - 1) = length (wm_receipts m)"
    using model_inv_facts(3,7) [OF assms(1)] by simp
  then show ?thesis using extended assms(3) valid_fact_cursor [OF f] by (simp add: consumed_def)
qed (use assms in auto)

lemma apply_remembers:
  assumes "model_inv m" and "valid_fact f" and "apply_workflow_fact m f = Inr m'" and g: "consumed m g"
  shows "consumed m' g"
  using assms(1,2)
proof (cases rule: apply_cases)
  case (extended u t r)
  have "nat (cursor_of g - 1) < length (wm_receipts m)"
    using g receipt_at(2) [OF assms(1)] by (simp add: consumed_def)
  then show ?thesis using extended assms(3) g by (simp add: consumed_def nth_append)
qed (use assms in auto)

interpretation wf: idempotent_consumer "\<lambda>f m. apply_workflow_fact m f" consumed model_inv valid_fact
  by unfold_locales (blast intro: apply_keeps_inv apply_records apply_remembers apply_consumed)+

lemma replay_run:
  assumes "replay_workflow cid fs realm profile = Inr m"
  obtains m0 where "initial_workflow_read_model cid realm profile = Inr m0" and "model_inv m0"
    and "wm_receipts m0 = []" and "wh_case_id (wm_head m0) = cid" and "last_cursor m0 = 0"
    and "foldR (\<lambda>f m. apply_workflow_fact m f) fs m0 = Inr m"
proof -
  obtain m0 where m0: "initial_workflow_read_model cid realm profile = Inr m0"
    "foldR (\<lambda>f m. apply_workflow_fact m f) fs m0 = Inr m"
    using assms by (auto simp: replay_workflow_def result_simps)
  then have "nonempty cid" by (auto simp: initial_workflow_read_model_def result_simps)
  then show thesis
    by (rule initial_model_total [of cid realm profile]) (use m0 that in auto)
qed

lemma replay_model_inv:
  assumes "\<forall>f \<in> set fs. valid_fact f" and "replay_workflow cid fs realm profile = Inr m"
  shows "model_inv m" and "wh_case_id (wm_head m) = cid"
proof -
  obtain m0 where m0: "model_inv m0" "wh_case_id (wm_head m0) = cid"
    "foldR (\<lambda>f m. apply_workflow_fact m f) fs m0 = Inr m"
    using assms(2) by (rule replay_run)
  show "model_inv m" using wf.run_inv [OF m0(1) assms(1) m0(3)] .
  show "wh_case_id (wm_head m) = cid"
    using m0(1,2,3) assms(1)
  proof (induction fs arbitrary: m0)
    case (Cons f fs)
    then obtain u where u: "apply_workflow_fact m0 f = Inr u"
      "foldR (\<lambda>f m. apply_workflow_fact m f) fs u = Inr m" by (auto simp: result_simps)
    have vf: "valid_fact f" using Cons.prems(4) by simp
    have "model_inv u" using apply_keeps_inv [OF Cons.prems(1) vf u(1)] .
    moreover have "wh_case_id (wm_head u) = cid"
      using Cons.prems(1) vf by (cases rule: apply_cases) (use u(1) Cons.prems(2) in auto)
    ultimately show ?case using Cons.IH u(2) Cons.prems(4) by simp
  qed simp
qed

lemma replay_snoc:
  "replay_workflow cid (fs @ gs) realm profile =
     bindR (replay_workflow cid fs realm profile) (foldR (\<lambda>f m. apply_workflow_fact m f) gs)"
  by (cases "initial_workflow_read_model cid realm profile")
    (simp_all add: replay_workflow_def foldR_append)

text \<open>A fresh fact with the next cursor that the reducer takes extends the replay.\<close>

lemma apply_extends:
  assumes inv: "model_inv m" and f: "valid_fact f" and "case_of f = wh_case_id (wm_head m)"
    and "cursor_of f = last_cursor m + 1"
    and "\<forall>q \<in> set (wm_receipts m). wr_source_event_id q \<noteq> event_of f \<and>
        wr_source_event_sha256 q \<noteq> event_sha_of f"
    and "reduce_snapshot (wm_snapshot m) f = Inr t"
  obtains m' r where "apply_workflow_fact m f = Inr m'" and "model_inv m'"
    and "wm_snapshot m' = t\<lparr>ws_applied_cursor := cursor_of f\<rparr>"
    and "wm_receipts m' = wm_receipts m @ [r]" and "wr_source_event_id r = event_of f"
    and "wr_source_event_sha256 r = event_sha_of f" and "last_cursor m' = last_cursor m + 1"
    and "wh_case_id (wm_head m') = wh_case_id (wm_head m)"
proof -
  have eq: "apply_workflow_fact m f = next_model m f"
    using assms(3-5) unfolding apply_workflow_fact_def by auto
  from inv f assms(3-5) show thesis
  proof (cases rule: next_model_cases)
    case (refused e)
    then show ?thesis using assms(6) by simp
  next
    case (extended m' u r)
    then show ?thesis using eq assms(6) by (intro that [of m' r]) simp_all
  qed
qed

end
