(* ===== verification/WorkflowProperties.thy ===== *)
theory WorkflowProperties imports WorkflowTheorems begin

text \<open>
  The properties of the Workflow projection: what a replay guarantees under at-least-once
  delivery, and how the state of each task moves.  A small case serves their witnesses.
\<close>

section \<open>A small case\<close>

definition ex_header :: "int \<Rightarrow> string \<Rightarrow> char \<Rightarrow> FactHeader" where
  "ex_header k event c = \<lparr>fact_case_id = ''case-1'', fact_cursor = k, fact_source_event_id = event,
     fact_source_event_sha256 = ex_sha c\<rparr>"

definition ex_plan :: WorkflowFact where
  "ex_plan = PlanAcceptedFact (ex_header 1 ''e1'' CHR ''a'')
     \<lparr>pa_question_revision_id = ''q1'', pa_question_content_sha256 = ex_sha CHR ''1'',
      pa_frame_revision_id = ''f1'', pa_frame_content_sha256 = ex_sha CHR ''2'',
      pa_plan_revision_id = ''p1'', pa_prior_plan_revision_id = None,
      pa_plan_content_sha256 = ex_sha CHR ''3'', pa_plan_adoption_id = ex_sha CHR ''4'',
      pa_plan_adoption_sha256 = ex_sha CHR ''5'',
      pa_tasks = [\<lparr>td_task_id = ''t1'', td_business_label = ''Payments''\<rparr>],
      pa_obligations = [\<lparr>od_obligation_id = ''o1'', od_task_id = ''t1'', od_business_label = ''Paid''\<rparr>]\<rparr>"

definition ex_run :: WorkflowFact where
  "ex_run = TaskExecutionFact (ex_header 2 ''e2'' CHR ''b'') ''p1'' ''t1'' ExRunning"

definition ex_fence :: WorkflowFact where
  "ex_fence = AuthoritySupersededFact (ex_header 2 ''e3'' CHR ''c'')
     \<lparr>as_superseded_plan_revision_id = ''p1'', as_superseded_plan_content_sha256 = ex_sha CHR ''3'',
      as_superseded_plan_adoption_id = ex_sha CHR ''4'', as_superseded_plan_adoption_sha256 = ex_sha CHR ''5'',
      as_superseding_authority_revision_id = ''q2'',
      as_superseding_authority_content_sha256 = ex_sha CHR ''6''\<rparr>"

definition ex_late :: WorkflowFact where
  "ex_late = TaskExecutionFact (ex_header 3 ''e4'' CHR ''d'') ''p1'' ''t1'' ExSucceeded"

lemmas ex_defs = ex_plan_def ex_run_def ex_fence_def ex_late_def ex_header_def

lemma ex_nonempty [simp]:
  "nonempty ''case-1''" "nonempty ''e1''" "nonempty ''e2''" "nonempty ''e3''" "nonempty ''e4''"
  "nonempty ''q1''" "nonempty ''q2''" "nonempty ''f1''" "nonempty ''p1''" "nonempty ''t1''"
  "nonempty ''o1''" "nonempty ''Payments''" "nonempty ''Paid''"
  by (simp_all add: nonempty_def blank_def)

lemma ex_valid [simp]: "valid_fact ex_plan" "valid_fact ex_run" "valid_fact ex_fence" "valid_fact ex_late"
  by (simp_all add: ex_defs valid_fact_def check_plan_accepted_def check_task_execution_def
      check_authority_superseded_def validate_fact_header_def check_task_definition_def
      check_obligation_definition_def)

lemma ex_distinct [simp]: "ex_plan \<noteq> ex_run" "ex_run \<noteq> ex_plan"
  by (simp_all add: ex_plan_def ex_run_def)

lemma ex_cursors [simp]:
  "header ex_plan = ex_header 1 ''e1'' CHR ''a''" "header ex_run = ex_header 2 ''e2'' CHR ''b''"
  "header ex_fence = ex_header 2 ''e3'' CHR ''c''" "header ex_late = ex_header 3 ''e4'' CHR ''d''"
  "fact_case_id (ex_header k e c) = ''case-1''" "fact_cursor (ex_header k e c) = k"
  "fact_source_event_id (ex_header k e c) = e"
  "fact_source_event_sha256 (ex_header k e c) = ex_sha c"
  by (simp_all add: ex_plan_def ex_run_def ex_fence_def ex_late_def) (simp_all add: ex_header_def)

text \<open>The snapshots of the replay \<open>ex_plan, ex_run\<close> and of \<open>ex_plan, ex_fence, ex_late\<close>.\<close>

definition ex_snapshot ::
    "int \<Rightarrow> string option \<Rightarrow> DeliveryState \<Rightarrow> ExecutionState \<Rightarrow> ObligationState \<Rightarrow> WorkflowSnapshot" where
  "ex_snapshot k act dlv ts os =
    \<lparr>ws_case = \<lparr>cp_case_id = ''case-1'', cp_active_plan_revision_id = act,
        cp_publication_state = PubNotReady, cp_accepted_answer_version_id = None,
        cp_delivery_state = dlv\<rparr>,
     ws_tasks = [\<lparr>tp_case_id = ''case-1'', tp_plan_revision_id = ''p1'', tp_task_id = ''t1'',
        tp_business_label = ''Payments'', tp_execution_state = ts\<rparr>],
     ws_obligations = [\<lparr>op_case_id = ''case-1'', op_plan_revision_id = ''p1'',
        op_obligation_id = ''o1'', op_task_id = ''t1'', op_business_label = ''Paid'',
        op_obligation_state = os\<rparr>],
     ws_applied_cursor = k, ws_realm = RealmConformance, ws_evidence_profile = ProfileConformance,
     ws_plan_revision_id = Some ''p1'', ws_question_revision_id = Some ''q1'',
     ws_question_content_sha256 = Some (ex_sha CHR ''1''), ws_frame_revision_id = Some ''f1'',
     ws_frame_content_sha256 = Some (ex_sha CHR ''2''),
     ws_plan_content_sha256 = Some (ex_sha CHR ''3''),
     ws_plan_adoption_id = Some (ex_sha CHR ''4''), ws_plan_adoption_sha256 = Some (ex_sha CHR ''5''),
     ws_schema_version = workflow_schema_version, ws_policy_version = workflow_policy_version,
     ws_policy_sha256 = workflow_policy_sha256\<rparr>"

lemma ex_snapshot_ok [simp]:
  "act \<in> {None, Some ''p1''} \<Longrightarrow> 0 \<le> k \<Longrightarrow> check_snapshot (ex_snapshot k act dlv ts os) = Inr ()"
  by (auto simp: check_snapshot_iff ex_snapshot_def plan_identity_ok_def accepted_plan_values_def)

lemma ex_plan_reduces:
  assumes "initial_snapshot ''case-1'' RealmConformance ProfileConformance = Inr s"
  shows "reduce_snapshot s ex_plan =
    Inr (ex_snapshot 0 (Some ''p1'') NotDelivered ExPending ObOpen)"
proof -
  have "\<exists>s. initial_snapshot ''case-1'' RealmConformance ProfileConformance = Inr s \<and>
      accept_plan s (ex_header 1 ''e1'' CHR ''a'') (case ex_plan of PlanAcceptedFact h p \<Rightarrow> p) =
        construct check_snapshot (ex_snapshot 0 (Some ''p1'') NotDelivered ExPending ObOpen)"
    by (simp add: initial_snapshot_def check_case_projection_iff check_snapshot_iff
        plan_identity_ok_def accepted_plan_values_def ex_plan_def accept_plan_def
        expected_prior_plan_def same_measurement_authority_def accepted_task_def
        accepted_obligation_def check_task_projection_def check_obligation_projection_def
        accepted_snapshot_def ex_header_def ex_snapshot_def)
  then show ?thesis using assms by (auto simp: ex_plan_def)
qed

lemma ex_run_reduces:
  "reduce_snapshot (ex_snapshot 1 (Some ''p1'') NotDelivered ExPending ObOpen) ex_run =
     Inr (ex_snapshot 1 (Some ''p1'') NotDelivered ExRunning ObOpen)"
proof -
  have "reduce_snapshot (ex_snapshot 1 (Some ''p1'') NotDelivered ExPending ObOpen) ex_run =
     construct check_snapshot (ex_snapshot 1 (Some ''p1'') NotDelivered ExRunning ObOpen)"
    by (simp add: ex_run_def change_task_execution_def find_task_def require_active_plan_def
        ex_snapshot_def check_task_projection_def task_transition_allowed.simps)
  then show ?thesis by simp
qed

lemma ex_fence_reduces:
  "reduce_snapshot (ex_snapshot 1 (Some ''p1'') NotDelivered ExPending ObOpen) ex_fence =
     Inr (ex_snapshot 1 None DeliverySuperseded ExSuperseded ObSuperseded)"
proof -
  have "reduce_snapshot (ex_snapshot 1 (Some ''p1'') NotDelivered ExPending ObOpen) ex_fence =
     construct check_snapshot (ex_snapshot 1 None DeliverySuperseded ExSuperseded ObSuperseded)"
    by (simp add: ex_fence_def supersede_authority_def supersede_task_def supersede_obligation_def
        ex_snapshot_def check_task_projection_def check_obligation_projection_def
        check_case_projection_iff)
  then show ?thesis by simp
qed

lemma ex_late_reduces:
  "reduce_snapshot (ex_snapshot 2 None DeliverySuperseded ExSuperseded ObSuperseded) ex_late =
     Inr (ex_snapshot 2 None DeliverySuperseded ExSuperseded ObSuperseded)"
  by (simp add: ex_late_def change_task_execution_def find_task_def ex_snapshot_def)

lemma ex_snapshot_cursor [simp]:
  "(ex_snapshot k act dlv ts os)\<lparr>ws_applied_cursor := j\<rparr> = ex_snapshot j act dlv ts os"
  by (simp add: ex_snapshot_def)

lemma ex_replay_plan:
  obtains m r where "replay_workflow ''case-1'' [ex_plan] RealmConformance ProfileConformance = Inr m"
    and "model_inv m" and "wm_snapshot m = ex_snapshot 1 (Some ''p1'') NotDelivered ExPending ObOpen"
    and "wm_receipts m = [r]" and "wr_source_event_id r = ''e1''"
    and "wr_source_event_sha256 r = ex_sha CHR ''a''" and "last_cursor m = 1"
    and "wh_case_id (wm_head m) = ''case-1''"
proof -
  obtain m0 where m0: "initial_workflow_read_model ''case-1'' RealmConformance ProfileConformance = Inr m0"
    "model_inv m0" "wm_receipts m0 = []" "last_cursor m0 = 0" "wh_case_id (wm_head m0) = ''case-1''"
    "initial_snapshot ''case-1'' RealmConformance ProfileConformance = Inr (wm_snapshot m0)"
    by (rule initial_model_total [of "''case-1''" RealmConformance ProfileConformance]) simp_all
  have h: "header ex_plan = ex_header 1 ''e1'' CHR ''a''" by (simp add: ex_plan_def)
  show thesis
    by (rule apply_extends [OF m0(2) ex_valid(1) _ _ _ ex_plan_reduces [OF m0(6)]])
      (use m0 h that in \<open>auto simp: replay_workflow_def ex_header_def\<close>)
qed

lemma ex_replay_run:
  obtains m where "replay_workflow ''case-1'' [ex_plan, ex_run] RealmConformance ProfileConformance = Inr m"
    and "model_inv m" and "wm_snapshot m = ex_snapshot 2 (Some ''p1'') NotDelivered ExRunning ObOpen"
    and "last_cursor m = 2"
proof -
  obtain m r where m: "replay_workflow ''case-1'' [ex_plan] RealmConformance ProfileConformance = Inr m"
    "model_inv m" "wm_snapshot m = ex_snapshot 1 (Some ''p1'') NotDelivered ExPending ObOpen"
    "wm_receipts m = [r]" "wr_source_event_id r = ''e1''"
    "wr_source_event_sha256 r = ex_sha CHR ''a''" "last_cursor m = 1"
    "wh_case_id (wm_head m) = ''case-1''" by (rule ex_replay_plan)
  have h: "header ex_run = ex_header 2 ''e2'' CHR ''b''" by (simp add: ex_run_def)
  have red: "reduce_snapshot (wm_snapshot m) ex_run =
      Inr (ex_snapshot 1 (Some ''p1'') NotDelivered ExRunning ObOpen)"
    using m(3) ex_run_reduces by simp
  show thesis
    by (rule apply_extends [OF m(2) ex_valid(2) _ _ _ red])
      (use m h that replay_snoc [of "''case-1''" "[ex_plan]" "[ex_run]"] in
        \<open>auto simp: ex_header_def\<close>)
qed

lemma ex_replay_fence:
  obtains m where "replay_workflow ''case-1'' [ex_plan, ex_fence] RealmConformance ProfileConformance = Inr m"
    and "model_inv m"
    and "wm_snapshot m = ex_snapshot 2 None DeliverySuperseded ExSuperseded ObSuperseded"
    and "last_cursor m = 2" and "wh_case_id (wm_head m) = ''case-1''"
    and "\<forall>q \<in> set (wm_receipts m). wr_source_event_id q \<noteq> ''e4'' \<and>
        wr_source_event_sha256 q \<noteq> ex_sha CHR ''d''"
proof -
  obtain m r where m: "replay_workflow ''case-1'' [ex_plan] RealmConformance ProfileConformance = Inr m"
    "model_inv m" "wm_snapshot m = ex_snapshot 1 (Some ''p1'') NotDelivered ExPending ObOpen"
    "wm_receipts m = [r]" "wr_source_event_id r = ''e1''"
    "wr_source_event_sha256 r = ex_sha CHR ''a''" "last_cursor m = 1"
    "wh_case_id (wm_head m) = ''case-1''" by (rule ex_replay_plan)
  have h: "header ex_fence = ex_header 2 ''e3'' CHR ''c''" by (simp add: ex_fence_def)
  have red: "reduce_snapshot (wm_snapshot m) ex_fence =
      Inr (ex_snapshot 1 None DeliverySuperseded ExSuperseded ObSuperseded)"
    using m(3) ex_fence_reduces by simp
  show thesis
    by (rule apply_extends [OF m(2) ex_valid(3) _ _ _ red])
      (use m h that replay_snoc [of "''case-1''" "[ex_plan]" "[ex_fence]"] in
        \<open>auto simp: ex_header_def\<close>)
qed

section \<open>Replays\<close>

lemma replay_extension:
  assumes "\<forall>f \<in> set (fs @ gs). valid_fact f" and "replay_workflow cid fs realm profile = Inr m"
    and "replay_workflow cid (fs @ gs) realm profile = Inr m'"
  shows "model_inv m" and "foldR (\<lambda>f m. apply_workflow_fact m f) gs m = Inr m'"
  using replay_model_inv [of fs cid realm profile m] assms by (simp_all add: replay_snoc)

lemma apply_keeps_superseded:
  assumes "model_inv m" and f: "valid_fact f" and "apply_workflow_fact m f = Inr m'"
  shows "x \<in> set (ws_tasks (wm_snapshot m)) \<Longrightarrow> tp_execution_state x = ExSuperseded \<Longrightarrow>
      x \<in> set (ws_tasks (wm_snapshot m'))"
    and "y \<in> set (ws_obligations (wm_snapshot m)) \<Longrightarrow> op_obligation_state y = ObSuperseded \<Longrightarrow>
      y \<in> set (ws_obligations (wm_snapshot m'))"
proof -
  have si: "snapshot_inv (wm_snapshot m)" using assms(1) by (simp add: model_inv_def)
  show "x \<in> set (ws_tasks (wm_snapshot m)) \<Longrightarrow> tp_execution_state x = ExSuperseded \<Longrightarrow>
      x \<in> set (ws_tasks (wm_snapshot m'))"
    and "y \<in> set (ws_obligations (wm_snapshot m)) \<Longrightarrow> op_obligation_state y = ObSuperseded \<Longrightarrow>
      y \<in> set (ws_obligations (wm_snapshot m'))"
    using assms(1,2)
    by (cases rule: apply_cases; use assms(3) reduce_snapshot_moves [OF si f]
        reduce_snapshot_keeps_superseded_obligation [OF si] in fastforce)+
qed

lemma run_keeps_superseded:
  assumes "model_inv m" and "\<forall>f \<in> set gs. valid_fact f"
    and "foldR (\<lambda>f m. apply_workflow_fact m f) gs m = Inr m'"
  shows "x \<in> set (ws_tasks (wm_snapshot m)) \<Longrightarrow> tp_execution_state x = ExSuperseded \<Longrightarrow>
      x \<in> set (ws_tasks (wm_snapshot m'))"
    and "y \<in> set (ws_obligations (wm_snapshot m)) \<Longrightarrow> op_obligation_state y = ObSuperseded \<Longrightarrow>
      y \<in> set (ws_obligations (wm_snapshot m'))"
proof -
  have "model_inv m' \<and>
      (x \<in> set (ws_tasks (wm_snapshot m)) \<longrightarrow> tp_execution_state x = ExSuperseded \<longrightarrow>
        x \<in> set (ws_tasks (wm_snapshot m'))) \<and>
      (y \<in> set (ws_obligations (wm_snapshot m)) \<longrightarrow> op_obligation_state y = ObSuperseded \<longrightarrow>
        y \<in> set (ws_obligations (wm_snapshot m')))"
    using assms(3)
    by (rule foldR_invariant [where P = "\<lambda>u. model_inv u \<and>
        (x \<in> set (ws_tasks (wm_snapshot m)) \<longrightarrow> tp_execution_state x = ExSuperseded \<longrightarrow>
          x \<in> set (ws_tasks (wm_snapshot u))) \<and>
        (y \<in> set (ws_obligations (wm_snapshot m)) \<longrightarrow> op_obligation_state y = ObSuperseded \<longrightarrow>
          y \<in> set (ws_obligations (wm_snapshot u)))"])
      (use assms(1,2) apply_keeps_superseded apply_keeps_inv in \<open>simp, blast\<close>)
  then show "x \<in> set (ws_tasks (wm_snapshot m)) \<Longrightarrow> tp_execution_state x = ExSuperseded \<Longrightarrow>
      x \<in> set (ws_tasks (wm_snapshot m'))"
    and "y \<in> set (ws_obligations (wm_snapshot m)) \<Longrightarrow> op_obligation_state y = ObSuperseded \<Longrightarrow>
      y \<in> set (ws_obligations (wm_snapshot m'))" by blast+
qed

section \<open>The properties\<close>

text \<open>
  C12: At-least-once delivery is harmless.  Replaying a log in which facts are delivered any number
  of times gives exactly the result, read model or error, of the log with every redelivery removed.
\<close>

theorem replay_ignores_redelivery:
  assumes "\<forall>f \<in> set fs. valid_fact f"
  shows "replay_workflow cid fs realm profile = replay_workflow cid (first_deliveries [] fs) realm profile"
proof (cases "nonempty cid")
  case True
  then obtain m0 where "initial_workflow_read_model cid realm profile = Inr m0" "model_inv m0"
    by (rule initial_model_total)
  then show ?thesis using wf.run_first_deliveries [OF _ assms] by (simp add: replay_workflow_def)
next
  case False
  then show ?thesis
    by (simp add: replay_workflow_def initial_workflow_read_model_def require_nonempty_def require_def)
qed

theorem replay_ignores_redelivery_witness:
  "replay_workflow ''case-1'' [ex_plan, ex_plan, ex_run, ex_plan] RealmConformance ProfileConformance =
   replay_workflow ''case-1'' [ex_plan, ex_run] RealmConformance ProfileConformance"
  using replay_ignores_redelivery [of "[ex_plan, ex_plan, ex_run, ex_plan]" "''case-1''"
      RealmConformance ProfileConformance]
  by simp

text \<open>
  C8: A replay of constructed facts keeps the whole read model consistent: the guards of its
  constructor hold, one receipt stands for each applied cursor, every task and obligation outside
  the active plan is superseded, every obligation belongs to a task of its plan, and Gate 3 never
  shows a settled publication or a delivered case.
\<close>

theorem replay_read_model_consistent:
  assumes "\<forall>f \<in> set fs. valid_fact f" and "replay_workflow cid fs realm profile = Inr m"
  shows "check_read_model m = Inr () \<and> check_snapshot (wm_snapshot m) = Inr () \<and>
    wh_case_id (wm_head m) = cid \<and> map wr_cursor (wm_receipts m) = [1..last_cursor m] \<and>
    (\<forall>t \<in> set (ws_tasks (wm_snapshot m)). tp_execution_state t = ExSuperseded \<or>
       active_plan (wm_snapshot m) = Some (tp_plan_revision_id t)) \<and>
    (\<forall>t \<in> set (ws_obligations (wm_snapshot m)). op_obligation_state t = ObSuperseded \<or>
       active_plan (wm_snapshot m) = Some (op_plan_revision_id t)) \<and>
    (\<forall>t \<in> set (ws_obligations (wm_snapshot m)). \<exists>u \<in> set (ws_tasks (wm_snapshot m)).
       tp_plan_revision_id u = op_plan_revision_id t \<and> tp_task_id u = op_task_id t) \<and>
    cp_publication_state (ws_case (wm_snapshot m)) \<noteq> PubSettled \<and>
    cp_delivery_state (ws_case (wm_snapshot m)) \<noteq> Delivered"
proof -
  note inv = replay_model_inv [OF assms]
  then have s: "snapshot_inv (wm_snapshot m)" and "check_read_model m = Inr ()"
    by (simp_all add: model_inv_def)
  moreover have "cp_publication_state (ws_case (wm_snapshot m)) \<noteq> PubSettled"
    "cp_delivery_state (ws_case (wm_snapshot m)) \<noteq> Delivered"
    using s by (auto simp: snapshot_inv_def check_case_projection_iff)
  moreover have "\<forall>t \<in> set (ws_obligations (wm_snapshot m)). \<exists>u \<in> set (ws_tasks (wm_snapshot m)).
       tp_plan_revision_id u = op_plan_revision_id t \<and> tp_task_id u = op_task_id t"
    using s by (fastforce simp: snapshot_inv_def task_key_def)
  ultimately show ?thesis
    using inv model_inv_facts(6) [OF inv(1)] by (auto simp: snapshot_inv_def)
qed

theorem replay_read_model_consistent_witness:
  "\<exists>m. replay_workflow ''case-1'' [ex_plan, ex_run] RealmConformance ProfileConformance = Inr m \<and>
     check_read_model m = Inr () \<and> cp_publication_state (ws_case (wm_snapshot m)) \<noteq> PubSettled"
proof -
  obtain m where "replay_workflow ''case-1'' [ex_plan, ex_run] RealmConformance ProfileConformance = Inr m"
    by (rule ex_replay_run)
  then show ?thesis using replay_read_model_consistent [of "[ex_plan, ex_run]"] by auto
qed

text \<open>
  C13: A replay fails closed: on constructed facts of a case with a non-empty id it only ever raises
  one of the three declared projection errors, never a bare \<open>ValueError\<close>, \<open>TypeError\<close> or
  \<open>IndexError\<close> out of a constructor or an index.
\<close>

theorem replay_fails_closed:
  assumes "nonempty cid" and "\<forall>f \<in> set fs. valid_fact f"
    and "replay_workflow cid fs realm profile = Inl e"
  shows "(\<exists>text. e = WorkflowFactConflict text) \<or> (\<exists>text. e = WorkflowTransitionRejected text) \<or>
    (\<exists>text. e = WorkflowCursorGap text)"
proof -
  obtain m0 where m0: "initial_workflow_read_model cid realm profile = Inr m0" "model_inv m0"
    using assms(1) by (rule initial_model_total)
  have "foldR (\<lambda>f m. apply_workflow_fact m f) fs m0 = Inl e"
    using assms(3) m0(1) by (simp add: replay_workflow_def)
  then have "projection_error e" using m0(2) assms(2)
  proof (induction fs arbitrary: m0)
    case (Cons f fs)
    then show ?case
      using apply_keeps_inv [of m0 f] apply_projection_error [of m0 f]
      by (cases "apply_workflow_fact m0 f") auto
  qed simp
  then show ?thesis by (cases e) simp_all
qed

theorem replay_fails_closed_witness:
  "\<exists>text. replay_workflow ''case-1'' [ex_run] RealmConformance ProfileConformance =
     Inl (WorkflowCursorGap text)"
proof -
  obtain m0 where m0: "initial_workflow_read_model ''case-1'' RealmConformance ProfileConformance = Inr m0"
    "wm_receipts m0 = []" "last_cursor m0 = 0" "wh_case_id (wm_head m0) = ''case-1''"
    by (rule initial_model_total [of "''case-1''" RealmConformance ProfileConformance]) simp_all
  then obtain e where e: "replay_workflow ''case-1'' [ex_run] RealmConformance ProfileConformance = Inl e"
    "e = WorkflowCursorGap (''workflow fact cursor must equal '' @ show_int 1)"
    by (simp add: replay_workflow_def apply_workflow_fact_def ex_run_def ex_header_def)
  then show ?thesis
    using replay_fails_closed [OF ex_nonempty(1) _ e(1)] by auto
qed

text \<open>
  The execution state of a task moves only along the allowed transitions.  One more fact leaves
  each task of the projection in place, with its key, case and label, and its state is the old one
  or reached by one allowed transition.
\<close>

theorem apply_moves_tasks:
  assumes "\<forall>f \<in> set fs. valid_fact f" and "replay_workflow cid fs realm profile = Inr m"
    and "valid_fact f" and "apply_workflow_fact m f = Inr m'" and "x \<in> set (ws_tasks (wm_snapshot m))"
  shows "\<exists>y \<in> set (ws_tasks (wm_snapshot m')). task_key y = task_key x \<and>
    tp_case_id y = tp_case_id x \<and> tp_business_label y = tp_business_label x \<and>
    (tp_execution_state y = tp_execution_state x \<or>
     (tp_execution_state x, tp_execution_state y) \<in>
       {(ExPending, ExRunning), (ExPending, ExSucceeded), (ExPending, ExFailed),
        (ExRunning, ExSucceeded), (ExRunning, ExFailed), (ExFailed, ExRunning)} \<or>
     tp_execution_state y = ExSuperseded)"
proof -
  have inv: "model_inv m" using replay_model_inv [OF assms(1,2)] by simp
  then have si: "snapshot_inv (wm_snapshot m)" by (simp add: model_inv_def)
  have "moves x (wm_snapshot m')"
    using inv assms(3)
    by (cases rule: apply_cases)
      (use assms(4,5) moves_stay reduce_snapshot_moves [OF si assms(3)] in \<open>auto simp: moves_def\<close>)
  then obtain y where "y \<in> set (ws_tasks (wm_snapshot m'))" "task_key y = task_key x"
    "tp_case_id y = tp_case_id x" "tp_business_label y = tp_business_label x"
    "task_transition_allowed (tp_execution_state x) (tp_execution_state y)"
    by (auto simp: moves_def)
  then show ?thesis
    by (intro bexI [of _ y])
      (auto simp: task_transition_allowed.simps split: if_splits ExecutionState.splits)
qed

theorem apply_moves_tasks_witness:
  "\<exists>m m' x y. replay_workflow ''case-1'' [ex_plan] RealmConformance ProfileConformance = Inr m \<and>
     apply_workflow_fact m ex_run = Inr m' \<and> x \<in> set (ws_tasks (wm_snapshot m)) \<and>
     tp_execution_state x = ExPending \<and> y \<in> set (ws_tasks (wm_snapshot m')) \<and>
     tp_execution_state y = ExRunning \<and> task_key y = task_key x"
proof -
  obtain m where m: "replay_workflow ''case-1'' [ex_plan] RealmConformance ProfileConformance = Inr m"
    "wm_snapshot m = ex_snapshot 1 (Some ''p1'') NotDelivered ExPending ObOpen"
    by (rule ex_replay_plan)
  obtain m' where "replay_workflow ''case-1'' [ex_plan, ex_run] RealmConformance ProfileConformance = Inr m'"
    and m': "wm_snapshot m' = ex_snapshot 2 (Some ''p1'') NotDelivered ExRunning ObOpen"
    by (rule ex_replay_run)
  then have run: "apply_workflow_fact m ex_run = Inr m'"
    using m(1) replay_snoc [of "''case-1''" "[ex_plan]" "[ex_run]"] by (simp add: result_simps)
  let ?x = "hd (ws_tasks (wm_snapshot m))"
  have x: "?x \<in> set (ws_tasks (wm_snapshot m))" "tp_execution_state ?x = ExPending"
    using m(2) by (simp_all add: ex_snapshot_def)
  obtain y where "y \<in> set (ws_tasks (wm_snapshot m'))" "task_key y = task_key ?x"
    using apply_moves_tasks [OF _ m(1) _ run x(1)] by auto
  moreover from this have "tp_execution_state y = ExRunning" using m' by (simp add: ex_snapshot_def)
  ultimately show ?thesis using m(1) run x by blast
qed

text \<open>
  C15: Supersession is final.  A task or an obligation that a replay shows as superseded is shown,
  unchanged in every field, by every longer replay, whatever late facts follow.
\<close>

theorem superseded_is_final:
  assumes "\<forall>f \<in> set (fs @ gs). valid_fact f" and "replay_workflow cid fs realm profile = Inr m"
    and "replay_workflow cid (fs @ gs) realm profile = Inr m'"
  shows "{x \<in> set (ws_tasks (wm_snapshot m)). tp_execution_state x = ExSuperseded}
      \<subseteq> set (ws_tasks (wm_snapshot m')) \<and>
    {x \<in> set (ws_obligations (wm_snapshot m)). op_obligation_state x = ObSuperseded}
      \<subseteq> set (ws_obligations (wm_snapshot m'))"
proof -
  note ext = replay_extension [OF assms]
  have "\<forall>f \<in> set gs. valid_fact f" using assms(1) by simp
  then show ?thesis using run_keeps_superseded [OF ext(1) _ ext(2)] by blast
qed

text \<open>A late result of a fenced task is recorded by the cursor and changes no task.\<close>

lemma ex_apply_late:
  assumes "replay_workflow ''case-1'' [ex_plan, ex_fence] RealmConformance ProfileConformance = Inr m"
  obtains m' where "replay_workflow ''case-1'' [ex_plan, ex_fence, ex_late] RealmConformance
      ProfileConformance = Inr m'"
    and "apply_workflow_fact m ex_late = Inr m'" and "last_cursor m' = 3"
    and "wm_snapshot m = ex_snapshot 2 None DeliverySuperseded ExSuperseded ObSuperseded"
    and "wm_snapshot m' = ex_snapshot 3 None DeliverySuperseded ExSuperseded ObSuperseded"
proof -
  obtain m1 where m1: "replay_workflow ''case-1'' [ex_plan, ex_fence] RealmConformance ProfileConformance = Inr m1"
    "model_inv m1" "wm_snapshot m1 = ex_snapshot 2 None DeliverySuperseded ExSuperseded ObSuperseded"
    "last_cursor m1 = 2" "wh_case_id (wm_head m1) = ''case-1''"
    "\<forall>q \<in> set (wm_receipts m1). wr_source_event_id q \<noteq> ''e4'' \<and>
        wr_source_event_sha256 q \<noteq> ex_sha CHR ''d''" by (rule ex_replay_fence)
  then have m: "m1 = m" using assms by simp
  have h: "header ex_late = ex_header 3 ''e4'' CHR ''d''" by (simp add: ex_late_def)
  have red: "reduce_snapshot (wm_snapshot m1) ex_late =
      Inr (ex_snapshot 2 None DeliverySuperseded ExSuperseded ObSuperseded)"
    using m1(3) ex_late_reduces by simp
  show thesis
    by (rule apply_extends [OF m1(2) ex_valid(4) _ _ _ red])
      (use m m1 h that replay_snoc [of "''case-1''" "[ex_plan, ex_fence]" "[ex_late]"] in
        \<open>auto simp: ex_header_def\<close>)
qed

theorem superseded_is_final_witness:
  "\<exists>m m' x. replay_workflow ''case-1'' [ex_plan, ex_fence] RealmConformance ProfileConformance = Inr m \<and>
     replay_workflow ''case-1'' [ex_plan, ex_fence, ex_late] RealmConformance ProfileConformance = Inr m' \<and>
     x \<in> set (ws_tasks (wm_snapshot m)) \<and> x \<in> set (ws_tasks (wm_snapshot m'))"
proof -
  obtain m where m: "replay_workflow ''case-1'' [ex_plan, ex_fence] RealmConformance ProfileConformance = Inr m"
    by (rule ex_replay_fence)
  obtain m' where m': "replay_workflow ''case-1'' [ex_plan, ex_fence, ex_late] RealmConformance
      ProfileConformance = Inr m'"
    "wm_snapshot m = ex_snapshot 2 None DeliverySuperseded ExSuperseded ObSuperseded"
    using m by (rule ex_apply_late)
  then obtain x where "x \<in> set (ws_tasks (wm_snapshot m))" "tp_execution_state x = ExSuperseded"
    by (simp add: ex_snapshot_def)
  then show ?thesis
    using superseded_is_final [of "[ex_plan, ex_fence]" "[ex_late]"] m m'(1) by fastforce
qed

text \<open>
  C9: A cursor is settled once.  After a replay that took a fact, a fact of the same case with the
  same cursor and other content is refused as a conflict, and the delivered fact itself returns the
  very read model.
\<close>

theorem cursor_is_settled:
  assumes "\<forall>f \<in> set fs. valid_fact f" and "replay_workflow cid fs realm profile = Inr m"
    and "f \<in> set fs" and "case_of g = cid" and "cursor_of g = cursor_of f"
  shows "apply_workflow_fact m f = Inr m \<and>
    (fact_sha256 g \<noteq> fact_sha256 f \<longrightarrow>
       apply_workflow_fact m g =
         Inl (WorkflowFactConflict ''workflow cursor already has different fact content''))"
proof -
  obtain m0 where m0: "model_inv m0" "foldR (\<lambda>f m. apply_workflow_fact m f) fs m0 = Inr m"
    using assms(2) by (rule replay_run)
  have inv: "model_inv m" and cid: "wh_case_id (wm_head m) = cid"
    using replay_model_inv [OF assms(1,2)] by simp_all
  have f: "consumed m f" using wf.run_remembers [OF m0(1) assms(1) m0(2)] assms(3) by blast
  then show ?thesis
    using apply_consumed [OF inv f] assms(4,5) cid receipt_at [OF inv, of "cursor_of f"]
    by (auto simp: apply_workflow_fact_def consumed_def simp del: py_index.simps)
qed

theorem cursor_is_settled_witness:
  "\<exists>m. replay_workflow ''case-1'' [ex_plan, ex_run] RealmConformance ProfileConformance = Inr m \<and>
     apply_workflow_fact m ex_plan = Inr m \<and>
     (fact_sha256 ex_fence \<noteq> fact_sha256 ex_run \<longrightarrow>
       apply_workflow_fact m ex_fence =
         Inl (WorkflowFactConflict ''workflow cursor already has different fact content''))"
proof -
  obtain m where "replay_workflow ''case-1'' [ex_plan, ex_run] RealmConformance ProfileConformance = Inr m"
    by (rule ex_replay_run)
  then show ?thesis
    using cursor_is_settled [of "[ex_plan, ex_run]" "''case-1''" RealmConformance ProfileConformance m
        ex_plan ex_plan]
      cursor_is_settled [of "[ex_plan, ex_run]" "''case-1''" RealmConformance ProfileConformance m
        ex_run ex_fence]
    by auto
qed

text \<open>
  C14: The receipts are an append-only ledger.  A fact that \<open>apply_workflow_fact\<close> takes either was
  delivered before and changes nothing, or has the next cursor and adds exactly one receipt, which
  names the fact and its event and links to the receipt and the snapshot before it.
\<close>

theorem apply_appends_one_receipt:
  assumes "\<forall>f \<in> set fs. valid_fact f" and "replay_workflow cid fs realm profile = Inr m"
    and "valid_fact f" and "apply_workflow_fact m f = Inr m'"
  shows "m' = m \<and> cursor_of f \<le> last_cursor m \<or>
    cursor_of f = last_cursor m + 1 \<and> last_cursor m' = cursor_of f \<and>
    (\<exists>r. wm_receipts m' = wm_receipts m @ [r] \<and> wr_cursor r = cursor_of f \<and>
       wr_source_event_id r = event_of f \<and> wr_fact_sha256 r = fact_sha256 f \<and>
       wr_prior_receipt_id r = wh_last_receipt_id (wm_head m) \<and>
       wr_resulting_snapshot_sha256 r = snapshot_sha256 (wm_snapshot m'))"
proof -
  have inv: "model_inv m" using replay_model_inv [OF assms(1,2)] by simp
  from this assms(3) show ?thesis
  proof (cases rule: apply_cases)
    case (extended u t r)
    note ml = model_inv_last_receipt [OF inv] and mu = model_inv_last_receipt [OF extended(2)]
    have "map wr_cursor (wm_receipts u) = [1..last_cursor u]"
      using model_inv_facts(6) [OF extended(2)] .
    then have "wr_cursor r = last_cursor m + 1"
      using extended model_inv_facts(3,6) [OF inv] by (simp add: upto_rec2)
    moreover have "wr_resulting_snapshot_sha256 r = snapshot_sha256 (wm_snapshot u)"
      using mu(4) extended by simp
    moreover have "wr_prior_receipt_id r = wh_last_receipt_id (wm_head m)"
    proof -
      have "check_read_model u = Inr ()" using extended(2) by (simp add: model_inv_def)
      then obtain d where "check_chain None d (wm_receipts m @ [r]) = Inr ()"
        using extended by (auto simp: check_read_model_def Let_def result_simps)
      then show ?thesis using ml(2) by (simp add: check_chain_snoc)
    qed
    ultimately show ?thesis using extended assms(4) by auto
  qed (use assms(4) in \<open>auto simp: consumed_def\<close>)
qed

theorem apply_appends_one_receipt_witness:
  "\<exists>m m' r. replay_workflow ''case-1'' [ex_plan] RealmConformance ProfileConformance = Inr m \<and>
     apply_workflow_fact m ex_run = Inr m' \<and> wm_receipts m' = wm_receipts m @ [r] \<and>
     wr_cursor r = 2"
proof -
  obtain m where m: "replay_workflow ''case-1'' [ex_plan] RealmConformance ProfileConformance = Inr m"
    "last_cursor m = 1"
    by (rule ex_replay_plan)
  obtain m' where "replay_workflow ''case-1'' [ex_plan, ex_run] RealmConformance ProfileConformance = Inr m'"
    by (rule ex_replay_run)
  then have run: "apply_workflow_fact m ex_run = Inr m'"
    using m(1) replay_snoc [of "''case-1''" "[ex_plan]" "[ex_run]"] by (simp add: result_simps)
  then show ?thesis
    using apply_appends_one_receipt [OF _ m(1) _ run] m by auto
qed

text \<open>
  A result that arrives late is for the audit only.  A task execution fact with the next cursor
  for a task that is superseded is taken, whatever state it reports: it advances the cursor and
  leaves a receipt, and the rest of the snapshot is unchanged.
\<close>

theorem late_result_is_audit_only:
  assumes "\<forall>f \<in> set fs. valid_fact f" and "replay_workflow cid fs realm profile = Inr m"
    and "valid_fact (TaskExecutionFact h plan task st)" and "fact_case_id h = cid"
    and "fact_cursor h = last_cursor m + 1"
    and "\<forall>r \<in> set (wm_receipts m). wr_source_event_id r \<noteq> fact_source_event_id h \<and>
      wr_source_event_sha256 r \<noteq> fact_source_event_sha256 h"
    and "x \<in> set (ws_tasks (wm_snapshot m))" and "tp_plan_revision_id x = plan" and "tp_task_id x = task"
    and "tp_execution_state x = ExSuperseded"
  shows "\<exists>m'. apply_workflow_fact m (TaskExecutionFact h plan task st) = Inr m' \<and>
    wm_snapshot m' = (wm_snapshot m)\<lparr>ws_applied_cursor := fact_cursor h\<rparr> \<and>
    length (wm_receipts m') = length (wm_receipts m) + 1"
proof -
  have inv: "model_inv m" and cid: "wh_case_id (wm_head m) = cid"
    using replay_model_inv [OF assms(1,2)] by simp_all
  let ?s = "wm_snapshot m" and ?f = "TaskExecutionFact h plan task st"
  have "distinct (map task_key (ws_tasks ?s))"
    using inv by (simp add: model_inv_def snapshot_inv_def check_snapshot_iff)
  moreover obtain j where j: "j < length (ws_tasks ?s)" "x = ws_tasks ?s ! j"
    using assms(7) by (auto simp: in_set_conv_nth)
  ultimately have uniq: "i < length (ws_tasks ?s) \<Longrightarrow> task_key (ws_tasks ?s ! i) = (plan, task) \<Longrightarrow> i = j"
    for i using assms(8,9) nth_eq_iff_index_eq [of "map task_key (ws_tasks ?s)" i j]
    by (auto simp: task_key_def)
  have red: "reduce_snapshot ?s ?f = Inr ?s"
  proof (cases "find_task ?s plan task")
    case (Inl e)
    then show ?thesis
      using assms(7-9) by (auto simp: find_task_def find_index_None_iff split: option.splits)
  next
    case (Inr i)
    then have "i = j" using find_task_Inr [OF Inr] uniq by (simp add: task_key_def)
    then show ?thesis using Inr j assms(10) by (simp add: change_task_execution_def)
  qed
  have "\<forall>q \<in> set (wm_receipts m). wr_source_event_id q \<noteq> event_of ?f \<and>
      wr_source_event_sha256 q \<noteq> event_sha_of ?f" using assms(6) by simp
  from inv assms(3) _ _ this red show ?thesis
    by (rule apply_extends) (use assms(4,5) cid in auto)
qed

theorem late_result_is_audit_only_witness:
  "\<exists>m m'. replay_workflow ''case-1'' [ex_plan, ex_fence] RealmConformance ProfileConformance = Inr m \<and>
     apply_workflow_fact m ex_late = Inr m' \<and> ws_tasks (wm_snapshot m') = ws_tasks (wm_snapshot m)"
proof -
  obtain m where m: "replay_workflow ''case-1'' [ex_plan, ex_fence] RealmConformance ProfileConformance = Inr m"
    "wm_snapshot m = ex_snapshot 2 None DeliverySuperseded ExSuperseded ObSuperseded"
    "last_cursor m = 2"
    "\<forall>q \<in> set (wm_receipts m). wr_source_event_id q \<noteq> ''e4'' \<and> wr_source_event_sha256 q \<noteq> ex_sha CHR ''d''"
    by (rule ex_replay_fence)
  have f: "valid_fact (TaskExecutionFact (ex_header 3 ''e4'' CHR ''d'') ''p1'' ''t1'' ExSucceeded)"
    using ex_valid(4) by (simp add: ex_late_def)
  obtain x where "x \<in> set (ws_tasks (wm_snapshot m))" "tp_plan_revision_id x = ''p1''"
    "tp_task_id x = ''t1''" "tp_execution_state x = ExSuperseded"
    using m(2) by (simp add: ex_snapshot_def)
  from late_result_is_audit_only [OF _ m(1) f _ _ _ this] obtain m' where
    "apply_workflow_fact m ex_late = Inr m'"
    "wm_snapshot m' = (wm_snapshot m)\<lparr>ws_applied_cursor := 3\<rparr>"
    using m(3,4) by (auto simp: ex_late_def [symmetric])
  then show ?thesis using m(1) by auto
qed

lemma active_tasks_superseded:
  assumes "snapshot_inv s"
  shows "superseded_task (active_plan s) ` set (ws_tasks s) =
      (\<lambda>x. x\<lparr>tp_execution_state := ExSuperseded\<rparr>) ` set (ws_tasks s)"
proof (rule image_cong)
  fix x assume "x \<in> set (ws_tasks s)"
  then have "Some (tp_plan_revision_id x) \<noteq> active_plan s \<Longrightarrow> tp_execution_state x = ExSuperseded"
    using assms by (simp add: snapshot_inv_def)
  then show "superseded_task (active_plan s) x = x\<lparr>tp_execution_state := ExSuperseded\<rparr>"
    by (cases x) (auto simp: superseded_task_def)
qed simp

text \<open>
  A new plan replaces the old one whole.  When a plan is accepted, every task shown before is
  now superseded, the tasks of the new plan are pending, there is no other task, and the new plan is
  the active one; its tasks had not been projected before.
\<close>

theorem plan_acceptance_replaces_tasks:
  assumes "\<forall>f \<in> set fs. valid_fact f" and "replay_workflow cid fs realm profile = Inr m"
    and "valid_fact (PlanAcceptedFact h p)" and "fact_cursor h = last_cursor m + 1"
    and "apply_workflow_fact m (PlanAcceptedFact h p) = Inr m'"
  shows "set (ws_tasks (wm_snapshot m')) =
      (\<lambda>x. x\<lparr>tp_execution_state := ExSuperseded\<rparr>) ` set (ws_tasks (wm_snapshot m)) \<union>
      accepted_task h p ` set (pa_tasks p) \<and>
    active_plan (wm_snapshot m') = Some (pa_plan_revision_id p) \<and>
    (\<forall>x \<in> set (ws_tasks (wm_snapshot m)). tp_plan_revision_id x \<noteq> pa_plan_revision_id p)"
proof -
  have inv: "model_inv m" using replay_model_inv [OF assms(1,2)] by simp
  then have si: "snapshot_inv (wm_snapshot m)" by (simp add: model_inv_def)
  from inv assms(3) show ?thesis
  proof (cases rule: apply_cases)
    case (extended u t r)
    then have run: "accept_plan (wm_snapshot m) h p = Inr t" by simp
    note ar = accept_plan_run [OF si run]
    have "\<forall>x \<in> set (ws_tasks (wm_snapshot m)). tp_plan_revision_id x \<noteq> pa_plan_revision_id p"
      using run by (auto simp: accept_plan_def split: if_splits)
    then show ?thesis
      using extended assms(5) ar(1,3) active_tasks_superseded [OF si] by simp
  qed (use assms(4,5) in \<open>auto simp: consumed_def\<close>)
qed

theorem plan_acceptance_replaces_tasks_witness:
  "\<exists>m0 m. replay_workflow ''case-1'' [] RealmConformance ProfileConformance = Inr m0 \<and>
     apply_workflow_fact m0 ex_plan = Inr m \<and> length (ws_tasks (wm_snapshot m)) = 1 \<and>
     active_plan (wm_snapshot m) = Some ''p1''"
proof -
  obtain m0 where m0: "replay_workflow ''case-1'' [] RealmConformance ProfileConformance = Inr m0"
    "last_cursor m0 = 0"
    by (rule initial_model_total [of "''case-1''" RealmConformance ProfileConformance])
      (simp_all add: replay_workflow_def)
  obtain m where m: "replay_workflow ''case-1'' [ex_plan] RealmConformance ProfileConformance = Inr m"
    "wm_snapshot m = ex_snapshot 1 (Some ''p1'') NotDelivered ExPending ObOpen"
    by (rule ex_replay_plan)
  then have run: "apply_workflow_fact m0 ex_plan = Inr m"
    using m0(1) replay_snoc [of "''case-1''" "[]" "[ex_plan]"] by (simp add: result_simps)
  obtain p where p: "ex_plan = PlanAcceptedFact (ex_header 1 ''e1'' CHR ''a'') p"
    "pa_plan_revision_id p = ''p1''"
    by (simp add: ex_plan_def)
  have "active_plan (wm_snapshot m) = Some ''p1''"
    using plan_acceptance_replaces_tasks [OF _ m0(1), of "ex_header 1 ''e1'' CHR ''a''" p m]
      p run m0(2) ex_valid(1) by simp
  moreover have "length (ws_tasks (wm_snapshot m)) = 1" using m(2) by (simp add: ex_snapshot_def)
  ultimately show ?thesis using m0 run by blast
qed

text \<open>
  C16: Fencing an authority leaves nothing running.  Once an authority supersession is applied there
  is no active plan, every task and every obligation of the case is superseded and none is lost,
  and delivery is superseded; the fence is taken only when it names the accepted plan that was
  active.
\<close>

theorem authority_fence_supersedes_all:
  assumes "\<forall>f \<in> set fs. valid_fact f" and "replay_workflow cid fs realm profile = Inr m"
    and "valid_fact (AuthoritySupersededFact h a)" and "fact_cursor h = last_cursor m + 1"
    and "apply_workflow_fact m (AuthoritySupersededFact h a) = Inr m'"
  shows "active_plan (wm_snapshot m) = Some (as_superseded_plan_revision_id a) \<and>
    active_plan (wm_snapshot m') = None \<and>
    ws_tasks (wm_snapshot m') =
      map (\<lambda>x. x\<lparr>tp_execution_state := ExSuperseded\<rparr>) (ws_tasks (wm_snapshot m)) \<and>
    (\<forall>y \<in> set (ws_obligations (wm_snapshot m')). op_obligation_state y = ObSuperseded) \<and>
    length (ws_obligations (wm_snapshot m')) = length (ws_obligations (wm_snapshot m)) \<and>
    cp_delivery_state (ws_case (wm_snapshot m')) = DeliverySuperseded"
proof -
  have inv: "model_inv m" using replay_model_inv [OF assms(1,2)] by simp
  then have si: "snapshot_inv (wm_snapshot m)" by (simp add: model_inv_def)
  from inv assms(3) show ?thesis
  proof (cases rule: apply_cases)
    case (extended u t r)
    then have run: "supersede_authority (wm_snapshot m) a = Inr t" by simp
    note sr = supersede_authority_run [OF si run]
    have tasks: "map (superseded_task (active_plan (wm_snapshot m))) (ws_tasks (wm_snapshot m)) =
        map (\<lambda>x. x\<lparr>tp_execution_state := ExSuperseded\<rparr>) (ws_tasks (wm_snapshot m))"
      using si by (auto simp: snapshot_inv_def superseded_task_def)
    have obs: "\<forall>y \<in> set (ws_obligations t). op_obligation_state y = ObSuperseded"
      using extended(6) sr(3) by (simp add: snapshot_inv_def)
    have "active_plan (wm_snapshot m) = Some (as_superseded_plan_revision_id a)"
      "cp_delivery_state (ws_case t) = DeliverySuperseded"
      using run by (auto simp: supersede_authority_def result_simps split: if_splits)
    then show ?thesis using extended assms(5) sr tasks obs by simp
  qed (use assms(4,5) in \<open>auto simp: consumed_def\<close>)
qed

theorem authority_fence_supersedes_all_witness:
  "\<exists>m m'. replay_workflow ''case-1'' [ex_plan] RealmConformance ProfileConformance = Inr m \<and>
     apply_workflow_fact m ex_fence = Inr m' \<and> active_plan (wm_snapshot m) = Some ''p1'' \<and>
     active_plan (wm_snapshot m') = None \<and> length (ws_tasks (wm_snapshot m')) = 1"
proof -
  obtain m where m: "replay_workflow ''case-1'' [ex_plan] RealmConformance ProfileConformance = Inr m"
    "last_cursor m = 1" "wm_snapshot m = ex_snapshot 1 (Some ''p1'') NotDelivered ExPending ObOpen"
    by (rule ex_replay_plan)
  obtain m' where m': "replay_workflow ''case-1'' [ex_plan, ex_fence] RealmConformance ProfileConformance = Inr m'"
    by (rule ex_replay_fence)
  then have run: "apply_workflow_fact m ex_fence = Inr m'"
    using m(1) replay_snoc [of "''case-1''" "[ex_plan]" "[ex_fence]"] by (simp add: result_simps)
  obtain a where a: "ex_fence = AuthoritySupersededFact (ex_header 2 ''e3'' CHR ''c'') a"
    "as_superseded_plan_revision_id a = ''p1''"
    by (simp add: ex_fence_def)
  have f: "active_plan (wm_snapshot m) = Some ''p1'' \<and> active_plan (wm_snapshot m') = None \<and>
      ws_tasks (wm_snapshot m') = map (\<lambda>x. x\<lparr>tp_execution_state := ExSuperseded\<rparr>) (ws_tasks (wm_snapshot m))"
    using authority_fence_supersedes_all [OF _ m(1), of "ex_header 2 ''e3'' CHR ''c''" a m']
      a run m(2) ex_valid(3) by simp
  then have "length (ws_tasks (wm_snapshot m')) = 1" using m(3) by (simp add: ex_snapshot_def)
  with f m(1) run show ?thesis by blast
qed

end
