(* ===== verification/CanonicalProperties.thy ===== *)
theory CanonicalProperties imports Canonical begin

text \<open>
  The properties of \<open>domain/canonical.py\<close>: freezing gives a normal form, and it keeps the canonical
  text, so a record that stores the frozen value has the digest of the value it was given.
\<close>

lemma map_Inr_iff: "map f xs = map Inr ys \<longleftrightarrow> list_all2 (\<lambda>x y. f x = Inr y) xs ys"
  by (auto simp: list_all2_conv_all_nth list_eq_iff_nth_eq)

lemma sequenceR_rel: "sequenceR (map f xs) = Inr ys \<longleftrightarrow> list_all2 (\<lambda>x y. f x = Inr y) xs ys"
  by (auto simp: sequenceR_Inr_iff map_Inr_iff)

lemma last_wins_distinct: "distinct (map fst kvs) \<Longrightarrow> last_wins kvs = kvs"
  by (induction kvs rule: last_wins.induct) auto

lemma sort_key_map_fst:
  assumes "\<And>x. fst (g x) = fst x"
  shows "sort_key fst (map g kvs) = map g (sort_key fst kvs)"
proof (induction kvs)
  case (Cons x kvs)
  have "insort_key fst (g x) (map g ys) = map g (insort_key fst x ys)" for ys
    by (induction ys) (simp_all add: assms)
  then show ?case using Cons by simp
qed simp

lemma sort_key_twice [simp]: "sort_key f (sort_key f xs) = sort_key f xs"
  by (simp add: sort_key_id_if_sorted)

text \<open>The items of a frozen object: the items of the given one, sorted, each value frozen.\<close>

lemma freeze_object_items:
  "freeze_json (JObj kvs) = Inr w \<longleftrightarrow> (\<exists>ys. w = JObj ys \<and> distinct (map fst kvs) \<and>
     list_all2 (\<lambda>x y. fst y = fst x \<and> freeze_json (snd x) = Inr (snd y)) (sort_key fst kvs) ys)"
proof -
  have s: "sort_key fst (map (\<lambda>kv. (fst kv, freeze_json (snd kv))) kvs) =
      map (\<lambda>kv. (fst kv, freeze_json (snd kv))) (sort_key fst kvs)"
    by (rule sort_key_map_fst) simp
  have "seq_pairs (map (\<lambda>kv. (fst kv, freeze_json (snd kv))) zs) = Inr ys \<longleftrightarrow>
      list_all2 (\<lambda>x y. fst y = fst x \<and> freeze_json (snd x) = Inr (snd y)) zs ys" for zs ys
    by (auto simp: seq_pairs_def sequenceR_rel comp_def result_simps elim!: list_all2_mono)
  then show ?thesis by (auto simp: s result_simps split: if_splits)
qed

lemma list_all2_same_fst: "list_all2 (\<lambda>x y. fst y = fst x \<and> P x y) xs ys \<Longrightarrow> map fst ys = map fst xs"
  by (induction rule: list_all2_induct) auto

definition frozen_as :: "json \<Rightarrow> json \<Rightarrow> bool" where
  "frozen_as v w \<longleftrightarrow> freeze_json w = Inr w \<and> dumps w = dumps v \<and> jsonable v \<and> jsonable w"

lemma jsonable_parts [simp]:
  "jsonable (JList xs) = list_all jsonable xs" "jsonable (JTuple xs) = list_all jsonable xs"
  "jsonable (JObj kvs) = list_all (\<lambda>kv. jsonable (snd kv)) kvs"
  by (simp_all add: jsonable_def list_all_iff)

lemma frozen_as_list:
  assumes "list_all2 frozen_as xs ys"
  shows "sequenceR (map freeze_json ys) = Inr ys" and "map dumps ys = map dumps xs"
    and "list_all jsonable xs" and "list_all jsonable ys"
  using assms by (induction rule: list_all2_induct) (auto simp: frozen_as_def)

lemma frozen_as_items:
  assumes "list_all2 (\<lambda>x y. fst y = fst x \<and> frozen_as (snd x) (snd y)) xs ys"
  shows "list_all2 (\<lambda>x y. fst y = fst x \<and> freeze_json (snd x) = Inr (snd y)) ys ys"
    and "map (\<lambda>kv. (fst kv, dumps (snd kv))) ys = map (\<lambda>kv. (fst kv, dumps (snd kv))) xs"
    and "list_all (\<lambda>kv. jsonable (snd kv)) xs" and "list_all (\<lambda>kv. jsonable (snd kv)) ys"
  using assms by (induction rule: list_all2_induct) (auto simp: frozen_as_def)

lemma freeze_frozen: "freeze_json v = Inr w \<Longrightarrow> frozen_as v w"
proof (induction v arbitrary: w)
  case (JFloat f)
  then show ?case by (cases f) (auto simp: frozen_as_def jsonable_def)
next
  case (JList xs)
  then obtain ys where w: "w = JTuple ys" and "list_all2 (\<lambda>x y. freeze_json x = Inr y) xs ys"
    by (auto simp: result_simps sequenceR_rel)
  then have "list_all2 frozen_as xs ys" using JList.IH
    by (auto simp: list_all2_conv_all_nth)
  then show ?case using w frozen_as_list [of xs ys] by (simp add: frozen_as_def)
next
  case (JTuple xs)
  then obtain ys where w: "w = JTuple ys" and "list_all2 (\<lambda>x y. freeze_json x = Inr y) xs ys"
    by (auto simp: result_simps sequenceR_rel)
  then have "list_all2 frozen_as xs ys" using JTuple.IH
    by (auto simp: list_all2_conv_all_nth)
  then show ?case using w frozen_as_list [of xs ys] by (simp add: frozen_as_def)
next
  case (JObj kvs)
  from JObj.prems [unfolded freeze_object_items] obtain ys where w: "w = JObj ys"
    and d: "distinct (map fst kvs)"
    and r: "list_all2 (\<lambda>x y. fst y = fst x \<and> freeze_json (snd x) = Inr (snd y)) (sort_key fst kvs) ys"
    by blast
  have IH: "frozen_as (snd x) (snd y)"
    if "x \<in> set (sort_key fst kvs)" "freeze_json (snd x) = Inr (snd y)" for x y
  proof -
    have "snd x \<in> Basic_BNFs.snds x" by (cases x) simp
    moreover have "x \<in> set kvs" using that(1) by simp
    ultimately show ?thesis using JObj.IH that(2) by blast
  qed
  from r have l: "list_all2 (\<lambda>x y. fst y = fst x \<and> frozen_as (snd x) (snd y)) (sort_key fst kvs) ys"
    by (rule list.rel_mono_strong) (use IH in blast)
  note fi = frozen_as_items [OF l]
  have k: "map fst ys = map fst (sort_key fst kvs)" using l by (rule list_all2_same_fst)
  then have srt: "sorted (map fst ys)" and dy: "distinct (map fst ys)"
    using d by simp_all
  have sy: "sort_key fst ys = ys" using srt by (rule sort_key_id_if_sorted)
  have "freeze_json w = Inr w" unfolding w freeze_object_items using fi(1) dy sy by simp
  moreover have "dumps w = dumps (JObj kvs)"
    using fi(2) w sy
      sort_key_map_fst [of "\<lambda>kv :: string \<times> json. (fst kv, dumps (snd kv))"] by simp
  moreover have "jsonable (JObj kvs)" "jsonable w"
    using fi(3,4) w by (simp_all add: list_all_iff)
  ultimately show ?case by (simp add: frozen_as_def)
qed (auto simp: frozen_as_def jsonable_def)

lemma freeze_digest:
  assumes "freeze_json v = Inr w"
  shows "freeze_json w = Inr w" and "digest w = digest v" and "jsonable v" and "jsonable w"
  using freeze_frozen [OF assms] by (simp_all add: frozen_as_def digest_def)

section \<open>What can be frozen\<close>

fun unique_keys :: "json \<Rightarrow> bool" where
  "unique_keys (JList xs) = list_all unique_keys xs"
| "unique_keys (JTuple xs) = list_all unique_keys xs"
| "unique_keys (JObj kvs) = (distinct (map fst kvs) \<and> list_all (\<lambda>kv. unique_keys (snd kv)) kvs)"
| "unique_keys v = True"

lemma list_all2_choice: "(\<And>x. x \<in> set xs \<Longrightarrow> \<exists>y. P x y) \<Longrightarrow> \<exists>ys. list_all2 P xs ys"
proof (induction xs)
  case (Cons a xs)
  obtain y where "P a y" using Cons.prems [of a] by auto
  moreover obtain ys where "list_all2 P xs ys" using Cons by auto
  ultimately show ?case by (intro exI [of _ "y # ys"]) simp
qed (auto intro: exI [of _ "[]"])

text \<open>What can be frozen: a value with a canonical text whose objects have no repeated key.\<close>

lemma freeze_total: "jsonable v \<Longrightarrow> unique_keys v \<Longrightarrow> \<exists>w. freeze_json v = Inr w"
proof (induction v)
  case (JFloat f)
  then show ?case by (cases f) (auto simp: jsonable_def)
next
  case (JList xs)
  then have "\<exists>ys. list_all2 (\<lambda>x y. freeze_json x = Inr y) xs ys"
    by (intro list_all2_choice) (auto simp: list_all_iff)
  then show ?case by (auto simp flip: sequenceR_rel)
next
  case (JTuple xs)
  then have "\<exists>ys. list_all2 (\<lambda>x y. freeze_json x = Inr y) xs ys"
    by (intro list_all2_choice) (auto simp: list_all_iff)
  then show ?case by (auto simp flip: sequenceR_rel)
next
  case (JObj kvs)
  have "\<exists>y. fst y = fst x \<and> freeze_json (snd x) = Inr (snd y)" if x: "x \<in> set (sort_key fst kvs)" for x
  proof -
    have "snd x \<in> Basic_BNFs.snds x" by (cases x) simp
    moreover have "x \<in> set kvs" "jsonable (snd x)" "unique_keys (snd x)"
      using x JObj.prems by (auto simp: list_all_iff)
    ultimately obtain w where "freeze_json (snd x) = Inr w" using JObj.IH by blast
    then show ?thesis by (intro exI [of _ "(fst x, w)"]) simp
  qed
  then have "\<exists>ys. list_all2 (\<lambda>x y. fst y = fst x \<and> freeze_json (snd x) = Inr (snd y)) (sort_key fst kvs) ys"
    by (rule list_all2_choice)
  then show ?case using JObj.prems(2) unfolding freeze_object_items by (auto simp del: freeze_json.simps)
qed (auto simp: jsonable_def)

lemma jsonable_leaf [simp]: "jsonable JNull" "jsonable (JBool b)" "jsonable (JInt i)" "jsonable (JStr s)"
  by (simp_all add: jsonable_def)

lemma jsonable_opt [simp]: "jsonable (opt_str x)" "unique_keys (opt_str x)" "jsonable (opt_int y)" "unique_keys (opt_int y)"
  by (cases x; cases y; simp)+

text \<open>
  C20: Freezing is a normal form that digests cannot see.  A value that \<open>freeze_json\<close> accepts has a
  canonical text; the frozen value is frozen already and has the same content digest, whatever the
  order of the keys and whether sequences were lists or tuples.
\<close>

theorem freeze_keeps_digest:
  assumes "freeze_json v = Inr w"
  shows "freeze_json w = Inr w \<and> content_sha256 w = content_sha256 v \<and> content_sha256 v = Inr (digest v)"
  using freeze_frozen [OF assms]
  by (simp add: frozen_as_def content_sha256_jsonable digest_def)

theorem freeze_keeps_digest_witness:
  "freeze_json (JObj [(''b'', JList [JInt 1]), (''a'', JBool True)]) =
     Inr (JObj [(''a'', JBool True), (''b'', JTuple [JInt 1])]) \<and>
   content_sha256 (JObj [(''a'', JBool True), (''b'', JTuple [JInt 1])]) =
     content_sha256 (JObj [(''b'', JList [JInt 1]), (''a'', JBool True)])"
proof -
  have "freeze_json (JObj [(''b'', JList [JInt 1]), (''a'', JBool True)]) =
     Inr (JObj [(''a'', JBool True), (''b'', JTuple [JInt 1])])"
    by (simp add: seq_pairs_def)
  from freeze_keeps_digest [OF this] this show ?thesis by simp
qed

end
