(* ===== verification/RuntimeTypes.thy ===== *)
theory RuntimeTypes imports CanonicalProperties begin

text \<open>
  The durable records of the runtime: \<open>domain/async_runtime.py\<close> (operations, mailbox, job lease,
  authority snapshot), \<open>domain/runtime_state.py\<close> (action receipt, checkpoint, outbox message) and
  \<open>domain/events.py\<close> (the journal).  \<open>check_r\<close> is the \<open>__post_init__\<close> of record \<open>r\<close>; a record
  that stores a frozen copy of its payload has a \<open>make_r\<close> that returns the stored record.

  \<open>isinstance\<close> guards on fields are the HOL types.  Instants are in UTC, as the service makes them,
  so \<open>isoformat\<close> ends in \<open>+00:00\<close>.
\<close>

section \<open>Text of an instant\<close>

definition pad_left :: "nat \<Rightarrow> string \<Rightarrow> string" where
  "pad_left n s = replicate (n - length s) (CHR ''0'') @ s"

text \<open>Year, month and day of a day number from 1970-01-01, in the proleptic Gregorian calendar.\<close>

definition civil_date :: "int \<Rightarrow> int \<times> int \<times> int" where
  "civil_date days =
    (let z = days + 719468; era = z div 146097; doe = z mod 146097;
         yoe = (doe - doe div 1460 + doe div 36524 - doe div 146096) div 365;
         doy = doe - (365 * yoe + yoe div 4 - yoe div 100);
         mp = (5 * doy + 2) div 153;
         d = doy - (153 * mp + 2) div 5 + 1;
         m = (if mp < 10 then mp + 3 else mp - 9)
     in (yoe + era * 400 + (if m \<le> 2 then 1 else 0), m, d))"

definition iso_text :: "int \<Rightarrow> string" where
  "iso_text us =
    (let (y, m, d) = civil_date (us div 86400000000); t = us mod 86400000000;
         two = (\<lambda>n. pad_left 2 (show_int n))
     in pad_left 4 (show_int y) @ ''-'' @ two m @ ''-'' @ two d @ ''T'' @
        two (t div 3600000000) @ '':'' @ two (t div 60000000 mod 60) @ '':'' @
        two (t div 1000000 mod 60) @
        (if t mod 1000000 = 0 then '''' else ''.'' @ pad_left 6 (show_int (t mod 1000000))))"

fun isoformat :: "datetime \<Rightarrow> json" where
  "isoformat (Aware us) = JStr (iso_text us @ ''+00:00'')"
| "isoformat (Naive us) = JStr (iso_text us)"

lemma jsonable_iso [simp]: "jsonable (isoformat t)" "unique_keys (isoformat t)"
  by (cases t; simp)+

section \<open>Frozen payloads\<close>

text \<open>A payload has to be a JSON object, and its frozen copy to have the digest that was announced.\<close>

definition frozen_payload :: "json \<Rightarrow> string \<Rightarrow> string \<Rightarrow> string \<Rightarrow> json result" where
  "frozen_payload v field_name expected message =
     bindR (freeze_object v field_name) (\<lambda>f.
     bindR (content_sha256 f) (\<lambda>d.
       if d \<noteq> expected then Inl (ValueError message) else Inr f))"

lemma frozen_payload_Inr:
  "frozen_payload v n e msg = Inr f \<longleftrightarrow> freeze_json v = Inr f \<and> is_object f \<and> e = digest f"
  using freeze_digest by (auto simp: frozen_payload_def freeze_object_def result_simps content_sha256_Inr)

lemma freeze_object_Inr: "freeze_object v n = Inr f \<longleftrightarrow> freeze_json v = Inr f \<and> is_object f"
  by (auto simp: freeze_object_def result_simps)

text \<open>Storing a record again freezes a frozen payload, which is the identity.\<close>

lemma frozen_payload_again:
  "frozen_payload v n e msg = Inr f \<Longrightarrow> frozen_payload f n' e msg' = Inr f"
  using freeze_digest by (auto simp: frozen_payload_Inr)

section \<open>Operations\<close>

datatype MailboxMessageKind = UserMessage | UserCorrection | UserChallenge | UserScopeRevision

fun message_kind_value :: "MailboxMessageKind \<Rightarrow> string" where
  "message_kind_value UserMessage = ''user_message''"
| "message_kind_value UserCorrection = ''user_correction''"
| "message_kind_value UserChallenge = ''user_challenge''"
| "message_kind_value UserScopeRevision = ''user_scope_revision''"

datatype AsyncJobKind =
    JobControllerWake | JobMessageBinding | JobPrimaryAgent | JobSemanticInspection | JobDataProbe
  | JobCapability | JobSensitivity | JobReviewer | JobObligation | JobProjection

fun job_kind_value :: "AsyncJobKind \<Rightarrow> string" where
  "job_kind_value JobControllerWake = ''controller_wake''"
| "job_kind_value JobMessageBinding = ''message_binding''"
| "job_kind_value JobPrimaryAgent = ''primary_agent''"
| "job_kind_value JobSemanticInspection = ''semantic_inspection''"
| "job_kind_value JobDataProbe = ''data_probe''"
| "job_kind_value JobCapability = ''capability''"
| "job_kind_value JobSensitivity = ''sensitivity''"
| "job_kind_value JobReviewer = ''reviewer''"
| "job_kind_value JobObligation = ''obligation''"
| "job_kind_value JobProjection = ''projection''"

record OperationIdentity =
  oi_operation_id :: string
  oi_idempotency_key :: string
  oi_causation_id :: string
  oi_correlation_id :: string
  oi_authority_revision :: int
  oi_payload_sha256 :: string

definition check_operation :: "OperationIdentity \<Rightarrow> unit result" where
  "check_operation p = checks [
     require_nonempty (oi_operation_id p) ''operation_id'',
     require_nonempty (oi_idempotency_key p) ''idempotency_key'',
     require_nonempty (oi_causation_id p) ''causation_id'',
     require_nonempty (oi_correlation_id p) ''correlation_id'',
     require (\<not> oi_authority_revision p < 0)
       (ValueError ''authority_revision must be non-negative''),
     require_sha256 (oi_payload_sha256 p) ''payload_sha256'']"

definition operation_json :: "OperationIdentity \<Rightarrow> json" where
  "operation_json p = JObj [
     (''operation_id'', JStr (oi_operation_id p)), (''idempotency_key'', JStr (oi_idempotency_key p)),
     (''causation_id'', JStr (oi_causation_id p)), (''correlation_id'', JStr (oi_correlation_id p)),
     (''authority_revision'', JInt (oi_authority_revision p)),
     (''payload_sha256'', JStr (oi_payload_sha256 p))]"

section \<open>The mailbox\<close>

record MailboxMessage =
  mm_message_id :: string
  mm_case_id :: string
  mm_sequence :: int
  mm_authority_epoch :: int
  mm_kind :: MailboxMessageKind
  mm_operation :: OperationIdentity
  mm_payload :: json
  mm_created_at :: datetime

definition make_mailbox_message :: "MailboxMessage \<Rightarrow> MailboxMessage result" where
  "make_mailbox_message m =
     bindR (checks [
       require_nonempty (mm_message_id m) ''message_id'',
       require_nonempty (mm_case_id m) ''case_id'',
       require (\<not> mm_sequence m < 1) (ValueError ''sequence must be positive''),
       require (\<not> mm_authority_epoch m < 1) (ValueError ''authority_epoch must be positive''),
       require_aware_datetime (mm_created_at m) ''created_at'']) (\<lambda>_.
     bindR (frozen_payload (mm_payload m) ''payload'' (oi_payload_sha256 (mm_operation m))
              ''payload does not match operation payload_sha256'') (\<lambda>f.
       Inr (m\<lparr>mm_payload := f\<rparr>)))"

record MailboxHead =
  mh_case_id :: string
  mh_last_sequence :: int
  mh_authority_epoch :: int
  mh_updated_at :: datetime

definition check_mailbox_head :: "MailboxHead \<Rightarrow> unit result" where
  "check_mailbox_head h = checks [
     require_nonempty (mh_case_id h) ''case_id'',
     require (\<not> mh_last_sequence h < 0) (ValueError ''last_sequence must be non-negative''),
     require (\<not> mh_authority_epoch h < 0) (ValueError ''authority_epoch must be non-negative''),
     require_aware_datetime (mh_updated_at h) ''updated_at'']"

record MessageIngressReceipt =
  mr_case_id :: string
  mr_run_id :: string
  mr_message_id :: string
  mr_operation_id :: string
  mr_mailbox_sequence :: int
  mr_authority_epoch :: int
  mr_event_cursor :: int

definition check_ingress_receipt :: "MessageIngressReceipt \<Rightarrow> unit result" where
  "check_ingress_receipt r = checks [
     require_nonempty (mr_case_id r) ''case_id'', require_nonempty (mr_run_id r) ''run_id'',
     require_nonempty (mr_message_id r) ''message_id'',
     require_nonempty (mr_operation_id r) ''operation_id'',
     require (\<not> mr_mailbox_sequence r < 1) (ValueError ''mailbox_sequence must be positive''),
     require (\<not> mr_authority_epoch r < 1) (ValueError ''authority_epoch must be positive''),
     require (\<not> mr_event_cursor r < 1) (ValueError ''event_cursor must be positive'')]"

section \<open>The job lease\<close>

record JobLease =
  jl_outbox_message_id :: string
  jl_owner_id :: string
  jl_fencing_token :: int
  jl_acquired_at :: datetime
  jl_heartbeat_at :: datetime
  jl_expires_at :: datetime

definition check_job_lease :: "JobLease \<Rightarrow> unit result" where
  "check_job_lease l = checks [
     require_nonempty (jl_outbox_message_id l) ''outbox_message_id'',
     require_nonempty (jl_owner_id l) ''owner_id'',
     require (\<not> jl_fencing_token l < 1) (ValueError ''fencing_token must be positive''),
     require_aware_datetime (jl_acquired_at l) ''acquired_at'',
     require_aware_datetime (jl_heartbeat_at l) ''heartbeat_at'',
     require_aware_datetime (jl_expires_at l) ''expires_at'',
     require (\<not> instant (jl_heartbeat_at l) < instant (jl_acquired_at l))
       (ValueError ''heartbeat cannot precede acquisition''),
     require (\<not> instant (jl_expires_at l) \<le> instant (jl_heartbeat_at l))
       (ValueError ''job lease expiry must follow heartbeat'')]"

section \<open>The authority snapshot\<close>

record AuthoritySnapshot =
  au_case_id :: string
  au_head_version :: int
  au_mailbox_authority_epoch :: int
  au_question_revision_id :: "string option"
  au_frame_revision_id :: "string option"
  au_plan_revision_id :: "string option"
  au_candidate_generation :: int
  au_candidate_sha256 :: "string option"
  au_obligation_state_version :: int
  au_evidence_admission_state_version :: int
  au_contradiction_state_version :: int

definition check_authority_snapshot :: "AuthoritySnapshot \<Rightarrow> unit result" where
  "check_authority_snapshot a = checks [
     require_nonempty (au_case_id a) ''case_id'',
     require (\<not> au_head_version a < 0) (ValueError ''head_version must be non-negative''),
     require (\<not> au_mailbox_authority_epoch a < 0)
       (ValueError ''mailbox_authority_epoch must be non-negative''),
     require (\<not> au_candidate_generation a < 0)
       (ValueError ''active_frame_candidate_generation must be non-negative''),
     require (\<not> au_obligation_state_version a < 0)
       (ValueError ''obligation_state_version must be non-negative''),
     require (\<not> au_evidence_admission_state_version a < 0)
       (ValueError ''evidence_admission_state_version must be non-negative''),
     require (\<not> au_contradiction_state_version a < 0)
       (ValueError ''contradiction_state_version must be non-negative''),
     when_some (au_question_revision_id a)
       (\<lambda>v. require_nonempty v ''accepted_question_revision_id''),
     when_some (au_frame_revision_id a) (\<lambda>v. require_nonempty v ''accepted_frame_revision_id''),
     when_some (au_plan_revision_id a) (\<lambda>v. require_nonempty v ''accepted_plan_revision_id''),
     (if au_candidate_generation a = 0
      then require (au_candidate_sha256 a = None)
             (ValueError ''empty candidate generation cannot carry a digest'')
      else require (au_candidate_sha256 a \<noteq> None)
             (ValueError ''active candidate generation requires a digest'')),
     when_some (au_candidate_sha256 a) (\<lambda>v. require_sha256 v ''active_frame_candidate_sha256'')]"

definition authority_snapshot_json :: "AuthoritySnapshot \<Rightarrow> json" where
  "authority_snapshot_json a = JObj [
     (''case_id'', JStr (au_case_id a)), (''head_version'', JInt (au_head_version a)),
     (''mailbox_authority_epoch'', JInt (au_mailbox_authority_epoch a)),
     (''accepted_question_revision_id'', opt_str (au_question_revision_id a)),
     (''accepted_frame_revision_id'', opt_str (au_frame_revision_id a)),
     (''accepted_plan_revision_id'', opt_str (au_plan_revision_id a)),
     (''active_frame_candidate_generation'', JInt (au_candidate_generation a)),
     (''active_frame_candidate_sha256'', opt_str (au_candidate_sha256 a)),
     (''obligation_state_version'', JInt (au_obligation_state_version a)),
     (''evidence_admission_state_version'', JInt (au_evidence_admission_state_version a)),
     (''contradiction_state_version'', JInt (au_contradiction_state_version a))]"

definition authority_sha256 :: "AuthoritySnapshot \<Rightarrow> string" where
  "authority_sha256 a = digest (authority_snapshot_json a)"

lemma authority_sha256_ok [simp]: "is_sha256 (authority_sha256 a)"
  by (simp add: authority_sha256_def)

section \<open>Receipts, checkpoints and the outbox\<close>

record ActionReceipt =
  ar_case_id :: string
  ar_idempotency_key :: string
  ar_action_id :: string
  ar_request_sha256 :: string
  ar_result_schema_ref :: string
  ar_result_payload :: json
  ar_result_sha256 :: string
  ar_event_cursor :: int
  ar_recorded_at :: datetime

definition make_action_receipt :: "ActionReceipt \<Rightarrow> ActionReceipt result" where
  "make_action_receipt r =
     bindR (checks [
       require_nonempty (ar_case_id r) ''case_id'',
       require_nonempty (ar_idempotency_key r) ''idempotency_key'',
       require_nonempty (ar_action_id r) ''action_id'',
       require_nonempty (ar_result_schema_ref r) ''result_schema_ref'',
       require_sha256 (ar_request_sha256 r) ''request_sha256'',
       require_sha256 (ar_result_sha256 r) ''result_sha256'',
       require (\<not> ar_event_cursor r < 1) (ValueError ''event_cursor must be positive''),
       require_aware_datetime (ar_recorded_at r) ''recorded_at'']) (\<lambda>_.
     bindR (frozen_payload (ar_result_payload r) ''result_payload'' (ar_result_sha256 r)
              ''result_payload does not match result_sha256'') (\<lambda>f.
       Inr (r\<lparr>ar_result_payload := f\<rparr>)))"

record CheckpointRecord =
  ck_checkpoint_id :: string
  ck_case_id :: string
  ck_head_version :: int
  ck_event_cursor :: int
  ck_context_packet_id :: string
  ck_context_sha256 :: string
  ck_state_schema_ref :: string
  ck_state_payload :: json
  ck_state_sha256 :: string
  ck_created_at :: datetime

definition make_checkpoint :: "CheckpointRecord \<Rightarrow> CheckpointRecord result" where
  "make_checkpoint c =
     bindR (checks [
       require_nonempty (ck_checkpoint_id c) ''checkpoint_id'',
       require_nonempty (ck_case_id c) ''case_id'',
       require_nonempty (ck_context_packet_id c) ''context_packet_id'',
       require_nonempty (ck_state_schema_ref c) ''state_schema_ref'',
       require (\<not> ck_head_version c < 0) (ValueError ''head_version must be non-negative''),
       require (\<not> ck_event_cursor c < 1) (ValueError ''event_cursor must be positive''),
       require_sha256 (ck_context_sha256 c) ''context_sha256'',
       require_sha256 (ck_state_sha256 c) ''state_sha256'',
       require_aware_datetime (ck_created_at c) ''created_at'']) (\<lambda>_.
     bindR (frozen_payload (ck_state_payload c) ''state_payload'' (ck_state_sha256 c)
              ''state_payload does not match state_sha256'') (\<lambda>f.
       Inr (c\<lparr>ck_state_payload := f\<rparr>)))"

record OutboxMessage =
  om_outbox_message_id :: string
  om_case_id :: string
  om_source_event_cursor :: int
  om_action_id :: "string option"
  om_job_kind :: AsyncJobKind
  om_operation :: OperationIdentity
  om_expected_head_version :: int
  om_expected_authority_epoch :: int
  om_authority_snapshot :: AuthoritySnapshot
  om_authority_snapshot_sha256 :: string
  om_idempotency_key :: string
  om_destination :: string
  om_contract_ref :: string
  om_payload :: json
  om_payload_sha256 :: string
  om_created_at :: datetime

definition make_outbox_message :: "OutboxMessage \<Rightarrow> OutboxMessage result" where
  "make_outbox_message m =
     bindR (checks [
       require_nonempty (om_outbox_message_id m) ''outbox_message_id'',
       require_nonempty (om_case_id m) ''case_id'',
       require_nonempty (om_idempotency_key m) ''idempotency_key'',
       require_nonempty (om_destination m) ''destination'',
       require_nonempty (om_contract_ref m) ''contract_ref'',
       when_some (om_action_id m) (\<lambda>v. require_nonempty v ''action_id''),
       require (om_idempotency_key m = oi_idempotency_key (om_operation m))
         (ValueError ''outbox idempotency_key must match operation identity''),
       require (\<not> om_expected_head_version m < 0)
         (ValueError ''expected_head_version must be non-negative''),
       require (\<not> om_expected_authority_epoch m < 1)
         (ValueError ''expected_authority_epoch must be positive''),
       require_sha256 (om_authority_snapshot_sha256 m) ''authority_snapshot_sha256'',
       require (authority_sha256 (om_authority_snapshot m) = om_authority_snapshot_sha256 m)
         (ValueError ''authority snapshot hash is stale or forged''),
       require (au_case_id (om_authority_snapshot m) = om_case_id m \<and>
                au_head_version (om_authority_snapshot m) = om_expected_head_version m \<and>
                au_mailbox_authority_epoch (om_authority_snapshot m) = om_expected_authority_epoch m)
         (ValueError ''outbox authority snapshot does not match job fence''),
       require (\<not> om_source_event_cursor m < 1)
         (ValueError ''source_event_cursor must be positive''),
       require_sha256 (om_payload_sha256 m) ''payload_sha256'',
       require (oi_payload_sha256 (om_operation m) = om_payload_sha256 m)
         (ValueError ''outbox payload hash must match operation identity''),
       require_aware_datetime (om_created_at m) ''created_at'']) (\<lambda>_.
     bindR (frozen_payload (om_payload m) ''payload'' (om_payload_sha256 m)
              ''payload does not match payload_sha256'') (\<lambda>f.
       Inr (m\<lparr>om_payload := f\<rparr>)))"

end
