(* ===== verification/Journal.thy ===== *)
theory Journal imports RuntimeTypes begin

text \<open>
  \<open>domain/events.py\<close>: the entries of the append-only event journal and their digest.
\<close>

datatype JournalEventType =
    EvCaseOpened | EvMessageIngressed | EvActionAdmitted | EvActionRejected
    | EvUserDecisionRequested | EvQuestionAccepted | EvFrameAccepted | EvPlanAccepted
    | EvCapabilityResultLanded | EvEvidenceRecorded | EvEvidenceAdmissionRecorded
    | EvMeasurementResolutionRecorded | EvEvidenceObligationRecorded
    | EvEvidenceValidityRecorded | EvEvidenceUseBound | EvObligationSatisfactionRecorded
    | EvObligationScheduleCreated | EvObligationDispatchEnqueued
    | EvObligationCompletionAdmitted | EvObligationScheduleCheckpointed
    | EvSettlementPreconditionRecorded | EvAnswerCandidateRecorded | EvClaimPrecheckRecorded
    | EvInterpretationRecorded | EvUserDecisionRecorded | EvReviewerObjectionRecorded
    | EvAnswerAccepted | EvWorkflowProjectionApplied | EvCheckpointRecorded | EvEffectEnqueued
    | EvEffectAttemptFailed | EvEffectCompleted | EvLlmJobEnqueued | EvLlmJobCompleted
    | EvMessageBindingJobEnqueued | EvMessageBindingCompleted | EvReviewerJobEnqueued
    | EvReviewerJobCompleted | EvJobSuperseded | EvJobTerminallyFailed | EvRunResumed
    | EvCaseStopped | EvCaseClosed

fun event_type_value :: "JournalEventType \<Rightarrow> string" where
  "event_type_value EvCaseOpened = ''case_opened''"
| "event_type_value EvMessageIngressed = ''message_ingressed''"
| "event_type_value EvActionAdmitted = ''action_admitted''"
| "event_type_value EvActionRejected = ''action_rejected''"
| "event_type_value EvUserDecisionRequested = ''user_decision_requested''"
| "event_type_value EvQuestionAccepted = ''question_accepted''"
| "event_type_value EvFrameAccepted = ''frame_accepted''"
| "event_type_value EvPlanAccepted = ''plan_accepted''"
| "event_type_value EvCapabilityResultLanded = ''capability_result_landed''"
| "event_type_value EvEvidenceRecorded = ''evidence_recorded''"
| "event_type_value EvEvidenceAdmissionRecorded = ''evidence_admission_recorded''"
| "event_type_value EvMeasurementResolutionRecorded = ''measurement_resolution_recorded''"
| "event_type_value EvEvidenceObligationRecorded = ''evidence_obligation_recorded''"
| "event_type_value EvEvidenceValidityRecorded = ''evidence_validity_recorded''"
| "event_type_value EvEvidenceUseBound = ''evidence_use_bound''"
| "event_type_value EvObligationSatisfactionRecorded = ''obligation_satisfaction_recorded''"
| "event_type_value EvObligationScheduleCreated = ''obligation_schedule_created''"
| "event_type_value EvObligationDispatchEnqueued = ''obligation_dispatch_enqueued''"
| "event_type_value EvObligationCompletionAdmitted = ''obligation_completion_admitted''"
| "event_type_value EvObligationScheduleCheckpointed = ''obligation_schedule_checkpointed''"
| "event_type_value EvSettlementPreconditionRecorded = ''settlement_precondition_recorded''"
| "event_type_value EvAnswerCandidateRecorded = ''answer_candidate_recorded''"
| "event_type_value EvClaimPrecheckRecorded = ''claim_precheck_recorded''"
| "event_type_value EvInterpretationRecorded = ''interpretation_recorded''"
| "event_type_value EvUserDecisionRecorded = ''user_decision_recorded''"
| "event_type_value EvReviewerObjectionRecorded = ''reviewer_objection_recorded''"
| "event_type_value EvAnswerAccepted = ''answer_accepted''"
| "event_type_value EvWorkflowProjectionApplied = ''workflow_projection_applied''"
| "event_type_value EvCheckpointRecorded = ''checkpoint_recorded''"
| "event_type_value EvEffectEnqueued = ''effect_enqueued''"
| "event_type_value EvEffectAttemptFailed = ''effect_attempt_failed''"
| "event_type_value EvEffectCompleted = ''effect_completed''"
| "event_type_value EvLlmJobEnqueued = ''llm_job_enqueued''"
| "event_type_value EvLlmJobCompleted = ''llm_job_completed''"
| "event_type_value EvMessageBindingJobEnqueued = ''message_binding_job_enqueued''"
| "event_type_value EvMessageBindingCompleted = ''message_binding_completed''"
| "event_type_value EvReviewerJobEnqueued = ''reviewer_job_enqueued''"
| "event_type_value EvReviewerJobCompleted = ''reviewer_job_completed''"
| "event_type_value EvJobSuperseded = ''job_superseded''"
| "event_type_value EvJobTerminallyFailed = ''job_terminally_failed''"
| "event_type_value EvRunResumed = ''run_resumed''"
| "event_type_value EvCaseStopped = ''case_stopped''"
| "event_type_value EvCaseClosed = ''case_closed''"

record EventJournalEntry =
  ev_event_id :: string
  ev_case_id :: string
  ev_cursor :: int
  ev_event_type :: JournalEventType
  ev_recorded_at :: datetime
  ev_operation :: OperationIdentity
  ev_action_id :: "string option"
  ev_authority_ref :: "string option"
  ev_payload :: json
  ev_customer_projection :: "json option"

text \<open>The frozen customer projection, when there is one.\<close>

fun frozen_projection :: "json option \<Rightarrow> json option result" where
  "frozen_projection None = Inr None"
| "frozen_projection (Some v) =
     bindR (freeze_object v ''customer_projection'') (\<lambda>f. Inr (Some f))"

definition make_event :: "EventJournalEntry \<Rightarrow> EventJournalEntry result" where
  "make_event e =
     bindR (checks [
       require_nonempty (ev_event_id e) ''event_id'',
       require_nonempty (ev_case_id e) ''case_id'',
       require (\<not> ev_cursor e < 1) (ValueError ''cursor must be positive''),
       require_aware_datetime (ev_recorded_at e) ''recorded_at'']) (\<lambda>_.
     bindR (frozen_payload (ev_payload e) ''event payload'' (oi_payload_sha256 (ev_operation e))
              ''event payload does not match operation payload hash'') (\<lambda>f.
     bindR (frozen_projection (ev_customer_projection e)) (\<lambda>p.
       Inr (e\<lparr>ev_payload := f, ev_customer_projection := p\<rparr>))))"

definition event_json :: "EventJournalEntry \<Rightarrow> json" where
  "event_json e = JObj [
     (''event_id'', JStr (ev_event_id e)), (''case_id'', JStr (ev_case_id e)),
     (''cursor'', JInt (ev_cursor e)),
     (''event_type'', JStr (event_type_value (ev_event_type e))),
     (''recorded_at'', isoformat (ev_recorded_at e)),
     (''operation'', operation_json (ev_operation e)),
     (''action_id'', opt_str (ev_action_id e)), (''authority_ref'', opt_str (ev_authority_ref e)),
     (''payload'', ev_payload e),
     (''customer_projection'', case ev_customer_projection e of None \<Rightarrow> JNull | Some p \<Rightarrow> p)]"

definition journal_event_sha256 :: "EventJournalEntry \<Rightarrow> string" where
  "journal_event_sha256 e = digest (event_json e)"

lemma frozen_projection_again: "frozen_projection p = Inr q \<Longrightarrow> frozen_projection q = Inr q"
  by (cases p) (auto simp: result_simps freeze_object_Inr dest: freeze_digest)

text \<open>A stored entry is a fixed point of its constructor.\<close>

lemma make_event_again:
  assumes "make_event e = Inr x"
  shows "make_event x = Inr x"
proof -
  obtain f p where x: "x = e\<lparr>ev_payload := f, ev_customer_projection := p\<rparr>"
    and c: "nonempty (ev_event_id e)" "nonempty (ev_case_id e)" "\<not> ev_cursor e < 1"
      "is_aware (ev_recorded_at e)"
    and f: "freeze_json (ev_payload e) = Inr f" "is_object f"
      "oi_payload_sha256 (ev_operation e) = digest f"
    and p: "frozen_projection (ev_customer_projection e) = Inr p"
    using assms by (auto simp: make_event_def result_simps frozen_payload_Inr)
  have "make_event x = Inr (x\<lparr>ev_payload := f, ev_customer_projection := p\<rparr>)"
    using x c f p freeze_digest(1) [OF f(1)] frozen_projection_again [OF p]
    by (simp add: make_event_def result_simps frozen_payload_Inr)
  then show ?thesis using x by simp
qed

end
