(* ===== verification/Acyclic.thy ===== *)
theory Acyclic imports Prelude begin

text \<open>
  The depth-first search both \<open>_assert_acyclic\<close> (\<open>domain/obligation_scheduler.py\<close>) and
  \<open>_require_acyclic_tasks\<close> (\<open>domain/authority.py\<close>) are, and its correctness: it accepts exactly the
  acyclic graphs.

  \<open>dag_visit\<close> runs \<open>visit\<close> on the nodes of a list in order.  \<open>visiting\<close> is the path of the calls that
  are open: the code adds a node when its call begins and removes it when the call returns, so after
  each call the set is what it was before, and only \<open>visited\<close> is handed on.
\<close>

definition edges_of :: "(string \<times> string list) list \<Rightarrow> (string \<times> string) set" where
  "edges_of deps = {(n, d). \<exists>ds. map_of deps n = Some ds \<and> d \<in> set ds}"

function dag_visit ::
    "py_error \<Rightarrow> (string \<times> string list) list \<Rightarrow> string list \<Rightarrow> string list \<Rightarrow> string list \<Rightarrow>
     string list result" where
  "dag_visit cyclic deps visiting [] visited = Inr visited"
| "dag_visit cyclic deps visiting (n # ns) visited =
     (if n \<in> set visited then dag_visit cyclic deps visiting ns visited
      else if n \<in> set visiting then Inl cyclic
      else (case map_of deps n of
              None \<Rightarrow> Inl (KeyError n)
            | Some ds \<Rightarrow>
                bindR (dag_visit cyclic deps (n # visiting) ds visited) (\<lambda>visited'.
                  dag_visit cyclic deps visiting ns (n # visited'))))"
  by pat_completeness auto
termination
proof (relation "measures [\<lambda>(c, deps, visiting, ns, vd). card (set (map fst deps) - set visiting),
    \<lambda>(c, deps, visiting, ns, vd). length ns]", simp, simp)
  fix cyclic :: py_error and deps :: "(string \<times> string list) list" and visiting ns visited ds n
  assume "n \<notin> set visiting" and m: "map_of deps n = Some ds"
  have "n \<in> set (map fst deps) - set visiting"
    using m \<open>n \<notin> set visiting\<close> by (force dest: map_of_SomeD)
  then have "card (set (map fst deps) - set (n # visiting)) < card (set (map fst deps) - set visiting)"
    by (intro psubset_card_mono) auto
  then show "((cyclic, deps, n # visiting, ds, visited), cyclic, deps, visiting, n # ns, visited) \<in>
      measures [\<lambda>(c, deps, visiting, ns, vd). card (set (map fst deps) - set visiting),
        \<lambda>(c, deps, visiting, ns, vd). length ns]" by simp
qed simp

definition assert_acyclic :: "py_error \<Rightarrow> (string \<times> string list) list \<Rightarrow> unit result" where
  "assert_acyclic cyclic deps = bindR (dag_visit cyclic deps [] (map fst deps) []) (\<lambda>_. Inr ())"

section \<open>What it accepts\<close>

text \<open>Done nodes: closed under the edges, and none of them on a cycle.\<close>

definition dag_done :: "(string \<times> string list) list \<Rightarrow> string set \<Rightarrow> bool" where
  "dag_done deps V \<longleftrightarrow> (\<forall>x \<in> V. \<forall>d. (x, d) \<in> edges_of deps \<longrightarrow> d \<in> V) \<and>
     (\<forall>x \<in> V. (x, x) \<notin> (edges_of deps)\<^sup>+)"

lemma dag_done_closed:
  assumes "dag_done deps V" and "x \<in> V" and "(x, y) \<in> (edges_of deps)\<^sup>*"
  shows "y \<in> V"
  using assms(3,1,2) by (induction rule: rtrancl_induct) (auto simp: dag_done_def)

lemma dag_done_insert:
  assumes V: "dag_done deps V" and ds: "map_of deps n = Some ds" "set ds \<subseteq> V"
  shows "dag_done deps (insert n V)"
proof (cases "n \<in> V")
  case False
  have "(n, n) \<notin> (edges_of deps)\<^sup>+"
  proof
    assume "(n, n) \<in> (edges_of deps)\<^sup>+"
    then obtain d where "(n, d) \<in> edges_of deps" "(d, n) \<in> (edges_of deps)\<^sup>*"
      by (meson tranclD)
    moreover from this(1) have "d \<in> V" using ds by (auto simp: edges_of_def)
    ultimately show False using dag_done_closed [OF V] False by blast
  qed
  then show ?thesis using V ds by (auto simp: dag_done_def edges_of_def)
qed (use V in \<open>simp add: insert_absorb\<close>)

lemma dag_visit_done:
  "dag_visit cyclic deps visiting ns visited = Inr visited' \<Longrightarrow> dag_done deps (set visited) \<Longrightarrow>
   dag_done deps (set visited') \<and> set visited \<subseteq> set visited' \<and> set ns \<subseteq> set visited'"
proof (induction cyclic deps visiting ns visited arbitrary: visited' rule: dag_visit.induct)
  case (2 cyclic deps visiting n ns visited)
  show ?case
  proof (cases "n \<in> set visited")
    case True
    then show ?thesis using 2 by auto
  next
    case False
    then obtain ds vd where ds: "map_of deps n = Some ds" and nv: "n \<notin> set visiting"
      and inner: "dag_visit cyclic deps (n # visiting) ds visited = Inr vd"
      and outer: "dag_visit cyclic deps visiting ns (n # vd) = Inr visited'"
      using "2.prems"(1) by (auto simp: result_simps split: if_splits option.splits)
    have i: "dag_done deps (set vd) \<and> set visited \<subseteq> set vd \<and> set ds \<subseteq> set vd"
      using "2.IH"(2) [OF False nv ds inner "2.prems"(2)] .
    then have "dag_done deps (set (n # vd))" using dag_done_insert [OF _ ds] by simp
    then show ?thesis using "2.IH"(3) [OF False nv ds outer] i by auto
  qed
qed simp

definition edges_known :: "(string \<times> string list) list \<Rightarrow> bool" where
  "edges_known deps \<longleftrightarrow> (\<forall>n ds. map_of deps n = Some ds \<longrightarrow> set ds \<subseteq> fst ` set deps)"

lemma dag_visit_acyclic:
  assumes "acyclic (edges_of deps)" and "edges_known deps"
  shows "set ns \<subseteq> fst ` set deps \<Longrightarrow> \<forall>v \<in> set visiting. \<forall>n \<in> set ns. (v, n) \<in> (edges_of deps)\<^sup>+ \<Longrightarrow>
    \<exists>visited'. dag_visit cyclic deps visiting ns visited = Inr visited'"
  using assms
proof (induction cyclic deps visiting ns visited rule: dag_visit.induct)
  case (2 cyclic deps visiting n ns visited)
  show ?case
  proof (cases "n \<in> set visited")
    case True
    then show ?thesis using "2.IH"(1) "2.prems" by simp
  next
    case False
    have nv: "n \<notin> set visiting" using "2.prems"(2,3) by (auto simp: acyclic_def)
    have "n \<in> fst ` set deps" using "2.prems"(1) by simp
    then obtain ds where ds: "map_of deps n = Some ds"
      by (meson map_of_eq_None_iff not_None_eq)
    have e: "\<forall>d \<in> set ds. (n, d) \<in> edges_of deps" using ds by (auto simp: edges_of_def)
    have "\<forall>v \<in> set (n # visiting). \<forall>d \<in> set ds. (v, d) \<in> (edges_of deps)\<^sup>+"
      using "2.prems"(2) e by (auto intro: trancl_into_trancl)
    then obtain vd where "dag_visit cyclic deps (n # visiting) ds visited = Inr vd"
      using "2.IH"(2) [OF False nv ds] "2.prems"(3,4) ds
      by (auto simp: edges_known_def)
    moreover obtain v' where "dag_visit cyclic deps visiting ns (n # vd) = Inr v'"
      using "2.IH"(3) [OF False nv ds, of vd] "2.prems" by auto
    ultimately show ?thesis using False nv ds by simp
  qed
qed simp

theorem assert_acyclic_iff:
  assumes "edges_known deps"
  shows "assert_acyclic cyclic deps = Inr () \<longleftrightarrow> acyclic (edges_of deps)"
proof
  assume "assert_acyclic cyclic deps = Inr ()"
  then obtain vd where "dag_visit cyclic deps [] (map fst deps) [] = Inr vd"
    by (auto simp: assert_acyclic_def result_simps)
  then have d: "dag_done deps (set vd)" "fst ` set deps \<subseteq> set vd"
    using dag_visit_done [of cyclic deps "[]" "map fst deps" "[]" vd] by (auto simp: dag_done_def)
  show "acyclic (edges_of deps)"
    unfolding acyclic_def
  proof (intro allI notI)
    fix x assume c: "(x, x) \<in> (edges_of deps)\<^sup>+"
    then obtain y where "(x, y) \<in> edges_of deps" by (meson tranclD)
    then have "x \<in> fst ` set deps" by (force simp: edges_of_def dest: map_of_SomeD)
    then show False using c d by (auto simp: dag_done_def)
  qed
next
  assume "acyclic (edges_of deps)"
  from dag_visit_acyclic [OF this assms, where ns = "map fst deps" and visiting = "[]"
      and visited = "[]" and cyclic = cyclic]
  show "assert_acyclic cyclic deps = Inr ()" by (auto simp: assert_acyclic_def)
qed

text \<open>In an acyclic finite graph, a property that holds of a node once it holds of its successors.\<close>

lemma acyclic_edges_induct:
  assumes "acyclic (edges_of deps)" and "\<And>n. (\<And>d. (n, d) \<in> edges_of deps \<Longrightarrow> P d) \<Longrightarrow> P n"
  shows "P n"
proof -
  have "edges_of deps \<subseteq> (\<Union>(n, ds) \<in> set deps. {n} \<times> set ds)"
    by (force simp: edges_of_def dest: map_of_SomeD)
  then have "finite (edges_of deps)" by (rule finite_subset) auto
  then have "wf ((edges_of deps)\<inverse>)" using assms(1) by (simp add: finite_acyclic_wf_converse)
  then show ?thesis by (induction rule: wf_induct_rule) (use assms(2) in blast)
qed

end
