(* ===== verification/AuthorityTypes.thy ===== *)
theory AuthorityTypes imports RuntimeTypes Acyclic begin

text \<open>
  The investigation case and the work plan of \<open>domain/authority.py\<close>, with the task graph its plan
  constructor accepts.
\<close>

section \<open>The investigation case\<close>

datatype CaseLifecycle = CaseOpen | CaseWaitingForUser | CaseStopped | CaseClosed

fun lifecycle_value :: "CaseLifecycle \<Rightarrow> string" where
  "lifecycle_value CaseOpen = ''open''"
| "lifecycle_value CaseWaitingForUser = ''waiting_for_user''"
| "lifecycle_value CaseStopped = ''stopped''"
| "lifecycle_value CaseClosed = ''closed''"

record InvestigationCase =
  ic_case_id :: string
  ic_thread_id :: string
  ic_lifecycle :: CaseLifecycle
  ic_head_version :: int
  ic_question_revision_id :: "string option"
  ic_frame_revision_id :: "string option"
  ic_plan_revision_id :: "string option"
  ic_answer_version_id :: "string option"
  ic_analysis_cycle_id :: string
  ic_opened_at :: datetime
  ic_updated_at :: datetime

text \<open>Python's truth value of an optional string: present and not empty.\<close>

definition truthy :: "string option \<Rightarrow> bool" where
  "truthy v \<longleftrightarrow> v \<noteq> None \<and> v \<noteq> Some ''''"

definition check_case :: "InvestigationCase \<Rightarrow> unit result" where
  "check_case c = checks [
     require_nonempty (ic_case_id c) ''case_id'',
     require_nonempty (ic_thread_id c) ''thread_id'',
     require_nonempty (ic_analysis_cycle_id c) ''analysis_cycle_id'',
     require (\<not> ic_head_version c < 0) (ValueError ''head_version must be non-negative''),
     require_aware_datetime (ic_opened_at c) ''opened_at'',
     require_aware_datetime (ic_updated_at c) ''updated_at'',
     require (\<not> instant (ic_updated_at c) < instant (ic_opened_at c))
       (ValueError ''updated_at cannot precede opened_at''),
     require (\<not> (truthy (ic_frame_revision_id c) \<and> \<not> truthy (ic_question_revision_id c)))
       (ValueError ''accepted frame requires an accepted question''),
     require (\<not> (truthy (ic_plan_revision_id c) \<and> \<not> truthy (ic_frame_revision_id c)))
       (ValueError ''accepted plan requires an accepted frame''),
     require (\<not> (truthy (ic_answer_version_id c) \<and> \<not> truthy (ic_plan_revision_id c)))
       (ValueError ''accepted answer requires an accepted plan'')]"

section \<open>The work plan\<close>

text \<open>\<open>_require_nonempty_members\<close> names the member by its position.\<close>

definition require_nonempty_members :: "string list \<Rightarrow> string \<Rightarrow> unit result" where
  "require_nonempty_members vs field_name =
     checks (map (\<lambda>(i, v). require_nonempty v (field_name @ ''['' @ show_nat i @ '']''))
       (enumerate 0 vs))"

lemma require_nonempty_members_ok [simp, result_simps]:
  "require_nonempty_members vs n = Inr u \<longleftrightarrow> (\<forall>v \<in> set vs. nonempty v)"
proof -
  have "checks (map (\<lambda>(i, v). require_nonempty v (n @ ''['' @ show_nat i @ '']'')) (enumerate k vs)) =
      Inr u \<longleftrightarrow> (\<forall>v \<in> set vs. nonempty v)" for k
    by (induction vs arbitrary: k) simp_all
  then show ?thesis by (simp add: require_nonempty_members_def)
qed

record WorkTask =
  wt_task_id :: string
  wt_proposal_task_key :: string
  wt_business_purpose :: string
  wt_capability_intent_ref :: string
  wt_target_estimand_ids :: "string list"
  wt_obligation_ids :: "string list"
  wt_query_binding_ids :: "string list"
  wt_completion_spec_ids :: "string list"
  wt_success_policy_refs :: "string list"
  wt_degrade_policy_refs :: "string list"
  wt_stop_policy_refs :: "string list"
  wt_depends_on_task_ids :: "string list"

definition check_work_task :: "WorkTask \<Rightarrow> unit result" where
  "check_work_task t = checks [
     require_nonempty (wt_task_id t) ''task_id'',
     require_nonempty (wt_proposal_task_key t) ''proposal_task_key'',
     require_nonempty (wt_business_purpose t) ''business_purpose'',
     require_nonempty (wt_capability_intent_ref t) ''capability_intent_ref'',
     require (wt_task_id t \<notin> set (wt_depends_on_task_ids t))
       (ValueError ''task cannot depend on itself''),
     require_nonempty_members (wt_target_estimand_ids t) ''target_estimand_ids'',
     require_nonempty_members (wt_obligation_ids t) ''obligation_ids'',
     require_nonempty_members (wt_query_binding_ids t) ''query_binding_ids'',
     require_nonempty_members (wt_completion_spec_ids t) ''completion_spec_ids'',
     require_nonempty_members (wt_success_policy_refs t) ''execution_success_policy_refs'',
     require_nonempty_members (wt_degrade_policy_refs t) ''execution_degrade_policy_refs'',
     require_nonempty_members (wt_stop_policy_refs t) ''execution_stop_policy_refs'',
     require_nonempty_members (wt_depends_on_task_ids t) ''depends_on_task_ids'',
     require (wt_obligation_ids t \<noteq> [])
       (ValueError ''work task must close at least one obligation''),
     require (wt_target_estimand_ids t \<noteq> []) (ValueError ''work task requires target estimands''),
     require (wt_completion_spec_ids t \<noteq> []) (ValueError ''work task requires completion specs''),
     require (wt_success_policy_refs t \<noteq> []) (ValueError ''work task requires success policy refs''),
     require (wt_degrade_policy_refs t \<noteq> []) (ValueError ''work task requires degrade policy refs''),
     require (wt_stop_policy_refs t \<noteq> []) (ValueError ''work task requires stop policy refs'')]"

record WorkPlanRevision =
  wp_plan_revision_id :: string
  wp_case_id :: string
  wp_frame_revision_id :: string
  wp_revision_number :: int
  wp_prior_plan_revision_id :: "string option"
  wp_created_by_action_id :: string
  wp_created_at :: datetime
  wp_revision_reason :: string
  wp_resolution_outcome_ids :: "string list"
  wp_tasks :: "WorkTask list"

text \<open>
  The dict of \<open>_require_acyclic_tasks\<close>; its values are sets, whose order does not matter to the
  outcome (theorem \<open>plan_graph_acyclic\<close>).
\<close>

definition task_dependencies :: "WorkTask list \<Rightarrow> (string \<times> string list) list" where
  "task_dependencies ts = map (\<lambda>t. (wt_task_id t, remdups (wt_depends_on_task_ids t))) ts"

definition require_acyclic_tasks :: "WorkTask list \<Rightarrow> unit result" where
  "require_acyclic_tasks ts =
     assert_acyclic (ValueError ''work plan task dependencies must be acyclic'') (task_dependencies ts)"

definition check_task_known :: "string list \<Rightarrow> WorkTask \<Rightarrow> unit result" where
  "check_task_known known t =
     require (set (wt_depends_on_task_ids t) \<subseteq> set known)
       (ValueError (''task '' @ wt_task_id t @ '' has unknown dependencies''))"

definition check_work_plan :: "WorkPlanRevision \<Rightarrow> unit result" where
  "check_work_plan p =
    (let ts = wp_tasks p; task_ids = map wt_task_id ts in
     checks ([
       require_nonempty (wp_plan_revision_id p) ''plan_revision_id'',
       require_nonempty (wp_case_id p) ''case_id'',
       require_nonempty (wp_frame_revision_id p) ''frame_revision_id'',
       require_nonempty (wp_created_by_action_id p) ''created_by_action_id'',
       require_nonempty (wp_revision_reason p) ''revision_reason'',
       require (\<not> wp_revision_number p < 1) (ValueError ''revision_number must be positive''),
       require (\<not> (wp_revision_number p = 1 \<and> wp_prior_plan_revision_id p \<noteq> None))
         (ValueError ''first plan revision cannot have a prior revision''),
       require (\<not> (wp_revision_number p > 1 \<and> \<not> truthy (wp_prior_plan_revision_id p)))
         (ValueError ''later plan revisions require prior_plan_revision_id''),
       require_aware_datetime (wp_created_at p) ''created_at'',
       require_nonempty_members (wp_resolution_outcome_ids p) ''resolution_outcome_ids'',
       require (wp_resolution_outcome_ids p \<noteq> [])
         (ValueError ''work plan must adopt measurement resolution outcomes''),
       require (ts \<noteq> []) (ValueError ''work plan must contain at least one task''),
       require (distinct task_ids) (ValueError ''work plan task IDs must be unique''),
       require (distinct (map wt_proposal_task_key ts))
         (ValueError ''work plan proposal task keys must be unique''),
       require (distinct (concat (map wt_obligation_ids ts)))
         (ValueError ''work plan obligations must have one closure owner''),
       require (distinct (concat (map wt_query_binding_ids ts)))
         (ValueError ''work plan query bindings must have one task owner'')] @
     map (check_task_known task_ids) ts @
     [require_acyclic_tasks ts]))"

section \<open>The task graph of a plan\<close>

definition task_edges :: "WorkTask list \<Rightarrow> (string \<times> string) set" where
  "task_edges ts = {(wt_task_id t, d) | t d. t \<in> set ts \<and> d \<in> set (wt_depends_on_task_ids t)}"

lemma map_of_task_dependencies:
  assumes "distinct (map wt_task_id ts)"
  shows "map_of (task_dependencies ts) n = Some ds \<longleftrightarrow>
    (\<exists>t \<in> set ts. wt_task_id t = n \<and> ds = remdups (wt_depends_on_task_ids t))"
proof -
  have "distinct (map fst (task_dependencies ts))"
    using assms by (simp add: task_dependencies_def comp_def)
  then show ?thesis by (simp add: map_of_eq_Some_iff) (auto simp: task_dependencies_def)
qed

lemma task_edges_eq: "distinct (map wt_task_id ts) \<Longrightarrow> edges_of (task_dependencies ts) = task_edges ts"
  by (auto simp: edges_of_def task_edges_def map_of_task_dependencies)

lemma require_acyclic_tasks_iff:
  assumes "distinct (map wt_task_id ts)"
    and "\<forall>t \<in> set ts. set (wt_depends_on_task_ids t) \<subseteq> wt_task_id ` set ts"
  shows "require_acyclic_tasks ts = Inr () \<longleftrightarrow> acyclic (task_edges ts)"
proof -
  have "fst ` set (task_dependencies ts) = wt_task_id ` set ts"
    by (auto simp: task_dependencies_def image_image)
  then have "edges_known (task_dependencies ts)"
    using assms by (auto simp: edges_known_def map_of_task_dependencies) blast
  then show ?thesis
    using assert_acyclic_iff task_edges_eq [OF assms(1)] by (simp add: require_acyclic_tasks_def)
qed

text \<open>
  A work plan is a DAG.  Every plan the constructor accepts has unique tasks, dependencies only
  on its own tasks and no cycle among them; and the cycle check is exact, on a task list with those
  two properties it raises only when there is a cycle.
\<close>

theorem plan_graph_acyclic:
  "(check_work_plan p = Inr () \<longrightarrow> distinct (map wt_task_id (wp_tasks p)) \<and>
      acyclic (task_edges (wp_tasks p)) \<and>
      Range (task_edges (wp_tasks p)) \<subseteq> wt_task_id ` set (wp_tasks p)) \<and>
   (distinct (map wt_task_id ts) \<and>
    (\<forall>t \<in> set ts. set (wt_depends_on_task_ids t) \<subseteq> wt_task_id ` set ts) \<longrightarrow>
      (require_acyclic_tasks ts = Inr () \<longleftrightarrow> acyclic (task_edges ts)))"
proof (intro conjI impI)
  assume "check_work_plan p = Inr ()"
  then have c: "distinct (map wt_task_id (wp_tasks p))"
    "\<forall>t \<in> set (wp_tasks p). set (wt_depends_on_task_ids t) \<subseteq> wt_task_id ` set (wp_tasks p)"
    "require_acyclic_tasks (wp_tasks p) = Inr ()"
    by (simp_all add: check_work_plan_def check_task_known_def Let_def)
  then show "distinct (map wt_task_id (wp_tasks p))" and "acyclic (task_edges (wp_tasks p))"
    and "Range (task_edges (wp_tasks p)) \<subseteq> wt_task_id ` set (wp_tasks p)"
    using require_acyclic_tasks_iff [OF c(1,2)] by (auto simp: task_edges_def)
qed (use require_acyclic_tasks_iff in blast)

definition ex_task :: "string \<Rightarrow> string list \<Rightarrow> WorkTask" where
  "ex_task n ds = \<lparr>wt_task_id = n, wt_proposal_task_key = n, wt_business_purpose = ''p'',
     wt_capability_intent_ref = ''c'', wt_target_estimand_ids = [''e''], wt_obligation_ids = [n],
     wt_query_binding_ids = [], wt_completion_spec_ids = [''s''], wt_success_policy_refs = [''s''],
     wt_degrade_policy_refs = [''d''], wt_stop_policy_refs = [''s''], wt_depends_on_task_ids = ds\<rparr>"

theorem plan_graph_acyclic_witness:
  "acyclic (task_edges [ex_task ''a'' [''b''], ex_task ''b'' []]) \<and>
   \<not> acyclic (task_edges [ex_task ''a'' [''b''], ex_task ''b'' [''a'']])"
proof
  have "require_acyclic_tasks [ex_task ''a'' [''b''], ex_task ''b'' []] = Inr ()"
    by (simp add: require_acyclic_tasks_def task_dependencies_def ex_task_def assert_acyclic_def)
  then show "acyclic (task_edges [ex_task ''a'' [''b''], ex_task ''b'' []])"
    using plan_graph_acyclic [of undefined "[ex_task ''a'' [''b''], ex_task ''b'' []]"]
    by (simp add: ex_task_def)
next
  have "require_acyclic_tasks [ex_task ''a'' [''b''], ex_task ''b'' [''a'']] \<noteq> Inr ()"
    by (simp add: require_acyclic_tasks_def task_dependencies_def ex_task_def assert_acyclic_def)
  then show "\<not> acyclic (task_edges [ex_task ''a'' [''b''], ex_task ''b'' [''a'']])"
    using plan_graph_acyclic [of undefined "[ex_task ''a'' [''b''], ex_task ''b'' [''a'']]"]
    by (simp add: ex_task_def)
qed

end
