(* ===== verification/ObligationTypes.thy ===== *)
theory ObligationTypes imports AuthorityTypes begin

text \<open>
  The records of the obligation scheduler (\<open>domain/obligation_scheduler.py\<close>) and the two records of
  \<open>domain/measurement.py\<close> they carry, with their canonical renderings.
\<close>

section \<open>The resolved obligation\<close>

record MeasurementDerivationAuthority =
  da_case_id :: string
  da_mailbox_authority_epoch :: int
  da_question_revision_id :: string
  da_frame_revision_id :: string

definition check_derivation_authority :: "MeasurementDerivationAuthority \<Rightarrow> unit result" where
  "check_derivation_authority a = checks [
     require_nonempty (da_case_id a) ''case_id'',
     require_nonempty (da_question_revision_id a) ''accepted_question_revision_id'',
     require_nonempty (da_frame_revision_id a) ''accepted_frame_revision_id'',
     require (\<not> da_mailbox_authority_epoch a < 0)
       (ValueError ''mailbox_authority_epoch must be non-negative'')]"

text \<open>\<open>from_authority_snapshot\<close> and \<open>matches\<close>.\<close>

definition derivation_of_snapshot :: "AuthoritySnapshot \<Rightarrow> MeasurementDerivationAuthority result" where
  "derivation_of_snapshot s =
     (case au_question_revision_id s of
        None \<Rightarrow> Inl (ValueError ''measurement derivation requires an accepted question'')
      | Some q \<Rightarrow>
          (case au_frame_revision_id s of
             None \<Rightarrow> Inl (ValueError ''measurement derivation requires an accepted Frame'')
           | Some f \<Rightarrow> construct check_derivation_authority
               \<lparr>da_case_id = au_case_id s, da_mailbox_authority_epoch = au_mailbox_authority_epoch s,
                da_question_revision_id = q, da_frame_revision_id = f\<rparr>))"

definition derivation_matches :: "MeasurementDerivationAuthority \<Rightarrow> AuthoritySnapshot \<Rightarrow> bool" where
  "derivation_matches a s = (derivation_of_snapshot s = Inr a)"

definition derivation_authority_json :: "MeasurementDerivationAuthority \<Rightarrow> json" where
  "derivation_authority_json a = JObj [
     (''case_id'', JStr (da_case_id a)),
     (''mailbox_authority_epoch'', JInt (da_mailbox_authority_epoch a)),
     (''accepted_question_revision_id'', JStr (da_question_revision_id a)),
     (''accepted_frame_revision_id'', JStr (da_frame_revision_id a))]"

datatype ObligationExecutionDisposition = DispExecutable | DispTypedBoundary | DispBlocked

fun execution_disposition_value :: "ObligationExecutionDisposition \<Rightarrow> string" where
  "execution_disposition_value DispExecutable = ''executable''"
| "execution_disposition_value DispTypedBoundary = ''typed_boundary''"
| "execution_disposition_value DispBlocked = ''blocked''"

definition schema_epoch :: int where
  "schema_epoch = 3"

record ResolvedEvidenceObligation =
  ro_obligation_id :: string
  ro_case_id :: string
  ro_frame_revision_id :: string
  ro_estimand_id :: string
  ro_evidence_requirement_id :: string
  ro_evidence_requirement_sha256 :: string
  ro_evidence_type_refs :: "string list"
  ro_resolution_outcome_id :: string
  ro_derivation_authority :: MeasurementDerivationAuthority
  ro_execution_disposition :: ObligationExecutionDisposition
  ro_boundary_code :: "string option"
  ro_closure_definition_sha256 :: string
  ro_field_derivation_proof_sha256 :: string
  ro_created_at :: datetime
  ro_schema_epoch :: int

definition check_obligation :: "ResolvedEvidenceObligation \<Rightarrow> unit result" where
  "check_obligation b = checks ([
     require_sha256 (ro_obligation_id b) ''obligation_id'',
     require_nonempty (ro_case_id b) ''case_id'',
     require_nonempty (ro_frame_revision_id b) ''frame_revision_id'',
     require_nonempty (ro_estimand_id b) ''estimand_id'',
     require_nonempty (ro_evidence_requirement_id b) ''evidence_requirement_id'',
     require_nonempty (ro_resolution_outcome_id b) ''resolution_outcome_id'',
     require_sha256 (ro_evidence_requirement_sha256 b) ''evidence_requirement_sha256'',
     require_sha256 (ro_closure_definition_sha256 b) ''closure_definition_sha256'',
     require_sha256 (ro_field_derivation_proof_sha256 b) ''field_derivation_proof_sha256'',
     require (da_case_id (ro_derivation_authority b) = ro_case_id b \<and>
              da_frame_revision_id (ro_derivation_authority b) = ro_frame_revision_id b)
       (ValueError ''derivation authority does not bind obligation authority''),
     require (distinct (ro_evidence_type_refs b)) (ValueError ''evidence_type_refs values must be unique'')] @
     map (\<lambda>r. require_nonempty r ''evidence_type_refs'') (ro_evidence_type_refs b) @ [
     require (ro_evidence_type_refs b \<noteq> [])
       (ValueError ''obligation requires at least one evidence type''),
     require (length (ro_evidence_type_refs b) = 1)
       (ValueError ''resolved obligation must own one evidence type slot''),
     (if ro_execution_disposition b = DispExecutable
      then require (ro_boundary_code b = None)
             (ValueError ''executable obligation cannot carry a boundary'')
      else require (ro_boundary_code b \<noteq> None)
             (ValueError ''boundary obligation requires a boundary code'')),
     when_some (ro_boundary_code b) (\<lambda>v. require_nonempty v ''boundary_code''),
     require_aware_datetime (ro_created_at b) ''created_at'',
     require (ro_schema_epoch b = schema_epoch) (ValueError ''obligation requires schema epoch 3'')])"

definition obligation_json :: "ResolvedEvidenceObligation \<Rightarrow> json" where
  "obligation_json b = JObj [
     (''obligation_id'', JStr (ro_obligation_id b)), (''case_id'', JStr (ro_case_id b)),
     (''frame_revision_id'', JStr (ro_frame_revision_id b)),
     (''estimand_id'', JStr (ro_estimand_id b)),
     (''evidence_requirement_id'', JStr (ro_evidence_requirement_id b)),
     (''evidence_requirement_sha256'', JStr (ro_evidence_requirement_sha256 b)),
     (''evidence_type_refs'', strs (ro_evidence_type_refs b)),
     (''resolution_outcome_id'', JStr (ro_resolution_outcome_id b)),
     (''derivation_authority'', derivation_authority_json (ro_derivation_authority b)),
     (''execution_disposition'', JStr (execution_disposition_value (ro_execution_disposition b))),
     (''boundary_code'', opt_str (ro_boundary_code b)),
     (''closure_definition_sha256'', JStr (ro_closure_definition_sha256 b)),
     (''field_derivation_proof_sha256'', JStr (ro_field_derivation_proof_sha256 b)),
     (''created_at'', isoformat (ro_created_at b)),
     (''schema_epoch'', JInt (ro_schema_epoch b))]"

lemma obligation_json_ok [simp]: "jsonable (obligation_json b)" "unique_keys (obligation_json b)"
  by (simp_all add: obligation_json_def derivation_authority_json_def list_all_iff)

definition obligation_sha256 :: "ResolvedEvidenceObligation \<Rightarrow> string" where
  "obligation_sha256 b = digest (obligation_json b)"

section \<open>The records of the scheduler\<close>

datatype ObligationTerminalStatus = ExecutionSucceeded | TypedBoundary | ObligationFailed | ObligationSuperseded

fun terminal_status_value :: "ObligationTerminalStatus \<Rightarrow> string" where
  "terminal_status_value ExecutionSucceeded = ''execution_succeeded''"
| "terminal_status_value TypedBoundary = ''typed_boundary''"
| "terminal_status_value ObligationFailed = ''failed''"
| "terminal_status_value ObligationSuperseded = ''superseded''"

definition require_string_tuple :: "string list \<Rightarrow> string \<Rightarrow> unit result" where
  "require_string_tuple vs field_name = checks [
     require (\<forall>v \<in> set vs. \<not> blank v)
       (ValueError (field_name @ '' must contain non-empty strings'')),
     require (distinct vs) (ValueError (field_name @ '' must be unique''))]"

record ObligationDependency =
  dp_obligation_id :: string
  dp_depends_on :: "string list"

definition check_dependency :: "ObligationDependency \<Rightarrow> unit result" where
  "check_dependency d = checks [
     require_nonempty (dp_obligation_id d) ''obligation_id'',
     require_string_tuple (dp_depends_on d) ''depends_on_obligation_ids'',
     require (dp_obligation_id d \<notin> set (dp_depends_on d))
       (ValueError ''obligation cannot depend on itself'')]"

record ObligationPlanBinding =
  pb_obligation_id :: string
  pb_task_id :: string
  pb_query_binding_id :: "string option"

definition check_plan_binding :: "ObligationPlanBinding \<Rightarrow> unit result" where
  "check_plan_binding b = checks [
     require_sha256 (pb_obligation_id b) ''obligation_id'',
     require_sha256 (pb_task_id b) ''task_id'',
     when_some (pb_query_binding_id b) (\<lambda>v. require_sha256 v ''query_binding_id'')]"

record ObligationDispatch =
  di_dispatch_id :: string
  di_obligation_id :: string
  di_plan_revision_id :: string
  di_task_id :: string
  di_query_binding_id :: string
  di_definition_sha256 :: string
  di_authority_snapshot :: AuthoritySnapshot
  di_authority_snapshot_sha256 :: string

definition check_dispatch :: "ObligationDispatch \<Rightarrow> unit result" where
  "check_dispatch d = checks [
     require_sha256 (di_dispatch_id d) ''dispatch_id'',
     require_sha256 (di_obligation_id d) ''obligation_id'',
     require_sha256 (di_task_id d) ''task_id'',
     require_sha256 (di_query_binding_id d) ''query_binding_id'',
     require_nonempty (di_plan_revision_id d) ''plan_revision_id'',
     require_sha256 (di_definition_sha256 d) ''obligation_definition_sha256'',
     require_sha256 (di_authority_snapshot_sha256 d) ''authority_snapshot_sha256'',
     require (authority_sha256 (di_authority_snapshot d) = di_authority_snapshot_sha256 d)
       (ValueError ''dispatch authority snapshot hash is stale'')]"

record ObligationCompletion =
  oc_obligation_id :: string
  oc_dispatch_id :: string
  oc_status :: ObligationTerminalStatus
  oc_result_sha256 :: string

definition check_completion :: "ObligationCompletion \<Rightarrow> unit result" where
  "check_completion c = checks [
     require_nonempty (oc_obligation_id c) ''obligation_id'',
     require_nonempty (oc_dispatch_id c) ''dispatch_id'',
     require_sha256 (oc_result_sha256 c) ''result_sha256'']"

record ObligationScheduleRecord =
  os_schedule_id :: string
  os_case_id :: string
  os_correlation_id :: string
  os_frame_revision_id :: string
  os_plan_revision_id :: string
  os_plan_adoption_id :: string
  os_plan_adoption_content_sha256 :: string
  os_obligations :: "ResolvedEvidenceObligation list"
  os_plan_bindings :: "ObligationPlanBinding list"
  os_dependencies :: "ObligationDependency list"
  os_authority_snapshot :: AuthoritySnapshot
  os_authority_snapshot_sha256 :: string
  os_created_at :: datetime

record ObligationDispatchRecord =
  dr_dispatch_record_id :: string
  dr_schedule_id :: string
  dr_outbox_message_id :: string
  dr_dispatch :: ObligationDispatch
  dr_created_at :: datetime

definition check_dispatch_record :: "ObligationDispatchRecord \<Rightarrow> unit result" where
  "check_dispatch_record r = checks [
     require_nonempty (dr_dispatch_record_id r) ''dispatch_record_id'',
     require_nonempty (dr_schedule_id r) ''schedule_id'',
     require_nonempty (dr_outbox_message_id r) ''outbox_message_id'',
     require_aware_datetime (dr_created_at r) ''created_at'']"

record ObligationCompletionRecord =
  cr_completion_record_id :: string
  cr_schedule_id :: string
  cr_completion :: ObligationCompletion
  cr_admitted_authority_sha256 :: string
  cr_created_at :: datetime

definition check_completion_record :: "ObligationCompletionRecord \<Rightarrow> unit result" where
  "check_completion_record r = checks [
     require_nonempty (cr_completion_record_id r) ''completion_record_id'',
     require_nonempty (cr_schedule_id r) ''schedule_id'',
     require_sha256 (cr_admitted_authority_sha256 r) ''admitted_authority_snapshot_sha256'',
     require_aware_datetime (cr_created_at r) ''created_at'']"

record ObligationScheduleCheckpoint =
  sc_checkpoint_id :: string
  sc_schedule_id :: string
  sc_checkpoint_number :: int
  sc_prior_checkpoint_id :: "string option"
  sc_schedule_sha256 :: string
  sc_dispatched :: "string list"
  sc_completed :: "string list"
  sc_pending :: "string list"
  sc_authority_snapshot_sha256 :: string
  sc_created_at :: datetime

definition check_schedule_checkpoint :: "ObligationScheduleCheckpoint \<Rightarrow> unit result" where
  "check_schedule_checkpoint c = checks [
     require_nonempty (sc_checkpoint_id c) ''checkpoint_id'',
     require_nonempty (sc_schedule_id c) ''schedule_id'',
     require (\<not> sc_checkpoint_number c < 1) (ValueError ''checkpoint_number must be positive''),
     (if sc_checkpoint_number c = 1
      then require (sc_prior_checkpoint_id c = None)
             (ValueError ''first obligation checkpoint cannot have a prior'')
      else require (sc_prior_checkpoint_id c \<noteq> None)
             (ValueError ''later obligation checkpoint requires a prior'')),
     require_sha256 (sc_schedule_sha256 c) ''schedule_sha256'',
     require_sha256 (sc_authority_snapshot_sha256 c) ''authority_snapshot_sha256'',
     require_string_tuple (sc_dispatched c) ''dispatched_obligation_ids'',
     require_string_tuple (sc_completed c) ''completed_obligation_ids'',
     require_string_tuple (sc_pending c) ''pending_obligation_ids'',
     require (set (sc_dispatched c) \<inter> set (sc_completed c) = {} \<and>
              set (sc_dispatched c) \<inter> set (sc_pending c) = {} \<and>
              set (sc_completed c) \<inter> set (sc_pending c) = {})
       (ValueError ''obligation checkpoint states must be disjoint''),
     require_aware_datetime (sc_created_at c) ''created_at'']"

section \<open>Business authority and schedule identity\<close>

definition business_authority_fields :: "AuthoritySnapshot \<Rightarrow> (string \<times> json) list" where
  "business_authority_fields a = [
     (''case_id'', JStr (au_case_id a)),
     (''mailbox_authority_epoch'', JInt (au_mailbox_authority_epoch a)),
     (''accepted_question_revision_id'', opt_str (au_question_revision_id a)),
     (''accepted_frame_revision_id'', opt_str (au_frame_revision_id a)),
     (''accepted_plan_revision_id'', opt_str (au_plan_revision_id a)),
     (''active_frame_candidate_generation'', JInt (au_candidate_generation a)),
     (''active_frame_candidate_sha256'', opt_str (au_candidate_sha256 a))]"

definition same_obligation_business_authority :: "AuthoritySnapshot \<Rightarrow> AuthoritySnapshot \<Rightarrow> bool" where
  "same_obligation_business_authority e c \<longleftrightarrow>
     au_case_id e = au_case_id c \<and>
     au_mailbox_authority_epoch e = au_mailbox_authority_epoch c \<and>
     au_question_revision_id e = au_question_revision_id c \<and>
     au_frame_revision_id e = au_frame_revision_id c \<and>
     au_plan_revision_id e = au_plan_revision_id c \<and>
     au_candidate_generation e = au_candidate_generation c \<and>
     au_candidate_sha256 e = au_candidate_sha256 c"

definition obligation_business_authority_sha256 :: "AuthoritySnapshot \<Rightarrow> string" where
  "obligation_business_authority_sha256 a = digest (JObj (business_authority_fields a))"

definition build_obligation_schedule_id ::
    "string \<Rightarrow> string \<Rightarrow> string \<Rightarrow> string \<Rightarrow> string \<Rightarrow> string \<Rightarrow> AuthoritySnapshot \<Rightarrow> string result" where
  "build_obligation_schedule_id cid corr frame plan adoption adoption_sha a =
     bindR (checks [
       require_nonempty cid ''case_id'', require_nonempty corr ''correlation_id'',
       require_nonempty frame ''frame_revision_id'', require_nonempty plan ''plan_revision_id'',
       require_sha256 adoption ''plan_adoption_id'',
       require_sha256 adoption_sha ''plan_adoption_content_sha256'']) (\<lambda>_.
     Inr (''obligation-schedule-'' @ take 24 (digest (JObj [
       (''identity_version'', JStr ''obligation-schedule.v1''), (''case_id'', JStr cid),
       (''correlation_id'', JStr corr), (''frame_revision_id'', JStr frame),
       (''plan_revision_id'', JStr plan), (''plan_adoption_id'', JStr adoption),
       (''plan_adoption_content_sha256'', JStr adoption_sha),
       (''business_authority_sha256'', JStr (obligation_business_authority_sha256 a))]))))"

section \<open>Renderings\<close>

definition dependency_json :: "ObligationDependency \<Rightarrow> json" where
  "dependency_json d = JObj [
     (''obligation_id'', JStr (dp_obligation_id d)),
     (''depends_on_obligation_ids'', strs (dp_depends_on d))]"

definition plan_binding_json :: "ObligationPlanBinding \<Rightarrow> json" where
  "plan_binding_json b = JObj [
     (''obligation_id'', JStr (pb_obligation_id b)), (''task_id'', JStr (pb_task_id b)),
     (''query_binding_id'', opt_str (pb_query_binding_id b))]"

definition schedule_json :: "ObligationScheduleRecord \<Rightarrow> json" where
  "schedule_json s = JObj [
     (''schedule_id'', JStr (os_schedule_id s)), (''case_id'', JStr (os_case_id s)),
     (''correlation_id'', JStr (os_correlation_id s)),
     (''frame_revision_id'', JStr (os_frame_revision_id s)),
     (''plan_revision_id'', JStr (os_plan_revision_id s)),
     (''plan_adoption_id'', JStr (os_plan_adoption_id s)),
     (''plan_adoption_content_sha256'', JStr (os_plan_adoption_content_sha256 s)),
     (''obligations'', JTuple (map obligation_json (os_obligations s))),
     (''plan_bindings'', JTuple (map plan_binding_json (os_plan_bindings s))),
     (''dependencies'', JTuple (map dependency_json (os_dependencies s))),
     (''authority_snapshot'', authority_snapshot_json (os_authority_snapshot s)),
     (''authority_snapshot_sha256'', JStr (os_authority_snapshot_sha256 s)),
     (''created_at'', isoformat (os_created_at s))]"

definition schedule_sha256 :: "ObligationScheduleRecord \<Rightarrow> string" where
  "schedule_sha256 s = digest (schedule_json s)"

end
