(* ===== verification/ObligationGraph.thy ===== *)
theory ObligationGraph imports ObligationTypes begin

text \<open>
  The dependency graph of a schedule (\<open>domain/obligation_scheduler.py\<close>): \<open>_validate_graph\<close>,
  \<open>_completion_index\<close>, \<open>select_runnable_obligations\<close> and \<open>propagate_dependency_terminals\<close>, with the
  schedule record whose constructor validates its graph.
\<close>

section \<open>The graph\<close>

type_synonym obligations = "ResolvedEvidenceObligation list"
type_synonym dependencies = "ObligationDependency list"
type_synonym completions = "ObligationCompletion list"

abbreviation obligation_ids :: "obligations \<Rightarrow> string list" where
  "obligation_ids obs \<equiv> map ro_obligation_id obs"

text \<open>\<open>{item.obligation_id: item.depends_on_obligation_ids for item in dependencies}\<close>\<close>

definition dependency_map :: "dependencies \<Rightarrow> (string \<times> string list) list" where
  "dependency_map deps = dict_of (map (\<lambda>d. (dp_obligation_id d, dp_depends_on d)) deps)"

definition validate_graph :: "obligations \<Rightarrow> dependencies \<Rightarrow> unit result" where
  "validate_graph obs deps = checks ([
     require (obs \<noteq> []) (ValueError ''obligation graph cannot be empty''),
     require (distinct (obligation_ids obs)) (ValueError ''obligation IDs must be unique''),
     require (set (map dp_obligation_id deps) = set (obligation_ids obs))
       (ValueError ''every obligation requires one dependency record'')] @
     map (\<lambda>d. require (set (dp_depends_on d) \<subseteq> set (obligation_ids obs))
       (ValueError ''dependency references an unknown obligation'')) deps @
     [assert_acyclic (ValueError ''obligation dependency graph contains a cycle'') (dependency_map deps)])"

section \<open>Completions by obligation\<close>

type_synonym completion_index = "(string \<times> ObligationCompletion) list"

definition add_completion :: "ObligationCompletion \<Rightarrow> completion_index \<Rightarrow> completion_index result" where
  "add_completion c ix =
     (if map_of ix (oc_obligation_id c) \<notin> {None, Some c}
      then Inl (ValueError ''obligation has conflicting terminal completions'')
      else Inr (AList.update (oc_obligation_id c) c ix))"

definition completion_index :: "completions \<Rightarrow> completion_index result" where
  "completion_index cs = foldR add_completion cs []"

section \<open>Runnable obligations\<close>

definition deps_of :: "dependencies \<Rightarrow> string \<Rightarrow> string list result" where
  "deps_of deps n =
     (case map_of (dependency_map deps) n of Some ds \<Rightarrow> Inr ds | None \<Rightarrow> Inl (KeyError n))"

definition succeeded :: "completion_index \<Rightarrow> string \<Rightarrow> bool" where
  "succeeded ix n \<longleftrightarrow> (case map_of ix n of None \<Rightarrow> False | Some c \<Rightarrow> oc_status c = ExecutionSucceeded)"

text \<open>The condition of the generator expression, for one obligation.\<close>

definition runnable :: "dependencies \<Rightarrow> completion_index \<Rightarrow> ResolvedEvidenceObligation \<Rightarrow> bool result" where
  "runnable deps ix b =
     (if map_of ix (ro_obligation_id b) \<noteq> None \<or> ro_execution_disposition b \<noteq> DispExecutable
      then Inr False
      else bindR (deps_of deps (ro_obligation_id b)) (\<lambda>ds. Inr (list_all (succeeded ix) ds)))"

primrec filterR :: "('a \<Rightarrow> bool result) \<Rightarrow> 'a list \<Rightarrow> 'a list result" where
  "filterR p [] = Inr []"
| "filterR p (x # xs) =
     bindR (p x) (\<lambda>b. bindR (filterR p xs) (\<lambda>ys. Inr (if b then x # ys else ys)))"

definition select_runnable_obligations ::
    "obligations \<Rightarrow> dependencies \<Rightarrow> completions \<Rightarrow> AuthoritySnapshot \<Rightarrow> obligations result" where
  "select_runnable_obligations obs deps cs a =
     bindR (validate_graph obs deps) (\<lambda>_.
     if \<exists>b \<in> set obs. ro_case_id b \<noteq> au_case_id a \<or> Some (ro_frame_revision_id b) \<noteq> au_frame_revision_id a
     then Inl (ValueError ''obligation graph is stale for accepted authority'')
     else bindR (completion_index cs) (\<lambda>ix. filterR (runnable deps ix) obs))"

section \<open>Propagation of terminal prerequisites\<close>

definition blocking :: "completion_index \<Rightarrow> string list \<Rightarrow> completions" where
  "blocking ix ds =
     [c. d \<leftarrow> ds, c \<leftarrow> (case map_of ix d of None \<Rightarrow> [] | Some c \<Rightarrow> [c]), oc_status c \<noteq> ExecutionSucceeded]"

definition inherited_status :: "completions \<Rightarrow> ObligationTerminalStatus" where
  "inherited_status cs =
    (let statuses = map oc_status cs in
     if ObligationSuperseded \<in> set statuses then ObligationSuperseded
     else if ObligationFailed \<in> set statuses then ObligationFailed
     else TypedBoundary)"

definition prerequisite_completion :: "string \<Rightarrow> completions \<Rightarrow> ObligationCompletion" where
  "prerequisite_completion n cs =
     \<lparr>oc_obligation_id = n, oc_dispatch_id = ''system-prerequisite:'' @ n,
      oc_status = inherited_status cs,
      oc_result_sha256 = digest (JObj [
        (''kind'', JStr ''obligation-prerequisite-terminal.v1''),
        (''obligation_id'', JStr n),
        (''blocking_prerequisites'', JTuple (map (\<lambda>(i, st, r). strs [i, st, r])
           (sort (map (\<lambda>c. (oc_obligation_id c, terminal_status_value (oc_status c),
                            oc_result_sha256 c)) cs))))])\<rparr>"

text \<open>One obligation of one round: the flag says whether it was closed.\<close>

definition propagate_one ::
    "dependencies \<Rightarrow> ResolvedEvidenceObligation \<Rightarrow> bool \<times> completion_index \<Rightarrow>
     (bool \<times> completion_index) result" where
  "propagate_one deps b st =
    (let n = ro_obligation_id b; ix = snd st in
     if map_of ix n \<noteq> None then Inr st
     else bindR (deps_of deps n) (\<lambda>ds.
       let bl = blocking ix ds in
       if bl = [] then Inr st
       else bindR (construct check_completion (prerequisite_completion n bl)) (\<lambda>c.
         Inr (True, AList.update n c ix))))"

definition propagate_round ::
    "obligations \<Rightarrow> dependencies \<Rightarrow> completion_index \<Rightarrow> (bool \<times> completion_index) result" where
  "propagate_round obs deps ix = foldR (propagate_one deps) obs (False, ix)"

definition open_ids :: "obligations \<Rightarrow> completion_index \<Rightarrow> string set" where
  "open_ids obs ix = {n \<in> set (obligation_ids obs). map_of ix n = None}"

lemma propagate_one_open:
  assumes "propagate_one deps b (ch, ix) = Inr (ch', ix')"
  shows "ch' = ch \<and> ix' = ix \<or>
    ch' \<and> map_of ix (ro_obligation_id b) = None \<and>
    (\<exists>c. map_of ix' = (map_of ix)(ro_obligation_id b \<mapsto> c))"
  using assms
  by (auto simp: propagate_one_def Let_def result_simps update_conv' split: if_splits)

lemma propagate_fold_open:
  "foldR (propagate_one deps) bs (ch, ix) = Inr (ch', ix') \<Longrightarrow> set bs \<subseteq> set obs \<Longrightarrow>
   open_ids obs ix' \<subseteq> open_ids obs ix \<and> (ch' \<longrightarrow> ch \<or> open_ids obs ix' \<noteq> open_ids obs ix)"
proof (induction bs arbitrary: ch ix)
  case (Cons b bs)
  then obtain ch1 ix1 where s: "propagate_one deps b (ch, ix) = Inr (ch1, ix1)"
    and r: "foldR (propagate_one deps) bs (ch1, ix1) = Inr (ch', ix')"
    by (auto simp: result_simps)
  have rest: "open_ids obs ix' \<subseteq> open_ids obs ix1 \<and> (ch' \<longrightarrow> ch1 \<or> open_ids obs ix' \<noteq> open_ids obs ix1)"
    using Cons.IH [OF r] Cons.prems(2) by simp
  from propagate_one_open [OF s] show ?case
  proof
    assume "ch1 = ch \<and> ix1 = ix"
    then show ?thesis using rest by blast
  next
    assume a: "ch1 \<and> map_of ix (ro_obligation_id b) = None \<and>
      (\<exists>c. map_of ix1 = (map_of ix)(ro_obligation_id b \<mapsto> c))"
    then have "open_ids obs ix1 = open_ids obs ix - {ro_obligation_id b}"
      by (auto simp: open_ids_def split: if_splits)
    moreover have "ro_obligation_id b \<in> open_ids obs ix"
      using a Cons.prems(2) by (simp add: open_ids_def)
    ultimately show ?thesis using rest by blast
  qed
qed simp

text \<open>The \<open>while changed\<close> loop; each round that changes something closes an open obligation.\<close>

function propagate_loop ::
    "obligations \<Rightarrow> dependencies \<Rightarrow> completion_index \<Rightarrow> completion_index result" where
  "propagate_loop obs deps ix =
     (case propagate_round obs deps ix of
        Inl e \<Rightarrow> Inl e
      | Inr (changed, ix') \<Rightarrow> if changed then propagate_loop obs deps ix' else Inr ix')"
  by pat_completeness auto
termination
proof (relation "measure (\<lambda>(obs, deps, ix). card (open_ids obs ix))", simp)
  fix obs deps ix st changed ix'
  assume r: "propagate_round obs deps ix = Inr st" and st: "(changed, ix') = st" and "changed"
  have "open_ids obs ix' \<subset> open_ids obs ix"
    using propagate_fold_open [of deps obs False ix changed ix' obs] r st \<open>changed\<close>
    by (auto simp: propagate_round_def)
  moreover have "finite (open_ids obs ix)" by (simp add: open_ids_def)
  ultimately show "((obs, deps, ix'), obs, deps, ix) \<in> measure (\<lambda>(obs, deps, ix). card (open_ids obs ix))"
    by (simp add: psubset_card_mono)
qed

declare propagate_loop.simps [simp del]

definition completions_in_order :: "obligations \<Rightarrow> completion_index \<Rightarrow> completions" where
  "completions_in_order obs ix =
     [c. b \<leftarrow> obs, c \<leftarrow> (case map_of ix (ro_obligation_id b) of None \<Rightarrow> [] | Some c \<Rightarrow> [c])]"

definition propagate_dependency_terminals ::
    "obligations \<Rightarrow> dependencies \<Rightarrow> completions \<Rightarrow> completions result" where
  "propagate_dependency_terminals obs deps cs =
     bindR (validate_graph obs deps) (\<lambda>_.
     bindR (completion_index cs) (\<lambda>ix.
     bindR (propagate_loop obs deps ix) (\<lambda>ix'. Inr (completions_in_order obs ix'))))"

section \<open>The schedule record\<close>

definition check_schedule :: "ObligationScheduleRecord \<Rightarrow> unit result" where
  "check_schedule s =
    (let obs = os_obligations s; bs = os_plan_bindings s; a = os_authority_snapshot s in
     checks ([
       require_nonempty (os_schedule_id s) ''schedule_id'',
       require_nonempty (os_case_id s) ''case_id'',
       require_nonempty (os_correlation_id s) ''correlation_id'',
       require_nonempty (os_frame_revision_id s) ''frame_revision_id'',
       require_nonempty (os_plan_revision_id s) ''plan_revision_id'',
       require_sha256 (os_plan_adoption_id s) ''plan_adoption_id'',
       require_sha256 (os_plan_adoption_content_sha256 s) ''plan_adoption_content_sha256'',
       require (obs \<noteq> []) (ValueError ''obligation schedule requires obligations''),
       validate_graph obs (os_dependencies s),
       require (distinct (map pb_obligation_id bs))
         (ValueError ''plan obligation bindings must be unique''),
       require (set (map pb_obligation_id bs) = set (obligation_ids obs))
         (ValueError ''schedule must bind every adopted obligation'')] @
       map (\<lambda>b. require (\<forall>p \<in> set bs. pb_obligation_id p = ro_obligation_id b \<longrightarrow>
                  (ro_execution_disposition b = DispExecutable) = (pb_query_binding_id p \<noteq> None))
         (ValueError ''query binding presence must follow disposition'')) obs @ [
       require (\<forall>b \<in> set obs. ro_case_id b = os_case_id s \<and>
                  ro_frame_revision_id b = os_frame_revision_id s)
         (ValueError ''obligation schedule crosses case or Frame authority''),
       require (au_case_id a = os_case_id s \<and> au_frame_revision_id a = Some (os_frame_revision_id s) \<and>
                au_plan_revision_id a = Some (os_plan_revision_id s))
         (ValueError ''obligation schedule authority does not accept its Frame''),
       require_sha256 (os_authority_snapshot_sha256 s) ''authority_snapshot_sha256'',
       require (authority_sha256 a = os_authority_snapshot_sha256 s)
         (ValueError ''obligation schedule snapshot hash is stale''),
       require_aware_datetime (os_created_at s) ''created_at'']))"

end
