(* ===== verification/ObligationPropagation.thy ===== *)
theory ObligationPropagation imports ObligationGraph begin

text \<open>
  What the graph functions of the scheduler compute: the graphs that are accepted, the index of
  completions as a map, and the result of propagation as a fixed point.
\<close>

section \<open>Accepted graphs\<close>

abbreviation graph_ok :: "obligations \<Rightarrow> dependencies \<Rightarrow> bool" where
  "graph_ok obs deps \<equiv> validate_graph obs deps = Inr ()"

definition dependency_edges :: "dependencies \<Rightarrow> (string \<times> string) set" where
  "dependency_edges deps = {(n, d). \<exists>ds. deps_of deps n = Inr ds \<and> d \<in> set ds}"

lemma deps_of_Inr: "deps_of deps n = Inr ds \<longleftrightarrow> map_of (dependency_map deps) n = Some ds"
  by (auto simp: deps_of_def split: option.splits)

lemma dependency_edges_eq: "dependency_edges deps = edges_of (dependency_map deps)"
  by (simp add: dependency_edges_def edges_of_def deps_of_Inr)

lemma dependency_map_keys: "fst ` set (dependency_map deps) = dp_obligation_id ` set deps"
  by (simp add: dependency_map_def image_image)

lemma dependency_map_of:
  assumes "map_of (dependency_map deps) n = Some ds"
  obtains d where "d \<in> set deps" "dp_obligation_id d = n" "dp_depends_on d = ds"
proof -
  have "(n, ds) \<in> set (rev (map (\<lambda>d. (dp_obligation_id d, dp_depends_on d)) deps))"
    using assms by (auto simp: dependency_map_def map_of_dict_of dest: map_of_SomeD)
  then show thesis using that by auto
qed

lemma validate_graph_iff:
  "graph_ok obs deps \<longleftrightarrow> obs \<noteq> [] \<and> distinct (obligation_ids obs) \<and>
     dp_obligation_id ` set deps = ro_obligation_id ` set obs \<and>
     (\<forall>d \<in> set deps. set (dp_depends_on d) \<subseteq> ro_obligation_id ` set obs) \<and>
     acyclic (dependency_edges deps)"
proof -
  have "edges_known (dependency_map deps)"
    if "dp_obligation_id ` set deps = ro_obligation_id ` set obs"
      "\<forall>d \<in> set deps. set (dp_depends_on d) \<subseteq> ro_obligation_id ` set obs"
    unfolding edges_known_def dependency_map_keys using that by (metis dependency_map_of)
  then show ?thesis
    using assert_acyclic_iff [of "dependency_map deps"]
    by (auto simp: validate_graph_def dependency_edges_eq)
qed

lemma graph_deps:
  assumes "graph_ok obs deps" and "b \<in> set obs"
  obtains ds where "deps_of deps (ro_obligation_id b) = Inr ds"
    and "set ds \<subseteq> ro_obligation_id ` set obs"
proof -
  have g: "dp_obligation_id ` set deps = ro_obligation_id ` set obs"
    "\<forall>d \<in> set deps. set (dp_depends_on d) \<subseteq> ro_obligation_id ` set obs"
    using assms(1) by (simp_all add: validate_graph_iff)
  have "ro_obligation_id b \<in> fst ` set (dependency_map deps)"
    using assms(2) g(1) by (simp add: dependency_map_keys)
  then obtain ds where ds: "map_of (dependency_map deps) (ro_obligation_id b) = Some ds"
    by (meson map_of_eq_None_iff not_None_eq)
  then show thesis using that g(2) by (metis dependency_map_of deps_of_Inr)
qed

section \<open>The index of completions\<close>

lemma add_completion_Inr:
  "add_completion c ix = Inr ix' \<longleftrightarrow> map_of ix (oc_obligation_id c) \<in> {None, Some c} \<and>
     ix' = AList.update (oc_obligation_id c) c ix"
  by (auto simp: add_completion_def)

lemma completion_fold_map:
  "foldR add_completion cs ix = Inr ix' \<Longrightarrow>
   map_of ix' n = Some c \<longleftrightarrow> map_of ix n = Some c \<or> c \<in> set cs \<and> oc_obligation_id c = n"
proof (induction cs arbitrary: ix)
  case (Cons x cs)
  then have a: "map_of ix (oc_obligation_id x) \<in> {None, Some x}"
    and r: "foldR add_completion cs (AList.update (oc_obligation_id x) x ix) = Inr ix'"
    by (simp_all add: result_simps add_completion_Inr del: insert_iff)
  show ?case using Cons.IH [OF r] a by (auto simp: update_conv')
qed simp

lemma completion_index_map:
  assumes "completion_index cs = Inr ix"
  shows "map_of ix n = Some c \<longleftrightarrow> c \<in> set cs \<and> oc_obligation_id c = n"
  using completion_fold_map [of cs "[]" ix] assms by (simp add: completion_index_def)

lemma completion_fold_total:
  assumes "\<And>c c'. c \<in> set cs \<Longrightarrow> c' \<in> set cs \<Longrightarrow> oc_obligation_id c = oc_obligation_id c' \<Longrightarrow> c = c'"
    and "\<And>c. c \<in> set cs \<Longrightarrow> map_of ix (oc_obligation_id c) \<in> {None, Some c}"
  shows "\<exists>ix'. foldR add_completion cs ix = Inr ix'"
  using assms
proof (induction cs arbitrary: ix)
  case (Cons x cs)
  have "map_of (AList.update (oc_obligation_id x) x ix) (oc_obligation_id c) \<in> {None, Some c}"
    if "c \<in> set cs" for c
    using Cons.prems(1) [of c x] Cons.prems(2) [of c] that by (auto simp: update_conv')
  then obtain ix' where "foldR add_completion cs (AList.update (oc_obligation_id x) x ix) = Inr ix'"
    using Cons.IH Cons.prems(1) by (metis list.set_intros(2))
  moreover have "add_completion x ix = Inr (AList.update (oc_obligation_id x) x ix)"
    using Cons.prems(2) [of x] by (simp add: add_completion_Inr)
  ultimately show ?case by simp
qed simp

text \<open>The index exists exactly when no obligation has two different completions.\<close>

lemma completion_index_total_iff:
  "(\<exists>ix. completion_index cs = Inr ix) \<longleftrightarrow>
   (\<forall>c \<in> set cs. \<forall>c' \<in> set cs. oc_obligation_id c = oc_obligation_id c' \<longrightarrow> c = c')"
proof
  assume "\<exists>ix. completion_index cs = Inr ix"
  then obtain ix where "completion_index cs = Inr ix" ..
  note m = completion_index_map [OF this]
  show "\<forall>c \<in> set cs. \<forall>c' \<in> set cs. oc_obligation_id c = oc_obligation_id c' \<longrightarrow> c = c'"
    using m by (metis option.inject)
next
  assume "\<forall>c \<in> set cs. \<forall>c' \<in> set cs. oc_obligation_id c = oc_obligation_id c' \<longrightarrow> c = c'"
  then show "\<exists>ix. completion_index cs = Inr ix"
    using completion_fold_total [of cs "[]"] by (auto simp: completion_index_def)
qed

lemma completion_index_error:
  assumes "completion_index cs = Inl e"
  shows "e = ValueError ''obligation has conflicting terminal completions''"
proof -
  have "foldR add_completion cs ix = Inl e \<Longrightarrow>
      e = ValueError ''obligation has conflicting terminal completions''" for ix
    by (induction cs arbitrary: ix) (auto simp: bindR_Inl_iff add_completion_def split: if_splits)
  then show ?thesis using assms by (simp add: completion_index_def)
qed

section \<open>Blocking prerequisites\<close>

lemma set_blocking:
  "c \<in> set (blocking ix ds) \<longleftrightarrow> (\<exists>d \<in> set ds. map_of ix d = Some c) \<and> oc_status c \<noteq> ExecutionSucceeded"
  by (force simp: blocking_def split: option.splits)

lemma blocking_Nil:
  "blocking ix ds = [] \<longleftrightarrow> (\<forall>d \<in> set ds. \<forall>c. map_of ix d = Some c \<longrightarrow> oc_status c = ExecutionSucceeded)"
  using set_empty [of "blocking ix ds"]
  by (auto simp: set_eq_iff set_blocking simp del: set_empty)

lemma blocking_cong:
  "(\<And>d. d \<in> set ds \<Longrightarrow> map_of ix d = map_of ix' d) \<Longrightarrow> blocking ix ds = blocking ix' ds"
  unfolding blocking_def by (induction ds) auto

lemma inherited_not_succeeded [simp]: "inherited_status cs \<noteq> ExecutionSucceeded"
  by (simp add: inherited_status_def Let_def)

lemma prerequisite_fields [simp]:
  "oc_obligation_id (prerequisite_completion n cs) = n"
  "oc_status (prerequisite_completion n cs) = inherited_status cs"
  "oc_dispatch_id (prerequisite_completion n cs) = ''system-prerequisite:'' @ n"
  by (simp_all add: prerequisite_completion_def)

lemma prerequisite_check [simp]:
  "check_completion (prerequisite_completion n cs) = Inr () \<longleftrightarrow> nonempty n"
  by (simp add: check_completion_def prerequisite_completion_def nonempty_def blank_def)

lemma propagate_one_known:
  "map_of ix (ro_obligation_id b) \<noteq> None \<Longrightarrow> propagate_one deps b (ch, ix) = Inr (ch, ix)"
  by (simp add: propagate_one_def Let_def)

lemma propagate_one_free:
  "deps_of deps (ro_obligation_id b) = Inr ds \<Longrightarrow> blocking ix ds = [] \<Longrightarrow>
   propagate_one deps b (ch, ix) = Inr (ch, ix)"
  by (simp add: propagate_one_def Let_def)

lemma propagate_one_blocked:
  "map_of ix (ro_obligation_id b) = None \<Longrightarrow> deps_of deps (ro_obligation_id b) = Inr ds \<Longrightarrow>
   blocking ix ds \<noteq> [] \<Longrightarrow> nonempty (ro_obligation_id b) \<Longrightarrow>
   propagate_one deps b (ch, ix) = Inr (True, AList.update (ro_obligation_id b)
     (prerequisite_completion (ro_obligation_id b) (blocking ix ds)) ix)"
  by (simp add: propagate_one_def Let_def)

text \<open>The outcomes of one obligation in one round.\<close>

lemma propagate_one_cases:
  assumes "propagate_one deps b (ch, ix) = Inr (ch', ix')"
  obtains (known) "map_of ix (ro_obligation_id b) \<noteq> None" "ch' = ch" "ix' = ix"
  | (free) ds where "map_of ix (ro_obligation_id b) = None" "deps_of deps (ro_obligation_id b) = Inr ds"
      "blocking ix ds = []" "ch' = ch" "ix' = ix"
  | (closed) ds where "map_of ix (ro_obligation_id b) = None"
      "deps_of deps (ro_obligation_id b) = Inr ds" "blocking ix ds \<noteq> []" "nonempty (ro_obligation_id b)"
      "ch'" "map_of ix' = (map_of ix)(ro_obligation_id b \<mapsto>
         prerequisite_completion (ro_obligation_id b) (blocking ix ds))"
proof (cases "map_of ix (ro_obligation_id b)")
  case (Some c)
  then show ?thesis using known assms propagate_one_known [of ix b deps ch] by simp
next
  case None
  obtain ds where ds: "deps_of deps (ro_obligation_id b) = Inr ds"
    using assms None by (auto simp: propagate_one_def Let_def result_simps)
  show ?thesis
  proof (cases "blocking ix ds = []")
    case True
    then show ?thesis using free [OF None ds] assms propagate_one_free [OF ds] by simp
  next
    case False
    have n: "nonempty (ro_obligation_id b)"
      using assms None ds False by (simp add: propagate_one_def Let_def result_simps)
    then show ?thesis
      using closed [OF None ds False n] assms propagate_one_blocked [OF None ds False n]
      by (auto simp: update_conv')
  qed
qed

end
