(* ===== verification/ObligationClosure.thy ===== *)
theory ObligationClosure imports ObligationPropagation begin

text \<open>
  Propagation as a closure: the loop ends in an index that extends the given one, is closed under
  blocked prerequisites and holds nothing that is not justified by a blocked prerequisite.
\<close>

section \<open>The two invariants of the loop\<close>

definition closed_at :: "dependencies \<Rightarrow> completion_index \<Rightarrow> ResolvedEvidenceObligation \<Rightarrow> bool" where
  "closed_at deps ix b \<longleftrightarrow> map_of ix (ro_obligation_id b) = None \<longrightarrow>
     (\<exists>ds. deps_of deps (ro_obligation_id b) = Inr ds \<and> blocking ix ds = [])"

definition justified :: "obligations \<Rightarrow> dependencies \<Rightarrow> completion_index \<Rightarrow> completion_index \<Rightarrow> bool" where
  "justified obs deps ix ix' \<longleftrightarrow>
     (\<forall>n c. map_of ix n = Some c \<longrightarrow> map_of ix' n = Some c) \<and>
     (\<forall>n c. map_of ix n = None \<longrightarrow> map_of ix' n = Some c \<longrightarrow>
        n \<in> ro_obligation_id ` set obs \<and>
        (\<exists>ds bl. deps_of deps n = Inr ds \<and> bl \<noteq> [] \<and> set (blocking ix ds) \<subseteq> set bl \<and>
           set bl \<subseteq> set (blocking ix' ds) \<and> c = prerequisite_completion n bl))"

lemma blocking_mono:
  "(\<And>n c. map_of ix n = Some c \<Longrightarrow> map_of ix' n = Some c) \<Longrightarrow> set (blocking ix ds) \<subseteq> set (blocking ix' ds)"
  unfolding subset_iff set_blocking by blast

lemma justified_refl [simp]: "justified obs deps ix ix"
  by (simp add: justified_def)

lemma justified_keeps: "justified obs deps ix ix' \<Longrightarrow> map_of ix n = Some c \<Longrightarrow> map_of ix' n = Some c"
  unfolding justified_def by blast

lemma justified_new:
  assumes "justified obs deps ix ix'" and "map_of ix n = None" and "map_of ix' n = Some c"
  obtains ds bl where "n \<in> ro_obligation_id ` set obs" and "deps_of deps n = Inr ds" and "bl \<noteq> []"
    and "set (blocking ix ds) \<subseteq> set bl" and "set bl \<subseteq> set (blocking ix' ds)" and "c = prerequisite_completion n bl"
  using assms unfolding justified_def by blast

lemma justified_new_status:
  assumes "justified obs deps ix ix'" and "map_of ix n = None" and "map_of ix' n = Some c"
  shows "oc_status c \<noteq> ExecutionSucceeded"
  using assms by (rule justified_new) simp

lemma justified_step:
  assumes j: "justified obs deps ix ix1" and b: "b \<in> set obs"
    and s: "propagate_one deps b (ch, ix1) = Inr (ch', ix2)"
  shows "justified obs deps ix ix2"
  using s
proof (cases rule: propagate_one_cases)
  case (closed ds)
  let ?n = "ro_obligation_id b"
  have grow: "map_of ix1 m = Some c \<Longrightarrow> map_of ix2 m = Some c" for m c
    using closed(1,6) by auto
  have mono: "set (blocking ix1 es) \<subseteq> set (blocking ix2 es)" for es
    using grow by (rule blocking_mono)
  have low: "set (blocking ix es) \<subseteq> set (blocking ix1 es)" for es
    using justified_keeps [OF j] by (rule blocking_mono)
  show ?thesis
    unfolding justified_def
  proof (intro conjI allI impI)
    fix m c assume "map_of ix m = Some c"
    then show "map_of ix2 m = Some c" using j grow by (simp add: justified_def)
  next
    fix m c assume "map_of ix m = None" and c: "map_of ix2 m = Some c"
    show "m \<in> ro_obligation_id ` set obs"
      using j b closed(6) c \<open>map_of ix m = None\<close> by (cases "m = ?n") (auto simp: justified_def)
    show "\<exists>ds bl. deps_of deps m = Inr ds \<and> bl \<noteq> [] \<and> set (blocking ix ds) \<subseteq> set bl \<and>
        set bl \<subseteq> set (blocking ix2 ds) \<and> c = prerequisite_completion m bl"
    proof (cases "m = ?n")
      case True
      then show ?thesis
        using closed(2,3,6) c mono low
        by (intro exI [of _ ds] exI [of _ "blocking ix1 ds"]) simp
    next
      case False
      then have "map_of ix1 m = Some c" using closed(6) c by simp
      then obtain es bl where "deps_of deps m = Inr es" "bl \<noteq> []"
        "set (blocking ix es) \<subseteq> set bl" "set bl \<subseteq> set (blocking ix1 es)"
        "c = prerequisite_completion m bl"
        using justified_new [OF j \<open>map_of ix m = None\<close>] by metis
      then show ?thesis using mono by blast
    qed
  qed
qed (use j in auto)

lemma justified_fold:
  assumes "foldR (propagate_one deps) bs (ch, ix1) = Inr (ch', ix2)" and "set bs \<subseteq> set obs"
    and "justified obs deps ix ix1"
  shows "justified obs deps ix ix2"
proof -
  have "justified obs deps ix (snd (ch', ix2))"
    by (rule foldR_invariant [OF assms(1), where P = "\<lambda>st. justified obs deps ix (snd st)"])
      (use assms(2,3) justified_step in \<open>fastforce+\<close>)
  then show ?thesis by simp
qed

lemma round_unchanged:
  "foldR (propagate_one deps) bs (ch, ix) = Inr (False, ix') \<Longrightarrow>
   \<not> ch \<and> ix' = ix \<and> (\<forall>b \<in> set bs. closed_at deps ix b)"
proof (induction bs arbitrary: ch ix)
  case (Cons b bs)
  then obtain ch1 ix1 where s: "propagate_one deps b (ch, ix) = Inr (ch1, ix1)"
    and r: "foldR (propagate_one deps) bs (ch1, ix1) = Inr (False, ix')"
    by (auto simp: result_simps)
  note IH = Cons.IH [OF r]
  from s show ?case
    by (cases rule: propagate_one_cases) (use IH in \<open>auto simp: closed_at_def\<close>)
qed simp

lemma propagate_loop_result:
  "propagate_loop obs deps ix = Inr ix' \<Longrightarrow>
   justified obs deps ix ix' \<and> (\<forall>b \<in> set obs. closed_at deps ix' b)"
proof (induction obs deps ix rule: propagate_loop.induct)
  case (1 obs deps ix)
  obtain ch ix1 where r: "propagate_round obs deps ix = Inr (ch, ix1)"
    using "1.prems" by (subst (asm) propagate_loop.simps) (auto split: sum.splits)
  have f: "foldR (propagate_one deps) obs (False, ix) = Inr (ch, ix1)"
    using r by (simp add: propagate_round_def)
  have j: "justified obs deps ix ix1" using justified_fold [OF f] by simp
  show ?case
  proof (cases ch)
    case True
    then have l: "propagate_loop obs deps ix1 = Inr ix'"
      using "1.prems" r by (subst (asm) propagate_loop.simps) simp
    note IH = "1.IH" [OF r refl True l]
    have "justified obs deps ix ix'"
      unfolding justified_def
    proof (intro conjI allI impI)
      fix n c assume "map_of ix n = Some c"
      then show "map_of ix' n = Some c" using j IH by (simp add: justified_def)
    next
      fix n c assume n: "map_of ix n = None" "map_of ix' n = Some c"
      have grow: "map_of ix1 m = Some d \<Longrightarrow> map_of ix' m = Some d" for m d
        using IH by (simp add: justified_def)
      then have mono: "set (blocking ix1 es) \<subseteq> set (blocking ix' es)" for es by (rule blocking_mono)
      have "n \<in> ro_obligation_id ` set obs \<and> (\<exists>ds bl. deps_of deps n = Inr ds \<and> bl \<noteq> [] \<and>
          set (blocking ix ds) \<subseteq> set bl \<and> set bl \<subseteq> set (blocking ix' ds) \<and> c = prerequisite_completion n bl)"
      proof (cases "map_of ix1 n")
        case None
        obtain ds bl where "n \<in> ro_obligation_id ` set obs" "deps_of deps n = Inr ds" "bl \<noteq> []"
          "set (blocking ix1 ds) \<subseteq> set bl" "set bl \<subseteq> set (blocking ix' ds)"
          "c = prerequisite_completion n bl"
          using justified_new [OF conjunct1 [OF IH] None n(2)] .
        moreover have "set (blocking ix ds) \<subseteq> set (blocking ix1 ds)"
          using justified_keeps [OF j] by (rule blocking_mono)
        ultimately show ?thesis by blast
      next
        case (Some d)
        then have "d = c" using grow n by fastforce
        then show ?thesis using Some j n(1) mono unfolding justified_def by (meson order_trans)
      qed
      then show "n \<in> ro_obligation_id ` set obs" and "\<exists>ds bl. deps_of deps n = Inr ds \<and> bl \<noteq> [] \<and>
          set (blocking ix ds) \<subseteq> set bl \<and> set bl \<subseteq> set (blocking ix' ds) \<and> c = prerequisite_completion n bl" by blast+
    qed
    then show ?thesis using IH by blast
  next
    case False
    then have "ix' = ix1" using "1.prems" r by (subst (asm) propagate_loop.simps) simp
    then show ?thesis using j round_unchanged [of deps obs False ix ix1] f False by simp
  qed
qed

section \<open>The loop raises nothing\<close>

lemma propagate_fold_total:
  assumes "graph_ok obs deps" and "\<forall>b \<in> set obs. nonempty (ro_obligation_id b)"
  shows "set bs \<subseteq> set obs \<Longrightarrow> \<exists>st'. foldR (propagate_one deps) bs st = Inr st'"
proof (induction bs arbitrary: st)
  case (Cons b bs)
  obtain ch ix where st: "st = (ch, ix)" by (cases st)
  obtain ds where ds: "deps_of deps (ro_obligation_id b) = Inr ds"
    using graph_deps [OF assms(1)] Cons.prems by (metis list.set_intros(1) subsetD)
  have "\<exists>st1. propagate_one deps b (ch, ix) = Inr st1"
    using propagate_one_known [of ix b deps ch] propagate_one_free [OF ds, of ix ch]
      propagate_one_blocked [OF _ ds, of ix ch] assms(2) Cons.prems by fastforce
  then show ?case using Cons st by fastforce
qed simp

lemma propagate_loop_total:
  assumes "graph_ok obs deps" and "\<forall>b \<in> set obs. nonempty (ro_obligation_id b)"
  shows "\<exists>ix'. propagate_loop obs deps ix = Inr ix'"
  using assms
proof (induction obs deps ix rule: propagate_loop.induct)
  case (1 obs deps ix)
  obtain ch ix1 where r: "propagate_round obs deps ix = Inr (ch, ix1)"
    using propagate_fold_total [OF "1.prems", of obs] by (force simp: propagate_round_def)
  show ?case
    using "1.IH" [OF r refl] "1.prems" r by (subst propagate_loop.simps) auto
qed

section \<open>The specification\<close>

text \<open>
  An obligation cannot complete when it has ended without success, or is open and depends, however
  far down, on one that cannot.
\<close>

inductive doomed :: "dependencies \<Rightarrow> completions \<Rightarrow> string \<Rightarrow> bool" for deps cs where
  ended: "c \<in> set cs \<Longrightarrow> oc_obligation_id c = n \<Longrightarrow> oc_status c \<noteq> ExecutionSucceeded \<Longrightarrow> doomed deps cs n"
| blocked: "\<forall>c \<in> set cs. oc_obligation_id c \<noteq> n \<Longrightarrow> (n, d) \<in> dependency_edges deps \<Longrightarrow>
    doomed deps cs d \<Longrightarrow> doomed deps cs n"

inductive_cases doomed_cases: "doomed deps cs n"

text \<open>
  It is closed with the most severe status of the prerequisites that block it: superseded before
  failed before a typed boundary.
\<close>

fun severity :: "ObligationTerminalStatus \<Rightarrow> nat" where
  "severity ExecutionSucceeded = 0"
| "severity TypedBoundary = 1"
| "severity ObligationFailed = 2"
| "severity ObligationSuperseded = 3"

definition worst :: "ObligationCompletion set \<Rightarrow> nat" where
  "worst B = Max ((\<lambda>c. severity (oc_status c)) ` B)"

definition failed_prerequisites :: "dependencies \<Rightarrow> completions \<Rightarrow> string \<Rightarrow> ObligationCompletion set" where
  "failed_prerequisites deps cs n = {c \<in> set cs. (n, oc_obligation_id c) \<in> dependency_edges deps \<and>
     oc_status c \<noteq> ExecutionSucceeded}"

lemma severity_inject [simp]: "severity x = severity y \<longleftrightarrow> x = y"
  by (cases x; cases y) simp_all

lemma severity_le [simp]:
  "severity x \<le> 3" "severity x \<le> 2 \<longleftrightarrow> x \<noteq> ObligationSuperseded"
  "severity x \<le> Suc 0 \<longleftrightarrow> x \<notin> {ObligationSuperseded, ObligationFailed}"
  by (cases x; simp)+

lemma inherited_severity:
  assumes "bl \<noteq> []" and "\<forall>c \<in> set bl. oc_status c \<noteq> ExecutionSucceeded"
  shows "severity (inherited_status bl) = worst (set bl)"
proof -
  let ?S = "(\<lambda>c. severity (oc_status c)) ` set bl"
  obtain c where c: "c \<in> set bl" using assms(1) by (cases bl) auto
  have "severity (inherited_status bl) \<in> ?S"
    using c assms(2) severity.elims by (auto simp: inherited_status_def image_iff Let_def)
      (metis ObligationTerminalStatus.exhaust)
  moreover have "\<forall>x \<in> ?S. x \<le> severity (inherited_status bl)"
    by (auto simp: inherited_status_def Let_def image_iff)
  ultimately have "Max ?S = severity (inherited_status bl)" by (intro Max_eqI) auto
  then show ?thesis by (simp add: worst_def)
qed

lemma index_None:
  "completion_index cs = Inr ix \<Longrightarrow> map_of ix n = None \<longleftrightarrow> (\<forall>c \<in> set cs. oc_obligation_id c \<noteq> n)"
  using completion_index_map [of cs ix n] by (metis not_None_eq)

lemma closure_doomed:
  assumes g: "graph_ok obs deps" and ix: "completion_index cs = Inr ix"
    and l: "propagate_loop obs deps ix = Inr ix'" and d: "doomed deps cs n"
    and n: "n \<in> ro_obligation_id ` set obs"
  shows "\<exists>c. map_of ix' n = Some c \<and> oc_status c \<noteq> ExecutionSucceeded"
  using d n
proof (induction rule: doomed.induct)
  case (ended c n)
  then show ?case
    using completion_index_map [OF ix] propagate_loop_result [OF l] by (auto simp: justified_def)
next
  case (blocked n d)
  note j = conjunct1 [OF propagate_loop_result [OF l]] and cl = conjunct2 [OF propagate_loop_result [OF l]]
  from blocked.prems obtain b where b: "b \<in> set obs" "ro_obligation_id b = n" by auto
  obtain ds where ds: "deps_of deps n = Inr ds" "set ds \<subseteq> ro_obligation_id ` set obs"
    using graph_deps [OF g b(1)] b(2) by metis
  then have "d \<in> set ds" using blocked.hyps by (simp add: dependency_edges_def)
  then obtain e where e: "map_of ix' d = Some e" "oc_status e \<noteq> ExecutionSucceeded"
    using blocked.IH ds(2) by blast
  then have "blocking ix' ds \<noteq> []" using \<open>d \<in> set ds\<close> by (auto simp: blocking_Nil)
  then obtain c where c: "map_of ix' n = Some c"
    using cl b ds(1) by (auto simp: closed_at_def)
  have "map_of ix n = None" using blocked.hyps(1) index_None [OF ix] by simp
  from justified_new_status [OF j this c] show ?case using c by blast
qed

lemma doomed_closure:
  assumes g: "graph_ok obs deps" and ix: "completion_index cs = Inr ix"
    and l: "propagate_loop obs deps ix = Inr ix'"
  shows "map_of ix' n = Some c \<Longrightarrow> oc_status c \<noteq> ExecutionSucceeded \<Longrightarrow> doomed deps cs n"
proof (induction n arbitrary: c rule: acyclic_edges_induct [of "dependency_map deps"])
  case 1
  then show ?case using g by (simp add: validate_graph_iff dependency_edges_eq)
next
  case (2 n)
  note j = conjunct1 [OF propagate_loop_result [OF l]]
  show ?case
  proof (cases "map_of ix n")
    case (Some e)
    then have "e = c" using justified_keeps [OF j Some] 2(2) by simp
    then show ?thesis using Some completion_index_map [OF ix] 2(3) doomed.ended by blast
  next
    case None
    then obtain ds bl where ds: "deps_of deps n = Inr ds" "bl \<noteq> []" "set bl \<subseteq> set (blocking ix' ds)"
      using justified_new [OF j None 2(2)] by metis
    then obtain e where "e \<in> set (blocking ix' ds)" by (cases bl) auto
    then obtain d where d: "d \<in> set ds" "map_of ix' d = Some e" "oc_status e \<noteq> ExecutionSucceeded"
      by (auto simp: set_blocking)
    have edge: "(n, d) \<in> dependency_edges deps" using ds(1) d(1) by (simp add: dependency_edges_def)
    then have "doomed deps cs d" using 2(1) d by (simp add: dependency_edges_eq)
    moreover have "\<forall>c \<in> set cs. oc_obligation_id c \<noteq> n" using None index_None [OF ix] by simp
    ultimately show ?thesis using edge doomed.blocked by blast
  qed
qed

section \<open>The completions that are returned\<close>

lemma set_completions_in_order:
  "c \<in> set (completions_in_order obs ix) \<longleftrightarrow> (\<exists>b \<in> set obs. map_of ix (ro_obligation_id b) = Some c)"
  by (force simp: completions_in_order_def split: option.splits)

lemma completions_in_order_cong:
  "(\<And>b. b \<in> set obs \<Longrightarrow> map_of ix (ro_obligation_id b) = map_of ix' (ro_obligation_id b)) \<Longrightarrow>
   completions_in_order obs ix = completions_in_order obs ix'"
  unfolding completions_in_order_def by (induction obs) auto

lemma propagate_Inr:
  "propagate_dependency_terminals obs deps cs = Inr out \<longleftrightarrow>
     graph_ok obs deps \<and> (\<exists>ix ix'. completion_index cs = Inr ix \<and>
       propagate_loop obs deps ix = Inr ix' \<and> out = completions_in_order obs ix')"
  by (auto simp: propagate_dependency_terminals_def result_simps)

text \<open>Every entry of a closed index has the id it is stored under.\<close>

lemma closure_ids:
  assumes "completion_index cs = Inr ix" and "propagate_loop obs deps ix = Inr ix'"
    and "map_of ix' n = Some c"
  shows "oc_obligation_id c = n"
proof (cases "map_of ix n")
  case (Some e)
  then have "e = c" using propagate_loop_result [OF assms(2)] assms(3) by (auto simp: justified_def)
  then show ?thesis using Some completion_index_map [OF assms(1)] by simp
next
  case None
  show ?thesis
    by (rule justified_new [OF conjunct1 [OF propagate_loop_result [OF assms(2)]] None assms(3)]) simp
qed

lemma set_propagated:
  assumes "completion_index cs = Inr ix" and "propagate_loop obs deps ix = Inr ix'"
  shows "c \<in> set (completions_in_order obs ix') \<longleftrightarrow>
    map_of ix' (oc_obligation_id c) = Some c \<and> oc_obligation_id c \<in> ro_obligation_id ` set obs"
  using closure_ids [OF assms] unfolding set_completions_in_order by (metis (no_types, lifting) image_iff)

text \<open>The completions an open obligation is blocked by, in the given list and in the result.\<close>

lemma failed_prerequisites_given:
  assumes "completion_index cs = Inr ix" and "deps_of deps n = Inr ds"
  shows "failed_prerequisites deps cs n = set (blocking ix ds)"
  using assms by (auto simp: failed_prerequisites_def set_blocking dependency_edges_def
      completion_index_map [OF assms(1)])

lemma failed_prerequisites_propagated:
  assumes "completion_index cs = Inr ix" and "propagate_loop obs deps ix = Inr ix'"
    and "deps_of deps n = Inr ds" and "set ds \<subseteq> ro_obligation_id ` set obs"
  shows "failed_prerequisites deps (completions_in_order obs ix') n = set (blocking ix' ds)"
  using assms(3,4) closure_ids [OF assms(1,2)]
  by (fastforce simp: failed_prerequisites_def set_blocking dependency_edges_def
      set_propagated [OF assms(1,2)])

end
