(* ===== verification/MeasurementTypes.thy ===== *)
theory MeasurementTypes imports ObligationTypes begin

text \<open>
  The parts of the measurement language (\<open>domain/measurement.py\<close>) that obligations and plans are
  derived from: evidence requirements, completion specs and estimands of a design, with the guards
  of the design that relate them, and the outcomes of a measurement resolution with the admission
  of \<open>domain/measurement_resolver.py\<close>.
\<close>

section \<open>Guards\<close>

text \<open>\<open>_require_unique_ids\<close>, \<open>_validate_string_tuple_fields\<close> for one field, \<open>_validate_optional_ref\<close>.\<close>

definition require_unique_ids :: "string list \<Rightarrow> string \<Rightarrow> unit result" where
  "require_unique_ids xs label = require (distinct xs) (ValueError (label @ '' values must be unique''))"

definition check_string_tuple :: "string list \<Rightarrow> string \<Rightarrow> unit result" where
  "check_string_tuple xs field_name =
     checks (require_unique_ids xs field_name # map (\<lambda>x. require_nonempty x field_name) xs)"

definition check_optional_ref :: "string option \<Rightarrow> string \<Rightarrow> unit result" where
  "check_optional_ref v field_name = (case v of None \<Rightarrow> Inr () | Some x \<Rightarrow> require_nonempty x field_name)"

lemma check_string_tuple_ok [simp, result_simps]:
  "check_string_tuple xs n = Inr u \<longleftrightarrow> distinct xs \<and> (\<forall>x \<in> set xs. nonempty x)"
  by (simp add: check_string_tuple_def require_unique_ids_def checks_Cons_Inr checks_map_Inr)

lemma check_optional_ref_ok [simp, result_simps]:
  "check_optional_ref v n = Inr u \<longleftrightarrow> (\<forall>x. v = Some x \<longrightarrow> nonempty x)"
  by (auto simp: check_optional_ref_def split: option.splits)

section \<open>Evidence requirements\<close>

datatype ClaimTargetKind = TargetDefinition | TargetDataQualityState | TargetPointQuantity
  | TargetDistribution | TargetTemporalPattern | TargetContrast | TargetComposition
  | TargetAccountingDecomposition | TargetCohortOutcome | TargetFunnelTransition
  | TargetAssociation | TargetCausalEffect | TargetDiagnosticSet

fun claim_target_value :: "ClaimTargetKind \<Rightarrow> string" where
  "claim_target_value TargetDefinition = ''definition''"
| "claim_target_value TargetDataQualityState = ''data_quality_state''"
| "claim_target_value TargetPointQuantity = ''point_quantity''"
| "claim_target_value TargetDistribution = ''distribution''"
| "claim_target_value TargetTemporalPattern = ''temporal_pattern''"
| "claim_target_value TargetContrast = ''contrast''"
| "claim_target_value TargetComposition = ''composition''"
| "claim_target_value TargetAccountingDecomposition = ''accounting_decomposition''"
| "claim_target_value TargetCohortOutcome = ''cohort_outcome''"
| "claim_target_value TargetFunnelTransition = ''funnel_transition''"
| "claim_target_value TargetAssociation = ''association''"
| "claim_target_value TargetCausalEffect = ''causal_effect''"
| "claim_target_value TargetDiagnosticSet = ''diagnostic_set''"

datatype ClaimStrengthCeiling = BoundaryOnly | Descriptive | Accounting | Associational | Causal

fun claim_strength_value :: "ClaimStrengthCeiling \<Rightarrow> string" where
  "claim_strength_value BoundaryOnly = ''boundary_only''"
| "claim_strength_value Descriptive = ''descriptive''"
| "claim_strength_value Accounting = ''accounting''"
| "claim_strength_value Associational = ''associational''"
| "claim_strength_value Causal = ''causal''"

datatype EvidenceComposition = ComposeAll | ComposeAny | ComposeAtLeast

fun composition_value :: "EvidenceComposition \<Rightarrow> string" where
  "composition_value ComposeAll = ''all''"
| "composition_value ComposeAny = ''any''"
| "composition_value ComposeAtLeast = ''at_least''"

datatype RequirementBoundaryPolicy = BoundaryBlock | AllowTypedBoundary | AllowClaimDegrade

fun boundary_policy_value :: "RequirementBoundaryPolicy \<Rightarrow> string" where
  "boundary_policy_value BoundaryBlock = ''block''"
| "boundary_policy_value AllowTypedBoundary = ''allow_typed_boundary''"
| "boundary_policy_value AllowClaimDegrade = ''allow_claim_degrade''"

record EvidenceRequirementSpec =
  er_evidence_requirement_id :: string
  er_target_estimand_ids :: "string list"
  er_required_evidence_type_refs :: "string list"
  er_composition :: EvidenceComposition
  er_minimum_count :: "int option"
  er_minimum_strength :: ClaimStrengthCeiling
  er_scope_id :: string
  er_exposure_id :: "string option"
  er_contradiction_policy_ref :: string
  er_boundary_policy :: RequirementBoundaryPolicy
  er_allowed_boundary_codes :: "string list"
  er_linked_falsification_ids :: "string list"
  er_linked_reversal_ids :: "string list"

text \<open>The count of a composition, which only \<open>at_least\<close> has; \<open>what\<close> names it in the messages.\<close>

definition check_minimum_count ::
    "EvidenceComposition \<Rightarrow> int option \<Rightarrow> string list \<Rightarrow> string \<Rightarrow> string \<Rightarrow> unit result" where
  "check_minimum_count composition minimum_count slots what only =
     (if composition = ComposeAtLeast
      then (case minimum_count of
              None \<Rightarrow> Inl (ValueError (''at_least '' @ what @ '' requires minimum_count''))
            | Some n \<Rightarrow> checks [
                require (\<not> n < 1) (ValueError (''at_least '' @ what @ '' requires minimum_count'')),
                require (\<not> n > int (length slots))
                  (ValueError ''minimum_count cannot exceed required evidence slots'')])
      else require (minimum_count = None) (ValueError (''minimum_count only applies to '' @ only)))"

definition check_evidence_requirement :: "EvidenceRequirementSpec \<Rightarrow> unit result" where
  "check_evidence_requirement r = checks [
     require_nonempty (er_evidence_requirement_id r) ''evidence_requirement_id'',
     require_nonempty (er_scope_id r) ''scope_id'',
     require_nonempty (er_contradiction_policy_ref r) ''contradiction_policy_ref'',
     check_string_tuple (er_target_estimand_ids r) ''target_estimand_ids'',
     check_string_tuple (er_required_evidence_type_refs r) ''required_evidence_type_refs'',
     check_string_tuple (er_allowed_boundary_codes r) ''allowed_boundary_codes'',
     check_string_tuple (er_linked_falsification_ids r) ''linked_falsification_ids'',
     check_string_tuple (er_linked_reversal_ids r) ''linked_reversal_ids'',
     require (er_target_estimand_ids r \<noteq> []) (ValueError ''evidence requirement requires estimands''),
     require (er_required_evidence_type_refs r \<noteq> [])
       (ValueError ''evidence requirement requires evidence types''),
     check_optional_ref (er_exposure_id r) ''exposure_id'',
     check_minimum_count (er_composition r) (er_minimum_count r) (er_required_evidence_type_refs r)
       ''composition'' ''at_least'',
     require (\<not> (er_boundary_policy r = AllowTypedBoundary \<and> er_allowed_boundary_codes r = []))
       (ValueError ''typed boundary policy requires allowed codes''),
     require (\<not> (er_boundary_policy r = BoundaryBlock \<and> er_allowed_boundary_codes r \<noteq> []))
       (ValueError ''blocking boundary policy cannot allow codes'')]"

definition evidence_requirement_json :: "EvidenceRequirementSpec \<Rightarrow> json" where
  "evidence_requirement_json r = JObj [
     (''evidence_requirement_id'', JStr (er_evidence_requirement_id r)),
     (''target_estimand_ids'', strs (er_target_estimand_ids r)),
     (''required_evidence_type_refs'', strs (er_required_evidence_type_refs r)),
     (''composition'', JStr (composition_value (er_composition r))),
     (''minimum_count'', opt_int (er_minimum_count r)),
     (''minimum_strength'', JStr (claim_strength_value (er_minimum_strength r))),
     (''scope_id'', JStr (er_scope_id r)), (''exposure_id'', opt_str (er_exposure_id r)),
     (''contradiction_policy_ref'', JStr (er_contradiction_policy_ref r)),
     (''boundary_policy'', JStr (boundary_policy_value (er_boundary_policy r))),
     (''allowed_boundary_codes'', strs (er_allowed_boundary_codes r)),
     (''linked_falsification_ids'', strs (er_linked_falsification_ids r)),
     (''linked_reversal_ids'', strs (er_linked_reversal_ids r))]"

definition evidence_requirement_sha256 :: "EvidenceRequirementSpec \<Rightarrow> string" where
  "evidence_requirement_sha256 r = digest (evidence_requirement_json r)"

record EpistemicCompletionSpec =
  ec_completion_spec_id :: string
  ec_target_estimand_ids :: "string list"
  ec_required_evidence_requirement_ids :: "string list"
  ec_success_policy_ref :: string
  ec_degrade_policy_ref :: string
  ec_stop_policy_ref :: string

definition check_completion_spec :: "EpistemicCompletionSpec \<Rightarrow> unit result" where
  "check_completion_spec c = checks [
     require_nonempty (ec_completion_spec_id c) ''completion_spec_id'',
     require_nonempty (ec_success_policy_ref c) ''success_policy_ref'',
     require_nonempty (ec_degrade_policy_ref c) ''degrade_policy_ref'',
     require_nonempty (ec_stop_policy_ref c) ''stop_policy_ref'',
     check_string_tuple (ec_target_estimand_ids c) ''target_estimand_ids'',
     check_string_tuple (ec_required_evidence_requirement_ids c) ''required_evidence_requirement_ids'',
     require (ec_target_estimand_ids c \<noteq> []) (ValueError ''completion spec requires estimands''),
     require (ec_required_evidence_requirement_ids c \<noteq> [])
       (ValueError ''completion spec requires evidence requirements'')]"

section \<open>Estimands\<close>

text \<open>The specification of a claim target is the JSON value of its dataclass.\<close>

record EstimandSpec =
  es_estimand_id :: string
  es_claim_target_kind :: ClaimTargetKind
  es_claim_target_spec :: json
  es_variable_ids :: "string list"
  es_event_ids :: "string list"
  es_population_id :: "string option"
  es_observation_unit_id :: "string option"
  es_temporal_semantic_id :: "string option"
  es_estimator_id :: "string option"
  es_exposure_id :: "string option"
  es_contrast_id :: "string option"
  es_sequence_id :: "string option"
  es_cohort_risk_set_id :: "string option"
  es_reconciliation_id :: "string option"
  es_relationship_id :: "string option"
  es_eligibility_id :: "string option"
  es_identification_id :: "string option"
  es_evidence_requirement_ids :: "string list"
  es_alternative_ids :: "string list"
  es_sensitivity_ids :: "string list"
  es_falsification_ids :: "string list"
  es_reversal_ids :: "string list"
  es_scope_ceiling_id :: string
  es_claim_strength_ceiling :: ClaimStrengthCeiling

definition check_estimand :: "EstimandSpec \<Rightarrow> unit result" where
  "check_estimand e = checks [
     require_nonempty (es_estimand_id e) ''estimand_id'',
     require_nonempty (es_scope_ceiling_id e) ''scope_ceiling_id'',
     check_string_tuple (es_variable_ids e) ''variable_ids'',
     check_string_tuple (es_event_ids e) ''event_ids'',
     check_string_tuple (es_evidence_requirement_ids e) ''evidence_requirement_ids'',
     check_string_tuple (es_alternative_ids e) ''alternative_ids'',
     check_string_tuple (es_sensitivity_ids e) ''sensitivity_ids'',
     check_string_tuple (es_falsification_ids e) ''falsification_ids'',
     check_string_tuple (es_reversal_ids e) ''reversal_ids'',
     check_optional_ref (es_population_id e) ''population_id'',
     check_optional_ref (es_observation_unit_id e) ''observation_unit_id'',
     check_optional_ref (es_temporal_semantic_id e) ''temporal_semantic_id'',
     check_optional_ref (es_estimator_id e) ''estimator_id'',
     check_optional_ref (es_exposure_id e) ''exposure_id'',
     check_optional_ref (es_contrast_id e) ''contrast_id'',
     check_optional_ref (es_sequence_id e) ''sequence_id'',
     check_optional_ref (es_cohort_risk_set_id e) ''cohort_risk_set_id'',
     check_optional_ref (es_reconciliation_id e) ''reconciliation_id'',
     check_optional_ref (es_relationship_id e) ''relationship_id'',
     check_optional_ref (es_eligibility_id e) ''eligibility_id'',
     check_optional_ref (es_identification_id e) ''identification_id'',
     require (es_evidence_requirement_ids e \<noteq> []) (ValueError ''estimand requires evidence requirements'')]"

definition validate_estimand_shape :: "EstimandSpec \<Rightarrow> unit result" where
  "validate_estimand_shape e =
    (let k = es_claim_target_kind e in
     checks [
       require (k \<in> {TargetDefinition, TargetDataQualityState} \<or>
           es_population_id e \<noteq> None \<and> es_observation_unit_id e \<noteq> None \<and> es_estimator_id e \<noteq> None \<and>
           es_eligibility_id e \<noteq> None \<and> es_identification_id e \<noteq> None)
         (ValueError (claim_target_value k @ '' estimand is missing a material measurement node'')),
       require (\<not> (k \<in> {TargetTemporalPattern, TargetContrast, TargetCohortOutcome,
           TargetFunnelTransition, TargetCausalEffect} \<and> es_temporal_semantic_id e = None))
         (ValueError ''time-dependent estimand requires time semantics''),
       require (\<not> (k = TargetContrast \<and> es_contrast_id e = None))
         (ValueError ''contrast estimand requires contrast''),
       require (\<not> (k = TargetAccountingDecomposition \<and> es_reconciliation_id e = None))
         (ValueError ''decomposition requires reconciliation''),
       require (\<not> (k = TargetCohortOutcome \<and> es_cohort_risk_set_id e = None))
         (ValueError ''cohort estimand requires risk set''),
       require (\<not> (k = TargetFunnelTransition \<and> es_sequence_id e = None))
         (ValueError ''funnel estimand requires sequence''),
       require (\<not> (k \<in> {TargetAssociation, TargetCausalEffect} \<and> es_relationship_id e = None))
         (ValueError ''relationship estimand requires relationship''),
       require (\<not> (k = TargetCausalEffect \<and> es_claim_strength_ceiling e \<noteq> Causal))
         (ValueError ''causal target requires causal claim ceiling'')])"

section \<open>The design\<close>

record ScopeView =
  sc_scope_id :: string
  sc_time_window_rule_ids :: "string list"

text \<open>The collections of a \<open>MeasurementDesign\<close> that obligations and plans are derived from.\<close>

record DesignView =
  md_scopes :: "ScopeView list"
  md_evidence_requirements :: "EvidenceRequirementSpec list"
  md_completion_specs :: "EpistemicCompletionSpec list"
  md_estimands :: "EstimandSpec list"

text \<open>\<open>next(item for item in items if item.id == i)\<close>\<close>

definition next_item :: "('a \<Rightarrow> string) \<Rightarrow> 'a list \<Rightarrow> string \<Rightarrow> 'a result" where
  "next_item key items i =
     (case List.find (\<lambda>x. key x = i) items of None \<Rightarrow> Inl StopIteration | Some x \<Rightarrow> Inr x)"

definition check_mutual_requirement :: "DesignView \<Rightarrow> EstimandSpec \<Rightarrow> string \<Rightarrow> unit result" where
  "check_mutual_requirement d e i =
     bindR (next_item er_evidence_requirement_id (md_evidence_requirements d) i) (\<lambda>r.
       require (es_estimand_id e \<in> set (er_target_estimand_ids r))
         (ValueError ''estimand and evidence requirement must target each other''))"

definition check_design_estimand :: "DesignView \<Rightarrow> EstimandSpec \<Rightarrow> unit result" where
  "check_design_estimand d e = checks (
     require (set (es_evidence_requirement_ids e) \<subseteq>
         set (map er_evidence_requirement_id (md_evidence_requirements d)))
       (ValueError ''estimand references unknown evidence requirement'') #
     map (check_mutual_requirement d e) (es_evidence_requirement_ids e) @ [
     validate_estimand_shape e,
     require (\<exists>c \<in> set (md_completion_specs d). es_estimand_id e \<in> set (ec_target_estimand_ids c))
       (ValueError ''estimand has no epistemic completion path'')])"

text \<open>The guards of a design on its requirements, completion specs and estimands.\<close>

definition check_design_requirements :: "DesignView \<Rightarrow> unit result" where
  "check_design_requirements d =
    (let estimand_ids = set (map es_estimand_id (md_estimands d));
         requirement_ids = set (map er_evidence_requirement_id (md_evidence_requirements d)) in
     checks (
       map (\<lambda>r. require (set (er_target_estimand_ids r) \<subseteq> estimand_ids)
              (ValueError ''evidence requirement targets unknown estimand''))
         (md_evidence_requirements d) @
       concat (map (\<lambda>c. [
           require (set (ec_target_estimand_ids c) \<subseteq> estimand_ids)
             (ValueError ''completion targets unknown estimand''),
           require (set (ec_required_evidence_requirement_ids c) \<subseteq> requirement_ids)
             (ValueError ''completion references unknown evidence requirement'')])
         (md_completion_specs d)) @
       map (check_design_estimand d) (md_estimands d)))"

section \<open>Outcomes of a resolution\<close>

datatype ResolutionOutcomeKind = ResolvedInstance | TypedBoundaryOutcome

fun outcome_kind_value :: "ResolutionOutcomeKind \<Rightarrow> string" where
  "outcome_kind_value ResolvedInstance = ''resolved_instance''"
| "outcome_kind_value TypedBoundaryOutcome = ''typed_resolution_boundary''"

record TypedResolutionBoundary =
  tb_boundary_code :: string
  tb_boundary_policy_ref :: string
  tb_failed_requirement_ids :: "string list"
  tb_failed_contract_refs :: "string list"
  tb_inspection_evidence_refs :: "string list"
  tb_allowed_claim_ceiling :: ClaimStrengthCeiling
  tb_derivation_proof_sha256 :: string

definition check_resolution_boundary :: "TypedResolutionBoundary \<Rightarrow> unit result" where
  "check_resolution_boundary b = checks [
     require_nonempty (tb_boundary_code b) ''boundary_code'',
     require_nonempty (tb_boundary_policy_ref b) ''boundary_policy_ref'',
     check_string_tuple (tb_failed_requirement_ids b) ''failed_requirement_ids'',
     check_string_tuple (tb_failed_contract_refs b) ''failed_contract_refs'',
     check_string_tuple (tb_inspection_evidence_refs b) ''inspection_evidence_refs'',
     require (tb_failed_requirement_ids b \<noteq> [])
       (ValueError ''resolution boundary requires failed requirements''),
     require_sha256 (tb_derivation_proof_sha256 b) ''derivation_proof_sha256'']"

definition resolution_boundary_json :: "TypedResolutionBoundary \<Rightarrow> json" where
  "resolution_boundary_json b = JObj [
     (''boundary_code'', JStr (tb_boundary_code b)),
     (''boundary_policy_ref'', JStr (tb_boundary_policy_ref b)),
     (''failed_requirement_ids'', strs (tb_failed_requirement_ids b)),
     (''failed_contract_refs'', strs (tb_failed_contract_refs b)),
     (''inspection_evidence_refs'', strs (tb_inspection_evidence_refs b)),
     (''allowed_claim_ceiling'', JStr (claim_strength_value (tb_allowed_claim_ceiling b))),
     (''derivation_proof_sha256'', JStr (tb_derivation_proof_sha256 b))]"

record RequirementResolutionBoundary =
  rb_evidence_requirement_id :: string
  rb_boundary_code :: string
  rb_boundary_policy_ref :: string
  rb_failed_contract_refs :: "string list"
  rb_inspection_evidence_refs :: "string list"
  rb_allowed_claim_ceiling :: ClaimStrengthCeiling
  rb_derivation_proof_sha256 :: string

definition check_requirement_boundary :: "RequirementResolutionBoundary \<Rightarrow> unit result" where
  "check_requirement_boundary b = checks [
     require_nonempty (rb_evidence_requirement_id b) ''evidence_requirement_id'',
     require_nonempty (rb_boundary_code b) ''boundary_code'',
     require_nonempty (rb_boundary_policy_ref b) ''boundary_policy_ref'',
     check_string_tuple (rb_failed_contract_refs b) ''failed_contract_refs'',
     check_string_tuple (rb_inspection_evidence_refs b) ''inspection_evidence_refs'',
     require (rb_failed_contract_refs b \<noteq> [])
       (ValueError ''requirement boundary requires failed contracts''),
     require (rb_inspection_evidence_refs b \<noteq> [])
       (ValueError ''requirement boundary requires inspection evidence''),
     require_sha256 (rb_derivation_proof_sha256 b) ''derivation_proof_sha256'']"

definition requirement_boundary_json :: "RequirementResolutionBoundary \<Rightarrow> json" where
  "requirement_boundary_json b = JObj [
     (''evidence_requirement_id'', JStr (rb_evidence_requirement_id b)),
     (''boundary_code'', JStr (rb_boundary_code b)),
     (''boundary_policy_ref'', JStr (rb_boundary_policy_ref b)),
     (''failed_contract_refs'', strs (rb_failed_contract_refs b)),
     (''inspection_evidence_refs'', strs (rb_inspection_evidence_refs b)),
     (''allowed_claim_ceiling'', JStr (claim_strength_value (rb_allowed_claim_ceiling b))),
     (''derivation_proof_sha256'', JStr (rb_derivation_proof_sha256 b))]"

text \<open>
  The attributes read of a \<open>ResolvedMeasurementInstance\<close>, with the JSON value of the whole.
\<close>

record ResolvedInstanceView =
  ri_resolution_id :: string
  ri_frame_revision_id :: string
  ri_estimand_id :: string
  ri_semantic_measurement_id :: string
  ri_authority_binding_id :: string
  ri_window_rule_ids :: "string list"
  ri_content :: json

record MeasurementResolutionOutcome =
  mo_resolution_outcome_id :: string
  mo_case_id :: string
  mo_question_revision_id :: string
  mo_frame_revision_id :: string
  mo_estimand_id :: string
  mo_semantic_measurement_id :: string
  mo_authority_binding_id :: string
  mo_derivation_authority :: MeasurementDerivationAuthority
  mo_kind :: ResolutionOutcomeKind
  mo_resolved_instance :: "ResolvedInstanceView option"
  mo_boundary :: "TypedResolutionBoundary option"
  mo_requirement_boundaries :: "RequirementResolutionBoundary list"
  mo_created_at :: datetime
  mo_schema_epoch :: int

definition check_resolution_outcome :: "MeasurementResolutionOutcome \<Rightarrow> unit result" where
  "check_resolution_outcome x = checks [
     require_sha256 (mo_resolution_outcome_id x) ''resolution_outcome_id'',
     require_nonempty (mo_case_id x) ''case_id'',
     require_nonempty (mo_question_revision_id x) ''question_revision_id'',
     require_nonempty (mo_frame_revision_id x) ''frame_revision_id'',
     require_nonempty (mo_estimand_id x) ''estimand_id'',
     require_sha256 (mo_semantic_measurement_id x) ''semantic_measurement_id'',
     require_sha256 (mo_authority_binding_id x) ''authority_binding_id'',
     require (da_case_id (mo_derivation_authority x) = mo_case_id x \<and>
              da_question_revision_id (mo_derivation_authority x) = mo_question_revision_id x \<and>
              da_frame_revision_id (mo_derivation_authority x) = mo_frame_revision_id x)
       (ValueError ''derivation authority does not bind outcome authority''),
     require_unique_ids (map rb_evidence_requirement_id (mo_requirement_boundaries x))
       ''requirement resolution boundary'',
     require (\<not> (mo_kind x = ResolvedInstance \<and>
         (mo_resolved_instance x = None \<or> mo_boundary x \<noteq> None)))
       (ValueError ''resolved outcome requires only an instance''),
     require (\<not> (mo_kind x = TypedBoundaryOutcome \<and>
         (mo_boundary x = None \<or> mo_resolved_instance x \<noteq> None \<or> mo_requirement_boundaries x \<noteq> [])))
       (ValueError ''boundary outcome requires only a boundary''),
     require_aware_datetime (mo_created_at x) ''created_at'',
     require (mo_schema_epoch x = schema_epoch) (ValueError ''resolution outcome requires schema epoch 3'')]"

definition resolution_outcome_json :: "MeasurementResolutionOutcome \<Rightarrow> json" where
  "resolution_outcome_json x = JObj [
     (''resolution_outcome_id'', JStr (mo_resolution_outcome_id x)), (''case_id'', JStr (mo_case_id x)),
     (''question_revision_id'', JStr (mo_question_revision_id x)),
     (''frame_revision_id'', JStr (mo_frame_revision_id x)), (''estimand_id'', JStr (mo_estimand_id x)),
     (''semantic_measurement_id'', JStr (mo_semantic_measurement_id x)),
     (''authority_binding_id'', JStr (mo_authority_binding_id x)),
     (''derivation_authority'', derivation_authority_json (mo_derivation_authority x)),
     (''kind'', JStr (outcome_kind_value (mo_kind x))),
     (''resolved_instance'', (case mo_resolved_instance x of None \<Rightarrow> JNull | Some i \<Rightarrow> ri_content i)),
     (''boundary'', (case mo_boundary x of None \<Rightarrow> JNull | Some b \<Rightarrow> resolution_boundary_json b)),
     (''requirement_boundaries'', JTuple (map requirement_boundary_json (mo_requirement_boundaries x))),
     (''created_at'', isoformat (mo_created_at x)), (''schema_epoch'', JInt (mo_schema_epoch x))]"

definition resolution_outcome_sha256 :: "MeasurementResolutionOutcome \<Rightarrow> string" where
  "resolution_outcome_sha256 x = digest (resolution_outcome_json x)"

section \<open>Admissions\<close>

text \<open>The number of code points of a text, and the bytes \<open>bytes.fromhex\<close> reads, if it can.\<close>

definition code_points :: "string \<Rightarrow> nat" where
  "code_points s = length (filter (\<lambda>c. (of_char c :: nat) < 128 \<or> 192 \<le> (of_char c :: nat)) s)"

definition ascii_space :: "char \<Rightarrow> bool" where
  "ascii_space c \<longleftrightarrow> (of_char c :: nat) \<in> {9, 10, 11, 12, 13, 32}"

fun hex_bytes :: "string \<Rightarrow> nat option" where
  "hex_bytes [] = Some 0"
| "hex_bytes [c] = (if ascii_space c then Some 0 else None)"
| "hex_bytes (c # d # cs) =
     (if ascii_space c then hex_bytes (d # cs)
      else if {c, d} \<subseteq> set ''0123456789abcdefABCDEF'' then map_option Suc (hex_bytes cs) else None)"

definition require_ed25519_signature :: "string \<Rightarrow> string \<Rightarrow> unit result" where
  "require_ed25519_signature v field_name =
     (if code_points v \<noteq> 128
      then Inl (ValueError (field_name @ '' must be a 64-byte Ed25519 signature in hex''))
      else (case hex_bytes v of
              None \<Rightarrow> Inl (ValueError (field_name @ '' must be hexadecimal''))
            | Some n \<Rightarrow> require (n = 64)
                (ValueError (field_name @ '' must be a 64-byte Ed25519 signature in hex''))))"

record MeasurementResolutionAdmission =
  ma_resolution_outcome_id :: string
  ma_frame_revision_id :: string
  ma_estimand_id :: string
  ma_registry_content_sha256 :: string
  ma_resolver_input_bundle_sha256 :: string
  ma_resolution_context_sha256 :: string
  ma_issuer_ref :: string
  ma_issuer_signature_hex :: string

definition check_resolution_admission :: "MeasurementResolutionAdmission \<Rightarrow> unit result" where
  "check_resolution_admission a = checks [
     require_sha256 (ma_resolution_outcome_id a) ''resolution_outcome_id'',
     require_nonempty (ma_frame_revision_id a) ''frame_revision_id'',
     require_nonempty (ma_estimand_id a) ''estimand_id'',
     require_sha256 (ma_registry_content_sha256 a) ''registry_content_sha256'',
     require_sha256 (ma_resolver_input_bundle_sha256 a) ''resolver_input_bundle_sha256'',
     require_sha256 (ma_resolution_context_sha256 a) ''resolution_context_sha256'',
     require_nonempty (ma_issuer_ref a) ''issuer_ref'',
     require_ed25519_signature (ma_issuer_signature_hex a) ''issuer_signature_hex'']"

definition resolution_admission_json :: "MeasurementResolutionAdmission \<Rightarrow> json" where
  "resolution_admission_json a = JObj [
     (''resolution_outcome_id'', JStr (ma_resolution_outcome_id a)),
     (''frame_revision_id'', JStr (ma_frame_revision_id a)), (''estimand_id'', JStr (ma_estimand_id a)),
     (''registry_content_sha256'', JStr (ma_registry_content_sha256 a)),
     (''resolver_input_bundle_sha256'', JStr (ma_resolver_input_bundle_sha256 a)),
     (''resolution_context_sha256'', JStr (ma_resolution_context_sha256 a)),
     (''issuer_ref'', JStr (ma_issuer_ref a)),
     (''issuer_signature_hex'', JStr (ma_issuer_signature_hex a))]"

definition resolution_admission_sha256 :: "MeasurementResolutionAdmission \<Rightarrow> string" where
  "resolution_admission_sha256 a = digest (resolution_admission_json a)"

end
