(* ===== verification/AdoptionTypes.thy ===== *)
theory AdoptionTypes imports AuthorityTypes MeasurementTypes begin

text \<open>
  The authority records that a plan adoption binds: the governed capability intents and
  \<open>PlanAdoptionRecord\<close> (\<open>domain/planning.py\<close>), \<open>QuestionRevision\<close> (\<open>domain/measurement.py\<close>),
  \<open>ObligationSatisfactionRecord\<close> (\<open>domain/evidence.py\<close>) and the digests of a work plan
  (\<open>domain/authority.py\<close>).  A frame revision and an answer version are views: the attributes read
  of them, with the digest of their content.
\<close>

section \<open>The digest of a work plan\<close>

definition work_task_json :: "WorkTask \<Rightarrow> json" where
  "work_task_json t = JObj [
     (''task_id'', JStr (wt_task_id t)), (''proposal_task_key'', JStr (wt_proposal_task_key t)),
     (''business_purpose'', JStr (wt_business_purpose t)),
     (''capability_intent_ref'', JStr (wt_capability_intent_ref t)),
     (''target_estimand_ids'', strs (wt_target_estimand_ids t)),
     (''obligation_ids'', strs (wt_obligation_ids t)),
     (''query_binding_ids'', strs (wt_query_binding_ids t)),
     (''completion_spec_ids'', strs (wt_completion_spec_ids t)),
     (''execution_success_policy_refs'', strs (wt_success_policy_refs t)),
     (''execution_degrade_policy_refs'', strs (wt_degrade_policy_refs t)),
     (''execution_stop_policy_refs'', strs (wt_stop_policy_refs t)),
     (''depends_on_task_ids'', strs (wt_depends_on_task_ids t))]"

definition work_plan_json :: "WorkPlanRevision \<Rightarrow> json" where
  "work_plan_json p = JObj [
     (''plan_revision_id'', JStr (wp_plan_revision_id p)), (''case_id'', JStr (wp_case_id p)),
     (''frame_revision_id'', JStr (wp_frame_revision_id p)),
     (''revision_number'', JInt (wp_revision_number p)),
     (''prior_plan_revision_id'', opt_str (wp_prior_plan_revision_id p)),
     (''created_by_action_id'', JStr (wp_created_by_action_id p)),
     (''created_at'', isoformat (wp_created_at p)),
     (''revision_reason'', JStr (wp_revision_reason p)),
     (''resolution_outcome_ids'', strs (wp_resolution_outcome_ids p)),
     (''tasks'', JTuple (map work_task_json (wp_tasks p)))]"

definition work_plan_sha256 :: "WorkPlanRevision \<Rightarrow> string" where
  "work_plan_sha256 p = digest (work_plan_json p)"

section \<open>Governed capability intents\<close>

definition capability_intent_prefix :: string where
  "capability_intent_prefix = ''waje-vnext://capability-intent/''"

definition capability_intent_registry_version :: string where
  "capability_intent_registry_version = ''capability-intent-registry.g3.4.v1''"

record CapabilityIntentContract =
  ci_capability_intent_ref :: string
  ci_allowed_execution_dispositions :: "ObligationExecutionDisposition list"
  ci_allowed_action_kinds :: "string list"
  ci_allows_any_governed_evidence_type :: bool
  ci_allowed_evidence_type_refs :: "string list"
  ci_required_measurement_authority_fields :: "string list"

definition check_unique_nonempty :: "string list \<Rightarrow> string \<Rightarrow> unit result" where
  "check_unique_nonempty vs field_name = checks (
     require (distinct vs) (ValueError (field_name @ '' must be unique'')) #
     map (\<lambda>v. require_nonempty v field_name) vs)"

definition check_capability_intent :: "CapabilityIntentContract \<Rightarrow> unit result" where
  "check_capability_intent c = checks [
     require_nonempty (ci_capability_intent_ref c) ''capability_intent_ref'',
     require (take (length capability_intent_prefix) (ci_capability_intent_ref c) = capability_intent_prefix)
       (ValueError ''capability intent is outside its namespace''),
     require (ci_allowed_execution_dispositions c \<noteq> [])
       (ValueError ''capability intent requires an obligation disposition''),
     require (distinct (ci_allowed_execution_dispositions c))
       (ValueError ''capability intent dispositions must be unique''),
     check_unique_nonempty (ci_allowed_action_kinds c) ''allowed_action_kinds'',
     check_unique_nonempty (ci_allowed_evidence_type_refs c) ''allowed_evidence_type_refs'',
     check_unique_nonempty (ci_required_measurement_authority_fields c)
       ''required_measurement_authority_fields'',
     require (ci_allows_any_governed_evidence_type c \<noteq> (ci_allowed_evidence_type_refs c \<noteq> []))
       (ValueError ''capability intent must choose unrestricted or exact evidence type applicability''),
     require (set (ci_required_measurement_authority_fields c) \<subseteq>
         {''alternative_ids'', ''sensitivity_ids'', ''falsification_ids'', ''reversal_ids''})
       (ValueError ''capability intent requires an unknown measurement authority field'')]"

definition capability_intent_json :: "CapabilityIntentContract \<Rightarrow> json" where
  "capability_intent_json c = JObj [
     (''capability_intent_ref'', JStr (ci_capability_intent_ref c)),
     (''allowed_execution_dispositions'',
        strs (map execution_disposition_value (ci_allowed_execution_dispositions c))),
     (''allowed_action_kinds'', strs (ci_allowed_action_kinds c)),
     (''allows_any_governed_evidence_type'', JBool (ci_allows_any_governed_evidence_type c)),
     (''allowed_evidence_type_refs'', strs (ci_allowed_evidence_type_refs c)),
     (''required_measurement_authority_fields'', strs (ci_required_measurement_authority_fields c))]"

record CapabilityIntentRegistry =
  cg_registry_version :: string
  cg_contracts :: "CapabilityIntentContract list"

definition check_capability_registry :: "CapabilityIntentRegistry \<Rightarrow> unit result" where
  "check_capability_registry r = checks [
     require_nonempty (cg_registry_version r) ''registry_version'',
     require (cg_contracts r \<noteq> []) (ValueError ''capability intent registry cannot be empty''),
     require (distinct (map ci_capability_intent_ref (cg_contracts r)))
       (ValueError ''capability intent registry refs must be unique'')]"

definition get_capability_intent ::
    "CapabilityIntentRegistry \<Rightarrow> string \<Rightarrow> CapabilityIntentContract result" where
  "get_capability_intent r ref =
     (case List.find (\<lambda>c. ci_capability_intent_ref c = ref) (cg_contracts r) of
        Some c \<Rightarrow> Inr c
      | None \<Rightarrow> Inl (ValueError ''capability_intent_ref is absent from the governed registry''))"

definition capability_intent_contracts :: "CapabilityIntentContract list" where
  "capability_intent_contracts = [
     \<lparr>ci_capability_intent_ref = capability_intent_prefix @ ''measurement-evidence.v1'',
      ci_allowed_execution_dispositions = [DispExecutable],
      ci_allowed_action_kinds = [''call_capability''],
      ci_allows_any_governed_evidence_type = True, ci_allowed_evidence_type_refs = [],
      ci_required_measurement_authority_fields = []\<rparr>,
     \<lparr>ci_capability_intent_ref = capability_intent_prefix @ ''measurement-sensitivity.v1'',
      ci_allowed_execution_dispositions = [DispExecutable],
      ci_allowed_action_kinds = [''run_sensitivity''],
      ci_allows_any_governed_evidence_type = False,
      ci_allowed_evidence_type_refs = [''evidence:sensitivity''],
      ci_required_measurement_authority_fields = [''sensitivity_ids'']\<rparr>,
     \<lparr>ci_capability_intent_ref = capability_intent_prefix @ ''boundary-inspection.v1'',
      ci_allowed_execution_dispositions = [DispTypedBoundary, DispBlocked],
      ci_allowed_action_kinds = [],
      ci_allows_any_governed_evidence_type = True, ci_allowed_evidence_type_refs = [],
      ci_required_measurement_authority_fields = []\<rparr>]"

definition capability_intent_registry :: CapabilityIntentRegistry where
  "capability_intent_registry = \<lparr>cg_registry_version = capability_intent_registry_version,
     cg_contracts = capability_intent_contracts\<rparr>"

definition capability_registry_json :: "CapabilityIntentRegistry \<Rightarrow> json" where
  "capability_registry_json r = JObj [
     (''registry_version'', JStr (cg_registry_version r)),
     (''contracts'', JTuple (map capability_intent_json (cg_contracts r)))]"

definition capability_intent_registry_sha256 :: string where
  "capability_intent_registry_sha256 = digest (capability_registry_json capability_intent_registry)"

section \<open>The adoption of a plan\<close>

record PlanAdoptionRecord =
  pd_plan_adoption_id :: string
  pd_case_id :: string
  pd_question_revision_id :: string
  pd_frame_revision_id :: string
  pd_plan_revision_id :: string
  pd_expected_head_version :: int
  pd_authority_snapshot :: AuthoritySnapshot
  pd_authority_snapshot_sha256 :: string
  pd_frame_content_sha256 :: string
  pd_plan_content_sha256 :: string
  pd_resolution_outcome_ids :: "string list"
  pd_resolution_outcome_content_sha256s :: "string list"
  pd_resolution_admission_content_sha256s :: "string list"
  pd_resolution_context_sha256s :: "string list"
  pd_resolver_input_bundle_sha256s :: "string list"
  pd_resolution_registry_content_sha256s :: "string list"
  pd_obligation_ids :: "string list"
  pd_obligation_content_sha256s :: "string list"
  pd_query_binding_ids :: "string list"
  pd_query_binding_content_sha256s :: "string list"
  pd_capability_intent_registry_version :: string
  pd_capability_intent_registry_sha256 :: string
  pd_adoption_policy_version :: string
  pd_derivation_proof_sha256 :: string
  pd_created_at :: datetime
  pd_schema_epoch :: int

definition require_sha256_tuple :: "string list \<Rightarrow> string \<Rightarrow> unit result" where
  "require_sha256_tuple vs field_name = checks (map (\<lambda>v. require_sha256 v field_name) vs)"

definition require_digest_tuple :: "string list \<Rightarrow> string \<Rightarrow> unit result" where
  "require_digest_tuple vs field_name = checks [
     check_unique_nonempty vs field_name, require_sha256_tuple vs field_name]"

definition require_same_length :: "string list list \<Rightarrow> string \<Rightarrow> unit result" where
  "require_same_length vss label =
     require (vss \<noteq> [] \<and> length (remdups (map length vss)) = 1)
       (ValueError (label @ '' fields must align''))"

definition check_plan_adoption :: "PlanAdoptionRecord \<Rightarrow> unit result" where
  "check_plan_adoption a = checks [
     require_sha256 (pd_plan_adoption_id a) ''plan_adoption_id'',
     require_nonempty (pd_case_id a) ''case_id'',
     require_nonempty (pd_question_revision_id a) ''question_revision_id'',
     require_nonempty (pd_frame_revision_id a) ''frame_revision_id'',
     require_nonempty (pd_plan_revision_id a) ''plan_revision_id'',
     require_nonempty (pd_capability_intent_registry_version a) ''capability_intent_registry_version'',
     require_nonempty (pd_adoption_policy_version a) ''adoption_policy_version'',
     require (\<not> pd_expected_head_version a < 0)
       (ValueError ''expected_head_version must be non-negative''),
     require_sha256 (pd_authority_snapshot_sha256 a) ''authority_snapshot_sha256'',
     require_sha256 (pd_frame_content_sha256 a) ''frame_content_sha256'',
     require_sha256 (pd_plan_content_sha256 a) ''plan_content_sha256'',
     require_sha256 (pd_capability_intent_registry_sha256 a) ''capability_intent_registry_sha256'',
     require_sha256 (pd_derivation_proof_sha256 a) ''derivation_proof_sha256'',
     require (authority_sha256 (pd_authority_snapshot a) = pd_authority_snapshot_sha256 a)
       (ValueError ''authority snapshot hash does not match''),
     require (pd_capability_intent_registry_version a = capability_intent_registry_version \<and>
              pd_capability_intent_registry_sha256 a = capability_intent_registry_sha256)
       (ValueError ''plan adoption capability intent registry is stale''),
     require_digest_tuple (pd_resolution_outcome_ids a) ''resolution_outcome_ids'',
     require_digest_tuple (pd_obligation_ids a) ''obligation_ids'',
     require_digest_tuple (pd_query_binding_ids a) ''query_binding_ids'',
     require_sha256_tuple (pd_resolution_outcome_content_sha256s a) ''resolution_outcome_content_sha256s'',
     require_sha256_tuple (pd_resolution_admission_content_sha256s a)
       ''resolution_admission_content_sha256s'',
     require_sha256_tuple (pd_resolution_context_sha256s a) ''resolution_context_sha256s'',
     require_sha256_tuple (pd_resolver_input_bundle_sha256s a) ''resolver_input_bundle_sha256s'',
     require_sha256_tuple (pd_resolution_registry_content_sha256s a)
       ''resolution_registry_content_sha256s'',
     require_sha256_tuple (pd_obligation_content_sha256s a) ''obligation_content_sha256s'',
     require_sha256_tuple (pd_query_binding_content_sha256s a) ''query_binding_content_sha256s'',
     require_same_length [pd_resolution_outcome_ids a, pd_resolution_outcome_content_sha256s a,
         pd_resolution_admission_content_sha256s a, pd_resolution_context_sha256s a,
         pd_resolver_input_bundle_sha256s a, pd_resolution_registry_content_sha256s a]
       ''resolution adoption'',
     require_same_length [pd_obligation_ids a, pd_obligation_content_sha256s a] ''obligation adoption'',
     require_same_length [pd_query_binding_ids a, pd_query_binding_content_sha256s a]
       ''query binding adoption'',
     require (pd_schema_epoch a = schema_epoch) (ValueError ''plan adoption requires schema epoch 3''),
     require_aware_datetime (pd_created_at a) ''created_at'']"

definition plan_adoption_json :: "PlanAdoptionRecord \<Rightarrow> json" where
  "plan_adoption_json a = JObj [
     (''plan_adoption_id'', JStr (pd_plan_adoption_id a)), (''case_id'', JStr (pd_case_id a)),
     (''question_revision_id'', JStr (pd_question_revision_id a)),
     (''frame_revision_id'', JStr (pd_frame_revision_id a)),
     (''plan_revision_id'', JStr (pd_plan_revision_id a)),
     (''expected_head_version'', JInt (pd_expected_head_version a)),
     (''authority_snapshot'', authority_snapshot_json (pd_authority_snapshot a)),
     (''authority_snapshot_sha256'', JStr (pd_authority_snapshot_sha256 a)),
     (''frame_content_sha256'', JStr (pd_frame_content_sha256 a)),
     (''plan_content_sha256'', JStr (pd_plan_content_sha256 a)),
     (''resolution_outcome_ids'', strs (pd_resolution_outcome_ids a)),
     (''resolution_outcome_content_sha256s'', strs (pd_resolution_outcome_content_sha256s a)),
     (''resolution_admission_content_sha256s'', strs (pd_resolution_admission_content_sha256s a)),
     (''resolution_context_sha256s'', strs (pd_resolution_context_sha256s a)),
     (''resolver_input_bundle_sha256s'', strs (pd_resolver_input_bundle_sha256s a)),
     (''resolution_registry_content_sha256s'', strs (pd_resolution_registry_content_sha256s a)),
     (''obligation_ids'', strs (pd_obligation_ids a)),
     (''obligation_content_sha256s'', strs (pd_obligation_content_sha256s a)),
     (''query_binding_ids'', strs (pd_query_binding_ids a)),
     (''query_binding_content_sha256s'', strs (pd_query_binding_content_sha256s a)),
     (''capability_intent_registry_version'', JStr (pd_capability_intent_registry_version a)),
     (''capability_intent_registry_sha256'', JStr (pd_capability_intent_registry_sha256 a)),
     (''adoption_policy_version'', JStr (pd_adoption_policy_version a)),
     (''derivation_proof_sha256'', JStr (pd_derivation_proof_sha256 a)),
     (''created_at'', isoformat (pd_created_at a)), (''schema_epoch'', JInt (pd_schema_epoch a))]"

definition plan_adoption_sha256 :: "PlanAdoptionRecord \<Rightarrow> string" where
  "plan_adoption_sha256 a = digest (plan_adoption_json a)"

section \<open>The accepted question\<close>

datatype MessageRole = RoleUser | RoleAssistant | RoleSystemDecision

fun message_role_value :: "MessageRole \<Rightarrow> string" where
  "message_role_value RoleUser = ''user''"
| "message_role_value RoleAssistant = ''assistant''"
| "message_role_value RoleSystemDecision = ''system_decision''"

record SourceMessageRef =
  sm_message_id :: string
  sm_role :: MessageRole
  sm_sequence :: int
  sm_content :: string
  sm_content_sha256 :: string

definition check_source_message :: "SourceMessageRef \<Rightarrow> unit result" where
  "check_source_message m = checks [
     require_nonempty (sm_message_id m) ''message_id'',
     require (\<not> sm_sequence m < 1) (ValueError ''source message sequence must be positive''),
     require_nonempty (sm_content m) ''content'',
     require_sha256 (sm_content_sha256 m) ''content_sha256'',
     require (digest (JStr (sm_content m)) = sm_content_sha256 m)
       (ValueError ''source message content hash does not match'')]"

record QuestionRevision =
  qr_question_revision_id :: string
  qr_case_id :: string
  qr_revision_number :: int
  qr_prior_question_revision_id :: "string option"
  qr_source_messages :: "SourceMessageRef list"
  qr_explicit_scope_refs :: "string list"
  qr_explicit_constraint_refs :: "string list"
  qr_explicit_correction_refs :: "string list"
  qr_explicit_challenge_refs :: "string list"
  qr_accepted_clarification_refs :: "string list"
  qr_acceptance_event_id :: string
  qr_accepted_head_version :: int
  qr_analysis_cycle_id :: string
  qr_created_at :: datetime
  qr_schema_epoch :: int

definition validate_revision_lineage :: "int \<Rightarrow> string option \<Rightarrow> string \<Rightarrow> unit result" where
  "validate_revision_lineage n prior label = checks [
     require (\<not> n < 1) (ValueError (label @ '' revision number must be positive'')),
     require (\<not> (n = 1 \<and> prior \<noteq> None))
       (ValueError (''first '' @ label @ '' revision cannot have a prior revision'')),
     require (\<not> (n > 1 \<and> \<not> truthy prior))
       (ValueError (''later '' @ label @ '' revisions require a prior revision''))]"

definition check_question :: "QuestionRevision \<Rightarrow> unit result" where
  "check_question q =
    (let sequences = map sm_sequence (qr_source_messages q) in
     checks [
       require_nonempty (qr_question_revision_id q) ''question_revision_id'',
       require_nonempty (qr_case_id q) ''case_id'',
       require_nonempty (qr_acceptance_event_id q) ''acceptance_event_id'',
       require_nonempty (qr_analysis_cycle_id q) ''analysis_cycle_id'',
       validate_revision_lineage (qr_revision_number q) (qr_prior_question_revision_id q) ''question'',
       require (\<not> qr_accepted_head_version q < 1)
         (ValueError ''accepted question head version must be positive''),
       require (qr_schema_epoch q = schema_epoch)
         (ValueError ''question revision requires schema epoch 3''),
       require (qr_source_messages q \<noteq> []) (ValueError ''question revision requires source messages''),
       require (sort sequences = sequences) (ValueError ''question source messages must be ordered''),
       require (distinct sequences) (ValueError ''question source message sequences must be unique''),
       check_string_tuple (qr_explicit_scope_refs q) ''explicit_scope_refs'',
       check_string_tuple (qr_explicit_constraint_refs q) ''explicit_constraint_refs'',
       check_string_tuple (qr_explicit_correction_refs q) ''explicit_correction_refs'',
       check_string_tuple (qr_explicit_challenge_refs q) ''explicit_challenge_refs'',
       check_string_tuple (qr_accepted_clarification_refs q) ''accepted_clarification_refs'',
       require_aware_datetime (qr_created_at q) ''created_at''])"

definition source_message_json :: "SourceMessageRef \<Rightarrow> json" where
  "source_message_json m = JObj [
     (''message_id'', JStr (sm_message_id m)), (''role'', JStr (message_role_value (sm_role m))),
     (''sequence'', JInt (sm_sequence m)), (''content'', JStr (sm_content m)),
     (''content_sha256'', JStr (sm_content_sha256 m))]"

definition question_json :: "QuestionRevision \<Rightarrow> json" where
  "question_json q = JObj [
     (''question_revision_id'', JStr (qr_question_revision_id q)), (''case_id'', JStr (qr_case_id q)),
     (''revision_number'', JInt (qr_revision_number q)),
     (''prior_question_revision_id'', opt_str (qr_prior_question_revision_id q)),
     (''source_messages'', JTuple (map source_message_json (qr_source_messages q))),
     (''explicit_scope_refs'', strs (qr_explicit_scope_refs q)),
     (''explicit_constraint_refs'', strs (qr_explicit_constraint_refs q)),
     (''explicit_correction_refs'', strs (qr_explicit_correction_refs q)),
     (''explicit_challenge_refs'', strs (qr_explicit_challenge_refs q)),
     (''accepted_clarification_refs'', strs (qr_accepted_clarification_refs q)),
     (''acceptance_event_id'', JStr (qr_acceptance_event_id q)),
     (''accepted_head_version'', JInt (qr_accepted_head_version q)),
     (''analysis_cycle_id'', JStr (qr_analysis_cycle_id q)),
     (''created_at'', isoformat (qr_created_at q)), (''schema_epoch'', JInt (qr_schema_epoch q))]"

definition question_sha256 :: "QuestionRevision \<Rightarrow> string" where
  "question_sha256 q = digest (question_json q)"

section \<open>Frames, answers and satisfactions\<close>

text \<open>
  The attributes read of an \<open>AnalysisFrameRevision\<close> and of an \<open>AnswerVersion\<close>.  The measurement
  design of a frame is the JSON value \<open>to_jsonable\<close> makes of it, and the collections of it that
  plans and obligations are derived from.
\<close>

record FrameView =
  fr_frame_revision_id :: string
  fr_case_id :: string
  fr_question_revision_id :: string
  fr_revision_number :: int
  fr_prior_frame_revision_id :: "string option"
  fr_created_by_action_id :: string
  fr_decision_record_ids :: "string list"
  fr_measurement_design :: json
  fr_design :: DesignView
  fr_semantic_measurement_ids :: "string list"
  fr_authority_binding_ids :: "string list"
  fr_content_sha256 :: string

datatype AnswerStatus = AnswerProvisional | AnswerSettled

fun answer_status_value :: "AnswerStatus \<Rightarrow> string" where
  "answer_status_value AnswerProvisional = ''provisional''"
| "answer_status_value AnswerSettled = ''settled''"

record AnswerView =
  an_answer_version_id :: string
  an_case_id :: string
  an_status :: AnswerStatus
  an_version_number :: int
  an_accepted_head_version :: int
  an_content_sha256 :: string

datatype ObligationSatisfactionStatus =
  SatOpen | SatSatisfied | SatBoundary | SatBlocked | SatSuperseded

fun satisfaction_status_value :: "ObligationSatisfactionStatus \<Rightarrow> string" where
  "satisfaction_status_value SatOpen = ''open''"
| "satisfaction_status_value SatSatisfied = ''satisfied''"
| "satisfaction_status_value SatBoundary = ''boundary''"
| "satisfaction_status_value SatBlocked = ''blocked''"
| "satisfaction_status_value SatSuperseded = ''superseded''"

definition obligation_satisfaction_policy_version :: string where
  "obligation_satisfaction_policy_version = ''obligation-satisfaction.g3.5.v1''"

record ObligationSatisfactionRecord =
  sr_obligation_satisfaction_id :: string
  sr_obligation_id :: string
  sr_obligation_content_sha256 :: string
  sr_prior_obligation_satisfaction_id :: "string option"
  sr_prior_obligation_satisfaction_content_sha256 :: "string option"
  sr_status :: ObligationSatisfactionStatus
  sr_evidence_admission_ids :: "string list"
  sr_evidence_admission_content_sha256s :: "string list"
  sr_evidence_validity_ids :: "string list"
  sr_evidence_validity_content_sha256s :: "string list"
  sr_boundary_resolution_outcome_id :: "string option"
  sr_input_set_sha256 :: string
  sr_reason_code :: string
  sr_policy_version :: string
  sr_recorded_at :: datetime
  sr_schema_epoch :: int

definition check_unique_digests :: "string list \<Rightarrow> string \<Rightarrow> unit result" where
  "check_unique_digests vs field_name = checks [
     require (distinct vs) (ValueError (field_name @ '' must be unique'')),
     require_sha256_tuple vs field_name]"

definition check_satisfaction :: "ObligationSatisfactionRecord \<Rightarrow> unit result" where
  "check_satisfaction r = checks [
     require_sha256 (sr_obligation_satisfaction_id r) ''obligation_satisfaction_id'',
     require_sha256 (sr_obligation_id r) ''obligation_id'',
     require_sha256 (sr_obligation_content_sha256 r) ''obligation_content_sha256'',
     require_sha256 (sr_input_set_sha256 r) ''input_set_sha256'',
     require ((sr_prior_obligation_satisfaction_id r = None) =
              (sr_prior_obligation_satisfaction_content_sha256 r = None))
       (ValueError ''satisfaction prior identity and hash must be paired''),
     check_unique_digests (sr_evidence_admission_ids r) ''evidence_admission_ids'',
     check_unique_digests (sr_evidence_admission_content_sha256s r)
       ''evidence_admission_content_sha256s'',
     check_unique_digests (sr_evidence_validity_ids r) ''evidence_validity_ids'',
     check_unique_digests (sr_evidence_validity_content_sha256s r)
       ''evidence_validity_content_sha256s'',
     require (length (sr_evidence_admission_ids r) = length (sr_evidence_admission_content_sha256s r) \<and>
              length (sr_evidence_validity_ids r) = length (sr_evidence_validity_content_sha256s r))
       (ValueError ''satisfaction identity/hash tuples must align''),
     require_nonempty (sr_reason_code r) ''reason_code'',
     require (sr_policy_version r = obligation_satisfaction_policy_version)
       (ValueError ''satisfaction policy is unsupported''),
     require_aware_datetime (sr_recorded_at r) ''recorded_at'',
     require (sr_schema_epoch r = schema_epoch)
       (ValueError ''satisfaction record requires schema epoch 3'')]"

definition satisfaction_json :: "ObligationSatisfactionRecord \<Rightarrow> json" where
  "satisfaction_json r = JObj [
     (''obligation_satisfaction_id'', JStr (sr_obligation_satisfaction_id r)),
     (''obligation_id'', JStr (sr_obligation_id r)),
     (''obligation_content_sha256'', JStr (sr_obligation_content_sha256 r)),
     (''prior_obligation_satisfaction_id'', opt_str (sr_prior_obligation_satisfaction_id r)),
     (''prior_obligation_satisfaction_content_sha256'',
        opt_str (sr_prior_obligation_satisfaction_content_sha256 r)),
     (''status'', JStr (satisfaction_status_value (sr_status r))),
     (''evidence_admission_ids'', strs (sr_evidence_admission_ids r)),
     (''evidence_admission_content_sha256s'', strs (sr_evidence_admission_content_sha256s r)),
     (''evidence_validity_ids'', strs (sr_evidence_validity_ids r)),
     (''evidence_validity_content_sha256s'', strs (sr_evidence_validity_content_sha256s r)),
     (''boundary_resolution_outcome_id'', opt_str (sr_boundary_resolution_outcome_id r)),
     (''input_set_sha256'', JStr (sr_input_set_sha256 r)), (''reason_code'', JStr (sr_reason_code r)),
     (''policy_version'', JStr (sr_policy_version r)), (''recorded_at'', isoformat (sr_recorded_at r)),
     (''schema_epoch'', JInt (sr_schema_epoch r))]"

definition satisfaction_sha256 :: "ObligationSatisfactionRecord \<Rightarrow> string" where
  "satisfaction_sha256 r = digest (satisfaction_json r)"

section \<open>Digests\<close>

lemma adoption_digests [simp]:
  "is_sha256 (work_plan_sha256 p)" "is_sha256 (plan_adoption_sha256 a)" "is_sha256 (question_sha256 q)"
  "is_sha256 (satisfaction_sha256 r)" "is_sha256 (obligation_sha256 b)"
  "is_sha256 capability_intent_registry_sha256"
  by (simp_all add: work_plan_sha256_def plan_adoption_sha256_def question_sha256_def
      satisfaction_sha256_def obligation_sha256_def capability_intent_registry_sha256_def)

text \<open>The governed registry is one its constructors accept.\<close>

lemma capability_registry_ok:
  "check_capability_registry capability_intent_registry = Inr ()"
  "\<forall>c \<in> set (cg_contracts capability_intent_registry). check_capability_intent c = Inr ()"
  by code_simp+

end
