(* ===== verification/PlanTypes.thy ===== *)
theory PlanTypes imports AdoptionTypes begin

text \<open>
  The records of a plan bundle (\<open>domain/planning.py\<close>): proposed tasks, query bindings with the
  measurement and the requirement they seal, and the bundle of a plan.
\<close>

section \<open>Proposed tasks\<close>

record ProposedWorkTask =
  pt_proposal_task_key :: string
  pt_business_purpose :: string
  pt_capability_intent_ref :: string
  pt_obligation_ids :: "string list"
  pt_depends_on_task_keys :: "string list"

definition registered_capability_intent_refs :: "string list" where
  "registered_capability_intent_refs = map ci_capability_intent_ref (cg_contracts capability_intent_registry)"

definition check_proposed_task :: "ProposedWorkTask \<Rightarrow> unit result" where
  "check_proposed_task t = checks [
     require_nonempty (pt_proposal_task_key t) ''proposal_task_key'',
     require_nonempty (pt_business_purpose t) ''business_purpose'',
     require_nonempty (pt_capability_intent_ref t) ''capability_intent_ref'',
     require (pt_capability_intent_ref t \<in> set registered_capability_intent_refs)
       (ValueError ''capability_intent_ref is absent from the governed registry''),
     check_unique_nonempty (pt_obligation_ids t) ''obligation_ids'',
     check_unique_nonempty (pt_depends_on_task_keys t) ''depends_on_task_keys'',
     require (pt_obligation_ids t \<noteq> [])
       (ValueError ''proposed work task must close at least one obligation''),
     require (pt_proposal_task_key t \<notin> set (pt_depends_on_task_keys t))
       (ValueError ''proposed task cannot depend on itself'')]"

section \<open>What a query binding seals\<close>

record LogicalMeasurementBinding =
  lm_claim_target_kind :: ClaimTargetKind
  lm_claim_target_spec_sha256 :: string
  lm_variable_ids :: "string list"
  lm_event_ids :: "string list"
  lm_population_id :: "string option"
  lm_observation_unit_id :: "string option"
  lm_temporal_semantic_id :: "string option"
  lm_estimator_id :: "string option"
  lm_exposure_id :: "string option"
  lm_contrast_id :: "string option"
  lm_sequence_id :: "string option"
  lm_cohort_risk_set_id :: "string option"
  lm_reconciliation_id :: "string option"
  lm_relationship_id :: "string option"
  lm_eligibility_id :: "string option"
  lm_identification_id :: "string option"
  lm_alternative_ids :: "string list"
  lm_sensitivity_ids :: "string list"
  lm_falsification_ids :: "string list"
  lm_reversal_ids :: "string list"
  lm_scope_ceiling_id :: string
  lm_claim_strength_ceiling :: ClaimStrengthCeiling

definition check_measurement_binding :: "LogicalMeasurementBinding \<Rightarrow> unit result" where
  "check_measurement_binding m = checks [
     require_sha256 (lm_claim_target_spec_sha256 m) ''claim_target_spec_sha256'',
     require_nonempty (lm_scope_ceiling_id m) ''scope_ceiling_id'',
     check_unique_nonempty (lm_variable_ids m) ''variable_ids'',
     check_unique_nonempty (lm_event_ids m) ''event_ids'',
     check_unique_nonempty (lm_alternative_ids m) ''alternative_ids'',
     check_unique_nonempty (lm_sensitivity_ids m) ''sensitivity_ids'',
     check_unique_nonempty (lm_falsification_ids m) ''falsification_ids'',
     check_unique_nonempty (lm_reversal_ids m) ''reversal_ids'',
     check_optional_ref (lm_population_id m) ''population_id'',
     check_optional_ref (lm_observation_unit_id m) ''observation_unit_id'',
     check_optional_ref (lm_temporal_semantic_id m) ''temporal_semantic_id'',
     check_optional_ref (lm_estimator_id m) ''estimator_id'',
     check_optional_ref (lm_exposure_id m) ''exposure_id'',
     check_optional_ref (lm_contrast_id m) ''contrast_id'',
     check_optional_ref (lm_sequence_id m) ''sequence_id'',
     check_optional_ref (lm_cohort_risk_set_id m) ''cohort_risk_set_id'',
     check_optional_ref (lm_reconciliation_id m) ''reconciliation_id'',
     check_optional_ref (lm_relationship_id m) ''relationship_id'',
     check_optional_ref (lm_eligibility_id m) ''eligibility_id'',
     check_optional_ref (lm_identification_id m) ''identification_id'']"

definition measurement_binding_json :: "LogicalMeasurementBinding \<Rightarrow> json" where
  "measurement_binding_json m = JObj [
     (''claim_target_kind'', JStr (claim_target_value (lm_claim_target_kind m))),
     (''claim_target_spec_sha256'', JStr (lm_claim_target_spec_sha256 m)),
     (''variable_ids'', strs (lm_variable_ids m)), (''event_ids'', strs (lm_event_ids m)),
     (''population_id'', opt_str (lm_population_id m)),
     (''observation_unit_id'', opt_str (lm_observation_unit_id m)),
     (''temporal_semantic_id'', opt_str (lm_temporal_semantic_id m)),
     (''estimator_id'', opt_str (lm_estimator_id m)), (''exposure_id'', opt_str (lm_exposure_id m)),
     (''contrast_id'', opt_str (lm_contrast_id m)), (''sequence_id'', opt_str (lm_sequence_id m)),
     (''cohort_risk_set_id'', opt_str (lm_cohort_risk_set_id m)),
     (''reconciliation_id'', opt_str (lm_reconciliation_id m)),
     (''relationship_id'', opt_str (lm_relationship_id m)),
     (''eligibility_id'', opt_str (lm_eligibility_id m)),
     (''identification_id'', opt_str (lm_identification_id m)),
     (''alternative_ids'', strs (lm_alternative_ids m)), (''sensitivity_ids'', strs (lm_sensitivity_ids m)),
     (''falsification_ids'', strs (lm_falsification_ids m)), (''reversal_ids'', strs (lm_reversal_ids m)),
     (''scope_ceiling_id'', JStr (lm_scope_ceiling_id m)),
     (''claim_strength_ceiling'', JStr (claim_strength_value (lm_claim_strength_ceiling m)))]"

record EvidenceRequirementBinding =
  eb_evidence_requirement_id :: string
  eb_required_evidence_type_refs :: "string list"
  eb_obligation_evidence_type_refs :: "string list"
  eb_composition :: EvidenceComposition
  eb_minimum_count :: "int option"
  eb_minimum_strength :: ClaimStrengthCeiling
  eb_scope_id :: string
  eb_exposure_id :: "string option"
  eb_contradiction_policy_ref :: string
  eb_boundary_policy :: RequirementBoundaryPolicy
  eb_allowed_boundary_codes :: "string list"
  eb_linked_falsification_ids :: "string list"
  eb_linked_reversal_ids :: "string list"

definition check_requirement_binding :: "EvidenceRequirementBinding \<Rightarrow> unit result" where
  "check_requirement_binding b = checks [
     require_nonempty (eb_evidence_requirement_id b) ''evidence_requirement_id'',
     require_nonempty (eb_scope_id b) ''scope_id'',
     require_nonempty (eb_contradiction_policy_ref b) ''contradiction_policy_ref'',
     check_unique_nonempty (eb_required_evidence_type_refs b) ''required_evidence_type_refs'',
     check_unique_nonempty (eb_obligation_evidence_type_refs b) ''obligation_evidence_type_refs'',
     check_unique_nonempty (eb_allowed_boundary_codes b) ''allowed_boundary_codes'',
     check_unique_nonempty (eb_linked_falsification_ids b) ''linked_falsification_ids'',
     check_unique_nonempty (eb_linked_reversal_ids b) ''linked_reversal_ids'',
     require (eb_required_evidence_type_refs b \<noteq> [])
       (ValueError ''requirement binding requires evidence types''),
     require (eb_obligation_evidence_type_refs b \<noteq> [] \<and>
         set (eb_obligation_evidence_type_refs b) \<subseteq> set (eb_required_evidence_type_refs b))
       (ValueError ''obligation evidence types must belong to requirement''),
     check_optional_ref (eb_exposure_id b) ''exposure_id'',
     check_minimum_count (eb_composition b) (eb_minimum_count b) (eb_required_evidence_type_refs b)
       ''binding'' ''at_least binding'']"

definition requirement_binding_json :: "EvidenceRequirementBinding \<Rightarrow> json" where
  "requirement_binding_json b = JObj [
     (''evidence_requirement_id'', JStr (eb_evidence_requirement_id b)),
     (''required_evidence_type_refs'', strs (eb_required_evidence_type_refs b)),
     (''obligation_evidence_type_refs'', strs (eb_obligation_evidence_type_refs b)),
     (''composition'', JStr (composition_value (eb_composition b))),
     (''minimum_count'', opt_int (eb_minimum_count b)),
     (''minimum_strength'', JStr (claim_strength_value (eb_minimum_strength b))),
     (''scope_id'', JStr (eb_scope_id b)), (''exposure_id'', opt_str (eb_exposure_id b)),
     (''contradiction_policy_ref'', JStr (eb_contradiction_policy_ref b)),
     (''boundary_policy'', JStr (boundary_policy_value (eb_boundary_policy b))),
     (''allowed_boundary_codes'', strs (eb_allowed_boundary_codes b)),
     (''linked_falsification_ids'', strs (eb_linked_falsification_ids b)),
     (''linked_reversal_ids'', strs (eb_linked_reversal_ids b))]"

section \<open>Query bindings\<close>

definition query_binding_policy_version :: string where
  "query_binding_policy_version = ''logical-query-binding.v1''"

definition gate4_compiler_contract_ref :: string where
  "gate4_compiler_contract_ref = ''waje-vnext://physical-query-compiler/query-binding.v1''"

record QueryBindingEnvelope =
  qb_query_binding_id :: string
  qb_case_id :: string
  qb_question_revision_id :: string
  qb_frame_revision_id :: string
  qb_plan_revision_id :: string
  qb_task_id :: string
  qb_capability_intent_ref :: string
  qb_estimand_id :: string
  qb_evidence_requirement_id :: string
  qb_obligation_id :: string
  qb_resolution_outcome_id :: string
  qb_semantic_measurement_id :: string
  qb_authority_binding_id :: string
  qb_frame_content_sha256 :: string
  qb_plan_content_sha256 :: string
  qb_resolution_outcome_content_sha256 :: string
  qb_obligation_content_sha256 :: string
  qb_measurement_binding :: LogicalMeasurementBinding
  qb_requirement_binding :: EvidenceRequirementBinding
  qb_resolved_measurement_instance :: ResolvedInstanceView
  qb_query_binding_policy_version :: string
  qb_physical_compiler_contract_ref :: string
  qb_created_at :: datetime
  qb_schema_epoch :: int

definition check_query_binding :: "QueryBindingEnvelope \<Rightarrow> unit result" where
  "check_query_binding q = checks [
     require_sha256 (qb_query_binding_id q) ''query_binding_id'',
     require_sha256 (qb_semantic_measurement_id q) ''semantic_measurement_id'',
     require_sha256 (qb_authority_binding_id q) ''authority_binding_id'',
     require_sha256 (qb_frame_content_sha256 q) ''frame_content_sha256'',
     require_sha256 (qb_plan_content_sha256 q) ''plan_content_sha256'',
     require_sha256 (qb_resolution_outcome_content_sha256 q) ''resolution_outcome_content_sha256'',
     require_sha256 (qb_obligation_content_sha256 q) ''obligation_content_sha256'',
     require_nonempty (qb_case_id q) ''case_id'',
     require_nonempty (qb_question_revision_id q) ''question_revision_id'',
     require_nonempty (qb_frame_revision_id q) ''frame_revision_id'',
     require_nonempty (qb_plan_revision_id q) ''plan_revision_id'',
     require_nonempty (qb_task_id q) ''task_id'',
     require_nonempty (qb_capability_intent_ref q) ''capability_intent_ref'',
     require_nonempty (qb_estimand_id q) ''estimand_id'',
     require_nonempty (qb_evidence_requirement_id q) ''evidence_requirement_id'',
     require_nonempty (qb_resolution_outcome_id q) ''resolution_outcome_id'',
     require_nonempty (qb_query_binding_policy_version q) ''query_binding_policy_version'',
     require_nonempty (qb_physical_compiler_contract_ref q) ''physical_compiler_contract_ref'',
     require_sha256 (qb_obligation_id q) ''obligation_id'',
     require (ri_resolution_id (qb_resolved_measurement_instance q) \<noteq> qb_resolution_outcome_id q)
       (ValueError ''resolution instance and outcome require distinct identities''),
     require (qb_schema_epoch q = schema_epoch) (ValueError ''query binding requires schema epoch 3''),
     require (take (length capability_intent_prefix) (qb_capability_intent_ref q) = capability_intent_prefix)
       (ValueError ''query binding capability intent is ungoverned''),
     require (qb_query_binding_policy_version q = query_binding_policy_version \<and>
         qb_physical_compiler_contract_ref q = gate4_compiler_contract_ref)
       (ValueError ''query binding policy contract is unsupported''),
     require_aware_datetime (qb_created_at q) ''created_at'']"

definition query_binding_json :: "QueryBindingEnvelope \<Rightarrow> json" where
  "query_binding_json q = JObj [
     (''query_binding_id'', JStr (qb_query_binding_id q)), (''case_id'', JStr (qb_case_id q)),
     (''question_revision_id'', JStr (qb_question_revision_id q)),
     (''frame_revision_id'', JStr (qb_frame_revision_id q)),
     (''plan_revision_id'', JStr (qb_plan_revision_id q)), (''task_id'', JStr (qb_task_id q)),
     (''capability_intent_ref'', JStr (qb_capability_intent_ref q)),
     (''estimand_id'', JStr (qb_estimand_id q)),
     (''evidence_requirement_id'', JStr (qb_evidence_requirement_id q)),
     (''obligation_id'', JStr (qb_obligation_id q)),
     (''resolution_outcome_id'', JStr (qb_resolution_outcome_id q)),
     (''semantic_measurement_id'', JStr (qb_semantic_measurement_id q)),
     (''authority_binding_id'', JStr (qb_authority_binding_id q)),
     (''frame_content_sha256'', JStr (qb_frame_content_sha256 q)),
     (''plan_content_sha256'', JStr (qb_plan_content_sha256 q)),
     (''resolution_outcome_content_sha256'', JStr (qb_resolution_outcome_content_sha256 q)),
     (''obligation_content_sha256'', JStr (qb_obligation_content_sha256 q)),
     (''measurement_binding'', measurement_binding_json (qb_measurement_binding q)),
     (''requirement_binding'', requirement_binding_json (qb_requirement_binding q)),
     (''resolved_measurement_instance'', ri_content (qb_resolved_measurement_instance q)),
     (''query_binding_policy_version'', JStr (qb_query_binding_policy_version q)),
     (''physical_compiler_contract_ref'', JStr (qb_physical_compiler_contract_ref q)),
     (''created_at'', isoformat (qb_created_at q)), (''schema_epoch'', JInt (qb_schema_epoch q))]"

definition query_binding_sha256 :: "QueryBindingEnvelope \<Rightarrow> string" where
  "query_binding_sha256 q = digest (query_binding_json q)"

section \<open>The bundle of a plan\<close>

record PlanBundle =
  bu_plan :: WorkPlanRevision
  bu_query_bindings :: "QueryBindingEnvelope list"
  bu_adoption :: PlanAdoptionRecord

text \<open>\<open>{obligation_id: task for task in tasks for obligation_id in task.obligation_ids}\<close>\<close>

definition task_by_obligation :: "WorkPlanRevision \<Rightarrow> (string \<times> WorkTask) list" where
  "task_by_obligation p = dict_of [(n, t). t \<leftarrow> wp_tasks p, n \<leftarrow> wt_obligation_ids t]"

end
