(* ===== verification/ObligationAdmission.thy ===== *)
theory ObligationAdmission imports ObligationClosure PlanTypes begin

text \<open>
  Dispatch and completion of single obligations (\<open>domain/obligation_scheduler.py\<close>):
  \<open>build_obligation_dispatch\<close>, \<open>admit_obligation_completion\<close>, \<open>validate_obligation_dispatch_admission\<close>,
  \<open>validate_schedule_plan_binding\<close> and \<open>validate_persisted_obligation_completion\<close>.
\<close>

section \<open>Dispatch\<close>

definition obligation_job_contract_ref :: string where
  "obligation_job_contract_ref = ''waje-vnext://runtime/resolved-evidence-obligation-job.v1''"

definition obligation_job_destination :: string where
  "obligation_job_destination = ''obligation-worker''"

definition build_obligation_dispatch ::
    "ResolvedEvidenceObligation \<Rightarrow> ObligationPlanBinding \<Rightarrow> string \<Rightarrow> AuthoritySnapshot \<Rightarrow>
     ObligationDispatch result" where
  "build_obligation_dispatch b p plan a =
     (if ro_case_id b \<noteq> au_case_id a \<or> Some (ro_frame_revision_id b) \<noteq> au_frame_revision_id a
      then Inl (ValueError ''cannot dispatch a stale obligation'')
      else case pb_query_binding_id p of
        None \<Rightarrow> Inl (ValueError ''dispatch requires accepted Plan task and query binding'')
      | Some q \<Rightarrow>
          if au_plan_revision_id a \<noteq> Some plan \<or> pb_obligation_id p \<noteq> ro_obligation_id b
          then Inl (ValueError ''dispatch requires accepted Plan task and query binding'')
          else construct check_dispatch
            \<lparr>di_dispatch_id = digest (JObj [
               (''kind'', JStr ''obligation-dispatch.v1''),
               (''obligation_id'', JStr (ro_obligation_id b)), (''plan_revision_id'', JStr plan),
               (''task_id'', JStr (pb_task_id p)), (''query_binding_id'', JStr q),
               (''definition_sha256'', JStr (obligation_sha256 b)),
               (''authority_snapshot_sha256'', JStr (authority_sha256 a))]),
             di_obligation_id = ro_obligation_id b, di_plan_revision_id = plan,
             di_task_id = pb_task_id p, di_query_binding_id = q,
             di_definition_sha256 = obligation_sha256 b, di_authority_snapshot = a,
             di_authority_snapshot_sha256 = authority_sha256 a\<rparr>)"

definition dispatch_payload ::
    "ObligationScheduleRecord \<Rightarrow> ResolvedEvidenceObligation \<Rightarrow> ObligationDispatch \<Rightarrow> json" where
  "dispatch_payload s b d = JObj [
     (''schedule_id'', JStr (os_schedule_id s)), (''obligation_id'', JStr (ro_obligation_id b)),
     (''plan_revision_id'', JStr (os_plan_revision_id s)), (''task_id'', JStr (di_task_id d)),
     (''query_binding_id'', JStr (di_query_binding_id d)), (''obligation'', obligation_json b),
     (''dispatch_id'', JStr (di_dispatch_id d))]"

lemma dispatch_payload_freezes: "\<exists>w. freeze_json (dispatch_payload s b d) = Inr w"
  by (rule freeze_total) (simp_all add: dispatch_payload_def)

definition validate_obligation_dispatch_admission ::
    "ObligationScheduleRecord \<Rightarrow> ObligationDispatchRecord \<Rightarrow> OutboxMessage \<Rightarrow> unit result" where
  "validate_obligation_dispatch_admission s r m =
    (let n = di_obligation_id (dr_dispatch r); a = os_authority_snapshot s in
     case (List.find (\<lambda>b. ro_obligation_id b = n) (os_obligations s),
           List.find (\<lambda>p. pb_obligation_id p = n) (os_plan_bindings s)) of
       (Some b, Some p) \<Rightarrow>
         bindR (build_obligation_dispatch b p (os_plan_revision_id s) a) (\<lambda>d.
         bindR (freeze_json (dispatch_payload s b d)) (\<lambda>payload.
           require (dr_schedule_id r = os_schedule_id s \<and> dr_dispatch r = d \<and>
               dr_outbox_message_id r = om_outbox_message_id m \<and> dr_created_at r = om_created_at m \<and>
               om_case_id m = os_case_id s \<and> om_action_id m = None \<and>
               om_job_kind m = JobObligation \<and> om_destination m = obligation_job_destination \<and>
               om_contract_ref m = obligation_job_contract_ref \<and> om_authority_snapshot m = a \<and>
               om_authority_snapshot_sha256 m = os_authority_snapshot_sha256 s \<and>
               om_expected_head_version m = au_head_version a \<and>
               om_expected_authority_epoch m = au_mailbox_authority_epoch a \<and>
               oi_authority_revision (om_operation m) = au_mailbox_authority_epoch a \<and>
               oi_correlation_id (om_operation m) = os_correlation_id s \<and>
               py_eq (om_payload m) payload)
             (ValueError ''obligation dispatch does not exactly bind schedule outbox'')))
     | _ \<Rightarrow> Inl (ValueError ''obligation dispatch is outside the accepted schedule''))"

section \<open>Completion by a worker\<close>

definition assert_completion_authority :: "AuthoritySnapshot \<Rightarrow> AuthoritySnapshot \<Rightarrow> unit result" where
  "assert_completion_authority e c = checks [
     require (same_obligation_business_authority e c)
       (ValueError ''obligation completion authority is stale''),
     require (\<not> au_head_version c < au_head_version e \<and>
              \<not> au_obligation_state_version c < au_obligation_state_version e \<and>
              \<not> au_evidence_admission_state_version c < au_evidence_admission_state_version e \<and>
              \<not> au_contradiction_state_version c < au_contradiction_state_version e)
       (ValueError ''authority state version cannot regress'')]"

definition admit_obligation_completion ::
    "ObligationDispatch \<Rightarrow> ResolvedEvidenceObligation \<Rightarrow> ObligationTerminalStatus \<Rightarrow> string \<Rightarrow>
     AuthoritySnapshot \<Rightarrow> completions \<Rightarrow> completions result" where
  "admit_obligation_completion d b status result_sha a prior =
     bindR (checks [
       require (ro_execution_disposition b = DispExecutable)
         (ValueError ''only executable obligations accept worker completion''),
       require (status \<in> {ExecutionSucceeded, ObligationFailed})
         (ValueError ''worker completion status is incompatible with executable obligation''),
       require (di_obligation_id d = ro_obligation_id b \<and> di_definition_sha256 d = obligation_sha256 b)
         (ValueError ''completion changes obligation identity''),
       assert_completion_authority (di_authority_snapshot d) a]) (\<lambda>_.
     bindR (construct check_completion
       \<lparr>oc_obligation_id = ro_obligation_id b, oc_dispatch_id = di_dispatch_id d,
        oc_status = status, oc_result_sha256 = result_sha\<rparr>) (\<lambda>c.
     bindR (completion_index prior) (\<lambda>ix.
       case map_of ix (oc_obligation_id c) of
         Some c' \<Rightarrow>
           if c' \<noteq> c
           then Inl (ValueError ''obligation already has a different terminal completion'')
           else Inr prior
       | None \<Rightarrow> Inr (prior @ [c]))))"

section \<open>The plan binding of a schedule\<close>

definition expected_plan_binding ::
    "WorkPlanRevision \<Rightarrow> QueryBindingEnvelope list \<Rightarrow> ResolvedEvidenceObligation \<Rightarrow>
     ObligationPlanBinding result" where
  "expected_plan_binding p qs b =
     bindR (item (task_by_obligation p) (ro_obligation_id b)) (\<lambda>t.
     bindR (if ro_execution_disposition b \<noteq> DispExecutable then Inr None
            else bindR (item (dict_of (map (\<lambda>q. (qb_obligation_id q, q)) qs)) (ro_obligation_id b))
                   (\<lambda>q. Inr (Some (qb_query_binding_id q)))) (\<lambda>q.
     construct check_plan_binding
       \<lparr>pb_obligation_id = ro_obligation_id b, pb_task_id = wt_task_id t, pb_query_binding_id = q\<rparr>))"

definition expected_dependency ::
    "WorkPlanRevision \<Rightarrow> ResolvedEvidenceObligation \<Rightarrow> ObligationDependency result" where
  "expected_dependency p b =
     bindR (item (task_by_obligation p) (ro_obligation_id b)) (\<lambda>t.
     bindR (sequenceR (map (item (dict_of (map (\<lambda>u. (wt_task_id u, wt_obligation_ids u)) (wp_tasks p))))
              (wt_depends_on_task_ids t))) (\<lambda>dss.
     construct check_dependency
       \<lparr>dp_obligation_id = ro_obligation_id b, dp_depends_on = concat dss\<rparr>))"

definition validate_schedule_plan_binding ::
    "ObligationScheduleRecord \<Rightarrow> WorkPlanRevision \<Rightarrow> PlanAdoptionRecord \<Rightarrow> QueryBindingEnvelope list \<Rightarrow>
     obligations \<Rightarrow> unit result" where
  "validate_schedule_plan_binding s p ad qs obs =
     bindR (build_obligation_schedule_id (os_case_id s) (os_correlation_id s) (os_frame_revision_id s)
       (os_plan_revision_id s) (os_plan_adoption_id s) (os_plan_adoption_content_sha256 s)
       (os_authority_snapshot s)) (\<lambda>expected_id.
     bindR (checks [
       require (os_schedule_id s = expected_id)
         (ValueError ''schedule ID is not canonical for its run and business authority''),
       require (os_plan_revision_id s = wp_plan_revision_id p \<and>
                os_frame_revision_id s = wp_frame_revision_id p \<and>
                pd_plan_revision_id ad = wp_plan_revision_id p \<and>
                os_plan_adoption_id s = pd_plan_adoption_id ad \<and>
                os_plan_adoption_content_sha256 s = plan_adoption_sha256 ad)
         (ValueError ''schedule does not bind accepted Plan adoption''),
       require (obligation_ids (os_obligations s) = pd_obligation_ids ad)
         (ValueError ''schedule obligation order differs from adoption''),
       require (\<forall>b \<in> set (os_obligations s).
                  map_of (dict_of (map (\<lambda>x. (ro_obligation_id x, x)) obs)) (ro_obligation_id b) = Some b)
         (ValueError ''schedule carries forged obligation content'')]) (\<lambda>_.
     bindR (sequenceR (map (expected_plan_binding p qs) (os_obligations s))) (\<lambda>bindings.
     bindR (require (os_plan_bindings s = bindings)
       (ValueError ''schedule task/query bindings were not Plan-derived'')) (\<lambda>_.
     bindR (sequenceR (map (expected_dependency p) (os_obligations s))) (\<lambda>deps.
     require (os_dependencies s = deps)
       (ValueError ''schedule dependencies were not Plan-derived''))))))"

section \<open>The completion a store accepts\<close>

definition starts_with :: "string \<Rightarrow> string \<Rightarrow> bool" where
  "starts_with s prefix \<longleftrightarrow> take (length prefix) s = prefix"

definition system_terminal_completion :: "ResolvedEvidenceObligation \<Rightarrow> ObligationCompletion" where
  "system_terminal_completion b =
     \<lparr>oc_obligation_id = ro_obligation_id b,
      oc_dispatch_id = ''system-terminal:'' @ ro_obligation_id b,
      oc_status = (if ro_execution_disposition b = DispTypedBoundary then TypedBoundary
                   else ObligationFailed),
      oc_result_sha256 = digest (JObj [
        (''execution_disposition'', JStr (execution_disposition_value (ro_execution_disposition b))),
        (''boundary_code'', opt_str (ro_boundary_code b))])\<rparr>"

definition superseded_completion ::
    "ObligationScheduleRecord \<Rightarrow> ResolvedEvidenceObligation \<Rightarrow> ObligationDispatch option \<Rightarrow>
     AuthoritySnapshot \<Rightarrow> ObligationCompletion" where
  "superseded_completion s b d a =
     \<lparr>oc_obligation_id = ro_obligation_id b,
      oc_dispatch_id = (case d of Some d' \<Rightarrow> di_dispatch_id d'
                        | None \<Rightarrow> ''system-superseded:'' @ ro_obligation_id b),
      oc_status = ObligationSuperseded,
      oc_result_sha256 = digest (JObj [
        (''kind'', JStr ''obligation-authority-superseded.v1''),
        (''schedule_authority'', JStr (os_authority_snapshot_sha256 s)),
        (''current_authority'', JStr (authority_sha256 a)),
        (''obligation_id'', JStr (ro_obligation_id b))])\<rparr>"

definition validate_persisted_obligation_completion ::
    "ObligationScheduleRecord \<Rightarrow> ObligationCompletion \<Rightarrow> completions \<Rightarrow> ObligationDispatch option \<Rightarrow>
     AuthoritySnapshot \<Rightarrow> unit result" where
  "validate_persisted_obligation_completion s c prior d a =
    (case List.find (\<lambda>b. ro_obligation_id b = oc_obligation_id c) (os_obligations s) of
       None \<Rightarrow> Inl (ValueError ''completion references an unknown obligation'')
     | Some b \<Rightarrow>
        if starts_with (oc_dispatch_id c) ''system-terminal:''
        then bindR (construct check_completion (system_terminal_completion b)) (\<lambda>expected.
          require (ro_execution_disposition b \<noteq> DispExecutable \<and> c = expected)
            (ValueError ''system terminal is not derived from obligation disposition''))
        else if starts_with (oc_dispatch_id c) ''system-prerequisite:''
        then bindR (propagate_dependency_terminals (os_obligations s) (os_dependencies s) prior)
          (\<lambda>propagated.
          require (List.find (\<lambda>x. oc_obligation_id x = oc_obligation_id c \<and>
                      oc_obligation_id x \<notin> set (map oc_obligation_id prior)) propagated = Some c)
            (ValueError ''system prerequisite terminal is not graph-derived''))
        else if oc_status c = ObligationSuperseded
        then (if same_obligation_business_authority (os_authority_snapshot s) a
              then Inl (ValueError ''obligation supersession requires authority drift'')
              else bindR (construct check_completion (superseded_completion s b d a)) (\<lambda>expected.
                require (c = expected)
                  (ValueError ''supersession is not derived from authority drift'')))
        else (case d of
            None \<Rightarrow> Inl (ValueError ''worker completion lacks its durable dispatch'')
          | Some d' \<Rightarrow>
              require (ro_execution_disposition b = DispExecutable \<and>
                  oc_status c \<in> {ExecutionSucceeded, ObligationFailed} \<and>
                  oc_dispatch_id c = di_dispatch_id d' \<and> oc_obligation_id c = di_obligation_id d' \<and>
                  di_definition_sha256 d' = obligation_sha256 b)
                (ValueError ''worker completion is incompatible with durable dispatch'')))"

end
