(* ===== verification/ObligationOrder.thy ===== *)
theory ObligationOrder imports ObligationAdmission begin

text \<open>
  When propagation can be persisted one completion at a time: in a topological order of the
  obligations the result is the unique solution of one equation per obligation, so recomputing it
  after a part has been stored gives the same result.
\<close>

section \<open>The equations\<close>

definition topological :: "obligations \<Rightarrow> dependencies \<Rightarrow> bool" where
  "topological obs deps \<longleftrightarrow> (\<forall>bs b rest ds. obs = bs @ b # rest \<longrightarrow>
     deps_of deps (ro_obligation_id b) = Inr ds \<longrightarrow> set ds \<subseteq> ro_obligation_id ` set bs)"

definition solves :: "dependencies \<Rightarrow> completion_index \<Rightarrow> completion_index \<Rightarrow> ResolvedEvidenceObligation \<Rightarrow> bool" where
  "solves deps ix ix' b \<longleftrightarrow> (\<forall>ds. deps_of deps (ro_obligation_id b) = Inr ds \<longrightarrow>
     map_of ix' (ro_obligation_id b) =
       (case map_of ix (ro_obligation_id b) of Some c \<Rightarrow> Some c
        | None \<Rightarrow> if blocking ix' ds = [] then None
                  else Some (prerequisite_completion (ro_obligation_id b) (blocking ix' ds))))"

text \<open>A closed index stays as it is.\<close>

lemma closed_fold_unchanged:
  "\<forall>b \<in> set bs. closed_at deps ix b \<Longrightarrow> foldR (propagate_one deps) bs (ch, ix) = Inr (ch, ix)"
proof (induction bs)
  case (Cons b bs)
  have "propagate_one deps b (ch, ix) = Inr (ch, ix)"
    using Cons.prems propagate_one_known [of ix b deps ch] propagate_one_free [of deps b _ ix ch]
    by (cases "map_of ix (ro_obligation_id b)") (auto simp: closed_at_def)
  then show ?case using Cons by simp
qed simp

lemma closed_loop_unchanged:
  "\<forall>b \<in> set obs. closed_at deps ix b \<Longrightarrow> propagate_loop obs deps ix = Inr ix"
  by (subst propagate_loop.simps) (simp add: propagate_round_def closed_fold_unchanged)

section \<open>One round solves the equations of a topological order\<close>

lemma solves_cong:
  assumes "\<And>n. n \<in> N \<Longrightarrow> map_of ix1 n = map_of ix2 n" and "ro_obligation_id b \<in> N"
    and "\<And>ds. deps_of deps (ro_obligation_id b) = Inr ds \<Longrightarrow> set ds \<subseteq> N"
  shows "solves deps ix ix1 b = solves deps ix ix2 b"
proof (cases "deps_of deps (ro_obligation_id b)")
  case (Inr ds)
  then have "blocking ix1 ds = blocking ix2 ds" using assms(1,3) by (intro blocking_cong) auto
  then show ?thesis using Inr assms(1) [OF assms(2)] by (simp add: solves_def split: option.split)
qed (simp add: solves_def)

lemma topological_round:
  "obs = bs @ rest \<Longrightarrow> topological obs deps \<Longrightarrow> distinct (obligation_ids obs) \<Longrightarrow>
   foldR (propagate_one deps) bs (False, ix) = Inr (ch, ix1) \<Longrightarrow>
   (\<forall>b \<in> set bs. solves deps ix ix1 b) \<and>
   (\<forall>n. n \<notin> ro_obligation_id ` set bs \<longrightarrow> map_of ix1 n = map_of ix n)"
proof (induction bs arbitrary: rest ch ix1 rule: rev_induct)
  case (snoc b bs)
  let ?n = "ro_obligation_id b" and ?N = "ro_obligation_id ` set bs"
  obtain ch0 ix0 where f: "foldR (propagate_one deps) bs (False, ix) = Inr (ch0, ix0)"
    and s: "propagate_one deps b (ch0, ix0) = Inr (ch, ix1)"
    using snoc.prems(4) by (auto simp: foldR_append result_simps)
  have IH: "\<forall>b \<in> set bs. solves deps ix ix0 b" "\<forall>n. n \<notin> ?N \<longrightarrow> map_of ix0 n = map_of ix n"
    using snoc.IH [of "b # rest" ch0 ix0] snoc.prems(1-3) f by simp_all
  have new: "?n \<notin> ?N" using snoc.prems(1,3) by auto
  have deps_N: "set ds \<subseteq> ?N" if "deps_of deps ?n = Inr ds" for ds
  proof -
    have "obs = bs @ b # rest" using snoc.prems(1) by simp
    then show ?thesis using snoc.prems(2) that unfolding topological_def by blast
  qed
  have other: "map_of ix1 m = map_of ix0 m" if "m \<noteq> ?n" for m
    using s by (cases rule: propagate_one_cases) (use that in auto)
  have here: "solves deps ix ix1 b"
    unfolding solves_def
  proof (intro allI impI)
    fix ds assume ds: "deps_of deps ?n = Inr ds"
    have bl: "blocking ix1 ds = blocking ix0 ds"
      using deps_N [OF ds] new by (intro blocking_cong other) auto
    have ix0n: "map_of ix0 ?n = map_of ix ?n" using IH(2) new by blast
    from s show "map_of ix1 ?n = (case map_of ix ?n of Some c \<Rightarrow> Some c
        | None \<Rightarrow> if blocking ix1 ds = [] then None
                  else Some (prerequisite_completion ?n (blocking ix1 ds)))"
      by (cases rule: propagate_one_cases) (use ds bl ix0n in auto)
  qed
  have old: "solves deps ix ix1 x" if x: "x \<in> set bs" for x
  proof -
    have "set ds \<subseteq> ?N" if "deps_of deps (ro_obligation_id x) = Inr ds" for ds
    proof -
      obtain ys zs where "bs = ys @ x # zs" using x by (meson split_list)
      moreover from this have "obs = ys @ x # (zs @ b # rest)" using snoc.prems(1) by simp
      ultimately show ?thesis using snoc.prems(2) that unfolding topological_def by fastforce
    qed
    moreover have "map_of ix0 m = map_of ix1 m" if "m \<in> ?N" for m
    proof -
      have "m \<noteq> ?n" using that new by blast
      then show ?thesis using other by simp
    qed
    ultimately have "solves deps ix ix0 x = solves deps ix ix1 x"
      using x by (intro solves_cong [where N = ?N]) auto
    then show ?thesis using IH(1) x by blast
  qed
  have rest: "map_of ix1 m = map_of ix m" if "m \<notin> ro_obligation_id ` set (bs @ [b])" for m
    using that other [of m] IH(2) by auto
  show ?case using here old rest by auto
qed simp

lemma solves_closed:
  assumes "graph_ok obs deps" and "b \<in> set obs" and "solves deps ix ix' b"
  shows "closed_at deps ix' b"
proof -
  obtain ds where "deps_of deps (ro_obligation_id b) = Inr ds"
    using graph_deps [OF assms(1,2)] by blast
  then show ?thesis using assms(3) by (auto simp: solves_def closed_at_def split: option.splits if_splits)
qed

lemma topological_loop_solves:
  assumes g: "graph_ok obs deps" and t: "topological obs deps"
    and l: "propagate_loop obs deps ix = Inr ix'"
  shows "\<forall>b \<in> set obs. solves deps ix ix' b"
proof -
  obtain ch ix1 where r: "propagate_round obs deps ix = Inr (ch, ix1)"
    using l by (subst (asm) propagate_loop.simps) (auto split: sum.splits)
  have "distinct (obligation_ids obs)" using g by (simp add: validate_graph_iff)
  then have s: "\<forall>b \<in> set obs. solves deps ix ix1 b"
    using topological_round [of obs obs "[]" deps ix ch ix1] t r by (simp add: propagate_round_def)
  then have "\<forall>b \<in> set obs. closed_at deps ix1 b" using solves_closed [OF g] by blast
  then have "propagate_loop obs deps ix1 = Inr ix1" by (rule closed_loop_unchanged)
  then have "ix' = ix1"
    using l r by (subst (asm) propagate_loop.simps) (auto split: if_splits)
  then show ?thesis using s by simp
qed

text \<open>
  The solution is the same from any index between the given one and the solution itself.
\<close>

lemma solution_unique:
  assumes g: "graph_ok obs deps" and t: "topological obs deps"
    and s1: "\<forall>b \<in> set obs. solves deps ix ix' b" and s2: "\<forall>b \<in> set obs. solves deps iy iy' b"
    and low: "\<And>n c. map_of ix n = Some c \<Longrightarrow> map_of iy n = Some c"
    and high: "\<And>n. n \<in> ro_obligation_id ` set obs \<Longrightarrow> map_of iy n \<in> {map_of ix n, map_of ix' n}"
  shows "n \<in> ro_obligation_id ` set obs \<Longrightarrow> map_of iy' n = map_of ix' n"
proof -
  have "obs = bs @ rest \<Longrightarrow> \<forall>n \<in> ro_obligation_id ` set bs. map_of iy' n = map_of ix' n" for bs rest
  proof (induction bs arbitrary: rest rule: rev_induct)
    case (snoc b bs)
    let ?n = "ro_obligation_id b"
    have IH: "\<forall>n \<in> ro_obligation_id ` set bs. map_of iy' n = map_of ix' n"
      using snoc.IH [of "b # rest"] snoc.prems by simp
    have b: "b \<in> set obs" using snoc.prems by simp
    obtain ds where ds: "deps_of deps ?n = Inr ds" using graph_deps [OF g b] by blast
    have "obs = bs @ b # rest" using snoc.prems by simp
    then have "set ds \<subseteq> ro_obligation_id ` set bs" using t ds unfolding topological_def by blast
    then have bl: "blocking iy' ds = blocking ix' ds" using IH by (intro blocking_cong) auto
    have e: "map_of ix' ?n = (case map_of ix ?n of Some c \<Rightarrow> Some c
        | None \<Rightarrow> if blocking ix' ds = [] then None
                  else Some (prerequisite_completion ?n (blocking ix' ds)))"
      "map_of iy' ?n = (case map_of iy ?n of Some c \<Rightarrow> Some c
        | None \<Rightarrow> if blocking ix' ds = [] then None
                  else Some (prerequisite_completion ?n (blocking ix' ds)))"
      using s1 s2 b ds bl by (simp_all add: solves_def split: option.split)
    have "map_of iy ?n \<in> {map_of ix ?n, map_of ix' ?n}" using high b by blast
    then have "map_of iy' ?n = map_of ix' ?n"
      using e low [of ?n] by (cases "map_of ix ?n"; cases "map_of iy ?n") auto
    then show ?case using IH by auto
  qed simp
  from this [of obs "[]"] show "n \<in> ro_obligation_id ` set obs \<Longrightarrow> map_of iy' n = map_of ix' n" by auto
qed

lemma propagate_stable:
  assumes t: "topological obs deps" and p: "propagate_dependency_terminals obs deps cs = Inr out"
    and sub: "set ks \<subseteq> set out" and ne: "\<forall>b \<in> set obs. nonempty (ro_obligation_id b)"
  shows "propagate_dependency_terminals obs deps (cs @ ks) = Inr out"
proof -
  obtain ix ix' where g: "graph_ok obs deps" and ix: "completion_index cs = Inr ix"
    and l: "propagate_loop obs deps ix = Inr ix'" and out: "out = completions_in_order obs ix'"
    using p by (auto simp: propagate_Inr)
  have ks: "map_of ix' (oc_obligation_id k) = Some k \<and> oc_obligation_id k \<in> ro_obligation_id ` set obs"
    if "k \<in> set ks" for k
  proof -
    have "k \<in> set out" using that sub by blast
    then obtain b where "b \<in> set obs" "map_of ix' (ro_obligation_id b) = Some k"
      unfolding out set_completions_in_order by blast
    then show ?thesis using closure_ids [OF ix l] by force
  qed
  have cs: "map_of ix' (oc_obligation_id c) = Some c" if "c \<in> set cs" for c
    using completion_index_map [OF ix] that propagate_loop_result [OF l] by (simp add: justified_def)
  have "\<forall>c \<in> set (cs @ ks). map_of ix' (oc_obligation_id c) = Some c" using ks cs by auto
  then have "\<forall>c \<in> set (cs @ ks). \<forall>c' \<in> set (cs @ ks). oc_obligation_id c = oc_obligation_id c' \<longrightarrow> c = c'"
    by (metis option.inject)
  then obtain iy where iy: "completion_index (cs @ ks) = Inr iy"
    using completion_index_total_iff by blast
  obtain iy' where l2: "propagate_loop obs deps iy = Inr iy'"
    using propagate_loop_total [OF g ne] by blast
  have low: "map_of iy n = Some c" if "map_of ix n = Some c" for n c
    using that completion_index_map [OF ix] completion_index_map [OF iy] by auto
  have high: "map_of iy n \<in> {map_of ix n, map_of ix' n}" for n
  proof (cases "map_of iy n")
    case None
    then show ?thesis using low [of n] by (cases "map_of ix n") auto
  next
    case (Some c)
    then have "c \<in> set cs \<or> c \<in> set ks" "oc_obligation_id c = n"
      using completion_index_map [OF iy] by auto
    then show ?thesis using Some ks cs by auto
  qed
  have "\<And>n. n \<in> ro_obligation_id ` set obs \<Longrightarrow> map_of iy' n = map_of ix' n"
    using solution_unique [OF g t topological_loop_solves [OF g t l] topological_loop_solves [OF g t l2]]
      low high by blast
  then have "completions_in_order obs iy' = completions_in_order obs ix'"
    by (intro completions_in_order_cong) auto
  then show ?thesis using g iy l2 out by (auto simp: propagate_Inr)
qed

text \<open>
  What closes an open obligation: a part of its failed prerequisites that holds the given ones, and
  in a topological order all of them.
\<close>

lemma propagation_inherits:
  assumes g: "graph_ok obs deps" and ix: "completion_index cs = Inr ix"
    and l: "propagate_loop obs deps ix = Inr ix'"
    and c: "map_of ix' n = Some c" and new: "c \<notin> set cs"
  shows "\<exists>B. B \<noteq> {} \<and> failed_prerequisites deps cs n \<subseteq> B \<and>
    B \<subseteq> failed_prerequisites deps (completions_in_order obs ix') n \<and>
    (topological obs deps \<longrightarrow> B = failed_prerequisites deps (completions_in_order obs ix') n) \<and>
    severity (oc_status c) = worst B"
proof -
  note j = conjunct1 [OF propagate_loop_result [OF l]]
  have None: "map_of ix n = None"
    using justified_keeps [OF j] completion_index_map [OF ix] c new by (metis not_None_eq option.inject)
  obtain ds bl where n: "n \<in> ro_obligation_id ` set obs" and ds: "deps_of deps n = Inr ds"
    and bl: "bl \<noteq> []" "set (blocking ix ds) \<subseteq> set bl" "set bl \<subseteq> set (blocking ix' ds)"
      "c = prerequisite_completion n bl"
    using j None c by (rule justified_new)
  obtain b where b: "b \<in> set obs" "n = ro_obligation_id b" using n by blast
  have "set ds \<subseteq> ro_obligation_id ` set obs" using graph_deps [OF g b(1)] ds b(2) by auto
  note fp = failed_prerequisites_given [OF ix ds] failed_prerequisites_propagated [OF ix l ds this]
  have bad: "\<forall>c \<in> set (blocking ix' ds). oc_status c \<noteq> ExecutionSucceeded" by (simp add: set_blocking)
  show ?thesis
  proof (cases "topological obs deps")
    case True
    have "solves deps ix ix' b" using topological_loop_solves [OF g True l] b(1) by blast
    then have "blocking ix' ds \<noteq> []" "c = prerequisite_completion n (blocking ix' ds)"
      using ds None c b(2) by (auto simp: solves_def split: if_splits)
    then show ?thesis
      using fp bl(2,3) inherited_severity [OF _ bad] by (intro exI [of _ "set (blocking ix' ds)"]) auto
  next
    case False
    have "severity (inherited_status bl) = worst (set bl)"
      by (rule inherited_severity) (use bl(1,3) bad in auto)
    then show ?thesis using fp bl False by (intro exI [of _ "set bl"]) auto
  qed
qed

end
