(* ===== verification/ObligationProperties.thy ===== *)
theory ObligationProperties imports ObligationOrder "HOL-Library.Sublist" begin

text \<open>
  The properties of the obligation scheduler: which graphs it accepts, what it runs and closes, that
  it never gets stuck, and what a store accepts as a completion.
\<close>

section \<open>A small schedule\<close>

definition ex_obligation :: "char \<Rightarrow> ObligationExecutionDisposition \<Rightarrow> ResolvedEvidenceObligation" where
  "ex_obligation c d = \<lparr>ro_obligation_id = ex_sha c, ro_case_id = ''case-1'', ro_frame_revision_id = ''f1'',
     ro_estimand_id = ''e1'', ro_evidence_requirement_id = ''r1'',
     ro_evidence_requirement_sha256 = ex_sha CHR ''1'', ro_evidence_type_refs = [''t1''],
     ro_resolution_outcome_id = ''o1'',
     ro_derivation_authority = \<lparr>da_case_id = ''case-1'', da_mailbox_authority_epoch = 1,
       da_question_revision_id = ''q1'', da_frame_revision_id = ''f1''\<rparr>,
     ro_execution_disposition = d,
     ro_boundary_code = (if d = DispExecutable then None else Some ''b1''),
     ro_closure_definition_sha256 = ex_sha CHR ''2'',
     ro_field_derivation_proof_sha256 = ex_sha CHR ''3'', ro_created_at = Aware 0,
     ro_schema_epoch = schema_epoch\<rparr>"

definition ex_dependency :: "char \<Rightarrow> char list \<Rightarrow> ObligationDependency" where
  "ex_dependency c ds = \<lparr>dp_obligation_id = ex_sha c, dp_depends_on = map ex_sha ds\<rparr>"

definition ex_completion :: "char \<Rightarrow> ObligationTerminalStatus \<Rightarrow> ObligationCompletion" where
  "ex_completion c st = \<lparr>oc_obligation_id = ex_sha c, oc_dispatch_id = ''d'', oc_status = st,
     oc_result_sha256 = ex_sha CHR ''0''\<rparr>"

lemma ex_obligation_fields [simp]:
  "ro_obligation_id (ex_obligation c d) = ex_sha c" "ro_execution_disposition (ex_obligation c d) = d"
  "ro_case_id (ex_obligation c d) = ''case-1''" "ro_frame_revision_id (ex_obligation c d) = ''f1''"
  by (simp_all add: ex_obligation_def)

lemma ex_completion_fields [simp]:
  "oc_obligation_id (ex_completion c st) = ex_sha c" "oc_status (ex_completion c st) = st"
  by (simp_all add: ex_completion_def)

lemma ex_dependency_fields [simp]:
  "dp_obligation_id (ex_dependency c ds) = ex_sha c" "dp_depends_on (ex_dependency c ds) = map ex_sha ds"
  by (simp_all add: ex_dependency_def)

declare sha_nonempty [simp]

text \<open>Two obligations, the first needs the second.\<close>

definition ex_pair :: obligations where
  "ex_pair = [ex_obligation CHR ''a'' DispExecutable, ex_obligation CHR ''b'' DispExecutable]"

definition ex_pair_deps :: dependencies where
  "ex_pair_deps = [ex_dependency CHR ''a'' ''b'', ex_dependency CHR ''b'' []]"

lemmas ex_pair_defs = ex_pair_def ex_pair_deps_def

lemma ex_pair_map [simp]:
  "dependency_map ex_pair_deps = [(ex_sha CHR ''a'', [ex_sha CHR ''b'']), (ex_sha CHR ''b'', [])]"
  by (simp add: dependency_map_def ex_pair_deps_def dict_of_def)

lemma ex_pair_ok [simp]: "graph_ok ex_pair ex_pair_deps"
  by (auto simp: validate_graph_def ex_pair_def assert_acyclic_def) (auto simp: ex_pair_deps_def)

lemma ex_pair_ids: "b \<in> set ex_pair \<Longrightarrow> nonempty (ro_obligation_id b)"
  by (auto simp: ex_pair_def)

lemma ex_pair_first: "\<exists>b \<in> set ex_pair. ro_obligation_id b = ex_sha CHR ''a''"
  by (simp add: ex_pair_def)

section \<open>Graphs\<close>

text \<open>
  C17: The graph check is exact.  It accepts a set of obligations and dependency records exactly when
  the obligations are unique and not empty, the records are about exactly these obligations and name
  only them, and the dependency relation has no cycle; the depth-first search always ends.
\<close>

theorem graph_accepted_iff:
  "validate_graph obs deps = Inr () \<longleftrightarrow> obs \<noteq> [] \<and> distinct (map ro_obligation_id obs) \<and>
     dp_obligation_id ` set deps = ro_obligation_id ` set obs \<and>
     (\<forall>d \<in> set deps. set (dp_depends_on d) \<subseteq> ro_obligation_id ` set obs) \<and>
     acyclic {(n, d). \<exists>ds. deps_of deps n = Inr ds \<and> d \<in> set ds}"
  using validate_graph_iff by (simp add: dependency_edges_def)

theorem graph_accepted_iff_witness:
  "acyclic {(n, d). \<exists>ds. deps_of ex_pair_deps n = Inr ds \<and> d \<in> set ds}"
  using graph_accepted_iff [of ex_pair ex_pair_deps] ex_pair_ok by simp

section \<open>Propagation\<close>

lemma propagation_dooms:
  assumes g: "graph_ok obs deps" and ix: "completion_index cs = Inr ix"
    and l: "propagate_loop obs deps ix = Inr ix'" and n: "n \<in> ro_obligation_id ` set obs"
  shows "(\<exists>c \<in> set (completions_in_order obs ix'). oc_obligation_id c = n \<and>
    oc_status c \<noteq> ExecutionSucceeded) \<longleftrightarrow> doomed deps cs n"
proof
  assume "doomed deps cs n"
  from closure_doomed [OF g ix l this n] show "\<exists>c \<in> set (completions_in_order obs ix').
      oc_obligation_id c = n \<and> oc_status c \<noteq> ExecutionSucceeded"
    using closure_ids [OF ix l] n by (force simp: set_propagated [OF ix l])
qed (use set_propagated [OF ix l] doomed_closure [OF g ix l] in blast)

text \<open>
  C10: Propagation closes exactly the obligations that cannot complete, with the status they inherit.
  On an accepted graph, with at most one completion for each obligation, it returns a list with at
  most one completion for each, where an obligation has an unsuccessful completion if and only if it
  ended without success or is open and depends, directly or not, on such a one.  The completions given
  are kept.  A completion that is new is a system completion, and its status is the most severe
  (superseded, then failed, then boundary) of a set of its unsuccessful prerequisites that holds all
  those given; when the obligations are listed after their prerequisites it is the most severe of all
  its unsuccessful prerequisites.
\<close>

theorem propagation_exact:
  assumes "validate_graph obs deps = Inr ()" and "\<forall>b \<in> set obs. nonempty (ro_obligation_id b)"
    and "\<forall>c \<in> set cs. \<forall>c' \<in> set cs. oc_obligation_id c = oc_obligation_id c' \<longrightarrow> c = c'"
  shows "\<exists>out. propagate_dependency_terminals obs deps cs = Inr out \<and>
    (\<forall>c \<in> set out. \<forall>c' \<in> set out. oc_obligation_id c = oc_obligation_id c' \<longrightarrow> c = c') \<and>
    (\<forall>b \<in> set obs. (\<exists>c \<in> set out. oc_obligation_id c = ro_obligation_id b \<and>
        oc_status c \<noteq> ExecutionSucceeded) \<longleftrightarrow> doomed deps cs (ro_obligation_id b)) \<and>
    {c \<in> set cs. oc_obligation_id c \<in> ro_obligation_id ` set obs} \<subseteq> set out \<and>
    {c \<in> set out. oc_status c = ExecutionSucceeded} \<subseteq> set cs \<and>
    (\<forall>c \<in> set out - set cs.
       oc_dispatch_id c = ''system-prerequisite:'' @ oc_obligation_id c \<and>
       (\<exists>B. B \<noteq> {} \<and> failed_prerequisites deps cs (oc_obligation_id c) \<subseteq> B \<and>
          B \<subseteq> failed_prerequisites deps out (oc_obligation_id c) \<and>
          (topological obs deps \<longrightarrow> B = failed_prerequisites deps out (oc_obligation_id c)) \<and>
          severity (oc_status c) = worst B))"
proof -
  obtain ix where ix: "completion_index cs = Inr ix" using completion_index_total_iff assms(3) by blast
  obtain ix' where l: "propagate_loop obs deps ix = Inr ix'"
    using propagate_loop_total [OF assms(1,2)] by blast
  note j = conjunct1 [OF propagate_loop_result [OF l]] and out = set_propagated [OF ix l]
  let ?out = "completions_in_order obs ix'"
  have p: "propagate_dependency_terminals obs deps cs = Inr ?out"
    using assms(1) ix l by (auto simp: propagate_Inr)
  have "map_of ix' (oc_obligation_id c) = Some c" if "c \<in> set cs" for c
    using that justified_keeps [OF j] completion_index_map [OF ix] by simp
  then have kept: "{c \<in> set cs. oc_obligation_id c \<in> ro_obligation_id ` set obs} \<subseteq> set ?out"
    using out by blast
  have new: "map_of ix (oc_obligation_id c) = None" if "c \<in> set ?out - set cs" for c
  proof (cases "map_of ix (oc_obligation_id c)")
    case (Some e)
    then have "e = c" using justified_keeps [OF j Some] that out [of c] by simp
    then show ?thesis using that Some completion_index_map [OF ix] by blast
  qed
  have step: "oc_status c \<noteq> ExecutionSucceeded \<and>
      oc_dispatch_id c = ''system-prerequisite:'' @ oc_obligation_id c" if "c \<in> set ?out - set cs" for c
    by (rule justified_new [OF j new [OF that]]) (use that out in auto)
  show ?thesis
    using p kept step propagation_dooms [OF assms(1) ix l] propagation_inherits [OF assms(1) ix l]
    by (intro exI [of _ ?out] conjI) (auto simp: out)
qed

theorem propagation_exact_witness:
  "\<exists>out. propagate_dependency_terminals ex_pair ex_pair_deps [ex_completion CHR ''b'' ObligationFailed] = Inr out \<and>
     (\<exists>c \<in> set out. oc_obligation_id c = ex_sha CHR ''a'' \<and> oc_status c = ObligationFailed)"
proof -
  let ?b = "ex_completion CHR ''b'' ObligationFailed"
  have "doomed ex_pair_deps [?b] (ex_sha CHR ''b'')" by (rule doomed.ended [of ?b]) simp_all
  then have d: "doomed ex_pair_deps [?b] (ex_sha CHR ''a'')"
    by (rule doomed.blocked [rotated 2]) (simp_all add: dependency_edges_def deps_of_Inr)
  obtain b where b: "b \<in> set ex_pair" "ro_obligation_id b = ex_sha CHR ''a''"
    using ex_pair_first by blast
  have one: "\<forall>c \<in> set [?b]. \<forall>c' \<in> set [?b]. oc_obligation_id c = oc_obligation_id c' \<longrightarrow> c = c'" by simp
  have "\<forall>b \<in> set ex_pair. nonempty (ro_obligation_id b)" using ex_pair_ids by blast
  note exact = propagation_exact [OF ex_pair_ok this one]
  obtain out where p: "propagate_dependency_terminals ex_pair ex_pair_deps [?b] = Inr out"
    and u: "\<forall>c \<in> set out. \<forall>c' \<in> set out. oc_obligation_id c = oc_obligation_id c' \<longrightarrow> c = c'"
    and x: "\<forall>b \<in> set ex_pair. (\<exists>c \<in> set out. oc_obligation_id c = ro_obligation_id b \<and>
        oc_status c \<noteq> ExecutionSucceeded) \<longleftrightarrow> doomed ex_pair_deps [?b] (ro_obligation_id b)"
    and k: "{c \<in> set [?b]. oc_obligation_id c \<in> ro_obligation_id ` set ex_pair} \<subseteq> set out"
    and n: "\<forall>c \<in> set out - set [?b].
       oc_dispatch_id c = ''system-prerequisite:'' @ oc_obligation_id c \<and>
       (\<exists>B. B \<noteq> {} \<and> failed_prerequisites ex_pair_deps [?b] (oc_obligation_id c) \<subseteq> B \<and>
          B \<subseteq> failed_prerequisites ex_pair_deps out (oc_obligation_id c) \<and>
          (topological ex_pair ex_pair_deps \<longrightarrow>
             B = failed_prerequisites ex_pair_deps out (oc_obligation_id c)) \<and>
          severity (oc_status c) = worst B)"
    using exact by (elim exE conjE) (rule that)
  have k: "?b \<in> set out" using k by (auto simp: ex_pair_def)
  have e: "\<exists>c \<in> set out. oc_obligation_id c = ex_sha CHR ''a'' \<and> oc_status c \<noteq> ExecutionSucceeded"
    using x b d by metis
  obtain c where c: "c \<in> set out" "oc_obligation_id c = ex_sha CHR ''a''" using e by blast
  then have "c \<in> set out - set [?b]" by auto
  from n [THEN bspec, OF this] obtain B where B: "B \<noteq> {}"
      "B \<subseteq> failed_prerequisites ex_pair_deps out (ex_sha CHR ''a'')" "severity (oc_status c) = worst B"
    unfolding c(2) by blast
  have "x \<in> set out \<and> oc_obligation_id x = oc_obligation_id ?b" if "x \<in> B" for x
    using subsetD [OF B(2) that] by (simp add: failed_prerequisites_def dependency_edges_def deps_of_Inr)
  then have "B \<subseteq> {?b}" using u k by blast
  then have "B = {?b}" using B(1) by blast
  then have "severity (oc_status c) = severity ObligationFailed" using B(3) by (simp add: worst_def)
  then have "oc_status c = ObligationFailed" by (rule severity_inject [THEN iffD1])
  then show ?thesis using p c by blast
qed

section \<open>Recomputing a propagation\<close>

lemma propagated_facts:
  assumes "propagate_dependency_terminals obs deps cs = Inr out"
  obtains ix ix' iy where "graph_ok obs deps" and "completion_index cs = Inr ix"
    and "propagate_loop obs deps ix = Inr ix'" and "out = completions_in_order obs ix'"
    and "completion_index out = Inr iy"
    and "\<And>n. map_of iy n = (if n \<in> ro_obligation_id ` set obs then map_of ix' n else None)"
    and "\<forall>b \<in> set obs. closed_at deps iy b"
proof -
  obtain ix ix' where g: "graph_ok obs deps" and ix: "completion_index cs = Inr ix"
    and l: "propagate_loop obs deps ix = Inr ix'" and out: "out = completions_in_order obs ix'"
    using assms by (auto simp: propagate_Inr)
  have el: "c \<in> set out \<longleftrightarrow> (\<exists>b \<in> set obs. map_of ix' (ro_obligation_id b) = Some c)" for c
    by (simp add: out set_completions_in_order)
  have own: "map_of ix' n = Some c \<Longrightarrow> oc_obligation_id c = n" for n c
    by (rule closure_ids [OF ix l])
  have own_out: "map_of ix' (oc_obligation_id c) = Some c" if "c \<in> set out" for c
    using that own unfolding el by metis
  have "\<forall>c \<in> set out. \<forall>c' \<in> set out. oc_obligation_id c = oc_obligation_id c' \<longrightarrow> c = c'"
    using own_out by (metis option.inject)
  then obtain iy where iy: "completion_index out = Inr iy" using completion_index_total_iff by blast
  have my: "map_of iy n = (if n \<in> ro_obligation_id ` set obs then map_of ix' n else None)" for n
  proof (cases "n \<in> ro_obligation_id ` set obs")
    case True
    have "map_of iy n = Some c \<longleftrightarrow> map_of ix' n = Some c" for c
      using completion_index_map [OF iy, of n c] el own own_out True by (metis imageE)
    then show ?thesis using True by (metis not_Some_eq)
  next
    case False
    have "map_of iy n \<noteq> Some c" for c
      using completion_index_map [OF iy, of n c] el own False by (metis imageI)
    then show ?thesis using False by (cases "map_of iy n") auto
  qed
  have "closed_at deps iy b" if b: "b \<in> set obs" for b
  proof -
    obtain ds where ds: "deps_of deps (ro_obligation_id b) = Inr ds" "set ds \<subseteq> ro_obligation_id ` set obs"
      using graph_deps [OF g b] by blast
    have "blocking iy ds = blocking ix' ds" using ds(2) my by (intro blocking_cong) auto
    moreover have "closed_at deps ix' b" using propagate_loop_result [OF l] b by blast
    ultimately show ?thesis using b ds(1) my by (auto simp: closed_at_def)
  qed
  then show thesis using that g ix l out iy my by blast
qed

text \<open>Propagation is idempotent: propagating its own result changes nothing.\<close>

theorem propagation_idempotent:
  assumes "propagate_dependency_terminals obs deps cs = Inr out"
  shows "propagate_dependency_terminals obs deps out = Inr out"
  using assms
proof (rule propagated_facts)
  fix ix ix' iy
  assume g: "graph_ok obs deps" and out: "out = completions_in_order obs ix'"
    and iy: "completion_index out = Inr iy" and cl: "\<forall>b \<in> set obs. closed_at deps iy b"
    and my: "\<And>n. map_of iy n = (if n \<in> ro_obligation_id ` set obs then map_of ix' n else None)"
  have "completions_in_order obs iy = out"
    unfolding out using my by (intro completions_in_order_cong) auto
  then show ?thesis using g iy closed_loop_unchanged [OF cl] by (auto simp: propagate_Inr)
qed

theorem propagation_idempotent_witness:
  "\<exists>out. propagate_dependency_terminals ex_pair ex_pair_deps [ex_completion CHR ''b'' TypedBoundary] = Inr out \<and>
     propagate_dependency_terminals ex_pair ex_pair_deps out = Inr out"
proof -
  obtain ix where ix: "completion_index [ex_completion CHR ''b'' TypedBoundary] = Inr ix"
    by (simp add: completion_index_def add_completion_def)
  obtain ix' where "propagate_loop ex_pair ex_pair_deps ix = Inr ix'"
    using propagate_loop_total [OF ex_pair_ok] ex_pair_ids by blast
  with ix have "propagate_dependency_terminals ex_pair ex_pair_deps
      [ex_completion CHR ''b'' TypedBoundary] = Inr (completions_in_order ex_pair ix')"
    by (auto simp: propagate_Inr)
  with propagation_idempotent [OF this] show ?thesis by blast
qed

section \<open>Runnable obligations\<close>

lemma runnable_value:
  assumes "graph_ok obs deps" and "b \<in> set obs"
  shows "runnable deps ix b = Inr (map_of ix (ro_obligation_id b) = None \<and>
    ro_execution_disposition b = DispExecutable \<and>
    (\<forall>d. (ro_obligation_id b, d) \<in> dependency_edges deps \<longrightarrow> succeeded ix d))"
proof -
  obtain ds where "deps_of deps (ro_obligation_id b) = Inr ds" using graph_deps [OF assms] by blast
  then show ?thesis by (auto simp: runnable_def dependency_edges_def list_all_iff)
qed

lemma filterR_total: "(\<And>x. x \<in> set xs \<Longrightarrow> p x = Inr (q x)) \<Longrightarrow> filterR p xs = Inr (filter q xs)"
  by (induction xs) auto

definition completed :: "completions \<Rightarrow> string \<Rightarrow> bool" where
  "completed cs n \<longleftrightarrow> (\<exists>c \<in> set cs. oc_obligation_id c = n)"

definition completed_ok :: "completions \<Rightarrow> string \<Rightarrow> bool" where
  "completed_ok cs n \<longleftrightarrow> (\<exists>c \<in> set cs. oc_obligation_id c = n \<and> oc_status c = ExecutionSucceeded)"

lemma succeeded_iff:
  assumes "completion_index cs = Inr ix"
  shows "succeeded ix n \<longleftrightarrow> completed_ok cs n"
proof (cases "map_of ix n")
  case None
  then have "\<forall>c \<in> set cs. oc_obligation_id c \<noteq> n" using index_None [OF assms] by simp
  then show ?thesis using None by (auto simp: succeeded_def completed_ok_def)
next
  case (Some c)
  then have "c \<in> set cs" "oc_obligation_id c = n" using completion_index_map [OF assms] by simp_all
  moreover have "d = c" if "d \<in> set cs" "oc_obligation_id d = n" for d
    using completion_index_map [OF assms, of n d] that Some by simp
  ultimately have "completed_ok cs n \<longleftrightarrow> oc_status c = ExecutionSucceeded"
    unfolding completed_ok_def by blast
  then show ?thesis using Some by (simp add: succeeded_def)
qed

lemma select_value:
  assumes "graph_ok obs deps" and "completion_index cs = Inr ix"
    and "\<forall>b \<in> set obs. ro_case_id b = au_case_id a \<and> Some (ro_frame_revision_id b) = au_frame_revision_id a"
  shows "select_runnable_obligations obs deps cs a =
    Inr (filter (\<lambda>b. \<not> completed cs (ro_obligation_id b) \<and> ro_execution_disposition b = DispExecutable \<and>
      (\<forall>d. (ro_obligation_id b, d) \<in> dependency_edges deps \<longrightarrow> completed_ok cs d)) obs)"
proof -
  have "map_of ix n = None \<longleftrightarrow> \<not> completed cs n" for n
    using index_None [OF assms(2)] by (auto simp: completed_def)
  then have "filterR (runnable deps ix) obs = Inr (filter (\<lambda>b. \<not> completed cs (ro_obligation_id b) \<and>
      ro_execution_disposition b = DispExecutable \<and>
      (\<forall>d. (ro_obligation_id b, d) \<in> dependency_edges deps \<longrightarrow> completed_ok cs d)) obs)"
    using runnable_value [OF assms(1)] succeeded_iff [OF assms(2)] by (intro filterR_total) simp
  then show ?thesis using assms by (auto simp: select_runnable_obligations_def)
qed

text \<open>
  Selection is exact and safe.  On a graph of the accepted authority it returns, in order and
  without repetition, precisely the executable obligations that are still open and whose every
  direct dependency has succeeded.
\<close>

theorem selection_exact:
  assumes "select_runnable_obligations obs deps cs a = Inr rs"
  shows "distinct (map ro_obligation_id rs) \<and> subseq rs obs \<and>
    (\<forall>b. b \<in> set rs \<longleftrightarrow> b \<in> set obs \<and> ro_execution_disposition b = DispExecutable \<and>
       \<not> completed cs (ro_obligation_id b) \<and>
       (\<forall>d. (ro_obligation_id b, d) \<in> dependency_edges deps \<longrightarrow> completed_ok cs d))"
proof -
  obtain ix where g: "graph_ok obs deps" and ix: "completion_index cs = Inr ix"
    and a: "\<forall>b \<in> set obs. ro_case_id b = au_case_id a \<and> Some (ro_frame_revision_id b) = au_frame_revision_id a"
    using assms by (auto simp: select_runnable_obligations_def result_simps split: if_splits)
  have "distinct (map ro_obligation_id obs)" using g by (simp add: validate_graph_iff)
  then have "distinct (map ro_obligation_id (filter p obs))" for p
    by (simp add: distinct_map inj_on_subset [of ro_obligation_id "set obs"])
  then show ?thesis using select_value [OF g ix a] assms by auto
qed

definition ex_authority :: AuthoritySnapshot where
  "ex_authority = \<lparr>au_case_id = ''case-1'', au_head_version = 1, au_mailbox_authority_epoch = 1,
     au_question_revision_id = Some ''q1'', au_frame_revision_id = Some ''f1'',
     au_plan_revision_id = Some ''p1'', au_candidate_generation = 0, au_candidate_sha256 = None,
     au_obligation_state_version = 0, au_evidence_admission_state_version = 0,
     au_contradiction_state_version = 0\<rparr>"

lemma ex_pair_authority:
  "\<forall>b \<in> set ex_pair. ro_case_id b = au_case_id ex_authority \<and>
     Some (ro_frame_revision_id b) = au_frame_revision_id ex_authority"
  by (simp add: ex_pair_def ex_authority_def)

lemma ex_pair_edges: "dependency_edges ex_pair_deps = {(ex_sha CHR ''a'', ex_sha CHR ''b'')}"
  by (auto simp: dependency_edges_def deps_of_Inr split: if_splits)

theorem selection_exact_witness:
  "\<exists>rs. select_runnable_obligations ex_pair ex_pair_deps [] ex_authority = Inr rs \<and>
     ex_obligation CHR ''b'' DispExecutable \<in> set rs \<and> ex_obligation CHR ''a'' DispExecutable \<notin> set rs"
proof -
  have "completion_index [] = Inr []" by (simp add: completion_index_def)
  then obtain rs where rs: "select_runnable_obligations ex_pair ex_pair_deps [] ex_authority = Inr rs"
    using select_value [OF ex_pair_ok _ ex_pair_authority] by blast
  then show ?thesis
    using selection_exact [OF rs] by (simp add: ex_pair_edges completed_def completed_ok_def) (simp add: ex_pair_def)
qed

text \<open>
  C11: The scheduler never gets stuck.  Take the completions propagation returns and an authority the
  obligations agree with.  If every obligation that is not executable has its terminal completion and
  some obligation is open, the selection returns and some obligation is runnable.
\<close>

theorem scheduler_progress:
  assumes "propagate_dependency_terminals obs deps prior = Inr cs"
    and "\<forall>b \<in> set obs. ro_case_id b = au_case_id a \<and> Some (ro_frame_revision_id b) = au_frame_revision_id a"
    and "\<forall>b \<in> set obs. ro_execution_disposition b \<noteq> DispExecutable \<longrightarrow> completed cs (ro_obligation_id b)"
    and "\<exists>b \<in> set obs. \<not> completed cs (ro_obligation_id b)"
  shows "\<exists>rs. select_runnable_obligations obs deps cs a = Inr rs \<and> rs \<noteq> []"
proof -
  obtain iy where g: "graph_ok obs deps" and iy: "completion_index cs = Inr iy"
    and cl: "\<forall>b \<in> set obs. closed_at deps iy b"
    using assms(1) by (rule propagated_facts)
  let ?run = "\<lambda>b. \<not> completed cs (ro_obligation_id b) \<and> ro_execution_disposition b = DispExecutable \<and>
      (\<forall>d. (ro_obligation_id b, d) \<in> dependency_edges deps \<longrightarrow> completed_ok cs d)"
  have none: "map_of iy n = None \<longleftrightarrow> \<not> completed cs n" for n
    using index_None [OF iy] by (auto simp: completed_def)
  have ac: "acyclic (edges_of (dependency_map deps))"
    using g by (simp add: validate_graph_iff dependency_edges_eq)
  have step: "\<forall>b \<in> set obs. ro_obligation_id b = n \<longrightarrow> \<not> completed cs n \<longrightarrow> (\<exists>x \<in> set obs. ?run x)" for n
  proof (induction n rule: acyclic_edges_induct [OF ac])
    case (1 n)
    show ?case
    proof (intro ballI impI)
      fix b assume b: "b \<in> set obs" and n: "ro_obligation_id b = n" and "\<not> completed cs n"
      then have nc: "\<not> completed cs (ro_obligation_id b)" by simp
      obtain ds where ds: "deps_of deps (ro_obligation_id b) = Inr ds"
        "set ds \<subseteq> ro_obligation_id ` set obs" using graph_deps [OF g b] by blast
      show "\<exists>x \<in> set obs. ?run x"
      proof (cases "\<exists>d \<in> set ds. \<not> completed cs d")
        case True
        then obtain x where x: "x \<in> set obs" "ro_obligation_id x \<in> set ds"
          "\<not> completed cs (ro_obligation_id x)" using ds(2) by blast
        have "(n, ro_obligation_id x) \<in> edges_of (dependency_map deps)"
          using ds(1) x(2) n by (auto simp: edges_of_def deps_of_Inr)
        then show ?thesis using 1 x by blast
      next
        case False
        have "closed_at deps iy b" using cl b by blast
        then have "blocking iy ds = []" using ds(1) nc none by (auto simp: closed_at_def)
        then have "\<forall>d \<in> set ds. succeeded iy d"
          using False none by (fastforce simp: blocking_Nil succeeded_def split: option.splits)
        then have "\<forall>d. (ro_obligation_id b, d) \<in> dependency_edges deps \<longrightarrow> completed_ok cs d"
          using ds(1) succeeded_iff [OF iy] by (auto simp: dependency_edges_def)
        then show ?thesis using b nc assms(3) by blast
      qed
    qed
  qed
  have "\<exists>x \<in> set obs. ?run x" using assms(4) step by blast
  then have "filter ?run obs \<noteq> []" unfolding filter_empty_conv by blast
  then show ?thesis using select_value [OF g iy assms(2)] by blast
qed

lemma ex_pair_open: "propagate_dependency_terminals ex_pair ex_pair_deps [] = Inr []"
proof -
  have "\<forall>b \<in> set ex_pair. closed_at ex_pair_deps [] b"
    by (auto simp: ex_pair_def closed_at_def deps_of_Inr blocking_def)
  then have "propagate_loop ex_pair ex_pair_deps [] = Inr []" by (rule closed_loop_unchanged)
  then show ?thesis
    by (simp add: propagate_dependency_terminals_def completion_index_def)
      (simp add: completions_in_order_def ex_pair_def)
qed

theorem scheduler_progress_witness:
  "\<exists>rs. select_runnable_obligations ex_pair ex_pair_deps [] ex_authority = Inr rs \<and> rs \<noteq> []"
proof (rule scheduler_progress [OF ex_pair_open ex_pair_authority])
  show "\<forall>b \<in> set ex_pair. ro_execution_disposition b \<noteq> DispExecutable \<longrightarrow> completed [] (ro_obligation_id b)"
    by (simp add: ex_pair_def)
  show "\<exists>b \<in> set ex_pair. \<not> completed [] (ro_obligation_id b)"
    using ex_pair_first by (auto simp: completed_def)
qed

end
