(* ===== verification/ObligationPersistence.thy ===== *)
theory ObligationPersistence imports ObligationProperties begin

text \<open>
  What \<open>validate_persisted_obligation_completion\<close> lets into a store: success only for dispatched
  work, and every propagated completion when the obligations are in a topological order.  In another
  order a propagated completion can be refused (\<open>propagation_can_be_refused\<close>): the result of
  \<open>propagate_dependency_terminals\<close> depends on the order, while \<open>controller/obligation_runtime.py\<close> stores
  it one completion at a time and the store recomputes it each time.
\<close>

section \<open>Persisting completions\<close>

lemma filtered_find:
  assumes "\<And>x y. x \<in> set xs \<Longrightarrow> y \<in> set xs \<Longrightarrow> f x = f y \<Longrightarrow> x = y" and "c \<in> set xs" and "p c"
  shows "List.find (\<lambda>x. f x = f c \<and> p x) xs = Some c"
proof -
  obtain y where y: "List.find (\<lambda>x. f x = f c \<and> p x) xs = Some y"
    using assms(2,3) by (cases "List.find (\<lambda>x. f x = f c \<and> p x) xs") (auto simp: find_None_iff)
  then have "y \<in> set xs" "f y = f c" by (auto simp: find_Some_iff)
  then show ?thesis using y assms(1,2) by metis
qed

lemma propagated_new:
  assumes "propagate_dependency_terminals obs deps cs = Inr out" and "c \<in> set out"
    and "oc_obligation_id c \<notin> set (map oc_obligation_id cs)"
  shows "oc_dispatch_id c = ''system-prerequisite:'' @ oc_obligation_id c"
    and "oc_status c \<noteq> ExecutionSucceeded" and "\<exists>b \<in> set obs. ro_obligation_id b = oc_obligation_id c"
proof -
  obtain ix ix' where ix: "completion_index cs = Inr ix" and l: "propagate_loop obs deps ix = Inr ix'"
    and out: "out = completions_in_order obs ix'" using assms(1) by (auto simp: propagate_Inr)
  obtain b where b: "b \<in> set obs" "map_of ix' (ro_obligation_id b) = Some c"
    using assms(2) unfolding out set_completions_in_order by blast
  then have i: "oc_obligation_id c = ro_obligation_id b" using closure_ids [OF ix l] by simp
  have "\<forall>k \<in> set cs. oc_obligation_id k \<noteq> ro_obligation_id b"
    using assms(3) unfolding i set_map by (metis image_eqI)
  then have n: "map_of ix (ro_obligation_id b) = None" using index_None [OF ix] by simp
  note j = conjunct1 [OF propagate_loop_result [OF l]]
  from j n b(2) show "oc_status c \<noteq> ExecutionSucceeded" by (rule justified_new_status)
  from j n b(2) show "oc_dispatch_id c = ''system-prerequisite:'' @ oc_obligation_id c"
    by (rule justified_new) simp
  show "\<exists>b \<in> set obs. ro_obligation_id b = oc_obligation_id c" using b(1) i by auto
qed

lemma propagated_unique:
  assumes "propagate_dependency_terminals obs deps cs = Inr out"
    and "x \<in> set out" and "y \<in> set out" and "oc_obligation_id x = oc_obligation_id y"
  shows "x = y"
  using assms(1)
proof (rule propagated_facts)
  fix iy assume "completion_index out = Inr iy"
  then show ?thesis using completion_index_total_iff [of out] assms(2-4) by blast
qed

lemma success_dispatch:
  assumes "validate_persisted_obligation_completion s c prior d a = Inr ()"
    and "oc_status c = ExecutionSucceeded"
  shows "\<exists>d' b. d = Some d' \<and> di_dispatch_id d' = oc_dispatch_id c \<and>
    di_obligation_id d' = oc_obligation_id c \<and> b \<in> set (os_obligations s) \<and>
    ro_obligation_id b = oc_obligation_id c \<and> ro_execution_disposition b = DispExecutable \<and>
    di_definition_sha256 d' = obligation_sha256 b"
proof -
  obtain b where b: "List.find (\<lambda>b. ro_obligation_id b = oc_obligation_id c) (os_obligations s) = Some b"
    using assms(1)
    by (auto simp: validate_persisted_obligation_completion_def split: option.splits)
  then have b2: "b \<in> set (os_obligations s)" "ro_obligation_id b = oc_obligation_id c"
    by (auto simp: find_Some_iff)
  note v = assms(1) [unfolded validate_persisted_obligation_completion_def b option.case]
  have t: "\<not> starts_with (oc_dispatch_id c) ''system-terminal:''"
    using v assms(2) by (auto simp: result_simps system_terminal_completion_def split: if_splits)
  have p: "\<not> starts_with (oc_dispatch_id c) ''system-prerequisite:''"
  proof
    assume p: "starts_with (oc_dispatch_id c) ''system-prerequisite:''"
    then obtain out where out: "propagate_dependency_terminals (os_obligations s) (os_dependencies s) prior = Inr out"
      "List.find (\<lambda>x. oc_obligation_id x = oc_obligation_id c \<and>
         oc_obligation_id x \<notin> set (map oc_obligation_id prior)) out = Some c"
      using v t by (auto simp: result_simps)
    then have "c \<in> set out" "oc_obligation_id c \<notin> set (map oc_obligation_id prior)"
      by (auto simp: find_Some_iff)
    then show False using propagated_new(2) [OF out(1)] assms(2) by blast
  qed
  show ?thesis using v t p assms(2) b2 by (auto split: option.splits)
qed

text \<open>
  C18: Only dispatched work can succeed.  When the store accepts a completion with success, there is
  a durable dispatch with the same id, for the same obligation of the schedule, whose definition
  digest is that of the obligation, and the obligation is executable.
\<close>

theorem success_needs_dispatch:
  assumes "validate_persisted_obligation_completion s c prior d a = Inr ()"
    and "oc_status c = ExecutionSucceeded"
  shows "\<exists>d' b. d = Some d' \<and> di_dispatch_id d' = oc_dispatch_id c \<and>
    di_obligation_id d' = oc_obligation_id c \<and> b \<in> set (os_obligations s) \<and>
    ro_obligation_id b = oc_obligation_id c \<and> ro_execution_disposition b = DispExecutable \<and>
    di_definition_sha256 d' = obligation_sha256 b"
  by (rule success_dispatch [OF assms])

definition ex_schedule :: "obligations \<Rightarrow> dependencies \<Rightarrow> ObligationScheduleRecord" where
  "ex_schedule obs deps = \<lparr>os_schedule_id = ''s1'', os_case_id = ''case-1'', os_correlation_id = ''r1'',
     os_frame_revision_id = ''f1'', os_plan_revision_id = ''p1'', os_plan_adoption_id = ex_sha CHR ''4'',
     os_plan_adoption_content_sha256 = ex_sha CHR ''5'', os_obligations = obs,
     os_plan_bindings = map (\<lambda>b. \<lparr>pb_obligation_id = ro_obligation_id b, pb_task_id = ex_sha CHR ''6'',
        pb_query_binding_id = (if ro_execution_disposition b = DispExecutable
                               then Some (ex_sha CHR ''7'') else None)\<rparr>) obs,
     os_dependencies = deps, os_authority_snapshot = ex_authority,
     os_authority_snapshot_sha256 = authority_sha256 ex_authority, os_created_at = Aware 0\<rparr>"

lemma ex_schedule_fields [simp]:
  "os_obligations (ex_schedule obs deps) = obs" "os_dependencies (ex_schedule obs deps) = deps"
  "os_authority_snapshot (ex_schedule obs deps) = ex_authority"
  by (simp_all add: ex_schedule_def)

lemma ex_schedule_ok:
  assumes "graph_ok obs deps" and "\<forall>b \<in> set obs. \<exists>c d. b = ex_obligation c d"
  shows "check_schedule (ex_schedule obs deps) = Inr ()"
proof -
  have "obs \<noteq> []" "distinct (obligation_ids obs)" using assms(1) by (simp_all add: validate_graph_iff)
  moreover have "ro_case_id b = ''case-1'' \<and> ro_frame_revision_id b = ''f1''" if "b \<in> set obs" for b
    using assms(2) that by auto
  moreover have "p = q" if "p \<in> set obs" "q \<in> set obs" "ro_obligation_id p = ro_obligation_id q" for p q
    using \<open>distinct (obligation_ids obs)\<close> that by (auto simp: distinct_map inj_on_def)
  moreover have "nonempty ''s1''" "nonempty ''case-1''" "nonempty ''r1''" "nonempty ''f1''" "nonempty ''p1''"
    by (simp_all add: nonempty_def blank_def)
  ultimately show ?thesis
    using assms(1) by (auto simp: check_schedule_def ex_schedule_def ex_authority_def comp_def image_image)
qed

definition ex_dispatch :: ObligationDispatch where
  "ex_dispatch = \<lparr>di_dispatch_id = ex_sha CHR ''8'', di_obligation_id = ex_sha CHR ''b'',
     di_plan_revision_id = ''p1'', di_task_id = ex_sha CHR ''6'', di_query_binding_id = ex_sha CHR ''7'',
     di_definition_sha256 = obligation_sha256 (ex_obligation CHR ''b'' DispExecutable),
     di_authority_snapshot = ex_authority, di_authority_snapshot_sha256 = authority_sha256 ex_authority\<rparr>"

definition ex_success :: ObligationCompletion where
  "ex_success = \<lparr>oc_obligation_id = ex_sha CHR ''b'', oc_dispatch_id = ex_sha CHR ''8'',
     oc_status = ExecutionSucceeded, oc_result_sha256 = ex_sha CHR ''0''\<rparr>"

theorem success_needs_dispatch_witness:
  "validate_persisted_obligation_completion (ex_schedule ex_pair ex_pair_deps) ex_success []
     (Some ex_dispatch) ex_authority = Inr () \<and> di_obligation_id ex_dispatch = ex_sha CHR ''b''"
proof -
  have "validate_persisted_obligation_completion (ex_schedule ex_pair ex_pair_deps) ex_success []
     (Some ex_dispatch) ex_authority = Inr ()"
    by (simp add: validate_persisted_obligation_completion_def ex_pair_def ex_success_def
        ex_dispatch_def starts_with_def ex_sha_def)
  from success_needs_dispatch [OF this] this show ?thesis by (simp add: ex_success_def)
qed

text \<open>
  C19: In a topological order propagation can be stored piecewise.  If every obligation comes after
  the ones it depends on, then however many of the propagated completions have been stored already,
  in whatever order, the store accepts each of the others.
\<close>

theorem propagation_stored_piecewise:
  assumes "topological (os_obligations s) (os_dependencies s)"
    and "propagate_dependency_terminals (os_obligations s) (os_dependencies s) cs = Inr out"
    and "\<forall>b \<in> set (os_obligations s). nonempty (ro_obligation_id b)"
    and "set ks \<subseteq> set out" and "c \<in> set out" and "c \<notin> set (cs @ ks)"
  shows "validate_persisted_obligation_completion s c (cs @ ks) d a = Inr ()"
proof -
  note stable = propagate_stable [OF assms(1,2,4,3)]
  have fresh: "oc_obligation_id c \<notin> set (map oc_obligation_id (cs @ ks))"
  proof
    assume "oc_obligation_id c \<in> set (map oc_obligation_id (cs @ ks))"
    then obtain k where k: "k \<in> set (cs @ ks)" "oc_obligation_id k = oc_obligation_id c"
      unfolding set_map by (metis imageE)
    obtain ix where ix: "completion_index (cs @ ks) = Inr ix" using stable by (auto simp: propagate_Inr)
    obtain ix' where l: "propagate_loop (os_obligations s) (os_dependencies s) ix = Inr ix'"
      "out = completions_in_order (os_obligations s) ix'"
      using stable ix by (auto simp: propagate_Inr)
    have "map_of ix (oc_obligation_id c) = Some k" using completion_index_map [OF ix] k by simp
    then have "map_of ix' (oc_obligation_id c) = Some k"
      using justified_keeps conjunct1 [OF propagate_loop_result [OF l(1)]] by blast
    moreover obtain b where "b \<in> set (os_obligations s)" "map_of ix' (ro_obligation_id b) = Some c"
      using assms(5) unfolding l(2) set_completions_in_order by blast
    then have "map_of ix' (oc_obligation_id c) = Some c" using closure_ids [OF ix l(1)] by metis
    ultimately have "k = c" by simp
    then show False using k(1) assms(6) by simp
  qed
  note new = propagated_new [OF stable assms(5) fresh]
  obtain b where b: "List.find (\<lambda>b. ro_obligation_id b = oc_obligation_id c) (os_obligations s) = Some b"
    using new(3) by (cases "List.find (\<lambda>b. ro_obligation_id b = oc_obligation_id c) (os_obligations s)")
      (auto simp: find_None_iff)
  have "List.find (\<lambda>x. oc_obligation_id x = oc_obligation_id c \<and>
      oc_obligation_id x \<notin> set (map oc_obligation_id (cs @ ks))) out = Some c"
    using propagated_unique [OF stable] assms(5) fresh by (intro filtered_find) auto
  then show ?thesis
    using b new(1) stable
    by (simp add: validate_persisted_obligation_completion_def starts_with_def del: set_map)
qed

lemma ex_terminal_fields [simp]:
  "oc_obligation_id (system_terminal_completion (ex_obligation c d)) = ex_sha c"
  "oc_status (system_terminal_completion (ex_obligation c d)) =
     (if d = DispTypedBoundary then TypedBoundary else ObligationFailed)"
  "oc_dispatch_id (system_terminal_completion (ex_obligation c d)) = ''system-terminal:'' @ ex_sha c"
  by (simp_all add: system_terminal_completion_def)

text \<open>The pair again, in the order that has the dependency first.\<close>

definition ex_sorted :: obligations where
  "ex_sorted = [ex_obligation CHR ''b'' DispExecutable, ex_obligation CHR ''a'' DispExecutable]"

lemma ex_sorted_ok [simp]: "graph_ok ex_sorted ex_pair_deps"
  by (auto simp: validate_graph_def ex_sorted_def assert_acyclic_def) (auto simp: ex_pair_deps_def)

lemma ex_sorted_topological: "topological ex_sorted ex_pair_deps"
  unfolding topological_def
proof (intro allI impI)
  fix bs b rest ds
  assume "ex_sorted = bs @ b # rest" and "deps_of ex_pair_deps (ro_obligation_id b) = Inr ds"
  then show "set ds \<subseteq> ro_obligation_id ` set bs"
    by (cases bs; cases "tl bs") (auto simp: ex_sorted_def deps_of_Inr Cons_eq_append_conv)
qed

text \<open>Running the loop on concrete obligations, one round at a time.\<close>

lemma loop_changed:
  "propagate_round obs deps ix = Inr (True, ix1) \<Longrightarrow> propagate_loop obs deps ix = propagate_loop obs deps ix1"
  by (subst propagate_loop.simps) simp

lemma loop_done: "propagate_round obs deps ix = Inr (False, ix1) \<Longrightarrow> propagate_loop obs deps ix = Inr ix1"
  by (subst propagate_loop.simps) simp

lemmas round_simps = propagate_round_def propagate_one_def deps_of_def Let_def blocking_def

theorem propagation_stored_piecewise_witness:
  "\<exists>c. oc_obligation_id c = ex_sha CHR ''a'' \<and> oc_status c = ObligationFailed \<and>
     validate_persisted_obligation_completion (ex_schedule ex_sorted ex_pair_deps) c
       [ex_completion CHR ''b'' ObligationFailed] None ex_authority = Inr ()"
proof -
  let ?b = "ex_completion CHR ''b'' ObligationFailed"
  let ?a = "prerequisite_completion (ex_sha CHR ''a'') [?b]"
  let ?ix = "[(ex_sha CHR ''b'', ?b)]" and ?ix' = "[(ex_sha CHR ''b'', ?b), (ex_sha CHR ''a'', ?a)]"
  have ix: "completion_index [?b] = Inr ?ix" by (simp add: completion_index_def add_completion_def)
  have "propagate_round ex_sorted ex_pair_deps ?ix = Inr (True, ?ix')"
    by (simp add: round_simps ex_sorted_def)
  moreover have "propagate_round ex_sorted ex_pair_deps ?ix' = Inr (False, ?ix')"
    by (simp add: round_simps ex_sorted_def)
  ultimately have "propagate_loop ex_sorted ex_pair_deps ?ix = Inr ?ix'"
    using loop_changed loop_done by metis
  moreover have "completions_in_order ex_sorted ?ix' = [?b, ?a]"
    by (simp add: completions_in_order_def ex_sorted_def)
  ultimately have p: "propagate_dependency_terminals ex_sorted ex_pair_deps [?b] = Inr [?b, ?a]"
    using ix by (simp add: propagate_Inr)
  have n: "\<forall>b \<in> set ex_sorted. nonempty (ro_obligation_id b)" by (simp add: ex_sorted_def)
  have "oc_obligation_id ?a \<noteq> oc_obligation_id ?b" by simp
  then have "?a \<noteq> ?b" by metis
  then have "validate_persisted_obligation_completion (ex_schedule ex_sorted ex_pair_deps) ?a
       ([?b] @ []) None ex_authority = Inr ()"
    using propagation_stored_piecewise [of "ex_schedule ex_sorted ex_pair_deps" "[?b]" "[?b, ?a]" "[]" ?a]
      ex_sorted_topological p n by simp
  moreover have "oc_status ?a = ObligationFailed" by (simp add: inherited_status_def)
  ultimately show ?thesis by (intro exI [of _ ?a]) simp
qed

text \<open>
  Five obligations: a needs c, b needs a and d, c needs e; d is a typed boundary and e is blocked.
\<close>

definition ex_chain :: obligations where
  "ex_chain = [ex_obligation CHR ''a'' DispExecutable, ex_obligation CHR ''b'' DispExecutable,
     ex_obligation CHR ''c'' DispExecutable, ex_obligation CHR ''d'' DispTypedBoundary,
     ex_obligation CHR ''e'' DispBlocked]"

definition ex_chain_deps :: dependencies where
  "ex_chain_deps = [ex_dependency CHR ''a'' ''c'', ex_dependency CHR ''b'' ''ad'',
     ex_dependency CHR ''c'' ''e'', ex_dependency CHR ''d'' [], ex_dependency CHR ''e'' []]"

definition ex_terminals :: completions where
  "ex_terminals = [system_terminal_completion (ex_obligation CHR ''d'' DispTypedBoundary),
     system_terminal_completion (ex_obligation CHR ''e'' DispBlocked)]"

lemma ex_chain_map [simp]:
  "dependency_map ex_chain_deps = [(ex_sha CHR ''a'', [ex_sha CHR ''c'']),
     (ex_sha CHR ''b'', [ex_sha CHR ''a'', ex_sha CHR ''d'']), (ex_sha CHR ''c'', [ex_sha CHR ''e'']),
     (ex_sha CHR ''d'', []), (ex_sha CHR ''e'', [])]"
  by (simp add: dependency_map_def ex_chain_deps_def dict_of_def)

lemma ex_chain_ok [simp]: "graph_ok ex_chain ex_chain_deps"
  by (simp add: validate_graph_def ex_chain_def assert_acyclic_def) (auto simp: ex_chain_deps_def)

lemma ex_terminals_index:
  "completion_index ex_terminals = Inr [(ex_sha CHR ''d'', hd ex_terminals), (ex_sha CHR ''e'', hd (tl ex_terminals))]"
  by (simp add: completion_index_def add_completion_def ex_terminals_def)

text \<open>The completions of the first run: b is closed before a is, as a boundary.\<close>

definition ex_c :: ObligationCompletion where
  "ex_c = prerequisite_completion (ex_sha CHR ''c'') [hd (tl ex_terminals)]"

definition ex_b :: ObligationCompletion where
  "ex_b = prerequisite_completion (ex_sha CHR ''b'') [hd ex_terminals]"

definition ex_a :: ObligationCompletion where
  "ex_a = prerequisite_completion (ex_sha CHR ''a'') [ex_c]"

definition ex_b' :: ObligationCompletion where
  "ex_b' = prerequisite_completion (ex_sha CHR ''b'') [ex_a, hd ex_terminals]"

lemma ex_statuses [simp]:
  "oc_status (hd ex_terminals) = TypedBoundary" "oc_status (hd (tl ex_terminals)) = ObligationFailed"
  "oc_status ex_c = ObligationFailed" "oc_status ex_b = TypedBoundary" "oc_status ex_a = ObligationFailed"
  "oc_status ex_b' = ObligationFailed"
  by (simp_all add: ex_terminals_def ex_c_def ex_b_def ex_a_def ex_b'_def inherited_status_def)

lemma ex_completion_ids [simp]:
  "oc_obligation_id ex_c = ex_sha CHR ''c''" "oc_obligation_id ex_b = ex_sha CHR ''b''"
  "oc_obligation_id ex_a = ex_sha CHR ''a''" "oc_obligation_id ex_b' = ex_sha CHR ''b''"
  "oc_dispatch_id ex_a = ''system-prerequisite:'' @ ex_sha CHR ''a''"
  "oc_dispatch_id ex_b = ''system-prerequisite:'' @ ex_sha CHR ''b''"
  by (simp_all add: ex_c_def ex_b_def ex_a_def ex_b'_def)

lemma ex_checks [simp]:
  "check_completion ex_c = Inr ()" "check_completion ex_b = Inr ()" "check_completion ex_a = Inr ()"
  "check_completion ex_b' = Inr ()"
  by (simp_all add: ex_c_def ex_b_def ex_a_def ex_b'_def)

lemma ex_prerequisites [simp]:
  "prerequisite_completion (ex_sha CHR ''c'') [hd (tl ex_terminals)] = ex_c"
  "prerequisite_completion (ex_sha CHR ''b'') [hd ex_terminals] = ex_b"
  "prerequisite_completion (ex_sha CHR ''a'') [ex_c] = ex_a"
  "prerequisite_completion (ex_sha CHR ''b'') [ex_a, hd ex_terminals] = ex_b'"
  by (simp_all add: ex_c_def ex_b_def ex_a_def ex_b'_def)

abbreviation ex_ix :: completion_index where
  "ex_ix \<equiv> [(ex_sha CHR ''d'', hd ex_terminals), (ex_sha CHR ''e'', hd (tl ex_terminals))]"

lemma ex_first_run:
  "propagate_loop ex_chain ex_chain_deps ex_ix =
     Inr (ex_ix @ [(ex_sha CHR ''b'', ex_b), (ex_sha CHR ''c'', ex_c), (ex_sha CHR ''a'', ex_a)])"
proof -
  let ?ix1 = "ex_ix @ [(ex_sha CHR ''b'', ex_b), (ex_sha CHR ''c'', ex_c)]"
  let ?ix2 = "?ix1 @ [(ex_sha CHR ''a'', ex_a)]"
  have "propagate_round ex_chain ex_chain_deps ex_ix = Inr (True, ?ix1)"
    by (simp add: round_simps ex_chain_def)
  moreover have "propagate_round ex_chain ex_chain_deps ?ix1 = Inr (True, ?ix2)"
    by (simp add: round_simps ex_chain_def)
  moreover have "propagate_round ex_chain ex_chain_deps ?ix2 = Inr (False, ?ix2)"
    by (simp add: round_simps ex_chain_def)
  ultimately show ?thesis using loop_changed loop_done by (metis append_assoc append_Cons append_Nil)
qed

lemma ex_second_run:
  "propagate_loop ex_chain ex_chain_deps (ex_ix @ [(ex_sha CHR ''a'', ex_a)]) =
     Inr (ex_ix @ [(ex_sha CHR ''a'', ex_a), (ex_sha CHR ''b'', ex_b'), (ex_sha CHR ''c'', ex_c)])"
proof -
  let ?ix = "ex_ix @ [(ex_sha CHR ''a'', ex_a)]"
  let ?ix1 = "ex_ix @ [(ex_sha CHR ''a'', ex_a), (ex_sha CHR ''b'', ex_b'), (ex_sha CHR ''c'', ex_c)]"
  have "propagate_round ex_chain ex_chain_deps ?ix = Inr (True, ?ix1)"
    by (simp add: round_simps ex_chain_def)
  moreover have "propagate_round ex_chain ex_chain_deps ?ix1 = Inr (False, ?ix1)"
    by (simp add: round_simps ex_chain_def)
  ultimately show ?thesis using loop_changed loop_done by metis
qed

text \<open>
  Propagation depends on the order of the obligations, so storing it piecewise can fail.  On a
  valid schedule whose two non-executable obligations are complete, one propagation closes a, b and
  c; the store accepts a, and once a is stored it refuses b, a completion of that same propagation:
  recomputed with a, the status of b is another.
\<close>

theorem propagation_can_be_refused:
  "check_schedule (ex_schedule ex_chain ex_chain_deps) = Inr () \<and>
   (\<exists>a b c. propagate_dependency_terminals ex_chain ex_chain_deps ex_terminals =
      Inr (a # b # c # ex_terminals) \<and>
    validate_persisted_obligation_completion (ex_schedule ex_chain ex_chain_deps) a ex_terminals None
      ex_authority = Inr () \<and>
    validate_persisted_obligation_completion (ex_schedule ex_chain ex_chain_deps) b (ex_terminals @ [a])
      None ex_authority = Inl (ValueError ''system prerequisite terminal is not graph-derived''))"
proof
  have "\<forall>b \<in> set ex_chain. \<exists>c d. b = ex_obligation c d" by (auto simp: ex_chain_def)
  then show "check_schedule (ex_schedule ex_chain ex_chain_deps) = Inr ()"
    using ex_schedule_ok ex_chain_ok by blast
  have t: "ex_terminals = [hd ex_terminals, hd (tl ex_terminals)]" by (simp add: ex_terminals_def)
  have ids: "map oc_obligation_id ex_terminals = [ex_sha CHR ''d'', ex_sha CHR ''e'']"
    by (simp add: ex_terminals_def)
  have one: "propagate_dependency_terminals ex_chain ex_chain_deps ex_terminals =
      Inr [ex_a, ex_b, ex_c, hd ex_terminals, hd (tl ex_terminals)]"
    using ex_terminals_index ex_first_run
    by (simp add: propagate_Inr completions_in_order_def) (simp add: ex_chain_def)
  have "completion_index (ex_terminals @ [ex_a]) = Inr (ex_ix @ [(ex_sha CHR ''a'', ex_a)])"
    using ex_terminals_index by (simp add: completion_index_def foldR_append add_completion_def)
  then have two: "propagate_dependency_terminals ex_chain ex_chain_deps (ex_terminals @ [ex_a]) =
      Inr [ex_a, ex_b', ex_c, hd ex_terminals, hd (tl ex_terminals)]"
    using ex_second_run
    by (simp add: propagate_Inr completions_in_order_def) (simp add: ex_chain_def)
  have diff: "ex_b' \<noteq> ex_b" by (metis ex_statuses(4,6) ObligationTerminalStatus.distinct(7))
  have di: "starts_with (oc_dispatch_id ex_a) ''system-prerequisite:''"
    "starts_with (oc_dispatch_id ex_b) ''system-prerequisite:''"
    "\<not> starts_with (oc_dispatch_id ex_a) ''system-terminal:''"
    "\<not> starts_with (oc_dispatch_id ex_b) ''system-terminal:''"
    by (simp_all add: starts_with_def)
  have va: "validate_persisted_obligation_completion (ex_schedule ex_chain ex_chain_deps) ex_a ex_terminals
      None ex_authority = Inr ()"
    using one di ids by (simp add: validate_persisted_obligation_completion_def del: set_map)
      (simp add: ex_chain_def)
  have vb: "validate_persisted_obligation_completion (ex_schedule ex_chain ex_chain_deps) ex_b
      (ex_terminals @ [ex_a]) None ex_authority =
      Inl (ValueError ''system prerequisite terminal is not graph-derived'')"
    using two di ids diff by (simp add: validate_persisted_obligation_completion_def del: set_map)
      (simp add: ex_chain_def)
  show "\<exists>a b c. propagate_dependency_terminals ex_chain ex_chain_deps ex_terminals =
      Inr (a # b # c # ex_terminals) \<and>
    validate_persisted_obligation_completion (ex_schedule ex_chain ex_chain_deps) a ex_terminals None
      ex_authority = Inr () \<and>
    validate_persisted_obligation_completion (ex_schedule ex_chain ex_chain_deps) b (ex_terminals @ [a])
      None ex_authority = Inl (ValueError ''system prerequisite terminal is not graph-derived'')"
    by (rule exI [of _ ex_a], rule exI [of _ ex_b], rule exI [of _ ex_c])
      (intro conjI va vb one [unfolded t [symmetric]])
qed

end
