(* ===== verification/ObligationWorkers.thy ===== *)
theory ObligationWorkers imports ObligationPersistence begin

text \<open>
  What dispatch and the completion by a worker guarantee: one dispatch for each obligation of a
  schedule, and one terminal result for each dispatch.
\<close>

section \<open>Dispatch\<close>

lemma dispatch_admission_cases:
  assumes "validate_obligation_dispatch_admission s r m = Inr ()"
  obtains b p d where
    "List.find (\<lambda>b. ro_obligation_id b = di_obligation_id (dr_dispatch r)) (os_obligations s) = Some b"
    and "List.find (\<lambda>p. pb_obligation_id p = di_obligation_id (dr_dispatch r)) (os_plan_bindings s) = Some p"
    and "build_obligation_dispatch b p (os_plan_revision_id s) (os_authority_snapshot s) = Inr d"
    and "dr_dispatch r = d" and "dr_outbox_message_id r = om_outbox_message_id m"
    and "dr_schedule_id r = os_schedule_id s"
    and "om_authority_snapshot m = os_authority_snapshot s"
    and "om_case_id m = os_case_id s" and "om_job_kind m = JobObligation"
  using assms by (auto simp: validate_obligation_dispatch_admission_def Let_def result_simps
      split: option.splits)

text \<open>
  A schedule dispatches an obligation in one way only.  The outbox message of an admitted
  dispatch carries the authority of its schedule; the obligation belongs to the schedule and is
  executable; and two admitted dispatches of one obligation are the same dispatch.
\<close>

theorem dispatch_is_determined:
  assumes "check_schedule s = Inr ()" and "validate_obligation_dispatch_admission s r m = Inr ()"
    and "validate_obligation_dispatch_admission s r' m' = Inr ()"
    and "di_obligation_id (dr_dispatch r) = di_obligation_id (dr_dispatch r')"
  shows "dr_dispatch r = dr_dispatch r' \<and> om_authority_snapshot m = os_authority_snapshot s \<and>
    (\<exists>b \<in> set (os_obligations s). ro_obligation_id b = di_obligation_id (dr_dispatch r) \<and>
       ro_execution_disposition b = DispExecutable \<and>
       di_definition_sha256 (dr_dispatch r) = obligation_sha256 b)"
proof -
  let ?n = "di_obligation_id (dr_dispatch r)" and ?plan = "os_plan_revision_id s"
    and ?a = "os_authority_snapshot s"
  obtain b p where
    b: "List.find (\<lambda>b. ro_obligation_id b = ?n) (os_obligations s) = Some b"
    and p: "List.find (\<lambda>p. pb_obligation_id p = ?n) (os_plan_bindings s) = Some p"
    and d: "build_obligation_dispatch b p ?plan ?a = Inr (dr_dispatch r)"
    and m: "om_authority_snapshot m = ?a"
    using assms(2) by (rule dispatch_admission_cases) simp
  obtain b' p' where
    "List.find (\<lambda>b. ro_obligation_id b = ?n) (os_obligations s) = Some b'"
    and "List.find (\<lambda>p. pb_obligation_id p = ?n) (os_plan_bindings s) = Some p'"
    and d': "build_obligation_dispatch b' p' ?plan ?a = Inr (dr_dispatch r')"
    using assms(3) unfolding assms(4) by (rule dispatch_admission_cases) simp
  then have "dr_dispatch r = dr_dispatch r'" using b p d by simp
  moreover have bs: "b \<in> set (os_obligations s)" "ro_obligation_id b = ?n"
    and ps: "p \<in> set (os_plan_bindings s)" "pb_obligation_id p = ?n"
    using b p by (auto simp: find_Some_iff)
  moreover have "pb_query_binding_id p \<noteq> None" "di_definition_sha256 (dr_dispatch r) = obligation_sha256 b"
    using d by (auto simp: build_obligation_dispatch_def split: if_splits option.splits)
  moreover have "(ro_execution_disposition b = DispExecutable) = (pb_query_binding_id p \<noteq> None)"
    using assms(1) bs ps by (auto simp: check_schedule_def Let_def)
  ultimately show ?thesis using m by blast
qed

theorem dispatch_is_determined_witness:
  "\<exists>r m. validate_obligation_dispatch_admission (ex_schedule ex_pair ex_pair_deps) r m = Inr () \<and>
     om_authority_snapshot m = ex_authority \<and> di_obligation_id (dr_dispatch r) = ex_sha CHR ''b''"
proof -
  let ?s = "ex_schedule ex_pair ex_pair_deps" and ?b = "ex_obligation CHR ''b'' DispExecutable"
  let ?p = "\<lparr>pb_obligation_id = ex_sha CHR ''b'', pb_task_id = ex_sha CHR ''6'',
     pb_query_binding_id = Some (ex_sha CHR ''7'')\<rparr>"
  have "nonempty ''p1''" by (simp add: nonempty_def blank_def)
  then obtain d where d: "build_obligation_dispatch ?b ?p ''p1'' ex_authority = Inr d"
    and i: "di_obligation_id d = ex_sha CHR ''b''"
    by (simp add: build_obligation_dispatch_def ex_authority_def check_dispatch_def obligation_sha256_def)
  obtain f where f: "freeze_json (dispatch_payload ?s ?b d) = Inr f"
    using dispatch_payload_freezes by blast
  let ?m = "\<lparr>om_outbox_message_id = ''m1'', om_case_id = ''case-1'', om_source_event_cursor = 1,
     om_action_id = None, om_job_kind = JobObligation,
     om_operation = \<lparr>oi_operation_id = ''p'', oi_idempotency_key = ''k'', oi_causation_id = ''c'',
       oi_correlation_id = ''r1'', oi_authority_revision = 1, oi_payload_sha256 = digest f\<rparr>,
     om_expected_head_version = 1, om_expected_authority_epoch = 1,
     om_authority_snapshot = ex_authority,
     om_authority_snapshot_sha256 = authority_sha256 ex_authority, om_idempotency_key = ''k'',
     om_destination = obligation_job_destination, om_contract_ref = obligation_job_contract_ref,
     om_payload = f, om_payload_sha256 = digest f, om_created_at = Aware 0\<rparr>"
  let ?r = "\<lparr>dr_dispatch_record_id = ''r1'', dr_schedule_id = ''s1'', dr_outbox_message_id = ''m1'',
     dr_dispatch = d, dr_created_at = Aware 0\<rparr>"
  have v: "validate_obligation_dispatch_admission ?s ?r ?m = Inr ()"
    using d f i
    by (simp add: validate_obligation_dispatch_admission_def ex_pair_def ex_schedule_def py_eq_def
        ex_authority_def)
  have "check_schedule ?s = Inr ()"
    using ex_schedule_ok [OF ex_pair_ok] by (auto simp: ex_pair_def)
  from dispatch_is_determined [OF this v v refl]
  have "om_authority_snapshot ?m = os_authority_snapshot ?s" by blast
  then have "om_authority_snapshot ?m = ex_authority" by simp
  moreover have "di_obligation_id (dr_dispatch ?r) = ex_sha CHR ''b''" using i by simp
  ultimately show ?thesis using v by blast
qed

section \<open>Completion\<close>

abbreviation worker_completion ::
    "ObligationDispatch \<Rightarrow> ResolvedEvidenceObligation \<Rightarrow> ObligationTerminalStatus \<Rightarrow> string \<Rightarrow>
     ObligationCompletion" where
  "worker_completion d b status result_sha \<equiv>
     \<lparr>oc_obligation_id = ro_obligation_id b, oc_dispatch_id = di_dispatch_id d,
      oc_status = status, oc_result_sha256 = result_sha\<rparr>"

text \<open>
  A worker result is taken once.  After a completion is admitted, submitting it again returns
  the same completions; the admitted list is the prior one with at most this completion added at its
  end; and any other status or result for the obligation is refused.
\<close>

theorem admission_idempotent:
  assumes "admit_obligation_completion d b status result_sha a prior = Inr cs"
  shows "admit_obligation_completion d b status result_sha a cs = Inr cs \<and>
    worker_completion d b status result_sha \<in> set cs \<and>
    cs \<in> {prior, prior @ [worker_completion d b status result_sha]} \<and>
    (\<forall>status' result_sha'. (status', result_sha') \<noteq> (status, result_sha) \<longrightarrow>
       (\<exists>e. admit_obligation_completion d b status' result_sha' a cs = Inl e))"
proof -
  let ?c = "worker_completion d b status result_sha"
  obtain ix where c: "ro_execution_disposition b = DispExecutable"
      "status \<in> {ExecutionSucceeded, ObligationFailed}" "di_obligation_id d = ro_obligation_id b"
      "di_definition_sha256 d = obligation_sha256 b"
      "assert_completion_authority (di_authority_snapshot d) a = Inr ()"
      "check_completion ?c = Inr ()"
    and ix: "completion_index prior = Inr ix"
    and out: "(case map_of ix (oc_obligation_id ?c) of Some c' \<Rightarrow>
        if c' \<noteq> ?c then Inl (ValueError ''obligation already has a different terminal completion'')
        else Inr prior
      | None \<Rightarrow> Inr (prior @ [?c])) = Inr cs"
    using assms by (auto simp: admit_obligation_completion_def result_simps)
  have r: "map_of ix (ro_obligation_id b) = Some ?c \<and> cs = prior \<or>
      map_of ix (ro_obligation_id b) = None \<and> cs = prior @ [?c]"
    using out by (cases "map_of ix (ro_obligation_id b)") (auto split: if_splits)
  obtain ix' where ix': "completion_index cs = Inr ix'" "map_of ix' (ro_obligation_id b) = Some ?c"
    using r
  proof
    assume "map_of ix (ro_obligation_id b) = Some ?c \<and> cs = prior"
    then show thesis using that ix by blast
  next
    assume n: "map_of ix (ro_obligation_id b) = None \<and> cs = prior @ [?c]"
    then have "completion_index cs = Inr (AList.update (ro_obligation_id b) ?c ix)"
      using ix by (simp add: completion_index_def foldR_append add_completion_def)
    then show thesis using that by (simp add: update_conv')
  qed
  have "?c \<in> set cs" using completion_index_map [OF ix'(1)] ix'(2) by blast
  moreover have "admit_obligation_completion d b status result_sha a cs = Inr cs"
    using c ix' by (simp add: admit_obligation_completion_def)
  moreover have "\<exists>e. admit_obligation_completion d b st rs a cs = Inl e"
    if "(st, rs) \<noteq> (status, result_sha)" for st rs
  proof (cases "admit_obligation_completion d b st rs a cs")
    case (Inr ks)
    then have "?c = worker_completion d b st rs"
      using ix' by (auto simp: admit_obligation_completion_def result_simps split: if_splits)
    then show ?thesis using that by simp
  qed simp
  ultimately show ?thesis using r by blast
qed

theorem admission_idempotent_witness:
  "\<exists>cs. admit_obligation_completion ex_dispatch (ex_obligation CHR ''b'' DispExecutable) ExecutionSucceeded
     (ex_sha CHR ''0'') ex_authority [] = Inr cs \<and>
   admit_obligation_completion ex_dispatch (ex_obligation CHR ''b'' DispExecutable) ExecutionSucceeded
     (ex_sha CHR ''0'') ex_authority cs = Inr cs"
proof -
  have "admit_obligation_completion ex_dispatch (ex_obligation CHR ''b'' DispExecutable) ExecutionSucceeded
     (ex_sha CHR ''0'') ex_authority [] =
     Inr [worker_completion ex_dispatch (ex_obligation CHR ''b'' DispExecutable) ExecutionSucceeded
       (ex_sha CHR ''0'')]"
    by (simp add: admit_obligation_completion_def ex_dispatch_def check_completion_def
        assert_completion_authority_def same_obligation_business_authority_def completion_index_def)
  from admission_idempotent [OF this] this show ?thesis by blast
qed

end
