(* ===== verification/ControllerTypes.thy ===== *)
theory ControllerTypes imports Journal AuthorityTypes begin

text \<open>
  The durable records of the controller: \<open>domain/controller.py\<close> (controller state, decision
  request, effect attempt, controller lease), the option of \<open>domain/authority.py\<close>, and the message,
  job and model-call records of \<open>domain/runtime_amendment.py\<close>.
\<close>

section \<open>The controller state\<close>

datatype ControllerPhase =
    ReadyForAgent | WaitingForLlm | WaitingForMessageBinding | WaitingForMeasurementReview
  | WaitingForEvidenceAdmission | WaitingForUser | WaitingForEffect | WaitingForReview
  | PhaseBlocked | PhaseCompleted | PhaseStopped

fun phase_value :: "ControllerPhase \<Rightarrow> string" where
  "phase_value ReadyForAgent = ''ready_for_agent''"
| "phase_value WaitingForLlm = ''waiting_for_llm''"
| "phase_value WaitingForMessageBinding = ''waiting_for_message_binding''"
| "phase_value WaitingForMeasurementReview = ''waiting_for_measurement_review''"
| "phase_value WaitingForEvidenceAdmission = ''waiting_for_evidence_admission''"
| "phase_value WaitingForUser = ''waiting_for_user''"
| "phase_value WaitingForEffect = ''waiting_for_effect''"
| "phase_value WaitingForReview = ''waiting_for_review''"
| "phase_value PhaseBlocked = ''blocked''"
| "phase_value PhaseCompleted = ''completed''"
| "phase_value PhaseStopped = ''stopped''"

record ControllerState =
  cs_run_id :: string
  cs_case_id :: string
  cs_phase :: ControllerPhase
  cs_step_number :: int
  cs_head_version :: int
  cs_authority_epoch :: int
  cs_mailbox_cursor :: int
  cs_last_event_cursor :: int
  cs_context_packet_id :: string
  cs_latest_user_message :: string
  cs_pending_action_id :: "string option"
  cs_pending_job_ids :: "string list"
  cs_pending_decision_request_id :: "string option"
  cs_accepted_answer_version_id :: "string option"
  cs_consecutive_rejections :: int
  cs_updated_at :: datetime

definition job_waiting_phases :: "ControllerPhase set" where
  "job_waiting_phases =
     {WaitingForLlm, WaitingForMessageBinding, WaitingForMeasurementReview,
      WaitingForEvidenceAdmission, WaitingForEffect, WaitingForReview}"

definition validate_phase_bindings :: "ControllerState \<Rightarrow> unit result" where
  "validate_phase_bindings s =
    (if cs_phase s = WaitingForUser then checks [
       require (truthy (cs_pending_decision_request_id s))
         (ValueError ''waiting_for_user requires a decision request''),
       require (cs_pending_job_ids s = [])
         (ValueError ''waiting_for_user cannot carry pending jobs'')]
     else if cs_phase s \<in> job_waiting_phases then checks [
       require (cs_pending_job_ids s \<noteq> [])
         (ValueError (phase_value (cs_phase s) @ '' requires pending jobs'')),
       require (cs_pending_decision_request_id s = None)
         (ValueError (phase_value (cs_phase s) @ '' cannot carry decision request''))]
     else require (cs_pending_job_ids s = [] \<and> cs_pending_decision_request_id s = None)
       (ValueError ''current phase cannot carry pending interruption state''))"

definition check_controller_state :: "ControllerState \<Rightarrow> unit result" where
  "check_controller_state s = checks [
     require_nonempty (cs_run_id s) ''run_id'', require_nonempty (cs_case_id s) ''case_id'',
     require_nonempty (cs_context_packet_id s) ''context_packet_id'',
     require_nonempty (cs_latest_user_message s) ''latest_user_message'',
     require (\<not> cs_step_number s < 0) (ValueError ''step_number must be non-negative''),
     require (\<not> cs_head_version s < 0) (ValueError ''head_version must be non-negative''),
     require (\<not> cs_authority_epoch s < 1) (ValueError ''authority_epoch must be positive''),
     require (\<not> cs_mailbox_cursor s < 0) (ValueError ''mailbox_cursor must be non-negative''),
     require (\<not> cs_last_event_cursor s < 1) (ValueError ''last_event_cursor must be positive''),
     require (\<not> cs_consecutive_rejections s < 0)
       (ValueError ''consecutive_rejections must be non-negative''),
     when_some (cs_pending_action_id s) (\<lambda>v. require_nonempty v ''pending_action_id''),
     when_some (cs_pending_decision_request_id s)
       (\<lambda>v. require_nonempty v ''pending_decision_request_id''),
     when_some (cs_accepted_answer_version_id s)
       (\<lambda>v. require_nonempty v ''accepted_answer_version_id''),
     require (\<forall>j \<in> set (cs_pending_job_ids s). \<not> blank j)
       (ValueError ''pending_job_ids must contain non-empty IDs''),
     require (distinct (cs_pending_job_ids s)) (ValueError ''pending_job_ids must be unique''),
     require_aware_datetime (cs_updated_at s) ''updated_at'',
     validate_phase_bindings s]"

section \<open>Decision requests\<close>

record DecisionOption =
  do_option_id :: string
  do_label :: string
  do_impact :: string

definition check_decision_option :: "DecisionOption \<Rightarrow> unit result" where
  "check_decision_option d = checks [
     require_nonempty (do_option_id d) ''option_id'', require_nonempty (do_label d) ''label'',
     require_nonempty (do_impact d) ''impact'']"

record UserDecisionRequest =
  dq_decision_request_id :: string
  dq_case_id :: string
  dq_action_id :: string
  dq_question :: string
  dq_options :: "DecisionOption list"
  dq_recommended_option_id :: string
  dq_allow_freeform :: bool
  dq_requested_at :: datetime

definition check_decision_request :: "UserDecisionRequest \<Rightarrow> unit result" where
  "check_decision_request d = checks [
     require_nonempty (dq_decision_request_id d) ''decision_request_id'',
     require_nonempty (dq_case_id d) ''case_id'', require_nonempty (dq_action_id d) ''action_id'',
     require_nonempty (dq_question d) ''question'',
     require_nonempty (dq_recommended_option_id d) ''recommended_option_id'',
     require (2 \<le> length (dq_options d) \<and> length (dq_options d) \<le> 3)
       (ValueError ''decision request requires two or three options''),
     require (distinct (map do_option_id (dq_options d)))
       (ValueError ''decision request option IDs must be unique''),
     require (dq_recommended_option_id d \<in> set (map do_option_id (dq_options d)))
       (ValueError ''recommended option must be present''),
     require (dq_allow_freeform d) (ValueError ''decision request requires freeform correction''),
     require_aware_datetime (dq_requested_at d) ''requested_at'']"

section \<open>Effect attempts\<close>

datatype EffectAttemptStatus = EffectSucceeded | EffectRetryableFailure | EffectTerminalFailure

record EffectAttemptRecord =
  ea_effect_attempt_id :: string
  ea_outbox_message_id :: string
  ea_case_id :: string
  ea_attempt_number :: int
  ea_prior_attempt_id :: "string option"
  ea_status :: EffectAttemptStatus
  ea_result_payload :: "json option"
  ea_result_sha256 :: "string option"
  ea_error_code :: "string option"
  ea_error_message :: "string option"
  ea_started_at :: datetime
  ea_completed_at :: datetime

text \<open>\<open>_validate_effect_result\<close> stores a frozen copy of the payload of a success.\<close>

definition validate_effect_result :: "EffectAttemptRecord \<Rightarrow> EffectAttemptRecord result" where
  "validate_effect_result a =
    (if ea_status a = EffectSucceeded then
       (case (ea_result_payload a, ea_result_sha256 a) of
          (Some v, Some d) \<Rightarrow>
            if ea_error_code a \<noteq> None \<or> ea_error_message a \<noteq> None
            then Inl (ValueError ''successful effect attempt cannot carry an error'')
            else bindR (freeze_object v ''result_payload'') (\<lambda>f.
                 bindR (require_sha256 d ''result_sha256'') (\<lambda>_.
                 bindR (content_sha256 f) (\<lambda>d'.
                   if d' \<noteq> d then Inl (ValueError ''result_payload does not match result_sha256'')
                   else Inr (a\<lparr>ea_result_payload := Some f\<rparr>))))
        | _ \<Rightarrow> Inl (ValueError ''successful effect attempt requires result payload''))
     else bindR (checks [
         require (ea_result_payload a = None \<and> ea_result_sha256 a = None)
           (ValueError ''failed effect attempt cannot carry result payload''),
         require (truthy (ea_error_code a) \<and> truthy (ea_error_message a))
           (ValueError ''failed effect attempt requires error details''),
         when_some (ea_error_code a) (\<lambda>v. require_nonempty v ''error_code''),
         when_some (ea_error_message a) (\<lambda>v. require_nonempty v ''error_message'')]) (\<lambda>_. Inr a))"

definition make_effect_attempt :: "EffectAttemptRecord \<Rightarrow> EffectAttemptRecord result" where
  "make_effect_attempt a =
     bindR (checks [
       require_nonempty (ea_effect_attempt_id a) ''effect_attempt_id'',
       require_nonempty (ea_outbox_message_id a) ''outbox_message_id'',
       require_nonempty (ea_case_id a) ''case_id'',
       require (\<not> ea_attempt_number a < 1) (ValueError ''attempt_number must be positive''),
       require (\<not> (ea_attempt_number a = 1 \<and> ea_prior_attempt_id a \<noteq> None))
         (ValueError ''first effect attempt cannot have a prior attempt''),
       require (\<not> (ea_attempt_number a > 1 \<and> \<not> truthy (ea_prior_attempt_id a)))
         (ValueError ''later effect attempt requires prior_attempt_id''),
       require_aware_datetime (ea_started_at a) ''started_at'',
       require_aware_datetime (ea_completed_at a) ''completed_at'',
       require (\<not> instant (ea_completed_at a) < instant (ea_started_at a))
         (ValueError ''completed_at cannot precede started_at'')]) (\<lambda>_. validate_effect_result a)"

section \<open>The controller lease\<close>

record ControllerLease =
  cl_case_id :: string
  cl_run_id :: string
  cl_owner_id :: string
  cl_fencing_token :: int
  cl_acquired_at :: datetime
  cl_expires_at :: datetime

definition check_controller_lease :: "ControllerLease \<Rightarrow> unit result" where
  "check_controller_lease l = checks [
     require_nonempty (cl_case_id l) ''case_id'', require_nonempty (cl_run_id l) ''run_id'',
     require_nonempty (cl_owner_id l) ''owner_id'',
     require (\<not> cl_fencing_token l < 1) (ValueError ''fencing_token must be positive''),
     require_aware_datetime (cl_acquired_at l) ''acquired_at'',
     require_aware_datetime (cl_expires_at l) ''expires_at'',
     require (\<not> instant (cl_expires_at l) \<le> instant (cl_acquired_at l))
       (ValueError ''lease expiry must follow acquisition'')]"

section \<open>Messages\<close>

record MessageIngressRecord =
  mi_ingress_record_id :: string
  mi_case_id :: string
  mi_run_id :: string
  mi_message_id :: string
  mi_mailbox_sequence :: int
  mi_authority_epoch :: int
  mi_operation :: OperationIdentity
  mi_message_payload_sha256 :: string
  mi_created_at :: datetime

definition check_message_ingress :: "MessageIngressRecord \<Rightarrow> unit result" where
  "check_message_ingress m = checks [
     require_nonempty (mi_ingress_record_id m) ''ingress_record_id'',
     require_nonempty (mi_case_id m) ''case_id'', require_nonempty (mi_run_id m) ''run_id'',
     require_nonempty (mi_message_id m) ''message_id'',
     require (\<not> mi_mailbox_sequence m < 1) (ValueError ''mailbox_sequence must be positive''),
     require (\<not> mi_authority_epoch m < 1) (ValueError ''authority_epoch must be positive''),
     require (oi_authority_revision (mi_operation m) \<in> {0, mi_authority_epoch m})
       (ValueError ''ingress operation authority epoch is inconsistent''),
     require_sha256 (mi_message_payload_sha256 m) ''message_payload_sha256'',
     require (oi_payload_sha256 (mi_operation m) = mi_message_payload_sha256 m)
       (ValueError ''ingress payload hash must match operation''),
     require_aware_datetime (mi_created_at m) ''created_at'']"

record PendingUserMessage =
  pm_pending_message_id :: string
  pm_ingress_record_id :: string
  pm_case_id :: string
  pm_message_id :: string
  pm_binding_job_id :: string
  pm_authority_epoch :: int
  pm_source_operation_id :: string
  pm_created_at :: datetime

definition check_pending_message :: "PendingUserMessage \<Rightarrow> unit result" where
  "check_pending_message m = checks [
     require_nonempty (pm_pending_message_id m) ''pending_message_id'',
     require_nonempty (pm_ingress_record_id m) ''ingress_record_id'',
     require_nonempty (pm_case_id m) ''case_id'', require_nonempty (pm_message_id m) ''message_id'',
     require_nonempty (pm_binding_job_id m) ''binding_job_id'',
     require_nonempty (pm_source_operation_id m) ''source_operation_id'',
     require (\<not> pm_authority_epoch m < 1) (ValueError ''authority_epoch must be positive''),
     require_aware_datetime (pm_created_at m) ''created_at'']"

section \<open>Job dispositions and the dispatcher cursor\<close>

datatype JobDisposition = JobCompleted | JobSuperseded | JobTerminalFailure

record JobDispositionRecord =
  jd_record_id :: string
  jd_outbox_message_id :: string
  jd_case_id :: string
  jd_job_kind :: AsyncJobKind
  jd_disposition :: JobDisposition
  jd_owner_id :: string
  jd_fencing_token :: "int option"
  jd_expected_authority_epoch :: int
  jd_observed_authority_epoch :: int
  jd_result_sha256 :: "string option"
  jd_reason_code :: string
  jd_operation :: OperationIdentity
  jd_completed_at :: datetime

definition check_job_disposition :: "JobDispositionRecord \<Rightarrow> unit result" where
  "check_job_disposition d = checks [
     require_nonempty (jd_record_id d) ''job_disposition_record_id'',
     require_nonempty (jd_outbox_message_id d) ''outbox_message_id'',
     require_nonempty (jd_case_id d) ''case_id'', require_nonempty (jd_owner_id d) ''owner_id'',
     require_nonempty (jd_reason_code d) ''reason_code'',
     when_some (jd_fencing_token d)
       (\<lambda>n. require (\<not> n < 1) (ValueError ''fencing_token must be positive'')),
     require (\<not> (jd_disposition d \<in> {JobCompleted, JobTerminalFailure} \<and>
                 jd_fencing_token d = None \<and> jd_job_kind d \<noteq> JobControllerWake))
       (ValueError ''worker completion or failure requires a fencing token''),
     require (\<not> jd_expected_authority_epoch d < 1)
       (ValueError ''expected_authority_epoch must be positive''),
     require (\<not> jd_observed_authority_epoch d < 1)
       (ValueError ''observed_authority_epoch must be positive''),
     when_some (jd_result_sha256 d) (\<lambda>v. require_sha256 v ''result_sha256''),
     (if jd_disposition d = JobCompleted then checks [
        require (jd_result_sha256 d \<noteq> None) (ValueError ''completed job requires result hash''),
        require (jd_expected_authority_epoch d = jd_observed_authority_epoch d)
          (ValueError ''completed job cannot cross an authority epoch'')]
      else Inr ()),
     require (\<not> (jd_disposition d = JobSuperseded \<and>
                 jd_expected_authority_epoch d = jd_observed_authority_epoch d \<and>
                 jd_reason_code d = ''authority_epoch_changed''))
       (ValueError ''superseded epoch reason requires epoch drift''),
     require_aware_datetime (jd_completed_at d) ''completed_at'']"

record DispatcherRecoveryCursor =
  rc_dispatcher_id :: string
  rc_last_outbox_created_at :: "datetime option"
  rc_last_source_event_cursor :: "int option"
  rc_last_outbox_message_id :: "string option"
  rc_updated_at :: datetime

definition check_recovery_cursor :: "DispatcherRecoveryCursor \<Rightarrow> unit result" where
  "check_recovery_cursor c =
    (let unset = [rc_last_outbox_created_at c = None, rc_last_source_event_cursor c = None,
                  rc_last_outbox_message_id c = None] in
     checks [
       require_nonempty (rc_dispatcher_id c) ''dispatcher_id'',
       require (count_list unset True \<in> {0, 3})
         (ValueError ''dispatcher cursor position fields must all be set or all be null''),
       when_some (rc_last_outbox_created_at c) (\<lambda>t. checks [
         require_aware_datetime t ''last_outbox_created_at'',
         when_some (rc_last_outbox_message_id c) (\<lambda>v. require_nonempty v ''last_outbox_message_id''),
         require (\<not> (case rc_last_source_event_cursor c of None \<Rightarrow> True | Some n \<Rightarrow> n < 1))
           (ValueError ''last_source_event_cursor must be positive'')]),
       require_aware_datetime (rc_updated_at c) ''updated_at''])"

text \<open>The position of a validated cursor; positions compare as Python tuples do.\<close>

definition recovery_position :: "DispatcherRecoveryCursor \<Rightarrow> (int \<times> int \<times> string) option" where
  "recovery_position c =
     (case (rc_last_outbox_created_at c, rc_last_source_event_cursor c, rc_last_outbox_message_id c) of
        (Some t, Some n, Some m) \<Rightarrow> Some (instant t, n, m)
      | _ \<Rightarrow> None)"

section \<open>Model calls\<close>

record LogicalModelJob =
  lj_logical_model_job_id :: string
  lj_case_id :: string
  lj_job_id :: string
  lj_operation_id :: string
  lj_role :: string
  lj_provider_ref :: string
  lj_model_ref :: string
  lj_prompt_contract_ref :: string
  lj_input_sha256 :: string
  lj_authority_snapshot_sha256 :: string
  lj_created_at :: datetime

definition check_logical_job :: "LogicalModelJob \<Rightarrow> unit result" where
  "check_logical_job j = checks [
     require_nonempty (lj_logical_model_job_id j) ''logical_model_job_id'',
     require_nonempty (lj_case_id j) ''case_id'', require_nonempty (lj_job_id j) ''job_id'',
     require_nonempty (lj_operation_id j) ''operation_id'', require_nonempty (lj_role j) ''role'',
     require_nonempty (lj_provider_ref j) ''provider_ref'',
     require_nonempty (lj_model_ref j) ''model_ref'',
     require_nonempty (lj_prompt_contract_ref j) ''prompt_contract_ref'',
     require_sha256 (lj_input_sha256 j) ''input_sha256'',
     require_sha256 (lj_authority_snapshot_sha256 j) ''authority_snapshot_sha256'',
     require_aware_datetime (lj_created_at j) ''created_at'']"

datatype ProviderAttemptDisposition =
    ProviderSucceeded | ProviderRetryableFailure | ProviderTerminalFailure | ProviderRefusal
  | ProviderIncomplete | ProviderMultipleToolCalls | ProviderSuperseded

record ProviderAttemptRequest =
  pq_provider_attempt_id :: string
  pq_logical_model_job_id :: string
  pq_attempt_number :: int
  pq_prior_provider_attempt_id :: "string option"
  pq_request_sha256 :: string
  pq_requested_at :: datetime

definition check_provider_request :: "ProviderAttemptRequest \<Rightarrow> unit result" where
  "check_provider_request q = checks [
     require_nonempty (pq_provider_attempt_id q) ''provider_attempt_id'',
     require_nonempty (pq_logical_model_job_id q) ''logical_model_job_id'',
     require (\<not> pq_attempt_number q < 1) (ValueError ''attempt_number must be positive''),
     (if pq_attempt_number q = 1
      then require (pq_prior_provider_attempt_id q = None)
             (ValueError ''first attempt cannot have a prior attempt'')
      else require (pq_prior_provider_attempt_id q \<noteq> None)
             (ValueError ''later attempt requires a prior attempt'')),
     require_sha256 (pq_request_sha256 q) ''request_sha256'',
     require_aware_datetime (pq_requested_at q) ''requested_at'']"

record ProviderAttemptReceipt =
  pt_provider_attempt_receipt_id :: string
  pt_provider_attempt_id :: string
  pt_logical_model_job_id :: string
  pt_disposition :: ProviderAttemptDisposition
  pt_provider_response_id :: "string option"
  pt_output_sha256 :: "string option"
  pt_finish_reason :: "string option"
  pt_usage_payload :: json
  pt_completed_at :: datetime

definition make_provider_receipt :: "ProviderAttemptReceipt \<Rightarrow> ProviderAttemptReceipt result" where
  "make_provider_receipt r =
     bindR (checks [
       require_nonempty (pt_provider_attempt_receipt_id r) ''provider_attempt_receipt_id'',
       require_nonempty (pt_provider_attempt_id r) ''provider_attempt_id'',
       require_nonempty (pt_logical_model_job_id r) ''logical_model_job_id'',
       when_some (pt_provider_response_id r) (\<lambda>v. require_nonempty v ''provider_response_id''),
       when_some (pt_finish_reason r) (\<lambda>v. require_nonempty v ''finish_reason''),
       when_some (pt_output_sha256 r) (\<lambda>v. require_sha256 v ''output_sha256''),
       require (\<not> (pt_disposition r = ProviderSucceeded \<and>
                   (pt_output_sha256 r = None \<or> pt_provider_response_id r = None)))
         (ValueError ''successful provider attempt requires response identity and output'')]) (\<lambda>_.
     bindR (freeze_object (pt_usage_payload r) ''usage_payload'') (\<lambda>f.
     bindR (require_aware_datetime (pt_completed_at r) ''completed_at'') (\<lambda>_.
       Inr (r\<lparr>pt_usage_payload := f\<rparr>))))"

record DurableModelResult =
  dm_durable_model_result_id :: string
  dm_logical_model_job_id :: string
  dm_provider_attempt_id :: string
  dm_result_kind :: string
  dm_result_contract_ref :: string
  dm_result_payload :: json
  dm_output_sha256 :: string
  dm_recorded_at :: datetime

definition make_durable_result :: "DurableModelResult \<Rightarrow> DurableModelResult result" where
  "make_durable_result r =
     bindR (checks [
       require_nonempty (dm_durable_model_result_id r) ''durable_model_result_id'',
       require_nonempty (dm_logical_model_job_id r) ''logical_model_job_id'',
       require_nonempty (dm_provider_attempt_id r) ''provider_attempt_id'',
       require_nonempty (dm_result_kind r) ''result_kind'',
       require_nonempty (dm_result_contract_ref r) ''result_contract_ref'']) (\<lambda>_.
     bindR (freeze_object (dm_result_payload r) ''result_payload'') (\<lambda>f.
     bindR (require_sha256 (dm_output_sha256 r) ''output_sha256'') (\<lambda>_.
     bindR (content_sha256 f) (\<lambda>d.
       if d \<noteq> dm_output_sha256 r then Inl (ValueError ''durable model result hash is stale'')
       else bindR (require_aware_datetime (dm_recorded_at r) ''recorded_at'') (\<lambda>_.
         Inr (r\<lparr>dm_result_payload := f\<rparr>))))))"

end
