(* ===== verification/MeasurementChanges.thy ===== *)
theory MeasurementChanges imports CanonicalProperties begin

text \<open>
  \<open>derive_changed_measurement_node_ids\<close> and \<open>measurement_paths_overlap\<close> of
  \<open>domain/runtime_amendment.py\<close>: the paths at which two measurement designs differ.  A design is
  given as the JSON value \<open>to_jsonable\<close> makes of it.
\<close>

section \<open>Changed paths\<close>

fun json_type :: "json \<Rightarrow> nat" where
  "json_type JNull = 0"
| "json_type (JBool _) = 1"
| "json_type (JInt _) = 2"
| "json_type (JFloat _) = 3"
| "json_type (JStr _) = 4"
| "json_type (JList _) = 5"
| "json_type (JTuple _) = 6"
| "json_type (JObj _) = 7"
| "json_type (JOpaque _) = 8"

definition sub_path :: "string \<Rightarrow> string \<Rightarrow> string" where
  "sub_path path key = path @ ''.'' @ key"

lemma size_item: "map_of kvs k = Some v \<Longrightarrow> size v < Suc (size_list (size_prod (\<lambda>_. 0) size) kvs)"
proof (induction kvs)
  case (Cons x kvs)
  then show ?case by (cases x) (auto split: if_splits)
qed simp

text \<open>The inner \<open>visit\<close>, with the paths it appends.\<close>

function changed_paths :: "json \<Rightarrow> json \<Rightarrow> string \<Rightarrow> string list" where
  "changed_paths prior replacement path =
     (if json_type prior \<noteq> json_type replacement then [path]
      else case (prior, replacement) of
        (JObj ps, JObj rs) \<Rightarrow>
          concat (map (\<lambda>key.
            case (map_of ps key, map_of rs key) of
              (Some p, Some r) \<Rightarrow> changed_paths p r (sub_path path key)
            | _ \<Rightarrow> [sub_path path key]) (sort (remdups (map fst ps @ map fst rs))))
      | (JList ps, JList rs) \<Rightarrow>
          concat (map (\<lambda>i.
            if i \<ge> length ps \<or> i \<ge> length rs then [sub_path path (show_nat i)]
            else changed_paths (ps ! i) (rs ! i) (sub_path path (show_nat i)))
            [0..<max (length ps) (length rs)])
      | _ \<Rightarrow> if \<not> py_eq prior replacement then [path] else [])"
  by pat_completeness auto
termination
proof (relation "measure (\<lambda>(a, b, p). size a)", goal_cases)
  case (2 a b p x y ps rs i)
  then have "ps ! i \<in> set ps" by simp
  then show ?case using 2 size_list_estimation' [of "ps ! i" ps _ size] by fastforce
next
  case (3 a b p x y ps rs key c d v w)
  then show ?case using size_item [of ps key v] by clarsimp
qed simp

declare changed_paths.simps [simp del]

definition derive_changed_measurement_node_ids :: "json \<Rightarrow> json \<Rightarrow> string list" where
  "derive_changed_measurement_node_ids prior replacement =
     sort (remdups (changed_paths prior replacement ''measurement_design''))"

definition measurement_paths_overlap :: "string \<Rightarrow> string \<Rightarrow> bool" where
  "measurement_paths_overlap left right \<longleftrightarrow>
     left = right \<or>
     take (length (right @ ''.'')) left = right @ ''.'' \<or>
     take (length (left @ ''.'')) right = left @ ''.''"

section \<open>Exactness\<close>

lemma concat_map_Nil: "concat (map f xs) = [] \<longleftrightarrow> (\<forall>x \<in> set xs. f x = [])"
  by (induction xs) simp_all

lemma changed_paths_list:
  "changed_paths (JList ps) (JList rs) p = [] \<longleftrightarrow> length ps = length rs \<and>
     (\<forall>i < length ps. changed_paths (ps ! i) (rs ! i) (sub_path p (show_nat i)) = [])"
  (is "?l \<longleftrightarrow> ?r")
proof -
  let ?c = "\<lambda>i. changed_paths (ps ! i) (rs ! i) (sub_path p (show_nat i))"
  have "(if i \<ge> length ps \<or> i \<ge> length rs then [sub_path p (show_nat i)] else ?c i) = [] \<longleftrightarrow>
      i < length ps \<and> i < length rs \<and> ?c i = []" for i by simp
  moreover have "?l \<longleftrightarrow> (\<forall>i \<in> set [0..<max (length ps) (length rs)].
      (if i \<ge> length ps \<or> i \<ge> length rs then [sub_path p (show_nat i)] else ?c i) = [])"
    by (subst changed_paths.simps) (simp only: concat_map_Nil json_type.simps json.case prod.case if_False not_True_eq_False simp_thms)
  ultimately have "?l \<longleftrightarrow> (\<forall>i \<in> set [0..<max (length ps) (length rs)].
      i < length ps \<and> i < length rs \<and> ?c i = [])" by simp
  also have "\<dots> \<longleftrightarrow> ?r"
  proof (cases "length ps = length rs")
    case False
    then have "min (length ps) (length rs) \<in> set [0..<max (length ps) (length rs)]" by simp
    then show ?thesis using False by fastforce
  qed (simp add: Ball_def)
  finally show ?thesis .
qed

lemma same_domain_iff:
  "(\<forall>k \<in> dom f \<union> dom g. \<exists>v w. f k = Some v \<and> g k = Some w \<and> P k v w) \<longleftrightarrow>
     dom f = dom g \<and> (\<forall>k v w. f k = Some v \<longrightarrow> g k = Some w \<longrightarrow> P k v w)"
  (is "?l \<longleftrightarrow> ?r")
proof
  assume l: ?l
  have "dom f = dom g" using l by blast
  moreover have "P k v w" if "f k = Some v" "g k = Some w" for k v w
    using bspec [OF l, of k] that by auto
  ultimately show ?r by blast
next
  assume r: ?r
  show ?l
  proof
    fix k assume "k \<in> dom f \<union> dom g"
    then obtain v w where "f k = Some v" "g k = Some w" using r by blast
    then show "\<exists>v w. f k = Some v \<and> g k = Some w \<and> P k v w" using r by blast
  qed
qed

lemma changed_paths_obj:
  "changed_paths (JObj ps) (JObj rs) p = [] \<longleftrightarrow> dom (map_of ps) = dom (map_of rs) \<and>
     (\<forall>k v w. map_of ps k = Some v \<longrightarrow> map_of rs k = Some w \<longrightarrow> changed_paths v w (sub_path p k) = [])"
  (is "?l \<longleftrightarrow> ?r")
proof -
  let ?c = "\<lambda>k. case (map_of ps k, map_of rs k) of
      (Some v, Some w) \<Rightarrow> changed_paths v w (sub_path p k) | _ \<Rightarrow> [sub_path p k]"
  have c: "?c k = [] \<longleftrightarrow> (\<exists>v w. map_of ps k = Some v \<and> map_of rs k = Some w \<and>
      changed_paths v w (sub_path p k) = [])" for k
    by (simp split: option.split)
  have "?l \<longleftrightarrow> (\<forall>k \<in> set (sort (remdups (map fst ps @ map fst rs))). ?c k = [])"
    by (subst changed_paths.simps) (simp only: concat_map_Nil json_type.simps json.case prod.case if_False not_True_eq_False simp_thms)
  also have "\<dots> \<longleftrightarrow> (\<forall>k \<in> dom (map_of ps) \<union> dom (map_of rs). \<exists>v w. map_of ps k = Some v \<and>
      map_of rs k = Some w \<and> changed_paths v w (sub_path p k) = [])"
    unfolding c by (simp add: dom_map_of_conv_image_fst)
  also have "\<dots> \<longleftrightarrow> ?r" by (rule same_domain_iff)
  finally show ?thesis .
qed

text \<open>A value as \<open>to_jsonable\<close> returns it: sequences are lists.\<close>

fun lists_only :: "json \<Rightarrow> bool" where
  "lists_only (JList xs) = list_all lists_only xs"
| "lists_only (JTuple xs) = False"
| "lists_only (JObj kvs) = list_all (\<lambda>kv. lists_only (snd kv)) kvs"
| "lists_only v = True"

text \<open>Two frozen objects are the same when they have the same keys and the same frozen items.\<close>

lemma frozen_item:
  assumes "freeze_json (JObj kvs) = Inr (JObj ys)"
  shows "distinct (map fst ys)" "sorted (map fst ys)" "distinct (map fst kvs)"
    "rel_option (\<lambda>v w. freeze_json v = Inr w) (map_of kvs k) (map_of ys k)"
proof -
  have d: "distinct (map fst kvs)" and
    r: "list_all2 (\<lambda>x y. fst y = fst x \<and> freeze_json (snd x) = Inr (snd y)) (sort_key fst kvs) ys"
    using assms unfolding freeze_object_items by auto
  have f: "map fst ys = map fst (sort_key fst kvs)" using list_all2_same_fst [OF r] .
  show "distinct (map fst ys)" "sorted (map fst ys)" "distinct (map fst kvs)"
    using d by (simp_all add: f)
  have "map_of (sort_key fst kvs) = map_of kvs"
    using d by (intro map_of_inject_set [THEN iffD2]) simp_all
  moreover have "rel_option (\<lambda>v w. freeze_json v = Inr w) (map_of (sort_key fst kvs) k) (map_of ys k)"
    using r by (induction rule: list_all2_induct) (auto split: prod.splits)
  ultimately show "rel_option (\<lambda>v w. freeze_json v = Inr w) (map_of kvs k) (map_of ys k)" by simp
qed

lemma rel_option_iff_dom:
  assumes "\<And>k. rel_option R (f k) (g k)"
  shows "dom f = dom g"
proof -
  have "f k = None \<longleftrightarrow> g k = None" for k using assms [of k] by (cases "f k"; cases "g k") simp_all
  then show ?thesis by (auto simp: dom_def)
qed

lemma same_items:
  assumes "distinct (map fst xs)" "sorted (map fst xs)" "distinct (map fst ys)" "sorted (map fst ys)"
  shows "xs = ys \<longleftrightarrow> map_of xs = map_of ys"
proof
  assume "map_of xs = map_of ys"
  then have e: "set xs = set ys" using assms by (simp add: map_of_inject_set)
  moreover have "inj_on fst (set xs \<union> set ys)" using assms e by (simp add: distinct_map)
  ultimately show "xs = ys" using assms
    by (intro map_sorted_distinct_set_unique [of fst xs ys]) simp_all
qed simp

lemma frozen_type:
  assumes "freeze_json v = Inr w"
  shows "json_type w = (if json_type v = 5 then 6 else json_type v)"
proof (cases v)
  case (JObj kvs)
  then show ?thesis using assms unfolding JObj freeze_object_items by auto
next
  case (JFloat f)
  then show ?thesis using assms by (cases f) auto
qed (use assms in \<open>auto simp: result_simps\<close>)

lemma lists_only_type: "lists_only v \<Longrightarrow> json_type v \<noteq> 6"
  by (cases v) simp_all

lemma changed_paths_type: "json_type a \<noteq> json_type b \<Longrightarrow> changed_paths a b p = [p]"
  by (simp add: changed_paths.simps)

lemma changed_paths_atom:
  "json_type a = json_type b \<Longrightarrow> json_type a \<notin> {5, 7} \<Longrightarrow>
     changed_paths a b p = (if py_eq a b then [] else [p])"
  by (cases a; cases b) (simp_all add: changed_paths.simps)

lemma frozen_atom: "freeze_json v = Inr w \<Longrightarrow> json_type v \<notin> {5, 6, 7} \<Longrightarrow> w = v"
  by (cases "(v, ())" rule: prod.exhaust, cases v) (auto elim: freeze_json.elims)

lemma py_eq_atom: "json_type a = json_type b \<Longrightarrow> json_type a \<notin> {5, 6, 7} \<Longrightarrow> py_eq a b \<longleftrightarrow> a = b"
  by (cases a; cases b) (simp_all add: py_eq_def)

lemma changed_paths_exact_atom:
  assumes "freeze_json a = Inr x" "freeze_json b = Inr y" "lists_only b" "json_type a \<notin> {5, 6, 7}"
  shows "changed_paths a b p = [] \<longleftrightarrow> x = y"
proof (cases "json_type a = json_type b")
  case True
  then have "json_type b \<notin> {5, 6, 7}" using assms by simp
  then show ?thesis using frozen_atom [OF assms(1,4)] frozen_atom [OF assms(2)] assms True
    by (simp add: changed_paths_atom py_eq_atom)
next
  case False
  then show ?thesis using frozen_type [OF assms(1)] frozen_type [OF assms(2)] assms lists_only_type
    by (auto simp: changed_paths_type split: if_splits)
qed

lemma changed_paths_exact:
  assumes "freeze_json a = Inr x" "freeze_json b = Inr y" "lists_only a" "lists_only b"
  shows "changed_paths a b p = [] \<longleftrightarrow> x = y"
  using assms
proof (induction a arbitrary: b x y p)
  case (JList as)
  show ?case
  proof (cases "\<exists>bs. b = JList bs")
    case False
    then have "json_type b \<noteq> 5" by (cases b) simp_all
    moreover have "json_type b \<noteq> 6" using JList.prems(4) by (rule lists_only_type)
    ultimately have "x \<noteq> y"
      using frozen_type [OF JList.prems(1)] frozen_type [OF JList.prems(2)] by auto
    then show ?thesis using \<open>json_type b \<noteq> 5\<close> by (simp add: changed_paths_type)
  next
    case True
    then obtain bs where b: "b = JList bs" by blast
    obtain xs where x: "x = JTuple xs" and xs: "list_all2 (\<lambda>v w. freeze_json v = Inr w) as xs"
      using JList.prems(1) by (auto simp: result_simps sequenceR_rel)
    obtain ys where y: "y = JTuple ys" and ys: "list_all2 (\<lambda>v w. freeze_json v = Inr w) bs ys"
      using JList.prems(2) by (auto simp: b result_simps sequenceR_rel)
    have "changed_paths (as ! i) (bs ! i) q = [] \<longleftrightarrow> xs ! i = ys ! i"
      if "i < length as" "length as = length bs" for i q
      using JList.IH [of "as ! i"] that JList.prems(3,4) xs ys
      by (simp add: b list_all2_conv_all_nth list_all_length)
    note items = this
    have len: "length xs = length as" "length ys = length bs"
      using list_all2_lengthD [OF xs] list_all2_lengthD [OF ys] by simp_all
    show ?thesis
    proof (cases "length as = length bs")
      case True
      have "changed_paths a b p = [] \<longleftrightarrow> xs = ys" if "a = JList as" for a
        unfolding that b changed_paths_list list_eq_iff_nth_eq [of xs] len
        using items [OF _ True] True by simp
      then show ?thesis by (simp add: x y)
    next
      case False
      have "xs \<noteq> ys" using False len by auto
      then show ?thesis using False by (simp add: x y b changed_paths_list)
    qed
  qed
next
  case (JObj as)
  show ?case
  proof (cases "\<exists>bs. b = JObj bs")
    case False
    then have "json_type b \<noteq> 7" by (cases b) simp_all
    then show ?thesis using frozen_type [OF JObj.prems(1)] frozen_type [OF JObj.prems(2)]
      by (auto simp: changed_paths_type split: if_splits)
  next
    case True
    then obtain bs where b: "b = JObj bs" by blast
    obtain xs where x: "x = JObj xs" using JObj.prems(1) unfolding freeze_object_items by blast
    obtain ys where y: "y = JObj ys" using JObj.prems(2) unfolding b freeze_object_items by blast
    note fx = frozen_item [OF JObj.prems(1) [unfolded x]]
    note fy = frozen_item [OF JObj.prems(2) [unfolded y b]]
    have items: "changed_paths v w q = [] \<longleftrightarrow> map_of xs k = map_of ys k"
      if v: "map_of as k = Some v" and w: "map_of bs k = Some w" for k v w q
    proof -
      obtain v' w' where f: "map_of xs k = Some v'" "freeze_json v = Inr v'"
        "map_of ys k = Some w'" "freeze_json w = Inr w'"
        using fx(4) [of k] fy(4) [of k] v w by (auto simp: option_rel_Some1)
      have m: "(k, v) \<in> set as" "(k, w) \<in> set bs" using v w by (simp_all add: map_of_SomeD)
      then have "lists_only v" "lists_only w" using JObj.prems(3,4) by (auto simp: b list_all_iff)
      then show ?thesis using JObj.IH [OF m(1) _ f(2,4)] f by simp
    qed
    have dom: "dom (map_of as) = dom (map_of xs)" "dom (map_of bs) = dom (map_of ys)"
      using rel_option_iff_dom fx(4) fy(4) by blast+
    have "changed_paths (JObj as) (JObj bs) p = [] \<longleftrightarrow> map_of xs = map_of ys"
    proof
      assume "changed_paths (JObj as) (JObj bs) p = []"
      then have d: "dom (map_of as) = dom (map_of bs)"
        and e: "\<And>k v w. map_of as k = Some v \<Longrightarrow> map_of bs k = Some w \<Longrightarrow> map_of xs k = map_of ys k"
        using items by (auto simp: changed_paths_obj)
      show "map_of xs = map_of ys"
      proof
        fix k show "map_of xs k = map_of ys k"
        proof (cases "k \<in> dom (map_of as)")
          case True
          then show ?thesis using d e by blast
        next
          case False
          then have "k \<notin> dom (map_of xs)" "k \<notin> dom (map_of ys)" using d dom by simp_all
          then show ?thesis by (simp add: domIff)
        qed
      qed
    next
      assume "map_of xs = map_of ys"
      then show "changed_paths (JObj as) (JObj bs) p = []"
        using items dom by (simp add: changed_paths_obj)
    qed
    then show ?thesis by (simp add: x y b same_items [OF fx(1,2) fy(1,2)])
  qed
qed (erule (1) changed_paths_exact_atom; simp)+

text \<open>The order of the two designs does not matter.\<close>

lemma changed_paths_items:
  "changed_paths (JList ps) (JList rs) path =
     concat (map (\<lambda>i. if i \<ge> length ps \<or> i \<ge> length rs then [sub_path path (show_nat i)]
            else changed_paths (ps ! i) (rs ! i) (sub_path path (show_nat i)))
       [0..<max (length ps) (length rs)])"
  "changed_paths (JObj ks) (JObj ls) path =
     concat (map (\<lambda>key. case (map_of ks key, map_of ls key) of
           (Some p, Some r) \<Rightarrow> changed_paths p r (sub_path path key)
         | _ \<Rightarrow> [sub_path path key]) (sort (remdups (map fst ks @ map fst ls))))"
  by (subst changed_paths.simps, simp)+

lemma changed_paths_sym_atom:
  assumes "json_type a \<notin> {5, 7}"
  shows "changed_paths a b p = changed_paths b a p"
proof (cases "json_type a = json_type b")
  case True
  then show ?thesis using changed_paths_atom [of a b p] changed_paths_atom [of b a p] assms
    by (simp add: py_eq_def eq_commute)
next
  case False
  then show ?thesis using changed_paths_type [of a b p] changed_paths_type [of b a p] by simp
qed

lemma changed_paths_sym: "changed_paths a b p = changed_paths b a p"
proof (induction a arbitrary: b p)
  case (JList as)
  show ?case
  proof (cases "\<exists>bs. b = JList bs")
    case True
    then obtain bs where b: "b = JList bs" by blast
    show ?thesis unfolding b changed_paths_items max.commute [of "length as"]
      by (intro arg_cong [of _ _ concat] map_cong refl) (auto intro!: JList.IH)
  next
    case False
    then have "json_type b \<noteq> json_type (JList as)" by (cases b) simp_all
    then show ?thesis by (metis changed_paths_type)
  qed
next
  case (JObj as)
  show ?case
  proof (cases "\<exists>bs. b = JObj bs")
    case True
    then obtain bs where b: "b = JObj bs" by blast
    have keys: "sort (remdups (map fst as @ map fst bs)) = sort (remdups (map fst bs @ map fst as))"
      by (rule sorted_distinct_set_unique) (auto simp: sup_commute)
    have items: "changed_paths v w q = changed_paths w v q" if "map_of as k = Some v" for k v w q
      using JObj.IH [of "(k, v)" v] map_of_SomeD [OF that] by simp
    show ?thesis unfolding b changed_paths_items keys
      by (intro arg_cong [of _ _ concat] map_cong refl) (auto split: option.split intro!: items)
  next
    case False
    then have "json_type b \<noteq> json_type (JObj as)" by (cases b) simp_all
    then show ?thesis by (metis changed_paths_type)
  qed
qed (rule changed_paths_sym_atom, simp)+

text \<open>
  C40: The changed nodes of two measurement designs are exact.  None is reported if and only if the
  two designs freeze to the same value, and so have the same content digest; and the designs may be
  given in either order.
\<close>

theorem changed_nodes_exact:
  assumes "freeze_json a = Inr x" "freeze_json b = Inr y" "lists_only a" "lists_only b"
  shows "(derive_changed_measurement_node_ids a b = [] \<longleftrightarrow> x = y) \<and>
    (derive_changed_measurement_node_ids a b = [] \<longrightarrow> content_sha256 a = content_sha256 b) \<and>
    derive_changed_measurement_node_ids b a = derive_changed_measurement_node_ids a b"
proof -
  have e: "derive_changed_measurement_node_ids a b = [] \<longleftrightarrow> x = y"
    using changed_paths_exact [OF assms]
    by (simp add: derive_changed_measurement_node_ids_def flip: set_empty)
  moreover have "content_sha256 v = Inr (digest w)" if "freeze_json v = Inr w" for v w
    using freeze_digest [OF that] content_sha256_jsonable by simp
  moreover have "changed_paths b a q = changed_paths a b q" for q by (rule changed_paths_sym)
  ultimately show ?thesis using assms(1,2) by (simp add: derive_changed_measurement_node_ids_def)
qed

lemma changed_nodes_exact_witness:
  "derive_changed_measurement_node_ids (JObj [(''grain'', JStr ''day''), (''windows'', JList [JInt 7])])
       (JObj [(''windows'', JList [JInt 7, JInt 28]), (''grain'', JStr ''day'')]) =
     [''measurement_design.windows.1''] \<and>
   freeze_json (JObj [(''grain'', JStr ''day''), (''windows'', JList [JInt 7])]) \<noteq>
     freeze_json (JObj [(''windows'', JList [JInt 7, JInt 28]), (''grain'', JStr ''day'')])"
proof -
  let ?a = "JObj [(''grain'', JStr ''day''), (''windows'', JList [JInt 7])]"
  let ?b = "JObj [(''windows'', JList [JInt 7, JInt 28]), (''grain'', JStr ''day'')]"
  have d: "derive_changed_measurement_node_ids ?a ?b = [''measurement_design.windows.1'']"
    by code_simp
  have "freeze_json ?a = Inr (JObj [(''grain'', JStr ''day''), (''windows'', JTuple [JInt 7])])"
    "freeze_json ?b = Inr (JObj [(''grain'', JStr ''day''), (''windows'', JTuple [JInt 7, JInt 28])])"
    by code_simp+
  then show ?thesis using changed_nodes_exact [of ?a _ ?b] d by simp
qed

end
