(* ===== verification/FrameReviewTypes.thy ===== *)
theory FrameReviewTypes imports MeasurementChanges AdoptionTypes begin

text \<open>
  The records of a frame on its way to acceptance (\<open>domain/runtime_amendment.py\<close>): the candidate
  the agent proposes, the review of the measurement reviewer with its objections, the closure of an
  objection by a later candidate, the proof that admits a frame, and the supersession of a candidate.
\<close>

definition runtime_string_tuple :: "string list \<Rightarrow> string \<Rightarrow> unit result" where
  "runtime_string_tuple vs field_name = checks [
     require (\<forall>v \<in> set vs. \<not> blank v) (ValueError (field_name @ '' must contain non-empty strings'')),
     require (distinct vs) (ValueError (field_name @ '' must be unique''))]"

lemma runtime_string_tuple_ok [simp, result_simps]:
  "runtime_string_tuple vs n = Inr u \<longleftrightarrow> (\<forall>v \<in> set vs. \<not> blank v) \<and> distinct vs"
  by (simp add: runtime_string_tuple_def)

section \<open>Candidates\<close>

record FrameCandidateRecord =
  fc_frame_candidate_id :: string
  fc_case_id :: string
  fc_message_binding_id :: string
  fc_question_revision_id :: string
  fc_proposed_frame_revision_id :: string
  fc_proposed_frame_content_sha256 :: string
  fc_proposed_frame :: FrameView
  fc_candidate_generation :: int
  fc_prior_frame_candidate_id :: "string option"
  fc_addressed_objection_ids :: "string list"
  fc_authority_epoch :: int
  fc_source_action_id :: string
  fc_source_operation_id :: string
  fc_review_job_id :: string
  fc_created_at :: datetime

definition check_frame_candidate :: "FrameCandidateRecord \<Rightarrow> unit result" where
  "check_frame_candidate c = checks [
     require_nonempty (fc_frame_candidate_id c) ''frame_candidate_id'',
     require_nonempty (fc_case_id c) ''case_id'',
     require_nonempty (fc_message_binding_id c) ''message_binding_id'',
     require_nonempty (fc_question_revision_id c) ''question_revision_id'',
     require_nonempty (fc_proposed_frame_revision_id c) ''proposed_frame_revision_id'',
     require_nonempty (fc_source_action_id c) ''source_action_id'',
     require_nonempty (fc_source_operation_id c) ''source_operation_id'',
     require_nonempty (fc_review_job_id c) ''review_job_id'',
     require_sha256 (fc_proposed_frame_content_sha256 c) ''proposed_frame_content_sha256'',
     require (fr_frame_revision_id (fc_proposed_frame c) = fc_proposed_frame_revision_id c \<and>
              fr_content_sha256 (fc_proposed_frame c) = fc_proposed_frame_content_sha256 c \<and>
              fr_case_id (fc_proposed_frame c) = fc_case_id c)
       (ValueError ''candidate Frame identity does not match its envelope''),
     require (\<not> fc_candidate_generation c < 1) (ValueError ''candidate_generation must be positive''),
     if fc_candidate_generation c = 1
     then checks [
       require (fc_prior_frame_candidate_id c = None)
         (ValueError ''first candidate cannot have a prior candidate''),
       require (fc_addressed_objection_ids c = [])
         (ValueError ''first candidate cannot close prior objections'')]
     else require (fc_prior_frame_candidate_id c \<noteq> None)
       (ValueError ''later candidate requires prior candidate''),
     when_some (fc_prior_frame_candidate_id c) (\<lambda>v. require_nonempty v ''prior_frame_candidate_id''),
     runtime_string_tuple (fc_addressed_objection_ids c) ''addressed_objection_ids'',
     require (\<not> fc_authority_epoch c < 1) (ValueError ''authority_epoch must be positive''),
     require_aware_datetime (fc_created_at c) ''created_at'']"

record FrameCandidateSupersessionRecord =
  fs_supersession_record_id :: string
  fs_case_id :: string
  fs_frame_candidate_id :: string
  fs_superseded_by_question_revision_id :: string
  fs_source_operation_id :: string
  fs_authority_epoch :: int
  fs_reason_code :: string
  fs_created_at :: datetime

definition check_supersession :: "FrameCandidateSupersessionRecord \<Rightarrow> unit result" where
  "check_supersession r = checks [
     require_nonempty (fs_supersession_record_id r) ''supersession_record_id'',
     require_nonempty (fs_case_id r) ''case_id'',
     require_nonempty (fs_frame_candidate_id r) ''frame_candidate_id'',
     require_nonempty (fs_superseded_by_question_revision_id r) ''superseded_by_question_revision_id'',
     require_nonempty (fs_source_operation_id r) ''source_operation_id'',
     require_nonempty (fs_reason_code r) ''reason_code'',
     require (\<not> fs_authority_epoch r < 1) (ValueError ''authority_epoch must be positive''),
     require_aware_datetime (fs_created_at r) ''created_at'']"

section \<open>Reviews\<close>

datatype FrameReviewDisposition = ReviewAccept | ReviewRevise | ReviewBlock

fun review_disposition_value :: "FrameReviewDisposition \<Rightarrow> string" where
  "review_disposition_value ReviewAccept = ''accept''"
| "review_disposition_value ReviewRevise = ''revise''"
| "review_disposition_value ReviewBlock = ''block''"

datatype MeasurementObjectionSeverity = Advisory | Material | Blocking

fun severity_value :: "MeasurementObjectionSeverity \<Rightarrow> string" where
  "severity_value Advisory = ''advisory''"
| "severity_value Material = ''material''"
| "severity_value Blocking = ''blocking''"

record MeasurementReviewObjection =
  mo_objection_id :: string
  mo_code :: string
  mo_severity :: MeasurementObjectionSeverity
  mo_affected_node_ids :: "string list"
  mo_explanation :: string

definition check_review_objection :: "MeasurementReviewObjection \<Rightarrow> unit result" where
  "check_review_objection b = checks [
     require_nonempty (mo_objection_id b) ''objection_id'',
     require_nonempty (mo_code b) ''code'',
     require_nonempty (mo_explanation b) ''explanation'',
     runtime_string_tuple (mo_affected_node_ids b) ''affected_node_ids'']"

definition objection_blocks :: "MeasurementReviewObjection \<Rightarrow> bool" where
  "objection_blocks b \<longleftrightarrow> mo_severity b = Blocking"

definition review_objection_json :: "MeasurementReviewObjection \<Rightarrow> json" where
  "review_objection_json b = JObj [
     (''objection_id'', JStr (mo_objection_id b)), (''code'', JStr (mo_code b)),
     (''severity'', JStr (severity_value (mo_severity b))),
     (''affected_node_ids'', strs (mo_affected_node_ids b)),
     (''explanation'', JStr (mo_explanation b))]"

definition review_objection_sha256 :: "MeasurementReviewObjection \<Rightarrow> string" where
  "review_objection_sha256 b = digest (review_objection_json b)"

record FrameReviewRecord =
  rw_frame_review_id :: string
  rw_frame_candidate_id :: string
  rw_reviewer_job_id :: string
  rw_authority_epoch :: int
  rw_disposition :: FrameReviewDisposition
  rw_objections :: "MeasurementReviewObjection list"
  rw_closure_proof_refs :: "string list"
  rw_reviewed_frame_content_sha256 :: string
  rw_logical_model_job_id :: string
  rw_created_at :: datetime

definition check_frame_review :: "FrameReviewRecord \<Rightarrow> unit result" where
  "check_frame_review r =
    (let blocked = (\<exists>b \<in> set (rw_objections r). objection_blocks b) in
     checks [
       require_nonempty (rw_frame_review_id r) ''frame_review_id'',
       require_nonempty (rw_frame_candidate_id r) ''frame_candidate_id'',
       require_nonempty (rw_reviewer_job_id r) ''reviewer_job_id'',
       require_nonempty (rw_logical_model_job_id r) ''logical_model_job_id'',
       require (\<not> rw_authority_epoch r < 1) (ValueError ''authority_epoch must be positive''),
       require (distinct (map mo_objection_id (rw_objections r)))
         (ValueError ''review objection IDs must be unique''),
       runtime_string_tuple (rw_closure_proof_refs r) ''closure_proof_refs'',
       require_sha256 (rw_reviewed_frame_content_sha256 r) ''reviewed_frame_content_sha256'',
       require (\<not> (rw_disposition r = ReviewAccept \<and> blocked))
         (ValueError ''a review cannot accept a candidate it currently blocks''),
       require (\<not> (rw_disposition r = ReviewBlock \<and> \<not> blocked))
         (ValueError ''blocking review requires a blocking objection''),
       require (\<not> (rw_disposition r = ReviewRevise \<and> rw_objections r = []))
         (ValueError ''revision review requires an objection''),
       require_aware_datetime (rw_created_at r) ''created_at''])"

definition frame_review_json :: "FrameReviewRecord \<Rightarrow> json" where
  "frame_review_json r = JObj [
     (''frame_review_id'', JStr (rw_frame_review_id r)),
     (''frame_candidate_id'', JStr (rw_frame_candidate_id r)),
     (''reviewer_job_id'', JStr (rw_reviewer_job_id r)),
     (''authority_epoch'', JInt (rw_authority_epoch r)),
     (''disposition'', JStr (review_disposition_value (rw_disposition r))),
     (''objections'', JTuple (map review_objection_json (rw_objections r))),
     (''closure_proof_refs'', strs (rw_closure_proof_refs r)),
     (''reviewed_frame_content_sha256'', JStr (rw_reviewed_frame_content_sha256 r)),
     (''logical_model_job_id'', JStr (rw_logical_model_job_id r)),
     (''created_at'', isoformat (rw_created_at r))]"

definition frame_review_sha256 :: "FrameReviewRecord \<Rightarrow> string" where
  "frame_review_sha256 r = digest (frame_review_json r)"

section \<open>Closures and admission proofs\<close>

record ObjectionClosureRecord =
  ol_objection_closure_id :: string
  ol_objection_id :: string
  ol_source_frame_review_id :: string
  ol_source_frame_candidate_id :: string
  ol_replacement_frame_candidate_id :: string
  ol_objection_content_sha256 :: string
  ol_changed_node_ids :: "string list"
  ol_closure_explanation :: string
  ol_derivation_proof_sha256 :: string
  ol_created_by_action_id :: string
  ol_created_at :: datetime

definition closure_derivation_json :: "ObjectionClosureRecord \<Rightarrow> json" where
  "closure_derivation_json c = JObj [
     (''kind'', JStr ''objection-closure-derivation.v1''),
     (''objection_id'', JStr (ol_objection_id c)),
     (''source_frame_review_id'', JStr (ol_source_frame_review_id c)),
     (''source_frame_candidate_id'', JStr (ol_source_frame_candidate_id c)),
     (''replacement_frame_candidate_id'', JStr (ol_replacement_frame_candidate_id c)),
     (''objection_content_sha256'', JStr (ol_objection_content_sha256 c)),
     (''changed_node_ids'', strs (ol_changed_node_ids c)),
     (''closure_explanation'', JStr (ol_closure_explanation c)),
     (''created_by_action_id'', JStr (ol_created_by_action_id c))]"

definition check_objection_closure :: "ObjectionClosureRecord \<Rightarrow> unit result" where
  "check_objection_closure c = checks [
     require_nonempty (ol_objection_closure_id c) ''objection_closure_id'',
     require_nonempty (ol_objection_id c) ''objection_id'',
     require_nonempty (ol_source_frame_review_id c) ''source_frame_review_id'',
     require_nonempty (ol_source_frame_candidate_id c) ''source_frame_candidate_id'',
     require_nonempty (ol_replacement_frame_candidate_id c) ''replacement_frame_candidate_id'',
     require_nonempty (ol_closure_explanation c) ''closure_explanation'',
     require_nonempty (ol_created_by_action_id c) ''created_by_action_id'',
     require (ol_source_frame_candidate_id c \<noteq> ol_replacement_frame_candidate_id c)
       (ValueError ''objection closure requires a replacement candidate''),
     require_sha256 (ol_objection_content_sha256 c) ''objection_content_sha256'',
     runtime_string_tuple (ol_changed_node_ids c) ''changed_node_ids'',
     require (ol_changed_node_ids c \<noteq> [])
       (ValueError ''objection closure requires a measured design change''),
     require_sha256 (ol_derivation_proof_sha256 c) ''derivation_proof_sha256'',
     require (ol_derivation_proof_sha256 c = digest (closure_derivation_json c))
       (ValueError ''objection closure derivation hash is stale''),
     require_aware_datetime (ol_created_at c) ''created_at'']"

record FrameAdmissionProof =
  fp_frame_admission_proof_id :: string
  fp_case_id :: string
  fp_frame_candidate_id :: string
  fp_candidate_generation :: int
  fp_frame_revision_id :: string
  fp_frame_content_sha256 :: string
  fp_frame_review_id :: string
  fp_frame_review_content_sha256 :: string
  fp_objection_closure_record_ids :: "string list"
  fp_authority_snapshot :: AuthoritySnapshot
  fp_authority_snapshot_sha256 :: string
  fp_created_at :: datetime

definition check_admission_proof :: "FrameAdmissionProof \<Rightarrow> unit result" where
  "check_admission_proof p = checks [
     require_nonempty (fp_frame_admission_proof_id p) ''frame_admission_proof_id'',
     require_nonempty (fp_case_id p) ''case_id'',
     require_nonempty (fp_frame_candidate_id p) ''frame_candidate_id'',
     require_nonempty (fp_frame_revision_id p) ''frame_revision_id'',
     require_nonempty (fp_frame_review_id p) ''frame_review_id'',
     require (\<not> fp_candidate_generation p < 1) (ValueError ''candidate_generation must be positive''),
     require_sha256 (fp_frame_content_sha256 p) ''frame_content_sha256'',
     require_sha256 (fp_frame_review_content_sha256 p) ''frame_review_content_sha256'',
     require_sha256 (fp_authority_snapshot_sha256 p) ''authority_snapshot_sha256'',
     runtime_string_tuple (fp_objection_closure_record_ids p) ''objection_closure_record_ids'',
     require (authority_sha256 (fp_authority_snapshot p) = fp_authority_snapshot_sha256 p)
       (ValueError ''authority snapshot hash is stale or forged''),
     require (au_case_id (fp_authority_snapshot p) = fp_case_id p)
       (ValueError ''authority snapshot belongs to another case''),
     require_aware_datetime (fp_created_at p) ''created_at'']"

lemma review_digests [simp]:
  "is_sha256 (review_objection_sha256 b)" "is_sha256 (frame_review_sha256 r)"
  by (simp_all add: review_objection_sha256_def frame_review_sha256_def)

end
