(* ===== verification/StoreTypes.thy ===== *)
theory StoreTypes imports ControllerTypes FrameReviewTypes WorkflowTheorems ObligationWorkers begin

text \<open>
  The state of \<open>InMemoryAuthorityStore\<close> (\<open>storage/in_memory.py\<close>) and the helpers its methods share.

  Every method takes the store's lock for its whole body, so a method is one step of the store: a
  \<open>prog\<close> that returns its result together with the store as it leaves it, also when it raises.  A
  table is a dict; \<open>_clock\<close> is the argument \<open>now\<close> of the methods that read it.
\<close>

section \<open>Tables\<close>

type_synonym 'v table = "(string \<times> 'v) list"

text \<open>\<open>repr\<close> of an identifier, in the text of an error.\<close>

definition py_repr :: "string \<Rightarrow> string" where
  "py_repr s = CHR 0x27 # s @ [CHR 0x27]"

definition get_row :: "'v table \<Rightarrow> string \<Rightarrow> string \<Rightarrow> 'v result" where
  "get_row d k label =
     (case map_of d k of
        Some v \<Rightarrow> Inr v
      | None \<Rightarrow> Inl (AuthorityNotFound (label @ '' '' @ py_repr k @ '' does not exist'')))"

text \<open>\<open>d[k]\<close>, which raises when the key is absent.\<close>

definition subscript :: "('k \<times> 'v) list \<Rightarrow> 'k \<Rightarrow> 'v result" where
  "subscript d k = (case map_of d k of Some v \<Rightarrow> Inr v | None \<Rightarrow> Inl (KeyError ''''))"

text \<open>
  Two records are equal under \<open>==\<close> when their forms are the same; the form of a record without a
  JSON payload is the record.
\<close>

definition put_immutable ::
    "('v \<Rightarrow> 'w) \<Rightarrow> 'v table \<Rightarrow> string \<Rightarrow> 'v \<Rightarrow> string \<Rightarrow> 'v table result" where
  "put_immutable form d k v label =
     (case map_of d k of
        None \<Rightarrow> Inr (AList.update k v d)
      | Some v' \<Rightarrow>
          Inl (AuthorityConflict (if form v' = form v
                 then label @ '' was already persisted under another event''
                 else label @ '' ID already has different content'')))"

definition put_idempotent_immutable ::
    "('v \<Rightarrow> 'w) \<Rightarrow> 'v table \<Rightarrow> string \<Rightarrow> 'v \<Rightarrow> string \<Rightarrow> 'v table result" where
  "put_idempotent_immutable form d k v label =
     (case map_of d k of
        None \<Rightarrow> Inr (AList.update k v d)
      | Some v' \<Rightarrow>
          if form v' = form v then Inr d
          else Inl (AuthorityConflict (label @ '' ID already has different content'')))"

definition mailbox_form :: "MailboxMessage \<Rightarrow> MailboxMessage" where
  "mailbox_form m = m\<lparr>mm_payload := eq_form (mm_payload m)\<rparr>"

definition outbox_form :: "OutboxMessage \<Rightarrow> OutboxMessage" where
  "outbox_form m = m\<lparr>om_payload := eq_form (om_payload m)\<rparr>"

definition receipt_form :: "ActionReceipt \<Rightarrow> ActionReceipt" where
  "receipt_form r = r\<lparr>ar_result_payload := eq_form (ar_result_payload r)\<rparr>"

definition checkpoint_form :: "CheckpointRecord \<Rightarrow> CheckpointRecord" where
  "checkpoint_form c = c\<lparr>ck_state_payload := eq_form (ck_state_payload c)\<rparr>"

definition event_form :: "EventJournalEntry \<Rightarrow> EventJournalEntry" where
  "event_form e = e\<lparr>ev_payload := eq_form (ev_payload e),
     ev_customer_projection := map_option eq_form (ev_customer_projection e)\<rparr>"

definition attempt_form :: "EffectAttemptRecord \<Rightarrow> EffectAttemptRecord" where
  "attempt_form a = a\<lparr>ea_result_payload := map_option eq_form (ea_result_payload a)\<rparr>"

definition provider_receipt_form :: "ProviderAttemptReceipt \<Rightarrow> ProviderAttemptReceipt" where
  "provider_receipt_form r = r\<lparr>pt_usage_payload := eq_form (pt_usage_payload r)\<rparr>"

definition model_result_form :: "DurableModelResult \<Rightarrow> DurableModelResult" where
  "model_result_form r = r\<lparr>dm_result_payload := eq_form (dm_result_payload r)\<rparr>"

section \<open>The state\<close>

text \<open>
  The attributes that the methods below read of records whose own modules are not modelled: context
  packets, persisted actions, evidence and its validity, objections and decisions.  A packet, an
  action, a frame and an answer carry the digest of their content, so that equal views are equal
  records.
\<close>

record ContextPacketView =
  pk_packet_id :: string
  pk_case_id :: string
  pk_head_version :: int
  pk_content_sha256 :: string

record ActionView =
  av_action_id :: string
  av_case_id :: string
  av_idempotency_key :: string
  av_content_sha256 :: string
  av_proposal_sha256 :: string
  av_recorded_at :: datetime

record Store =
  st_cases :: "InvestigationCase table"
  st_events :: "EventJournalEntry list table"
  st_events_by_id :: "EventJournalEntry table"
  st_mailbox_heads :: "MailboxHead table"
  st_mailbox_messages :: "MailboxMessage table"
  st_message_ingress_records :: "MessageIngressRecord table"
  st_pending_user_messages :: "PendingUserMessage table"
  st_questions :: "QuestionRevision table"
  st_frames :: "FrameView table"
  st_plans :: "WorkPlanRevision table"
  st_plan_adoptions :: "PlanAdoptionRecord table"
  st_plan_adoption_by_plan :: "string table"
  st_query_bindings :: "QueryBindingEnvelope table"
  st_resolution_outcomes :: "MeasurementResolutionOutcome table"
  st_resolution_admissions :: "MeasurementResolutionAdmission table"
  st_evidence_obligations :: "ResolvedEvidenceObligation table"
  st_evidence_cases :: "string table"
  st_evidence_validity :: "string table"
  st_obligation_satisfaction :: "ObligationSatisfactionRecord table"
  st_answers :: "AnswerView table"
  st_objection_cases :: "string table"
  st_decision_cases :: "string table"
  st_frame_candidates :: "FrameCandidateRecord table"
  st_active_frame_candidate_ids :: "string table"
  st_frame_candidate_supersessions :: "FrameCandidateSupersessionRecord table"
  st_frame_reviews :: "FrameReviewRecord table"
  st_objection_closures :: "ObjectionClosureRecord table"
  st_frame_admission_proofs :: "FrameAdmissionProof table"
  st_frame_admission_proof_by_frame :: "string table"
  st_actions :: "ActionView table"
  st_action_idempotency_keys :: "((string \<times> string) \<times> string) list"
  st_contexts :: "ContextPacketView table"
  st_receipts :: "((string \<times> string) \<times> ActionReceipt) list"
  st_receipt_action_ids :: "(string \<times> string) table"
  st_checkpoints :: "CheckpointRecord table"
  st_checkpoint_event_keys :: "((string \<times> int) \<times> string) list"
  st_outbox :: "OutboxMessage table"
  st_job_dispositions :: "JobDispositionRecord table"
  st_dispatcher_recovery_cursors :: "DispatcherRecoveryCursor table"
  st_job_leases :: "JobLease table"
  st_job_lease_tokens :: "int table"
  st_leases :: "ControllerLease table"
  st_lease_tokens :: "int table"
  st_logical_model_jobs :: "LogicalModelJob table"
  st_provider_attempt_requests :: "ProviderAttemptRequest table"
  st_provider_attempt_receipts :: "ProviderAttemptReceipt table"
  st_durable_model_results :: "DurableModelResult table"
  st_obligation_schedules :: "ObligationScheduleRecord table"
  st_obligation_dispatch_records :: "ObligationDispatchRecord table"
  st_obligation_completion_records :: "ObligationCompletionRecord table"
  st_obligation_schedule_checkpoints :: "ObligationScheduleCheckpoint table"
  st_effect_attempts :: "EffectAttemptRecord table"
  st_workflow_read_models :: "WorkflowReadModel table"

end
