(* ===== verification/StoreJournal.thy ===== *)
theory StoreJournal imports StoreTypes begin

text \<open>
  The journal, the cases and the mailbox of \<open>InMemoryAuthorityStore\<close>: \<open>_append_event_locked\<close> and its
  callers, \<open>open_case\<close>, \<open>transition_case_lifecycle\<close>, \<open>append_mailbox_message\<close> and the reads.
\<close>

section \<open>Operations of derived events\<close>

text \<open>\<open>a or b\<close> between optional strings.\<close>

definition py_or :: "string option \<Rightarrow> string \<Rightarrow> string" where
  "py_or v d = (if truthy v then the v else d)"

text \<open>A bool is an \<open>int\<close> in Python.\<close>

definition payload_head_version :: "json \<Rightarrow> int" where
  "payload_head_version payload =
     (case obj_get payload ''head_version'' of
        Some (JInt i) \<Rightarrow> i | Some (JBool b) \<Rightarrow> (if b then 1 else 0) | _ \<Rightarrow> 0)"

definition derived_event_operation ::
    "string \<Rightarrow> string \<Rightarrow> string option \<Rightarrow> string option \<Rightarrow> json \<Rightarrow> OperationIdentity result" where
  "derived_event_operation case_id event_id action_id authority_ref payload =
     bindR (content_sha256 payload) (\<lambda>d.
     construct check_operation
       \<lparr>oi_operation_id = py_or action_id (py_or authority_ref event_id),
        oi_idempotency_key = event_id, oi_causation_id = py_or action_id event_id,
        oi_correlation_id = case_id, oi_authority_revision = payload_head_version payload,
        oi_payload_sha256 = d\<rparr>)"

definition causal_event_operation ::
    "OperationIdentity \<Rightarrow> string \<Rightarrow> json \<Rightarrow> OperationIdentity result" where
  "causal_event_operation causal event_id payload =
     bindR (content_sha256 (operation_json causal)) (\<lambda>c.
     bindR (content_sha256 payload) (\<lambda>d.
     construct check_operation
       \<lparr>oi_operation_id = ''event-operation:'' @ event_id,
        oi_idempotency_key = ''event-key:'' @ event_id @ '':'' @ c,
        oi_causation_id = oi_operation_id causal, oi_correlation_id = oi_correlation_id causal,
        oi_authority_revision = oi_authority_revision causal, oi_payload_sha256 = d\<rparr>))"

definition event_operation ::
    "OperationIdentity option \<Rightarrow> string \<Rightarrow> json \<Rightarrow> OperationIdentity option result" where
  "event_operation operation event_id payload =
     (case operation of
        None \<Rightarrow> Inr None
      | Some p \<Rightarrow> bindR (causal_event_operation p event_id payload) (\<lambda>q. Inr (Some q)))"

section \<open>Appending an event\<close>

text \<open>The keyword arguments of \<open>_append_event_locked\<close> other than the expected cursor.\<close>

record EventDraft =
  ed_case_id :: string
  ed_event_id :: string
  ed_event_type :: JournalEventType
  ed_recorded_at :: datetime
  ed_action_id :: "string option"
  ed_authority_ref :: "string option"
  ed_payload :: json
  ed_customer_projection :: "json option"
  ed_operation :: "OperationIdentity option"

definition resolved_operation :: "EventDraft \<Rightarrow> OperationIdentity result" where
  "resolved_operation d =
     (case ed_operation d of
        Some p \<Rightarrow> Inr p
      | None \<Rightarrow> derived_event_operation (ed_case_id d) (ed_event_id d) (ed_action_id d)
                  (ed_authority_ref d) (ed_payload d))"

definition draft_entry :: "EventDraft \<Rightarrow> OperationIdentity \<Rightarrow> int \<Rightarrow> EventJournalEntry result" where
  "draft_entry d p cursor = make_event
     \<lparr>ev_event_id = ed_event_id d, ev_case_id = ed_case_id d, ev_cursor = cursor,
      ev_event_type = ed_event_type d, ev_recorded_at = ed_recorded_at d, ev_operation = p,
      ev_action_id = ed_action_id d, ev_authority_ref = ed_authority_ref d,
      ev_payload = ed_payload d, ev_customer_projection = ed_customer_projection d\<rparr>"

definition push_event :: "EventJournalEntry \<Rightarrow> EventJournalEntry list \<Rightarrow> Store \<Rightarrow> Store" where
  "push_event e es s =
     s\<lparr>st_events := AList.update (ev_case_id e) (es @ [e]) (st_events s),
       st_events_by_id := AList.update (ev_event_id e) e (st_events_by_id s)\<rparr>"

definition append_event_locked :: "int \<Rightarrow> EventDraft \<Rightarrow> (Store, EventJournalEntry) prog" where
  "append_event_locked expected d =
     bindP (readP (\<lambda>_. resolved_operation d)) (\<lambda>p.
     bindP (readP (\<lambda>s. Inr (map_of (st_events_by_id s) (ed_event_id d)))) (\<lambda>found.
       case found of
         Some existing \<Rightarrow>
           bindP (readP (\<lambda>_. draft_entry d p (ev_cursor existing))) (\<lambda>candidate.
             if event_form existing = event_form candidate then returnP existing
             else raiseP (AuthorityConflict ''event ID already has different content''))
       | None \<Rightarrow>
           bindP (readP (\<lambda>s. subscript (st_events s) (ed_case_id d))) (\<lambda>es.
             let actual = int (length es) + 1 in
             if expected \<noteq> actual
             then raiseP (AuthorityConflict
                    (''expected cursor '' @ show_int expected @ '', next is '' @ show_int actual))
             else bindP (readP (\<lambda>_. draft_entry d p actual)) (\<lambda>e.
                  bindP (writeP (push_event e es)) (\<lambda>_. returnP e)))))"

text \<open>The events of one case, appended by an authority transition.\<close>

definition append_authority_event_locked ::
    "string \<Rightarrow> string \<Rightarrow> JournalEventType \<Rightarrow> string \<Rightarrow> string option \<Rightarrow> datetime \<Rightarrow> json \<Rightarrow>
     OperationIdentity option \<Rightarrow> (Store, EventJournalEntry) prog" where
  "append_authority_event_locked case_id event_id event_type authority_ref action_id recorded_at
     payload operation =
     bindP (readP (\<lambda>_. event_operation operation event_id payload)) (\<lambda>p.
     bindP (readP (\<lambda>s. subscript (st_events s) case_id)) (\<lambda>es.
       append_event_locked (int (length es) + 1)
         \<lparr>ed_case_id = case_id, ed_event_id = event_id, ed_event_type = event_type,
          ed_recorded_at = recorded_at, ed_action_id = action_id,
          ed_authority_ref = Some authority_ref, ed_payload = payload,
          ed_customer_projection = Some (JObj [(''business_event'', JStr (event_type_value event_type)),
            (''authority_ref'', JStr authority_ref)]),
          ed_operation = p\<rparr>))"

section \<open>Cases\<close>

definition get_case :: "Store \<Rightarrow> string \<Rightarrow> InvestigationCase result" where
  "get_case s case_id = get_row (st_cases s) case_id ''case''"

definition cas_case :: "Store \<Rightarrow> string \<Rightarrow> int \<Rightarrow> InvestigationCase result" where
  "cas_case s case_id expected =
     bindR (get_case s case_id) (\<lambda>c.
       if ic_head_version c \<noteq> expected
       then Inl (StaleHead (''expected head version '' @ show_int expected @ '', current is '' @
              show_int (ic_head_version c)))
       else Inr c)"

definition idempotent_head_result ::
    "Store \<Rightarrow> string \<Rightarrow> JournalEventType \<Rightarrow> string \<Rightarrow> string \<Rightarrow> InvestigationCase option result" where
  "idempotent_head_result s event_id event_type authority_ref case_id =
     (case map_of (st_events_by_id s) event_id of
        None \<Rightarrow> Inr None
      | Some e \<Rightarrow>
          if ev_event_type e = event_type \<and> ev_authority_ref e = Some authority_ref \<and>
             ev_case_id e = case_id
          then bindR (get_case s case_id) (\<lambda>c. Inr (Some c))
          else Inl (AuthorityConflict ''event ID already has different content''))"

definition opened_case :: "string \<Rightarrow> string \<Rightarrow> datetime \<Rightarrow> InvestigationCase" where
  "opened_case case_id thread_id opened_at =
     \<lparr>ic_case_id = case_id, ic_thread_id = thread_id, ic_lifecycle = CaseOpen, ic_head_version = 0,
      ic_question_revision_id = None, ic_frame_revision_id = None, ic_plan_revision_id = None,
      ic_answer_version_id = None, ic_analysis_cycle_id = case_id @ '':cycle:0'',
      ic_opened_at = opened_at, ic_updated_at = opened_at\<rparr>"

definition open_case ::
    "string \<Rightarrow> string \<Rightarrow> string \<Rightarrow> datetime \<Rightarrow> OperationIdentity option \<Rightarrow>
     (Store, InvestigationCase) prog" where
  "open_case case_id thread_id event_id opened_at operation =
    (let payload = JObj [(''thread_id'', JStr thread_id)] in
     bindP (readP (\<lambda>s. Inr (map_of (st_events_by_id s) event_id))) (\<lambda>found.
       case found of
         Some e \<Rightarrow>
           if ev_event_type e = EvCaseOpened \<and> ev_case_id e = case_id \<and>
              obj_get (ev_payload e) ''thread_id'' = Some (JStr thread_id)
           then readP (\<lambda>s. get_case s case_id)
           else raiseP (AuthorityConflict ''event ID already has different content'')
       | None \<Rightarrow>
           bindP (readP (\<lambda>s. require (map_of (st_cases s) case_id = None)
                    (AuthorityConflict ''case ID already exists''))) (\<lambda>_.
           bindP (readP (\<lambda>_. construct check_case (opened_case case_id thread_id opened_at))) (\<lambda>c.
           bindP (writeP (\<lambda>s. s\<lparr>st_cases := AList.update case_id c (st_cases s),
                    st_events := AList.update case_id [] (st_events s)\<rparr>)) (\<lambda>_.
           bindP (readP (\<lambda>_. construct check_mailbox_head
                    \<lparr>mh_case_id = case_id, mh_last_sequence = 0, mh_authority_epoch = 0,
                     mh_updated_at = opened_at\<rparr>)) (\<lambda>h.
           bindP (writeP (\<lambda>s. s\<lparr>st_mailbox_heads := AList.update case_id h (st_mailbox_heads s)\<rparr>)) (\<lambda>_.
           bindP (readP (\<lambda>_. event_operation operation event_id payload)) (\<lambda>p.
           bindP (append_event_locked 1
                    \<lparr>ed_case_id = case_id, ed_event_id = event_id, ed_event_type = EvCaseOpened,
                     ed_recorded_at = opened_at, ed_action_id = None,
                     ed_authority_ref = Some case_id, ed_payload = payload,
                     ed_customer_projection = Some (JObj [(''state'', JStr ''open'')]),
                     ed_operation = p\<rparr>) (\<lambda>_.
             returnP c)))))))))"

definition terminal_lifecycle :: "InvestigationCase \<Rightarrow> bool" where
  "terminal_lifecycle c \<longleftrightarrow> ic_lifecycle c \<in> {CaseStopped, CaseClosed}"

definition transition_case_lifecycle ::
    "string \<Rightarrow> CaseLifecycle \<Rightarrow> int \<Rightarrow> string \<Rightarrow> string \<Rightarrow> datetime \<Rightarrow> OperationIdentity option \<Rightarrow>
     (Store, InvestigationCase) prog" where
  "transition_case_lifecycle case_id lifecycle expected event_id action_id recorded_at operation =
    (if lifecycle \<notin> {CaseStopped, CaseClosed}
     then raiseP (InvalidAuthorityTransition
            ''controller can only transition a case to a terminal lifecycle'')
     else
       let event_type = (if lifecycle = CaseStopped then EvCaseStopped else EvCaseClosed) in
       bindP (readP (\<lambda>s. idempotent_head_result s event_id event_type case_id case_id)) (\<lambda>found.
         case found of
           Some c \<Rightarrow> returnP c
         | None \<Rightarrow>
             bindP (readP (\<lambda>s. cas_case s case_id expected)) (\<lambda>c.
               if terminal_lifecycle c
               then raiseP (InvalidAuthorityTransition ''case is already terminal'')
               else bindP (readP (\<lambda>_. construct check_case
                      (c\<lparr>ic_lifecycle := lifecycle, ic_head_version := ic_head_version c + 1,
                         ic_updated_at := recorded_at\<rparr>))) (\<lambda>u.
                    bindP (writeP (\<lambda>s. s\<lparr>st_cases := AList.update case_id u (st_cases s)\<rparr>)) (\<lambda>_.
                    bindP (append_authority_event_locked case_id event_id event_type case_id
                             (Some action_id) recorded_at
                             (JObj [(''lifecycle'', JStr (lifecycle_value lifecycle)),
                                    (''head_version'', JInt (ic_head_version u))]) operation) (\<lambda>_.
                      returnP u))))))"

definition append_event :: "int \<Rightarrow> EventDraft \<Rightarrow> (Store, EventJournalEntry) prog" where
  "append_event expected d =
     bindP (readP (\<lambda>s. get_case s (ed_case_id d))) (\<lambda>_. append_event_locked expected d)"

definition list_events :: "Store \<Rightarrow> string \<Rightarrow> int \<Rightarrow> EventJournalEntry list result" where
  "list_events s case_id after =
     bindR (get_case s case_id) (\<lambda>_.
     bindR (subscript (st_events s) case_id) (\<lambda>es. Inr (filter (\<lambda>e. ev_cursor e > after) es)))"

definition require_event_cursor :: "Store \<Rightarrow> string \<Rightarrow> int \<Rightarrow> EventJournalEntry result" where
  "require_event_cursor s case_id cursor =
     bindR (get_case s case_id) (\<lambda>_.
     bindR (subscript (st_events s) case_id) (\<lambda>es.
       case List.find (\<lambda>e. ev_cursor e = cursor) es of
         Some e \<Rightarrow> Inr e
       | None \<Rightarrow> Inl (AuthorityNotFound (''event cursor '' @ show_int cursor @
                   '' does not exist for case '' @ py_repr case_id))))"

end
