(* ===== verification/StoreMailbox.thy ===== *)
theory StoreMailbox imports StoreJournal begin

text \<open>
  The mailbox of \<open>InMemoryAuthorityStore\<close>, the authority snapshot of a case, and the records of
  ingressed and pending messages.
\<close>

section \<open>The mailbox\<close>

definition get_mailbox_head :: "Store \<Rightarrow> string \<Rightarrow> MailboxHead result" where
  "get_mailbox_head s case_id =
     bindR (get_case s case_id) (\<lambda>_. subscript (st_mailbox_heads s) case_id)"

text \<open>A retry compares the given payload with the frozen one under \<open>==\<close>.\<close>

definition same_message_request ::
    "MailboxMessage \<Rightarrow> MailboxMessageKind \<Rightarrow> OperationIdentity \<Rightarrow> json \<Rightarrow> bool" where
  "same_message_request m kind operation payload \<longleftrightarrow>
     mm_kind m = kind \<and> mm_operation m = operation \<and> py_eq (mm_payload m) payload"

definition append_mailbox_message ::
    "string \<Rightarrow> string \<Rightarrow> MailboxMessageKind \<Rightarrow> OperationIdentity \<Rightarrow> json \<Rightarrow> datetime \<Rightarrow>
     (Store, MailboxMessage) prog" where
  "append_mailbox_message message_id case_id kind operation payload created_at =
     bindP (readP (\<lambda>s. get_case s case_id)) (\<lambda>_.
     bindP (readP (\<lambda>s. Inr (map_of (st_mailbox_messages s) message_id))) (\<lambda>existing.
       case existing of
         Some m \<Rightarrow>
           if mm_case_id m = case_id \<and> same_message_request m kind operation payload then returnP m
           else raiseP (AuthorityConflict ''mailbox message ID already has different content'')
       | None \<Rightarrow>
     bindP (readP (\<lambda>s. Inr (List.find (\<lambda>m. mm_case_id m = case_id \<and>
              oi_idempotency_key (mm_operation m) = oi_idempotency_key operation)
              (map snd (st_mailbox_messages s))))) (\<lambda>duplicate.
       case duplicate of
         Some m \<Rightarrow>
           if same_message_request m kind operation payload then returnP m
           else raiseP (AuthorityConflict
                  ''mailbox idempotency key already has different content'')
       | None \<Rightarrow>
     bindP (readP (\<lambda>s. subscript (st_mailbox_heads s) case_id)) (\<lambda>h.
     bindP (readP (\<lambda>_. make_mailbox_message
              \<lparr>mm_message_id = message_id, mm_case_id = case_id,
               mm_sequence = mh_last_sequence h + 1, mm_authority_epoch = mh_authority_epoch h + 1,
               mm_kind = kind, mm_operation = operation, mm_payload = payload,
               mm_created_at = created_at\<rparr>)) (\<lambda>m.
     bindP (writeP (\<lambda>s. s\<lparr>st_mailbox_messages :=
              AList.update message_id m (st_mailbox_messages s)\<rparr>)) (\<lambda>_.
     bindP (readP (\<lambda>_. construct check_mailbox_head
              \<lparr>mh_case_id = case_id, mh_last_sequence = mm_sequence m,
               mh_authority_epoch = mh_authority_epoch h + 1, mh_updated_at = created_at\<rparr>)) (\<lambda>h'.
     bindP (writeP (\<lambda>s. s\<lparr>st_mailbox_heads := AList.update case_id h' (st_mailbox_heads s)\<rparr>)) (\<lambda>_.
       returnP m))))))))"

definition list_mailbox_messages :: "Store \<Rightarrow> string \<Rightarrow> int \<Rightarrow> MailboxMessage list result" where
  "list_mailbox_messages s case_id after =
     bindR (get_case s case_id) (\<lambda>_.
       Inr (sort_key mm_sequence (filter (\<lambda>m. mm_case_id m = case_id \<and> mm_sequence m > after)
              (map snd (st_mailbox_messages s)))))"

section \<open>The authority snapshot\<close>

definition active_candidate :: "Store \<Rightarrow> string \<Rightarrow> FrameCandidateRecord option result" where
  "active_candidate s case_id =
     (case map_of (st_active_frame_candidate_ids s) case_id of
        None \<Rightarrow> Inr None
      | Some i \<Rightarrow> bindR (subscript (st_frame_candidates s) i) (\<lambda>c. Inr (Some c)))"

definition count_rows :: "('v \<Rightarrow> bool) \<Rightarrow> 'v table \<Rightarrow> int" where
  "count_rows p d = int (length (filter (\<lambda>kv. p (snd kv)) d))"

text \<open>
  A row of evidence or of an objection is its case, a validity or satisfaction row is the record it
  is about.  The keys of a table are its record IDs, so the set of the IDs of a case has as many
  members as the case has rows.
\<close>

definition get_authority_snapshot :: "Store \<Rightarrow> string \<Rightarrow> AuthoritySnapshot result" where
  "get_authority_snapshot s case_id =
     bindR (get_case s case_id) (\<lambda>c.
     bindR (get_mailbox_head s case_id) (\<lambda>h.
     bindR (active_candidate s case_id) (\<lambda>ac.
       let evidence_ids = map fst (filter (\<lambda>kv. snd kv = case_id) (st_evidence_cases s));
           obligation_ids = map (ro_obligation_id \<circ> snd)
             (filter (\<lambda>kv. ro_case_id (snd kv) = case_id) (st_evidence_obligations s))
       in construct check_authority_snapshot
         \<lparr>au_case_id = case_id, au_head_version = ic_head_version c,
          au_mailbox_authority_epoch = mh_authority_epoch h,
          au_question_revision_id = ic_question_revision_id c,
          au_frame_revision_id = ic_frame_revision_id c,
          au_plan_revision_id = ic_plan_revision_id c,
          au_candidate_generation =
            (case ac of None \<Rightarrow> 0 | Some f \<Rightarrow> fc_candidate_generation f),
          au_candidate_sha256 = map_option fc_proposed_frame_content_sha256 ac,
          au_obligation_state_version = int (card (set obligation_ids)) +
            count_rows (\<lambda>r. sr_obligation_id r \<in> set obligation_ids) (st_obligation_satisfaction s),
          au_evidence_admission_state_version = int (card (set evidence_ids)) +
            count_rows (\<lambda>e. e \<in> set evidence_ids) (st_evidence_validity s),
          au_contradiction_state_version = count_rows (\<lambda>c. c = case_id) (st_objection_cases s)\<rparr>)))"

section \<open>Ingress and pending messages\<close>

definition record_message_ingress :: "MessageIngressRecord \<Rightarrow> (Store, MessageIngressRecord) prog" where
  "record_message_ingress r =
     bindP (readP (\<lambda>s. get_row (st_mailbox_messages s) (mi_message_id r) ''mailbox message'')) (\<lambda>m.
       if mm_case_id m \<noteq> mi_case_id r \<or> mm_sequence m \<noteq> mi_mailbox_sequence r \<or>
          mm_authority_epoch m \<noteq> mi_authority_epoch r \<or> mm_operation m \<noteq> mi_operation r \<or>
          oi_payload_sha256 (mm_operation m) \<noteq> mi_message_payload_sha256 r
       then raiseP (InvalidAuthorityTransition
              ''message ingress record does not bind mailbox authority'')
       else bindP (readP (\<lambda>s. put_idempotent_immutable id (st_message_ingress_records s)
                (mi_ingress_record_id r) r ''message ingress record'')) (\<lambda>d.
            bindP (writeP (\<lambda>s. s\<lparr>st_message_ingress_records := d\<rparr>)) (\<lambda>_. returnP r)))"

definition list_message_ingress_records ::
    "Store \<Rightarrow> string \<Rightarrow> MessageIngressRecord list result" where
  "list_message_ingress_records s case_id =
     bindR (get_case s case_id) (\<lambda>_.
       Inr (sort_key mi_mailbox_sequence (filter (\<lambda>r. mi_case_id r = case_id)
              (map snd (st_message_ingress_records s)))))"

definition record_pending_user_message :: "PendingUserMessage \<Rightarrow> (Store, PendingUserMessage) prog" where
  "record_pending_user_message r =
     bindP (readP (\<lambda>s. get_row (st_message_ingress_records s) (pm_ingress_record_id r)
              ''message ingress record'')) (\<lambda>i.
       if mi_case_id i \<noteq> pm_case_id r \<or> mi_message_id i \<noteq> pm_message_id r \<or>
          mi_authority_epoch i \<noteq> pm_authority_epoch r \<or>
          oi_operation_id (mi_operation i) \<noteq> pm_source_operation_id r
       then raiseP (InvalidAuthorityTransition ''pending message does not bind ingress record'')
       else bindP (readP (\<lambda>s. put_idempotent_immutable id (st_pending_user_messages s)
                (pm_pending_message_id r) r ''pending user message'')) (\<lambda>d.
            bindP (writeP (\<lambda>s. s\<lparr>st_pending_user_messages := d\<rparr>)) (\<lambda>_. returnP r)))"

definition get_pending_user_message :: "Store \<Rightarrow> string \<Rightarrow> PendingUserMessage result" where
  "get_pending_user_message s i = get_row (st_pending_user_messages s) i ''pending user message''"

end
