(* ===== verification/StoreObligations.thy ===== *)
theory StoreObligations imports StoreMailbox begin

text \<open>
  The obligation schedules of \<open>InMemoryAuthorityStore\<close>: \<open>record_obligation_schedule\<close>,
  \<open>record_obligation_dispatch\<close>, \<open>record_obligation_completion\<close> and
  \<open>record_obligation_schedule_checkpoint\<close>, with the reads they make.
\<close>

section \<open>Reads\<close>

definition get_plan_adoption :: "Store \<Rightarrow> string \<Rightarrow> PlanAdoptionRecord result" where
  "get_plan_adoption s plan_revision_id =
     bindR (get_row (st_plan_adoption_by_plan s) plan_revision_id ''plan adoption binding'') (\<lambda>i.
       get_row (st_plan_adoptions s) i ''plan adoption'')"

definition list_query_bindings :: "Store \<Rightarrow> string \<Rightarrow> QueryBindingEnvelope list" where
  "list_query_bindings s plan_revision_id =
     filter (\<lambda>q. qb_plan_revision_id q = plan_revision_id) (map snd (st_query_bindings s))"

definition get_evidence_obligation :: "Store \<Rightarrow> string \<Rightarrow> ResolvedEvidenceObligation result" where
  "get_evidence_obligation s i = get_row (st_evidence_obligations s) i ''evidence obligation''"

definition get_obligation_schedule :: "Store \<Rightarrow> string \<Rightarrow> ObligationScheduleRecord result" where
  "get_obligation_schedule s i = get_row (st_obligation_schedules s) i ''obligation schedule''"

definition list_obligation_dispatches :: "Store \<Rightarrow> string \<Rightarrow> ObligationDispatchRecord list result" where
  "list_obligation_dispatches s i =
     bindR (get_obligation_schedule s i) (\<lambda>_.
       Inr (sort_key (\<lambda>r. di_obligation_id (dr_dispatch r))
              (filter (\<lambda>r. dr_schedule_id r = i) (map snd (st_obligation_dispatch_records s)))))"

definition completions_of :: "Store \<Rightarrow> string \<Rightarrow> ObligationCompletionRecord list" where
  "completions_of s i =
     filter (\<lambda>r. cr_schedule_id r = i) (map snd (st_obligation_completion_records s))"

definition list_obligation_completions ::
    "Store \<Rightarrow> string \<Rightarrow> ObligationCompletionRecord list result" where
  "list_obligation_completions s i =
     bindR (get_obligation_schedule s i) (\<lambda>_.
       Inr (sort_key (\<lambda>r. oc_obligation_id (cr_completion r)) (completions_of s i)))"

definition list_obligation_schedule_checkpoints ::
    "Store \<Rightarrow> string \<Rightarrow> ObligationScheduleCheckpoint list result" where
  "list_obligation_schedule_checkpoints s i =
     bindR (get_obligation_schedule s i) (\<lambda>_.
       Inr (sort_key sc_checkpoint_number
              (filter (\<lambda>c. sc_schedule_id c = i) (map snd (st_obligation_schedule_checkpoints s)))))"

text \<open>The fence of a stopped or closed case.\<close>

definition require_live_case :: "Store \<Rightarrow> string \<Rightarrow> string \<Rightarrow> unit result" where
  "require_live_case s case_id what =
     bindR (get_case s case_id) (\<lambda>c.
       require (\<not> terminal_lifecycle c)
         (InvalidAuthorityTransition (''terminal case fences '' @ what)))"

section \<open>Schedules\<close>

definition record_obligation_schedule ::
    "ObligationScheduleRecord \<Rightarrow> (Store, ObligationScheduleRecord) prog" where
  "record_obligation_schedule r =
     bindP (readP (\<lambda>s. require_live_case s (os_case_id r) ''obligation schedule'')) (\<lambda>_.
     bindP (readP (\<lambda>s. get_authority_snapshot s (os_case_id r))) (\<lambda>a.
       if a \<noteq> os_authority_snapshot r
       then raiseP (InvalidAuthorityTransition ''obligation schedule authority is stale'')
       else
     bindP (readP (\<lambda>s. get_row (st_plans s) (os_plan_revision_id r) ''plan'')) (\<lambda>p.
     bindP (readP (\<lambda>s. get_plan_adoption s (os_plan_revision_id r))) (\<lambda>ad.
     bindP (readP (\<lambda>s. Inr (list_query_bindings s (os_plan_revision_id r)))) (\<lambda>qs.
     bindP (readP (\<lambda>s. sequenceR (map (get_evidence_obligation s) (pd_obligation_ids ad)))) (\<lambda>obs.
     bindP (readP (\<lambda>_. as_transition_error (validate_schedule_plan_binding r p ad qs obs))) (\<lambda>_.
     bindP (readP (\<lambda>s. put_idempotent_immutable id (st_obligation_schedules s) (os_schedule_id r) r
              ''obligation schedule'')) (\<lambda>d.
     bindP (writeP (\<lambda>s. s\<lparr>st_obligation_schedules := d\<rparr>)) (\<lambda>_. returnP r)))))))))"

section \<open>Dispatch\<close>

fun obj_items :: "json \<Rightarrow> (string \<times> json) list" where
  "obj_items (JObj kvs) = kvs"
| "obj_items _ = []"

text \<open>The payload the schedule event of an outbox message has to carry.\<close>

definition dispatch_event_payload :: "OutboxMessage \<Rightarrow> json" where
  "dispatch_event_payload m =
     JObj (AList.update ''outbox_message_id'' (JStr (om_outbox_message_id m))
       (filter (\<lambda>kv. fst kv \<noteq> ''obligation'') (obj_items (om_payload m))))"

text \<open>The fence of an outbox message: case head, mailbox epoch, and the whole authority snapshot.\<close>

definition check_outbox_fence :: "Store \<Rightarrow> InvestigationCase \<Rightarrow> OutboxMessage \<Rightarrow> unit result" where
  "check_outbox_fence s c m =
     bindR (get_mailbox_head s (om_case_id m)) (\<lambda>h.
     bindR (require (om_expected_head_version m = ic_head_version c)
              (StaleHead ''outbox expected case head is stale'')) (\<lambda>_.
     bindR (require (om_expected_authority_epoch m = mh_authority_epoch h)
              (StaleHead ''outbox expected mailbox authority is stale'')) (\<lambda>_.
     bindR (get_authority_snapshot s (om_case_id m)) (\<lambda>a.
       require (om_authority_snapshot m = a) (StaleHead ''outbox authority snapshot is stale'')))))"

definition dispatch_event_matches ::
    "ObligationScheduleRecord \<Rightarrow> ObligationDispatchRecord \<Rightarrow> OutboxMessage \<Rightarrow>
     EventJournalEntry \<Rightarrow> bool" where
  "dispatch_event_matches sch r m e \<longleftrightarrow>
     ev_event_type e = EvObligationDispatchEnqueued \<and>
     ev_authority_ref e = Some (dr_dispatch_record_id r) \<and>
     py_eq (ev_payload e) (dispatch_event_payload m) \<and>
     oi_causation_id (ev_operation e) = os_schedule_id sch \<and>
     oi_correlation_id (ev_operation e) = os_correlation_id sch \<and>
     oi_causation_id (om_operation m) = oi_operation_id (ev_operation e)"

definition admit_dispatch ::
    "Store \<Rightarrow> OutboxMessage \<Rightarrow> ObligationDispatchRecord \<Rightarrow> unit result" where
  "admit_dispatch s m r =
     bindR (get_obligation_schedule s (dr_schedule_id r)) (\<lambda>sch.
     bindR (get_case s (os_case_id sch)) (\<lambda>c.
     bindR (require (\<not> terminal_lifecycle c)
              (InvalidAuthorityTransition ''terminal case fences obligation dispatch'')) (\<lambda>_.
     bindR (check_outbox_fence s c m) (\<lambda>_.
     bindR (require_event_cursor s (om_case_id m) (om_source_event_cursor m)) (\<lambda>_.
     bindR (bindR (subscript (st_events s) (om_case_id m)) (\<lambda>es.
              py_index es (om_source_event_cursor m - 1))) (\<lambda>e.
     bindR (require (dispatch_event_matches sch r m e)
              (InvalidAuthorityTransition ''obligation dispatch outbox lacks its schedule event'')) (\<lambda>_.
     bindR (get_evidence_obligation s (di_obligation_id (dr_dispatch r))) (\<lambda>b.
     bindR (require (List.find (\<lambda>x. ro_obligation_id x = di_obligation_id (dr_dispatch r))
                       (os_obligations sch) = Some b)
              (InvalidAuthorityTransition
                 ''obligation dispatch does not bind persisted obligation'')) (\<lambda>_.
       as_transition_error (validate_obligation_dispatch_admission sch r m))))))))))"

definition same_outbox_key :: "OutboxMessage \<Rightarrow> OutboxMessage \<Rightarrow> bool" where
  "same_outbox_key m x \<longleftrightarrow> om_case_id x = om_case_id m \<and> om_idempotency_key x = om_idempotency_key m"

text \<open>The two writes of a dispatch: its outbox message, unless it is there already, then its record.\<close>

definition store_dispatch_message :: "OutboxMessage \<Rightarrow> (Store, unit) prog" where
  "store_dispatch_message m =
     bindP (readP (\<lambda>s. Inr (List.find (same_outbox_key m) (map snd (st_outbox s))))) (\<lambda>duplicate.
       case duplicate of
         Some x \<Rightarrow> readP (\<lambda>_. require (outbox_form x = outbox_form m)
           (AuthorityConflict ''outbox idempotency key already has different content''))
       | None \<Rightarrow>
           bindP (readP (\<lambda>s. put_immutable outbox_form (st_outbox s) (om_outbox_message_id m) m
                    ''outbox message'')) (\<lambda>d. writeP (\<lambda>s. s\<lparr>st_outbox := d\<rparr>)))"

definition store_dispatch :: "ObligationDispatchRecord \<Rightarrow> (Store, ObligationDispatchRecord) prog" where
  "store_dispatch r =
     bindP (readP (\<lambda>s. put_idempotent_immutable id (st_obligation_dispatch_records s)
              (dr_dispatch_record_id r) r ''obligation dispatch'')) (\<lambda>d.
     bindP (writeP (\<lambda>s. s\<lparr>st_obligation_dispatch_records := d\<rparr>)) (\<lambda>_. returnP r))"

definition prior_dispatch :: "Store \<Rightarrow> ObligationDispatchRecord \<Rightarrow> ObligationDispatchRecord option" where
  "prior_dispatch s r =
     List.find (\<lambda>x. dr_schedule_id x = dr_schedule_id r \<and>
         di_obligation_id (dr_dispatch x) = di_obligation_id (dr_dispatch r))
       (map snd (st_obligation_dispatch_records s))"

definition record_obligation_dispatch ::
    "OutboxMessage \<Rightarrow> ObligationDispatchRecord \<Rightarrow> (Store, ObligationDispatchRecord) prog" where
  "record_obligation_dispatch m r =
     bindP (readP (\<lambda>s. admit_dispatch s m r)) (\<lambda>_.
     bindP (readP (\<lambda>s. Inr (prior_dispatch s r))) (\<lambda>prior.
       case prior of
         Some x \<Rightarrow>
           bindP (readP (\<lambda>s. Inr (map_of (st_outbox s) (dr_outbox_message_id x)))) (\<lambda>prior_message.
             if x = r \<and> map_option outbox_form prior_message = Some (outbox_form m) then returnP x
             else raiseP (AuthorityConflict ''obligation already has another dispatch''))
       | None \<Rightarrow> bindP (store_dispatch_message m) (\<lambda>_. store_dispatch r)))"

section \<open>Completions\<close>

definition check_completion_currency ::
    "ObligationScheduleRecord \<Rightarrow> AuthoritySnapshot \<Rightarrow> ObligationCompletionRecord \<Rightarrow> unit result" where
  "check_completion_currency sch a r =
    (let superseded = (oc_status (cr_completion r) = ObligationSuperseded);
         same = same_obligation_business_authority (os_authority_snapshot sch) a;
         under_drift = (superseded \<and> \<not> same) in
     checks [
       require (\<not> (superseded \<and> \<not> under_drift)) (InvalidAuthorityTransition
         ''obligation cannot be superseded without authority drift''),
       require (authority_sha256 a = cr_admitted_authority_sha256 r \<and>
                \<not> (\<not> same \<and> \<not> under_drift))
         (InvalidAuthorityTransition ''obligation completion authority is stale'')])"

definition record_obligation_completion ::
    "ObligationCompletionRecord \<Rightarrow> (Store, ObligationCompletionRecord) prog" where
  "record_obligation_completion r =
     bindP (readP (\<lambda>s. get_obligation_schedule s (cr_schedule_id r))) (\<lambda>sch.
     bindP (readP (\<lambda>s. require_live_case s (os_case_id sch) ''obligation completion'')) (\<lambda>_.
     bindP (readP (\<lambda>s. get_authority_snapshot s (os_case_id sch))) (\<lambda>a.
     bindP (readP (\<lambda>_. check_completion_currency sch a r)) (\<lambda>_.
     bindP (readP (\<lambda>s. bindR (list_obligation_dispatches s (cr_schedule_id r)) (\<lambda>ds.
              Inr (List.find (\<lambda>x. di_dispatch_id (dr_dispatch x) = oc_dispatch_id (cr_completion r) \<and>
                     di_obligation_id (dr_dispatch x) = oc_obligation_id (cr_completion r)) ds)))) (\<lambda>d.
     bindP (readP (\<lambda>s. Inr (List.find (\<lambda>x. oc_obligation_id (cr_completion x) =
              oc_obligation_id (cr_completion r)) (completions_of s (cr_schedule_id r))))) (\<lambda>prior.
       case prior of
         Some x \<Rightarrow>
           if x = r then returnP x
           else raiseP (AuthorityConflict ''obligation already has another completion'')
       | None \<Rightarrow>
     bindP (readP (\<lambda>s. as_transition_error (validate_persisted_obligation_completion sch
              (cr_completion r) (map cr_completion (completions_of s (cr_schedule_id r)))
              (map_option dr_dispatch d) a))) (\<lambda>_.
     bindP (readP (\<lambda>s. put_idempotent_immutable id (st_obligation_completion_records s)
              (cr_completion_record_id r) r ''obligation completion'')) (\<lambda>t.
     bindP (writeP (\<lambda>s. s\<lparr>st_obligation_completion_records := t\<rparr>)) (\<lambda>_. returnP r)))))))))"

section \<open>Checkpoints\<close>

definition dispatched_ids :: "Store \<Rightarrow> string \<Rightarrow> string list" where
  "dispatched_ids s i = map (di_obligation_id \<circ> dr_dispatch)
     (filter (\<lambda>r. dr_schedule_id r = i) (map snd (st_obligation_dispatch_records s)))"

definition completed_ids :: "Store \<Rightarrow> string \<Rightarrow> string list" where
  "completed_ids s i = map (oc_obligation_id \<circ> cr_completion) (completions_of s i)"

text \<open>The checkpoint that the state of a schedule derives, for its ID and time.\<close>

definition derives_checkpoint ::
    "Store \<Rightarrow> ObligationScheduleRecord \<Rightarrow> ObligationScheduleCheckpoint list \<Rightarrow>
     ObligationScheduleCheckpoint \<Rightarrow> bool" where
  "derives_checkpoint s sch cps r \<longleftrightarrow>
    (let i = sc_schedule_id r; ds = dispatched_ids s i; cs = completed_ids s i in
     sc_checkpoint_number r = int (length cps) + 1 \<and>
     sc_prior_checkpoint_id r = (if cps = [] then None else Some (sc_checkpoint_id (last cps))) \<and>
     sc_schedule_sha256 r = schedule_sha256 sch \<and>
     sc_authority_snapshot_sha256 r = os_authority_snapshot_sha256 sch \<and>
     sc_dispatched r = sort (remdups (filter (\<lambda>b. b \<notin> set cs) ds)) \<and>
     sc_completed r = sort (remdups cs) \<and>
     sc_pending r =
       sort (remdups (filter (\<lambda>b. b \<notin> set ds \<and> b \<notin> set cs) (obligation_ids (os_obligations sch)))))"

definition record_obligation_schedule_checkpoint ::
    "ObligationScheduleCheckpoint \<Rightarrow> (Store, ObligationScheduleCheckpoint) prog" where
  "record_obligation_schedule_checkpoint r =
     bindP (readP (\<lambda>s. get_obligation_schedule s (sc_schedule_id r))) (\<lambda>sch.
     bindP (readP (\<lambda>s. require_live_case s (os_case_id sch) ''obligation checkpoint'')) (\<lambda>_.
     bindP (readP (\<lambda>s. list_obligation_schedule_checkpoints s (sc_schedule_id r))) (\<lambda>cps.
     bindP (readP (\<lambda>s. require (derives_checkpoint s sch cps r)
              (InvalidAuthorityTransition ''obligation checkpoint is not a state derivation''))) (\<lambda>_.
     bindP (readP (\<lambda>s. put_idempotent_immutable id (st_obligation_schedule_checkpoints s)
              (sc_checkpoint_id r) r ''obligation schedule checkpoint'')) (\<lambda>t.
     bindP (writeP (\<lambda>s. s\<lparr>st_obligation_schedule_checkpoints := t\<rparr>)) (\<lambda>_. returnP r))))))"

end
