(* ===== verification/StoreFrames.thy ===== *)
theory StoreFrames imports StoreObligations begin

text \<open>
  Frame candidates, reviews, objection closures and admission proofs in \<open>InMemoryAuthorityStore\<close>:
  what has to be on record before a frame can be accepted.
\<close>

section \<open>Reads\<close>

definition get_plan :: "Store \<Rightarrow> string \<Rightarrow> WorkPlanRevision result" where
  "get_plan s i = get_row (st_plans s) i ''plan''"

definition get_question :: "Store \<Rightarrow> string \<Rightarrow> QuestionRevision result" where
  "get_question s i = get_row (st_questions s) i ''question''"

definition get_frame :: "Store \<Rightarrow> string \<Rightarrow> FrameView result" where
  "get_frame s i = get_row (st_frames s) i ''frame''"

definition get_frame_candidate :: "Store \<Rightarrow> string \<Rightarrow> FrameCandidateRecord result" where
  "get_frame_candidate s i = get_row (st_frame_candidates s) i ''frame candidate''"

definition get_active_frame_candidate :: "Store \<Rightarrow> string \<Rightarrow> FrameCandidateRecord option result" where
  "get_active_frame_candidate s case_id = bindR (get_case s case_id) (\<lambda>_. active_candidate s case_id)"

definition list_frame_candidates :: "Store \<Rightarrow> string \<Rightarrow> FrameCandidateRecord list result" where
  "list_frame_candidates s case_id =
     bindR (get_case s case_id) (\<lambda>_.
       Inr (sort_key fc_candidate_generation (filter (\<lambda>c. fc_case_id c = case_id)
              (map snd (st_frame_candidates s)))))"

definition list_frame_candidate_supersessions ::
    "Store \<Rightarrow> string \<Rightarrow> FrameCandidateSupersessionRecord list result" where
  "list_frame_candidate_supersessions s case_id =
     bindR (get_case s case_id) (\<lambda>_.
       Inr (sort_key (\<lambda>r. (instant (fs_created_at r), fs_supersession_record_id r))
              (filter (\<lambda>r. fs_case_id r = case_id) (map snd (st_frame_candidate_supersessions s)))))"

definition get_objection_closure :: "Store \<Rightarrow> string \<Rightarrow> ObjectionClosureRecord result" where
  "get_objection_closure s i = get_row (st_objection_closures s) i ''objection closure''"

definition get_frame_review :: "Store \<Rightarrow> string \<Rightarrow> FrameReviewRecord result" where
  "get_frame_review s i = get_row (st_frame_reviews s) i ''frame review''"

definition get_frame_review_for_candidate :: "Store \<Rightarrow> string \<Rightarrow> FrameReviewRecord option result" where
  "get_frame_review_for_candidate s i =
    (let matches = filter (\<lambda>r. rw_frame_candidate_id r = i) (map snd (st_frame_reviews s)) in
     if length matches > 1
     then Inl (AuthorityConflict ''frame candidate has multiple immutable reviews'')
     else Inr (case matches of [] \<Rightarrow> None | r # _ \<Rightarrow> Some r))"

definition list_frame_reviews :: "Store \<Rightarrow> string \<Rightarrow> FrameReviewRecord list result" where
  "list_frame_reviews s case_id =
     bindR (list_frame_candidates s case_id) (\<lambda>cs.
       let rs = filter (\<lambda>r. rw_frame_candidate_id r \<in> set (map fc_frame_candidate_id cs))
                  (map snd (st_frame_reviews s)) in
       bindR (sequenceR (map (\<lambda>r. bindR (subscript (st_frame_candidates s) (rw_frame_candidate_id r))
                (\<lambda>c. Inr (fc_candidate_generation c, r))) rs)) (\<lambda>keyed.
         Inr (map snd (sort_key (\<lambda>(n, r). (n, rw_frame_review_id r)) keyed))))"

section \<open>Candidates\<close>

text \<open>What a candidate that replaces another has to address: every objection of its review.\<close>

definition required_closures :: "FrameReviewRecord \<Rightarrow> string set" where
  "required_closures r =
     (if rw_disposition r = ReviewAccept then {} else set (map mo_objection_id (rw_objections r)))"

definition admit_replacement :: "Store \<Rightarrow> FrameCandidateRecord option \<Rightarrow> FrameCandidateRecord \<Rightarrow> unit result" where
  "admit_replacement s prior c =
     (case prior of
        None \<Rightarrow> Inr ()
      | Some x \<Rightarrow>
          (case List.find (\<lambda>r. rw_frame_candidate_id r = fc_frame_candidate_id x)
                  (map snd (st_frame_reviews s)) of
             None \<Rightarrow> Inl (InvalidAuthorityTransition ''replacement candidate requires prior review'')
           | Some r \<Rightarrow> require (set (fc_addressed_objection_ids c) = required_closures r)
               (InvalidAuthorityTransition
                  ''replacement candidate must address every prior objection'')))"

definition record_frame_candidate :: "FrameCandidateRecord \<Rightarrow> (Store, FrameCandidateRecord) prog" where
  "record_frame_candidate c =
     bindP (readP (\<lambda>s. get_case s (fc_case_id c))) (\<lambda>k.
     bindP (readP (\<lambda>_. require (Some (fc_question_revision_id c) = ic_question_revision_id k \<and>
                Some (fr_question_revision_id (fc_proposed_frame c)) = ic_question_revision_id k)
              (InvalidAuthorityTransition ''frame candidate must bind the accepted question''))) (\<lambda>_.
     bindP (readP (\<lambda>s. Inr (map_of (st_frame_candidates s) (fc_frame_candidate_id c)))) (\<lambda>existing.
       case existing of
         Some x \<Rightarrow>
           if x = c then returnP x
           else raiseP (AuthorityConflict ''frame candidate ID has different content'')
       | None \<Rightarrow>
     bindP (readP (\<lambda>s. active_candidate s (fc_case_id c))) (\<lambda>prior.
     bindP (readP (\<lambda>_. require
              (fc_candidate_generation c =
                 (case prior of None \<Rightarrow> 1 | Some x \<Rightarrow> fc_candidate_generation x + 1) \<and>
               fc_prior_frame_candidate_id c = map_option fc_frame_candidate_id prior)
              (InvalidAuthorityTransition
                 ''frame candidate does not extend the active candidate''))) (\<lambda>_.
     bindP (readP (\<lambda>s. admit_replacement s prior c)) (\<lambda>_.
     bindP (writeP (\<lambda>s. s\<lparr>st_frame_candidates :=
                AList.update (fc_frame_candidate_id c) c (st_frame_candidates s),
              st_active_frame_candidate_ids := AList.update (fc_case_id c) (fc_frame_candidate_id c)
                (st_active_frame_candidate_ids s)\<rparr>)) (\<lambda>_. returnP c)))))))"

definition supersede_active_frame_candidate ::
    "FrameCandidateSupersessionRecord \<Rightarrow> (Store, FrameCandidateSupersessionRecord) prog" where
  "supersede_active_frame_candidate r =
     bindP (readP (\<lambda>s. Inr (map_of (st_active_frame_candidate_ids s) (fs_case_id r)))) (\<lambda>active.
       if active \<noteq> Some (fs_frame_candidate_id r)
       then bindP (readP (\<lambda>s. Inr (map_of (st_frame_candidate_supersessions s)
                (fs_supersession_record_id r)))) (\<lambda>existing.
              if existing = Some r then returnP r
              else raiseP (InvalidAuthorityTransition
                     ''frame candidate supersession does not target active head''))
       else
     bindP (readP (\<lambda>s. get_frame_candidate s (fs_frame_candidate_id r))) (\<lambda>c.
     bindP (readP (\<lambda>s. get_question s (fs_superseded_by_question_revision_id r))) (\<lambda>q.
     bindP (readP (\<lambda>s. if qr_case_id q \<noteq> fs_case_id r \<or>
                fc_question_revision_id c = qr_question_revision_id q
              then Inl (InvalidAuthorityTransition ''frame candidate supersession authority is invalid'')
              else bindR (get_mailbox_head s (fs_case_id r)) (\<lambda>h.
                require (fs_authority_epoch r = mh_authority_epoch h)
                  (InvalidAuthorityTransition
                     ''frame candidate supersession authority is invalid'')))) (\<lambda>_.
     bindP (readP (\<lambda>s. put_idempotent_immutable id (st_frame_candidate_supersessions s)
              (fs_supersession_record_id r) r ''frame candidate supersession'')) (\<lambda>d.
     bindP (writeP (\<lambda>s. s\<lparr>st_frame_candidate_supersessions := d\<rparr>)) (\<lambda>_.
     bindP (writeP (\<lambda>s. s\<lparr>st_active_frame_candidate_ids :=
              AList.delete (fs_case_id r) (st_active_frame_candidate_ids s)\<rparr>)) (\<lambda>_.
       returnP r)))))))"

section \<open>Reviews and closures\<close>

text \<open>The changed nodes a closure has to name: those at, above or below a node of the objection.\<close>

definition closure_node_ids ::
    "MeasurementReviewObjection \<Rightarrow> FrameCandidateRecord \<Rightarrow> FrameCandidateRecord \<Rightarrow> string list" where
  "closure_node_ids b source replacement =
     filter (\<lambda>n. \<exists>a \<in> set (mo_affected_node_ids b). measurement_paths_overlap n a)
       (derive_changed_measurement_node_ids (fr_measurement_design (fc_proposed_frame source))
          (fr_measurement_design (fc_proposed_frame replacement)))"

definition admit_closure :: "Store \<Rightarrow> ObjectionClosureRecord \<Rightarrow> unit result" where
  "admit_closure s x =
     bindR (get_row (st_frame_candidates s) (ol_source_frame_candidate_id x) ''source frame candidate'') (\<lambda>a.
     bindR (get_row (st_frame_candidates s) (ol_replacement_frame_candidate_id x)
              ''replacement frame candidate'') (\<lambda>b.
     bindR (checks [
       require (fc_case_id a = fc_case_id b)
         (InvalidAuthorityTransition ''objection closure crosses cases''),
       require (fc_prior_frame_candidate_id b = Some (fc_frame_candidate_id a))
         (InvalidAuthorityTransition ''objection closure must bind adjacent candidates''),
       require (ol_objection_id x \<in> set (fc_addressed_objection_ids b))
         (InvalidAuthorityTransition ''replacement candidate does not address objection'')]) (\<lambda>_.
     bindR (get_row (st_frame_reviews s) (ol_source_frame_review_id x) ''source frame review'') (\<lambda>r.
     bindR (require (rw_frame_candidate_id r = fc_frame_candidate_id a)
              (InvalidAuthorityTransition ''objection closure cites another candidate review'')) (\<lambda>_.
       case List.find (\<lambda>i. mo_objection_id i = ol_objection_id x) (rw_objections r) of
         None \<Rightarrow> Inl (InvalidAuthorityTransition ''objection closure does not bind an exact objection'')
       | Some i \<Rightarrow> checks [
           require (ol_objection_content_sha256 x = review_objection_sha256 i)
             (InvalidAuthorityTransition ''objection closure does not bind an exact objection''),
           require (ol_changed_node_ids x = closure_node_ids i a b)
             (InvalidAuthorityTransition
                ''objection closure change proof does not match Frames'')])))))"

definition record_objection_closure :: "ObjectionClosureRecord \<Rightarrow> (Store, ObjectionClosureRecord) prog" where
  "record_objection_closure x =
     bindP (readP (\<lambda>s. admit_closure s x)) (\<lambda>_.
     bindP (readP (\<lambda>s. put_idempotent_immutable id (st_objection_closures s)
              (ol_objection_closure_id x) x ''objection closure'')) (\<lambda>d.
     bindP (writeP (\<lambda>s. s\<lparr>st_objection_closures := d\<rparr>)) (\<lambda>_. returnP x)))"

definition record_frame_review :: "FrameReviewRecord \<Rightarrow> (Store, FrameReviewRecord) prog" where
  "record_frame_review r =
     bindP (readP (\<lambda>s. get_row (st_frame_candidates s) (rw_frame_candidate_id r) ''frame candidate'')) (\<lambda>c.
     bindP (readP (\<lambda>s. require
              (map_of (st_active_frame_candidate_ids s) (fc_case_id c) = Some (fc_frame_candidate_id c))
              (InvalidAuthorityTransition ''review targets a superseded frame candidate''))) (\<lambda>_.
     bindP (readP (\<lambda>s. bindR (get_mailbox_head s (fc_case_id c)) (\<lambda>h.
              require (rw_authority_epoch r = mh_authority_epoch h \<and>
                  rw_reviewed_frame_content_sha256 r = fc_proposed_frame_content_sha256 c)
                (InvalidAuthorityTransition ''frame review authority or content is stale'')))) (\<lambda>_.
     bindP (readP (\<lambda>s. require (set (rw_closure_proof_refs r) =
                set (map ol_objection_closure_id (filter (\<lambda>x. ol_replacement_frame_candidate_id x =
                  fc_frame_candidate_id c) (map snd (st_objection_closures s)))))
              (InvalidAuthorityTransition
                 ''frame review has incomplete objection closure references''))) (\<lambda>_.
     bindP (readP (\<lambda>s. put_idempotent_immutable id (st_frame_reviews s)
              (rw_frame_review_id r) r ''frame review'')) (\<lambda>d.
     bindP (writeP (\<lambda>s. s\<lparr>st_frame_reviews := d\<rparr>)) (\<lambda>_. returnP r))))))"

section \<open>Admission\<close>

definition admit_proof :: "Store \<Rightarrow> FrameAdmissionProof \<Rightarrow> unit result" where
  "admit_proof s p =
     bindR (get_row (st_frame_candidates s) (fp_frame_candidate_id p) ''frame candidate'') (\<lambda>c.
     bindR (get_row (st_frame_reviews s) (fp_frame_review_id p) ''frame review'') (\<lambda>r.
     bindR (require (rw_frame_candidate_id r = fc_frame_candidate_id c \<and>
              rw_disposition r = ReviewAccept \<and> (\<forall>b \<in> set (rw_objections r). \<not> objection_blocks b) \<and>
              fp_candidate_generation p = fc_candidate_generation c \<and>
              fp_frame_revision_id p = fc_proposed_frame_revision_id c \<and>
              fp_frame_content_sha256 p = fc_proposed_frame_content_sha256 c \<and>
              fp_frame_review_content_sha256 p = frame_review_sha256 r)
            (InvalidAuthorityTransition ''frame admission proof lacks an accepting fresh review'')) (\<lambda>_.
     bindR (sequenceR (map (\<lambda>i. get_row (st_objection_closures s) i ''objection closure'')
              (fp_objection_closure_record_ids p))) (\<lambda>xs.
     bindR (checks [
       require (set (map ol_objection_id xs) = set (fc_addressed_objection_ids c))
         (InvalidAuthorityTransition ''frame admission proof has incomplete objection closure''),
       require (\<forall>x \<in> set xs. ol_replacement_frame_candidate_id x = fc_frame_candidate_id c)
         (InvalidAuthorityTransition ''objection closure targets another candidate'')]) (\<lambda>_.
     bindR (get_authority_snapshot s (fp_case_id p)) (\<lambda>a.
       require (fp_authority_snapshot p = a)
         (InvalidAuthorityTransition ''frame admission proof authority snapshot is stale'')))))))"

text \<open>The proof is stored before its frame is found to have another proof.\<close>

definition record_frame_admission_proof :: "FrameAdmissionProof \<Rightarrow> (Store, FrameAdmissionProof) prog" where
  "record_frame_admission_proof p =
     bindP (readP (\<lambda>s. admit_proof s p)) (\<lambda>_.
     bindP (readP (\<lambda>s. put_idempotent_immutable id (st_frame_admission_proofs s)
              (fp_frame_admission_proof_id p) p ''frame admission proof'')) (\<lambda>d.
     bindP (writeP (\<lambda>s. s\<lparr>st_frame_admission_proofs := d\<rparr>)) (\<lambda>_.
     bindP (readP (\<lambda>s. require
              (case map_of (st_frame_admission_proof_by_frame s) (fp_frame_revision_id p) of
                 None \<Rightarrow> True | Some i \<Rightarrow> i = fp_frame_admission_proof_id p)
              (AuthorityConflict ''Frame already has another admission proof''))) (\<lambda>_.
     bindP (writeP (\<lambda>s. s\<lparr>st_frame_admission_proof_by_frame := AList.update (fp_frame_revision_id p)
              (fp_frame_admission_proof_id p) (st_frame_admission_proof_by_frame s)\<rparr>)) (\<lambda>_.
       returnP p)))))"

end
