(* ===== verification/StoreJobs.thy ===== *)
theory StoreJobs imports StoreObligations begin

text \<open>
  The jobs of \<open>InMemoryAuthorityStore\<close>: the outbox and its dispositions, the two kinds of lease with
  their fencing tokens, the dispatcher's cursor, model calls, effect attempts, and the actions with
  their receipts and checkpoints.
\<close>

text \<open>\<open>_trusted_now\<close>: the reading of the clock, which has to be aware.\<close>

definition trusted_now :: "datetime \<Rightarrow> datetime result" where
  "trusted_now now = bindR (require_aware_datetime now ''storage clock'') (\<lambda>_. Inr now)"

text \<open>\<open>max(xs, key=k, default=None)\<close>: the first of the greatest.\<close>

definition max_by :: "('a \<Rightarrow> int) \<Rightarrow> 'a list \<Rightarrow> 'a option" where
  "max_by k xs = fold (\<lambda>x best. case best of
       None \<Rightarrow> Some x | Some b \<Rightarrow> if k b < k x then Some x else Some b) xs None"

definition lease_duration :: "datetime \<Rightarrow> datetime \<Rightarrow> string \<Rightarrow> int result" where
  "lease_duration expires now what =
     bindR (dt_minus expires now) (\<lambda>d.
     bindR (require (0 < d) (ValueError (what @ '' lease duration must be positive''))) (\<lambda>_. Inr d))"

section \<open>The outbox and the dispositions of its jobs\<close>

definition get_outbox_message :: "Store \<Rightarrow> string \<Rightarrow> OutboxMessage result" where
  "get_outbox_message s i = get_row (st_outbox s) i ''outbox message''"

definition outbox_order :: "OutboxMessage \<Rightarrow> int \<times> int \<times> string" where
  "outbox_order m = (instant (om_created_at m), om_source_event_cursor m, om_outbox_message_id m)"

definition list_outbox_messages :: "Store \<Rightarrow> string option \<Rightarrow> OutboxMessage list result" where
  "list_outbox_messages s case_id =
     bindR (case case_id of None \<Rightarrow> Inr () | Some c \<Rightarrow> bindR (get_case s c) (\<lambda>_. Inr ())) (\<lambda>_.
       Inr (sort_key outbox_order
              (filter (\<lambda>m. case_id = None \<or> case_id = Some (om_case_id m)) (map snd (st_outbox s)))))"

definition list_pending_outbox_messages :: "Store \<Rightarrow> string option \<Rightarrow> OutboxMessage list result" where
  "list_pending_outbox_messages s case_id =
     bindR (list_outbox_messages s case_id) (\<lambda>ms.
       Inr (filter (\<lambda>m. om_outbox_message_id m \<notin> fst ` set (st_job_dispositions s)) ms))"

text \<open>
  \<open>enqueue_outbox\<close>.  The argument \<open>bind_action\<close> is its branch for a message that carries an action,
  which re-admits the action against the plan, the query bindings and the answer it names.
\<close>

definition action_job_kinds :: "AsyncJobKind set" where
  "action_job_kinds = {JobSemanticInspection, JobDataProbe, JobCapability, JobSensitivity}"

definition admit_outbox ::
    "(Store \<Rightarrow> OutboxMessage \<Rightarrow> EventJournalEntry \<Rightarrow> unit result) \<Rightarrow> Store \<Rightarrow> OutboxMessage \<Rightarrow>
     unit result" where
  "admit_outbox bind_action s m =
     bindR (require (om_job_kind m \<noteq> JobObligation) (InvalidAuthorityTransition
              ''obligation outbox requires schedule dispatch admission'')) (\<lambda>_.
     bindR (get_case s (om_case_id m)) (\<lambda>c.
     bindR (check_outbox_fence s c m) (\<lambda>_.
     bindR (require (oi_authority_revision (om_operation m) = om_expected_authority_epoch m)
              (InvalidAuthorityTransition ''outbox operation authority does not match its fence'')) (\<lambda>_.
     bindR (require_event_cursor s (om_case_id m) (om_source_event_cursor m)) (\<lambda>e.
       if om_action_id m \<noteq> None then bind_action s m e
       else require (om_job_kind m \<notin> action_job_kinds)
              (InvalidAuthorityTransition ''effect outbox requires an admitted action''))))))"

definition enqueue_outbox ::
    "(Store \<Rightarrow> OutboxMessage \<Rightarrow> EventJournalEntry \<Rightarrow> unit result) \<Rightarrow> OutboxMessage \<Rightarrow>
     (Store, OutboxMessage) prog" where
  "enqueue_outbox bind_action m =
     bindP (readP (\<lambda>s. admit_outbox bind_action s m)) (\<lambda>_.
     bindP (readP (\<lambda>s. Inr (List.find (same_outbox_key m) (map snd (st_outbox s))))) (\<lambda>duplicate.
       case duplicate of
         Some x \<Rightarrow>
           if outbox_form x = outbox_form m then returnP x
           else raiseP (AuthorityConflict ''outbox idempotency key already has different content'')
       | None \<Rightarrow>
           bindP (readP (\<lambda>s. put_immutable outbox_form (st_outbox s) (om_outbox_message_id m) m
                    ''outbox message'')) (\<lambda>d.
           bindP (writeP (\<lambda>s. s\<lparr>st_outbox := d\<rparr>)) (\<lambda>_. returnP m))))"

definition admit_disposition ::
    "Store \<Rightarrow> datetime \<Rightarrow> JobDispositionRecord \<Rightarrow> unit result" where
  "admit_disposition s now d =
     bindR (get_outbox_message s (jd_outbox_message_id d)) (\<lambda>m.
     bindR (require (jd_case_id d = om_case_id m \<and> jd_job_kind d = om_job_kind m \<and>
                     jd_operation d = om_operation m \<and>
                     jd_expected_authority_epoch d = om_expected_authority_epoch m)
              (InvalidAuthorityTransition ''job disposition does not bind its outbox message'')) (\<lambda>_.
     bindR (if jd_disposition d = JobCompleted then
              (if om_job_kind m = JobMessageBinding
               then require (jd_observed_authority_epoch d = om_expected_authority_epoch m)
                      (InvalidAuthorityTransition
                         ''message binding disposition changed its ordered mailbox authority'')
               else bindR (get_mailbox_head s (om_case_id m)) (\<lambda>h.
                      require (jd_observed_authority_epoch d = mh_authority_epoch h)
                        (InvalidAuthorityTransition
                           ''completed disposition observed stale authority'')))
            else Inr ()) (\<lambda>_.
       case jd_fencing_token d of
         None \<Rightarrow> Inr ()
       | Some token \<Rightarrow>
           bindR (trusted_now now) (\<lambda>t.
             require (case map_of (st_job_leases s) (jd_outbox_message_id d) of
                        None \<Rightarrow> False
                      | Some l \<Rightarrow> jl_owner_id l = jd_owner_id d \<and> jl_fencing_token l = token \<and>
                          instant t < instant (jl_expires_at l))
               (LeaseFenceLost ''job disposition uses a stale delivery fence'')))))"

definition record_job_disposition ::
    "datetime \<Rightarrow> JobDispositionRecord \<Rightarrow> (Store, JobDispositionRecord) prog" where
  "record_job_disposition now d =
     bindP (readP (\<lambda>s. admit_disposition s now d)) (\<lambda>_.
     bindP (readP (\<lambda>s. Inr (map_of (st_job_dispositions s) (jd_outbox_message_id d)))) (\<lambda>prior.
       case prior of
         Some x \<Rightarrow>
           if x = d then returnP x
           else raiseP (AuthorityConflict ''outbox job already has another terminal disposition'')
       | None \<Rightarrow>
           bindP (writeP (\<lambda>s. s\<lparr>st_job_dispositions :=
                    AList.update (jd_outbox_message_id d) d (st_job_dispositions s)\<rparr>)) (\<lambda>_.
             returnP d)))"

definition get_job_disposition :: "Store \<Rightarrow> string \<Rightarrow> JobDispositionRecord option result" where
  "get_job_disposition s i =
     bindR (get_outbox_message s i) (\<lambda>_. Inr (map_of (st_job_dispositions s) i))"

definition list_job_dispositions :: "Store \<Rightarrow> string \<Rightarrow> JobDispositionRecord list result" where
  "list_job_dispositions s case_id =
     bindR (get_case s case_id) (\<lambda>_.
       Inr (sort_key (\<lambda>d. (instant (jd_completed_at d), jd_record_id d))
              (filter (\<lambda>d. jd_case_id d = case_id) (map snd (st_job_dispositions s)))))"

definition get_dispatcher_recovery_cursor :: "Store \<Rightarrow> string \<Rightarrow> DispatcherRecoveryCursor option" where
  "get_dispatcher_recovery_cursor s i = map_of (st_dispatcher_recovery_cursors s) i"

definition moves_backwards ::
    "(int \<times> int \<times> string) option \<Rightarrow> (int \<times> int \<times> string) option \<Rightarrow> bool" where
  "moves_backwards x y =
     (case x of None \<Rightarrow> False | Some a \<Rightarrow> (case y of None \<Rightarrow> True | Some b \<Rightarrow> b < a))"

definition advance_dispatcher_recovery_cursor ::
    "DispatcherRecoveryCursor \<Rightarrow> (Store, DispatcherRecoveryCursor) prog" where
  "advance_dispatcher_recovery_cursor c =
     bindP (readP (\<lambda>s. Inr (map_of (st_dispatcher_recovery_cursors s) (rc_dispatcher_id c)))) (\<lambda>prior.
       let store = bindP (writeP (\<lambda>s. s\<lparr>st_dispatcher_recovery_cursors :=
             AList.update (rc_dispatcher_id c) c (st_dispatcher_recovery_cursors s)\<rparr>)) (\<lambda>_. returnP c)
       in case prior of
            None \<Rightarrow> store
          | Some p \<Rightarrow>
              if recovery_position p = recovery_position c then returnP p
              else if moves_backwards (recovery_position p) (recovery_position c)
              then raiseP (InvalidAuthorityTransition
                     ''dispatcher recovery cursor cannot move backwards'')
              else store)"

section \<open>Job leases\<close>

definition job_lease_live :: "Store \<Rightarrow> string \<Rightarrow> datetime \<Rightarrow> bool" where
  "job_lease_live s i t \<longleftrightarrow>
     (case map_of (st_job_leases s) i of None \<Rightarrow> False | Some l \<Rightarrow> instant t < instant (jl_expires_at l))"

definition next_job_token :: "Store \<Rightarrow> string \<Rightarrow> int" where
  "next_job_token s i =
     (case map_of (st_job_leases s) i of
        Some l \<Rightarrow> jl_fencing_token l + 1
      | None \<Rightarrow> (case map_of (st_job_lease_tokens s) i of None \<Rightarrow> 0 | Some n \<Rightarrow> n) + 1)"

definition acquire_job_lease ::
    "datetime \<Rightarrow> string \<Rightarrow> string \<Rightarrow> datetime \<Rightarrow> datetime \<Rightarrow> (Store, JobLease) prog" where
  "acquire_job_lease clock i owner_id now expires_at =
     bindP (readP (\<lambda>_. lease_duration expires_at now ''job'')) (\<lambda>d.
     bindP (readP (\<lambda>_. trusted_now clock)) (\<lambda>t.
     bindP (readP (\<lambda>s. get_outbox_message s i)) (\<lambda>_.
     bindP (readP (\<lambda>s. require (map_of (st_job_dispositions s) i = None)
              (LeaseConflict ''terminally disposed job cannot be claimed''))) (\<lambda>_.
     bindP (readP (\<lambda>s. require (\<not> job_lease_live s i t)
              (LeaseConflict ''job already has an active delivery lease''))) (\<lambda>_.
     bindP (readP (\<lambda>s. construct check_job_lease
              \<lparr>jl_outbox_message_id = i, jl_owner_id = owner_id, jl_fencing_token = next_job_token s i,
               jl_acquired_at = t, jl_heartbeat_at = t, jl_expires_at = dt_plus t d\<rparr>)) (\<lambda>l.
     bindP (writeP (\<lambda>s. s\<lparr>st_job_leases := AList.update i l (st_job_leases s),
              st_job_lease_tokens := AList.update i (jl_fencing_token l) (st_job_lease_tokens s)\<rparr>)) (\<lambda>_.
       returnP l)))))))"

definition heartbeat_job_lease ::
    "datetime \<Rightarrow> JobLease \<Rightarrow> datetime \<Rightarrow> datetime \<Rightarrow> (Store, JobLease) prog" where
  "heartbeat_job_lease clock l heartbeat_at expires_at =
     bindP (readP (\<lambda>_. lease_duration expires_at heartbeat_at ''job'')) (\<lambda>d.
     bindP (readP (\<lambda>_. trusted_now clock)) (\<lambda>t.
     bindP (readP (\<lambda>s. require (map_of (st_job_leases s) (jl_outbox_message_id l) = Some l)
              (LeaseFenceLost ''job delivery lease fencing token was lost''))) (\<lambda>_.
     bindP (readP (\<lambda>_. require (instant t < instant (jl_expires_at l))
              (LeaseFenceLost ''expired job delivery lease cannot be renewed''))) (\<lambda>_.
     bindP (readP (\<lambda>_. construct check_job_lease
              (l\<lparr>jl_heartbeat_at := t, jl_expires_at := dt_plus t d\<rparr>))) (\<lambda>r.
     bindP (writeP (\<lambda>s. s\<lparr>st_job_leases :=
              AList.update (jl_outbox_message_id l) r (st_job_leases s)\<rparr>)) (\<lambda>_.
       returnP r))))))"

definition release_job_lease :: "JobLease \<Rightarrow> (Store, unit) prog" where
  "release_job_lease l =
     bindP (readP (\<lambda>s. require (map_of (st_job_leases s) (jl_outbox_message_id l) = Some l)
              (LeaseFenceLost ''job delivery lease fencing token was lost''))) (\<lambda>_.
     writeP (\<lambda>s. s\<lparr>st_job_leases := AList.delete (jl_outbox_message_id l) (st_job_leases s)\<rparr>))"

definition assert_job_lease :: "Store \<Rightarrow> datetime \<Rightarrow> JobLease \<Rightarrow> JobLease result" where
  "assert_job_lease s clock l =
     bindR (trusted_now clock) (\<lambda>t.
     bindR (require (map_of (st_job_leases s) (jl_outbox_message_id l) = Some l \<and>
                     instant t < instant (jl_expires_at l))
              (LeaseFenceLost ''job delivery lease is stale, expired, or superseded'')) (\<lambda>_. Inr l))"

section \<open>Controller leases\<close>

definition lease_live :: "Store \<Rightarrow> string \<Rightarrow> datetime \<Rightarrow> bool" where
  "lease_live s c t \<longleftrightarrow>
     (case map_of (st_leases s) c of None \<Rightarrow> False | Some l \<Rightarrow> instant t < instant (cl_expires_at l))"

definition next_lease_token :: "Store \<Rightarrow> string \<Rightarrow> int" where
  "next_lease_token s c = (case map_of (st_lease_tokens s) c of None \<Rightarrow> 0 | Some n \<Rightarrow> n) + 1"

definition acquire_lease ::
    "datetime \<Rightarrow> string \<Rightarrow> string \<Rightarrow> string \<Rightarrow> datetime \<Rightarrow> datetime \<Rightarrow> (Store, ControllerLease) prog" where
  "acquire_lease clock case_id run_id owner_id now expires_at =
     bindP (readP (\<lambda>_. lease_duration expires_at now ''controller'')) (\<lambda>d.
     bindP (readP (\<lambda>_. trusted_now clock)) (\<lambda>t.
     bindP (readP (\<lambda>s. get_case s case_id)) (\<lambda>_.
     bindP (readP (\<lambda>s. require (\<not> lease_live s case_id t)
              (LeaseConflict ''case already has an active controller lease''))) (\<lambda>_.
     bindP (readP (\<lambda>s. construct check_controller_lease
              \<lparr>cl_case_id = case_id, cl_run_id = run_id, cl_owner_id = owner_id,
               cl_fencing_token = next_lease_token s case_id, cl_acquired_at = t,
               cl_expires_at = dt_plus t d\<rparr>)) (\<lambda>l.
     bindP (writeP (\<lambda>s. s\<lparr>st_leases := AList.update case_id l (st_leases s),
              st_lease_tokens := AList.update case_id (cl_fencing_token l) (st_lease_tokens s)\<rparr>)) (\<lambda>_.
       returnP l))))))"

definition release_lease :: "ControllerLease \<Rightarrow> (Store, unit) prog" where
  "release_lease l =
     bindP (readP (\<lambda>s. require
              (case map_of (st_leases s) (cl_case_id l) of
                 None \<Rightarrow> False
               | Some c \<Rightarrow> cl_run_id c = cl_run_id l \<and> cl_owner_id c = cl_owner_id l \<and>
                   cl_fencing_token c = cl_fencing_token l)
              (LeaseFenceLost ''controller lease fencing token was lost''))) (\<lambda>_.
     writeP (\<lambda>s. s\<lparr>st_leases := AList.delete (cl_case_id l) (st_leases s)\<rparr>))"

end
