(* ===== verification/StoreCalls.thy ===== *)
theory StoreCalls imports StoreJobs begin

text \<open>
  Model calls, effect attempts, actions, receipts and checkpoints of \<open>InMemoryAuthorityStore\<close>.
\<close>

section \<open>Model jobs and provider attempts\<close>

definition record_logical_model_job :: "LogicalModelJob \<Rightarrow> (Store, LogicalModelJob) prog" where
  "record_logical_model_job r =
     bindP (readP (\<lambda>s. get_case s (lj_case_id r))) (\<lambda>_.
     bindP (readP (\<lambda>s. get_outbox_message s (lj_job_id r))) (\<lambda>m.
     bindP (readP (\<lambda>_. require (om_case_id m = lj_case_id r \<and>
              oi_operation_id (om_operation m) = lj_operation_id r \<and>
              om_authority_snapshot_sha256 m = lj_authority_snapshot_sha256 r)
              (InvalidAuthorityTransition ''logical model job does not bind its outbox authority''))) (\<lambda>_.
     bindP (readP (\<lambda>s. case List.find (\<lambda>x. lj_job_id x = lj_job_id r)
                              (map snd (st_logical_model_jobs s)) of
                None \<Rightarrow> Inr ()
              | Some x \<Rightarrow> require (x = r)
                  (AuthorityConflict ''outbox job already has another logical model job''))) (\<lambda>_.
     bindP (readP (\<lambda>s. put_idempotent_immutable id (st_logical_model_jobs s)
              (lj_logical_model_job_id r) r ''logical model job'')) (\<lambda>d.
     bindP (writeP (\<lambda>s. s\<lparr>st_logical_model_jobs := d\<rparr>)) (\<lambda>_. returnP r))))))"

definition get_logical_model_job :: "Store \<Rightarrow> string \<Rightarrow> LogicalModelJob result" where
  "get_logical_model_job s i = get_row (st_logical_model_jobs s) i ''logical model job''"

definition list_logical_model_jobs :: "Store \<Rightarrow> string \<Rightarrow> LogicalModelJob list result" where
  "list_logical_model_jobs s case_id =
     bindR (get_case s case_id) (\<lambda>_.
       Inr (sort_key (\<lambda>j. (instant (lj_created_at j), lj_logical_model_job_id j))
              (filter (\<lambda>j. lj_case_id j = case_id) (map snd (st_logical_model_jobs s)))))"

definition provider_attempts_of :: "Store \<Rightarrow> string \<Rightarrow> ProviderAttemptRequest list" where
  "provider_attempts_of s i =
     filter (\<lambda>q. pq_logical_model_job_id q = i) (map snd (st_provider_attempt_requests s))"

definition record_provider_attempt_request ::
    "ProviderAttemptRequest \<Rightarrow> (Store, ProviderAttemptRequest) prog" where
  "record_provider_attempt_request r =
     bindP (readP (\<lambda>s. get_logical_model_job s (pq_logical_model_job_id r))) (\<lambda>_.
     bindP (readP (\<lambda>s. Inr (provider_attempts_of s (pq_logical_model_job_id r)))) (\<lambda>prior.
       if pq_attempt_number r \<noteq> int (length prior) + 1
       then bindP (readP (\<lambda>s. Inr (map_of (st_provider_attempt_requests s)
                     (pq_provider_attempt_id r)))) (\<lambda>existing.
              if existing = Some r then returnP r
              else raiseP (InvalidAuthorityTransition
                     ''provider attempt does not extend logical job history''))
       else if pq_prior_provider_attempt_id r \<noteq>
               map_option pq_provider_attempt_id (max_by pq_attempt_number prior)
       then raiseP (InvalidAuthorityTransition ''provider attempt prior identity is stale'')
       else bindP (readP (\<lambda>s. put_idempotent_immutable id (st_provider_attempt_requests s)
                (pq_provider_attempt_id r) r ''provider attempt request'')) (\<lambda>d.
            bindP (writeP (\<lambda>s. s\<lparr>st_provider_attempt_requests := d\<rparr>)) (\<lambda>_. returnP r))))"

definition get_provider_attempt_request :: "Store \<Rightarrow> string \<Rightarrow> ProviderAttemptRequest result" where
  "get_provider_attempt_request s i =
     get_row (st_provider_attempt_requests s) i ''provider attempt request''"

definition receipt_of_attempt :: "Store \<Rightarrow> string \<Rightarrow> ProviderAttemptReceipt option" where
  "receipt_of_attempt s i =
     List.find (\<lambda>x. pt_provider_attempt_id x = i) (map snd (st_provider_attempt_receipts s))"

definition record_provider_attempt_receipt ::
    "ProviderAttemptReceipt \<Rightarrow> (Store, ProviderAttemptReceipt) prog" where
  "record_provider_attempt_receipt r =
     bindP (readP (\<lambda>s. get_provider_attempt_request s (pt_provider_attempt_id r))) (\<lambda>q.
     bindP (readP (\<lambda>_. require (pq_logical_model_job_id q = pt_logical_model_job_id r)
              (InvalidAuthorityTransition ''provider receipt belongs to another logical job''))) (\<lambda>_.
     bindP (readP (\<lambda>s. case receipt_of_attempt s (pt_provider_attempt_id r) of
                None \<Rightarrow> Inr ()
              | Some x \<Rightarrow> require (provider_receipt_form x = provider_receipt_form r)
                  (AuthorityConflict ''provider attempt already has another receipt''))) (\<lambda>_.
     bindP (readP (\<lambda>s. put_idempotent_immutable provider_receipt_form (st_provider_attempt_receipts s)
              (pt_provider_attempt_receipt_id r) r ''provider attempt receipt'')) (\<lambda>d.
     bindP (writeP (\<lambda>s. s\<lparr>st_provider_attempt_receipts := d\<rparr>)) (\<lambda>_. returnP r)))))"

definition get_provider_attempt_receipt :: "Store \<Rightarrow> string \<Rightarrow> ProviderAttemptReceipt result" where
  "get_provider_attempt_receipt s i =
     get_row (st_provider_attempt_receipts s) i ''provider attempt receipt''"

definition list_provider_attempt_receipts ::
    "Store \<Rightarrow> string \<Rightarrow> ProviderAttemptReceipt list result" where
  "list_provider_attempt_receipts s i =
     bindR (get_logical_model_job s i) (\<lambda>_.
       let rs = filter (\<lambda>r. pt_logical_model_job_id r = i) (map snd (st_provider_attempt_receipts s)) in
       bindR (sequenceR (map (\<lambda>r. bindR (subscript (st_provider_attempt_requests s)
                (pt_provider_attempt_id r)) (\<lambda>q. Inr (pq_attempt_number q, r))) rs)) (\<lambda>keyed.
         Inr (map snd (sort_key fst keyed))))"

definition record_durable_model_result :: "DurableModelResult \<Rightarrow> (Store, DurableModelResult) prog" where
  "record_durable_model_result r =
     bindP (readP (\<lambda>s. get_logical_model_job s (dm_logical_model_job_id r))) (\<lambda>_.
     bindP (readP (\<lambda>s. get_provider_attempt_request s (dm_provider_attempt_id r))) (\<lambda>q.
     bindP (readP (\<lambda>s. require (pq_logical_model_job_id q = dm_logical_model_job_id r \<and>
                (case receipt_of_attempt s (dm_provider_attempt_id r) of
                   None \<Rightarrow> False
                 | Some x \<Rightarrow> pt_disposition x = ProviderSucceeded \<and>
                     pt_output_sha256 x = Some (dm_output_sha256 r)))
              (InvalidAuthorityTransition ''durable model result lacks its successful attempt''))) (\<lambda>_.
     bindP (readP (\<lambda>s. Inr (map_of (st_durable_model_results s) (dm_logical_model_job_id r)))) (\<lambda>prior.
       case prior of
         Some x \<Rightarrow>
           if model_result_form x = model_result_form r then returnP x
           else raiseP (AuthorityConflict ''logical model job already has a different result'')
       | None \<Rightarrow>
           bindP (readP (\<lambda>s. put_idempotent_immutable model_result_form (st_durable_model_results s)
                    (dm_logical_model_job_id r) r ''durable model result'')) (\<lambda>d.
           bindP (writeP (\<lambda>s. s\<lparr>st_durable_model_results := d\<rparr>)) (\<lambda>_. returnP r))))))"

definition get_durable_model_result :: "Store \<Rightarrow> string \<Rightarrow> DurableModelResult option result" where
  "get_durable_model_result s i =
     bindR (get_logical_model_job s i) (\<lambda>_. Inr (map_of (st_durable_model_results s) i))"

section \<open>Effect attempts\<close>

definition attempts_of :: "Store \<Rightarrow> string \<Rightarrow> EffectAttemptRecord list" where
  "attempts_of s i = filter (\<lambda>a. ea_outbox_message_id a = i) (map snd (st_effect_attempts s))"

definition record_effect_attempt :: "EffectAttemptRecord \<Rightarrow> (Store, EffectAttemptRecord) prog" where
  "record_effect_attempt a =
     bindP (readP (\<lambda>s. get_outbox_message s (ea_outbox_message_id a))) (\<lambda>m.
     bindP (readP (\<lambda>_. require (om_case_id m = ea_case_id a)
              (InvalidAuthorityTransition ''effect attempt case does not match outbox''))) (\<lambda>_.
     bindP (readP (\<lambda>s. Inr (map_of (st_effect_attempts s) (ea_effect_attempt_id a)))) (\<lambda>existing.
       case existing of
         Some x \<Rightarrow>
           if attempt_form x = attempt_form a then returnP x
           else raiseP (AuthorityConflict ''effect attempt ID already has different content'')
       | None \<Rightarrow>
     bindP (readP (\<lambda>s. Inr (max_by ea_attempt_number (attempts_of s (ea_outbox_message_id a))))) (\<lambda>c.
     bindP (readP (\<lambda>_. require (case c of None \<Rightarrow> True | Some x \<Rightarrow> ea_status x = EffectRetryableFailure)
              (InvalidAuthorityTransition ''completed effect attempt chain cannot be extended''))) (\<lambda>_.
     bindP (readP (\<lambda>_. require
              (ea_attempt_number a = (case c of None \<Rightarrow> 1 | Some x \<Rightarrow> ea_attempt_number x + 1) \<and>
               ea_prior_attempt_id a = map_option ea_effect_attempt_id c)
              (InvalidAuthorityTransition
                 ''effect attempt does not extend the current attempt chain''))) (\<lambda>_.
     bindP (readP (\<lambda>s. put_idempotent_immutable attempt_form (st_effect_attempts s)
              (ea_effect_attempt_id a) a ''effect attempt'')) (\<lambda>d.
     bindP (writeP (\<lambda>s. s\<lparr>st_effect_attempts := d\<rparr>)) (\<lambda>_. returnP a))))))))"

definition list_effect_attempts :: "Store \<Rightarrow> string \<Rightarrow> EffectAttemptRecord list result" where
  "list_effect_attempts s i =
     bindR (get_outbox_message s i) (\<lambda>_. Inr (sort_key ea_attempt_number (attempts_of s i)))"

section \<open>Actions, receipts and checkpoints\<close>

definition get_action :: "Store \<Rightarrow> string \<Rightarrow> ActionView result" where
  "get_action s i = get_row (st_actions s) i ''action''"

definition record_action :: "ActionView \<Rightarrow> (Store, ActionView) prog" where
  "record_action a =
     bindP (readP (\<lambda>s. get_case s (av_case_id a))) (\<lambda>_.
     bindP (readP (\<lambda>s. require
              (case map_of (st_action_idempotency_keys s) (av_case_id a, av_idempotency_key a) of
                 None \<Rightarrow> True | Some i \<Rightarrow> i = av_action_id a)
              (AuthorityConflict ''action idempotency key already has different content''))) (\<lambda>_.
     bindP (readP (\<lambda>s. put_idempotent_immutable id (st_actions s) (av_action_id a) a ''action'')) (\<lambda>d.
     bindP (writeP (\<lambda>s. s\<lparr>st_actions := d,
              st_action_idempotency_keys := AList.update (av_case_id a, av_idempotency_key a)
                (av_action_id a) (st_action_idempotency_keys s)\<rparr>)) (\<lambda>_. returnP a))))"

definition get_context_packet :: "Store \<Rightarrow> string \<Rightarrow> ContextPacketView result" where
  "get_context_packet s i = get_row (st_contexts s) i ''ContextPacket''"

definition record_context_packet :: "ContextPacketView \<Rightarrow> (Store, ContextPacketView) prog" where
  "record_context_packet p =
     bindP (readP (\<lambda>s. get_case s (pk_case_id p))) (\<lambda>c.
     bindP (readP (\<lambda>_. require (pk_head_version p = ic_head_version c)
              (StaleHead ''ContextPacket was built from a stale case head''))) (\<lambda>_.
     bindP (readP (\<lambda>s. put_idempotent_immutable id (st_contexts s) (pk_packet_id p) p
              ''ContextPacket'')) (\<lambda>d.
     bindP (writeP (\<lambda>s. s\<lparr>st_contexts := d\<rparr>)) (\<lambda>_. returnP p))))"

definition record_action_receipt :: "ActionReceipt \<Rightarrow> (Store, ActionReceipt) prog" where
  "record_action_receipt r =
     bindP (readP (\<lambda>s. get_action s (ar_action_id r))) (\<lambda>a.
     bindP (readP (\<lambda>_. require (av_case_id a = ar_case_id r)
              (InvalidAuthorityTransition ''action receipt case does not match action''))) (\<lambda>_.
     bindP (readP (\<lambda>_. require (av_content_sha256 a = ar_request_sha256 r)
              (AuthorityConflict ''action receipt request hash does not match action''))) (\<lambda>_.
     bindP (readP (\<lambda>s. require_event_cursor s (ar_case_id r) (ar_event_cursor r))) (\<lambda>_.
     bindP (readP (\<lambda>s. Inr (map_of (st_receipts s) (ar_case_id r, ar_idempotency_key r)))) (\<lambda>existing.
       case existing of
         Some x \<Rightarrow>
           if receipt_form x = receipt_form r then returnP x
           else raiseP (AuthorityConflict ''idempotency key already has a different receipt'')
       | None \<Rightarrow>
     bindP (readP (\<lambda>s. require (map_of (st_receipt_action_ids s) (ar_action_id r) = None)
              (AuthorityConflict ''action already has a receipt''))) (\<lambda>_.
     bindP (writeP (\<lambda>s. s\<lparr>st_receipts :=
                AList.update (ar_case_id r, ar_idempotency_key r) r (st_receipts s),
              st_receipt_action_ids := AList.update (ar_action_id r)
                (ar_case_id r, ar_idempotency_key r) (st_receipt_action_ids s)\<rparr>)) (\<lambda>_.
       returnP r)))))))"

definition get_action_receipt :: "Store \<Rightarrow> string \<Rightarrow> string \<Rightarrow> ActionReceipt option" where
  "get_action_receipt s case_id idempotency_key = map_of (st_receipts s) (case_id, idempotency_key)"

definition record_checkpoint :: "CheckpointRecord \<Rightarrow> (Store, CheckpointRecord) prog" where
  "record_checkpoint c =
     bindP (readP (\<lambda>s. get_case s (ck_case_id c))) (\<lambda>k.
     bindP (readP (\<lambda>_. require (ck_head_version c = ic_head_version k)
              (StaleHead ''checkpoint head does not match current case''))) (\<lambda>_.
     bindP (readP (\<lambda>s. get_context_packet s (ck_context_packet_id c))) (\<lambda>p.
     bindP (readP (\<lambda>_. require (pk_case_id p = ck_case_id c \<and> pk_content_sha256 p = ck_context_sha256 c)
              (InvalidAuthorityTransition ''checkpoint context binding is invalid''))) (\<lambda>_.
     bindP (readP (\<lambda>s. require_event_cursor s (ck_case_id c) (ck_event_cursor c))) (\<lambda>e.
     bindP (readP (\<lambda>_. require (ev_event_type e = EvCheckpointRecorded)
              (InvalidAuthorityTransition ''checkpoint must bind a checkpoint event''))) (\<lambda>_.
     bindP (readP (\<lambda>s. require
              (case map_of (st_checkpoint_event_keys s) (ck_case_id c, ck_event_cursor c) of
                 None \<Rightarrow> True | Some i \<Rightarrow> i = ck_checkpoint_id c)
              (AuthorityConflict ''checkpoint event cursor already has different content''))) (\<lambda>_.
     bindP (readP (\<lambda>s. put_idempotent_immutable checkpoint_form (st_checkpoints s)
              (ck_checkpoint_id c) c ''checkpoint'')) (\<lambda>d.
     bindP (writeP (\<lambda>s. s\<lparr>st_checkpoints := d,
              st_checkpoint_event_keys := AList.update (ck_case_id c, ck_event_cursor c)
                (ck_checkpoint_id c) (st_checkpoint_event_keys s)\<rparr>)) (\<lambda>_. returnP c)))))))))"

definition latest_checkpoint :: "Store \<Rightarrow> string \<Rightarrow> CheckpointRecord option result" where
  "latest_checkpoint s case_id =
     bindR (get_case s case_id) (\<lambda>_.
       Inr (max_by ck_event_cursor (filter (\<lambda>c. ck_case_id c = case_id) (map snd (st_checkpoints s)))))"

section \<open>Workflow projections\<close>

definition current_workflow_model ::
    "Store \<Rightarrow> string \<Rightarrow> ExecutionRealm \<Rightarrow> EvidenceAdmissionProfile \<Rightarrow> WorkflowReadModel result" where
  "current_workflow_model s case_id realm profile =
     (case map_of (st_workflow_read_models s) case_id of
        Some m \<Rightarrow> Inr m | None \<Rightarrow> initial_workflow_read_model case_id realm profile)"

definition get_workflow_read_model ::
    "string \<Rightarrow> ExecutionRealm \<Rightarrow> EvidenceAdmissionProfile \<Rightarrow> (Store, WorkflowReadModel) prog" where
  "get_workflow_read_model case_id realm profile =
     bindP (readP (\<lambda>s. get_case s case_id)) (\<lambda>_.
     bindP (readP (\<lambda>s. Inr (map_of (st_workflow_read_models s) case_id))) (\<lambda>current.
       case current of
         None \<Rightarrow>
           bindP (readP (\<lambda>_. initial_workflow_read_model case_id realm profile)) (\<lambda>m.
           bindP (writeP (\<lambda>s. s\<lparr>st_workflow_read_models :=
                    AList.update case_id m (st_workflow_read_models s)\<rparr>)) (\<lambda>_. returnP m))
       | Some m \<Rightarrow>
           if ws_realm (wm_snapshot m) \<noteq> realm \<or> ws_evidence_profile (wm_snapshot m) \<noteq> profile
           then raiseP (InvalidAuthorityTransition
                  ''Workflow realm or evidence profile cannot change'')
           else returnP m))"

definition appends_one_cursor :: "WorkflowReadModel \<Rightarrow> WorkflowReadModel \<Rightarrow> int \<Rightarrow> bool" where
  "appends_one_cursor current m expected \<longleftrightarrow>
     wh_version (wm_head m) = expected + 1 \<and>
     length (wm_receipts m) = length (wm_receipts current) + 1 \<and>
     butlast (wm_receipts m) = wm_receipts current"

text \<open>The checks of a commit against the current projection, and its write.\<close>

definition commit_onto ::
    "WorkflowReadModel \<Rightarrow> WorkflowReadModel \<Rightarrow> int \<Rightarrow> (Store, WorkflowReadModel) prog" where
  "commit_onto current m expected =
    (let case_id = wh_case_id (wm_head m); receipt = last (wm_receipts m) in
     if ws_realm (wm_snapshot current) \<noteq> ws_realm (wm_snapshot m) \<or>
        ws_evidence_profile (wm_snapshot current) \<noteq> ws_evidence_profile (wm_snapshot m)
     then raiseP (InvalidAuthorityTransition ''Workflow realm or evidence profile cannot change'')
     else if current = m then returnP current
     else if wh_version (wm_head current) \<noteq> expected
     then raiseP (StaleHead ''Workflow projection head changed before commit'')
     else if \<not> appends_one_cursor current m expected
     then raiseP (InvalidAuthorityTransition ''Workflow commit must append exactly one cursor'')
     else
       bindP (readP (\<lambda>s. require_event_cursor s case_id (wr_cursor receipt))) (\<lambda>e.
       bindP (readP (\<lambda>_. require (ev_event_id e = wr_source_event_id receipt \<and>
                  journal_event_sha256 e = wr_source_event_sha256 receipt)
                (InvalidAuthorityTransition
                   ''Workflow receipt does not bind its source journal event''))) (\<lambda>_.
       bindP (writeP (\<lambda>s. s\<lparr>st_workflow_read_models :=
                AList.update case_id m (st_workflow_read_models s)\<rparr>)) (\<lambda>_. returnP m))))"

definition commit_workflow_read_model ::
    "WorkflowReadModel \<Rightarrow> int \<Rightarrow> datetime \<Rightarrow> (Store, WorkflowReadModel) prog" where
  "commit_workflow_read_model m expected applied_at =
    (let case_id = wh_case_id (wm_head m) in
     bindP (readP (\<lambda>_. require_aware_datetime applied_at ''applied_at'')) (\<lambda>_.
     bindP (readP (\<lambda>s. get_case s case_id)) (\<lambda>_.
     bindP (readP (\<lambda>s. current_workflow_model s case_id (ws_realm (wm_snapshot m))
              (ws_evidence_profile (wm_snapshot m)))) (\<lambda>current.
     bindP (writeP (\<lambda>s. if map_of (st_workflow_read_models s) case_id = None
              then s\<lparr>st_workflow_read_models :=
                     AList.update case_id current (st_workflow_read_models s)\<rparr>
              else s)) (\<lambda>_.
       commit_onto current m expected)))))"

section \<open>Transactions\<close>

text \<open>\<open>with store.atomic(): body\<close> restores every table when the body raises.\<close>

definition atomic :: "(Store, 'a) prog \<Rightarrow> (Store, 'a) prog" where
  "atomic body s = (case body s of (Inl e, t) \<Rightarrow> (Inl e, s) | (Inr x, t) \<Rightarrow> (Inr x, t))"

end
