(* ===== verification/PlanCompiler.thy ===== *)
theory PlanCompiler imports PlanTypes begin

text \<open>
  The compilation of a plan bundle from accepted measurement authority and its validation
  (\<open>compile_plan_bundle\<close>, \<open>validate_plan_bundle\<close> and what they call in \<open>domain/planning.py\<close>).
\<close>

section \<open>The inputs of a plan\<close>

definition validate_case_and_snapshot ::
    "InvestigationCase \<Rightarrow> FrameView \<Rightarrow> AuthoritySnapshot \<Rightarrow> unit result" where
  "validate_case_and_snapshot c f a = checks [
     require (fr_case_id f = ic_case_id c \<and> au_case_id a = ic_case_id c)
       (ValueError ''plan inputs cross case boundary''),
     require (ic_question_revision_id c = Some (fr_question_revision_id f) \<and>
         ic_frame_revision_id c = Some (fr_frame_revision_id f))
       (ValueError ''plan requires the accepted Question and Frame''),
     require (au_head_version a = ic_head_version c \<and>
         au_question_revision_id a = ic_question_revision_id c \<and>
         au_frame_revision_id a = ic_frame_revision_id c \<and>
         au_plan_revision_id a = ic_plan_revision_id c)
       (ValueError ''plan authority snapshot is stale'')]"

text \<open>A loop that fills a dict and raises \<open>e\<close> at the second item of a key.\<close>

definition index_by :: "('a \<Rightarrow> 'k result) \<Rightarrow> py_error \<Rightarrow> 'a list \<Rightarrow> ('k \<times> 'a) list result" where
  "index_by key e xs = foldR (\<lambda>x d. bindR (key x) (\<lambda>k.
     if k \<in> set (map fst d) then Inl e else Inr (d @ [(k, x)]))) xs []"

text \<open>\<open>dict(zip(keys, values, strict=True))\<close>\<close>

definition zip_strict :: "string list \<Rightarrow> 'a list \<Rightarrow> (string \<times> 'a) list result" where
  "zip_strict ks vs =
     (if length vs < length ks then Inl (ValueError ''zip() argument 2 is shorter than argument 1'')
      else if length ks < length vs then Inl (ValueError ''zip() argument 2 is longer than argument 1'')
      else Inr (dict_of (zip ks vs)))"

text \<open>A subscript of a dict whose keys are not strings.\<close>

definition subscript_slot :: "('k \<times> 'a) list \<Rightarrow> 'k \<Rightarrow> 'a result" where
  "subscript_slot d k = (case map_of d k of Some v \<Rightarrow> Inr v | None \<Rightarrow> Inl (KeyError ''slot''))"

type_synonym slot = "string \<times> string \<times> string"

definition requirements_by_id :: "FrameView \<Rightarrow> (string \<times> EvidenceRequirementSpec) list" where
  "requirements_by_id f = dict_of (map (\<lambda>r. (er_evidence_requirement_id r, r))
     (md_evidence_requirements (fr_design f)))"

definition obligation_slot :: "ResolvedEvidenceObligation \<Rightarrow> slot result" where
  "obligation_slot b =
     (if length (ro_evidence_type_refs b) \<noteq> 1
      then Inl (ValueError ''resolved obligation must own one evidence type slot'')
      else Inr (ro_estimand_id b, ro_evidence_requirement_id b, hd (ro_evidence_type_refs b)))"

definition expected_slots :: "FrameView \<Rightarrow> slot list result" where
  "expected_slots f =
     bindR (sequenceR [
       bindR (item (requirements_by_id f) i) (\<lambda>r.
         Inr (map (\<lambda>t. (es_estimand_id e, i, t)) (er_required_evidence_type_refs r))).
       e \<leftarrow> md_estimands (fr_design f), i \<leftarrow> es_evidence_requirement_ids e]) (\<lambda>sss. Inr (concat sss))"

definition check_outcome_authority ::
    "FrameView \<Rightarrow> (string \<times> string) list \<Rightarrow> (string \<times> string) list \<Rightarrow> MeasurementDerivationAuthority \<Rightarrow>
     MeasurementResolutionOutcome \<times> MeasurementResolutionAdmission \<Rightarrow> unit result" where
  "check_outcome_authority f semantic authority expected = (\<lambda>(x, a).
     require (mo_case_id x = fr_case_id f \<and>
         mo_question_revision_id x = fr_question_revision_id f \<and>
         mo_frame_revision_id x = fr_frame_revision_id f \<and>
         map_of semantic (mo_estimand_id x) = Some (mo_semantic_measurement_id x) \<and>
         map_of authority (mo_estimand_id x) = Some (mo_authority_binding_id x) \<and>
         mo_derivation_authority x = expected \<and>
         ma_resolution_outcome_id a = mo_resolution_outcome_id x \<and>
         ma_frame_revision_id a = fr_frame_revision_id f \<and>
         ma_estimand_id a = mo_estimand_id x)
       (ValueError ''resolution outcome changes Frame authority''))"

definition check_obligation_authority ::
    "FrameView \<Rightarrow> MeasurementResolutionOutcome list \<Rightarrow> MeasurementDerivationAuthority \<Rightarrow>
     ResolvedEvidenceObligation \<Rightarrow> unit result" where
  "check_obligation_authority f outcomes expected b =
     bindR (item (requirements_by_id f) (ro_evidence_requirement_id b)) (\<lambda>r.
       require (ro_case_id b = fr_case_id f \<and>
           ro_frame_revision_id b = fr_frame_revision_id f \<and>
           map_of (dict_of (map (\<lambda>x. (mo_estimand_id x, mo_resolution_outcome_id x)) outcomes))
             (ro_estimand_id b) = Some (ro_resolution_outcome_id b) \<and>
           ro_derivation_authority b = expected \<and>
           ro_evidence_requirement_sha256 b = evidence_requirement_sha256 r \<and>
           hd (ro_evidence_type_refs b) \<in> set (er_required_evidence_type_refs r))
         (ValueError ''obligation changes Frame or resolution authority''))"

definition order_outcomes ::
    "FrameView \<Rightarrow> MeasurementResolutionOutcome list \<Rightarrow> MeasurementResolutionOutcome list result" where
  "order_outcomes f outcomes =
     bindR (index_by (Inr \<circ> mo_estimand_id)
              (ValueError ''plan cannot adopt two outcomes for one estimand'') outcomes) (\<lambda>by_estimand.
     bindR (require (set (map fst by_estimand) = set (map es_estimand_id (md_estimands (fr_design f))))
              (ValueError ''plan must adopt one outcome for every Frame estimand'')) (\<lambda>_.
       sequenceR (map (item by_estimand) (map es_estimand_id (md_estimands (fr_design f))))))"

definition order_admissions ::
    "MeasurementResolutionOutcome list \<Rightarrow> MeasurementResolutionAdmission list \<Rightarrow>
     MeasurementResolutionAdmission list result" where
  "order_admissions outcomes admissions =
     bindR (index_by (Inr \<circ> ma_resolution_outcome_id)
              (ValueError ''resolution admission is duplicated'') admissions) (\<lambda>by_outcome.
     bindR (require (set (map fst by_outcome) = set (map mo_resolution_outcome_id outcomes))
              (ValueError ''every adopted outcome requires one admission'')) (\<lambda>_.
       sequenceR (map (item by_outcome) (map mo_resolution_outcome_id outcomes))))"

definition order_obligations ::
    "FrameView \<Rightarrow> MeasurementResolutionOutcome list \<Rightarrow> ResolvedEvidenceObligation list \<Rightarrow>
     ResolvedEvidenceObligation list result" where
  "order_obligations f outcomes obligations =
     bindR (index_by obligation_slot (ValueError ''resolved obligation slot is duplicated'')
              (filter (\<lambda>b. ro_resolution_outcome_id b \<in> set (map mo_resolution_outcome_id outcomes))
                obligations)) (\<lambda>by_slot.
     bindR (expected_slots f) (\<lambda>slots.
     bindR (require (set (map fst by_slot) = set slots)
              (ValueError ''obligations do not close every Frame requirement'')) (\<lambda>_.
       sequenceR (map (subscript_slot by_slot) slots))))"

type_synonym plan_inputs =
  "MeasurementResolutionOutcome list \<times> MeasurementResolutionAdmission list \<times>
   ResolvedEvidenceObligation list"

definition validate_measurement_inputs ::
    "FrameView \<Rightarrow> AuthoritySnapshot \<Rightarrow> plan_inputs \<Rightarrow> plan_inputs result" where
  "validate_measurement_inputs f a = (\<lambda>(outcomes, admissions, obligations).
     bindR (require (outcomes \<noteq> [] \<and> obligations \<noteq> [])
              (ValueError ''plan requires resolved outcomes and obligations'')) (\<lambda>_.
     bindR (order_outcomes f outcomes) (\<lambda>xs.
     bindR (order_admissions xs admissions) (\<lambda>as.
     bindR (zip_strict (map es_estimand_id (md_estimands (fr_design f))) (fr_semantic_measurement_ids f))
       (\<lambda>semantic.
     bindR (zip_strict (map es_estimand_id (md_estimands (fr_design f))) (fr_authority_binding_ids f))
       (\<lambda>authority.
     bindR (derivation_of_snapshot a) (\<lambda>expected.
     bindR (checks (map (check_outcome_authority f semantic authority expected) (zip xs as))) (\<lambda>_.
     bindR (order_obligations f xs obligations) (\<lambda>bs.
     bindR (checks (map (check_obligation_authority f xs expected) bs)) (\<lambda>_.
       Inr (xs, as, bs)))))))))))"

section \<open>The proposal\<close>

text \<open>\<open>getattr\<close> of an estimand, for the fields a capability intent may require.\<close>

definition authority_field :: "EstimandSpec \<Rightarrow> string \<Rightarrow> string list result" where
  "authority_field e name =
     (if name = ''alternative_ids'' then Inr (es_alternative_ids e)
      else if name = ''sensitivity_ids'' then Inr (es_sensitivity_ids e)
      else if name = ''falsification_ids'' then Inr (es_falsification_ids e)
      else if name = ''reversal_ids'' then Inr (es_reversal_ids e)
      else Inl (AttributeError name))"

definition check_intent_obligation ::
    "FrameView \<Rightarrow> CapabilityIntentContract \<Rightarrow> (string \<times> ResolvedEvidenceObligation) list \<Rightarrow> string \<Rightarrow>
     unit result" where
  "check_intent_obligation f intent by_id i =
     bindR (item by_id i) (\<lambda>b.
     bindR (checks [
       require (ro_execution_disposition b \<in> set (ci_allowed_execution_dispositions intent))
         (ValueError ''capability intent cannot execute obligation disposition''),
       require (ci_allows_any_governed_evidence_type intent \<or>
           set (ro_evidence_type_refs b) \<subseteq> set (ci_allowed_evidence_type_refs intent))
         (ValueError ''capability intent cannot fulfill obligation evidence type'')]) (\<lambda>_.
     bindR (item (dict_of (map (\<lambda>e. (es_estimand_id e, e)) (md_estimands (fr_design f))))
              (ro_estimand_id b)) (\<lambda>e.
       checks (map (\<lambda>name. bindR (authority_field e name) (\<lambda>v.
           require (v \<noteq> []) (ValueError ''capability intent lacks required measurement authority'')))
         (ci_required_measurement_authority_fields intent)))))"

definition check_intent ::
    "FrameView \<Rightarrow> (string \<times> ResolvedEvidenceObligation) list \<Rightarrow> ProposedWorkTask \<Rightarrow> unit result" where
  "check_intent f by_id t =
     bindR (get_capability_intent capability_intent_registry (pt_capability_intent_ref t)) (\<lambda>intent.
       checks (map (check_intent_obligation f intent by_id) (pt_obligation_ids t)))"

definition obligations_by_id ::
    "ResolvedEvidenceObligation list \<Rightarrow> (string \<times> ResolvedEvidenceObligation) list" where
  "obligations_by_id bs = dict_of (map (\<lambda>b. (ro_obligation_id b, b)) bs)"

definition validate_proposed_tasks ::
    "ProposedWorkTask list \<Rightarrow> ResolvedEvidenceObligation list \<Rightarrow> FrameView \<Rightarrow> unit result" where
  "validate_proposed_tasks ts bs f =
    (let keys = map pt_proposal_task_key ts;
         ids = concat (map pt_obligation_ids ts) in
     checks ([
       require (ts \<noteq> []) (ValueError ''work plan requires proposed tasks''),
       require (distinct keys) (ValueError ''proposal task keys must be unique'')] @
       map (\<lambda>t. require (set (pt_depends_on_task_keys t) \<subseteq> set keys)
              (ValueError ''proposed task has unknown dependencies'')) ts @ [
       assert_acyclic (ValueError ''proposed task dependencies must be acyclic'')
         (dict_of (map (\<lambda>t. (pt_proposal_task_key t, pt_depends_on_task_keys t)) ts)),
       require (set ids = set (map ro_obligation_id bs))
         (ValueError ''proposed tasks must cover every obligation''),
       require (distinct ids) (ValueError ''proposed tasks cannot duplicate obligation ownership'')] @
       map (check_intent f (obligations_by_id bs)) ts))"

section \<open>What is built\<close>

definition work_task_id :: "string \<Rightarrow> string \<Rightarrow> string" where
  "work_task_id plan_revision_id proposal_task_key = digest (JObj [
     (''kind'', JStr ''work-task.v1''), (''plan_revision_id'', JStr plan_revision_id),
     (''proposal_task_key'', JStr proposal_task_key)])"

definition query_binding_id :: "string \<Rightarrow> string \<Rightarrow> ResolvedEvidenceObligation \<Rightarrow> string" where
  "query_binding_id plan_revision_id task_id b = digest (JObj [
     (''kind'', JStr ''query-binding-envelope.v1''), (''plan_revision_id'', JStr plan_revision_id),
     (''task_id'', JStr task_id), (''obligation_id'', JStr (ro_obligation_id b)),
     (''resolution_outcome_id'', JStr (ro_resolution_outcome_id b)),
     (''closure_definition_sha256'', JStr (ro_closure_definition_sha256 b))])"

text \<open>\<open>tuple(dict.fromkeys(values))\<close>: the first occurrence of each value.\<close>

definition ordered_unique :: "string list \<Rightarrow> string list" where
  "ordered_unique vs = rev (remdups (rev vs))"

definition completion_specs_of ::
    "FrameView \<Rightarrow> ResolvedEvidenceObligation list \<Rightarrow> EpistemicCompletionSpec list" where
  "completion_specs_of f bs =
     filter (\<lambda>c. set (ec_target_estimand_ids c) \<inter> set (map ro_estimand_id bs) \<noteq> {} \<and>
         set (ec_required_evidence_requirement_ids c) \<inter> set (map ro_evidence_requirement_id bs) \<noteq> {})
       (md_completion_specs (fr_design f))"

definition build_work_task ::
    "ProposedWorkTask \<Rightarrow> string \<Rightarrow> (string \<times> string) list \<Rightarrow> (string \<times> string) list \<Rightarrow>
     (string \<times> ResolvedEvidenceObligation) list \<Rightarrow> FrameView \<Rightarrow> WorkTask result" where
  "build_work_task t task_id id_by_key binding_by_obligation by_id f =
     bindR (sequenceR (map (item by_id) (pt_obligation_ids t))) (\<lambda>bs.
    (let specs = completion_specs_of f bs in
     bindR (require (specs \<noteq> []) (ValueError ''task obligations have no Frame completion path'')) (\<lambda>_.
     bindR (sequenceR (map (item id_by_key) (pt_depends_on_task_keys t))) (\<lambda>deps.
       construct check_work_task
         \<lparr>wt_task_id = task_id, wt_proposal_task_key = pt_proposal_task_key t,
          wt_business_purpose = pt_business_purpose t,
          wt_capability_intent_ref = pt_capability_intent_ref t,
          wt_target_estimand_ids = filter (\<lambda>i. i \<in> set (map ro_estimand_id bs))
            (map es_estimand_id (md_estimands (fr_design f))),
          wt_obligation_ids = pt_obligation_ids t,
          wt_query_binding_ids = List.map_filter (map_of binding_by_obligation) (pt_obligation_ids t),
          wt_completion_spec_ids = map ec_completion_spec_id specs,
          wt_success_policy_refs = ordered_unique (map ec_success_policy_ref specs),
          wt_degrade_policy_refs = ordered_unique (map ec_degrade_policy_ref specs),
          wt_stop_policy_refs = ordered_unique (map ec_stop_policy_ref specs),
          wt_depends_on_task_ids = deps\<rparr>))))"

definition measurement_binding_of :: "EstimandSpec \<Rightarrow> LogicalMeasurementBinding" where
  "measurement_binding_of e =
     \<lparr>lm_claim_target_kind = es_claim_target_kind e,
      lm_claim_target_spec_sha256 = digest (es_claim_target_spec e),
      lm_variable_ids = es_variable_ids e, lm_event_ids = es_event_ids e,
      lm_population_id = es_population_id e, lm_observation_unit_id = es_observation_unit_id e,
      lm_temporal_semantic_id = es_temporal_semantic_id e, lm_estimator_id = es_estimator_id e,
      lm_exposure_id = es_exposure_id e, lm_contrast_id = es_contrast_id e,
      lm_sequence_id = es_sequence_id e, lm_cohort_risk_set_id = es_cohort_risk_set_id e,
      lm_reconciliation_id = es_reconciliation_id e, lm_relationship_id = es_relationship_id e,
      lm_eligibility_id = es_eligibility_id e, lm_identification_id = es_identification_id e,
      lm_alternative_ids = es_alternative_ids e, lm_sensitivity_ids = es_sensitivity_ids e,
      lm_falsification_ids = es_falsification_ids e, lm_reversal_ids = es_reversal_ids e,
      lm_scope_ceiling_id = es_scope_ceiling_id e,
      lm_claim_strength_ceiling = es_claim_strength_ceiling e\<rparr>"

definition requirement_binding_of ::
    "EvidenceRequirementSpec \<Rightarrow> ResolvedEvidenceObligation \<Rightarrow> EvidenceRequirementBinding" where
  "requirement_binding_of r b =
     \<lparr>eb_evidence_requirement_id = er_evidence_requirement_id r,
      eb_required_evidence_type_refs = er_required_evidence_type_refs r,
      eb_obligation_evidence_type_refs = ro_evidence_type_refs b,
      eb_composition = er_composition r, eb_minimum_count = er_minimum_count r,
      eb_minimum_strength = er_minimum_strength r, eb_scope_id = er_scope_id r,
      eb_exposure_id = er_exposure_id r, eb_contradiction_policy_ref = er_contradiction_policy_ref r,
      eb_boundary_policy = er_boundary_policy r,
      eb_allowed_boundary_codes = er_allowed_boundary_codes r,
      eb_linked_falsification_ids = er_linked_falsification_ids r,
      eb_linked_reversal_ids = er_linked_reversal_ids r\<rparr>"

definition build_query_binding ::
    "WorkPlanRevision \<Rightarrow> FrameView \<Rightarrow> WorkTask \<Rightarrow> ResolvedEvidenceObligation \<Rightarrow>
     MeasurementResolutionOutcome \<Rightarrow> datetime \<Rightarrow> QueryBindingEnvelope result" where
  "build_query_binding p f t b x created_at =
     bindR (require (mo_kind x = ResolvedInstance)
              (ValueError ''executable obligation requires resolved measurement instance'')) (\<lambda>_.
     bindR (case mo_resolved_instance x of
              None \<Rightarrow> Inl (ValueError ''executable obligation requires resolved instance'')
            | Some i \<Rightarrow> Inr i) (\<lambda>instance.
     bindR (next_item es_estimand_id (md_estimands (fr_design f)) (ro_estimand_id b)) (\<lambda>e.
     bindR (next_item er_evidence_requirement_id (md_evidence_requirements (fr_design f))
              (ro_evidence_requirement_id b)) (\<lambda>r.
     bindR (construct check_measurement_binding (measurement_binding_of e)) (\<lambda>mb.
     bindR (construct check_requirement_binding (requirement_binding_of r b)) (\<lambda>eb.
       construct check_query_binding
         \<lparr>qb_query_binding_id = query_binding_id (wp_plan_revision_id p) (wt_task_id t) b,
          qb_case_id = fr_case_id f, qb_question_revision_id = fr_question_revision_id f,
          qb_frame_revision_id = fr_frame_revision_id f,
          qb_plan_revision_id = wp_plan_revision_id p, qb_task_id = wt_task_id t,
          qb_capability_intent_ref = wt_capability_intent_ref t,
          qb_estimand_id = es_estimand_id e,
          qb_evidence_requirement_id = er_evidence_requirement_id r,
          qb_obligation_id = ro_obligation_id b,
          qb_resolution_outcome_id = mo_resolution_outcome_id x,
          qb_semantic_measurement_id = mo_semantic_measurement_id x,
          qb_authority_binding_id = mo_authority_binding_id x,
          qb_frame_content_sha256 = fr_content_sha256 f,
          qb_plan_content_sha256 = work_plan_sha256 p,
          qb_resolution_outcome_content_sha256 = resolution_outcome_sha256 x,
          qb_obligation_content_sha256 = obligation_sha256 b,
          qb_measurement_binding = mb, qb_requirement_binding = eb,
          qb_resolved_measurement_instance = instance,
          qb_query_binding_policy_version = query_binding_policy_version,
          qb_physical_compiler_contract_ref = gate4_compiler_contract_ref,
          qb_created_at = created_at, qb_schema_epoch = schema_epoch\<rparr>))))))"

definition plan_adoption_policy_version :: string where
  "plan_adoption_policy_version = ''plan-adoption.v1''"

definition plan_adoption_material ::
    "InvestigationCase \<Rightarrow> AuthoritySnapshot \<Rightarrow> FrameView \<Rightarrow> WorkPlanRevision \<Rightarrow> plan_inputs \<Rightarrow>
     QueryBindingEnvelope list \<Rightarrow> json" where
  "plan_adoption_material c a f p = (\<lambda>(xs, as, bs) qs. JObj [
     (''case_id'', JStr (ic_case_id c)),
     (''question_revision_id'', JStr (fr_question_revision_id f)),
     (''frame_revision_id'', JStr (fr_frame_revision_id f)),
     (''plan_revision_id'', JStr (wp_plan_revision_id p)),
     (''expected_head_version'', JInt (ic_head_version c)),
     (''authority_snapshot_sha256'', JStr (authority_sha256 a)),
     (''frame_content_sha256'', JStr (fr_content_sha256 f)),
     (''plan_content_sha256'', JStr (work_plan_sha256 p)),
     (''resolution_outcome_ids'', strs (map mo_resolution_outcome_id xs)),
     (''resolution_outcome_content_sha256s'', strs (map resolution_outcome_sha256 xs)),
     (''resolution_admission_content_sha256s'', strs (map resolution_admission_sha256 as)),
     (''resolution_context_sha256s'', strs (map ma_resolution_context_sha256 as)),
     (''resolver_input_bundle_sha256s'', strs (map ma_resolver_input_bundle_sha256 as)),
     (''resolution_registry_content_sha256s'', strs (map ma_registry_content_sha256 as)),
     (''obligation_ids'', strs (map ro_obligation_id bs)),
     (''obligation_content_sha256s'', strs (map obligation_sha256 bs)),
     (''query_binding_ids'', strs (map qb_query_binding_id qs)),
     (''query_binding_content_sha256s'', strs (map query_binding_sha256 qs)),
     (''capability_intent_registry_version'', JStr capability_intent_registry_version),
     (''capability_intent_registry_sha256'', JStr capability_intent_registry_sha256),
     (''adoption_policy_version'', JStr plan_adoption_policy_version)])"

definition build_plan_adoption ::
    "InvestigationCase \<Rightarrow> AuthoritySnapshot \<Rightarrow> FrameView \<Rightarrow> WorkPlanRevision \<Rightarrow> plan_inputs \<Rightarrow>
     QueryBindingEnvelope list \<Rightarrow> datetime \<Rightarrow> PlanAdoptionRecord result" where
  "build_plan_adoption c a f p = (\<lambda>(xs, as, bs) qs created_at.
    (let proof = digest (plan_adoption_material c a f p (xs, as, bs) qs) in
     construct check_plan_adoption
       \<lparr>pd_plan_adoption_id = digest (JObj [(''kind'', JStr ''plan-adoption-record.v1''),
          (''derivation_proof_sha256'', JStr proof)]),
        pd_case_id = ic_case_id c, pd_question_revision_id = fr_question_revision_id f,
        pd_frame_revision_id = fr_frame_revision_id f, pd_plan_revision_id = wp_plan_revision_id p,
        pd_expected_head_version = ic_head_version c, pd_authority_snapshot = a,
        pd_authority_snapshot_sha256 = authority_sha256 a,
        pd_frame_content_sha256 = fr_content_sha256 f, pd_plan_content_sha256 = work_plan_sha256 p,
        pd_resolution_outcome_ids = map mo_resolution_outcome_id xs,
        pd_resolution_outcome_content_sha256s = map resolution_outcome_sha256 xs,
        pd_resolution_admission_content_sha256s = map resolution_admission_sha256 as,
        pd_resolution_context_sha256s = map ma_resolution_context_sha256 as,
        pd_resolver_input_bundle_sha256s = map ma_resolver_input_bundle_sha256 as,
        pd_resolution_registry_content_sha256s = map ma_registry_content_sha256 as,
        pd_obligation_ids = map ro_obligation_id bs,
        pd_obligation_content_sha256s = map obligation_sha256 bs,
        pd_query_binding_ids = map qb_query_binding_id qs,
        pd_query_binding_content_sha256s = map query_binding_sha256 qs,
        pd_capability_intent_registry_version = capability_intent_registry_version,
        pd_capability_intent_registry_sha256 = capability_intent_registry_sha256,
        pd_adoption_policy_version = plan_adoption_policy_version,
        pd_derivation_proof_sha256 = proof, pd_created_at = created_at,
        pd_schema_epoch = schema_epoch\<rparr>))"

section \<open>Validation\<close>

text \<open>What \<open>validate_plan_bundle\<close> indexes before it goes through the tasks.\<close>

record BundleIndex =
  bx_obligations :: "(string \<times> ResolvedEvidenceObligation) list"
  bx_outcomes :: "(string \<times> MeasurementResolutionOutcome) list"
  bx_bindings :: "(string \<times> QueryBindingEnvelope) list"
  bx_key_by_task_id :: "(string \<times> string) list"
  bx_task_id_by_key :: "(string \<times> string) list"
  bx_binding_by_obligation :: "(string \<times> string) list"

definition outcomes_by_id ::
    "MeasurementResolutionOutcome list \<Rightarrow> (string \<times> MeasurementResolutionOutcome) list" where
  "outcomes_by_id xs = dict_of (map (\<lambda>x. (mo_resolution_outcome_id x, x)) xs)"

definition index_bundle :: "PlanBundle \<Rightarrow> plan_inputs \<Rightarrow> BundleIndex" where
  "index_bundle b = (\<lambda>(xs, as, bs).
     \<lparr>bx_obligations = obligations_by_id bs,
      bx_outcomes = outcomes_by_id xs,
      bx_bindings = dict_of (map (\<lambda>q. (qb_query_binding_id q, q)) (bu_query_bindings b)),
      bx_key_by_task_id = dict_of (map (\<lambda>t. (wt_task_id t, wt_proposal_task_key t)) (wp_tasks (bu_plan b))),
      bx_task_id_by_key = dict_of (map (\<lambda>t. (wt_proposal_task_key t, wt_task_id t)) (wp_tasks (bu_plan b))),
      bx_binding_by_obligation =
        dict_of (map (\<lambda>q. (qb_obligation_id q, qb_query_binding_id q)) (bu_query_bindings b))\<rparr>)"

text \<open>The proposal a task was compiled from, and the task compiled from it again.\<close>

definition proposal_of_task :: "BundleIndex \<Rightarrow> WorkTask \<Rightarrow> ProposedWorkTask result" where
  "proposal_of_task ix t =
     bindR (sequenceR (map (item (bx_key_by_task_id ix)) (wt_depends_on_task_ids t))) (\<lambda>keys.
       construct check_proposed_task
         \<lparr>pt_proposal_task_key = wt_proposal_task_key t, pt_business_purpose = wt_business_purpose t,
          pt_capability_intent_ref = wt_capability_intent_ref t,
          pt_obligation_ids = wt_obligation_ids t, pt_depends_on_task_keys = keys\<rparr>)"

definition expected_work_task :: "BundleIndex \<Rightarrow> FrameView \<Rightarrow> WorkTask \<Rightarrow> WorkTask result" where
  "expected_work_task ix f t =
     bindR (proposal_of_task ix t) (\<lambda>proposal.
       build_work_task proposal (wt_task_id t) (bx_task_id_by_key ix) (bx_binding_by_obligation ix)
         (bx_obligations ix) f)"

text \<open>The IDs of the query bindings one obligation of a task requires.\<close>

definition validate_task_obligation ::
    "PlanBundle \<Rightarrow> BundleIndex \<Rightarrow> FrameView \<Rightarrow> WorkTask \<Rightarrow> string \<Rightarrow> string list result" where
  "validate_task_obligation b ix f t i =
     (case map_of (bx_obligations ix) i of
        None \<Rightarrow> Inl (ValueError ''task references unknown obligation'')
      | Some x \<Rightarrow>
          if ro_execution_disposition x = DispExecutable
          then (let j = query_binding_id (wp_plan_revision_id (bu_plan b)) (wt_task_id t) x in
            (case map_of (bx_bindings ix) j of
               None \<Rightarrow> Inl (ValueError ''executable obligation lacks query binding'')
             | Some q \<Rightarrow>
                 bindR (item (bx_outcomes ix) (ro_resolution_outcome_id x)) (\<lambda>outcome.
                 bindR (build_query_binding (bu_plan b) f t x outcome (qb_created_at q)) (\<lambda>expected.
                 bindR (require (expected = q)
                          (ValueError ''query binding changes measurement authority'')) (\<lambda>_.
                   Inr [j])))))
          else bindR (require (\<not> (\<exists>q \<in> set (bu_query_bindings b). qb_obligation_id q = i))
                        (ValueError ''boundary obligation cannot create query binding'')) (\<lambda>_. Inr []))"

definition validate_task ::
    "PlanBundle \<Rightarrow> BundleIndex \<Rightarrow> FrameView \<Rightarrow> WorkTask \<Rightarrow> string list result" where
  "validate_task b ix f t =
     bindR (require (wt_task_id t = work_task_id (wp_plan_revision_id (bu_plan b)) (wt_proposal_task_key t))
              (ValueError ''task ID was not system-derived'')) (\<lambda>_.
     bindR (expected_work_task ix f t) (\<lambda>expected.
     bindR (require (expected = t) (ValueError ''work task changes Frame-derived policy authority'')) (\<lambda>_.
     bindR (sequenceR (map (validate_task_obligation b ix f t) (wt_obligation_ids t))) (\<lambda>jss.
     bindR (require (wt_query_binding_ids t = concat jss)
              (ValueError ''task query binding ownership is inconsistent'')) (\<lambda>_.
       Inr (concat jss))))))"

definition check_plan_closure :: "PlanBundle \<Rightarrow> InvestigationCase \<Rightarrow> FrameView \<Rightarrow> plan_inputs \<Rightarrow> unit result" where
  "check_plan_closure b c f = (\<lambda>(xs, as, bs).
    (let p = bu_plan b; ids = concat (map wt_obligation_ids (wp_tasks p)) in
     checks [
       require (wp_case_id p = ic_case_id c \<and> wp_frame_revision_id p = fr_frame_revision_id f)
         (ValueError ''plan changes accepted case or Frame''),
       require (wp_resolution_outcome_ids p = map mo_resolution_outcome_id xs)
         (ValueError ''plan resolution adoption is incomplete''),
       require (set ids = set (map ro_obligation_id bs))
         (ValueError ''plan obligation closure is incomplete''),
       require (distinct ids) (ValueError ''plan obligation closure is duplicated''),
       require (distinct (map qb_query_binding_id (bu_query_bindings b)))
         (ValueError ''query binding IDs must be unique'')]))"

definition validate_plan_bundle ::
    "PlanBundle \<Rightarrow> InvestigationCase \<Rightarrow> AuthoritySnapshot \<Rightarrow> FrameView \<Rightarrow> plan_inputs \<Rightarrow> unit result" where
  "validate_plan_bundle b c a f inputs =
     bindR (validate_case_and_snapshot c f a) (\<lambda>_.
     bindR (validate_measurement_inputs f a inputs) (\<lambda>ordered.
     bindR (check_plan_closure b c f ordered) (\<lambda>_.
    (let ix = index_bundle b ordered in
     bindR (sequenceR (map (validate_task b ix f) (wp_tasks (bu_plan b)))) (\<lambda>jss.
     bindR (require (set (map fst (bx_bindings ix)) = set (concat jss))
              (ValueError ''plan carries unowned query bindings'')) (\<lambda>_.
     bindR (build_plan_adoption c a f (bu_plan b) ordered (bu_query_bindings b)
              (pd_created_at (bu_adoption b))) (\<lambda>expected.
       require (expected = bu_adoption b) (ValueError ''plan adoption exact replay failed''))))))))"

section \<open>Compilation\<close>

record PlanProposal =
  pp_tasks :: "ProposedWorkTask list"
  pp_plan_revision_id :: string
  pp_revision_number :: int
  pp_prior_plan_revision_id :: "string option"
  pp_created_by_action_id :: string
  pp_created_at :: datetime
  pp_revision_reason :: string

definition check_plan_proposal :: "PlanProposal \<Rightarrow> InvestigationCase \<Rightarrow> unit result" where
  "check_plan_proposal p c = checks [
     require_nonempty (pp_plan_revision_id p) ''plan_revision_id'',
     require_nonempty (pp_created_by_action_id p) ''created_by_action_id'',
     require_nonempty (pp_revision_reason p) ''revision_reason'',
     require_aware_datetime (pp_created_at p) ''created_at'',
     (if pp_revision_number p = 1
      then require (pp_prior_plan_revision_id p = None)
             (ValueError ''first Plan revision cannot have a prior'')
      else require (pp_prior_plan_revision_id p \<noteq> None)
             (ValueError ''later Plan revisions require a prior'')),
     require (ic_plan_revision_id c = None \<or> pp_prior_plan_revision_id p = ic_plan_revision_id c)
       (ValueError ''Plan revision must extend the accepted Plan head'')]"

definition proposed_task_ids :: "PlanProposal \<Rightarrow> (string \<times> string) list" where
  "proposed_task_ids p = dict_of (map (\<lambda>t. (pt_proposal_task_key t,
     work_task_id (pp_plan_revision_id p) (pt_proposal_task_key t))) (pp_tasks p))"

definition proposed_binding_ids ::
    "PlanProposal \<Rightarrow> (string \<times> ResolvedEvidenceObligation) list \<Rightarrow> (string \<times> string) list result" where
  "proposed_binding_ids p by_id =
     bindR (sequenceR [
       bindR (item (proposed_task_ids p) (pt_proposal_task_key t)) (\<lambda>task_id.
       bindR (item by_id i) (\<lambda>x.
         Inr (if ro_execution_disposition x = DispExecutable
              then [(i, query_binding_id (pp_plan_revision_id p) task_id x)] else []))).
       t \<leftarrow> pp_tasks p, i \<leftarrow> pt_obligation_ids t]) (\<lambda>kvs. Inr (dict_of (concat kvs)))"

definition compile_task ::
    "PlanProposal \<Rightarrow> (string \<times> string) list \<Rightarrow> (string \<times> ResolvedEvidenceObligation) list \<Rightarrow> FrameView \<Rightarrow>
     ProposedWorkTask \<Rightarrow> WorkTask result" where
  "compile_task p binding_ids by_id f t =
     bindR (item (proposed_task_ids p) (pt_proposal_task_key t)) (\<lambda>task_id.
       build_work_task t task_id (proposed_task_ids p) binding_ids by_id f)"

definition compile_binding ::
    "WorkPlanRevision \<Rightarrow> FrameView \<Rightarrow> MeasurementResolutionOutcome list \<Rightarrow> datetime \<Rightarrow>
     ResolvedEvidenceObligation \<Rightarrow> QueryBindingEnvelope result" where
  "compile_binding p f xs created_at b =
     bindR (item (task_by_obligation p) (ro_obligation_id b)) (\<lambda>t.
     bindR (item (outcomes_by_id xs) (ro_resolution_outcome_id b)) (\<lambda>x.
       build_query_binding p f t b x created_at))"

text \<open>The bundle, before it is validated.\<close>

definition assemble_plan_bundle ::
    "InvestigationCase \<Rightarrow> AuthoritySnapshot \<Rightarrow> FrameView \<Rightarrow> plan_inputs \<Rightarrow> PlanProposal \<Rightarrow> PlanBundle result" where
  "assemble_plan_bundle c a f = (\<lambda>(xs, as, bs) p.
     bindR (validate_proposed_tasks (pp_tasks p) bs f) (\<lambda>_.
     bindR (proposed_binding_ids p (obligations_by_id bs)) (\<lambda>binding_ids.
     bindR (sequenceR (map (compile_task p binding_ids (obligations_by_id bs) f) (pp_tasks p))) (\<lambda>tasks.
     bindR (construct check_work_plan
       \<lparr>wp_plan_revision_id = pp_plan_revision_id p, wp_case_id = ic_case_id c,
        wp_frame_revision_id = fr_frame_revision_id f, wp_revision_number = pp_revision_number p,
        wp_prior_plan_revision_id = pp_prior_plan_revision_id p,
        wp_created_by_action_id = pp_created_by_action_id p, wp_created_at = pp_created_at p,
        wp_revision_reason = pp_revision_reason p,
        wp_resolution_outcome_ids = map mo_resolution_outcome_id xs, wp_tasks = tasks\<rparr>) (\<lambda>plan.
     bindR (sequenceR (map (compile_binding plan f xs (pp_created_at p))
              (filter (\<lambda>b. ro_execution_disposition b = DispExecutable) bs))) (\<lambda>bindings.
     bindR (build_plan_adoption c a f plan (xs, as, bs) bindings (pp_created_at p)) (\<lambda>adoption.
       Inr \<lparr>bu_plan = plan, bu_query_bindings = bindings, bu_adoption = adoption\<rparr>)))))))"

definition compile_plan_bundle ::
    "InvestigationCase \<Rightarrow> AuthoritySnapshot \<Rightarrow> FrameView \<Rightarrow> plan_inputs \<Rightarrow> PlanProposal \<Rightarrow> PlanBundle result" where
  "compile_plan_bundle c a f inputs p =
     bindR (check_plan_proposal p c) (\<lambda>_.
     bindR (validate_case_and_snapshot c f a) (\<lambda>_.
     bindR (validate_measurement_inputs f a inputs) (\<lambda>ordered.
     bindR (assemble_plan_bundle c a f ordered p) (\<lambda>b.
     bindR (validate_plan_bundle b c a f ordered) (\<lambda>_. Inr b)))))"

end
