(* ===== verification/ObligationCompiler.thy ===== *)
theory ObligationCompiler imports PlanCompiler begin

text \<open>
  The derivation of evidence obligations from a frame and the outcome of a resolution
  (\<open>domain/measurement_resolver.py\<close>), and the check that a stored obligation is the one the
  derivation gives.  \<open>validate_resolution\<close> stands for \<open>validate_resolution_identities\<close> and
  \<open>validate_resolution_against_frame\<close> of \<open>domain/identity.py\<close>, \<open>resolve\<close> for \<open>_resolve_measurement\<close>
  on the admitted inputs.
\<close>

section \<open>The derivation\<close>

text \<open>A subscript of a tuple.\<close>

definition tuple_item :: "'a list \<Rightarrow> nat \<Rightarrow> 'a result" where
  "tuple_item xs n = (if n < length xs then Inr (xs ! n) else Inl (IndexError ''tuple index out of range''))"

definition frame_estimand_identity :: "FrameView \<Rightarrow> string \<Rightarrow> (EstimandSpec \<times> string \<times> string) result" where
  "frame_estimand_identity f i =
     (case List.find (\<lambda>(n, e). es_estimand_id e = i) (enumerate 0 (md_estimands (fr_design f))) of
        None \<Rightarrow> Inl (ValueError ''unknown Frame estimand'')
      | Some (n, e) \<Rightarrow>
          bindR (tuple_item (fr_semantic_measurement_ids f) n) (\<lambda>s.
          bindR (tuple_item (fr_authority_binding_ids f) n) (\<lambda>a. Inr (e, s, a))))"

text \<open>
  \<open>boundary\<close> is the code of the boundary that was resolved for the requirement, if any; nothing else
  of that boundary is read.
\<close>

definition build_resolved_evidence_obligation ::
    "FrameView \<Rightarrow> EstimandSpec \<Rightarrow> string \<Rightarrow> string \<Rightarrow> MeasurementResolutionOutcome \<Rightarrow>
     EvidenceRequirementSpec \<Rightarrow> string list \<Rightarrow> string option \<Rightarrow> datetime \<Rightarrow>
     ResolvedEvidenceObligation result" where
  "build_resolved_evidence_obligation f e semantic_id binding_id x r types boundary created_at =
    (let closure = digest (JObj [
           (''frame_revision_id'', JStr (fr_frame_revision_id f)),
           (''estimand_id'', JStr (es_estimand_id e)),
           (''semantic_measurement_id'', JStr semantic_id),
           (''authority_binding_id'', JStr binding_id),
           (''resolution_outcome_id'', JStr (mo_resolution_outcome_id x)),
           (''requirement'', evidence_requirement_json r),
           (''evidence_type_refs'', strs types)]) in
     construct check_obligation
       \<lparr>ro_obligation_id = digest (JObj [(''kind'', JStr ''resolved-evidence-obligation.v1''),
          (''definition_sha256'', JStr closure)]),
        ro_case_id = fr_case_id f, ro_frame_revision_id = fr_frame_revision_id f,
        ro_estimand_id = es_estimand_id e,
        ro_evidence_requirement_id = er_evidence_requirement_id r,
        ro_evidence_requirement_sha256 = evidence_requirement_sha256 r,
        ro_evidence_type_refs = types, ro_resolution_outcome_id = mo_resolution_outcome_id x,
        ro_derivation_authority = mo_derivation_authority x,
        ro_execution_disposition =
          (case boundary of None \<Rightarrow> DispExecutable
           | Some c \<Rightarrow> if er_boundary_policy r = AllowTypedBoundary \<and> c \<in> set (er_allowed_boundary_codes r)
                       then DispTypedBoundary else DispBlocked),
        ro_boundary_code = boundary, ro_closure_definition_sha256 = closure,
        ro_field_derivation_proof_sha256 = digest (JObj [
          (''resolution_outcome_id'', JStr (mo_resolution_outcome_id x)),
          (''requirement_sha256'', JStr (evidence_requirement_sha256 r)),
          (''evidence_type_refs'', strs types)]),
        ro_created_at = created_at, ro_schema_epoch = schema_epoch\<rparr>)"

definition check_requirement_scope ::
    "string \<Rightarrow> string \<Rightarrow> FrameView \<Rightarrow> EstimandSpec \<Rightarrow> MeasurementResolutionOutcome \<Rightarrow>
     EvidenceRequirementSpec \<Rightarrow> unit result" where
  "check_requirement_scope windows exposure f e x r =
     bindR (next_item sc_scope_id (md_scopes (fr_design f)) (er_scope_id r)) (\<lambda>sc. checks [
       require (case mo_resolved_instance x of None \<Rightarrow> True
           | Some i \<Rightarrow> set (sc_time_window_rule_ids sc) = set (ri_window_rule_ids i))
         (ValueError windows),
       require (er_exposure_id r = es_exposure_id e) (ValueError exposure)])"

text \<open>The boundaries of an outcome by requirement, as the compilation merges them.\<close>

definition requirement_boundaries :: "MeasurementResolutionOutcome \<Rightarrow> (string \<times> string) list" where
  "requirement_boundaries x = dict_of
     (map (\<lambda>b. (rb_evidence_requirement_id b, rb_boundary_code b)) (mo_requirement_boundaries x) @
      (case mo_boundary x of None \<Rightarrow> []
       | Some b \<Rightarrow> map (\<lambda>i. (i, tb_boundary_code b)) (tb_failed_requirement_ids b)))"

definition compile_requirement ::
    "FrameView \<Rightarrow> EstimandSpec \<Rightarrow> string \<Rightarrow> string \<Rightarrow> MeasurementResolutionOutcome \<Rightarrow> datetime \<Rightarrow> string \<Rightarrow>
     ResolvedEvidenceObligation list result" where
  "compile_requirement f e semantic_id binding_id x created_at i =
     bindR (item (requirements_by_id f) i) (\<lambda>r.
     bindR (check_requirement_scope ''requirement scope requires its own resolution outcome''
              ''requirement exposure does not bind estimand exposure'' f e x r) (\<lambda>_.
       sequenceR (map (\<lambda>t. build_resolved_evidence_obligation f e semantic_id binding_id x r [t]
                  (map_of (requirement_boundaries x) i) created_at)
         (er_required_evidence_type_refs r))))"

definition compile_evidence_obligations ::
    "(MeasurementResolutionOutcome \<Rightarrow> MeasurementResolutionOutcome result) \<Rightarrow>
     (FrameView \<Rightarrow> MeasurementResolutionOutcome \<Rightarrow> unit result) \<Rightarrow>
     FrameView \<Rightarrow> MeasurementResolutionOutcome \<Rightarrow> datetime \<Rightarrow> ResolvedEvidenceObligation list result" where
  "compile_evidence_obligations resolve validate_resolution f x created_at =
     bindR (resolve x) (\<lambda>expected.
     bindR (require (expected = x)
              (ValueError ''resolution outcome cannot be reproduced from admitted inputs'')) (\<lambda>_.
     bindR (validate_resolution f x) (\<lambda>_.
     bindR (require (mo_case_id x = fr_case_id f \<and>
                mo_question_revision_id x = fr_question_revision_id f \<and>
                mo_frame_revision_id x = fr_frame_revision_id f)
              (ValueError ''resolution outcome does not bind Frame authority'')) (\<lambda>_.
     bindR (frame_estimand_identity f (mo_estimand_id x)) (\<lambda>(e, semantic_id, binding_id).
     bindR (require (mo_semantic_measurement_id x = semantic_id \<and> mo_authority_binding_id x = binding_id)
              (ValueError ''resolution outcome changes Frame identity'')) (\<lambda>_.
     bindR (sequenceR (map (compile_requirement f e semantic_id binding_id x created_at)
              (es_evidence_requirement_ids e))) (\<lambda>bss.
       Inr (concat bss))))))))"

section \<open>The replay\<close>

definition obligation_boundary ::
    "MeasurementResolutionOutcome \<Rightarrow> EvidenceRequirementSpec \<Rightarrow> string option" where
  "obligation_boundary x r =
     (case List.find (\<lambda>b. rb_evidence_requirement_id b = er_evidence_requirement_id r)
             (mo_requirement_boundaries x) of
        Some b \<Rightarrow> Some (rb_boundary_code b)
      | None \<Rightarrow>
          (case mo_boundary x of
             Some b \<Rightarrow> if er_evidence_requirement_id r \<in> set (tb_failed_requirement_ids b)
                       then Some (tb_boundary_code b) else None
           | None \<Rightarrow> None))"

definition validate_evidence_obligation_derivation ::
    "(FrameView \<Rightarrow> MeasurementResolutionOutcome \<Rightarrow> unit result) \<Rightarrow>
     FrameView \<Rightarrow> MeasurementResolutionOutcome \<Rightarrow> ResolvedEvidenceObligation \<Rightarrow> unit result" where
  "validate_evidence_obligation_derivation validate_resolution f x b =
     bindR (validate_resolution f x) (\<lambda>_.
     bindR (require (ro_case_id b = fr_case_id f \<and> ro_frame_revision_id b = fr_frame_revision_id f \<and>
                ro_resolution_outcome_id b = mo_resolution_outcome_id x \<and>
                ro_estimand_id b = mo_estimand_id x)
              (ValueError ''obligation does not bind its Frame and outcome'')) (\<lambda>_.
     bindR (frame_estimand_identity f (mo_estimand_id x)) (\<lambda>(e, semantic_id, binding_id).
     bindR (checks [
       require (mo_semantic_measurement_id x = semantic_id \<and> mo_authority_binding_id x = binding_id)
         (ValueError ''obligation outcome changes Frame identity''),
       require (ro_evidence_requirement_id b \<in> set (es_evidence_requirement_ids e))
         (ValueError ''obligation requirement is outside estimand'')]) (\<lambda>_.
     bindR (next_item er_evidence_requirement_id (md_evidence_requirements (fr_design f))
              (ro_evidence_requirement_id b)) (\<lambda>r.
     bindR (check_requirement_scope ''obligation requirement scope changes resolved windows''
              ''obligation requirement changes estimand exposure'' f e x r) (\<lambda>_.
     bindR (require (set (ro_evidence_type_refs b) \<subseteq> set (er_required_evidence_type_refs r))
              (ValueError ''obligation evidence types are outside Frame requirement'')) (\<lambda>_.
     bindR (build_resolved_evidence_obligation f e semantic_id binding_id x r
              (ro_evidence_type_refs b) (obligation_boundary x r) (ro_created_at b)) (\<lambda>expected.
       require (expected = b)
         (ValueError ''evidence obligation exact derivation replay failed'')))))))))"

end
