(* ===== verification/StoreResolutions.thy ===== *)
theory StoreResolutions imports StoreFrames StoreCalls ObligationCompiler begin

text \<open>
  Measurement resolutions and evidence obligations in \<open>InMemoryAuthorityStore\<close>: the reads of both and
  \<open>record_measurement_resolution\<close>, \<open>record_evidence_obligation\<close>.  \<open>verifier\<close> is the configured
  \<open>_resolution_input_verifier\<close>, \<open>validate_resolution\<close> is as in \<open>ObligationCompiler\<close>.
\<close>

section \<open>Reads\<close>

definition get_measurement_resolution :: "Store \<Rightarrow> string \<Rightarrow> MeasurementResolutionOutcome result" where
  "get_measurement_resolution s i = get_row (st_resolution_outcomes s) i ''measurement resolution''"

definition list_measurement_resolutions :: "Store \<Rightarrow> string \<Rightarrow> MeasurementResolutionOutcome list" where
  "list_measurement_resolutions s frame_id = sort_key mo_estimand_id
     (filter (\<lambda>x. mo_frame_revision_id x = frame_id) (map snd (st_resolution_outcomes s)))"

definition get_measurement_resolution_admission ::
    "Store \<Rightarrow> string \<Rightarrow> MeasurementResolutionAdmission result" where
  "get_measurement_resolution_admission s i =
     get_row (st_resolution_admissions s) i ''measurement resolution admission''"

definition list_evidence_obligations :: "Store \<Rightarrow> string \<Rightarrow> ResolvedEvidenceObligation list" where
  "list_evidence_obligations s frame_id =
     sort_key (\<lambda>b. (ro_estimand_id b, ro_evidence_requirement_id b, ro_obligation_id b))
       (filter (\<lambda>b. ro_frame_revision_id b = frame_id) (map snd (st_evidence_obligations s)))"

definition get_query_binding :: "Store \<Rightarrow> string \<Rightarrow> QueryBindingEnvelope result" where
  "get_query_binding s i = get_row (st_query_bindings s) i ''query binding''"

section \<open>Derived records\<close>

text \<open>
  The replay of an event that recorded this before gives the stored record back; \<open>table\<close> and \<open>put\<close>
  read and write the table of the record.
\<close>

definition record_derived_locked ::
    "(Store \<Rightarrow> 'v table) \<Rightarrow> ('v table \<Rightarrow> Store \<Rightarrow> Store) \<Rightarrow> ('v \<Rightarrow> string) \<Rightarrow> string \<Rightarrow> 'v \<Rightarrow> string \<Rightarrow> string \<Rightarrow>
     JournalEventType \<Rightarrow> datetime \<Rightarrow> string \<Rightarrow> OperationIdentity option \<Rightarrow> (Store, 'v) prog" where
  "record_derived_locked table put sha record_id r case_id event_id event_type created_at label operation =
     bindP (readP (\<lambda>s. Inr (map_of (st_events_by_id s) event_id))) (\<lambda>found.
       case found of
         Some e \<Rightarrow>
           if ev_event_type e = event_type \<and> ev_authority_ref e = Some record_id \<and> ev_case_id e = case_id
           then readP (\<lambda>s. get_row (table s) record_id label)
           else raiseP (AuthorityConflict ''event ID already has different derived content'')
       | None \<Rightarrow>
     bindP (readP (\<lambda>s. put_immutable id (table s) record_id r label)) (\<lambda>d.
     bindP (writeP (put d)) (\<lambda>_.
     bindP (append_authority_event_locked case_id event_id event_type record_id None created_at
              (JObj [(''content_sha256'', JStr (sha r))]) operation) (\<lambda>_.
       returnP r))))"

section \<open>Resolutions\<close>

definition verify_admission ::
    "(MeasurementResolutionAdmission \<Rightarrow> MeasurementResolutionOutcome \<Rightarrow> unit result) option \<Rightarrow>
     MeasurementResolutionAdmission \<Rightarrow> MeasurementResolutionOutcome \<Rightarrow> unit result" where
  "verify_admission verifier m x =
     (case verifier of
        None \<Rightarrow> Inl (InvalidAuthorityTransition
          ''measurement resolution admission verifier is not configured'')
      | Some v \<Rightarrow> as_transition_error (v m x))"

text \<open>The place of an estimand among those of a frame, and the identities the frame gives it.\<close>

definition check_frame_identity :: "FrameView \<Rightarrow> MeasurementResolutionOutcome \<Rightarrow> unit result" where
  "check_frame_identity f x =
     (case List.find (\<lambda>(n, e). es_estimand_id e = mo_estimand_id x)
             (enumerate 0 (md_estimands (fr_design f))) of
        None \<Rightarrow> Inl (InvalidAuthorityTransition ''resolution targets an unknown estimand'')
      | Some (n, e) \<Rightarrow>
          bindR (tuple_item (fr_semantic_measurement_ids f) n) (\<lambda>i.
          bindR (if mo_semantic_measurement_id x \<noteq> i then Inr i
                 else tuple_item (fr_authority_binding_ids f) n) (\<lambda>j.
            require (mo_semantic_measurement_id x = i \<and> mo_authority_binding_id x = j)
              (InvalidAuthorityTransition ''resolution identity does not match the accepted frame''))))"

definition admit_resolution ::
    "(FrameView \<Rightarrow> MeasurementResolutionOutcome \<Rightarrow> unit result) \<Rightarrow> Store \<Rightarrow> InvestigationCase \<Rightarrow>
     MeasurementResolutionOutcome \<Rightarrow> OperationIdentity option \<Rightarrow> unit result" where
  "admit_resolution validate_resolution s c x operation =
     bindR (get_authority_snapshot s (mo_case_id x)) (\<lambda>a.
     bindR (checks [
       require (derivation_matches (mo_derivation_authority x) a)
         (StaleHead ''measurement derivation authority is stale''),
       require (case operation of None \<Rightarrow> True
           | Some op \<Rightarrow> oi_authority_revision op = da_mailbox_authority_epoch (mo_derivation_authority x))
         (StaleHead ''measurement operation authority is stale''),
       require (Some (mo_question_revision_id x) = ic_question_revision_id c \<and>
           Some (mo_frame_revision_id x) = ic_frame_revision_id c)
         (InvalidAuthorityTransition ''resolution must bind accepted question and frame'')]) (\<lambda>_.
     bindR (get_frame s (mo_frame_revision_id x)) (\<lambda>f.
     bindR (check_frame_identity f x) (\<lambda>_.
     bindR (require (case (mo_kind x, mo_resolved_instance x) of
         (ResolvedInstance, Some i) \<Rightarrow> ri_frame_revision_id i = mo_frame_revision_id x \<and>
           ri_estimand_id i = mo_estimand_id x \<and>
           ri_semantic_measurement_id i = mo_semantic_measurement_id x \<and>
           ri_authority_binding_id i = mo_authority_binding_id x
       | _ \<Rightarrow> True)
       (InvalidAuthorityTransition ''resolved instance identity is inconsistent'')) (\<lambda>_.
       as_transition_error (validate_resolution f x))))))"

definition record_measurement_resolution_body ::
    "(MeasurementResolutionAdmission \<Rightarrow> MeasurementResolutionOutcome \<Rightarrow> unit result) option \<Rightarrow>
     (FrameView \<Rightarrow> MeasurementResolutionOutcome \<Rightarrow> unit result) \<Rightarrow>
     MeasurementResolutionOutcome \<Rightarrow> MeasurementResolutionAdmission \<Rightarrow> int \<Rightarrow> string \<Rightarrow>
     OperationIdentity option \<Rightarrow> (Store, MeasurementResolutionOutcome) prog" where
  "record_measurement_resolution_body verifier validate_resolution x m expected event_id operation =
     bindP (readP (\<lambda>_. verify_admission verifier m x)) (\<lambda>_.
     bindP (readP (\<lambda>s. cas_case s (mo_case_id x) expected)) (\<lambda>c.
     bindP (readP (\<lambda>s. admit_resolution validate_resolution s c x operation)) (\<lambda>_.
     bindP (readP (\<lambda>s. put_idempotent_immutable id (st_resolution_admissions s)
              (mo_resolution_outcome_id x) m ''measurement resolution admission'')) (\<lambda>d.
     bindP (writeP (\<lambda>s. s\<lparr>st_resolution_admissions := d\<rparr>)) (\<lambda>_.
       record_derived_locked st_resolution_outcomes (\<lambda>d s. s\<lparr>st_resolution_outcomes := d\<rparr>)
         resolution_outcome_sha256 (mo_resolution_outcome_id x) x (mo_case_id x) event_id
         EvMeasurementResolutionRecorded (mo_created_at x) ''measurement resolution'' operation)))))"

definition record_measurement_resolution ::
    "(MeasurementResolutionAdmission \<Rightarrow> MeasurementResolutionOutcome \<Rightarrow> unit result) option \<Rightarrow>
     (FrameView \<Rightarrow> MeasurementResolutionOutcome \<Rightarrow> unit result) \<Rightarrow>
     MeasurementResolutionOutcome \<Rightarrow> MeasurementResolutionAdmission \<Rightarrow> int \<Rightarrow> string \<Rightarrow>
     OperationIdentity option \<Rightarrow> (Store, MeasurementResolutionOutcome) prog" where
  "record_measurement_resolution verifier validate_resolution x m expected event_id operation =
     atomic (record_measurement_resolution_body verifier validate_resolution x m expected event_id operation)"

section \<open>Obligations\<close>

definition admit_obligation ::
    "(FrameView \<Rightarrow> MeasurementResolutionOutcome \<Rightarrow> unit result) \<Rightarrow> Store \<Rightarrow> InvestigationCase \<Rightarrow>
     ResolvedEvidenceObligation \<Rightarrow> OperationIdentity option \<Rightarrow> unit result" where
  "admit_obligation validate_resolution s c b operation =
     bindR (get_authority_snapshot s (ro_case_id b)) (\<lambda>a.
     bindR (checks [
       require (derivation_matches (ro_derivation_authority b) a)
         (StaleHead ''obligation derivation authority is stale''),
       require (case operation of None \<Rightarrow> True
           | Some op \<Rightarrow> oi_authority_revision op = da_mailbox_authority_epoch (ro_derivation_authority b))
         (StaleHead ''obligation operation authority is stale''),
       require (Some (ro_frame_revision_id b) = ic_frame_revision_id c)
         (InvalidAuthorityTransition ''obligation must bind the accepted frame'')]) (\<lambda>_.
     bindR (get_measurement_resolution s (ro_resolution_outcome_id b)) (\<lambda>x.
     bindR (require (mo_case_id x = ro_case_id b \<and> mo_frame_revision_id x = ro_frame_revision_id b \<and>
         mo_estimand_id x = ro_estimand_id b \<and>
         mo_derivation_authority x = ro_derivation_authority b)
       (InvalidAuthorityTransition ''obligation resolution binding is inconsistent'')) (\<lambda>_.
     bindR (get_frame s (ro_frame_revision_id b)) (\<lambda>f.
     bindR (case List.find (\<lambda>r. er_evidence_requirement_id r = ro_evidence_requirement_id b)
                   (md_evidence_requirements (fr_design f)) of
              None \<Rightarrow> Inl (InvalidAuthorityTransition ''obligation targets an unknown evidence requirement'')
            | Some r \<Rightarrow>
                require (ro_estimand_id b \<in> set (er_target_estimand_ids r) \<and>
                    ro_evidence_requirement_sha256 b = evidence_requirement_sha256 r)
                  (InvalidAuthorityTransition ''obligation changes its evidence requirement'')) (\<lambda>_.
       as_transition_error (validate_evidence_obligation_derivation validate_resolution f x b)))))))"

definition record_evidence_obligation ::
    "(FrameView \<Rightarrow> MeasurementResolutionOutcome \<Rightarrow> unit result) \<Rightarrow>
     ResolvedEvidenceObligation \<Rightarrow> int \<Rightarrow> string \<Rightarrow> OperationIdentity option \<Rightarrow>
     (Store, ResolvedEvidenceObligation) prog" where
  "record_evidence_obligation validate_resolution b expected event_id operation =
     bindP (readP (\<lambda>s. cas_case s (ro_case_id b) expected)) (\<lambda>c.
     bindP (readP (\<lambda>s. admit_obligation validate_resolution s c b operation)) (\<lambda>_.
       record_derived_locked st_evidence_obligations (\<lambda>d s. s\<lparr>st_evidence_obligations := d\<rparr>)
         obligation_sha256 (ro_obligation_id b) b (ro_case_id b) event_id
         EvEvidenceObligationRecorded (ro_created_at b) ''evidence obligation'' operation))"

end
