(* ===== verification/StoreAcceptance.thy ===== *)
theory StoreAcceptance imports StoreResolutions begin

text \<open>
  The acceptance of a question, a frame and a plan in \<open>InMemoryAuthorityStore\<close>: the methods that
  move the head of a case to a new revision of its authority.
\<close>

section \<open>Questions\<close>

text \<open>
  \<open>str(payload.get('message', ''))\<close>; \<open>text_of\<close> is the \<open>repr\<close> Python gives of a payload value that
  is itself a container.
\<close>

fun py_str :: "(json \<Rightarrow> string) \<Rightarrow> json \<Rightarrow> string" where
  "py_str text_of JNull = ''None''"
| "py_str text_of (JBool b) = (if b then ''True'' else ''False'')"
| "py_str text_of (JInt i) = show_int i"
| "py_str text_of (JFloat (Finite r)) = r"
| "py_str text_of (JStr s) = s"
| "py_str text_of v = text_of v"

definition message_text :: "(json \<Rightarrow> string) \<Rightarrow> MailboxMessage \<Rightarrow> string" where
  "message_text text_of m =
     (case obj_get (mm_payload m) ''message'' of None \<Rightarrow> '''' | Some v \<Rightarrow> py_str text_of v)"

definition check_source :: "(json \<Rightarrow> string) \<Rightarrow> Store \<Rightarrow> QuestionRevision \<Rightarrow> SourceMessageRef \<Rightarrow> unit result" where
  "check_source text_of s q m =
     (case map_of (st_mailbox_messages s) (sm_message_id m) of
        None \<Rightarrow> Inl (InvalidAuthorityTransition ''question source message is unavailable'')
      | Some x \<Rightarrow> checks [
          require (mm_case_id x = qr_case_id q)
            (InvalidAuthorityTransition ''question source message is unavailable''),
          require (mm_sequence x = sm_sequence m \<and>
              digest (JStr (message_text text_of x)) = sm_content_sha256 m)
            (InvalidAuthorityTransition ''question source message does not match mailbox'')])"

text \<open>\<open>self._revisions.get(head) if head else None\<close>\<close>

definition current_revision :: "'v table \<Rightarrow> string option \<Rightarrow> 'v option" where
  "current_revision d head = (if truthy head then map_of d (the head) else None)"

definition admit_question ::
    "(json \<Rightarrow> string) \<Rightarrow> Store \<Rightarrow> InvestigationCase \<Rightarrow> QuestionRevision \<Rightarrow> string \<Rightarrow> unit result" where
  "admit_question text_of s c q event_id =
    (let current = current_revision (st_questions s) (ic_question_revision_id c) in
     checks ([
       require (qr_acceptance_event_id q = event_id)
         (InvalidAuthorityTransition ''question must bind its acceptance event''),
       require (qr_revision_number q =
           (case current of None \<Rightarrow> 1 | Some x \<Rightarrow> qr_revision_number x + 1) \<and>
         qr_prior_question_revision_id q = map_option qr_question_revision_id current)
         (InvalidAuthorityTransition ''question revision does not extend the accepted question''),
       require (qr_accepted_head_version q = ic_head_version c + 1)
         (InvalidAuthorityTransition ''question accepted_head_version is stale'')] @
     map (check_source text_of s q) (qr_source_messages q)))"

text \<open>\<open>dataclasses.replace\<close> runs the guards of the record again.\<close>

definition put_head :: "InvestigationCase \<Rightarrow> (Store, InvestigationCase) prog" where
  "put_head c =
     bindP (readP (\<lambda>_. construct check_case c)) (\<lambda>u.
     bindP (writeP (\<lambda>s. s\<lparr>st_cases := AList.update (ic_case_id u) u (st_cases s)\<rparr>)) (\<lambda>_. returnP u))"

definition accept_question ::
    "(json \<Rightarrow> string) \<Rightarrow> QuestionRevision \<Rightarrow> int \<Rightarrow> string \<Rightarrow> datetime \<Rightarrow> OperationIdentity option \<Rightarrow>
     (Store, InvestigationCase) prog" where
  "accept_question text_of q expected event_id recorded_at operation =
     bindP (readP (\<lambda>s. idempotent_head_result s event_id EvQuestionAccepted
              (qr_question_revision_id q) (qr_case_id q))) (\<lambda>found.
       case found of
         Some c \<Rightarrow> returnP c
       | None \<Rightarrow>
     bindP (readP (\<lambda>s. cas_case s (qr_case_id q) expected)) (\<lambda>c.
     bindP (readP (\<lambda>s. admit_question text_of s c q event_id)) (\<lambda>_.
     bindP (readP (\<lambda>s. put_immutable id (st_questions s) (qr_question_revision_id q) q ''question'')) (\<lambda>d.
     bindP (writeP (\<lambda>s. s\<lparr>st_questions := d\<rparr>)) (\<lambda>_.
     bindP (put_head (c\<lparr>ic_head_version := ic_head_version c + 1,
              ic_question_revision_id := Some (qr_question_revision_id q),
              ic_frame_revision_id := None, ic_plan_revision_id := None, ic_answer_version_id := None,
              ic_analysis_cycle_id := qr_analysis_cycle_id q, ic_updated_at := recorded_at\<rparr>)) (\<lambda>u.
     bindP (append_authority_event_locked (ic_case_id c) event_id EvQuestionAccepted
              (qr_question_revision_id q) None recorded_at
              (JObj [(''revision_number'', JInt (qr_revision_number q)),
                     (''content_sha256'', JStr (question_sha256 q)),
                     (''analysis_cycle_id'', JStr (qr_analysis_cycle_id q)),
                     (''head_version'', JInt (ic_head_version u))]) operation) (\<lambda>_.
       returnP u)))))))"

section \<open>Frames\<close>

text \<open>
  \<open>validate_frame\<close> stands for the checks of a design inside the \<open>try\<close>: \<open>validate_spans\<close>,
  \<open>validate_frame_identities\<close> and \<open>validate_executable_design\<close>.
\<close>

definition admit_frame ::
    "(QuestionRevision \<Rightarrow> FrameView \<Rightarrow> unit result) \<Rightarrow> Store \<Rightarrow> InvestigationCase \<Rightarrow> FrameView \<Rightarrow> string \<Rightarrow>
     unit result" where
  "admit_frame validate_frame s c f proof_id =
     bindR (get_row (st_frame_admission_proofs s) proof_id ''frame admission proof'') (\<lambda>p.
     bindR (require (fp_case_id p = fr_case_id f \<and> fp_frame_revision_id p = fr_frame_revision_id f \<and>
              fp_frame_content_sha256 p = fr_content_sha256 f)
            (InvalidAuthorityTransition ''frame admission proof does not bind this Frame'')) (\<lambda>_.
     bindR (get_authority_snapshot s (fr_case_id f)) (\<lambda>a.
     bindR (checks [
       require (fp_authority_snapshot p = a)
         (InvalidAuthorityTransition ''frame admission proof authority snapshot is stale''),
       require (Some (fr_question_revision_id f) = ic_question_revision_id c)
         (InvalidAuthorityTransition ''frame must bind the accepted question'')]) (\<lambda>_.
     bindR (get_question s (fr_question_revision_id f)) (\<lambda>q.
     bindR (as_transition_error (validate_frame q f)) (\<lambda>_.
       let current = current_revision (st_frames s) (ic_frame_revision_id c) in
       checks (
         require (fr_revision_number f =
             (case current of None \<Rightarrow> 1 | Some x \<Rightarrow> fr_revision_number x + 1) \<and>
           fr_prior_frame_revision_id f = map_option fr_frame_revision_id current)
           (InvalidAuthorityTransition ''frame revision does not extend the accepted frame'') #
         map (\<lambda>i. bindR (get_row (st_decision_cases s) i ''decision'') (\<lambda>k.
             require (k = fr_case_id f)
               (InvalidAuthorityTransition ''frame decision belongs to another case'')))
           (fr_decision_record_ids f))))))))"

definition accept_frame ::
    "(QuestionRevision \<Rightarrow> FrameView \<Rightarrow> unit result) \<Rightarrow> FrameView \<Rightarrow> string \<Rightarrow> int \<Rightarrow> string \<Rightarrow> datetime \<Rightarrow>
     OperationIdentity option \<Rightarrow> (Store, InvestigationCase) prog" where
  "accept_frame validate_frame f proof_id expected event_id recorded_at operation =
     bindP (readP (\<lambda>s. idempotent_head_result s event_id EvFrameAccepted
              (fr_frame_revision_id f) (fr_case_id f))) (\<lambda>found.
       case found of
         Some c \<Rightarrow> returnP c
       | None \<Rightarrow>
     bindP (readP (\<lambda>s. cas_case s (fr_case_id f) expected)) (\<lambda>c.
     bindP (readP (\<lambda>s. admit_frame validate_frame s c f proof_id)) (\<lambda>_.
     bindP (readP (\<lambda>s. put_immutable id (st_frames s) (fr_frame_revision_id f) f ''frame'')) (\<lambda>d.
     bindP (writeP (\<lambda>s. s\<lparr>st_frames := d\<rparr>)) (\<lambda>_.
     bindP (put_head (c\<lparr>ic_head_version := ic_head_version c + 1,
              ic_frame_revision_id := Some (fr_frame_revision_id f),
              ic_plan_revision_id := None, ic_answer_version_id := None,
              ic_updated_at := recorded_at\<rparr>)) (\<lambda>u.
     bindP (append_authority_event_locked (ic_case_id c) event_id EvFrameAccepted
              (fr_frame_revision_id f) (Some (fr_created_by_action_id f)) recorded_at
              (JObj [(''revision_number'', JInt (fr_revision_number f)),
                     (''content_sha256'', JStr (fr_content_sha256 f)),
                     (''head_version'', JInt (ic_head_version u))]) operation) (\<lambda>_.
       returnP u)))))))"

section \<open>Plans\<close>

text \<open>The replay of the event of a plan that was accepted before.\<close>

definition replay_plan_event ::
    "Store \<Rightarrow> PlanBundle \<Rightarrow> EventJournalEntry \<Rightarrow> OperationIdentity option \<Rightarrow> InvestigationCase result" where
  "replay_plan_event s b e operation =
    (let p = bu_plan b in
     if \<not> (ev_event_type e = EvPlanAccepted \<and> ev_authority_ref e = Some (wp_plan_revision_id p) \<and>
           ev_case_id e = wp_case_id p)
     then Inl (AuthorityConflict ''event ID already has different content'')
     else
       bindR (get_plan s (wp_plan_revision_id p)) (\<lambda>plan.
       bindR (get_plan_adoption s (wp_plan_revision_id p)) (\<lambda>ad.
       bindR (case operation of
                None \<Rightarrow> derived_event_operation (wp_case_id p) (ev_event_id e)
                  (Some (wp_created_by_action_id p)) (Some (wp_plan_revision_id p)) (ev_payload e)
              | Some cause \<Rightarrow> causal_event_operation cause (ev_event_id e) (ev_payload e)) (\<lambda>replayed.
       bindR (require (\<lparr>bu_plan = plan,
                  bu_query_bindings = list_query_bindings s (wp_plan_revision_id p),
                  bu_adoption = ad\<rparr> = b \<and> ev_operation e = replayed)
                (AuthorityConflict ''plan event replay changes bundle content'')) (\<lambda>_.
         get_case s (wp_case_id p))))))"

definition admit_plan ::
    "Store \<Rightarrow> InvestigationCase \<Rightarrow> PlanBundle \<Rightarrow> int \<Rightarrow> OperationIdentity option \<Rightarrow> unit result" where
  "admit_plan s c b expected operation =
    (let p = bu_plan b;
         current = max_by wp_revision_number
           (filter (\<lambda>x. wp_case_id x = ic_case_id c) (map snd (st_plans s))) in
     bindR (require (pd_expected_head_version (bu_adoption b) = expected)
              (InvalidAuthorityTransition ''plan adoption expected head is stale'')) (\<lambda>_.
     bindR (get_authority_snapshot s (wp_case_id p)) (\<lambda>a.
     bindR (checks [
       require (a = pd_authority_snapshot (bu_adoption b))
         (StaleHead ''plan adoption authority snapshot is stale''),
       require (case operation of None \<Rightarrow> True
           | Some op \<Rightarrow> oi_authority_revision op = au_mailbox_authority_epoch a)
         (StaleHead ''plan operation authority epoch is stale''),
       require (Some (wp_frame_revision_id p) = ic_frame_revision_id c)
         (InvalidAuthorityTransition ''plan must bind the currently accepted frame''),
       require (wp_revision_number p =
             (case current of None \<Rightarrow> 1 | Some x \<Rightarrow> wp_revision_number x + 1) \<and>
           wp_prior_plan_revision_id p = map_option wp_plan_revision_id current \<and>
           (ic_plan_revision_id c = None \<or> wp_prior_plan_revision_id p = ic_plan_revision_id c))
         (InvalidAuthorityTransition ''plan revision does not extend the accepted plan'')]) (\<lambda>_.
     bindR (get_frame s (wp_frame_revision_id p)) (\<lambda>f.
     bindR (sequenceR (map (get_measurement_resolution s) (pd_resolution_outcome_ids (bu_adoption b))))
       (\<lambda>xs.
     bindR (sequenceR (map (get_measurement_resolution_admission s)
              (pd_resolution_outcome_ids (bu_adoption b)))) (\<lambda>as.
       validate_plan_bundle b c a f (xs, as, list_evidence_obligations s (wp_frame_revision_id p)))))))))"

primrec foldP :: "('e \<Rightarrow> 'm \<Rightarrow> ('s, 'm) prog) \<Rightarrow> 'e list \<Rightarrow> 'm \<Rightarrow> ('s, 'm) prog" where
  "foldP f [] m = returnP m"
| "foldP f (e # es) m = bindP (f e m) (foldP f es)"

definition put_binding :: "QueryBindingEnvelope \<Rightarrow> unit \<Rightarrow> (Store, unit) prog" where
  "put_binding v u =
     bindP (readP (\<lambda>s. put_immutable id (st_query_bindings s) (qb_query_binding_id v) v
              ''query binding'')) (\<lambda>d.
     writeP (\<lambda>s. s\<lparr>st_query_bindings := d\<rparr>))"

definition put_adoption :: "string \<Rightarrow> PlanAdoptionRecord \<Rightarrow> (Store, unit) prog" where
  "put_adoption plan_id ad =
     bindP (readP (\<lambda>s. put_immutable id (st_plan_adoptions s) (pd_plan_adoption_id ad) ad
              ''plan adoption'')) (\<lambda>d.
     bindP (writeP (\<lambda>s. s\<lparr>st_plan_adoptions := d\<rparr>)) (\<lambda>_.
     bindP (readP (\<lambda>s. require (map_of (st_plan_adoption_by_plan s) plan_id = None)
              (AuthorityConflict ''plan already has an adoption record''))) (\<lambda>_.
     writeP (\<lambda>s. s\<lparr>st_plan_adoption_by_plan := AList.update plan_id
              (pd_plan_adoption_id ad) (st_plan_adoption_by_plan s)\<rparr>))))"

definition put_bundle :: "PlanBundle \<Rightarrow> (Store, unit) prog" where
  "put_bundle b =
    (let p = bu_plan b in
     bindP (readP (\<lambda>s. put_immutable id (st_plans s) (wp_plan_revision_id p) p ''plan'')) (\<lambda>d.
     bindP (writeP (\<lambda>s. s\<lparr>st_plans := d\<rparr>)) (\<lambda>_.
     bindP (foldP put_binding (bu_query_bindings b) ()) (\<lambda>_.
       put_adoption (wp_plan_revision_id p) (bu_adoption b)))))"

definition accept_plan_body ::
    "PlanBundle \<Rightarrow> int \<Rightarrow> string \<Rightarrow> datetime \<Rightarrow> OperationIdentity option \<Rightarrow> (Store, InvestigationCase) prog" where
  "accept_plan_body b expected event_id recorded_at operation =
    (let p = bu_plan b in
     bindP (readP (\<lambda>s. Inr (map_of (st_events_by_id s) event_id))) (\<lambda>found.
       case found of
         Some e \<Rightarrow> readP (\<lambda>s. replay_plan_event s b e operation)
       | None \<Rightarrow>
     bindP (readP (\<lambda>s. cas_case s (wp_case_id p) expected)) (\<lambda>c.
     bindP (readP (\<lambda>s. admit_plan s c b expected operation)) (\<lambda>_.
     bindP (put_bundle b) (\<lambda>_.
     bindP (put_head (c\<lparr>ic_head_version := ic_head_version c + 1,
              ic_plan_revision_id := Some (wp_plan_revision_id p), ic_answer_version_id := None,
              ic_updated_at := recorded_at\<rparr>)) (\<lambda>u.
     bindP (append_authority_event_locked (ic_case_id c) event_id EvPlanAccepted
              (wp_plan_revision_id p) (Some (wp_created_by_action_id p)) recorded_at
              (JObj [(''revision_number'', JInt (wp_revision_number p)),
                     (''content_sha256'', JStr (work_plan_sha256 p)),
                     (''plan_adoption_id'', JStr (pd_plan_adoption_id (bu_adoption b))),
                     (''plan_adoption_sha256'', JStr (plan_adoption_sha256 (bu_adoption b))),
                     (''query_binding_ids'', strs (map (qb_query_binding_id) (bu_query_bindings b))),
                     (''head_version'', JInt (ic_head_version u))]) operation) (\<lambda>_.
       returnP u)))))))"

definition accept_plan_bundle ::
    "PlanBundle \<Rightarrow> int \<Rightarrow> string \<Rightarrow> datetime \<Rightarrow> OperationIdentity option \<Rightarrow> (Store, InvestigationCase) prog" where
  "accept_plan_bundle b expected event_id recorded_at operation =
     atomic (accept_plan_body b expected event_id recorded_at operation)"

end
