(* ===== verification/StoreWrites.thy ===== *)
theory StoreWrites imports StoreAcceptance begin

text \<open>
  The abstract behaviour of the store: a transition system of single writes, each with the condition
  under which a method makes it.  Every method refines it (theory StoreMethods), so an invariant of
  the writes is an invariant of the store, whatever the methods are called with and wherever they
  raise.
\<close>

section \<open>Rows of a table\<close>

lemma update_fresh: "map_of d k = None \<Longrightarrow> AList.update k v d = d @ [(k, v)]"
  by (induction d) (auto split: if_splits)

lemma map_of_append_row [simp]:
  "map_of d k = None \<Longrightarrow> map_of (d @ [(k, v)]) i = (if i = k then Some v else map_of d i)"
  by (auto simp: map_add_def split: option.split)

lemma map_of_update [simp]: "map_of (AList.update k v d) i = (if i = k then Some v else map_of d i)"
  by (simp add: update_conv')

lemma map_of_delete [simp]: "map_of (AList.delete k d) i = (if i = k then None else map_of d i)"
  by (simp add: delete_conv')

lemma get_row_Inr [simp, result_simps]: "get_row d k n = Inr v \<longleftrightarrow> map_of d k = Some v"
  by (simp add: get_row_def split: option.split)

lemma subscript_Inr [simp, result_simps]: "subscript d k = Inr v \<longleftrightarrow> map_of d k = Some v"
  by (simp add: subscript_def split: option.split)

lemma put_immutable_Inr:
  "put_immutable form d k v n = Inr d' \<longleftrightarrow> map_of d k = None \<and> d' = d @ [(k, v)]"
  by (auto simp: put_immutable_def update_fresh split: option.split)

lemma put_idempotent_Inr:
  "put_idempotent_immutable form d k v n = Inr d' \<longleftrightarrow>
     map_of d k = None \<and> d' = d @ [(k, v)] \<or>
     (\<exists>v'. map_of d k = Some v' \<and> form v' = form v \<and> d' = d)"
  by (auto simp: put_idempotent_immutable_def update_fresh split: option.split)

definition values_of :: "('k \<times> 'v) list \<Rightarrow> 'v list" where
  "values_of d = map snd d"

lemma row_in_values: "map_of d k = Some v \<Longrightarrow> v \<in> set (values_of d)"
  by (force simp: values_of_def dest: map_of_SomeD)

lemma raisesI: "(\<And>y. m \<noteq> Inr y) \<Longrightarrow> \<exists>e. m = Inl e"
  by (cases m) auto

section \<open>Writes\<close>

definition initial_head :: "string \<Rightarrow> datetime \<Rightarrow> MailboxHead" where
  "initial_head i t = \<lparr>mh_case_id = i, mh_last_sequence = 0, mh_authority_epoch = 0, mh_updated_at = t\<rparr>"

definition next_head :: "MailboxMessage \<Rightarrow> MailboxHead" where
  "next_head m = \<lparr>mh_case_id = mm_case_id m, mh_last_sequence = mm_sequence m,
     mh_authority_epoch = mm_authority_epoch m, mh_updated_at = mm_created_at m\<rparr>"

text \<open>The records of accepted authority are put once and never replaced or removed.\<close>

definition grown :: "'v table \<Rightarrow> 'v table \<Rightarrow> bool" where
  "grown d d' \<longleftrightarrow> (\<forall>k v. map_of d k = Some v \<longrightarrow> map_of d' k = Some v)"

lemma grown_refl [simp, intro]: "grown d d"
  by (simp add: grown_def)

lemma grown_trans: "grown d d' \<Longrightarrow> grown d' d'' \<Longrightarrow> grown d d''"
  by (simp add: grown_def)

lemma grown_Nil [simp]: "grown [] d"
  by (simp add: grown_def)

lemma grownD: "grown d d' \<Longrightarrow> map_of d k = Some v \<Longrightarrow> map_of d' k = Some v"
  by (simp add: grown_def)

lemma grown_snoc [simp]: "grown d (d @ [(k, v)])"
  by (simp add: grown_def map_add_Some_iff)

section \<open>Admitted authority\<close>

text \<open>
  What a closure and an admission proof on record say: which candidates, reviews and closures stand
  behind them.
\<close>

definition closure_admitted :: "Store \<Rightarrow> ObjectionClosureRecord \<Rightarrow> bool" where
  "closure_admitted s x \<longleftrightarrow> (\<exists>a b r. map_of (st_frame_candidates s) (ol_source_frame_candidate_id x) = Some a \<and>
     map_of (st_frame_candidates s) (ol_replacement_frame_candidate_id x) = Some b \<and>
     map_of (st_frame_reviews s) (ol_source_frame_review_id x) = Some r \<and>
     fc_prior_frame_candidate_id b = Some (fc_frame_candidate_id a) \<and>
     rw_frame_candidate_id r = fc_frame_candidate_id a \<and>
     (\<exists>i \<in> set (rw_objections r). mo_objection_id i = ol_objection_id x \<and>
        ol_objection_content_sha256 x = review_objection_sha256 i \<and>
        ol_changed_node_ids x = closure_node_ids i a b))"

definition proof_admitted :: "Store \<Rightarrow> FrameAdmissionProof \<Rightarrow> bool" where
  "proof_admitted s p \<longleftrightarrow> (\<exists>c r. map_of (st_frame_candidates s) (fp_frame_candidate_id p) = Some c \<and>
     map_of (st_frame_reviews s) (fp_frame_review_id p) = Some r \<and>
     rw_frame_candidate_id r = fc_frame_candidate_id c \<and> rw_disposition r = ReviewAccept \<and>
     (\<forall>b \<in> set (rw_objections r). \<not> objection_blocks b) \<and>
     fp_frame_revision_id p = fc_proposed_frame_revision_id c \<and>
     fp_frame_content_sha256 p = fc_proposed_frame_content_sha256 c \<and>
     fp_frame_review_content_sha256 p = frame_review_sha256 r \<and>
     (\<forall>j \<in> set (fc_addressed_objection_ids c). \<exists>k x. map_of (st_objection_closures s) k = Some x \<and>
        ol_objection_id x = j \<and> ol_replacement_frame_candidate_id x = fc_frame_candidate_id c))"

text \<open>
  A plan on record was validated: as a bundle whose query bindings are stored, against its frame, for
  outcomes and obligations that are stored.
\<close>

definition plan_admitted :: "Store \<Rightarrow> WorkPlanRevision \<Rightarrow> bool" where
  "plan_admitted s p \<longleftrightarrow> (\<exists>b c a f xs as bs. bu_plan b = p \<and>
     map_of (st_frames s) (wp_frame_revision_id p) = Some f \<and>
     validate_plan_bundle b c a f (xs, as, bs) = Inr () \<and>
     set xs \<subseteq> ran (map_of (st_resolution_outcomes s)) \<and>
     set bs \<subseteq> snd ` set (st_evidence_obligations s) \<and>
     (\<forall>q \<in> set (bu_query_bindings b). map_of (st_query_bindings s) (qb_query_binding_id q) = Some q))"

text \<open>
  The head of a case is bound to stored authority: its question belongs to the case, its frame
  answers the question and was admitted by a proof, its plan works the frame and was validated.
\<close>

definition question_bound :: "Store \<Rightarrow> InvestigationCase \<Rightarrow> bool" where
  "question_bound s c \<longleftrightarrow> (\<forall>i. ic_question_revision_id c = Some i \<longrightarrow>
     (\<exists>q. map_of (st_questions s) i = Some q \<and> qr_question_revision_id q = i \<and>
        qr_case_id q = ic_case_id c))"

definition frame_bound :: "Store \<Rightarrow> InvestigationCase \<Rightarrow> bool" where
  "frame_bound s c \<longleftrightarrow> (\<forall>i. ic_frame_revision_id c = Some i \<longrightarrow>
     (\<exists>f k p. map_of (st_frames s) i = Some f \<and> fr_frame_revision_id f = i \<and>
        fr_case_id f = ic_case_id c \<and> ic_question_revision_id c = Some (fr_question_revision_id f) \<and>
        map_of (st_frame_admission_proofs s) k = Some p \<and> fp_case_id p = ic_case_id c \<and>
        fp_frame_revision_id p = i \<and> fp_frame_content_sha256 p = fr_content_sha256 f))"

definition plan_bound :: "Store \<Rightarrow> InvestigationCase \<Rightarrow> bool" where
  "plan_bound s c \<longleftrightarrow> (\<forall>i. ic_plan_revision_id c = Some i \<longrightarrow>
     (\<exists>p. map_of (st_plans s) i = Some p \<and> wp_plan_revision_id p = i \<and>
        wp_case_id p = ic_case_id c \<and> ic_frame_revision_id c = Some (wp_frame_revision_id p) \<and>
        plan_admitted s p))"

definition head_bound :: "Store \<Rightarrow> InvestigationCase \<Rightarrow> bool" where
  "head_bound s c \<longleftrightarrow> question_bound s c \<and> frame_bound s c \<and> plan_bound s c"

text \<open>
  The tables of authority and of the modules that are not modelled.  Their rows change freely, but
  for three conditions: a record of accepted authority stays, a new closure is one \<open>closure_admitted\<close>
  describes, a new proof one \<open>proof_admitted\<close> describes.
\<close>

lemmas bound_defs = head_bound_def question_bound_def frame_bound_def plan_bound_def

definition admitted_rows :: "Store \<Rightarrow> Store \<Rightarrow> bool" where
  "admitted_rows s t \<longleftrightarrow>
     (\<forall>k x. map_of (st_objection_closures t) k = Some x \<longrightarrow>
        map_of (st_objection_closures s) k = Some x \<or> closure_admitted t x) \<and>
     (\<forall>k p. map_of (st_frame_admission_proofs t) k = Some p \<longrightarrow>
        map_of (st_frame_admission_proofs s) k = Some p \<or> proof_admitted t p)"

definition foreign_rows :: "Store \<Rightarrow> Store \<Rightarrow> bool" where
  "foreign_rows s t \<longleftrightarrow> (\<exists>qn fr p a b q ob e v f an j dc c i ss rw ol fp fx ro ra. t = s\<lparr>st_questions := qn,
     st_frames := fr, st_plans := p, st_plan_adoptions := a, st_plan_adoption_by_plan := b,
     st_query_bindings := q, st_resolution_outcomes := ro, st_resolution_admissions := ra,
     st_evidence_obligations := ob, st_evidence_cases := e,
     st_evidence_validity := v, st_obligation_satisfaction := f, st_answers := an,
     st_objection_cases := j, st_decision_cases := dc, st_frame_candidates := c,
     st_active_frame_candidate_ids := i, st_frame_candidate_supersessions := ss,
     st_frame_reviews := rw, st_objection_closures := ol, st_frame_admission_proofs := fp,
     st_frame_admission_proof_by_frame := fx\<rparr> \<and>
     grown (st_questions s) qn \<and> grown (st_frames s) fr \<and> grown (st_plans s) p \<and>
     grown (st_plan_adoptions s) a \<and> grown (st_plan_adoption_by_plan s) b \<and>
     grown (st_query_bindings s) q \<and> set (st_evidence_obligations s) \<subseteq> set ob \<and>
     grown (st_resolution_outcomes s) ro \<and> grown (st_resolution_admissions s) ra \<and>
     grown (st_evidence_obligations s) ob \<and> grown (st_obligation_satisfaction s) f \<and>
     grown (st_answers s) an \<and> grown (st_frame_candidates s) c \<and> grown (st_frame_reviews s) rw \<and>
     grown (st_objection_closures s) ol \<and> grown (st_frame_admission_proofs s) fp) \<and>
     admitted_rows s t"

inductive writes :: "Store \<Rightarrow> Store \<Rightarrow> bool" where
  w_case: "map_of (st_cases s) i = None \<Longrightarrow> check_case (opened_case i n t) = Inr () \<Longrightarrow>
    writes s (s\<lparr>st_cases := st_cases s @ [(i, opened_case i n t)],
      st_events := AList.update i [] (st_events s),
      st_mailbox_heads := AList.update i (initial_head i t) (st_mailbox_heads s)\<rparr>)"
| w_head: "map_of (st_cases s) i = Some c \<Longrightarrow> ic_case_id c' = ic_case_id c \<Longrightarrow>
    ic_head_version c' = ic_head_version c + 1 \<Longrightarrow>
    (terminal_lifecycle c \<longrightarrow> ic_lifecycle c' = ic_lifecycle c) \<Longrightarrow> check_case c' = Inr () \<Longrightarrow>
    (head_bound s c \<longrightarrow> head_bound s c') \<Longrightarrow>
    writes s (s\<lparr>st_cases := AList.update i c' (st_cases s)\<rparr>)"
| w_event: "map_of (st_events_by_id s) (ev_event_id e) = None \<Longrightarrow>
    map_of (st_events s) (ev_case_id e) = Some es \<Longrightarrow> ev_cursor e = int (length es) + 1 \<Longrightarrow>
    make_event e = Inr e \<Longrightarrow> writes s (push_event e es s)"
| w_message: "map_of (st_mailbox_messages s) (mm_message_id m) = None \<Longrightarrow>
    \<forall>x \<in> set (values_of (st_mailbox_messages s)). mm_case_id x = mm_case_id m \<longrightarrow>
      oi_idempotency_key (mm_operation x) \<noteq> oi_idempotency_key (mm_operation m) \<Longrightarrow>
    map_of (st_mailbox_heads s) (mm_case_id m) = Some h \<Longrightarrow>
    mm_sequence m = mh_last_sequence h + 1 \<Longrightarrow> mm_authority_epoch m = mh_authority_epoch h + 1 \<Longrightarrow>
    writes s (s\<lparr>st_mailbox_messages := st_mailbox_messages s @ [(mm_message_id m, m)],
      st_mailbox_heads := AList.update (mm_case_id m) (next_head m) (st_mailbox_heads s)\<rparr>)"
| w_ingress: "map_of (st_message_ingress_records s) (mi_ingress_record_id r) = None \<Longrightarrow>
    map_of (st_mailbox_messages s) (mi_message_id r) = Some m \<Longrightarrow> mm_case_id m = mi_case_id r \<Longrightarrow>
    mm_sequence m = mi_mailbox_sequence r \<Longrightarrow> mm_operation m = mi_operation r \<Longrightarrow>
    writes s (s\<lparr>st_message_ingress_records :=
      st_message_ingress_records s @ [(mi_ingress_record_id r, r)]\<rparr>)"
| w_pending: "map_of (st_pending_user_messages s) (pm_pending_message_id r) = None \<Longrightarrow>
    map_of (st_message_ingress_records s) (pm_ingress_record_id r) = Some i \<Longrightarrow>
    mi_case_id i = pm_case_id r \<Longrightarrow> mi_message_id i = pm_message_id r \<Longrightarrow>
    writes s (s\<lparr>st_pending_user_messages :=
      st_pending_user_messages s @ [(pm_pending_message_id r, r)]\<rparr>)"
| w_foreign: "foreign_rows s t \<Longrightarrow> writes s t"
| w_schedule: "map_of (st_obligation_schedules s) (os_schedule_id r) = None \<Longrightarrow>
    validate_schedule_plan_binding r p ad qs obs = Inr () \<Longrightarrow>
    writes s (s\<lparr>st_obligation_schedules := st_obligation_schedules s @ [(os_schedule_id r, r)]\<rparr>)"
| w_outbox: "map_of (st_outbox s) (om_outbox_message_id m) = None \<Longrightarrow>
    \<forall>x \<in> set (values_of (st_outbox s)). \<not> same_outbox_key m x \<Longrightarrow>
    writes s (s\<lparr>st_outbox := st_outbox s @ [(om_outbox_message_id m, m)]\<rparr>)"
| w_dispatch: "map_of (st_obligation_dispatch_records s) (dr_dispatch_record_id r) = None \<Longrightarrow>
    \<forall>x \<in> set (values_of (st_obligation_dispatch_records s)). dr_schedule_id x = dr_schedule_id r \<longrightarrow>
      di_obligation_id (dr_dispatch x) \<noteq> di_obligation_id (dr_dispatch r) \<Longrightarrow>
    map_of (st_obligation_schedules s) (dr_schedule_id r) = Some sch \<Longrightarrow>
    validate_obligation_dispatch_admission sch r m = Inr () \<Longrightarrow>
    x \<in> set (values_of (st_outbox s)) \<Longrightarrow> outbox_form x = outbox_form m \<Longrightarrow>
    writes s (s\<lparr>st_obligation_dispatch_records :=
      st_obligation_dispatch_records s @ [(dr_dispatch_record_id r, r)]\<rparr>)"
| w_completion: "map_of (st_obligation_completion_records s) (cr_completion_record_id r) = None \<Longrightarrow>
    \<forall>x \<in> set (completions_of s (cr_schedule_id r)).
      oc_obligation_id (cr_completion x) \<noteq> oc_obligation_id (cr_completion r) \<Longrightarrow>
    map_of (st_obligation_schedules s) (cr_schedule_id r) = Some sch \<Longrightarrow>
    validate_persisted_obligation_completion sch (cr_completion r)
      (map cr_completion (completions_of s (cr_schedule_id r))) d a = Inr () \<Longrightarrow>
    \<forall>b. d = Some b \<longrightarrow> (\<exists>x \<in> set (values_of (st_obligation_dispatch_records s)).
      dr_schedule_id x = cr_schedule_id r \<and> dr_dispatch x = b) \<Longrightarrow>
    writes s (s\<lparr>st_obligation_completion_records :=
      st_obligation_completion_records s @ [(cr_completion_record_id r, r)]\<rparr>)"
| w_schedule_checkpoint:
    "map_of (st_obligation_schedule_checkpoints s) (sc_checkpoint_id r) = None \<Longrightarrow>
    map_of (st_obligation_schedules s) (sc_schedule_id r) = Some sch \<Longrightarrow>
    list_obligation_schedule_checkpoints s (sc_schedule_id r) = Inr cps \<Longrightarrow>
    derives_checkpoint s sch cps r \<Longrightarrow>
    writes s (s\<lparr>st_obligation_schedule_checkpoints :=
      st_obligation_schedule_checkpoints s @ [(sc_checkpoint_id r, r)]\<rparr>)"
| w_disposition: "map_of (st_job_dispositions s) (jd_outbox_message_id r) = None \<Longrightarrow>
    admit_disposition s now r = Inr () \<Longrightarrow>
    writes s (s\<lparr>st_job_dispositions := st_job_dispositions s @ [(jd_outbox_message_id r, r)]\<rparr>)"
| w_cursor: "\<forall>p. map_of (st_dispatcher_recovery_cursors s) (rc_dispatcher_id c) = Some p \<longrightarrow>
      recovery_position p \<noteq> recovery_position c \<and>
      \<not> moves_backwards (recovery_position p) (recovery_position c) \<Longrightarrow>
    writes s (s\<lparr>st_dispatcher_recovery_cursors :=
      AList.update (rc_dispatcher_id c) c (st_dispatcher_recovery_cursors s)\<rparr>)"
| w_job_lease: "map_of (st_outbox s) (jl_outbox_message_id l) = Some m \<Longrightarrow>
    map_of (st_job_dispositions s) (jl_outbox_message_id l) = None \<Longrightarrow>
    \<not> job_lease_live s (jl_outbox_message_id l) (jl_acquired_at l) \<Longrightarrow>
    jl_fencing_token l = next_job_token s (jl_outbox_message_id l) \<Longrightarrow>
    check_job_lease l = Inr () \<Longrightarrow>
    writes s (s\<lparr>st_job_leases := AList.update (jl_outbox_message_id l) l (st_job_leases s),
      st_job_lease_tokens :=
        AList.update (jl_outbox_message_id l) (jl_fencing_token l) (st_job_lease_tokens s)\<rparr>)"
| w_job_heartbeat: "map_of (st_job_leases s) (jl_outbox_message_id l) = Some l \<Longrightarrow>
    instant t < instant (jl_expires_at l) \<Longrightarrow> r = l\<lparr>jl_heartbeat_at := t, jl_expires_at := x\<rparr> \<Longrightarrow>
    check_job_lease r = Inr () \<Longrightarrow>
    writes s (s\<lparr>st_job_leases := AList.update (jl_outbox_message_id l) r (st_job_leases s)\<rparr>)"
| w_job_release: "map_of (st_job_leases s) (jl_outbox_message_id l) = Some l \<Longrightarrow>
    writes s (s\<lparr>st_job_leases := AList.delete (jl_outbox_message_id l) (st_job_leases s)\<rparr>)"
| w_lease: "map_of (st_cases s) (cl_case_id l) = Some c \<Longrightarrow>
    \<not> lease_live s (cl_case_id l) (cl_acquired_at l) \<Longrightarrow>
    cl_fencing_token l = next_lease_token s (cl_case_id l) \<Longrightarrow> check_controller_lease l = Inr () \<Longrightarrow>
    writes s (s\<lparr>st_leases := AList.update (cl_case_id l) l (st_leases s),
      st_lease_tokens := AList.update (cl_case_id l) (cl_fencing_token l) (st_lease_tokens s)\<rparr>)"
| w_release: "map_of (st_leases s) i = Some l \<Longrightarrow>
    writes s (s\<lparr>st_leases := AList.delete i (st_leases s)\<rparr>)"
| w_logical_job: "map_of (st_logical_model_jobs s) (lj_logical_model_job_id r) = None \<Longrightarrow>
    map_of (st_outbox s) (lj_job_id r) = Some m \<Longrightarrow>
    (case List.find (\<lambda>x. lj_job_id x = lj_job_id r) (map snd (st_logical_model_jobs s)) of
       None \<Rightarrow> True | Some x \<Rightarrow> x = r) \<Longrightarrow>
    writes s (s\<lparr>st_logical_model_jobs :=
      st_logical_model_jobs s @ [(lj_logical_model_job_id r, r)]\<rparr>)"
| w_provider_request: "map_of (st_provider_attempt_requests s) (pq_provider_attempt_id r) = None \<Longrightarrow>
    pq_attempt_number r =
      int (length (provider_attempts_of s (pq_logical_model_job_id r))) + 1 \<Longrightarrow>
    pq_prior_provider_attempt_id r = map_option pq_provider_attempt_id
      (max_by pq_attempt_number (provider_attempts_of s (pq_logical_model_job_id r))) \<Longrightarrow>
    writes s (s\<lparr>st_provider_attempt_requests :=
      st_provider_attempt_requests s @ [(pq_provider_attempt_id r, r)]\<rparr>)"
| w_provider_receipt:
    "map_of (st_provider_attempt_receipts s) (pt_provider_attempt_receipt_id r) = None \<Longrightarrow>
    map_of (st_provider_attempt_requests s) (pt_provider_attempt_id r) = Some q \<Longrightarrow>
    pq_logical_model_job_id q = pt_logical_model_job_id r \<Longrightarrow>
    (case receipt_of_attempt s (pt_provider_attempt_id r) of
       None \<Rightarrow> True | Some x \<Rightarrow> provider_receipt_form x = provider_receipt_form r) \<Longrightarrow>
    writes s (s\<lparr>st_provider_attempt_receipts :=
      st_provider_attempt_receipts s @ [(pt_provider_attempt_receipt_id r, r)]\<rparr>)"
| w_model_result: "map_of (st_durable_model_results s) (dm_logical_model_job_id r) = None \<Longrightarrow>
    map_of (st_provider_attempt_requests s) (dm_provider_attempt_id r) = Some q \<Longrightarrow>
    pq_logical_model_job_id q = dm_logical_model_job_id r \<Longrightarrow>
    receipt_of_attempt s (dm_provider_attempt_id r) = Some x \<Longrightarrow>
    pt_disposition x = ProviderSucceeded \<Longrightarrow> pt_output_sha256 x = Some (dm_output_sha256 r) \<Longrightarrow>
    writes s (s\<lparr>st_durable_model_results :=
      st_durable_model_results s @ [(dm_logical_model_job_id r, r)]\<rparr>)"
| w_attempt: "map_of (st_effect_attempts s) (ea_effect_attempt_id a) = None \<Longrightarrow>
    map_of (st_outbox s) (ea_outbox_message_id a) = Some m \<Longrightarrow> om_case_id m = ea_case_id a \<Longrightarrow>
    max_by ea_attempt_number (attempts_of s (ea_outbox_message_id a)) = c \<Longrightarrow>
    (case c of None \<Rightarrow> True | Some x \<Rightarrow> ea_status x = EffectRetryableFailure) \<Longrightarrow>
    ea_attempt_number a = (case c of None \<Rightarrow> 1 | Some x \<Rightarrow> ea_attempt_number x + 1) \<Longrightarrow>
    ea_prior_attempt_id a = map_option ea_effect_attempt_id c \<Longrightarrow>
    writes s (s\<lparr>st_effect_attempts := st_effect_attempts s @ [(ea_effect_attempt_id a, a)]\<rparr>)"
| w_action: "put_idempotent_immutable id (st_actions s) (av_action_id a) a n = Inr d \<Longrightarrow>
    (case map_of (st_action_idempotency_keys s) (av_case_id a, av_idempotency_key a) of
       None \<Rightarrow> True | Some i \<Rightarrow> i = av_action_id a) \<Longrightarrow>
    writes s (s\<lparr>st_actions := d, st_action_idempotency_keys :=
      AList.update (av_case_id a, av_idempotency_key a) (av_action_id a)
        (st_action_idempotency_keys s)\<rparr>)"
| w_context: "map_of (st_contexts s) (pk_packet_id p) = None \<Longrightarrow>
    writes s (s\<lparr>st_contexts := st_contexts s @ [(pk_packet_id p, p)]\<rparr>)"
| w_receipt: "map_of (st_receipts s) (ar_case_id r, ar_idempotency_key r) = None \<Longrightarrow>
    map_of (st_receipt_action_ids s) (ar_action_id r) = None \<Longrightarrow>
    map_of (st_actions s) (ar_action_id r) = Some a \<Longrightarrow> av_content_sha256 a = ar_request_sha256 r \<Longrightarrow>
    writes s (s\<lparr>st_receipts := st_receipts s @ [((ar_case_id r, ar_idempotency_key r), r)],
      st_receipt_action_ids :=
        st_receipt_action_ids s @ [(ar_action_id r, (ar_case_id r, ar_idempotency_key r))]\<rparr>)"
| w_checkpoint:
    "put_idempotent_immutable checkpoint_form (st_checkpoints s) (ck_checkpoint_id c) c n = Inr d \<Longrightarrow>
    (case map_of (st_checkpoint_event_keys s) (ck_case_id c, ck_event_cursor c) of
       None \<Rightarrow> True | Some i \<Rightarrow> i = ck_checkpoint_id c) \<Longrightarrow>
    writes s (s\<lparr>st_checkpoints := d, st_checkpoint_event_keys :=
      AList.update (ck_case_id c, ck_event_cursor c) (ck_checkpoint_id c)
        (st_checkpoint_event_keys s)\<rparr>)"
| w_initial_model: "map_of (st_workflow_read_models s) i = None \<Longrightarrow>
    initial_workflow_read_model i realm profile = Inr m \<Longrightarrow>
    writes s (s\<lparr>st_workflow_read_models := AList.update i m (st_workflow_read_models s)\<rparr>)"
| w_model: "check_read_model m = Inr () \<Longrightarrow>
    map_of (st_workflow_read_models s) (wh_case_id (wm_head m)) = Some current \<Longrightarrow>
    appends_one_cursor current m (wh_version (wm_head current)) \<Longrightarrow>
    map_of (st_events s) (wh_case_id (wm_head m)) = Some es \<Longrightarrow> e \<in> set es \<Longrightarrow>
    ev_cursor e = wr_cursor (last (wm_receipts m)) \<Longrightarrow>
    ev_event_id e = wr_source_event_id (last (wm_receipts m)) \<Longrightarrow>
    journal_event_sha256 e = wr_source_event_sha256 (last (wm_receipts m)) \<Longrightarrow>
    writes s (s\<lparr>st_workflow_read_models :=
      AList.update (wh_case_id (wm_head m)) m (st_workflow_read_models s)\<rparr>)"

section \<open>Methods\<close>

text \<open>A call of a method: what it leaves behind is reached by writes, whether it returns or raises.\<close>

definition refines :: "(Store, 'a) prog \<Rightarrow> bool" where
  "refines m \<longleftrightarrow> (\<forall>s r t. m s = (r, t) \<longrightarrow> writes\<^sup>*\<^sup>* s t)"

lemma refinesI: "(\<And>s r t. m s = (r, t) \<Longrightarrow> writes\<^sup>*\<^sup>* s t) \<Longrightarrow> refines m"
  by (auto simp: refines_def)

lemma refinesD: "refines m \<Longrightarrow> m s = (r, t) \<Longrightarrow> writes\<^sup>*\<^sup>* s t"
  by (auto simp: refines_def)

lemma refines_readP [simp, intro]: "refines (readP f)"
  by (auto simp: refines_def)

lemma refines_returnP [simp, intro]: "refines (returnP x)"
  by (auto simp: refines_def)

lemma refines_raiseP [simp, intro]: "refines (raiseP e)"
  by (auto simp: refines_def)

text \<open>
  The methods that accept a revision store the head under the id of the case they have read, so they
  refine the writes on a store whose cases are filed under their own id.
\<close>

definition cases_keyed :: "Store \<Rightarrow> bool" where
  "cases_keyed s \<longleftrightarrow> (\<forall>i c. map_of (st_cases s) i = Some c \<longrightarrow> ic_case_id c = i)"

definition refines_keyed :: "(Store, 'a) prog \<Rightarrow> bool" where
  "refines_keyed m \<longleftrightarrow> (\<forall>s r t. cases_keyed s \<longrightarrow> m s = (r, t) \<longrightarrow> writes\<^sup>*\<^sup>* s t)"

lemma refines_keyedI: "(\<And>s r t. cases_keyed s \<Longrightarrow> m s = (r, t) \<Longrightarrow> writes\<^sup>*\<^sup>* s t) \<Longrightarrow> refines_keyed m"
  by (auto simp: refines_keyed_def)

lemma refines_keyedD: "refines_keyed m \<Longrightarrow> cases_keyed s \<Longrightarrow> m s = (r, t) \<Longrightarrow> writes\<^sup>*\<^sup>* s t"
  by (auto simp: refines_keyed_def)

lemma atomic_refines_keyed: "refines_keyed body \<Longrightarrow> refines_keyed (atomic body)"
  by (fastforce simp: refines_keyed_def atomic_def split: prod.splits sum.splits)

text \<open>What a method has read of the store still holds when it goes on.\<close>

lemma bindP_readP_eq:
  "bindP (readP g) f s = (r, t) \<longleftrightarrow>
     (\<exists>e. g s = Inl e \<and> r = Inl e \<and> t = s) \<or> (\<exists>x. g s = Inr x \<and> f x s = (r, t))"
  by (auto split: sum.split)

text \<open>A method that reads, and at the end makes one write.\<close>

lemma one_write: "t = s \<or> writes s t \<Longrightarrow> writes\<^sup>*\<^sup>* s t"
  by auto

end
