(* ===== verification/StoreMethods.thy ===== *)
theory StoreMethods imports StoreWrites begin

text \<open>
  Every method of the store refines the writes: the store it leaves, also when it raises, is reached
  by writes.
\<close>

named_theorems method_simps \<open>unfolding a method into its reads and its write\<close>

lemmas method_reads = bindP_readP_eq bindP_writeP returnP_eq raiseP_eq readP_eq writeP_eq

declare bindP_readP [simp del]

lemma find_None_values: "List.find p (map snd d) = None \<longleftrightarrow> (\<forall>x \<in> set (values_of d). \<not> p x)"
  by (auto simp: find_None_iff values_of_def)

lemma find_SomeD: "List.find p xs = Some x \<Longrightarrow> x \<in> set xs \<and> p x"
  by (induction xs) (auto split: if_splits)

section \<open>Records of messages\<close>

lemma record_message_ingress_refines: "refines (record_message_ingress r)"
proof (rule refinesI, rule one_write)
  fix s res t assume "record_message_ingress r s = (res, t)"
  then show "t = s \<or> writes s t"
    by (auto simp: record_message_ingress_def method_reads put_idempotent_Inr split: if_splits
        intro!: w_ingress)
qed

lemma record_pending_user_message_refines: "refines (record_pending_user_message r)"
proof (rule refinesI, rule one_write)
  fix s res t assume "record_pending_user_message r s = (res, t)"
  then show "t = s \<or> writes s t"
    by (auto simp: record_pending_user_message_def method_reads put_idempotent_Inr split: if_splits
        intro!: w_pending)
qed

lemma record_logical_model_job_refines: "refines (record_logical_model_job r)"
proof (rule refinesI, rule one_write)
  fix s res t assume "record_logical_model_job r s = (res, t)"
  then show "t = s \<or> writes s t"
    by (auto simp: record_logical_model_job_def method_reads put_idempotent_Inr get_outbox_message_def
        split: if_splits option.splits intro!: w_logical_job)
qed


section \<open>Model calls and effect attempts\<close>

lemma record_provider_attempt_request_refines: "refines (record_provider_attempt_request r)"
proof (rule refinesI, rule one_write)
  fix s res t assume "record_provider_attempt_request r s = (res, t)"
  then show "t = s \<or> writes s t"
    by (auto simp: record_provider_attempt_request_def method_reads put_idempotent_Inr
        split: if_splits option.splits intro!: w_provider_request)
qed

lemma record_provider_attempt_receipt_refines: "refines (record_provider_attempt_receipt r)"
proof (rule refinesI, rule one_write)
  fix s res t assume "record_provider_attempt_receipt r s = (res, t)"
  then show "t = s \<or> writes s t"
    by (auto simp: record_provider_attempt_receipt_def method_reads put_idempotent_Inr
        get_provider_attempt_request_def split: if_splits option.splits intro!: w_provider_receipt)
qed

lemma record_durable_model_result_refines: "refines (record_durable_model_result r)"
proof (rule refinesI, rule one_write)
  fix s res t assume "record_durable_model_result r s = (res, t)"
  then show "t = s \<or> writes s t"
    by (auto simp: record_durable_model_result_def method_reads put_idempotent_Inr
        get_provider_attempt_request_def split: if_splits option.splits intro!: w_model_result)
qed

lemma record_effect_attempt_refines: "refines (record_effect_attempt a)"
proof (rule refinesI, rule one_write)
  fix s res t assume "record_effect_attempt a s = (res, t)"
  then show "t = s \<or> writes s t"
    by (auto simp: record_effect_attempt_def method_reads put_idempotent_Inr get_outbox_message_def
        split: if_splits option.splits intro!: w_attempt [OF _ _ _ refl])
qed

section \<open>Actions, receipts and checkpoints\<close>

lemma record_action_refines: "refines (record_action a)"
proof (rule refinesI, rule one_write)
  fix s res t assume "record_action a s = (res, t)"
  then show "t = s \<or> writes s t"
    by (auto simp: record_action_def method_reads split: if_splits option.splits intro!: w_action)
qed

lemma record_context_packet_refines: "refines (record_context_packet p)"
proof (rule refinesI, rule one_write)
  fix s res t assume "record_context_packet p s = (res, t)"
  then show "t = s \<or> writes s t"
    by (auto simp: record_context_packet_def method_reads put_idempotent_Inr split: if_splits
        intro!: w_context)
qed

lemma record_action_receipt_refines: "refines (record_action_receipt r)"
proof (rule refinesI, rule one_write)
  fix s res t assume "record_action_receipt r s = (res, t)"
  then show "t = s \<or> writes s t"
    by (auto simp: record_action_receipt_def method_reads get_action_def update_fresh
        split: if_splits option.splits intro!: w_receipt)
qed

lemma record_checkpoint_refines: "refines (record_checkpoint c)"
proof (rule refinesI, rule one_write)
  fix s res t assume "record_checkpoint c s = (res, t)"
  then show "t = s \<or> writes s t"
    by (auto simp: record_checkpoint_def method_reads split: if_splits option.splits
        intro!: w_checkpoint)
qed


section \<open>Jobs and leases\<close>

lemma enqueue_outbox_refines: "refines (enqueue_outbox bind_action m)"
proof (rule refinesI, rule one_write)
  fix s res t assume "enqueue_outbox bind_action m s = (res, t)"
  then show "t = s \<or> writes s t"
    by (auto simp: enqueue_outbox_def method_reads put_immutable_Inr find_None_values
        split: if_splits option.splits intro!: w_outbox)
qed

lemma record_job_disposition_refines: "refines (record_job_disposition now d)"
proof (rule refinesI, rule one_write)
  fix s res t assume "record_job_disposition now d s = (res, t)"
  then show "t = s \<or> writes s t"
    by (auto simp: record_job_disposition_def method_reads update_fresh
        split: if_splits option.splits intro!: w_disposition)
qed

lemma advance_dispatcher_recovery_cursor_refines: "refines (advance_dispatcher_recovery_cursor c)"
proof (rule refinesI, rule one_write)
  fix s res t assume r: "advance_dispatcher_recovery_cursor c s = (res, t)"
  let ?t = "s\<lparr>st_dispatcher_recovery_cursors :=
    AList.update (rc_dispatcher_id c) c (st_dispatcher_recovery_cursors s)\<rparr>"
  show "t = s \<or> writes s t"
  proof (cases "map_of (st_dispatcher_recovery_cursors s) (rc_dispatcher_id c)")
    case None
    then have "t = ?t" using r
      by (simp add: advance_dispatcher_recovery_cursor_def method_reads)
    then show ?thesis using w_cursor [of s c] None by simp
  next
    case (Some p)
    then have "t = (if recovery_position p = recovery_position c \<or>
        moves_backwards (recovery_position p) (recovery_position c) then s else ?t)" using r
      by (simp add: advance_dispatcher_recovery_cursor_def method_reads split: if_split_asm)
    then show ?thesis using w_cursor [of s c] Some by simp
  qed
qed

lemma trusted_now_Inr [simp]: "trusted_now now = Inr t \<longleftrightarrow> is_aware now \<and> t = now"
  by (auto simp: trusted_now_def result_simps)

lemma acquire_job_lease_refines: "refines (acquire_job_lease clock i owner now expires)"
proof (rule refinesI, rule one_write)
  fix s res t assume "acquire_job_lease clock i owner now expires s = (res, t)"
  then show "t = s \<or> writes s t"
    by (auto simp: acquire_job_lease_def method_reads get_outbox_message_def
        intro: w_job_lease [of s "\<lparr>jl_outbox_message_id = i, jl_owner_id = owner,
          jl_fencing_token = next_job_token s i, jl_acquired_at = clock, jl_heartbeat_at = clock,
          jl_expires_at = dt_plus clock d\<rparr>" for d, simplified])
qed

lemma heartbeat_job_lease_refines: "refines (heartbeat_job_lease clock l heartbeat expires)"
proof (rule refinesI, rule one_write)
  fix s res t assume "heartbeat_job_lease clock l heartbeat expires s = (res, t)"
  then show "t = s \<or> writes s t"
    by (auto simp: heartbeat_job_lease_def method_reads intro!: w_job_heartbeat)
qed

lemma release_job_lease_refines: "refines (release_job_lease l)"
proof (rule refinesI, rule one_write)
  fix s res t assume "release_job_lease l s = (res, t)"
  then show "t = s \<or> writes s t"
    by (auto simp: release_job_lease_def method_reads intro!: w_job_release)
qed

lemma acquire_lease_refines: "refines (acquire_lease clock i run owner now expires)"
proof (rule refinesI, rule one_write)
  fix s res t assume "acquire_lease clock i run owner now expires s = (res, t)"
  then show "t = s \<or> writes s t"
    by (auto simp: acquire_lease_def method_reads get_case_def
        intro: w_lease [of s "\<lparr>cl_case_id = i, cl_run_id = run, cl_owner_id = owner,
          cl_fencing_token = next_lease_token s i, cl_acquired_at = clock,
          cl_expires_at = dt_plus clock d\<rparr>" for d, simplified])
qed

lemma release_lease_refines: "refines (release_lease l)"
proof (rule refinesI, rule one_write)
  fix s res t assume "release_lease l s = (res, t)"
  then show "t = s \<or> writes s t"
    by (auto simp: release_lease_def method_reads split: option.splits intro: w_release)
qed

section \<open>Obligation schedules\<close>

lemma as_transition_error_Inr [simp]: "as_transition_error m = Inr x \<longleftrightarrow> m = Inr x"
  by (cases m) auto

lemma record_obligation_schedule_refines: "refines (record_obligation_schedule r)"
proof (rule refinesI, rule one_write)
  fix s res t assume "record_obligation_schedule r s = (res, t)"
  then show "t = s \<or> writes s t"
    by (auto simp: record_obligation_schedule_def method_reads put_idempotent_Inr
        split: if_splits intro!: w_schedule)
qed

lemma record_obligation_schedule_checkpoint_refines:
  "refines (record_obligation_schedule_checkpoint r)"
proof (rule refinesI, rule one_write)
  fix s res t assume "record_obligation_schedule_checkpoint r s = (res, t)"
  then show "t = s \<or> writes s t"
    by (auto simp: record_obligation_schedule_checkpoint_def method_reads put_idempotent_Inr
        get_obligation_schedule_def intro!: w_schedule_checkpoint)
qed


lemma record_obligation_completion_refines: "refines (record_obligation_completion r)"
proof (rule refinesI, rule one_write)
  fix s res t assume run: "record_obligation_completion r s = (res, t)"
  let ?prior = "List.find (\<lambda>x. oc_obligation_id (cr_completion x) =
    oc_obligation_id (cr_completion r)) (completions_of s (cr_schedule_id r))"
  show "t = s \<or> writes s t"
  proof (cases ?prior)
    case (Some x)
    then show ?thesis using run
      by (auto simp: record_obligation_completion_def method_reads split: if_splits)
  next
    case None
    then have "\<forall>x \<in> set (completions_of s (cr_schedule_id r)).
      oc_obligation_id (cr_completion x) \<noteq> oc_obligation_id (cr_completion r)"
      by (simp add: find_None_iff)
    then show ?thesis using run None
      by (auto simp: record_obligation_completion_def method_reads put_idempotent_Inr
          get_obligation_schedule_def list_obligation_dispatches_def values_of_def
          result_simps dest!: find_SomeD intro!: w_completion)
  qed
qed

text \<open>A dispatch writes the outbox message first, then its record.\<close>

lemma bindP_eq:
  "bindP m f s = (r, t) \<longleftrightarrow>
     (\<exists>e. m s = (Inl e, t) \<and> r = Inl e) \<or> (\<exists>x u. m s = (Inr x, u) \<and> f x u = (r, t))"
  by (auto simp: bindP_def split: prod.splits sum.splits)

lemma admit_dispatch_schedule:
  assumes "admit_dispatch s m r = Inr ()"
  obtains sch where "map_of (st_obligation_schedules s) (dr_schedule_id r) = Some sch"
    and "validate_obligation_dispatch_admission sch r m = Inr ()"
  using assms by (auto simp: admit_dispatch_def result_simps get_obligation_schedule_def)

lemma store_dispatch_writes:
  assumes "store_dispatch r s = (res, t)"
    and "\<forall>x \<in> set (values_of (st_obligation_dispatch_records s)). dr_schedule_id x = dr_schedule_id r \<longrightarrow>
      di_obligation_id (dr_dispatch x) \<noteq> di_obligation_id (dr_dispatch r)"
    and "map_of (st_obligation_schedules s) (dr_schedule_id r) = Some sch"
    and "validate_obligation_dispatch_admission sch r m = Inr ()"
    and "x \<in> set (values_of (st_outbox s))" and "outbox_form x = outbox_form m"
  shows "t = s \<or> writes s t"
  using assms by (auto simp: store_dispatch_def method_reads put_idempotent_Inr intro!: w_dispatch)

lemma store_dispatch_message_cases:
  assumes "store_dispatch_message m s = (res, u)"
  obtains e where "res = Inl e" and "u = s"
  | x where "res = Inr ()" and "u = s" and "x \<in> set (values_of (st_outbox s))"
      and "outbox_form x = outbox_form m"
  | "res = Inr ()" and "map_of (st_outbox s) (om_outbox_message_id m) = None"
      and "\<forall>x \<in> set (values_of (st_outbox s)). \<not> same_outbox_key m x"
      and "u = s\<lparr>st_outbox := st_outbox s @ [(om_outbox_message_id m, m)]\<rparr>"
proof (cases "List.find (same_outbox_key m) (map snd (st_outbox s))")
  case None
  then have "\<forall>x \<in> set (values_of (st_outbox s)). \<not> same_outbox_key m x"
    by (simp add: find_None_iff values_of_def)
  with None show ?thesis using assms that(1,3)
    by (auto simp: store_dispatch_message_def method_reads put_immutable_Inr)
next
  case (Some x)
  then have "x \<in> set (values_of (st_outbox s))" using find_SomeD [OF Some] by (simp add: values_of_def)
  with Some show ?thesis using assms that(1,2)
    by (auto simp: store_dispatch_message_def method_reads require_def split: if_splits)
qed

lemma record_obligation_dispatch_refines: "refines (record_obligation_dispatch m r)"
proof (rule refinesI)
  fix s res t assume run: "record_obligation_dispatch m r s = (res, t)"
  show "writes\<^sup>*\<^sup>* s t"
  proof (cases "admit_dispatch s m r = Inr () \<and> prior_dispatch s r = None")
    case False
    then have "t = s" using run
      by (auto simp: record_obligation_dispatch_def method_reads split: option.splits if_splits)
    then show ?thesis by simp
  next
    case True
    then have fresh: "\<forall>x \<in> set (values_of (st_obligation_dispatch_records s)).
        dr_schedule_id x = dr_schedule_id r \<longrightarrow>
        di_obligation_id (dr_dispatch x) \<noteq> di_obligation_id (dr_dispatch r)"
      by (auto simp: prior_dispatch_def find_None_iff values_of_def)
    obtain sch where sch: "map_of (st_obligation_schedules s) (dr_schedule_id r) = Some sch"
      "validate_obligation_dispatch_admission sch r m = Inr ()"
      using admit_dispatch_schedule True by blast
    have run': "bindP (store_dispatch_message m) (\<lambda>_. store_dispatch r) s = (res, t)"
      using run True by (simp add: record_obligation_dispatch_def method_reads)
    obtain res' u where message: "store_dispatch_message m s = (res', u)" by fastforce
    from message show ?thesis
    proof (cases rule: store_dispatch_message_cases)
      case (1 e)
      then show ?thesis using run' message by (simp add: bindP_def)
    next
      case (2 x)
      then have "store_dispatch r s = (res, t)" using run' message by (simp add: bindP_def)
      from store_dispatch_writes [OF this fresh sch 2(3,4)] show ?thesis by (rule one_write)
    next
      case 3
      have "store_dispatch r u = (res, t)" using run' message 3(1) by (simp add: bindP_def)
      from store_dispatch_writes [OF this, of sch m m] fresh sch
      have "t = u \<or> writes u t" unfolding 3(4) by (simp add: values_of_def)
      moreover have "writes s u" unfolding 3(4) using 3(2,3) by (rule w_outbox)
      ultimately show ?thesis by (metis converse_rtranclp_into_rtranclp one_write)
    qed
  qed
qed


section \<open>The journal and the mailbox\<close>

lemma make_event_fields:
  assumes "make_event e = Inr x"
  shows "ev_event_id x = ev_event_id e \<and> ev_case_id x = ev_case_id e \<and> ev_cursor x = ev_cursor e \<and>
    ev_event_type x = ev_event_type e \<and> ev_authority_ref x = ev_authority_ref e \<and>
    ev_action_id x = ev_action_id e \<and> ev_operation x = ev_operation e \<and>
    ev_recorded_at x = ev_recorded_at e"
  using assms by (auto simp: make_event_def result_simps)

lemma append_event_locked_cases:
  assumes "append_event_locked n d s = (r, t)"
  obtains "t = s"
  | e es where "r = Inr e" and "t = push_event e es s"
    and "map_of (st_events_by_id s) (ed_event_id d) = None"
    and "map_of (st_events s) (ed_case_id d) = Some es" and "n = int (length es) + 1"
    and "make_event e = Inr e" and "ev_event_id e = ed_event_id d" and "ev_case_id e = ed_case_id d"
    and "ev_cursor e = n" and "ev_event_type e = ed_event_type d"
    and "ev_authority_ref e = ed_authority_ref d"
proof (cases "map_of (st_events_by_id s) (ed_event_id d)")
  case (Some x)
  then have "t = s" using assms
    by (auto simp: append_event_locked_def method_reads split: if_splits)
  then show ?thesis by (rule that(1))
next
  case None
  show ?thesis
  proof (cases "t = s")
    case False
    obtain p es e where es: "map_of (st_events s) (ed_case_id d) = Some es"
      and n: "n = int (length es) + 1" and e: "draft_entry d p n = Inr e"
      and r: "r = Inr e" and t: "t = push_event e es s"
      using assms None False
      by (auto simp: append_event_locked_def method_reads Let_def split: if_splits)
    have "make_event e = Inr e"
      using e by (auto simp: draft_entry_def intro: make_event_again)
    moreover have "ev_event_id e = ed_event_id d" "ev_case_id e = ed_case_id d" "ev_cursor e = n"
      "ev_event_type e = ed_event_type d" "ev_authority_ref e = ed_authority_ref d"
      using make_event_fields [OF e [unfolded draft_entry_def]] by simp_all
    ultimately show ?thesis using that(2) es n r t None by blast
  qed (rule that(1))
qed

lemma append_event_locked_writes:
  assumes "append_event_locked n d s = (r, t)"
  shows "writes\<^sup>*\<^sup>* s t"
  using assms
proof (cases rule: append_event_locked_cases)
  case (2 e es)
  then show ?thesis using w_event [of s e es] by auto
qed simp

lemma append_event_locked_refines: "refines (append_event_locked n d)"
  by (rule refinesI) (rule append_event_locked_writes)

lemma append_event_refines: "refines (append_event n d)"
  using append_event_locked_refines
  by (auto simp: refines_def append_event_def method_reads)

lemma append_authority_event_refines:
  "refines (append_authority_event_locked case_id event_id kind ref act at payload op)"
  using append_event_locked_refines
  by (auto simp: refines_def append_authority_event_locked_def method_reads)

lemma refines_bindP:
  assumes m: "refines m" and f: "\<And>x. refines (f x)"
  shows "refines (bindP m f)"
proof (rule refinesI)
  fix s r t assume "bindP m f s = (r, t)"
  then consider e where "m s = (Inl e, t)" | x u where "m s = (Inr x, u)" "f x u = (r, t)"
    by (auto simp: bindP_eq)
  then show "writes\<^sup>*\<^sup>* s t"
    using refinesD [OF m] refinesD [OF f] by cases (blast, metis rtranclp_trans)
qed

lemma transition_case_lifecycle_refines:
  "refines (transition_case_lifecycle case_id lifecycle n event_id act at op)"
proof (rule refinesI)
  fix s r t assume run: "transition_case_lifecycle case_id lifecycle n event_id act at op s = (r, t)"
  define kind where "kind = (if lifecycle = CaseStopped then EvCaseStopped else EvCaseClosed)"
  let ?next = "\<lambda>c. c\<lparr>ic_lifecycle := lifecycle, ic_head_version := ic_head_version c + 1,
    ic_updated_at := at\<rparr>"
  let ?tail = "\<lambda>u. bindP (append_authority_event_locked case_id event_id kind case_id
     (Some act) at (JObj [(''lifecycle'', JStr (lifecycle_value lifecycle)),
        (''head_version'', JInt (ic_head_version u))]) op) (\<lambda>_. returnP u)"
  have tail: "refines (?tail u)" for u
    by (intro refines_bindP append_authority_event_refines refines_returnP)
  show "writes\<^sup>*\<^sup>* s t"
  proof (cases "t = s")
    case False
    then obtain c where c: "cas_case s case_id n = Inr c" and live: "\<not> terminal_lifecycle c"
      and ok: "check_case (?next c) = Inr ()"
      and run': "?tail (?next c) (s\<lparr>st_cases := AList.update case_id (?next c) (st_cases s)\<rparr>) = (r, t)"
      using run by (auto simp: transition_case_lifecycle_def method_reads Let_def kind_def
          split: if_split_asm option.splits)
    then have "map_of (st_cases s) case_id = Some c"
      by (auto simp: cas_case_def get_case_def result_simps split: if_splits)
    then have "writes s (s\<lparr>st_cases := AList.update case_id (?next c) (st_cases s)\<rparr>)"
      by (rule w_head) (simp_all add: live ok bound_defs)
    then show ?thesis using refinesD [OF tail run'] by (rule converse_rtranclp_into_rtranclp)
  qed simp
qed

lemma open_case_refines: "refines (open_case case_id thread_id event_id at op)"
proof (rule refinesI)
  fix s r t assume run: "open_case case_id thread_id event_id at op s = (r, t)"
  let ?c = "opened_case case_id thread_id at"
  let ?u = "s\<lparr>st_cases := st_cases s @ [(case_id, ?c)],
    st_events := AList.update case_id [] (st_events s),
    st_mailbox_heads := AList.update case_id (initial_head case_id at) (st_mailbox_heads s)\<rparr>"
  let ?d = "\<lambda>p. \<lparr>ed_case_id = case_id, ed_event_id = event_id, ed_event_type = EvCaseOpened,
    ed_recorded_at = at, ed_action_id = None, ed_authority_ref = Some case_id,
    ed_payload = JObj [(''thread_id'', JStr thread_id)],
    ed_customer_projection = Some (JObj [(''state'', JStr ''open'')]), ed_operation = p\<rparr>"
  let ?tail = "bindP (readP (\<lambda>_. event_operation op event_id (JObj [(''thread_id'', JStr thread_id)])))
    (\<lambda>p. bindP (append_event_locked 1 (?d p)) (\<lambda>_. returnP ?c))"
  have tail: "refines ?tail"
    by (intro refines_bindP append_event_locked_refines refines_returnP refines_readP)
  show "writes\<^sup>*\<^sup>* s t"
  proof (cases "map_of (st_events_by_id s) event_id = None \<and> map_of (st_cases s) case_id = None \<and>
      check_case ?c = Inr ()")
    case False
    then have "t = s" using run
      by (auto simp: open_case_def method_reads Let_def split: option.splits if_splits)
    then show ?thesis by simp
  next
    case True
    have "check_mailbox_head (initial_head case_id at) = Inr ()"
      using True by (simp add: check_mailbox_head_def initial_head_def check_case_def opened_case_def)
    then have "?tail ?u = (r, t)"
      using run True by (simp add: open_case_def method_reads Let_def update_fresh initial_head_def)
    then have "writes\<^sup>*\<^sup>* ?u t" by (rule refinesD [OF tail])
    moreover have "writes s ?u" using True by (intro w_case) simp_all
    ultimately show ?thesis by (rule converse_rtranclp_into_rtranclp [rotated])
  qed
qed


lemma make_mailbox_message_fields:
  assumes "make_mailbox_message m = Inr x"
  shows "mm_message_id x = mm_message_id m \<and> mm_case_id x = mm_case_id m \<and>
    mm_sequence x = mm_sequence m \<and> mm_authority_epoch x = mm_authority_epoch m \<and>
    mm_operation x = mm_operation m \<and> mm_kind x = mm_kind m \<and> mm_created_at x = mm_created_at m"
  using assms by (auto simp: make_mailbox_message_def result_simps)

lemma append_mailbox_message_refines:
  "refines (append_mailbox_message message_id case_id kind op payload at)"
proof (rule refinesI, rule one_write)
  fix s r t assume run: "append_mailbox_message message_id case_id kind op payload at s = (r, t)"
  let ?dup = "List.find (\<lambda>m. mm_case_id m = case_id \<and>
    oi_idempotency_key (mm_operation m) = oi_idempotency_key op) (map snd (st_mailbox_messages s))"
  let ?m = "\<lambda>h. \<lparr>mm_message_id = message_id, mm_case_id = case_id,
    mm_sequence = mh_last_sequence h + 1, mm_authority_epoch = mh_authority_epoch h + 1,
    mm_kind = kind, mm_operation = op, mm_payload = payload, mm_created_at = at\<rparr>"
  show "t = s \<or> writes s t"
  proof (cases "map_of (st_mailbox_messages s) message_id = None \<and> ?dup = None")
    case False
    then show ?thesis using run
      by (auto simp: append_mailbox_message_def method_reads split: option.splits if_splits)
  next
    case True
    show ?thesis
    proof (cases "t = s")
      case False
      then obtain h m where h: "map_of (st_mailbox_heads s) case_id = Some h"
        and m: "make_mailbox_message (?m h) = Inr m"
        using run True by (auto simp: append_mailbox_message_def method_reads)
      have f: "mm_message_id m = message_id" "mm_case_id m = case_id"
        "mm_sequence m = mh_last_sequence h + 1" "mm_authority_epoch m = mh_authority_epoch h + 1"
        "mm_operation m = op" "mm_created_at m = at"
        using make_mailbox_message_fields [OF m] by simp_all
      have "nonempty case_id" "is_aware at" "mh_last_sequence h + 1 \<ge> 1" "mh_authority_epoch h + 1 \<ge> 1"
        using m by (auto simp: make_mailbox_message_def result_simps)
      then have "check_mailbox_head (next_head m) = Inr ()"
        using f by (simp add: check_mailbox_head_def next_head_def)
      then have t: "t = s\<lparr>st_mailbox_messages := st_mailbox_messages s @ [(message_id, m)],
          st_mailbox_heads := AList.update case_id (next_head m) (st_mailbox_heads s)\<rparr>"
        using run True h m f False
        by (auto simp: append_mailbox_message_def method_reads update_fresh next_head_def)
      have "writes s t" unfolding t using True h f w_message [of s m h]
        by (simp add: find_None_values)
      then show ?thesis ..
    qed simp
  qed
qed

section \<open>Workflow projections\<close>

lemma get_workflow_read_model_refines: "refines (get_workflow_read_model case_id realm profile)"
proof (rule refinesI, rule one_write)
  fix s r t assume "get_workflow_read_model case_id realm profile s = (r, t)"
  then show "t = s \<or> writes s t"
    by (auto simp: get_workflow_read_model_def method_reads split: option.splits if_splits
        intro!: w_initial_model)
qed


lemma require_event_cursor_Inr:
  "require_event_cursor s i n = Inr e \<Longrightarrow>
     \<exists>es. map_of (st_events s) i = Some es \<and> e \<in> set es \<and> ev_cursor e = n"
  by (auto simp: require_event_cursor_def result_simps split: option.splits dest: find_SomeD)

lemma commit_onto_writes:
  assumes "commit_onto c m n s = (r, t)"
    and valid: "check_read_model m = Inr ()"
    and row: "map_of (st_workflow_read_models s) (wh_case_id (wm_head m)) = Some c"
  shows "t = s \<or> writes s t"
proof (cases "t = s")
  case False
  then obtain e where e: "require_event_cursor s (wh_case_id (wm_head m))
        (wr_cursor (last (wm_receipts m))) = Inr e"
    and a: "appends_one_cursor c m (wh_version (wm_head c))"
    and i: "ev_event_id e = wr_source_event_id (last (wm_receipts m))"
      "journal_event_sha256 e = wr_source_event_sha256 (last (wm_receipts m))"
    and t: "t = s\<lparr>st_workflow_read_models :=
        AList.update (wh_case_id (wm_head m)) m (st_workflow_read_models s)\<rparr>"
    using assms(1) by (auto simp: commit_onto_def method_reads Let_def split: if_split_asm)
  obtain es where "map_of (st_events s) (wh_case_id (wm_head m)) = Some es" "e \<in> set es"
    "ev_cursor e = wr_cursor (last (wm_receipts m))"
    using require_event_cursor_Inr [OF e] by blast
  then show ?thesis unfolding t using w_model [OF valid row a] i by blast
qed simp

lemma commit_workflow_read_model_refines:
  assumes valid: "check_read_model m = Inr ()"
  shows "refines (commit_workflow_read_model m n at)"
proof (rule refinesI)
  fix s r t assume run: "commit_workflow_read_model m n at s = (r, t)"
  let ?i = "wh_case_id (wm_head m)"
  let ?u = "\<lambda>c. if map_of (st_workflow_read_models s) ?i = None
    then s\<lparr>st_workflow_read_models := AList.update ?i c (st_workflow_read_models s)\<rparr> else s"
  show "writes\<^sup>*\<^sup>* s t"
  proof (cases "t = s")
    case False
    then obtain c where c: "current_workflow_model s ?i (ws_realm (wm_snapshot m))
        (ws_evidence_profile (wm_snapshot m)) = Inr c"
      and run': "commit_onto c m n (?u c) = (r, t)"
      using run by (auto simp: commit_workflow_read_model_def method_reads Let_def)
    have "map_of (st_workflow_read_models (?u c)) ?i = Some c"
      using c by (auto simp: current_workflow_model_def split: option.splits)
    from one_write [OF commit_onto_writes [OF run' valid this]] have "writes\<^sup>*\<^sup>* (?u c) t" .
    moreover have "writes\<^sup>*\<^sup>* s (?u c)"
      using c w_initial_model [of s ?i] by (auto simp: current_workflow_model_def split: option.splits)
    ultimately show ?thesis by (rule rtranclp_trans [rotated])
  qed simp
qed

end
