(* ===== verification/StoreAuthorityMethods.thy ===== *)
theory StoreAuthorityMethods imports StoreMethods begin

text \<open>The methods that record candidates, reviews, closures and proofs, and those that accept a
  revision, refine the writes.\<close>

section \<open>Rows\<close>

lemma foreign_rowsI:
  assumes "t = s\<lparr>st_questions := st_questions t,
     st_frames := st_frames t, st_plans := st_plans t, st_plan_adoptions := st_plan_adoptions t,
     st_plan_adoption_by_plan := st_plan_adoption_by_plan t,
     st_query_bindings := st_query_bindings t, st_resolution_outcomes := st_resolution_outcomes t,
     st_resolution_admissions := st_resolution_admissions t, st_evidence_obligations := st_evidence_obligations t,
     st_evidence_cases := st_evidence_cases t, st_evidence_validity := st_evidence_validity t,
     st_obligation_satisfaction := st_obligation_satisfaction t, st_answers := st_answers t,
     st_objection_cases := st_objection_cases t, st_decision_cases := st_decision_cases t,
     st_frame_candidates := st_frame_candidates t,
     st_active_frame_candidate_ids := st_active_frame_candidate_ids t,
     st_frame_candidate_supersessions := st_frame_candidate_supersessions t,
     st_frame_reviews := st_frame_reviews t, st_objection_closures := st_objection_closures t,
     st_frame_admission_proofs := st_frame_admission_proofs t,
     st_frame_admission_proof_by_frame := st_frame_admission_proof_by_frame t\<rparr>"
    and "grown (st_questions s) (st_questions t)" "grown (st_frames s) (st_frames t)"
      "grown (st_plans s) (st_plans t)" "grown (st_plan_adoptions s) (st_plan_adoptions t)"
      "grown (st_plan_adoption_by_plan s) (st_plan_adoption_by_plan t)"
      "grown (st_query_bindings s) (st_query_bindings t)"
      "set (st_evidence_obligations s) \<subseteq> set (st_evidence_obligations t)"
      "grown (st_resolution_outcomes s) (st_resolution_outcomes t)"
      "grown (st_resolution_admissions s) (st_resolution_admissions t)"
      "grown (st_evidence_obligations s) (st_evidence_obligations t)"
      "grown (st_obligation_satisfaction s) (st_obligation_satisfaction t)"
      "grown (st_answers s) (st_answers t)" "grown (st_frame_candidates s) (st_frame_candidates t)"
      "grown (st_frame_reviews s) (st_frame_reviews t)"
      "grown (st_objection_closures s) (st_objection_closures t)"
      "grown (st_frame_admission_proofs s) (st_frame_admission_proofs t)" "admitted_rows s t"
  shows "foreign_rows s t"
  unfolding foreign_rows_def
  by (intro conjI) ((rule exI)+, intro conjI, rule assms(1), (rule assms(2-))+)

lemma same_rows_admitted:
  "st_objection_closures t = st_objection_closures s \<Longrightarrow>
   st_frame_admission_proofs t = st_frame_admission_proofs s \<Longrightarrow> admitted_rows s t"
  by (simp add: admitted_rows_def)

lemma closure_admitted_mono:
  assumes "closure_admitted s x" "grown (st_frame_candidates s) (st_frame_candidates t)"
    "grown (st_frame_reviews s) (st_frame_reviews t)"
  shows "closure_admitted t x"
  using assms unfolding closure_admitted_def by (meson grownD)

lemma proof_admitted_mono:
  assumes "proof_admitted s p" "grown (st_frame_candidates s) (st_frame_candidates t)"
    "grown (st_frame_reviews s) (st_frame_reviews t)"
    "grown (st_objection_closures s) (st_objection_closures t)"
  shows "proof_admitted t p"
proof -
  obtain c r where "map_of (st_frame_candidates s) (fp_frame_candidate_id p) = Some c"
    and "map_of (st_frame_reviews s) (fp_frame_review_id p) = Some r"
    and "rw_frame_candidate_id r = fc_frame_candidate_id c" "rw_disposition r = ReviewAccept"
    and "\<forall>b \<in> set (rw_objections r). \<not> objection_blocks b"
    and "fp_frame_revision_id p = fc_proposed_frame_revision_id c"
    and "fp_frame_content_sha256 p = fc_proposed_frame_content_sha256 c"
    and "fp_frame_review_content_sha256 p = frame_review_sha256 r"
    and "\<forall>j \<in> set (fc_addressed_objection_ids c). \<exists>k x. map_of (st_objection_closures s) k = Some x \<and>
      ol_objection_id x = j \<and> ol_replacement_frame_candidate_id x = fc_frame_candidate_id c"
    using assms(1) unfolding proof_admitted_def by blast
  then show ?thesis unfolding proof_admitted_def
    using grownD [OF assms(2)] grownD [OF assms(3)] grownD [OF assms(4)] by meson
qed

section \<open>Candidates, reviews, closures and proofs\<close>

lemma record_frame_candidate_refines: "refines (record_frame_candidate c)"
proof (rule refinesI, rule one_write)
  fix s res t assume "record_frame_candidate c s = (res, t)"
  then show "t = s \<or> writes s t"
    by (auto simp: record_frame_candidate_def method_reads update_fresh split: option.splits if_splits
        intro!: w_foreign foreign_rowsI same_rows_admitted)
qed

lemma supersession_rows:
  "foreign_rows s (s\<lparr>st_frame_candidate_supersessions := d, st_active_frame_candidate_ids := i\<rparr>)"
  by (rule foreign_rowsI) (simp_all add: same_rows_admitted)

lemma supersede_active_frame_candidate_refines: "refines (supersede_active_frame_candidate r)"
proof (rule refinesI, rule one_write)
  fix s res t assume run: "supersede_active_frame_candidate r s = (res, t)"
  have "t = s \<or> (\<exists>d i. t = s\<lparr>st_frame_candidate_supersessions := d, st_active_frame_candidate_ids := i\<rparr>)"
  proof (cases "map_of (st_active_frame_candidate_ids s) (fs_case_id r) = Some (fs_frame_candidate_id r)")
    case True
    then show ?thesis using run
      by (simp add: supersede_active_frame_candidate_def method_reads) blast
  next
    case False
    then show ?thesis using run
      by (simp add: supersede_active_frame_candidate_def method_reads split: if_splits)
  qed
  then show "t = s \<or> writes s t" using supersession_rows w_foreign by blast
qed

lemma admit_closure_admitted:
  assumes "admit_closure s x = Inr ()"
  shows "closure_admitted s x"
proof -
  obtain a b r where "map_of (st_frame_candidates s) (ol_source_frame_candidate_id x) = Some a"
    and "map_of (st_frame_candidates s) (ol_replacement_frame_candidate_id x) = Some b"
    and "map_of (st_frame_reviews s) (ol_source_frame_review_id x) = Some r"
    and "fc_prior_frame_candidate_id b = Some (fc_frame_candidate_id a)"
    and "rw_frame_candidate_id r = fc_frame_candidate_id a"
    and i: "(case List.find (\<lambda>i. mo_objection_id i = ol_objection_id x) (rw_objections r) of
        None \<Rightarrow> Inl (InvalidAuthorityTransition ''objection closure does not bind an exact objection'')
      | Some i \<Rightarrow> checks [
          require (ol_objection_content_sha256 x = review_objection_sha256 i)
            (InvalidAuthorityTransition ''objection closure does not bind an exact objection''),
          require (ol_changed_node_ids x = closure_node_ids i a b)
            (InvalidAuthorityTransition ''objection closure change proof does not match Frames'')]) = Inr ()"
    using assms unfolding admit_closure_def bindR_Inr_iff by auto
  moreover obtain i where "i \<in> set (rw_objections r)" "mo_objection_id i = ol_objection_id x"
    "ol_objection_content_sha256 x = review_objection_sha256 i"
    "ol_changed_node_ids x = closure_node_ids i a b"
    using i by (auto split: option.splits dest: find_SomeD)
  ultimately show ?thesis unfolding closure_admitted_def by blast
qed

lemma record_objection_closure_refines: "refines (record_objection_closure x)"
proof (rule refinesI, rule one_write)
  fix s res t assume run: "record_objection_closure x s = (res, t)"
  show "t = s \<or> writes s t"
  proof (cases "t = s")
    case False
    then have a: "closure_admitted s x"
      and t: "map_of (st_objection_closures s) (ol_objection_closure_id x) = None"
        "t = s\<lparr>st_objection_closures := st_objection_closures s @ [(ol_objection_closure_id x, x)]\<rparr>"
      using run by (auto simp: record_objection_closure_def method_reads put_idempotent_Inr
          dest: admit_closure_admitted)
    have "closure_admitted t x" using closure_admitted_mono [OF a] by (simp add: t)
    then have "foreign_rows s t" using t
      by (intro foreign_rowsI) (auto simp: admitted_rows_def split: if_splits)
    then show ?thesis using w_foreign by blast
  qed simp
qed

lemma record_frame_review_refines: "refines (record_frame_review r)"
proof (rule refinesI, rule one_write)
  fix s res t assume "record_frame_review r s = (res, t)"
  then show "t = s \<or> writes s t"
    by (auto simp: record_frame_review_def method_reads put_idempotent_Inr
        intro!: w_foreign foreign_rowsI same_rows_admitted)
qed

lemma admit_proof_admitted:
  assumes "admit_proof s p = Inr ()"
  shows "proof_admitted s p"
proof -
  obtain c r xs where c: "map_of (st_frame_candidates s) (fp_frame_candidate_id p) = Some c"
    and r: "map_of (st_frame_reviews s) (fp_frame_review_id p) = Some r"
    and f: "rw_frame_candidate_id r = fc_frame_candidate_id c" "rw_disposition r = ReviewAccept"
      "\<forall>b \<in> set (rw_objections r). \<not> objection_blocks b"
      "fp_frame_revision_id p = fc_proposed_frame_revision_id c"
      "fp_frame_content_sha256 p = fc_proposed_frame_content_sha256 c"
      "fp_frame_review_content_sha256 p = frame_review_sha256 r"
    and xs: "sequenceR (map (\<lambda>i. get_row (st_objection_closures s) i ''objection closure'')
      (fp_objection_closure_record_ids p)) = Inr xs"
    and e: "set (map ol_objection_id xs) = set (fc_addressed_objection_ids c)"
      "\<forall>x \<in> set xs. ol_replacement_frame_candidate_id x = fc_frame_candidate_id c"
    using assms by (auto simp: admit_proof_def result_simps)
  have "\<exists>k. map_of (st_objection_closures s) k = Some x" if x: "x \<in> set xs" for x
  proof -
    have "Inr x \<in> set (map Inr xs)" using x by simp
    then obtain k where "get_row (st_objection_closures s) k ''objection closure'' = Inr x"
      using xs unfolding sequenceR_Inr_iff by (metis (no_types, lifting) in_set_conv_nth length_map nth_map)
    then show ?thesis by auto
  qed
  moreover have "\<exists>x \<in> set xs. ol_objection_id x = j" if "j \<in> set (fc_addressed_objection_ids c)" for j
  proof -
    have "j \<in> ol_objection_id ` set xs" using that e(1) by simp
    then show ?thesis by auto
  qed
  ultimately have "\<forall>j \<in> set (fc_addressed_objection_ids c). \<exists>k x.
      map_of (st_objection_closures s) k = Some x \<and> ol_objection_id x = j \<and>
      ol_replacement_frame_candidate_id x = fc_frame_candidate_id c"
    using e(2) by meson
  then show ?thesis unfolding proof_admitted_def using c r f by blast
qed

lemma record_frame_admission_proof_refines: "refines (record_frame_admission_proof p)"
proof (rule refinesI, rule one_write)
  fix s res t assume run: "record_frame_admission_proof p s = (res, t)"
  show "t = s \<or> writes s t"
  proof (cases "admit_proof s p = Inr ()")
    case False
    then show ?thesis using run
      by (auto simp: record_frame_admission_proof_def method_reads)
  next
    case True
    then have a: "proof_admitted s p" by (rule admit_proof_admitted)
    let ?put = "put_idempotent_immutable id (st_frame_admission_proofs s)
      (fp_frame_admission_proof_id p) p ''frame admission proof''"
    have "t = s \<or> (\<exists>d. ?put = Inr d \<and> (t = s\<lparr>st_frame_admission_proofs := d\<rparr> \<or>
        t = s\<lparr>st_frame_admission_proofs := d, st_frame_admission_proof_by_frame :=
          AList.update (fp_frame_revision_id p) (fp_frame_admission_proof_id p)
            (st_frame_admission_proof_by_frame s)\<rparr>))"
      using run True by (simp add: record_frame_admission_proof_def method_reads) blast
    moreover have "s\<lparr>st_frame_admission_proofs := d\<rparr> = s\<lparr>st_frame_admission_proofs := d,
        st_frame_admission_proof_by_frame := st_frame_admission_proof_by_frame s\<rparr>" for d
      by simp
    ultimately have "t = s \<or> (\<exists>d b. ?put = Inr d \<and>
        t = s\<lparr>st_frame_admission_proofs := d, st_frame_admission_proof_by_frame := b\<rparr>)"
      by metis
    then consider "t = s" | d b where
      "map_of (st_frame_admission_proofs s) (fp_frame_admission_proof_id p) = None \<and>
         d = st_frame_admission_proofs s @ [(fp_frame_admission_proof_id p, p)] \<or>
       d = st_frame_admission_proofs s"
      "t = s\<lparr>st_frame_admission_proofs := d, st_frame_admission_proof_by_frame := b\<rparr>"
      by (auto simp: put_idempotent_Inr)
    then show ?thesis
    proof cases
      case (2 d b)
      have "proof_admitted t p" using proof_admitted_mono [OF a] by (simp add: 2)
      then have "foreign_rows s t" using 2
        by (intro foreign_rowsI) (auto simp: admitted_rows_def split: if_splits)
      then show ?thesis using w_foreign by blast
    qed simp
  qed
qed

section \<open>Acceptance\<close>

lemma cas_case_row: "cas_case s i n = Inr c \<Longrightarrow> map_of (st_cases s) i = Some c \<and> ic_head_version c = n"
  by (auto simp: cas_case_def get_case_def result_simps split: if_splits)

text \<open>What every acceptance does last: a new head, and its event.\<close>

lemma put_head_writes:
  assumes "put_head c' s = (r, t)" "map_of (st_cases s) (ic_case_id c) = Some c"
    and "ic_case_id c' = ic_case_id c" "ic_head_version c' = ic_head_version c + 1"
      "ic_lifecycle c' = ic_lifecycle c" "head_bound s c \<longrightarrow> head_bound s c'"
  shows "t = s \<or> writes s t"
  using assms w_head [of s "ic_case_id c" c c'] by (auto simp: put_head_def method_reads)

lemma head_then_event:
  assumes run: "bindP (put_head c') k s = (r, t)" and k: "\<And>u. refines (k u)"
    and c: "map_of (st_cases s) (ic_case_id c) = Some c" "ic_case_id c' = ic_case_id c"
      "ic_head_version c' = ic_head_version c + 1" "ic_lifecycle c' = ic_lifecycle c"
      "head_bound s c \<longrightarrow> head_bound s c'"
  shows "writes\<^sup>*\<^sup>* s t"
proof -
  obtain r' u where h: "put_head c' s = (r', u)" by fastforce
  have u: "writes\<^sup>*\<^sup>* s u" using put_head_writes [OF h c] by (rule one_write)
  from run h consider "t = u" | x where "k x u = (r, t)" by (auto simp: bindP_eq)
  then show ?thesis using u refinesD [OF k] by cases (blast, meson rtranclp_trans)
qed

lemma question_rows: 
  "map_of (st_questions s) k = None \<Longrightarrow> foreign_rows s (s\<lparr>st_questions := st_questions s @ [(k, q)]\<rparr>)"
  by (rule foreign_rowsI) (simp_all add: same_rows_admitted)

lemma frame_rows:
  "map_of (st_frames s) k = None \<Longrightarrow> foreign_rows s (s\<lparr>st_frames := st_frames s @ [(k, f)]\<rparr>)"
  by (rule foreign_rowsI) (simp_all add: same_rows_admitted)

lemma accept_question_refines: "refines_keyed (accept_question text_of q n event_id at op)"
proof (rule refines_keyedI)
  fix s r t assume keyed: "cases_keyed s" and run: "accept_question text_of q n event_id at op s = (r, t)"
  let ?i = "qr_question_revision_id q"
  let ?s = "s\<lparr>st_questions := st_questions s @ [(?i, q)]\<rparr>"
  let ?c = "\<lambda>c. c\<lparr>ic_head_version := ic_head_version c + 1, ic_question_revision_id := Some ?i,
      ic_frame_revision_id := None, ic_plan_revision_id := None, ic_answer_version_id := None,
      ic_analysis_cycle_id := qr_analysis_cycle_id q, ic_updated_at := at\<rparr>"
  let ?k = "\<lambda>c u. bindP (append_authority_event_locked (ic_case_id c) event_id EvQuestionAccepted ?i None at
      (JObj [(''revision_number'', JInt (qr_revision_number q)),
             (''content_sha256'', JStr (question_sha256 q)),
             (''analysis_cycle_id'', JStr (qr_analysis_cycle_id q)),
             (''head_version'', JInt (ic_head_version u))]) op) (\<lambda>_. returnP u)"
  show "writes\<^sup>*\<^sup>* s t"
  proof (cases "t = s")
    case False
    then obtain c where cas: "cas_case s (qr_case_id q) n = Inr c" 
      and fresh: "map_of (st_questions s) ?i = None"
      and run': "bindP (put_head (?c c)) (?k c) ?s = (r, t)"
      using run by (auto simp: accept_question_def method_reads put_immutable_Inr split: option.splits)
    have c: "map_of (st_cases s) (qr_case_id q) = Some c" "ic_case_id c = qr_case_id q"
      using cas_case_row [OF cas] keyed by (auto simp: cases_keyed_def)
    have row: "map_of (st_questions ?s) ?i = Some q"
      using map_of_append_row [OF fresh, of q ?i] by (simp del: map_of_append)
    have b: "head_bound ?s (?c c)"
      unfolding head_bound_def question_bound_def frame_bound_def plan_bound_def using row c(2) by simp
    have "writes s ?s" using question_rows [OF fresh] by (rule w_foreign)
    moreover have "writes\<^sup>*\<^sup>* ?s t"
      by (rule head_then_event [OF run'])
         (use c b in \<open>auto intro!: refines_bindP append_authority_event_refines\<close>)
    ultimately show ?thesis by (rule converse_rtranclp_into_rtranclp)
  qed simp
qed

lemma admit_frame_proof:
  assumes "admit_frame validate s c f i = Inr ()"
  shows "\<exists>p. map_of (st_frame_admission_proofs s) i = Some p \<and> fp_case_id p = fr_case_id f \<and>
    fp_frame_revision_id p = fr_frame_revision_id f \<and> fp_frame_content_sha256 p = fr_content_sha256 f"
    and "ic_question_revision_id c = Some (fr_question_revision_id f)"
  using assms unfolding admit_frame_def bindR_Inr_iff by auto

lemma accept_frame_refines: "refines_keyed (accept_frame validate f i n event_id at op)"
proof (rule refines_keyedI)
  fix s r t assume keyed: "cases_keyed s" and run: "accept_frame validate f i n event_id at op s = (r, t)"
  let ?i = "fr_frame_revision_id f"
  let ?s = "s\<lparr>st_frames := st_frames s @ [(?i, f)]\<rparr>"
  let ?c = "\<lambda>c. c\<lparr>ic_head_version := ic_head_version c + 1, ic_frame_revision_id := Some ?i,
      ic_plan_revision_id := None, ic_answer_version_id := None, ic_updated_at := at\<rparr>"
  let ?k = "\<lambda>c u. bindP (append_authority_event_locked (ic_case_id c) event_id EvFrameAccepted ?i
      (Some (fr_created_by_action_id f)) at
      (JObj [(''revision_number'', JInt (fr_revision_number f)),
             (''content_sha256'', JStr (fr_content_sha256 f)),
             (''head_version'', JInt (ic_head_version u))]) op) (\<lambda>_. returnP u)"
  show "writes\<^sup>*\<^sup>* s t"
  proof (cases "t = s")
    case False
    then obtain c where cas: "cas_case s (fr_case_id f) n = Inr c" 
      and admit: "admit_frame validate s c f i = Inr ()"
      and fresh: "map_of (st_frames s) ?i = None"
      and run': "bindP (put_head (?c c)) (?k c) ?s = (r, t)"
      using run by (auto simp: accept_frame_def method_reads put_immutable_Inr split: option.splits)
    have c: "map_of (st_cases s) (fr_case_id f) = Some c" "ic_case_id c = fr_case_id f"
      using cas_case_row [OF cas] keyed by (auto simp: cases_keyed_def)
    have row: "map_of (st_frames ?s) ?i = Some f"
      using map_of_append_row [OF fresh, of f ?i] by (simp del: map_of_append)
    obtain p where "map_of (st_frame_admission_proofs s) i = Some p" "fp_case_id p = fr_case_id f"
      "fp_frame_revision_id p = ?i" "fp_frame_content_sha256 p = fr_content_sha256 f"
      using admit_frame_proof [OF admit] by blast
    then have "frame_bound ?s (?c c)"
      unfolding frame_bound_def using row admit_frame_proof(2) [OF admit] c(2)
      by (simp del: map_of_append) blast
    then have b: "head_bound ?s c \<longrightarrow> head_bound ?s (?c c)"
      by (simp add: head_bound_def question_bound_def plan_bound_def)
    have "writes s ?s" using frame_rows [OF fresh] by (rule w_foreign)
    moreover have "writes\<^sup>*\<^sup>* ?s t"
      by (rule head_then_event [OF run'])
         (use c b in \<open>auto intro!: refines_bindP append_authority_event_refines\<close>)
    ultimately show ?thesis by (rule converse_rtranclp_into_rtranclp)
  qed simp
qed

section \<open>Resolutions and obligations\<close>

lemma put_row_refines:
  assumes row: "\<And>s. map_of (table s) i = None \<Longrightarrow> foreign_rows s (put (table s @ [(i, r)]) s)"
    and k: "refines k"
  shows "refines (bindP (readP (\<lambda>s. put_immutable id (table s) i r l)) (\<lambda>d. bindP (writeP (put d)) (\<lambda>_. k)))"
    and "(\<And>s. put (table s) s = s) \<Longrightarrow> refines (bindP (readP (\<lambda>s. put_idempotent_immutable id (table s) i r l))
      (\<lambda>d. bindP (writeP (put d)) (\<lambda>_. k)))"
proof -
  have new: "writes\<^sup>*\<^sup>* s t" if "map_of (table s) i = None" "k (put (table s @ [(i, r)]) s) = (y, t)" for s y t
    using w_foreign [OF row [OF that(1)]] refinesD [OF k that(2)]
    by (rule converse_rtranclp_into_rtranclp)
  show "refines (bindP (readP (\<lambda>s. put_immutable id (table s) i r l)) (\<lambda>d. bindP (writeP (put d)) (\<lambda>_. k)))"
    by (rule refinesI) (auto simp: method_reads put_immutable_def update_fresh intro: new
        split: option.splits if_splits)
  show "refines (bindP (readP (\<lambda>s. put_idempotent_immutable id (table s) i r l))
      (\<lambda>d. bindP (writeP (put d)) (\<lambda>_. k)))" if "\<And>s. put (table s) s = s"
    by (rule refinesI) (auto simp: method_reads put_idempotent_immutable_def update_fresh that
        intro: new refinesD [OF k] split: option.splits if_splits)
qed

lemma record_derived_refines:
  assumes "\<And>s. map_of (table s) i = None \<Longrightarrow> foreign_rows s (put (table s @ [(i, r)]) s)"
  shows "refines (record_derived_locked table put sha i r case_id event_id kind at label op)"
  unfolding record_derived_locked_def
  by (auto intro!: refines_bindP put_row_refines(1) assms append_authority_event_refines split: option.split)

lemma record_evidence_obligation_refines: "refines (record_evidence_obligation vr b n e op)"
  unfolding record_evidence_obligation_def
  by (intro refines_bindP refines_readP record_derived_refines foreign_rowsI)
    (auto simp: same_rows_admitted)

lemma record_measurement_resolution_refines: "refines (record_measurement_resolution v vr x m n e op)"
proof -
  have "refines (record_measurement_resolution_body v vr x m n e op)"
    unfolding record_measurement_resolution_body_def
    by (intro refines_bindP refines_readP put_row_refines(2) record_derived_refines foreign_rowsI)
      (simp_all add: same_rows_admitted)
  then show ?thesis
    by (fastforce simp: refines_def record_measurement_resolution_def atomic_def split: prod.splits sum.splits)
qed

section \<open>Plans\<close>

text \<open>The rows of a bundle: foreign rows, whether the method gets through or stops half way.\<close>

definition bundle_rows :: "Store \<Rightarrow> Store \<Rightarrow> bool" where
  "bundle_rows s t \<longleftrightarrow> (\<exists>p q a b. t = s\<lparr>st_plans := p, st_query_bindings := q, st_plan_adoptions := a,
     st_plan_adoption_by_plan := b\<rparr> \<and> grown (st_plans s) p \<and> grown (st_query_bindings s) q \<and>
     grown (st_plan_adoptions s) a \<and>
     grown (st_plan_adoption_by_plan s) b)"

lemma bundle_rows_foreign: "bundle_rows s t \<Longrightarrow> foreign_rows s t"
  by (rule foreign_rowsI) (auto simp: bundle_rows_def same_rows_admitted)

lemma bundle_rows_same:
  assumes "bundle_rows s t"
  shows "st_cases t = st_cases s" "st_questions t = st_questions s" "st_frames t = st_frames s"
    "st_frame_admission_proofs t = st_frame_admission_proofs s" "grown (st_plans s) (st_plans t)"
    "st_resolution_outcomes t = st_resolution_outcomes s"
    "st_evidence_obligations t = st_evidence_obligations s"
    "grown (st_query_bindings s) (st_query_bindings t)"
  using assms by (auto simp: bundle_rows_def)

lemma bundle_rowsI:
  assumes "t = s\<lparr>st_plans := st_plans t, st_query_bindings := st_query_bindings t,
      st_plan_adoptions := st_plan_adoptions t, st_plan_adoption_by_plan := st_plan_adoption_by_plan t\<rparr>"
    and "grown (st_plans s) (st_plans t)" "grown (st_query_bindings s) (st_query_bindings t)"
      "grown (st_plan_adoptions s) (st_plan_adoptions t)"
      "grown (st_plan_adoption_by_plan s) (st_plan_adoption_by_plan t)"
  shows "bundle_rows s t"
  unfolding bundle_rows_def using assms by blast

lemma bundle_rows_trans: "bundle_rows s t \<Longrightarrow> bundle_rows t u \<Longrightarrow> bundle_rows s u"
  by (rule bundle_rowsI) (auto simp: bundle_rows_def intro: grown_trans)

lemma put_binding_rows:
  assumes "put_binding v u s = (r, t)"
  shows "bundle_rows s t \<and> st_plans t = st_plans s \<and>
    (r = Inr () \<longrightarrow> map_of (st_query_bindings t) (qb_query_binding_id v) = Some v)"
proof -
  let ?i = "qb_query_binding_id v"
  have "t = s \<and> r \<noteq> Inr () \<or>
      map_of (st_query_bindings s) ?i = None \<and>
      t = s\<lparr>st_query_bindings := st_query_bindings s @ [(?i, v)]\<rparr>"
    using assms by (auto simp: put_binding_def method_reads put_immutable_def update_fresh
        split: option.splits if_splits)
  then show ?thesis by (auto intro!: bundle_rowsI simp: map_add_def)
qed

lemma put_bindings_rows:
  "foldP put_binding vs u s = (r, t) \<Longrightarrow> bundle_rows s t \<and> st_plans t = st_plans s \<and>
    (r = Inr () \<longrightarrow> (\<forall>v \<in> set vs. map_of (st_query_bindings t) (qb_query_binding_id v) = Some v))"
proof (induction vs arbitrary: s u)
  case Nil
  then show ?case by (auto intro!: bundle_rowsI)
next
  case (Cons v vs)
  obtain x w where v: "put_binding v u s = (x, w)" by fastforce
  note rows = put_binding_rows [OF this]
  from Cons.prems v consider e where "t = w" "r = Inl e" | "x = Inr ()" "foldP put_binding vs () w = (r, t)"
    by (auto simp: bindP_eq)
  then show ?case
  proof cases
    case 2
    note tail = Cons.IH [OF 2(2)]
    then have "grown (st_query_bindings w) (st_query_bindings t)" using bundle_rows_same(8) by blast
    then show ?thesis using tail rows 2(1) bundle_rows_trans [of s w t] by (auto dest: grownD)
  qed (use rows in simp)
qed

lemma put_adoption_rows:
  assumes "put_adoption i ad s = (r, t)"
  shows "bundle_rows s t \<and> st_plans t = st_plans s"
proof -
  let ?j = "pd_plan_adoption_id ad"
  let ?s = "s\<lparr>st_plan_adoptions := st_plan_adoptions s @ [(?j, ad)]\<rparr>"
  show ?thesis
  proof (cases "map_of (st_plan_adoptions s) ?j")
    case (Some x)
    then have "t = s" using assms by (auto simp: put_adoption_def method_reads put_immutable_def)
    then show ?thesis by (simp add: bundle_rowsI)
  next
    case None
    then have "t = (if map_of (st_plan_adoption_by_plan s) i = None
        then ?s\<lparr>st_plan_adoption_by_plan := st_plan_adoption_by_plan s @ [(i, ?j)]\<rparr> else ?s)"
      using assms by (cases "map_of (st_plan_adoption_by_plan s) i")
        (simp_all add: put_adoption_def method_reads put_immutable_def update_fresh require_def)
    then show ?thesis using None by (simp add: bundle_rowsI)
  qed
qed

lemma put_bundle_rows:
  assumes "put_bundle b s = (r, t)"
  shows "bundle_rows s t" "r = Inr u \<Longrightarrow>
    map_of (st_plans t) (wp_plan_revision_id (bu_plan b)) = Some (bu_plan b) \<and>
    (\<forall>q \<in> set (bu_query_bindings b). map_of (st_query_bindings t) (qb_query_binding_id q) = Some q)"
proof -
  let ?p = "bu_plan b" let ?i = "wp_plan_revision_id ?p"
  let ?s = "s\<lparr>st_plans := st_plans s @ [(?i, ?p)]\<rparr>"
  let ?q = "\<lambda>t. \<forall>q \<in> set (bu_query_bindings b). map_of (st_query_bindings t) (qb_query_binding_id q) = Some q"
  have "bundle_rows s t \<and> (r = Inr u \<longrightarrow> map_of (st_plans t) ?i = Some ?p \<and> ?q t)"
  proof (cases "map_of (st_plans s) ?i")
    case (Some x)
    then have "t = s \<and> r \<noteq> Inr u" using assms
      by (auto simp: put_bundle_def Let_def method_reads put_immutable_def)
    then show ?thesis by (auto intro!: bundle_rowsI)
  next
    case None
    then have run: "bindP (foldP put_binding (bu_query_bindings b) ()) (\<lambda>_.
        put_adoption ?i (bu_adoption b)) ?s = (r, t)"
      using assms by (simp add: put_bundle_def Let_def method_reads put_immutable_def update_fresh)
    have row: "map_of (st_plans ?s) ?i = Some ?p"
      using map_of_append_row [OF None, of ?p ?i] by (simp del: map_of_append)
    have first: "bundle_rows s ?s" using None by (intro bundle_rowsI) simp_all
    obtain r' v where f: "foldP put_binding (bu_query_bindings b) () ?s = (r', v)" by fastforce
    have v: "bundle_rows s v" "st_plans v = st_plans ?s" "r' = Inr () \<longrightarrow> ?q v"
      using bundle_rows_trans [OF first] put_bindings_rows [OF f] by blast+
    from run f consider e where "t = v" "r = Inl e"
      | "r' = Inr ()" "put_adoption ?i (bu_adoption b) v = (r, t)"
      by (auto simp: bindP_eq)
    then show ?thesis
    proof cases
      case 2
      note last = put_adoption_rows [OF 2(2)]
      then have "?q t" using v(3) 2(1) bundle_rows_same(8) by (meson grownD)
      moreover have "bundle_rows s t" using last v(1) bundle_rows_trans by blast
      ultimately show ?thesis using last v(2) row by simp
    qed (use v in simp)
  qed
  then show "bundle_rows s t" "r = Inr u \<Longrightarrow> map_of (st_plans t) ?i = Some ?p \<and> ?q t" by simp_all
qed

lemma admit_plan_admitted:
  assumes "admit_plan s c b n op = Inr ()" "st_frames u = st_frames s"
    "st_resolution_outcomes u = st_resolution_outcomes s"
    "st_evidence_obligations u = st_evidence_obligations s"
    "\<forall>q \<in> set (bu_query_bindings b). map_of (st_query_bindings u) (qb_query_binding_id q) = Some q"
  shows "plan_admitted u (bu_plan b)"
proof -
  let ?i = "wp_frame_revision_id (bu_plan b)"
  obtain a f xs as where v: "map_of (st_frames s) ?i = Some f"
    "sequenceR (map (get_measurement_resolution s) (pd_resolution_outcome_ids (bu_adoption b))) = Inr xs"
    "validate_plan_bundle b c a f (xs, as, list_evidence_obligations s ?i) = Inr ()"
    using assms(1) by (auto simp: admit_plan_def Let_def result_simps get_frame_def)
  have "x \<in> ran (map_of (st_resolution_outcomes s))" if "x \<in> set xs" for x
    using v(2) that unfolding sequenceR_rel
    by (auto simp: list_all2_conv_all_nth in_set_conv_nth get_measurement_resolution_def ran_def)
  then have "set xs \<subseteq> ran (map_of (st_resolution_outcomes u))" by (auto simp: assms(3))
  moreover have "set (list_evidence_obligations s ?i) \<subseteq> snd ` set (st_evidence_obligations u)"
    by (auto simp: list_evidence_obligations_def assms(4))
  moreover have "map_of (st_frames u) ?i = Some f" using v(1) by (simp add: assms(2))
  ultimately show ?thesis using v(3) assms(5) unfolding plan_admitted_def by blast
qed

lemma accept_plan_body_refines: "refines_keyed (accept_plan_body b n event_id at op)"
proof (rule refines_keyedI)
  fix s r t assume keyed: "cases_keyed s" and run: "accept_plan_body b n event_id at op s = (r, t)"
  let ?p = "bu_plan b"
  let ?c = "\<lambda>c. c\<lparr>ic_head_version := ic_head_version c + 1, ic_plan_revision_id := Some (wp_plan_revision_id ?p),
      ic_answer_version_id := None, ic_updated_at := at\<rparr>"
  let ?k = "\<lambda>c u. bindP (append_authority_event_locked (ic_case_id c) event_id EvPlanAccepted
      (wp_plan_revision_id ?p) (Some (wp_created_by_action_id ?p)) at
      (JObj [(''revision_number'', JInt (wp_revision_number ?p)),
             (''content_sha256'', JStr (work_plan_sha256 ?p)),
             (''plan_adoption_id'', JStr (pd_plan_adoption_id (bu_adoption b))),
             (''plan_adoption_sha256'', JStr (plan_adoption_sha256 (bu_adoption b))),
             (''query_binding_ids'', strs (map (qb_query_binding_id) (bu_query_bindings b))),
             (''head_version'', JInt (ic_head_version u))]) op) (\<lambda>_. returnP u)"
  show "writes\<^sup>*\<^sup>* s t"
  proof (cases "t = s")
    case False
    then obtain c where cas: "cas_case s (wp_case_id ?p) n = Inr c" 
      and admit: "admit_plan s c b n op = Inr ()"
      and run': "bindP (put_bundle b) (\<lambda>_. bindP (put_head (?c c)) (?k c)) s = (r, t)"
      using run by (auto simp: accept_plan_body_def Let_def method_reads split: option.splits)
    have c: "map_of (st_cases s) (wp_case_id ?p) = Some c" "ic_case_id c = wp_case_id ?p"
      using cas_case_row [OF cas] keyed by (auto simp: cases_keyed_def)
    have f: "ic_frame_revision_id c = Some (wp_frame_revision_id ?p)"
      using admit by (auto simp: admit_plan_def Let_def result_simps)
    obtain r' u where p: "put_bundle b s = (r', u)" by fastforce
    note rows = put_bundle_rows(1) [OF p]
    have w: "writes s u" using bundle_rows_foreign [OF rows] by (rule w_foreign)
    from run' p consider "t = u" | "r' = Inr ()" "bindP (put_head (?c c)) (?k c) u = (r, t)"
      by (auto simp: bindP_eq [of "put_bundle b"])
    then show ?thesis
    proof cases
      case 2
      note stored = put_bundle_rows(2) [OF p 2(1)]
      have "plan_admitted u ?p"
        by (rule admit_plan_admitted [OF admit]) (use bundle_rows_same [OF rows] stored in simp_all)
      then have b: "head_bound u c \<longrightarrow> head_bound u (?c c)"
        using c(2) f stored by (simp add: bound_defs)
      have "writes\<^sup>*\<^sup>* u t"
        by (rule head_then_event [OF 2(2)])
           (use c b bundle_rows_same(1) [OF rows] in
              \<open>auto intro!: refines_bindP append_authority_event_refines\<close>)
      then show ?thesis using w by (rule converse_rtranclp_into_rtranclp [rotated])
    qed (use w in blast)
  qed simp
qed

lemma accept_plan_bundle_refines: "refines_keyed (accept_plan_bundle b n event_id at op)"
  unfolding accept_plan_bundle_def [abs_def]
  by (rule atomic_refines_keyed [OF accept_plan_body_refines])

end
