(* ===== verification/StoreSystem.thy ===== *)
theory StoreSystem imports StoreAuthorityMethods begin

text \<open>
  The store as a transition system: its methods are the steps, and every step is a run of writes.
\<close>

section \<open>The store as a transition system\<close>

definition empty_store :: Store where
  "empty_store = \<lparr>
     st_cases = [], st_events = [], st_events_by_id = [],
     st_mailbox_heads = [], st_mailbox_messages = [], st_message_ingress_records = [],
     st_pending_user_messages = [], st_questions = [], st_frames = [], st_plans = [], st_plan_adoptions = [],
     st_plan_adoption_by_plan = [], st_query_bindings = [], st_resolution_outcomes = [], st_resolution_admissions = [], st_evidence_obligations = [],
     st_evidence_cases = [], st_evidence_validity = [], st_obligation_satisfaction = [],
     st_answers = [], st_objection_cases = [], st_decision_cases = [], st_frame_candidates = [],
     st_active_frame_candidate_ids = [], st_frame_candidate_supersessions = [], st_frame_reviews = [],
     st_objection_closures = [], st_frame_admission_proofs = [], st_frame_admission_proof_by_frame = [],
     st_actions = [], st_action_idempotency_keys = [], st_contexts = [],
     st_receipts = [], st_receipt_action_ids = [], st_checkpoints = [],
     st_checkpoint_event_keys = [], st_outbox = [], st_job_dispositions = [],
     st_dispatcher_recovery_cursors = [], st_job_leases = [], st_job_lease_tokens = [],
     st_leases = [], st_lease_tokens = [], st_logical_model_jobs = [],
     st_provider_attempt_requests = [], st_provider_attempt_receipts = [], st_durable_model_results = [],
     st_obligation_schedules = [], st_obligation_dispatch_records = [], st_obligation_completion_records = [],
     st_obligation_schedule_checkpoints = [], st_effect_attempts = [], st_workflow_read_models = []\<rparr>"

text \<open>
  A step is a call of a method, with any arguments, whether it returns or raises; a transaction is a
  step that runs any refining body under \<open>atomic\<close>.  Two rules stand for the methods that are not
  modelled: they change the rows of evidence, obligations, answers, objections and decisions, and
  \<open>accept_answer\<close> moves the head to an answer.  Records whose constructor a law rests on come as the
  validated records they are.
\<close>

inductive store_step :: "Store \<Rightarrow> Store \<Rightarrow> bool" where
  "open_case i n e at op s = (r, t) \<Longrightarrow> store_step s t"
| "transition_case_lifecycle i l n e act at op s = (r, t) \<Longrightarrow> store_step s t"
| "append_event n d s = (r, t) \<Longrightarrow> store_step s t"
| "append_mailbox_message mid i kind op payload at s = (r, t) \<Longrightarrow> store_step s t"
| "record_message_ingress mi s = (r, t) \<Longrightarrow> store_step s t"
| "record_pending_user_message pm s = (r, t) \<Longrightarrow> store_step s t"
| "record_logical_model_job lj s = (r, t) \<Longrightarrow> store_step s t"
| "record_provider_attempt_request pq s = (r, t) \<Longrightarrow> store_step s t"
| "record_provider_attempt_receipt pt s = (r, t) \<Longrightarrow> store_step s t"
| "record_durable_model_result dm s = (r, t) \<Longrightarrow> store_step s t"
| "record_effect_attempt ea s = (r, t) \<Longrightarrow> store_step s t"
| "record_action av s = (r, t) \<Longrightarrow> store_step s t"
| "record_context_packet pk s = (r, t) \<Longrightarrow> store_step s t"
| "record_action_receipt ar s = (r, t) \<Longrightarrow> store_step s t"
| "record_checkpoint ck s = (r, t) \<Longrightarrow> store_step s t"
| "enqueue_outbox bind_action m s = (r, t) \<Longrightarrow> store_step s t"
| "record_job_disposition now jd s = (r, t) \<Longrightarrow> store_step s t"
| "advance_dispatcher_recovery_cursor rc s = (r, t) \<Longrightarrow> store_step s t"
| "acquire_job_lease clock i owner now expires s = (r, t) \<Longrightarrow> store_step s t"
| "heartbeat_job_lease clock jl at expires s = (r, t) \<Longrightarrow> store_step s t"
| "release_job_lease jl s = (r, t) \<Longrightarrow> store_step s t"
| "acquire_lease clock i run owner now expires s = (r, t) \<Longrightarrow> store_step s t"
| "release_lease cl s = (r, t) \<Longrightarrow> store_step s t"
| "record_obligation_schedule os s = (r, t) \<Longrightarrow> store_step s t"
| "record_obligation_dispatch m dr s = (r, t) \<Longrightarrow> store_step s t"
| "record_obligation_completion cr s = (r, t) \<Longrightarrow> store_step s t"
| "record_obligation_schedule_checkpoint sc s = (r, t) \<Longrightarrow> store_step s t"
| "get_workflow_read_model i realm profile s = (r, t) \<Longrightarrow> store_step s t"
| "check_read_model rm = Inr () \<Longrightarrow> commit_workflow_read_model rm n at s = (r, t) \<Longrightarrow> store_step s t"
| "cases_keyed s \<Longrightarrow> refines_keyed (body :: (Store, unit) prog) \<Longrightarrow> atomic body s = (r, t) \<Longrightarrow> store_step s t"
| "foreign_rows s t \<Longrightarrow> store_step s t"
| "map_of (st_cases s) i = Some c \<Longrightarrow>
     c' = c\<lparr>ic_head_version := ic_head_version c + 1, ic_answer_version_id := a, ic_updated_at := at\<rparr> \<Longrightarrow>
     check_case c' = Inr () \<Longrightarrow>
     store_step s (s\<lparr>st_cases := AList.update i c' (st_cases s)\<rparr>)"
| "record_frame_candidate fc s = (r, t) \<Longrightarrow> store_step s t"
| "supersede_active_frame_candidate fs s = (r, t) \<Longrightarrow> store_step s t"
| "record_objection_closure ol s = (r, t) \<Longrightarrow> store_step s t"
| "record_frame_review rw s = (r, t) \<Longrightarrow> store_step s t"
| "record_frame_admission_proof fp s = (r, t) \<Longrightarrow> store_step s t"
| "cases_keyed s \<Longrightarrow> accept_question text_of qr n e at op s = (r, t) \<Longrightarrow> store_step s t"
| "cases_keyed s \<Longrightarrow> accept_frame validate_frame fr i n e at op s = (r, t) \<Longrightarrow> store_step s t"
| "cases_keyed s \<Longrightarrow> accept_plan_bundle bu n e at op s = (r, t) \<Longrightarrow> store_step s t"
| "record_measurement_resolution verifier vr rx ma n e op s = (r, t) \<Longrightarrow> store_step s t"
| "record_evidence_obligation vr rb n e op s = (r, t) \<Longrightarrow> store_step s t"

lemmas method_refines =
  open_case_refines transition_case_lifecycle_refines append_event_refines
  append_mailbox_message_refines record_message_ingress_refines record_pending_user_message_refines
  record_logical_model_job_refines record_provider_attempt_request_refines
  record_provider_attempt_receipt_refines record_durable_model_result_refines
  record_effect_attempt_refines record_action_refines record_context_packet_refines
  record_action_receipt_refines record_checkpoint_refines enqueue_outbox_refines
  record_job_disposition_refines advance_dispatcher_recovery_cursor_refines
  acquire_job_lease_refines heartbeat_job_lease_refines release_job_lease_refines
  acquire_lease_refines release_lease_refines record_obligation_schedule_refines
  record_obligation_dispatch_refines record_obligation_completion_refines
  record_obligation_schedule_checkpoint_refines get_workflow_read_model_refines
  commit_workflow_read_model_refines record_frame_candidate_refines
  supersede_active_frame_candidate_refines record_objection_closure_refines
  record_frame_review_refines record_frame_admission_proof_refines
  record_measurement_resolution_refines record_evidence_obligation_refines

lemmas method_refines_keyed = accept_question_refines accept_frame_refines accept_plan_bundle_refines

lemma answer_head_bound:
  "head_bound s c \<Longrightarrow> head_bound s (c\<lparr>ic_head_version := n, ic_answer_version_id := a, ic_updated_at := at\<rparr>)"
  by (simp add: bound_defs)

lemma store_step_writes: "store_step s t \<Longrightarrow> writes\<^sup>*\<^sup>* s t"
proof (induction rule: store_step.induct)
  case (32 s i c c' a at)
  then have "writes s (s\<lparr>st_cases := AList.update i c' (st_cases s)\<rparr>)"
    by (intro w_head) (auto simp: answer_head_bound)
  then show ?case by blast
qed (blast dest: method_refines [THEN refinesD] method_refines_keyed [THEN refines_keyedD]
        atomic_refines_keyed [THEN refines_keyedD] intro: w_foreign)+

definition reachable :: "Store \<Rightarrow> bool" where
  "reachable s \<longleftrightarrow> store_step\<^sup>*\<^sup>* empty_store s"

lemma store_steps_writes: "store_step\<^sup>*\<^sup>* s t \<Longrightarrow> writes\<^sup>*\<^sup>* s t"
proof (induction rule: rtranclp_induct)
  case (step t u)
  then show ?case using store_step_writes by (meson rtranclp_trans)
qed simp

lemma reachable_writes: "reachable s \<Longrightarrow> writes\<^sup>*\<^sup>* empty_store s"
  by (simp add: reachable_def store_steps_writes)

end
