(* ===== verification/RowLogs.thy ===== *)
theory RowLogs imports Prelude "HOL-Library.Sublist" begin

text \<open>
  The contracts the tables of the store keep, as locales over a transition system: a log that is
  only appended to, one whose rows have unique keys, one whose rows of a group are numbered and
  linked, and a lease whose holders are fenced by growing tokens.
\<close>

section \<open>Logs\<close>

lemma prefix_map_of: "prefix d e \<Longrightarrow> map_of d k = Some v \<Longrightarrow> map_of e k = Some v"
  by (auto simp: prefix_def)

locale row_log =
  fixes rows :: "'s \<Rightarrow> 'r list" and step :: "'s \<Rightarrow> 's \<Rightarrow> bool"
  assumes appends: "step s t \<Longrightarrow> rows t = rows s \<or> (\<exists>r. rows t = rows s @ [r])"
begin

lemma log_prefix: "step\<^sup>*\<^sup>* s t \<Longrightarrow> prefix (rows s) (rows t)"
proof (induction rule: rtranclp_induct)
  case (step t u)
  then show ?case using appends [OF step.hyps(2)] by (metis prefix_append prefix_order.trans prefixI)
qed simp

lemma row_stays: "step\<^sup>*\<^sup>* s t \<Longrightarrow> r \<in> set (rows s) \<Longrightarrow> r \<in> set (rows t)"
  using log_prefix set_mono_prefix by blast

lemma log_induct [consumes 1, case_names empty append]:
  assumes "step\<^sup>*\<^sup>* s t" and "P (rows s)"
    and "\<And>u v r. step\<^sup>*\<^sup>* s u \<Longrightarrow> step u v \<Longrightarrow> P (rows u) \<Longrightarrow> rows v = rows u @ [r] \<Longrightarrow> P (rows u @ [r])"
  shows "P (rows t)"
  using assms(1)
proof (induction rule: rtranclp_induct)
  case base
  show ?case by (rule assms(2))
next
  case (step u v)
  then show ?case using appends [OF step.hyps(2)] assms(3) by metis
qed

end

locale unique_log = row_log +
  fixes key :: "'r \<Rightarrow> 'k"
  assumes fresh: "step s t \<Longrightarrow> rows t = rows s @ [r] \<Longrightarrow> key r \<notin> key ` set (rows s)"
begin

lemma keys_distinct:
  assumes "step\<^sup>*\<^sup>* s t" and "distinct (map key (rows s))"
  shows "distinct (map key (rows t))"
  using assms(1)
proof (induction rule: log_induct)
  case (append u v r)
  then show ?case using fresh [OF append(2,3)] by simp
qed (rule assms(2))

lemma same_row:
  assumes "step\<^sup>*\<^sup>* s t" and "distinct (map key (rows s))"
    and "x \<in> set (rows s)" and "y \<in> set (rows t)" and "key x = key y"
  shows "x = y"
  using keys_distinct [OF assms(1,2)] row_stays [OF assms(1,3)] assms(4,5)
  by (simp add: distinct_map inj_on_def)

end

section \<open>Numbered rows\<close>

text \<open>
  The history of a group: the rows are numbered from one in the order in which they came, and each
  names the row before it.
\<close>

definition numbered :: "('r \<Rightarrow> int) \<Rightarrow> ('r \<Rightarrow> 'i) \<Rightarrow> ('r \<Rightarrow> 'i option) \<Rightarrow> 'r list \<Rightarrow> bool" where
  "numbered number ident prior h \<longleftrightarrow> (\<forall>i < length h. number (h ! i) = int i + 1 \<and>
     prior (h ! i) = (if i = 0 then None else Some (ident (h ! (i - 1)))))"

definition extends :: "('r \<Rightarrow> int) \<Rightarrow> ('r \<Rightarrow> 'i) \<Rightarrow> ('r \<Rightarrow> 'i option) \<Rightarrow> 'r list \<Rightarrow> 'r \<Rightarrow> bool" where
  "extends number ident prior h r \<longleftrightarrow> number r = int (length h) + 1 \<and>
     prior r = (if h = [] then None else Some (ident (last h)))"

lemma numbered_Nil [simp]: "numbered number ident prior []"
  by (simp add: numbered_def)

lemma numbered_snoc:
  "numbered number ident prior (h @ [r]) \<longleftrightarrow>
     numbered number ident prior h \<and> extends number ident prior h r"
  by (auto simp: numbered_def extends_def nth_append last_conv_nth less_Suc_eq all_conj_distrib
      split: if_splits)

lemma numbered_map: "numbered number ident prior h \<Longrightarrow> map number h = [1..int (length h)]"
  by (rule nth_equalityI) (auto simp: numbered_def nth_upto)

lemma numbered_sorted: "numbered number ident prior h \<Longrightarrow> sort_key number h = h"
  by (rule sort_key_id_if_sorted) (auto simp: numbered_def sorted_iff_nth_mono_less)

locale numbered_log = row_log +
  fixes grp :: "'r \<Rightarrow> 'k" and number :: "'r \<Rightarrow> int" and ident :: "'r \<Rightarrow> 'i" and prior :: "'r \<Rightarrow> 'i option"
  assumes next_row: "step s t \<Longrightarrow> rows t = rows s @ [r] \<Longrightarrow>
    numbered number ident prior (filter (\<lambda>x. grp x = grp r) (rows s)) \<Longrightarrow>
    extends number ident prior (filter (\<lambda>x. grp x = grp r) (rows s)) r"
begin

lemma histories_numbered:
  assumes "step\<^sup>*\<^sup>* s t" and "\<forall>k. numbered number ident prior (filter (\<lambda>x. grp x = k) (rows s))"
  shows "\<forall>k. numbered number ident prior (filter (\<lambda>x. grp x = k) (rows t))"
  using assms(1)
proof (induction rule: log_induct)
  case (append u v r)
  show ?case
  proof
    fix k
    show "numbered number ident prior (filter (\<lambda>x. grp x = k) (rows u @ [r]))"
    proof (cases "grp r = k")
      case True
      then show ?thesis using append next_row [OF append(2,3)] by (simp add: numbered_snoc)
    qed (use append in simp)
  qed
qed (rule assms(2))

end

section \<open>Fenced leases\<close>

locale fenced_lease =
  fixes inv :: "'s \<Rightarrow> bool" and step :: "'s \<Rightarrow> 's \<Rightarrow> bool"
    and holder :: "'s \<Rightarrow> 'k \<Rightarrow> 'l option" and token :: "'l \<Rightarrow> int" and issued :: "'s \<Rightarrow> 'k \<Rightarrow> int"
  assumes inv_step: "inv s \<Longrightarrow> step s t \<Longrightarrow> inv t"
    and issued_grows: "inv s \<Longrightarrow> step s t \<Longrightarrow> issued s k \<le> issued t k"
    and held_was_issued: "inv s \<Longrightarrow> holder s k = Some l \<Longrightarrow> token l \<le> issued s k"
    and new_holder: "inv s \<Longrightarrow> step s t \<Longrightarrow> holder t k = Some l' \<Longrightarrow>
      (\<exists>l. holder s k = Some l \<and> token l = token l') \<or> token l' = issued s k + 1"
begin

lemma inv_steps: "step\<^sup>*\<^sup>* s t \<Longrightarrow> inv s \<Longrightarrow> inv t"
  by (induction rule: rtranclp_induct) (auto intro: inv_step)

lemma issued_mono: "step\<^sup>*\<^sup>* s t \<Longrightarrow> inv s \<Longrightarrow> issued s k \<le> issued t k"
proof (induction rule: rtranclp_induct)
  case (step t u)
  then show ?case using inv_steps issued_grows order_trans by metis
qed simp

text \<open>A token that is out of use stays out of use.\<close>

lemma never_again:
  assumes "step\<^sup>*\<^sup>* s t" and "inv s" and "n \<le> issued s k"
    and "\<forall>l. holder s k = Some l \<longrightarrow> token l \<noteq> n"
  shows "\<forall>l. holder t k = Some l \<longrightarrow> token l \<noteq> n"
  using assms(1)
proof (induction rule: rtranclp_induct)
  case base
  show ?case by (rule assms(4))
next
  case (step t u)
  have i: "inv t" and m: "issued s k \<le> issued t k"
    using inv_steps [OF step.hyps(1) assms(2)] issued_mono [OF step.hyps(1) assms(2)] by simp_all
  show ?case
  proof (intro allI impI)
    fix l assume "holder u k = Some l"
    from new_holder [OF i step.hyps(2) this] show "token l \<noteq> n"
      using step.IH m assms(3) by fastforce
  qed
qed

text \<open>Later holders of another token have a greater one.\<close>

lemma later_token_greater:
  assumes "step\<^sup>*\<^sup>* s t" and "inv s" and "holder s k = Some l" and "holder t k = Some l'"
  shows "token l \<le> token l'"
  using assms(1,4)
proof (induction arbitrary: l' rule: rtranclp_induct)
  case base
  then show ?case using assms(3) by simp
next
  case (step t u)
  have i: "inv t" using inv_steps [OF step.hyps(1) assms(2)] .
  from new_holder [OF i step.hyps(2) step.prems] show ?case
  proof
    assume "\<exists>l. holder t k = Some l \<and> token l = token l'"
    then show ?thesis using step.IH by metis
  next
    assume "token l' = issued t k + 1"
    then show ?thesis
      using held_was_issued [OF assms(2,3)] issued_mono [OF step.hyps(1) assms(2), of k] by linarith
  qed
qed

end

end
