(* ===== verification/StoreLogs.thy ===== *)
theory StoreLogs imports StoreSystem RowLogs begin

text \<open>
  The tables of the store as logs: which are only appended to, with which keys, and which histories
  are numbered.
\<close>

lemma foreign_frame:
  assumes "foreign_rows s t"
  shows "st_cases t = st_cases s" "st_events t = st_events s" "st_events_by_id t = st_events_by_id s"
    "st_mailbox_heads t = st_mailbox_heads s" "st_mailbox_messages t = st_mailbox_messages s"
    "st_message_ingress_records t = st_message_ingress_records s"
    "st_pending_user_messages t = st_pending_user_messages s"
    "st_actions t = st_actions s" "st_contexts t = st_contexts s" "st_receipts t = st_receipts s"
    "st_receipt_action_ids t = st_receipt_action_ids s" "st_checkpoints t = st_checkpoints s"
    "st_outbox t = st_outbox s" "st_job_dispositions t = st_job_dispositions s"
    "st_job_leases t = st_job_leases s" "st_job_lease_tokens t = st_job_lease_tokens s"
    "st_leases t = st_leases s" "st_lease_tokens t = st_lease_tokens s"
    "st_logical_model_jobs t = st_logical_model_jobs s"
    "st_provider_attempt_requests t = st_provider_attempt_requests s"
    "st_provider_attempt_receipts t = st_provider_attempt_receipts s"
    "st_durable_model_results t = st_durable_model_results s"
    "st_obligation_schedules t = st_obligation_schedules s"
    "st_obligation_dispatch_records t = st_obligation_dispatch_records s"
    "st_obligation_completion_records t = st_obligation_completion_records s"
    "st_obligation_schedule_checkpoints t = st_obligation_schedule_checkpoints s"
    "st_effect_attempts t = st_effect_attempts s"
    "st_workflow_read_models t = st_workflow_read_models s"
    "st_dispatcher_recovery_cursors t = st_dispatcher_recovery_cursors s"
  using assms by (auto simp: foreign_rows_def)

lemmas frame = foreign_frame push_event_def map_of_eq_None_iff put_idempotent_Inr

section \<open>Tables with unique keys\<close>

interpretation outbox: unique_log st_outbox writes fst
  by unfold_locales (erule writes.cases; clarsimp simp: frame; force?)+

interpretation messages: unique_log st_mailbox_messages writes fst
  by unfold_locales (erule writes.cases; clarsimp simp: frame; force?)+

interpretation ingress: unique_log st_message_ingress_records writes fst
  by unfold_locales (erule writes.cases; clarsimp simp: frame; force?)+

interpretation pending: unique_log st_pending_user_messages writes fst
  by unfold_locales (erule writes.cases; clarsimp simp: frame; force?)+

interpretation schedules: unique_log st_obligation_schedules writes fst
  by unfold_locales (erule writes.cases; clarsimp simp: frame; force?)+

interpretation dispatches: unique_log st_obligation_dispatch_records writes fst
  by unfold_locales (erule writes.cases; clarsimp simp: frame; force?)+

interpretation completions: unique_log st_obligation_completion_records writes fst
  by unfold_locales (erule writes.cases; clarsimp simp: frame; force?)+

interpretation schedule_checkpoints: unique_log st_obligation_schedule_checkpoints writes fst
  by unfold_locales (erule writes.cases; clarsimp simp: frame; force?)+

interpretation dispositions: unique_log st_job_dispositions writes fst
  by unfold_locales (erule writes.cases; clarsimp simp: frame; force?)+

interpretation model_jobs: unique_log st_logical_model_jobs writes fst
  by unfold_locales (erule writes.cases; clarsimp simp: frame; force?)+

interpretation provider_requests: unique_log st_provider_attempt_requests writes fst
  by unfold_locales (erule writes.cases; clarsimp simp: frame; force?)+

interpretation provider_receipts: unique_log st_provider_attempt_receipts writes fst
  by unfold_locales (erule writes.cases; clarsimp simp: frame; force?)+

interpretation model_results: unique_log st_durable_model_results writes fst
  by unfold_locales (erule writes.cases; clarsimp simp: frame; force?)+

interpretation attempts: unique_log st_effect_attempts writes fst
  by unfold_locales (erule writes.cases; clarsimp simp: frame; force?)+

interpretation actions: unique_log st_actions writes fst
  by unfold_locales (erule writes.cases; clarsimp simp: frame; force?)+

interpretation contexts: unique_log st_contexts writes fst
  by unfold_locales (erule writes.cases; clarsimp simp: frame; force?)+

interpretation receipts: unique_log st_receipts writes fst
  by unfold_locales (erule writes.cases; clarsimp simp: frame; force?)+

interpretation receipt_actions: unique_log st_receipt_action_ids writes fst
  by unfold_locales (erule writes.cases; clarsimp simp: frame; force?)+

interpretation checkpoints: unique_log st_checkpoints writes fst
  by unfold_locales (erule writes.cases; clarsimp simp: frame; force?)+

text \<open>The second keys: what a case, a schedule or a job may have once.\<close>

interpretation message_keys: unique_log "\<lambda>s. values_of (st_mailbox_messages s)" writes
    "\<lambda>m. (mm_case_id m, oi_idempotency_key (mm_operation m))"
  by unfold_locales (erule writes.cases; clarsimp simp: frame values_of_def; force?)+

interpretation outbox_keys: unique_log "\<lambda>s. values_of (st_outbox s)" writes
    "\<lambda>m. (om_case_id m, om_idempotency_key m)"
  by unfold_locales
     (erule writes.cases; clarsimp simp: frame values_of_def same_outbox_key_def; force?)+

interpretation dispatch_keys: unique_log "\<lambda>s. values_of (st_obligation_dispatch_records s)" writes
    "\<lambda>r. (dr_schedule_id r, di_obligation_id (dr_dispatch r))"
  by unfold_locales (erule writes.cases; clarsimp simp: frame values_of_def; force?)+

interpretation completion_keys: unique_log "\<lambda>s. values_of (st_obligation_completion_records s)" writes
    "\<lambda>r. (cr_schedule_id r, oc_obligation_id (cr_completion r))"
  by unfold_locales
     (erule writes.cases; clarsimp simp: frame values_of_def completions_of_def; force?)+

section \<open>Numbered histories\<close>

lemma max_by_snoc:
  "max_by k (xs @ [x]) = (case max_by k xs of None \<Rightarrow> Some x | Some b \<Rightarrow> if k b < k x then Some x else Some b)"
  by (simp add: max_by_def)

lemma numbered_last:
  assumes "numbered number ident prior h" and "h \<noteq> []"
  shows "number (last h) = int (length h)"
proof -
  obtain xs x where h: "h = xs @ [x]" using assms(2) by (cases h rule: rev_cases) simp_all
  show ?thesis using assms(1) unfolding h by (simp add: numbered_snoc extends_def)
qed

lemma max_by_numbered:
  "numbered number ident prior h \<Longrightarrow> max_by number h = (if h = [] then None else Some (last h))"
proof (induction h rule: rev_induct)
  case (snoc x h)
  have h: "numbered number ident prior h" and x: "number x = int (length h) + 1"
    using snoc.prems by (simp_all add: numbered_snoc extends_def)
  show ?case using snoc.IH [OF h] x numbered_last [OF h]
    by (cases "h = []") (simp_all add: max_by_snoc, simp add: max_by_def)
qed (simp add: max_by_def)

lemma values_of_snoc [simp]: "values_of (d @ [(k, v)]) = values_of d @ [v]"
  by (simp add: values_of_def)

lemmas histories =
  provider_attempts_of_def [folded values_of_def] attempts_of_def [folded values_of_def]
  list_obligation_schedule_checkpoints_def [folded values_of_def] max_by_numbered

interpretation provider_history:
  numbered_log "\<lambda>s. values_of (st_provider_attempt_requests s)" writes
    pq_logical_model_job_id pq_attempt_number pq_provider_attempt_id pq_prior_provider_attempt_id
proof
  fix s t r
  assume "writes s t"
    and "values_of (st_provider_attempt_requests t) = values_of (st_provider_attempt_requests s) @ [r]"
    and "numbered pq_attempt_number pq_provider_attempt_id pq_prior_provider_attempt_id
      (filter (\<lambda>x. pq_logical_model_job_id x = pq_logical_model_job_id r)
        (values_of (st_provider_attempt_requests s)))"
  then show "extends pq_attempt_number pq_provider_attempt_id pq_prior_provider_attempt_id
      (filter (\<lambda>x. pq_logical_model_job_id x = pq_logical_model_job_id r)
        (values_of (st_provider_attempt_requests s))) r"
    by (cases rule: writes.cases)
       (simp_all add: frame extends_def histories)
qed (erule writes.cases; simp add: frame)

interpretation effect_history:
  numbered_log "\<lambda>s. values_of (st_effect_attempts s)" writes
    ea_outbox_message_id ea_attempt_number ea_effect_attempt_id ea_prior_attempt_id
proof
  fix s t r
  assume "writes s t" and "values_of (st_effect_attempts t) = values_of (st_effect_attempts s) @ [r]"
    and "numbered ea_attempt_number ea_effect_attempt_id ea_prior_attempt_id
      (filter (\<lambda>x. ea_outbox_message_id x = ea_outbox_message_id r) (values_of (st_effect_attempts s)))"
  then show "extends ea_attempt_number ea_effect_attempt_id ea_prior_attempt_id
      (filter (\<lambda>x. ea_outbox_message_id x = ea_outbox_message_id r) (values_of (st_effect_attempts s))) r"
    by (cases rule: writes.cases)
       (auto simp: frame extends_def histories numbered_last split: if_splits)
qed (erule writes.cases; simp add: frame)

interpretation checkpoint_history:
  numbered_log "\<lambda>s. values_of (st_obligation_schedule_checkpoints s)" writes
    sc_schedule_id sc_checkpoint_number sc_checkpoint_id sc_prior_checkpoint_id
proof
  fix s t r
  assume "writes s t" and "values_of (st_obligation_schedule_checkpoints t) =
      values_of (st_obligation_schedule_checkpoints s) @ [r]"
    and "numbered sc_checkpoint_number sc_checkpoint_id sc_prior_checkpoint_id
      (filter (\<lambda>x. sc_schedule_id x = sc_schedule_id r)
        (values_of (st_obligation_schedule_checkpoints s)))"
  then show "extends sc_checkpoint_number sc_checkpoint_id sc_prior_checkpoint_id
      (filter (\<lambda>x. sc_schedule_id x = sc_schedule_id r)
        (values_of (st_obligation_schedule_checkpoints s))) r"
    by (cases rule: writes.cases)
       (auto simp: frame extends_def derives_checkpoint_def Let_def result_simps histories
          numbered_sorted)
qed (erule writes.cases; simp add: frame)

end
