(* ===== verification/StoreLeases.thy ===== *)
theory StoreLeases imports StoreLogs begin

text \<open>
  Fencing: the leases of jobs and of controllers as instances of the fenced lease, and what a method
  answers to a holder that was fenced off.
\<close>

definition issued_token :: "int table \<Rightarrow> string \<Rightarrow> int" where
  "issued_token d k = (case map_of d k of None \<Rightarrow> 0 | Some n \<Rightarrow> n)"

lemma issued_token_update [simp]:
  "issued_token (AList.update k v d) i = (if i = k then v else issued_token d i)"
  by (simp add: issued_token_def)

text \<open>A lease in use carries the last token that was issued for it.\<close>

definition job_leases_ok :: "Store \<Rightarrow> bool" where
  "job_leases_ok s \<longleftrightarrow> (\<forall>i l. map_of (st_job_leases s) i = Some l \<longrightarrow>
     jl_outbox_message_id l = i \<and> jl_fencing_token l = issued_token (st_job_lease_tokens s) i)"

definition leases_ok :: "Store \<Rightarrow> bool" where
  "leases_ok s \<longleftrightarrow> (\<forall>i l. map_of (st_leases s) i = Some l \<longrightarrow>
     cl_case_id l = i \<and> cl_fencing_token l = issued_token (st_lease_tokens s) i)"

lemma next_job_token_ok:
  "job_leases_ok s \<Longrightarrow> next_job_token s i = issued_token (st_job_lease_tokens s) i + 1"
  by (auto simp: next_job_token_def job_leases_ok_def issued_token_def split: option.split)

lemma next_lease_token_issued: "next_lease_token s i = issued_token (st_lease_tokens s) i + 1"
  by (simp add: next_lease_token_def issued_token_def)

text \<open>The writes that touch the leases.\<close>

lemma job_lease_writes:
  assumes "writes s t"
  obtains (same) "st_job_leases t = st_job_leases s" "st_job_lease_tokens t = st_job_lease_tokens s"
  | (acquired) i l where "jl_outbox_message_id l = i" "jl_fencing_token l = next_job_token s i"
      "st_job_leases t = AList.update i l (st_job_leases s)"
      "st_job_lease_tokens t = AList.update i (jl_fencing_token l) (st_job_lease_tokens s)"
  | (renewed) i l r where "map_of (st_job_leases s) i = Some l" "jl_outbox_message_id r = i"
      "jl_fencing_token r = jl_fencing_token l"
      "st_job_leases t = AList.update i r (st_job_leases s)"
      "st_job_lease_tokens t = st_job_lease_tokens s"
  | (released) i where "st_job_leases t = AList.delete i (st_job_leases s)"
      "st_job_lease_tokens t = st_job_lease_tokens s"
  using assms
proof (cases rule: writes.cases)
  case (w_job_lease l m)
  show ?thesis by (rule acquired [of l]) (use w_job_lease in simp_all)
next
  case (w_job_heartbeat l x r y)
  show ?thesis by (rule renewed [of _ l r]) (use w_job_heartbeat in simp_all)
next
  case (w_job_release l)
  show ?thesis by (rule released) (use w_job_release in simp_all)
qed (rule same, simp add: frame, simp add: frame)+

lemma lease_writes:
  assumes "writes s t"
  obtains (same) "st_leases t = st_leases s" "st_lease_tokens t = st_lease_tokens s"
  | (acquired) i l where "cl_case_id l = i" "cl_fencing_token l = next_lease_token s i"
      "st_leases t = AList.update i l (st_leases s)"
      "st_lease_tokens t = AList.update i (cl_fencing_token l) (st_lease_tokens s)"
  | (released) i where "st_leases t = AList.delete i (st_leases s)" "st_lease_tokens t = st_lease_tokens s"
  using assms
proof (cases rule: writes.cases)
  case (w_lease l c)
  show ?thesis by (rule acquired [of l]) (use w_lease in simp_all)
next
  case (w_release i l)
  show ?thesis by (rule released [of i]) (use w_release in simp_all)
qed (rule same, simp add: frame, simp add: frame)+

interpretation job_lease: fenced_lease job_leases_ok writes "\<lambda>s. map_of (st_job_leases s)"
    jl_fencing_token "\<lambda>s. issued_token (st_job_lease_tokens s)"
proof
  fix s t k l
  assume inv: "job_leases_ok s"
  note next_token = next_job_token_ok [OF inv]
  show "job_leases_ok t" if "writes s t"
    using that by (cases rule: job_lease_writes)
      (use inv in \<open>simp_all add: job_leases_ok_def next_token\<close>)
  show "issued_token (st_job_lease_tokens s) k \<le> issued_token (st_job_lease_tokens t) k"
    if "writes s t"
    using that by (cases rule: job_lease_writes) (simp_all add: next_token)
  show "jl_fencing_token l \<le> issued_token (st_job_lease_tokens s) k"
    if "map_of (st_job_leases s) k = Some l"
    using inv that by (simp add: job_leases_ok_def)
  show "(\<exists>l'. map_of (st_job_leases s) k = Some l' \<and> jl_fencing_token l' = jl_fencing_token l) \<or>
      jl_fencing_token l = issued_token (st_job_lease_tokens s) k + 1"
    if "writes s t" and "map_of (st_job_leases t) k = Some l"
    using that by (cases rule: job_lease_writes) (simp_all add: next_token split: if_split_asm)
qed

interpretation case_lease: fenced_lease leases_ok writes "\<lambda>s. map_of (st_leases s)"
    cl_fencing_token "\<lambda>s. issued_token (st_lease_tokens s)"
proof
  fix s t k l
  assume inv: "leases_ok s"
  show "leases_ok t" if "writes s t"
    using that by (cases rule: lease_writes)
      (use inv in \<open>simp_all add: leases_ok_def next_lease_token_issued\<close>)
  show "issued_token (st_lease_tokens s) k \<le> issued_token (st_lease_tokens t) k" if "writes s t"
    using that by (cases rule: lease_writes) (simp_all add: next_lease_token_issued)
  show "cl_fencing_token l \<le> issued_token (st_lease_tokens s) k" if "map_of (st_leases s) k = Some l"
    using inv that by (simp add: leases_ok_def)
  show "(\<exists>l'. map_of (st_leases s) k = Some l' \<and> cl_fencing_token l' = cl_fencing_token l) \<or>
      cl_fencing_token l = issued_token (st_lease_tokens s) k + 1"
    if "writes s t" and "map_of (st_leases t) k = Some l"
    using that by (cases rule: lease_writes)
      (simp_all add: next_lease_token_issued split: if_split_asm)
qed

lemma empty_leases_ok [simp]: "job_leases_ok empty_store" "leases_ok empty_store"
  by (simp_all add: job_leases_ok_def leases_ok_def empty_store_def)

lemma reachable_leases_ok: "reachable s \<Longrightarrow> job_leases_ok s \<and> leases_ok s"
  using job_lease.inv_steps case_lease.inv_steps reachable_writes empty_leases_ok by blast

end
