(* ===== verification/StoreInvariants.thy ===== *)
theory StoreInvariants imports StoreLeases begin

text \<open>
  The invariants of the journal and of the mailbox: cursors and sequences without gaps, entries that
  are never changed, one index of all entries.
\<close>

section \<open>The journal\<close>

text \<open>The writes that touch the cases, the journal or the heads of the mailboxes.\<close>

lemma journal_writes:
  assumes "writes s t"
  obtains (same) "\<forall>j. map_of (st_cases t) j = None \<longleftrightarrow> map_of (st_cases s) j = None" "st_events t = st_events s"
      "st_events_by_id t = st_events_by_id s"
  | (opened) i where "map_of (st_cases s) i = None"
      "\<forall>j. map_of (st_cases t) j = None \<longleftrightarrow> j \<noteq> i \<and> map_of (st_cases s) j = None"
      "st_events t = AList.update i [] (st_events s)" "st_events_by_id t = st_events_by_id s"
  | (appended) e es where "map_of (st_events_by_id s) (ev_event_id e) = None"
      "map_of (st_events s) (ev_case_id e) = Some es" "ev_cursor e = int (length es) + 1"
      "make_event e = Inr e" "\<forall>j. map_of (st_cases t) j = None \<longleftrightarrow> map_of (st_cases s) j = None"
      "st_events t = AList.update (ev_case_id e) (es @ [e]) (st_events s)"
      "st_events_by_id t = AList.update (ev_event_id e) e (st_events_by_id s)"
  using assms
proof (cases rule: writes.cases)
  case (w_case i n x)
  show ?thesis by (rule opened [of i]) (use w_case in auto)
next
  case (w_event e es)
  show ?thesis by (rule appended [of e es]) (use w_event in \<open>simp_all add: push_event_def\<close>)
next
  case (w_head i c c')
  then show ?thesis by (intro same) simp_all
qed (rule same, simp add: frame, simp add: frame, simp add: frame)+

definition entries_ok :: "Store \<Rightarrow> string \<Rightarrow> EventJournalEntry list \<Rightarrow> bool" where
  "entries_ok s i es \<longleftrightarrow> map ev_cursor es = [1..int (length es)] \<and>
     (\<forall>e \<in> set es. ev_case_id e = i \<and> make_event e = Inr e \<and>
        map_of (st_events_by_id s) (ev_event_id e) = Some e)"

definition journal_ok :: "Store \<Rightarrow> bool" where
  "journal_ok s \<longleftrightarrow>
     (\<forall>i. map_of (st_events s) i = None \<longleftrightarrow> map_of (st_cases s) i = None) \<and>
     (\<forall>i es. map_of (st_events s) i = Some es \<longrightarrow> entries_ok s i es) \<and>
     (\<forall>x e. map_of (st_events_by_id s) x = Some e \<longrightarrow> ev_event_id e = x \<and>
        (\<exists>es. map_of (st_events s) (ev_case_id e) = Some es \<and> e \<in> set es))"

lemma journal_ok_case: "journal_ok s \<Longrightarrow> map_of (st_events s) i = None \<longleftrightarrow> map_of (st_cases s) i = None"
  by (simp add: journal_ok_def)

lemma journal_ok_entries: "journal_ok s \<Longrightarrow> map_of (st_events s) i = Some es \<Longrightarrow> entries_ok s i es"
  by (simp add: journal_ok_def)

lemma journal_ok_index:
  assumes "journal_ok s" and "map_of (st_events_by_id s) x = Some e"
  obtains es where "ev_event_id e = x" and "map_of (st_events s) (ev_case_id e) = Some es" and "e \<in> set es"
  using assms unfolding journal_ok_def by (metis (full_types))

lemma journal_ok_step:
  assumes "writes s t" and ok: "journal_ok s"
  shows "journal_ok t"
  using assms(1)
proof (cases rule: journal_writes)
  case same
  then show ?thesis using ok by (simp add: journal_ok_def entries_ok_def)
next
  case (opened i)
  then have i: "map_of (st_events s) i = None" using ok by (simp add: journal_ok_def)
  have "ev_case_id e \<noteq> i" if row: "map_of (st_events_by_id s) x = Some e" for x e
  proof -
    obtain es where "map_of (st_events s) (ev_case_id e) = Some es"
      using journal_ok_index [OF ok row] .
    then show ?thesis using i by auto
  qed
  with opened show ?thesis using ok by (auto simp: journal_ok_def entries_ok_def)
next
  case (appended e es)
  have es: "entries_ok s (ev_case_id e) es" using ok appended(2) by (simp add: journal_ok_def)
  have "entries_ok t (ev_case_id e) (es @ [e])"
    using es appended by (auto simp: entries_ok_def upto_rec2)
  moreover have "entries_ok t i xs" if "map_of (st_events s) i = Some xs" for i xs
  proof -
    have "entries_ok s i xs" using ok that by (simp add: journal_ok_def)
    then show ?thesis using appended(1,7) by (auto simp: entries_ok_def)
  qed
  moreover have "map_of (st_events t) i = None \<longleftrightarrow> map_of (st_cases t) i = None" for i
  proof -
    have "map_of (st_cases t) i = None \<longleftrightarrow> map_of (st_cases s) i = None"
      using appended(5) by simp
    moreover have "map_of (st_events s) i = None \<longleftrightarrow> map_of (st_cases s) i = None"
      using ok by (simp add: journal_ok_def)
    ultimately show ?thesis using appended(2,6) by auto
  qed
  moreover have "ev_event_id f = x \<and> (\<exists>xs. map_of (st_events t) (ev_case_id f) = Some xs \<and> f \<in> set xs)"
    if f: "map_of (st_events_by_id t) x = Some f" for x f
  proof (cases "x = ev_event_id e")
    case True
    then show ?thesis using f appended(6,7) by simp
  next
    case False
    then have "map_of (st_events_by_id s) x = Some f" using f appended(7) by simp
    from journal_ok_index [OF ok this] obtain xs
      where "ev_event_id f = x" "map_of (st_events s) (ev_case_id f) = Some xs" "f \<in> set xs" .
    then show ?thesis using appended(2,6) by auto
  qed
  ultimately show ?thesis using appended(6) unfolding journal_ok_def by auto
qed

lemma empty_journal_ok: "journal_ok empty_store"
  by (simp add: journal_ok_def empty_store_def)

lemma writes_journal_ok: "writes\<^sup>*\<^sup>* s t \<Longrightarrow> journal_ok s \<Longrightarrow> journal_ok t"
  by (induction rule: rtranclp_induct) (simp_all add: journal_ok_step)

lemma reachable_journal_ok: "reachable s \<Longrightarrow> journal_ok s"
  using writes_journal_ok reachable_writes empty_journal_ok by blast

text \<open>The events of a case are only appended to.\<close>

lemma events_prefix_step:
  assumes "writes s t" and "journal_ok s" and "map_of (st_events s) i = Some es"
  shows "\<exists>fs. map_of (st_events t) i = Some (es @ fs)"
  using assms(1)
proof (cases rule: journal_writes)
  case (opened j)
  then have "map_of (st_events s) j = None" using journal_ok_case [OF assms(2)] by blast
  then have "j \<noteq> i" using assms(3) by auto
  then show ?thesis using opened(3) assms(3) by simp
next
  case (appended e xs)
  then show ?thesis using assms(3) by (cases "i = ev_case_id e") simp_all
qed (simp add: assms(3))

lemma events_prefix:
  assumes "writes\<^sup>*\<^sup>* s t" and "journal_ok s" and "map_of (st_events s) i = Some es"
  shows "\<exists>fs. map_of (st_events t) i = Some (es @ fs)"
  using assms(1)
proof (induction rule: rtranclp_induct)
  case (step t u)
  then obtain fs where "map_of (st_events t) i = Some (es @ fs)" by blast
  from events_prefix_step [OF step.hyps(2) writes_journal_ok [OF step.hyps(1) assms(2)] this]
  show ?case by auto
qed (use assms(3) in auto)

section \<open>The mailbox\<close>

lemma mailbox_writes:
  assumes "writes s t"
  obtains (same) "\<forall>j. map_of (st_cases t) j = None \<longleftrightarrow> map_of (st_cases s) j = None"
      "st_mailbox_heads t = st_mailbox_heads s" "st_mailbox_messages t = st_mailbox_messages s"
  | (opened) i x where "map_of (st_cases s) i = None"
      "\<forall>j. map_of (st_cases t) j = None \<longleftrightarrow> j \<noteq> i \<and> map_of (st_cases s) j = None"
      "st_mailbox_heads t = AList.update i (initial_head i x) (st_mailbox_heads s)"
      "st_mailbox_messages t = st_mailbox_messages s"
  | (posted) m h where "map_of (st_mailbox_heads s) (mm_case_id m) = Some h"
      "mm_sequence m = mh_last_sequence h + 1" "mm_authority_epoch m = mh_authority_epoch h + 1"
      "\<forall>j. map_of (st_cases t) j = None \<longleftrightarrow> map_of (st_cases s) j = None"
      "st_mailbox_heads t = AList.update (mm_case_id m) (next_head m) (st_mailbox_heads s)"
      "st_mailbox_messages t = st_mailbox_messages s @ [(mm_message_id m, m)]"
  using assms
proof (cases rule: writes.cases)
  case (w_case i n x)
  show ?thesis by (rule opened [of i x]) (use w_case in auto)
next
  case (w_message m h)
  show ?thesis by (rule posted [of m h]) (use w_message in simp_all)
next
  case (w_head i c c')
  then show ?thesis by (intro same) simp_all
qed (rule same, simp add: frame, simp add: frame, simp add: frame)+

definition messages_of :: "Store \<Rightarrow> string \<Rightarrow> MailboxMessage list" where
  "messages_of s i = filter (\<lambda>m. mm_case_id m = i) (values_of (st_mailbox_messages s))"

definition mailbox_ok :: "Store \<Rightarrow> bool" where
  "mailbox_ok s \<longleftrightarrow>
     (\<forall>i. map_of (st_mailbox_heads s) i = None \<longleftrightarrow> map_of (st_cases s) i = None) \<and>
     (\<forall>i. map_of (st_mailbox_heads s) i = None \<longrightarrow> messages_of s i = []) \<and>
     (\<forall>i h. map_of (st_mailbox_heads s) i = Some h \<longrightarrow> mh_case_id h = i \<and>
        mh_last_sequence h = int (length (messages_of s i)) \<and>
        mh_authority_epoch h = mh_last_sequence h \<and>
        map mm_sequence (messages_of s i) = [1..mh_last_sequence h] \<and>
        map mm_authority_epoch (messages_of s i) = [1..mh_last_sequence h])"

lemma messages_of_posted:
  "st_mailbox_messages t = st_mailbox_messages s @ [(mm_message_id m, m)] \<Longrightarrow>
     messages_of t i = (if i = mm_case_id m then messages_of s i @ [m] else messages_of s i)"
  by (simp add: messages_of_def)

lemma mailbox_ok_step:
  assumes "writes s t" and ok: "mailbox_ok s"
  shows "mailbox_ok t"
  using assms(1)
proof (cases rule: mailbox_writes)
  case same
  then show ?thesis using ok by (simp add: mailbox_ok_def messages_of_def)
next
  case (opened i x)
  then have i: "map_of (st_mailbox_heads s) i = None" "messages_of s i = []"
    using ok by (simp_all add: mailbox_ok_def)
  have m: "messages_of t j = messages_of s j" for j using opened by (simp add: messages_of_def)
  show ?thesis using ok opened i
    by (auto simp: mailbox_ok_def m initial_head_def)
next
  case (posted m h)
  note m = messages_of_posted [OF posted(6)]
  have cases: "map_of (st_cases t) i = None \<longleftrightarrow> map_of (st_cases s) i = None" for i
    using posted(4) by simp
  have h: "mh_last_sequence h = int (length (messages_of s (mm_case_id m)))"
    "mh_authority_epoch h = mh_last_sequence h"
    "map mm_sequence (messages_of s (mm_case_id m)) = [1..mh_last_sequence h]"
    "map mm_authority_epoch (messages_of s (mm_case_id m)) = [1..mh_last_sequence h]"
    using ok posted(1) by (simp_all add: mailbox_ok_def)
  have c: "map_of (st_cases s) (mm_case_id m) \<noteq> None"
    using ok posted(1) by (metis mailbox_ok_def option.distinct(1))
  show ?thesis using ok h posted c
    by (auto simp: mailbox_ok_def m cases next_head_def upto_rec2)
qed

lemma empty_mailbox_ok: "mailbox_ok empty_store"
  by (simp add: mailbox_ok_def messages_of_def values_of_def empty_store_def)

lemma reachable_mailbox_ok: "reachable s \<Longrightarrow> mailbox_ok s"
proof -
  have "writes\<^sup>*\<^sup>* s t \<Longrightarrow> mailbox_ok s \<Longrightarrow> mailbox_ok t" for s t
    by (induction rule: rtranclp_induct) (simp_all add: mailbox_ok_step)
  then show "reachable s \<Longrightarrow> mailbox_ok s" using reachable_writes empty_mailbox_ok by blast
qed

end
