(* ===== verification/StoreExamples.thy ===== *)
theory StoreExamples imports StoreInvariants begin

text \<open>
  What opening a case leaves in a store, and the small stores on which the promises of the store are
  tried out.
\<close>

declare bindP_readP [simp del]

lemma store_step_open: "store_step s (snd (open_case i n e at op s))"
  by (rule store_step.intros(1)) (rule surjective_pairing)

lemma store_steps_open: "store_step\<^sup>*\<^sup>* s (snd (open_case i n e at op s))"
  by (rule r_into_rtranclp) (rule store_step_open)

lemma reachable_step: "reachable s \<Longrightarrow> store_step s t \<Longrightarrow> reachable t"
  unfolding reachable_def by (rule rtranclp.rtrancl_into_rtrancl)

lemma reachable_steps: "reachable s \<Longrightarrow> store_step\<^sup>*\<^sup>* s t \<Longrightarrow> reachable t"
  unfolding reachable_def by (rule rtranclp_trans)

lemma reachable_empty [simp]: "reachable empty_store"
  by (simp add: reachable_def)

section \<open>A case that was opened\<close>

definition opening_event :: "string \<Rightarrow> string \<Rightarrow> string \<Rightarrow> datetime \<Rightarrow> EventJournalEntry" where
  "opening_event i n e t =
    (let p = JObj [(''thread_id'', JStr n)] in
     \<lparr>ev_event_id = e, ev_case_id = i, ev_cursor = 1, ev_event_type = EvCaseOpened,
      ev_recorded_at = t,
      ev_operation = \<lparr>oi_operation_id = i, oi_idempotency_key = e, oi_causation_id = e,
        oi_correlation_id = i, oi_authority_revision = 0, oi_payload_sha256 = digest p\<rparr>,
      ev_action_id = None, ev_authority_ref = Some i, ev_payload = p,
      ev_customer_projection = Some (JObj [(''state'', JStr ''open'')])\<rparr>)"

definition opened_store :: "string \<Rightarrow> string \<Rightarrow> string \<Rightarrow> datetime \<Rightarrow> Store \<Rightarrow> Store" where
  "opened_store i n e t s = push_event (opening_event i n e t) []
     (s\<lparr>st_cases := st_cases s @ [(i, opened_case i n t)],
        st_events := AList.update i [] (st_events s),
        st_mailbox_heads := AList.update i (initial_head i t) (st_mailbox_heads s)\<rparr>)"

lemma opening_payload:
  "freeze_json (JObj [(''thread_id'', JStr n)]) = Inr (JObj [(''thread_id'', JStr n)])"
  "content_sha256 (JObj [(''thread_id'', JStr n)]) = Inr (digest (JObj [(''thread_id'', JStr n)]))"
  by (simp_all add: seq_pairs_def content_sha256_def canonical_json_bytes_def digest_def)

lemma make_opening_event:
  assumes "nonempty i" and "nonempty e" and "is_aware t"
  shows "make_event (opening_event i n e t) = Inr (opening_event i n e t)"
  using assms
  by (simp add: make_event_def opening_event_def Let_def result_simps frozen_payload_Inr
      freeze_object_Inr opening_payload seq_pairs_def)

lemma blank_codes_colon: "blank_codes cs \<Longrightarrow> 58 \<notin> set cs"
  by (induction cs rule: blank_codes.induct) (auto split: if_splits list.splits)

lemma nonempty_cycle: "nonempty (i @ '':cycle:0'')"
  using blank_codes_colon [of "map of_char (i @ '':cycle:0'')"] by (auto simp: nonempty_def blank_def)

lemma derived_opening_operation:
  assumes "nonempty i" and "nonempty e"
  shows "derived_event_operation i e None (Some i) (JObj [(''thread_id'', JStr n)]) =
    Inr (ev_operation (opening_event i n e t))"
  using assms
  by (simp add: derived_event_operation_def opening_payload payload_head_version_def py_or_def
      truthy_def opening_event_def check_operation_def nonempty_def Let_def)

lemma append_event_locked_new:
  assumes "map_of (st_events_by_id s) (ed_event_id d) = None"
    and "map_of (st_events s) (ed_case_id d) = Some es" and "resolved_operation d = Inr p"
    and "draft_entry d p (int (length es) + 1) = Inr e"
  shows "append_event_locked (int (length es) + 1) d s = (Inr e, push_event e es s)"
  using assms by (simp add: append_event_locked_def method_reads Let_def subscript_def)

lemma open_case_ok:
  assumes "nonempty i" and "nonempty n" and "nonempty e" and "is_aware t"
    and "map_of (st_cases s) i = None" and "map_of (st_events_by_id s) e = None"
  shows "open_case i n e t None s = (Inr (opened_case i n t), opened_store i n e t s)"
proof -
  have c: "check_case (opened_case i n t) = Inr ()"
    using assms(1,2,4) nonempty_cycle by (simp add: check_case_def opened_case_def truthy_def)
  have h: "check_mailbox_head (initial_head i t) = Inr ()"
    using assms(1,4) by (simp add: check_mailbox_head_def initial_head_def)
  let ?d = "\<lparr>ed_case_id = i, ed_event_id = e, ed_event_type = EvCaseOpened, ed_recorded_at = t,
    ed_action_id = None, ed_authority_ref = Some i, ed_payload = JObj [(''thread_id'', JStr n)],
    ed_customer_projection = Some (JObj [(''state'', JStr ''open'')]), ed_operation = None\<rparr>"
  let ?u = "s\<lparr>st_cases := st_cases s @ [(i, opened_case i n t)],
    st_events := AList.update i [] (st_events s),
    st_mailbox_heads := AList.update i (initial_head i t) (st_mailbox_heads s)\<rparr>"
  have p: "resolved_operation ?d = Inr (ev_operation (opening_event i n e t))"
    using derived_opening_operation [OF assms(1,3)] by (simp add: resolved_operation_def)
  have e: "draft_entry ?d (ev_operation (opening_event i n e t)) 1 = Inr (opening_event i n e t)"
    using make_opening_event [OF assms(1,3,4)] by (simp add: draft_entry_def opening_event_def Let_def)
  have "append_event_locked 1 ?d ?u =
      (Inr (opening_event i n e t), push_event (opening_event i n e t) [] ?u)"
    using append_event_locked_new [of ?u ?d "[]", OF _ _ p] e assms(6) by simp
  then have "bindP (append_event_locked 1 ?d) f ?u =
      f (opening_event i n e t) (push_event (opening_event i n e t) [] ?u)"
    for f :: "EventJournalEntry \<Rightarrow> (Store, InvestigationCase) prog"
    by (simp add: bindP_def)
  then show ?thesis using assms(5,6) c h
    by (simp add: open_case_def method_reads Let_def update_fresh event_operation_def
        opened_store_def initial_head_def)
qed

section \<open>A store with one case\<close>

lemma list_events_Inr:
  "list_events s i n = Inr es \<longleftrightarrow> (\<exists>c xs. map_of (st_cases s) i = Some c \<and>
     map_of (st_events s) i = Some xs \<and> es = filter (\<lambda>e. ev_cursor e > n) xs)"
  by (auto simp: list_events_def get_case_def result_simps)

definition ex_store :: Store where
  "ex_store = opened_store ''case'' ''thread'' ''opened'' (Aware 0) empty_store"

lemma ex_names [simp]:
  "nonempty ''case''" "nonempty ''thread''" "nonempty ''opened''" "nonempty ''message''"
  "nonempty ''second''" "nonempty ''key''" "nonempty ''job''" "nonempty ''worker''" "nonempty ''rival''"
  by code_simp+

lemma ex_open: "open_case ''case'' ''thread'' ''opened'' (Aware 0) None empty_store =
    (Inr (opened_case ''case'' ''thread'' (Aware 0)), ex_store)"
  unfolding ex_store_def by (rule open_case_ok) (simp_all add: empty_store_def)

lemma ex_reachable: "reachable ex_store"
  using reachable_step [OF reachable_empty store_step.intros(1) [OF ex_open]] .

lemma ex_events: "list_events ex_store ''case'' 0 =
    Inr [opening_event ''case'' ''thread'' ''opened'' (Aware 0)]"
  by (simp add: list_events_Inr ex_store_def opened_store_def push_event_def empty_store_def
      opening_event_def Let_def)

section \<open>A message, a job and its leases\<close>

definition ex_payload :: json where
  "ex_payload = JObj [(''message'', JStr ''hello'')]"

definition ex_operation :: OperationIdentity where
  "ex_operation = \<lparr>oi_operation_id = ''op'', oi_idempotency_key = ''key'', oi_causation_id = ''op'',
     oi_correlation_id = ''case'', oi_authority_revision = 0, oi_payload_sha256 = digest ex_payload\<rparr>"

lemma ex_payload_frozen:
  "freeze_json ex_payload = Inr ex_payload" "content_sha256 ex_payload = Inr (digest ex_payload)"
  by (simp_all add: ex_payload_def seq_pairs_def content_sha256_def canonical_json_bytes_def digest_def)

definition ex_message :: MailboxMessage where
  "ex_message = \<lparr>mm_message_id = ''message'', mm_case_id = ''case'', mm_sequence = 1,
     mm_authority_epoch = 1, mm_kind = UserMessage, mm_operation = ex_operation,
     mm_payload = ex_payload, mm_created_at = Aware 1\<rparr>"

definition ex_posted :: Store where
  "ex_posted = ex_store\<lparr>st_mailbox_messages := [(''message'', ex_message)],
     st_mailbox_heads := [(''case'', next_head ex_message)]\<rparr>"

lemmas ex_store_simps = ex_store_def opened_store_def push_event_def empty_store_def
  opening_event_def Let_def

lemma ex_post:
  "append_mailbox_message ''message'' ''case'' UserMessage ex_operation ex_payload (Aware 1)
     ex_store = (Inr ex_message, ex_posted)"
proof -
  have "make_mailbox_message ex_message = Inr ex_message"
    by (simp add: make_mailbox_message_def ex_message_def frozen_payload_Inr ex_operation_def
        freeze_object_Inr ex_payload_frozen result_simps) (simp add: ex_payload_def)
  moreover have "check_mailbox_head (next_head ex_message) = Inr ()"
    by (simp add: check_mailbox_head_def next_head_def ex_message_def)
  ultimately show ?thesis
    by (simp add: append_mailbox_message_def method_reads get_case_def get_row_def
        ex_store_simps initial_head_def subscript_def ex_message_def ex_posted_def next_head_def)
qed

definition ex_posted_authority :: AuthoritySnapshot where
  "ex_posted_authority = \<lparr>au_case_id = ''case'', au_head_version = 0, au_mailbox_authority_epoch = 1,
     au_question_revision_id = None, au_frame_revision_id = None, au_plan_revision_id = None,
     au_candidate_generation = 0, au_candidate_sha256 = None, au_obligation_state_version = 0,
     au_evidence_admission_state_version = 0, au_contradiction_state_version = 0\<rparr>"

definition ex_job :: OutboxMessage where
  "ex_job = \<lparr>om_outbox_message_id = ''job'', om_case_id = ''case'', om_source_event_cursor = 1,
     om_action_id = None, om_job_kind = JobMessageBinding,
     om_operation = ex_operation\<lparr>oi_authority_revision := 1\<rparr>,
     om_expected_head_version = 0, om_expected_authority_epoch = 1,
     om_authority_snapshot = ex_posted_authority, om_authority_snapshot_sha256 = authority_sha256 ex_posted_authority,
     om_idempotency_key = ''key'', om_destination = ''binder'', om_contract_ref = ''contract'',
     om_payload = ex_payload, om_payload_sha256 = digest ex_payload, om_created_at = Aware 1\<rparr>"

definition ex_jobs :: Store where
  "ex_jobs = ex_posted\<lparr>st_outbox := [(''job'', ex_job)]\<rparr>"

lemma ex_store_rows [simp]:
  "st_cases ex_store = [(''case'', opened_case ''case'' ''thread'' (Aware 0))]"
  "st_events ex_store = [(''case'', [opening_event ''case'' ''thread'' ''opened'' (Aware 0)])]"
  "st_events_by_id ex_store = [(''opened'', opening_event ''case'' ''thread'' ''opened'' (Aware 0))]"
  "st_mailbox_heads ex_store = [(''case'', initial_head ''case'' (Aware 0))]"
  "st_mailbox_messages ex_store = []"
  by (simp_all add: ex_store_simps)

lemma ex_posted_rows [simp]:
  "st_cases ex_posted = [(''case'', opened_case ''case'' ''thread'' (Aware 0))]"
  "st_events ex_posted = [(''case'', [opening_event ''case'' ''thread'' ''opened'' (Aware 0)])]"
  "st_mailbox_heads ex_posted = [(''case'', next_head ex_message)]"
  "st_outbox ex_posted = []" "st_job_dispositions ex_posted = []" "st_job_leases ex_posted = []"
  "st_job_lease_tokens ex_posted = []" "st_leases ex_posted = []" "st_lease_tokens ex_posted = []"
  by (simp_all add: ex_posted_def ex_store_simps)

lemma ex_job_id [simp]: "om_outbox_message_id ex_job = ''job''"
  by (simp add: ex_job_def)

lemma ex_posted_authority_ok: "check_authority_snapshot ex_posted_authority = Inr ()"
  by (simp add: check_authority_snapshot_def ex_posted_authority_def)

lemma ex_authority: "get_authority_snapshot ex_posted ''case'' = Inr ex_posted_authority"
  using ex_posted_authority_ok
  by (simp add: get_authority_snapshot_def get_case_def get_row_def get_mailbox_head_def
      ex_posted_def ex_store_simps subscript_def active_candidate_def opened_case_def next_head_def
      ex_message_def count_rows_def ex_posted_authority_def)

lemma ex_enqueue: "enqueue_outbox (\<lambda>_ _ _. Inr ()) ex_job ex_posted = (Inr ex_job, ex_jobs)"
proof -
  have "check_outbox_fence ex_posted (opened_case ''case'' ''thread'' (Aware 0)) ex_job = Inr ()"
    by (simp add: check_outbox_fence_def ex_job_def ex_authority get_mailbox_head_def get_case_def
        get_row_def subscript_def next_head_def ex_message_def opened_case_def)
  then have "admit_outbox (\<lambda>_ _ _. Inr ()) ex_posted ex_job = Inr ()"
    by (simp add: admit_outbox_def ex_job_def action_job_kinds_def get_case_def get_row_def
        require_event_cursor_def subscript_def opening_event_def Let_def)
  then show ?thesis
    by (simp add: enqueue_outbox_def method_reads put_immutable_def ex_jobs_def)
qed

lemma ex_posted_reachable: "reachable ex_posted"
  using reachable_step [OF ex_reachable store_step.intros(4) [OF ex_post]] .

lemma ex_jobs_reachable: "reachable ex_jobs"
  using reachable_step [OF ex_posted_reachable store_step.intros(16) [OF ex_enqueue]] .

section \<open>An event\<close>

definition ex_draft :: EventDraft where
  "ex_draft = \<lparr>ed_case_id = ''case'', ed_event_id = ''second'', ed_event_type = EvCheckpointRecorded,
     ed_recorded_at = Aware 1, ed_action_id = None, ed_authority_ref = None, ed_payload = ex_payload,
     ed_customer_projection = None, ed_operation = Some ex_operation\<rparr>"

definition ex_event :: EventJournalEntry where
  "ex_event = \<lparr>ev_event_id = ''second'', ev_case_id = ''case'', ev_cursor = 2,
     ev_event_type = EvCheckpointRecorded, ev_recorded_at = Aware 1, ev_operation = ex_operation,
     ev_action_id = None, ev_authority_ref = None, ev_payload = ex_payload,
     ev_customer_projection = None\<rparr>"

definition ex_two :: Store where
  "ex_two = push_event ex_event [opening_event ''case'' ''thread'' ''opened'' (Aware 0)] ex_store"

lemma ex_append: "append_event 2 ex_draft ex_store = (Inr ex_event, ex_two)"
proof -
  have "draft_entry ex_draft ex_operation 2 = Inr ex_event"
    by (simp add: draft_entry_def make_event_def ex_draft_def ex_event_def frozen_payload_Inr
        ex_operation_def freeze_object_Inr ex_payload_frozen result_simps) (simp add: ex_payload_def)
  then have "append_event_locked 2 ex_draft ex_store = (Inr ex_event, ex_two)"
    using append_event_locked_new [of ex_store ex_draft
        "[opening_event ''case'' ''thread'' ''opened'' (Aware 0)]" ex_operation ex_event]
    by (simp add: ex_draft_def ex_two_def resolved_operation_def)
  then show ?thesis
    by (simp add: append_event_def method_reads get_case_def get_row_def ex_draft_def)
qed

section \<open>A lease and its takeover\<close>

definition ex_lease :: "string \<Rightarrow> int \<Rightarrow> int \<Rightarrow> JobLease" where
  "ex_lease w n t = \<lparr>jl_outbox_message_id = ''job'', jl_owner_id = w, jl_fencing_token = n,
     jl_acquired_at = Aware t, jl_heartbeat_at = Aware t, jl_expires_at = Aware (t + 5)\<rparr>"

definition ex_leased :: "JobLease \<Rightarrow> Store" where
  "ex_leased l = ex_jobs\<lparr>st_job_leases := [(''job'', l)],
     st_job_lease_tokens := [(''job'', jl_fencing_token l)]\<rparr>"

lemma ex_lease_ok [simp]:
  "nonempty w \<Longrightarrow> n \<ge> 1 \<Longrightarrow> check_job_lease (ex_lease w n t) = Inr ()"
  by (simp add: check_job_lease_def ex_lease_def)

lemma clock_reading [simp]: "trusted_now (Aware t) = Inr (Aware t)"
  by (simp add: trusted_now_def require_aware_datetime_def)

lemma ex_acquire: "acquire_job_lease (Aware 10) ''job'' ''worker'' (Aware 0) (Aware 5) ex_jobs =
    (Inr (ex_lease ''worker'' 1 10), ex_leased (ex_lease ''worker'' 1 10))"
  using ex_lease_ok [of "''worker''" 1 10]
  by (simp add: acquire_job_lease_def method_reads lease_duration_def
      get_outbox_message_def get_row_def job_lease_live_def next_job_token_def ex_jobs_def
      ex_leased_def ex_lease_def)

lemma ex_takeover: "acquire_job_lease (Aware 20) ''job'' ''rival'' (Aware 0) (Aware 5)
    (ex_leased (ex_lease ''worker'' 1 10)) =
    (Inr (ex_lease ''rival'' 2 20), ex_leased (ex_lease ''rival'' 2 20))"
  using ex_lease_ok [of "''rival''" 2 20]
  by (simp add: acquire_job_lease_def method_reads lease_duration_def
      get_outbox_message_def get_row_def job_lease_live_def next_job_token_def ex_jobs_def
      ex_leased_def ex_lease_def)

definition ex_disposition :: "int option \<Rightarrow> JobDispositionRecord" where
  "ex_disposition n = \<lparr>jd_record_id = ''end'', jd_outbox_message_id = ''job'', jd_case_id = ''case'',
     jd_job_kind = JobMessageBinding, jd_disposition = JobCompleted, jd_owner_id = ''rival'',
     jd_fencing_token = n, jd_expected_authority_epoch = 1, jd_observed_authority_epoch = 1,
     jd_result_sha256 = Some (digest ex_payload), jd_reason_code = ''done'',
     jd_operation = ex_operation\<lparr>oi_authority_revision := 1\<rparr>, jd_completed_at = Aware 21\<rparr>"

definition ex_disposed :: Store where
  "ex_disposed = (ex_leased (ex_lease ''rival'' 2 20))\<lparr>st_job_dispositions :=
     [(''job'', ex_disposition (Some 2))]\<rparr>"

lemma ex_dispose: "record_job_disposition (Aware 21) (ex_disposition (Some 2))
    (ex_leased (ex_lease ''rival'' 2 20)) = (Inr (ex_disposition (Some 2)), ex_disposed)"
proof -
  have "admit_disposition (ex_leased (ex_lease ''rival'' 2 20)) (Aware 21) (ex_disposition (Some 2)) =
      Inr ()"
    by (simp add: admit_disposition_def get_outbox_message_def get_row_def ex_disposition_def
        ex_leased_def ex_jobs_def ex_lease_def) (simp add: ex_job_def)
  then show ?thesis
    by (simp add: record_job_disposition_def method_reads ex_disposed_def)
       (simp add: ex_disposition_def ex_leased_def ex_jobs_def)
qed

end
