(* ===== verification/StoreProperties.thy ===== *)
theory StoreProperties imports StoreExamples begin

text \<open>
  What the store promises about the journal and the mailbox, in every state its methods reach,
  whatever they are called with and wherever they raise.
\<close>

section \<open>The journal\<close>

lemma entries_from_start:
  assumes "entries_ok s i xs"
  shows "filter (\<lambda>e. ev_cursor e > 0) xs = xs"
proof -
  have "set (map ev_cursor xs) \<subseteq> {1..}" using assms by (simp add: entries_ok_def)
  then have "\<forall>e \<in> set xs. ev_cursor e > 0" by fastforce
  then show ?thesis by simp
qed

lemma entries_distinct_ids:
  assumes "entries_ok s i xs"
  shows "distinct (map ev_event_id xs)"
proof -
  have "distinct (map ev_cursor xs)" using assms by (simp add: entries_ok_def)
  moreover have "inj_on ev_event_id (set xs)"
    using assms by (auto simp: entries_ok_def inj_on_def) (metis option.inject)
  ultimately show ?thesis by (simp add: distinct_map)
qed

text \<open>
  C21: The journal of a case has no gaps: whatever calls were made, the events a case lists carry the
  cursors 1, 2, 3 and so on, in this order, with distinct event IDs; every entry belongs to the case
  and passes the checks of its class, in particular its payload has the digest its operation names.
\<close>

theorem journal_is_contiguous:
  assumes "reachable s" and "list_events s i 0 = Inr es"
  shows "map ev_cursor es = [1..int (length es)] \<and> distinct (map ev_event_id es) \<and>
    (\<forall>e \<in> set es. ev_case_id e = i \<and> make_event e = Inr e \<and>
       oi_payload_sha256 (ev_operation e) = digest (ev_payload e))"
proof -
  obtain xs where xs: "map_of (st_events s) i = Some xs" and es: "es = filter (\<lambda>e. ev_cursor e > 0) xs"
    using assms(2) by (auto simp: list_events_Inr)
  have ok: "entries_ok s i xs"
    by (rule journal_ok_entries [OF reachable_journal_ok [OF assms(1)] xs])
  have "oi_payload_sha256 (ev_operation e) = digest (ev_payload e)" if "make_event e = Inr e" for e
    using that freeze_digest by (auto simp: make_event_def result_simps frozen_payload_Inr)
  then show ?thesis
    using ok entries_distinct_ids [OF ok] unfolding es entries_from_start [OF ok]
    by (simp add: entries_ok_def)
qed

theorem journal_is_contiguous_witness:
  "\<exists>es. list_events ex_store ''case'' 0 = Inr es \<and> map ev_cursor es = [1..int (length es)] \<and> es \<noteq> []"
  using journal_is_contiguous [OF ex_reachable ex_events] ex_events by blast

text \<open>
  C22: The journal is append-only: what a reader has seen of a case after a cursor is an initial part
  of what it sees there at any later time, also when calls raised in between.
\<close>

theorem events_are_append_only:
  assumes "reachable s" and "store_step\<^sup>*\<^sup>* s t" and "list_events s i n = Inr es"
  shows "\<exists>fs. list_events t i n = Inr (es @ fs)"
proof -
  obtain xs where xs: "map_of (st_events s) i = Some xs" and es: "es = filter (\<lambda>e. ev_cursor e > n) xs"
    using assms(3) by (auto simp: list_events_Inr)
  obtain ys where ys: "map_of (st_events t) i = Some (xs @ ys)"
    using events_prefix [OF store_steps_writes [OF assms(2)] reachable_journal_ok [OF assms(1)] xs]
    by blast
  have "map_of (st_cases t) i \<noteq> None"
    using journal_ok_case [OF reachable_journal_ok [OF reachable_steps [OF assms(1,2)]], of i] ys by simp
  then have "list_events t i n = Inr (es @ filter (\<lambda>e. ev_cursor e > n) ys)"
    using ys es by (auto simp: list_events_Inr)
  then show ?thesis ..
qed

theorem events_are_append_only_witness:
  "\<exists>fs. list_events (snd (open_case ''second'' ''thread'' ''key'' (Aware 1) None ex_store)) ''case'' 0 =
     Inr ([opening_event ''case'' ''thread'' ''opened'' (Aware 0)] @ fs)"
  by (rule events_are_append_only [OF ex_reachable store_steps_open ex_events])

lemma index_stays_step:
  "writes s t \<Longrightarrow> map_of (st_events_by_id s) x = Some e \<Longrightarrow> map_of (st_events_by_id t) x = Some e"
  by (erule journal_writes) auto

lemma index_stays:
  "writes\<^sup>*\<^sup>* s t \<Longrightarrow> map_of (st_events_by_id s) x = Some e \<Longrightarrow> map_of (st_events_by_id t) x = Some e"
  by (induction rule: rtranclp_induct) (simp_all add: index_stays_step)

lemma draft_entry_fields:
  "draft_entry d p n = Inr e \<Longrightarrow> ev_event_id e = ed_event_id d \<and> ev_case_id e = ed_case_id d \<and> ev_cursor e = n"
  by (auto simp: draft_entry_def make_event_def result_simps)

lemma event_form_case: "event_form e = event_form c \<Longrightarrow> ev_case_id e = ev_case_id c"
  by (cases e; cases c) (simp add: event_form_def)

text \<open>What a successful call has left: the entry, under its ID, as a second call would make it.\<close>

lemma append_event_locked_done:
  assumes "append_event_locked n d s = (Inr e, t)"
  shows "map_of (st_events_by_id t) (ed_event_id d) = Some e \<and>
    (\<exists>p c. resolved_operation d = Inr p \<and> draft_entry d p (ev_cursor e) = Inr c \<and>
       event_form e = event_form c)"
proof -
  obtain p where p: "resolved_operation d = Inr p"
    using assms by (auto simp: append_event_locked_def method_reads)
  show ?thesis
  proof (cases "map_of (st_events_by_id s) (ed_event_id d)")
    case None
    then obtain es where "draft_entry d p (int (length es) + 1) = Inr e" "t = push_event e es s"
      using assms p by (auto simp: append_event_locked_def method_reads Let_def split: if_splits)
    then show ?thesis using p draft_entry_fields [of d p] by (auto simp: push_event_def)
  next
    case (Some x)
    then show ?thesis using assms p
      by (auto simp: append_event_locked_def method_reads split: if_splits)
  qed
qed

lemma append_event_locked_again:
  assumes "map_of (st_events_by_id s) (ed_event_id d) = Some e" and "resolved_operation d = Inr p"
    and "draft_entry d p (ev_cursor e) = Inr c" and "event_form e = event_form c"
  shows "append_event_locked n d s = (Inr e, s)"
  using assms by (simp add: append_event_locked_def method_reads)

text \<open>
  Appending an event is idempotent for ever: a call that succeeded, repeated at any later time
  with any expected cursor, returns the same entry and changes nothing.
\<close>

theorem append_event_retry:
  assumes "reachable s" and "append_event n d s = (Inr e, t)" and "store_step\<^sup>*\<^sup>* t u"
  shows "append_event m d u = (Inr e, u)"
proof -
  obtain c where c: "map_of (st_cases s) (ed_case_id d) = Some c"
    and run: "append_event_locked n d s = (Inr e, t)"
    using assms(2) by (auto simp: append_event_def method_reads get_case_def)
  note steps = store_steps_writes [OF assms(3)]
  have tr: "reachable t" using reachable_step [OF assms(1) store_step.intros(3) [OF assms(2)]] .
  note post = append_event_locked_done [OF run]
  then have e: "map_of (st_events_by_id u) (ed_event_id d) = Some e"
    using index_stays [OF steps] by blast
  from post have "ev_case_id e = ed_case_id d" using event_form_case draft_entry_fields by metis
  moreover have "map_of (st_cases u) (ev_case_id e) \<noteq> None"
  proof -
    have ok: "journal_ok u" by (rule reachable_journal_ok [OF reachable_steps [OF tr assms(3)]])
    obtain es where "map_of (st_events u) (ev_case_id e) = Some es" using journal_ok_index [OF ok e] .
    then show ?thesis using journal_ok_case [OF ok, of "ev_case_id e"] by simp
  qed
  ultimately obtain k where "map_of (st_cases u) (ed_case_id d) = Some k" by auto
  then show ?thesis using append_event_locked_again [OF e, of _ _ m] post
    by (auto simp: append_event_def method_reads get_case_def get_row_def)
qed

theorem append_event_retry_witness: "append_event 7 ex_draft ex_two = (Inr ex_event, ex_two)"
  using append_event_retry [OF ex_reachable ex_append rtranclp.rtrancl_refl] .

section \<open>The mailbox\<close>

lemma list_mailbox_messages_Inr:
  assumes "mailbox_ok s" and "list_mailbox_messages s i 0 = Inr ms"
  shows "ms = messages_of s i"
proof -
  have "map_of (st_cases s) i \<noteq> None"
    using assms(2) by (auto simp: list_mailbox_messages_def get_case_def result_simps)
  then have "map_of (st_mailbox_heads s) i \<noteq> None" using assms(1) by (simp add: mailbox_ok_def)
  then obtain h where "map_of (st_mailbox_heads s) i = Some h" by blast
  then have seq: "map mm_sequence (messages_of s i) = [1..mh_last_sequence h]"
    using assms(1) by (simp add: mailbox_ok_def)
  then have "set (map mm_sequence (messages_of s i)) \<subseteq> {1..}" by simp
  then have "filter (\<lambda>m. mm_case_id m = i \<and> mm_sequence m > 0) (values_of (st_mailbox_messages s)) =
      messages_of s i"
    unfolding messages_of_def by (intro filter_cong) fastforce+
  moreover have "sort_key mm_sequence (messages_of s i) = messages_of s i"
    by (rule sort_key_id_if_sorted) (simp add: seq)
  ultimately show ?thesis
    using assms(2) by (auto simp: list_mailbox_messages_def result_simps values_of_def)
qed

text \<open>
  C27: The mailbox of a case is ordered and free of duplicates: its messages carry the sequences
  1, 2, 3 and so on, each starts the authority epoch of the same number, the head names the last of
  them, and no two carry the same idempotency key.
\<close>

theorem mailbox_is_contiguous:
  assumes "reachable s" and "get_mailbox_head s i = Inr h" and "list_mailbox_messages s i 0 = Inr ms"
  shows "map mm_sequence ms = [1..mh_last_sequence h] \<and> map mm_authority_epoch ms = [1..mh_last_sequence h] \<and>
    mh_authority_epoch h = mh_last_sequence h \<and> (\<forall>m \<in> set ms. mm_case_id m = i) \<and>
    distinct (map (\<lambda>m. oi_idempotency_key (mm_operation m)) ms)"
proof -
  have ok: "mailbox_ok s" by (rule reachable_mailbox_ok [OF assms(1)])
  have ms: "ms = messages_of s i" by (rule list_mailbox_messages_Inr [OF ok assms(3)])
  have h: "map_of (st_mailbox_heads s) i = Some h"
    using assms(2) by (auto simp: get_mailbox_head_def result_simps)
  have "distinct (map (\<lambda>m. (mm_case_id m, oi_idempotency_key (mm_operation m)))
      (values_of (st_mailbox_messages s)))"
    by (rule message_keys.keys_distinct [OF reachable_writes [OF assms(1)]])
       (simp add: empty_store_def values_of_def)
  then have "distinct (map (\<lambda>m. oi_idempotency_key (mm_operation m)) (messages_of s i))"
    by (auto simp: messages_of_def distinct_map inj_on_def distinct_filter)
  then show ?thesis using ok h unfolding ms by (auto simp: mailbox_ok_def messages_of_def)
qed

theorem mailbox_is_contiguous_witness:
  "\<exists>h ms. get_mailbox_head ex_posted ''case'' = Inr h \<and>
     list_mailbox_messages ex_posted ''case'' 0 = Inr ms \<and> ms \<noteq> [] \<and>
     map mm_sequence ms = [1..mh_last_sequence h]"
proof -
  have h: "get_mailbox_head ex_posted ''case'' = Inr (next_head ex_message)"
    and ms: "list_mailbox_messages ex_posted ''case'' 0 = Inr [ex_message]"
    by (simp_all add: get_mailbox_head_def list_mailbox_messages_def get_case_def get_row_def
        subscript_def ex_posted_def ex_message_def)
  show ?thesis using mailbox_is_contiguous [OF ex_posted_reachable h ms] h ms by blast
qed

text \<open>A message that was accepted, now or before, is in the mailbox.\<close>

lemma appended_message_stored:
  assumes "append_mailbox_message mid i k op p at s = (Inr m, t)"
  shows "mm_case_id m = i \<and> m \<in> set (values_of (st_mailbox_messages t))"
proof (cases "map_of (st_mailbox_messages s) mid")
  case (Some x)
  then have "x \<in> set (values_of (st_mailbox_messages s))"
    by (rule row_in_values)
  then show ?thesis using assms Some
    by (auto simp: append_mailbox_message_def method_reads split: if_splits)
next
  case None
  then show ?thesis using assms
    by (auto simp: append_mailbox_message_def method_reads update_fresh values_of_def
        split: if_splits option.splits dest!: find_SomeD make_mailbox_message_fields)
qed

lemma epoch_reaches_message:
  assumes "mailbox_ok s" and "m \<in> set (values_of (st_mailbox_messages s))"
    and "map_of (st_mailbox_heads s) (mm_case_id m) = Some h"
  shows "mm_authority_epoch m \<le> mh_authority_epoch h"
proof -
  have "map mm_authority_epoch (messages_of s (mm_case_id m)) = [1..mh_last_sequence h]"
    "mh_authority_epoch h = mh_last_sequence h"
    using assms(1,3) by (simp_all add: mailbox_ok_def)
  moreover have "m \<in> set (messages_of s (mm_case_id m))" using assms(2) by (simp add: messages_of_def)
  ultimately have "mm_authority_epoch m \<in> set [1..mh_authority_epoch h]" by (metis imageI list.set_map)
  then show ?thesis by simp
qed

lemma stale_outbox_fence:
  assumes "mailbox_ok s" and "m \<in> set (values_of (st_mailbox_messages s))"
    and "om_case_id j = mm_case_id m" and "om_expected_authority_epoch j < mm_authority_epoch m"
  shows "check_outbox_fence s c j \<noteq> Inr ()"
  using assms epoch_reaches_message [OF assms(1,2)]
  by (auto simp: check_outbox_fence_def get_mailbox_head_def result_simps)

text \<open>
  C26: A user message fences the work that was planned before it: once a message has been accepted,
  no job of its case that expects an older authority epoch is enqueued or dispatched, then or at any
  later time; the call raises and leaves the store as it was.
\<close>

theorem message_fences_older_jobs:
  assumes "reachable s" and "append_mailbox_message mid i k op p at s = (Inr m, t)"
    and "store_step\<^sup>*\<^sup>* t u" and "om_case_id j = i"
    and "om_expected_authority_epoch j < mm_authority_epoch m"
  shows "(\<exists>e. enqueue_outbox f j u = (Inl e, u)) \<and> (\<exists>e. record_obligation_dispatch j r u = (Inl e, u))"
proof -
  have m: "mm_case_id m = i" "m \<in> set (values_of (st_mailbox_messages t))"
    using appended_message_stored [OF assms(2)] by simp_all
  have "reachable t" using reachable_step [OF assms(1) store_step.intros(4) [OF assms(2)]] .
  then have "mailbox_ok u" using reachable_mailbox_ok reachable_steps assms(3) by blast
  moreover have "m \<in> set (values_of (st_mailbox_messages u))"
    by (rule message_keys.row_stays [OF store_steps_writes [OF assms(3)] m(2)])
  ultimately have fence: "check_outbox_fence u c j \<noteq> Inr ()" for c
    using stale_outbox_fence assms(4,5) m(1) by simp
  have "admit_outbox f u j \<noteq> Inr ()" "admit_dispatch u j r \<noteq> Inr ()"
    by (simp_all add: admit_outbox_def admit_dispatch_def bindR_Inr_iff fence)
  then obtain e1 e2 where "admit_outbox f u j = Inl e1" "admit_dispatch u j r = Inl e2"
    by (metis (full_types) old.unit.exhaust sum.exhaust)
  then show ?thesis
    by (simp add: enqueue_outbox_def record_obligation_dispatch_def method_reads)
qed

theorem message_fences_older_jobs_witness:
  "\<exists>e. enqueue_outbox (\<lambda>_ _ _. Inr ()) (ex_job\<lparr>om_expected_authority_epoch := 0\<rparr>) ex_posted =
     (Inl e, ex_posted)"
  using message_fences_older_jobs [OF ex_reachable ex_post rtranclp.rtrancl_refl,
      of "ex_job\<lparr>om_expected_authority_epoch := 0\<rparr>"]
  by (simp add: ex_job_def ex_message_def)

section \<open>Delivering a message twice\<close>

text \<open>The store freezes a payload, which turns its lists into tuples.\<close>

fun no_list :: "json \<Rightarrow> bool" where
  "no_list (JList xs) = False"
| "no_list (JTuple xs) = list_all no_list xs"
| "no_list (JObj kvs) = list_all (\<lambda>kv. no_list (snd kv)) kvs"
| "no_list v = True"

lemma equal_lists:
  assumes "list_all2 (\<lambda>x y. f y = f x \<longleftrightarrow> p x) xs ys"
  shows "map f ys = map f xs \<longleftrightarrow> list_all p xs"
  using assms by (induction rule: list_all2_induct) auto

lemma equal_items:
  assumes "list_all2 (\<lambda>x y. fst y = fst x \<and> (f (snd y) = f (snd x) \<longleftrightarrow> p (snd x))) xs ys"
  shows "map (\<lambda>kv. (fst kv, f (snd kv))) ys = map (\<lambda>kv. (fst kv, f (snd kv))) xs \<longleftrightarrow>
    list_all (\<lambda>kv. p (snd kv)) xs"
  using assms by (induction rule: list_all2_induct) auto

lemma frozen_equals: "freeze_json v = Inr w \<Longrightarrow> py_eq w v \<longleftrightarrow> no_list v"
proof (induction v arbitrary: w)
  case (JFloat f)
  then show ?case by (cases f) (auto simp: py_eq_def)
next
  case (JTuple xs)
  then obtain ys where w: "w = JTuple ys" and "list_all2 (\<lambda>x y. freeze_json x = Inr y) xs ys"
    by (auto simp: result_simps sequenceR_rel)
  then have "list_all2 (\<lambda>x y. eq_form y = eq_form x \<longleftrightarrow> no_list x) xs ys" using JTuple.IH
    by (auto simp: list_all2_conv_all_nth py_eq_def)
  then show ?case using equal_lists [of eq_form no_list xs ys] by (simp add: w py_eq_def)
next
  case (JObj kvs)
  from JObj.prems [unfolded freeze_object_items] obtain ys where w: "w = JObj ys"
    and r: "list_all2 (\<lambda>x y. fst y = fst x \<and> freeze_json (snd x) = Inr (snd y)) (sort_key fst kvs) ys"
    by blast
  have IH: "eq_form (snd y) = eq_form (snd x) \<longleftrightarrow> no_list (snd x)"
    if "x \<in> set (sort_key fst kvs)" "freeze_json (snd x) = Inr (snd y)" for x y
    using JObj.IH [of x "snd x"] that by (cases x) (auto simp: py_eq_def)
  have "list_all2 (\<lambda>x y. fst y = fst x \<and> (eq_form (snd y) = eq_form (snd x) \<longleftrightarrow> no_list (snd x)))
      (sort_key fst kvs) ys"
    by (rule list.rel_mono_strong [OF r]) (use IH in blast)
  moreover have "sorted (map fst ys)" using list_all2_same_fst [OF r] by simp
  then have "sort_key fst ys = ys" by (rule sort_key_id_if_sorted)
  ultimately show ?case
    using equal_items [of eq_form no_list "sort_key fst kvs" ys]
      sort_key_map_fst [of "\<lambda>kv :: string \<times> json. (fst kv, eq_form (snd kv))"]
    by (simp add: w py_eq_def list_all_iff)
qed (auto simp: py_eq_def result_simps)

text \<open>
  C31: Delivering a message twice is not always harmless.  The second delivery of the same call
  returns the stored message if the payload has no list in it; with a list anywhere in the payload it
  raises a conflict, since the stored payload holds a tuple in its place.
\<close>

theorem message_redelivery:
  assumes "append_mailbox_message mid i k op p at s = (Inr m, t)"
    and "map_of (st_mailbox_messages s) mid = None" and "map_of (st_mailbox_messages t) mid \<noteq> None"
  shows "append_mailbox_message mid i k op p at' t =
    (if no_list p then (Inr m, t)
     else (Inl (AuthorityConflict ''mailbox message ID already has different content''), t))"
proof -
  obtain h :: MailboxHead where m: "make_mailbox_message \<lparr>mm_message_id = mid, mm_case_id = i,
      mm_sequence = mh_last_sequence h + 1, mm_authority_epoch = mh_authority_epoch h + 1,
      mm_kind = k, mm_operation = op, mm_payload = p, mm_created_at = at\<rparr> = Inr m"
    and row: "map_of (st_mailbox_messages t) mid = Some m" and c: "map_of (st_cases t) i \<noteq> None"
  proof -
    let ?m = "\<lambda>h :: MailboxHead. \<lparr>mm_message_id = mid, mm_case_id = i,
      mm_sequence = mh_last_sequence h + 1, mm_authority_epoch = mh_authority_epoch h + 1,
      mm_kind = k, mm_operation = op, mm_payload = p, mm_created_at = at\<rparr>"
    let ?d = "List.find (\<lambda>m. mm_case_id m = i \<and>
      oi_idempotency_key (mm_operation m) = oi_idempotency_key op) (map snd (st_mailbox_messages s))"
    have "?d = None" using assms
      by (cases ?d) (auto simp: append_mailbox_message_def method_reads split: if_splits)
    then obtain h c where c: "map_of (st_cases s) i = Some c" and m: "make_mailbox_message (?m h) = Inr m"
      and t: "st_mailbox_messages t = AList.update mid m (st_mailbox_messages s)" "st_cases t = st_cases s"
      using assms(1,2) by (auto simp: append_mailbox_message_def method_reads get_case_def)
    show ?thesis by (rule that [OF m]) (simp_all add: t c)
  qed
  have "freeze_json p = Inr (mm_payload m)"
    using m by (auto simp: make_mailbox_message_def result_simps frozen_payload_Inr freeze_object_Inr)
  from frozen_equals [OF this] show ?thesis
    using row c make_mailbox_message_fields [OF m]
    by (auto simp: append_mailbox_message_def method_reads get_case_def get_row_def
        same_message_request_def)
qed

theorem message_redelivery_witness:
  "append_mailbox_message ''message'' ''case'' UserMessage ex_operation ex_payload (Aware 2) ex_posted =
     (Inr ex_message, ex_posted)"
proof -
  have "map_of (st_mailbox_messages ex_store) ''message'' = None"
    and "map_of (st_mailbox_messages ex_posted) ''message'' \<noteq> None"
    by (simp_all add: ex_posted_def)
  from message_redelivery [OF ex_post this] show ?thesis by (simp add: ex_payload_def)
qed

end
