(* ===== verification/StoreWorkProperties.thy ===== *)
theory StoreWorkProperties imports StoreExamples begin

text \<open>
  What the store promises to and about its workers: leases that fence, jobs that end once and are not lost, and histories
  of attempts.
\<close>

section \<open>Leases\<close>

lemma acquired_job_lease:
  assumes "acquire_job_lease c i o_id now x s = (Inr l, t)"
  shows "jl_outbox_message_id l = i \<and> jl_fencing_token l = next_job_token s i \<and>
    map_of (st_job_leases t) i = Some l"
  using assms by (auto simp: acquire_job_lease_def method_reads)

text \<open>What a worker is told whose token the job does not carry any more.\<close>

lemma refused_worker:
  assumes "\<forall>h. map_of (st_job_leases s) (jl_outbox_message_id l) = Some h \<longrightarrow>
    jl_fencing_token h \<noteq> jl_fencing_token l"
  shows "(\<exists>e. assert_job_lease s c l = Inl e) \<and> (\<exists>e. heartbeat_job_lease c l b x s = (Inl e, s)) \<and>
    (\<exists>e. release_job_lease l s = (Inl e, s))"
proof -
  have gone: "map_of (st_job_leases s) (jl_outbox_message_id l) \<noteq> Some l" using assms by blast
  have "assert_job_lease s c l \<noteq> Inr y" for y
    by (simp add: assert_job_lease_def bindR_Inr_iff gone)
  then have "\<exists>e. assert_job_lease s c l = Inl e" by (rule raisesI)
  moreover have "\<exists>e. release_job_lease l s = (Inl e, s)"
    by (simp add: release_job_lease_def method_reads require_def gone)
  moreover have "\<exists>e. heartbeat_job_lease c l b x s = (Inl e, s)"
  proof (cases "lease_duration x b ''job''")
    case Inl
    then show ?thesis by (simp add: heartbeat_job_lease_def method_reads)
  next
    case (Inr d)
    then show ?thesis
      by (cases "is_aware c")
         (auto simp: heartbeat_job_lease_def method_reads require_def gone trusted_now_def
            require_aware_datetime_def)
  qed
  ultimately show ?thesis by blast
qed

lemma refused_disposition:
  assumes "\<forall>h. map_of (st_job_leases s) (jd_outbox_message_id d) = Some h \<longrightarrow>
    jl_fencing_token h \<noteq> n" and "jd_fencing_token d = Some n"
  shows "\<exists>e. record_job_disposition now d s = (Inl e, s)"
proof -
  have "admit_disposition s now d \<noteq> Inr y" for y
    using assms by (auto simp: admit_disposition_def result_simps split: option.splits if_splits)
  then obtain e where "admit_disposition s now d = Inl e" using raisesI [of "admit_disposition s now d"] by blast
  then show ?thesis by (simp add: record_job_disposition_def method_reads)
qed

text \<open>
  C23: Once a job has been taken over, its former worker is fenced off for good.  The lease of the
  takeover has a greater token, and from then on, whatever happens, the former worker can neither
  prove, renew nor release a lease with its token, nor end the job with it: every such call raises
  and leaves the store as it was.
\<close>

theorem takeover_fences_worker:
  assumes "reachable s" and "acquire_job_lease c i a n x s = (Inr l, t)" and "store_step\<^sup>*\<^sup>* t u"
    and "acquire_job_lease c' i a' n' x' u = (Inr l', v)" and "store_step\<^sup>*\<^sup>* v w"
    and "jl_outbox_message_id k = i" and "jl_fencing_token k = jl_fencing_token l"
    and "jd_outbox_message_id d = i" and "jd_fencing_token d = Some (jl_fencing_token l)"
  shows "jl_fencing_token l < jl_fencing_token l' \<and>
    (\<exists>e. assert_job_lease w clock k = Inl e) \<and> (\<exists>e. heartbeat_job_lease clock k b y w = (Inl e, w)) \<and>
    (\<exists>e. release_job_lease k w = (Inl e, w)) \<and> (\<exists>e. record_job_disposition clock d w = (Inl e, w))"
proof -
  have t: "reachable t" using reachable_step [OF assms(1) store_step.intros(19) [OF assms(2)]] .
  have u: "reachable u" by (rule reachable_steps [OF t assms(3)])
  have v: "reachable v" using reachable_step [OF u store_step.intros(19) [OF assms(4)]] .
  note ok = reachable_leases_ok [OF t, THEN conjunct1] reachable_leases_ok [OF u, THEN conjunct1]
    reachable_leases_ok [OF v, THEN conjunct1]
  have "jl_fencing_token l \<le> issued_token (st_job_lease_tokens t) i"
    using job_lease.held_was_issued [OF ok(1)] acquired_job_lease [OF assms(2)] by blast
  also have "\<dots> \<le> issued_token (st_job_lease_tokens u) i"
    by (rule job_lease.issued_mono [OF store_steps_writes [OF assms(3)] ok(1)])
  also have "\<dots> < jl_fencing_token l'"
    using acquired_job_lease [OF assms(4)] next_job_token_ok [OF ok(2)] by simp
  finally have less: "jl_fencing_token l < jl_fencing_token l'" .
  have now: "map_of (st_job_leases v) i = Some l'" using acquired_job_lease [OF assms(4)] by simp
  then have "jl_fencing_token l' \<le> issued_token (st_job_lease_tokens v) i"
    by (rule job_lease.held_was_issued [OF ok(3)])
  then have gone: "\<forall>h. map_of (st_job_leases w) i = Some h \<longrightarrow> jl_fencing_token h \<noteq> jl_fencing_token l"
    using job_lease.never_again [OF store_steps_writes [OF assms(5)] ok(3), of "jl_fencing_token l" i]
      less now by simp
  show ?thesis
    using less refused_worker [of w k clock b y] refused_disposition [of w d "jl_fencing_token l" clock]
      gone assms(6-9) by simp
qed

theorem takeover_fences_worker_witness:
  "\<exists>e. assert_job_lease (ex_leased (ex_lease ''rival'' 2 20)) (Aware 11) (ex_lease ''worker'' 1 10) = Inl e"
  using takeover_fences_worker [OF ex_jobs_reachable ex_acquire rtranclp.rtrancl_refl ex_takeover
      rtranclp.rtrancl_refl, of "ex_lease ''worker'' 1 10" "ex_disposition (Some 1)"]
  by (simp add: ex_lease_def ex_disposition_def)

section \<open>Jobs\<close>

lemma recorded_disposition:
  assumes "record_job_disposition now d s = (Inr x, t)"
  shows "x = d \<and> map_of (st_job_dispositions t) (jd_outbox_message_id d) = Some d"
  using assms by (auto simp: record_job_disposition_def method_reads split: option.splits if_splits)

lemma disposition_stays:
  assumes "store_step\<^sup>*\<^sup>* s t" and "map_of (st_job_dispositions s) i = Some d"
  shows "map_of (st_job_dispositions t) i = Some d"
  by (rule prefix_map_of [OF dispositions.log_prefix [OF store_steps_writes [OF assms(1)]] assms(2)])

text \<open>
  C24: A job ends once.  After a disposition of a job has been recorded, at any later time it is the
  one that is read back, every other disposition of the job is refused, and the job can not be leased
  again.
\<close>

theorem job_ends_once:
  assumes "record_job_disposition now d s = (Inr x, t)" and "store_step\<^sup>*\<^sup>* t u"
    and "jd_outbox_message_id d' = jd_outbox_message_id d" and "d' \<noteq> d"
  shows "map_of (st_job_dispositions u) (jd_outbox_message_id d) = Some d \<and>
    (\<exists>e. record_job_disposition now' d' u = (Inl e, u)) \<and>
    (\<exists>e. acquire_job_lease c (jd_outbox_message_id d) w b y u = (Inl e, u))"
proof -
  have row: "map_of (st_job_dispositions u) (jd_outbox_message_id d) = Some d"
    using disposition_stays [OF assms(2)] recorded_disposition [OF assms(1)] by blast
  moreover have "\<exists>e. record_job_disposition now' d' u = (Inl e, u)"
    by (cases "admit_disposition u now' d'")
       (use row assms(3,4) in \<open>auto simp: record_job_disposition_def method_reads\<close>)
  moreover have "\<exists>e. acquire_job_lease c (jd_outbox_message_id d) w b y u = (Inl e, u)"
  proof -
    obtain r v where run: "acquire_job_lease c (jd_outbox_message_id d) w b y u = (r, v)"
      by (cases "acquire_job_lease c (jd_outbox_message_id d) w b y u")
    then show ?thesis using row
      by (cases r) (auto simp: acquire_job_lease_def method_reads)
  qed
  ultimately show ?thesis by blast
qed

theorem job_ends_once_witness:
  "\<exists>e. acquire_job_lease (Aware 40) ''job'' ''worker'' (Aware 0) (Aware 5) ex_disposed = (Inl e, ex_disposed)"
  using job_ends_once [OF ex_dispose rtranclp.rtrancl_refl, of "ex_disposition None"]
  by (simp add: ex_disposition_def)

lemma enqueued_message:
  assumes "enqueue_outbox f m s = (Inr x, t)"
  shows "x \<in> set (values_of (st_outbox t))"
  using assms
  by (auto simp: enqueue_outbox_def method_reads put_immutable_Inr values_of_def
      split: option.splits if_splits dest!: find_SomeD)

text \<open>A row of the outbox is kept under the ID of its message.\<close>

lemma outbox_ids_step:
  assumes "writes s t" and "\<forall>(k, m) \<in> set (st_outbox s). k = om_outbox_message_id m"
  shows "\<forall>(k, m) \<in> set (st_outbox t). k = om_outbox_message_id m"
  using assms(1) by (cases rule: writes.cases) (use assms(2) in \<open>auto simp: frame\<close>)

lemma outbox_ids: "reachable s \<Longrightarrow> \<forall>(k, m) \<in> set (st_outbox s). k = om_outbox_message_id m"
proof -
  have "writes\<^sup>*\<^sup>* s t \<Longrightarrow> \<forall>(k, m) \<in> set (st_outbox s). k = om_outbox_message_id m \<Longrightarrow>
      \<forall>(k, m) \<in> set (st_outbox t). k = om_outbox_message_id m" for s t
    by (induction rule: rtranclp_induct) (use outbox_ids_step in blast)+
  then show "reachable s \<Longrightarrow> \<forall>(k, m) \<in> set (st_outbox s). k = om_outbox_message_id m"
    using reachable_writes by (fastforce simp: empty_store_def)
qed

text \<open>
  C25: No job is lost.  A job that was enqueued is pending until it has a disposition: at any later
  time it is among the pending messages, with the content it was enqueued with, exactly if no
  disposition of it is recorded.
\<close>

theorem no_job_is_lost:
  assumes "reachable s" and "enqueue_outbox f m s = (Inr x, t)" and "store_step\<^sup>*\<^sup>* t u"
    and "list_pending_outbox_messages u None = Inr ms"
  shows "x \<in> set ms \<longleftrightarrow> get_job_disposition u (om_outbox_message_id x) = Inr None"
proof -
  have t: "reachable t" using reachable_step [OF assms(1) store_step.intros(16) [OF assms(2)]] .
  have u: "reachable u" by (rule reachable_steps [OF t assms(3)])
  have "x \<in> set (values_of (st_outbox u))"
    by (rule outbox_keys.row_stays [OF store_steps_writes [OF assms(3)] enqueued_message [OF assms(2)]])
  then obtain k where k: "(k, x) \<in> set (st_outbox u)" by (auto simp: values_of_def)
  then have "k = om_outbox_message_id x" using outbox_ids [OF u] by auto
  moreover have "distinct (map fst (st_outbox u))"
    by (rule outbox.keys_distinct [OF reachable_writes [OF u]]) (simp add: empty_store_def)
  ultimately have "map_of (st_outbox u) (om_outbox_message_id x) = Some x" using k by simp
  then have "get_job_disposition u (om_outbox_message_id x) =
      Inr (map_of (st_job_dispositions u) (om_outbox_message_id x))"
    by (simp add: get_job_disposition_def get_outbox_message_def get_row_def)
  moreover have "x \<in> snd ` set (st_outbox u)" using k by force
  moreover have "ms = filter (\<lambda>m. om_outbox_message_id m \<notin> fst ` set (st_job_dispositions u))
      (sort_key outbox_order (map snd (st_outbox u)))"
    using assms(4) by (auto simp: list_pending_outbox_messages_def list_outbox_messages_def result_simps)
  ultimately show ?thesis by (simp add: map_of_eq_None_iff)
qed

theorem no_job_is_lost_witness: "\<exists>ms. list_pending_outbox_messages ex_jobs None = Inr ms \<and> ex_job \<in> set ms"
proof -
  have ms: "list_pending_outbox_messages ex_jobs None = Inr [ex_job]"
    by (simp add: list_pending_outbox_messages_def list_outbox_messages_def ex_jobs_def)
  have "get_job_disposition ex_jobs ''job'' = Inr None"
    by (simp add: get_job_disposition_def get_outbox_message_def get_row_def ex_jobs_def)
  then show ?thesis
    using no_job_is_lost [OF ex_posted_reachable ex_enqueue rtranclp.rtrancl_refl ms] ms by simp
qed

section \<open>The recovery of the dispatcher\<close>

lemma cursor_step:
  assumes "writes s t" and "map_of (st_dispatcher_recovery_cursors s) i = Some p"
  shows "\<exists>q. map_of (st_dispatcher_recovery_cursors t) i = Some q \<and>
    \<not> moves_backwards (recovery_position p) (recovery_position q)"
proof -
  have keep: ?thesis if "st_dispatcher_recovery_cursors t = st_dispatcher_recovery_cursors s"
    using that assms(2) by (auto simp: moves_backwards_def split: option.split)
  show ?thesis using assms(1)
  proof (cases rule: writes.cases)
    case (w_cursor c)
    then show ?thesis using assms(2) keep
      by (auto simp: moves_backwards_def split: option.split)
  qed (rule keep, simp add: frame)+
qed

lemma moves_backwards_trans:
  "\<not> moves_backwards x y \<Longrightarrow> \<not> moves_backwards y z \<Longrightarrow> \<not> moves_backwards x z"
  by (auto simp: moves_backwards_def split: option.splits)

text \<open>
  The dispatcher's recovery cursor only moves forward: a cursor that was read is never ahead of
  one that is read later, and it is not lost.
\<close>

theorem recovery_cursor_moves_forward:
  assumes "store_step\<^sup>*\<^sup>* s t" and "get_dispatcher_recovery_cursor s i = Some p"
  shows "\<exists>q. get_dispatcher_recovery_cursor t i = Some q \<and>
    \<not> moves_backwards (recovery_position p) (recovery_position q)"
  using store_steps_writes [OF assms(1)]
proof (induction rule: rtranclp_induct)
  case base
  show ?case using assms(2)
    by (auto simp: moves_backwards_def split: option.split)
next
  case (step u v)
  then show ?case using cursor_step moves_backwards_trans
    unfolding get_dispatcher_recovery_cursor_def by blast
qed

definition ex_cursor :: "int \<Rightarrow> DispatcherRecoveryCursor" where
  "ex_cursor n = \<lparr>rc_dispatcher_id = ''worker'', rc_last_outbox_created_at = Some (Aware n),
     rc_last_source_event_cursor = Some 1, rc_last_outbox_message_id = Some ''job'',
     rc_updated_at = Aware 9\<rparr>"

theorem recovery_cursor_moves_forward_witness:
  "\<exists>q. get_dispatcher_recovery_cursor
       (snd (advance_dispatcher_recovery_cursor (ex_cursor 3)
          (ex_jobs\<lparr>st_dispatcher_recovery_cursors := [(''worker'', ex_cursor 5)]\<rparr>))) ''worker'' = Some q \<and>
     \<not> moves_backwards (recovery_position (ex_cursor 5)) (recovery_position q)"
proof (rule recovery_cursor_moves_forward)
  let ?s = "ex_jobs\<lparr>st_dispatcher_recovery_cursors := [(''worker'', ex_cursor 5)]\<rparr>"
  show "store_step\<^sup>*\<^sup>* ?s (snd (advance_dispatcher_recovery_cursor (ex_cursor 3) ?s))"
    by (rule r_into_rtranclp) (rule store_step.intros(18) [OF surjective_pairing])
qed (simp add: get_dispatcher_recovery_cursor_def)

section \<open>Effect attempts\<close>

definition attempt_chain :: "EffectAttemptRecord list \<Rightarrow> bool" where
  "attempt_chain h \<longleftrightarrow> numbered ea_attempt_number ea_effect_attempt_id ea_prior_attempt_id h \<and>
     (\<forall>a \<in> set (butlast h). ea_status a = EffectRetryableFailure)"

lemma attempt_write:
  assumes "writes s t" and "values_of (st_effect_attempts t) = values_of (st_effect_attempts s) @ [r]"
    and "attempt_chain (attempts_of s (ea_outbox_message_id r))"
  shows "attempt_chain (attempts_of s (ea_outbox_message_id r) @ [r])"
  using assms(1)
proof (cases rule: writes.cases)
  case (w_attempt a m c)
  let ?h = "attempts_of s (ea_outbox_message_id r)"
  have a: "a = r" using w_attempt(1) assms(2) by simp
  have h: "numbered ea_attempt_number ea_effect_attempt_id ea_prior_attempt_id ?h"
    using assms(3) by (simp add: attempt_chain_def)
  have c: "c = (if ?h = [] then None else Some (last ?h))"
    using w_attempt(5) max_by_numbered [OF h] a by simp
  have "extends ea_attempt_number ea_effect_attempt_id ea_prior_attempt_id ?h r"
    using w_attempt(7,8) c a numbered_last [OF h] by (simp add: extends_def split: if_splits)
  moreover have "ea_status (last ?h) = EffectRetryableFailure" if "?h \<noteq> []"
    using w_attempt(6) c that by simp
  then have "\<forall>x \<in> set ?h. ea_status x = EffectRetryableFailure"
    using assms(3) by (cases ?h rule: rev_cases) (auto simp: attempt_chain_def)
  ultimately show ?thesis using h by (simp add: attempt_chain_def numbered_snoc)
qed (use assms(2) in \<open>simp_all add: frame\<close>)

lemma attempts_of_values: "attempts_of s i = filter (\<lambda>a. ea_outbox_message_id a = i) (values_of (st_effect_attempts s))"
  by (simp add: attempts_of_def values_of_def)

lemma reachable_attempt_chain:
  assumes "reachable s"
  shows "attempt_chain (attempts_of s i)"
  using reachable_writes [OF assms]
proof (induction arbitrary: i rule: rtranclp_induct)
  case base
  show ?case by (simp add: attempts_of_def attempt_chain_def empty_store_def)
next
  case (step t u)
  from effect_history.appends [OF step.hyps(2)] show ?case
  proof
    assume "values_of (st_effect_attempts u) = values_of (st_effect_attempts t)"
    then show ?thesis using step.IH by (simp add: attempts_of_values)
  next
    assume "\<exists>r. values_of (st_effect_attempts u) = values_of (st_effect_attempts t) @ [r]"
    then obtain r where r: "values_of (st_effect_attempts u) = values_of (st_effect_attempts t) @ [r]" ..
    have "attempt_chain (attempts_of t (ea_outbox_message_id r) @ [r])"
      by (rule attempt_write [OF step.hyps(2) r step.IH])
    then show ?thesis using step.IH [of i] r by (auto simp: attempts_of_values)
  qed
qed

text \<open>
  C28: The attempts at an effect form one chain: they are numbered 1, 2, 3 and so on, each names the one
  before it, and every attempt but the last failed in a way that may be tried again; so an effect
  that succeeded, or failed for good, is never attempted again.
\<close>

theorem effect_attempts_form_a_chain:
  assumes "reachable s" and "list_effect_attempts s i = Inr as"
  shows "map ea_attempt_number as = [1..int (length as)] \<and>
    (\<forall>n < length as. ea_prior_attempt_id (as ! n) =
       (if n = 0 then None else Some (ea_effect_attempt_id (as ! (n - 1))))) \<and>
    (\<forall>a \<in> set (butlast as). ea_status a = EffectRetryableFailure)"
proof -
  have chain: "attempt_chain (attempts_of s i)" by (rule reachable_attempt_chain [OF assms(1)])
  then have "as = attempts_of s i"
    using assms(2) numbered_sorted
    by (auto simp: list_effect_attempts_def result_simps attempt_chain_def)
  then show ?thesis using chain numbered_map unfolding attempt_chain_def numbered_def by blast
qed

definition ex_attempt :: "string \<Rightarrow> int \<Rightarrow> string option \<Rightarrow> EffectAttemptStatus \<Rightarrow> EffectAttemptRecord" where
  "ex_attempt i n p st = \<lparr>ea_effect_attempt_id = i, ea_outbox_message_id = ''job'',
     ea_case_id = ''case'', ea_attempt_number = n, ea_prior_attempt_id = p, ea_status = st,
     ea_result_payload = None, ea_result_sha256 = None, ea_error_code = Some ''timeout'',
     ea_error_message = Some ''timeout'', ea_started_at = Aware 30, ea_completed_at = Aware 31\<rparr>"

definition ex_attempts :: "EffectAttemptRecord list" where
  "ex_attempts = [ex_attempt ''first'' 1 None EffectRetryableFailure,
     ex_attempt ''second'' 2 (Some ''first'') EffectTerminalFailure]"

definition ex_attempted :: "EffectAttemptRecord list \<Rightarrow> Store" where
  "ex_attempted as = ex_jobs\<lparr>st_effect_attempts := map (\<lambda>a. (ea_effect_attempt_id a, a)) as\<rparr>"

lemma ex_attempt_runs:
  "record_effect_attempt (hd ex_attempts) ex_jobs = (Inr (hd ex_attempts), ex_attempted [hd ex_attempts])"
  "record_effect_attempt (last ex_attempts) (ex_attempted [hd ex_attempts]) =
     (Inr (last ex_attempts), ex_attempted ex_attempts)"
  by (simp_all add: record_effect_attempt_def method_reads get_outbox_message_def get_row_def
      ex_attempts_def ex_attempt_def ex_attempted_def attempts_of_def put_idempotent_immutable_def
      ex_jobs_def max_by_def ex_job_def ex_posted_def ex_store_simps)

theorem effect_attempts_form_a_chain_witness:
  "list_effect_attempts (ex_attempted ex_attempts) ''job'' = Inr ex_attempts \<and>
     map ea_attempt_number ex_attempts = [1..int (length ex_attempts)]"
proof -
  have r: "reachable (ex_attempted ex_attempts)"
    using reachable_step [OF reachable_step [OF ex_jobs_reachable store_step.intros(11)
        [OF ex_attempt_runs(1)]] store_step.intros(11) [OF ex_attempt_runs(2)]] .
  have as: "list_effect_attempts (ex_attempted ex_attempts) ''job'' = Inr ex_attempts"
    by (simp add: list_effect_attempts_def get_outbox_message_def get_row_def attempts_of_def
        ex_attempted_def ex_attempts_def ex_attempt_def ex_jobs_def)
  show ?thesis using effect_attempts_form_a_chain [OF r as] as by blast
qed

end
