(* ===== verification/StoreResults.thy ===== *)
theory StoreResults imports StoreExamples begin

text \<open>
  Results that are backed by what was recorded before them: the result of a model call by a receipt,
  the completion of an obligation by a dispatch, a checkpoint by the state it describes.
\<close>

section \<open>Model results\<close>

definition backed :: "Store \<Rightarrow> DurableModelResult \<Rightarrow> bool" where
  "backed s r \<longleftrightarrow> (\<exists>q x. map_of (st_provider_attempt_requests s) (dm_provider_attempt_id r) = Some q \<and>
     pq_logical_model_job_id q = dm_logical_model_job_id r \<and>
     receipt_of_attempt s (dm_provider_attempt_id r) = Some x \<and>
     pt_disposition x = ProviderSucceeded \<and> pt_output_sha256 x = Some (dm_output_sha256 r))"

lemma find_append: "List.find p xs = Some x \<Longrightarrow> List.find p (xs @ ys) = Some x"
  by (induction xs) auto

lemma backed_stays:
  assumes "writes s t" and "backed s r"
  shows "backed t r"
proof -
  have p: "prefix (st_provider_attempt_requests s) (st_provider_attempt_requests t)"
    by (rule provider_requests.log_prefix [OF r_into_rtranclp [of writes, OF assms(1)]])
  have "prefix (st_provider_attempt_receipts s) (st_provider_attempt_receipts t)"
    by (rule provider_receipts.log_prefix [OF r_into_rtranclp [of writes, OF assms(1)]])
  then have "receipt_of_attempt t i = Some x" if "receipt_of_attempt s i = Some x" for i x
    using that find_append by (auto simp: receipt_of_attempt_def prefix_def)
  then show ?thesis using assms(2) prefix_map_of [OF p] unfolding backed_def by blast
qed

lemma results_backed:
  assumes "reachable s" and "(j, r) \<in> set (st_durable_model_results s)"
  shows "dm_logical_model_job_id r = j \<and> backed s r"
  using reachable_writes [OF assms(1)] assms(2)
proof (induction arbitrary: j r rule: rtranclp_induct)
  case base
  then show ?case by (simp add: empty_store_def)
next
  case (step t u)
  show ?case
  proof (cases "(j, r) \<in> set (st_durable_model_results t)")
    case True
    then show ?thesis using step.IH backed_stays [OF step.hyps(2)] by blast
  next
    case False
    show ?thesis using step.hyps(2)
    proof (cases rule: writes.cases)
      case (w_model_result r' q x)
      then have "r' = r" "dm_logical_model_job_id r = j" using step.prems False by auto
      moreover have "backed t r'" unfolding backed_def using w_model_result(3-7) by blast
      ultimately show ?thesis using backed_stays [OF step.hyps(2)] by blast
    qed (use step.prems False in \<open>simp_all add: frame\<close>)
  qed
qed

text \<open>
  C29: A model result is backed by its provider: the result a model job is read with comes from an
  attempt at this very job, whose receipt reports success with the digest of the result's output.
\<close>

theorem model_results_are_backed:
  assumes "reachable s" and "get_durable_model_result s j = Inr (Some r)"
  shows "\<exists>q x. get_provider_attempt_request s (dm_provider_attempt_id r) = Inr q \<and>
    pq_logical_model_job_id q = j \<and> receipt_of_attempt s (dm_provider_attempt_id r) = Some x \<and>
    pt_disposition x = ProviderSucceeded \<and> pt_output_sha256 x = Some (dm_output_sha256 r)"
proof -
  have "(j, r) \<in> set (st_durable_model_results s)"
    using assms(2) by (auto simp: get_durable_model_result_def result_simps dest: map_of_SomeD)
  from results_backed [OF assms(1) this] show ?thesis
    by (auto simp: backed_def get_provider_attempt_request_def)
qed

definition ex_model_job :: LogicalModelJob where
  "ex_model_job = \<lparr>lj_logical_model_job_id = ''model'', lj_case_id = ''case'', lj_job_id = ''job'',
     lj_operation_id = ''op'', lj_role = ''binder'', lj_provider_ref = ''p'', lj_model_ref = ''m'',
     lj_prompt_contract_ref = ''c'', lj_input_sha256 = ex_sha CHR ''1'',
     lj_authority_snapshot_sha256 = authority_sha256 ex_posted_authority, lj_created_at = Aware 11\<rparr>"

definition ex_request :: ProviderAttemptRequest where
  "ex_request = \<lparr>pq_provider_attempt_id = ''try'', pq_logical_model_job_id = ''model'',
     pq_attempt_number = 1, pq_prior_provider_attempt_id = None,
     pq_request_sha256 = ex_sha CHR ''2'', pq_requested_at = Aware 12\<rparr>"

definition ex_receipt :: ProviderAttemptReceipt where
  "ex_receipt = \<lparr>pt_provider_attempt_receipt_id = ''receipt'', pt_provider_attempt_id = ''try'',
     pt_logical_model_job_id = ''model'', pt_disposition = ProviderSucceeded,
     pt_provider_response_id = Some ''r'', pt_output_sha256 = Some (digest ex_payload),
     pt_finish_reason = None, pt_usage_payload = JObj [], pt_completed_at = Aware 13\<rparr>"

definition ex_result :: DurableModelResult where
  "ex_result = \<lparr>dm_durable_model_result_id = ''result'', dm_logical_model_job_id = ''model'',
     dm_provider_attempt_id = ''try'', dm_result_kind = ''k'', dm_result_contract_ref = ''c'',
     dm_result_payload = ex_payload, dm_output_sha256 = digest ex_payload, dm_recorded_at = Aware 14\<rparr>"

definition ex_called :: "ProviderAttemptRequest table \<Rightarrow> ProviderAttemptReceipt table \<Rightarrow>
    DurableModelResult table \<Rightarrow> Store" where
  "ex_called qs rs ds = ex_jobs\<lparr>st_logical_model_jobs := [(''model'', ex_model_job)],
     st_provider_attempt_requests := qs, st_provider_attempt_receipts := rs,
     st_durable_model_results := ds\<rparr>"

lemma ex_call_runs:
  "record_logical_model_job ex_model_job ex_jobs = (Inr ex_model_job, ex_called [] [] [])"
  "record_provider_attempt_request ex_request (ex_called [] [] []) =
     (Inr ex_request, ex_called [(''try'', ex_request)] [] [])"
  "record_provider_attempt_receipt ex_receipt (ex_called [(''try'', ex_request)] [] []) =
     (Inr ex_receipt, ex_called [(''try'', ex_request)] [(''receipt'', ex_receipt)] [])"
  "record_durable_model_result ex_result (ex_called [(''try'', ex_request)] [(''receipt'', ex_receipt)] []) =
     (Inr ex_result, ex_called [(''try'', ex_request)] [(''receipt'', ex_receipt)] [(''model'', ex_result)])"
  by (simp_all add: record_logical_model_job_def record_provider_attempt_request_def
      record_provider_attempt_receipt_def record_durable_model_result_def method_reads
      ex_called_def ex_model_job_def ex_request_def ex_receipt_def ex_result_def ex_jobs_def ex_job_def
      ex_operation_def get_case_def get_row_def get_outbox_message_def get_logical_model_job_def
      get_provider_attempt_request_def provider_attempts_of_def receipt_of_attempt_def max_by_def
      put_idempotent_immutable_def ex_posted_def ex_store_simps)

theorem model_results_are_backed_witness:
  "\<exists>s r. get_durable_model_result s ''model'' = Inr (Some r) \<and>
     (\<exists>q. get_provider_attempt_request s (dm_provider_attempt_id r) = Inr q \<and>
        pq_logical_model_job_id q = ''model'')"
proof -
  let ?s = "ex_called [(''try'', ex_request)] [(''receipt'', ex_receipt)] [(''model'', ex_result)]"
  have r: "reachable ?s"
    using reachable_step [OF reachable_step [OF reachable_step [OF reachable_step [OF ex_jobs_reachable
      store_step.intros(7) [OF ex_call_runs(1)]] store_step.intros(8) [OF ex_call_runs(2)]]
      store_step.intros(9) [OF ex_call_runs(3)]] store_step.intros(10) [OF ex_call_runs(4)]] .
  have "get_durable_model_result ?s ''model'' = Inr (Some ex_result)"
    by (simp add: get_durable_model_result_def get_logical_model_job_def get_row_def ex_called_def)
  then show ?thesis using model_results_are_backed [OF r] by blast
qed

section \<open>Completions of obligations\<close>

definition dispatched_success :: "Store \<Rightarrow> ObligationCompletionRecord \<Rightarrow> bool" where
  "dispatched_success s c \<longleftrightarrow> (oc_status (cr_completion c) = ExecutionSucceeded \<longrightarrow>
     (\<exists>d \<in> set (values_of (st_obligation_dispatch_records s)). dr_schedule_id d = cr_schedule_id c \<and>
        di_dispatch_id (dr_dispatch d) = oc_dispatch_id (cr_completion c) \<and>
        di_obligation_id (dr_dispatch d) = oc_obligation_id (cr_completion c)))"

lemma dispatched_success_stays:
  assumes "writes s t" and "dispatched_success s c"
  shows "dispatched_success t c"
proof -
  have "set (values_of (st_obligation_dispatch_records s)) \<subseteq>
      set (values_of (st_obligation_dispatch_records t))"
    using dispatch_keys.row_stays [OF r_into_rtranclp [of writes, OF assms(1)]] by blast
  then show ?thesis using assms(2) unfolding dispatched_success_def by blast
qed

lemma completions_dispatched:
  assumes "reachable s" and "c \<in> set (values_of (st_obligation_completion_records s))"
  shows "dispatched_success s c"
  using reachable_writes [OF assms(1)] assms(2)
proof (induction arbitrary: c rule: rtranclp_induct)
  case base
  then show ?case by (simp add: empty_store_def values_of_def)
next
  case (step t u)
  show ?case
  proof (cases "c \<in> set (values_of (st_obligation_completion_records t))")
    case True
    then show ?thesis using step.IH dispatched_success_stays [OF step.hyps(2)] by blast
  next
    case False
    show ?thesis using step.hyps(2)
    proof (cases rule: writes.cases)
      case (w_completion r sch d a)
      then have r: "r = c" using step.prems False by auto
      have "dispatched_success t r"
        unfolding dispatched_success_def
        using success_dispatch [OF w_completion(5)] w_completion(6) by fastforce
      then show ?thesis using dispatched_success_stays [OF step.hyps(2)] r by blast
    qed (use step.prems False in \<open>simp_all add: frame\<close>)
  qed
qed

text \<open>
  C30: An obligation of a schedule is completed once, and a success has been dispatched: the
  completions a schedule lists are for different obligations, and for each that reports success the
  schedule lists the dispatch it names, of the same obligation.
\<close>

theorem completions_are_dispatched:
  assumes "reachable s" and "list_obligation_completions s i = Inr cs"
    and "list_obligation_dispatches s i = Inr ds"
  shows "distinct (map (\<lambda>c. oc_obligation_id (cr_completion c)) cs) \<and>
    (\<forall>c \<in> set cs. oc_status (cr_completion c) = ExecutionSucceeded \<longrightarrow>
       (\<exists>d \<in> set ds. di_dispatch_id (dr_dispatch d) = oc_dispatch_id (cr_completion c) \<and>
          di_obligation_id (dr_dispatch d) = oc_obligation_id (cr_completion c)))"
proof -
  let ?all = "values_of (st_obligation_completion_records s)"
  have cs: "cs = sort_key (\<lambda>c. oc_obligation_id (cr_completion c)) (filter (\<lambda>c. cr_schedule_id c = i) ?all)"
    and ds: "ds = sort_key (\<lambda>d. di_obligation_id (dr_dispatch d)) (filter (\<lambda>d. dr_schedule_id d = i)
      (values_of (st_obligation_dispatch_records s)))"
    using assms(2,3) by (auto simp: list_obligation_completions_def list_obligation_dispatches_def
        completions_of_def values_of_def result_simps)
  have "distinct (map (\<lambda>r. (cr_schedule_id r, oc_obligation_id (cr_completion r))) ?all)"
    by (rule completion_keys.keys_distinct [OF reachable_writes [OF assms(1)]])
       (simp add: empty_store_def values_of_def)
  then have "distinct (map (\<lambda>c. oc_obligation_id (cr_completion c)) cs)"
    unfolding cs by (auto simp: distinct_map inj_on_def distinct_filter)
  moreover have "dispatched_success s c \<and> cr_schedule_id c = i" if "c \<in> set cs" for c
    using completions_dispatched [OF assms(1), of c] that unfolding cs by simp
  ultimately show ?thesis unfolding dispatched_success_def ds by auto
qed

section \<open>A schedule with one obligation, which is closed by a boundary\<close>

definition ex_boundary :: ResolvedEvidenceObligation where
  "ex_boundary = (ex_obligation CHR ''b'' DispTypedBoundary)\<lparr>ro_case_id := ''case''\<rparr>"

definition ex_case_plan :: WorkPlanRevision where
  "ex_case_plan = \<lparr>wp_plan_revision_id = ''plan'', wp_case_id = ''case'', wp_frame_revision_id = ''frame'',
     wp_revision_number = 1, wp_prior_plan_revision_id = None, wp_created_by_action_id = ''act'',
     wp_created_at = Aware 2, wp_revision_reason = ''first'', wp_resolution_outcome_ids = [''o1''],
     wp_tasks = [\<lparr>wt_task_id = ex_sha CHR ''6'', wt_proposal_task_key = ''k'',
       wt_business_purpose = ''purpose'', wt_capability_intent_ref = ''ref'',
       wt_target_estimand_ids = [''e1''], wt_obligation_ids = [ex_sha CHR ''b''],
       wt_query_binding_ids = [], wt_completion_spec_ids = [''c''], wt_success_policy_refs = [''p''],
       wt_degrade_policy_refs = [''p''], wt_stop_policy_refs = [''p''],
       wt_depends_on_task_ids = []\<rparr>]\<rparr>"

definition ex_case_authority :: AuthoritySnapshot where
  "ex_case_authority = ex_posted_authority\<lparr>au_obligation_state_version := 1\<rparr>"

definition ex_adoption :: PlanAdoptionRecord where
  "ex_adoption = \<lparr>pd_plan_adoption_id = ex_sha CHR ''4'', pd_case_id = ''case'',
     pd_question_revision_id = ''question'', pd_frame_revision_id = ''frame'',
     pd_plan_revision_id = ''plan'', pd_expected_head_version = 2,
     pd_authority_snapshot = ex_case_authority,
     pd_authority_snapshot_sha256 = authority_sha256 ex_case_authority,
     pd_frame_content_sha256 = ex_sha CHR ''f'', pd_plan_content_sha256 = work_plan_sha256 ex_case_plan,
     pd_resolution_outcome_ids = [], pd_resolution_outcome_content_sha256s = [],
     pd_resolution_admission_content_sha256s = [], pd_resolution_context_sha256s = [],
     pd_resolver_input_bundle_sha256s = [], pd_resolution_registry_content_sha256s = [],
     pd_obligation_ids = [ex_sha CHR ''b''],
     pd_obligation_content_sha256s = [obligation_sha256 ex_boundary],
     pd_query_binding_ids = [], pd_query_binding_content_sha256s = [],
     pd_capability_intent_registry_version = capability_intent_registry_version,
     pd_capability_intent_registry_sha256 = capability_intent_registry_sha256,
     pd_adoption_policy_version = ''v1'', pd_derivation_proof_sha256 = ex_sha CHR ''5'',
     pd_created_at = Aware 2, pd_schema_epoch = 3\<rparr>"

lemma ex_adoption_ok: "check_plan_adoption ex_adoption = Inr ()"
proof -
  have "nonempty ''question''" "nonempty ''frame''" "nonempty ''plan''" "nonempty ''v1''"
    "nonempty capability_intent_registry_version"
    by code_simp+
  then show ?thesis
    by (simp add: check_plan_adoption_def ex_adoption_def require_digest_tuple_def
        require_sha256_tuple_def check_unique_nonempty_def require_same_length_def schema_epoch_def)
qed

definition ex_planned :: Store where
  "ex_planned = ex_posted\<lparr>st_plans := [(''plan'', ex_case_plan)],
     st_plan_adoptions := [(ex_sha CHR ''4'', ex_adoption)],
     st_plan_adoption_by_plan := [(''plan'', ex_sha CHR ''4'')],
     st_evidence_obligations := [(ex_sha CHR ''b'', ex_boundary)]\<rparr>"

definition ex_schedule_id :: string where
  "ex_schedule_id = (case build_obligation_schedule_id ''case'' ''case'' ''frame'' ''plan''
     (ex_sha CHR ''4'') (plan_adoption_sha256 ex_adoption) ex_case_authority of Inr i \<Rightarrow> i | Inl _ \<Rightarrow> [])"

definition ex_case_schedule :: ObligationScheduleRecord where
  "ex_case_schedule = \<lparr>os_schedule_id = ex_schedule_id,
     os_case_id = ''case'', os_correlation_id = ''case'',
     os_frame_revision_id = ''frame'', os_plan_revision_id = ''plan'',
     os_plan_adoption_id = ex_sha CHR ''4'', os_plan_adoption_content_sha256 = plan_adoption_sha256 ex_adoption,
     os_obligations = [ex_boundary],
     os_plan_bindings = [\<lparr>pb_obligation_id = ex_sha CHR ''b'', pb_task_id = ex_sha CHR ''6'',
        pb_query_binding_id = None\<rparr>],
     os_dependencies = [\<lparr>dp_obligation_id = ex_sha CHR ''b'', dp_depends_on = []\<rparr>],
     os_authority_snapshot = ex_case_authority,
     os_authority_snapshot_sha256 = authority_sha256 ex_case_authority, os_created_at = Aware 3\<rparr>"

definition ex_scheduled :: Store where
  "ex_scheduled = ex_planned\<lparr>st_obligation_schedules := [(ex_schedule_id, ex_case_schedule)]\<rparr>"

lemma ex_case_authority: "get_authority_snapshot ex_planned ''case'' = Inr ex_case_authority"
proof -
  have "check_authority_snapshot ex_case_authority = Inr ()"
    by (simp add: check_authority_snapshot_def ex_case_authority_def ex_posted_authority_def)
  then show ?thesis
    by (simp add: get_authority_snapshot_def get_case_def get_row_def get_mailbox_head_def
        ex_planned_def ex_posted_def ex_store_simps subscript_def active_candidate_def
        opened_case_def next_head_def ex_message_def count_rows_def ex_posted_authority_def
        ex_case_authority_def ex_boundary_def)
qed

lemma ex_schedule_binding:
  "validate_schedule_plan_binding ex_case_schedule ex_case_plan ex_adoption [] [ex_boundary] = Inr ()"
proof -
  have "nonempty ''plan''" "nonempty ''frame''" by code_simp+
  then have "\<exists>i. build_obligation_schedule_id ''case'' ''case'' ''frame'' ''plan'' (ex_sha CHR ''4'')
      (plan_adoption_sha256 ex_adoption) ex_case_authority = Inr i"
    by (simp add: build_obligation_schedule_id_def bindR_Inr_iff)
  then have "build_obligation_schedule_id ''case'' ''case'' ''frame'' ''plan'' (ex_sha CHR ''4'')
      (plan_adoption_sha256 ex_adoption) ex_case_authority = Inr ex_schedule_id"
    by (auto simp: ex_schedule_id_def)
  moreover have "check_plan_binding \<lparr>pb_obligation_id = ex_sha CHR ''b'', pb_task_id = ex_sha CHR ''6'',
      pb_query_binding_id = None\<rparr> = Inr ()"
    by (simp add: check_plan_binding_def)
  moreover have "check_dependency \<lparr>dp_obligation_id = ex_sha CHR ''b'', dp_depends_on = []\<rparr> = Inr ()"
    by (simp add: check_dependency_def require_string_tuple_def)
  ultimately show ?thesis
    by (simp add: validate_schedule_plan_binding_def ex_case_schedule_def ex_case_plan_def
        ex_adoption_def expected_plan_binding_def expected_dependency_def task_by_obligation_def
        item_def dict_of_def ex_boundary_def)
qed

lemma ex_schedule_run: "record_obligation_schedule ex_case_schedule ex_planned =
    (Inr ex_case_schedule, ex_scheduled)"
proof -
  have f: "os_case_id ex_case_schedule = ''case''" "os_plan_revision_id ex_case_schedule = ''plan''"
    "os_authority_snapshot ex_case_schedule = ex_case_authority"
    "os_schedule_id ex_case_schedule = ex_schedule_id"
    by (simp_all add: ex_case_schedule_def)
  have r: "require_live_case ex_planned ''case'' w = Inr ()"
    "get_row (st_plans ex_planned) ''plan'' w = Inr ex_case_plan"
    "get_plan_adoption ex_planned ''plan'' = Inr ex_adoption"
    "list_query_bindings ex_planned ''plan'' = []"
    "sequenceR (map (get_evidence_obligation ex_planned) (pd_obligation_ids ex_adoption)) = Inr [ex_boundary]"
    "st_obligation_schedules ex_planned = []" for w
    by (simp_all add: require_live_case_def get_case_def get_row_def ex_planned_def ex_adoption_def
        opened_case_def terminal_lifecycle_def get_plan_adoption_def list_query_bindings_def
        get_evidence_obligation_def ex_posted_def ex_store_simps)
  show ?thesis
    by (simp add: record_obligation_schedule_def method_reads f r ex_case_authority
        ex_schedule_binding put_idempotent_immutable_def ex_scheduled_def)
qed

lemma ex_scheduled_reachable: "reachable ex_scheduled"
proof -
  have "foreign_rows ex_posted ex_planned"
    by (rule foreign_rowsI)
       (simp_all add: ex_planned_def ex_posted_def ex_store_simps same_rows_admitted)
  from reachable_step [OF ex_posted_reachable store_step.intros(31) [OF this]]
  show ?thesis by (rule reachable_step) (rule store_step.intros(24) [OF ex_schedule_run])
qed

definition ex_closing :: ObligationCompletionRecord where
  "ex_closing = \<lparr>cr_completion_record_id = ex_sha CHR ''9'', cr_schedule_id = ex_schedule_id,
     cr_completion = system_terminal_completion ex_boundary,
     cr_admitted_authority_sha256 = authority_sha256 ex_case_authority, cr_created_at = Aware 4\<rparr>"

definition ex_closed :: Store where
  "ex_closed = ex_scheduled\<lparr>st_obligation_completion_records := [(ex_sha CHR ''9'', ex_closing)]\<rparr>"

lemma same_tables:
  "get_authority_snapshot ex_scheduled ''case'' = get_authority_snapshot ex_planned ''case''"
  "get_case ex_scheduled ''case'' = Inr (opened_case ''case'' ''thread'' (Aware 0))"
  "get_obligation_schedule ex_scheduled ex_schedule_id = Inr ex_case_schedule"
  "list_obligation_dispatches ex_scheduled ex_schedule_id = Inr []"
  "completions_of ex_scheduled ex_schedule_id = []" "st_obligation_completion_records ex_scheduled = []"
  by (simp_all add: ex_scheduled_def get_authority_snapshot_def get_case_def get_mailbox_head_def
      active_candidate_def get_obligation_schedule_def get_row_def list_obligation_dispatches_def
      completions_of_def ex_planned_def ex_posted_def ex_store_simps)

lemma ex_closing_valid:
  "validate_persisted_obligation_completion ex_case_schedule (system_terminal_completion ex_boundary)
     [] None ex_case_authority = Inr ()"
proof -
  have f: "os_obligations ex_case_schedule = [ex_boundary]"
    "ro_execution_disposition ex_boundary = DispTypedBoundary"
    "ro_obligation_id ex_boundary = ex_sha CHR ''b''"
    by (simp_all add: ex_case_schedule_def ex_boundary_def)
  have "nonempty (''system-terminal:'' @ ex_sha CHR ''b'')" by (simp add: nonempty_def blank_def)
  then have "check_completion (system_terminal_completion ex_boundary) = Inr ()"
    by (simp add: check_completion_def system_terminal_completion_def f)
  moreover have "starts_with (oc_dispatch_id (system_terminal_completion ex_boundary)) ''system-terminal:''"
    by (simp add: system_terminal_completion_def starts_with_def)
  ultimately show ?thesis
    by (simp add: validate_persisted_obligation_completion_def f)
       (simp add: system_terminal_completion_def f)
qed

lemma ex_closing_run: "record_obligation_completion ex_closing ex_scheduled = (Inr ex_closing, ex_closed)"
proof -
  have "oc_status (system_terminal_completion ex_boundary) = TypedBoundary"
    by (simp add: system_terminal_completion_def ex_boundary_def)
  then have "check_completion_currency ex_case_schedule ex_case_authority ex_closing = Inr ()"
    by (simp add: check_completion_currency_def ex_closing_def ex_case_schedule_def Let_def
        same_obligation_business_authority_def)
  moreover have "os_case_id ex_case_schedule = ''case''" "cr_schedule_id ex_closing = ex_schedule_id"
    "cr_completion ex_closing = system_terminal_completion ex_boundary"
    "cr_completion_record_id ex_closing = ex_sha CHR ''9''"
    by (simp_all add: ex_case_schedule_def ex_closing_def)
  moreover have "require_live_case ex_scheduled ''case'' w = Inr ()" for w
    by (simp add: require_live_case_def same_tables opened_case_def terminal_lifecycle_def)
  ultimately show ?thesis
    by (simp add: record_obligation_completion_def method_reads same_tables ex_case_authority
        ex_closing_valid put_idempotent_immutable_def ex_closed_def)
qed

theorem completions_are_dispatched_witness:
  "list_obligation_completions ex_closed ex_schedule_id = Inr [ex_closing] \<and>
     distinct (map (\<lambda>c. oc_obligation_id (cr_completion c)) [ex_closing])"
proof -
  have r: "reachable ex_closed"
    using reachable_step [OF ex_scheduled_reachable store_step.intros(26) [OF ex_closing_run]] .
  have cs: "list_obligation_completions ex_closed ex_schedule_id = Inr [ex_closing]"
    and ds: "list_obligation_dispatches ex_closed ex_schedule_id = Inr []"
    by (simp_all add: list_obligation_completions_def list_obligation_dispatches_def completions_of_def
        get_obligation_schedule_def get_row_def ex_closed_def ex_scheduled_def ex_closing_def
        ex_planned_def ex_posted_def ex_store_simps)
  show ?thesis using completions_are_dispatched [OF r cs ds] cs by blast
qed

section \<open>Checkpoints of a schedule\<close>

abbreviation checkpoint_numbers :: "ObligationScheduleCheckpoint list \<Rightarrow> bool" where
  "checkpoint_numbers \<equiv> numbered sc_checkpoint_number sc_checkpoint_id sc_prior_checkpoint_id"

lemma listed_checkpoints:
  assumes "reachable s" and "list_obligation_schedule_checkpoints s i = Inr cps"
  shows "checkpoint_numbers cps \<and>
    cps = filter (\<lambda>c. sc_schedule_id c = i) (values_of (st_obligation_schedule_checkpoints s))"
proof -
  have "\<forall>k. checkpoint_numbers
      (filter (\<lambda>c. sc_schedule_id c = k) (values_of (st_obligation_schedule_checkpoints s)))"
    by (rule checkpoint_history.histories_numbered [OF reachable_writes [OF assms(1)]])
       (simp add: empty_store_def values_of_def)
  then have n: "checkpoint_numbers
      (filter (\<lambda>c. sc_schedule_id c = i) (values_of (st_obligation_schedule_checkpoints s)))" ..
  then show ?thesis using assms(2) numbered_sorted [OF n]
    by (auto simp: list_obligation_schedule_checkpoints_def values_of_def result_simps)
qed

text \<open>
  A checkpoint can not be recorded twice.  Repeating the very call that recorded a checkpoint is
  refused, although the record is stored by an idempotent insertion: the record has to extend the
  list of checkpoints, which it is on already.
\<close>

theorem checkpoint_retry_is_refused:
  assumes "reachable s" and "record_obligation_schedule_checkpoint r s = (Inr x, t)"
  shows "record_obligation_schedule_checkpoint r t =
    (Inl (InvalidAuthorityTransition ''obligation checkpoint is not a state derivation''), t)"
proof -
  let ?i = "sc_schedule_id r"
  obtain sch cps d where sch: "get_obligation_schedule s ?i = Inr sch"
    and live: "require_live_case s (os_case_id sch) ''obligation checkpoint'' = Inr ()"
    and cps: "list_obligation_schedule_checkpoints s ?i = Inr cps" and der: "derives_checkpoint s sch cps r"
    and put: "put_idempotent_immutable id (st_obligation_schedule_checkpoints s) (sc_checkpoint_id r) r
      ''obligation schedule checkpoint'' = Inr d"
    and t: "t = s\<lparr>st_obligation_schedule_checkpoints := d\<rparr>"
    using assms(2) by (auto simp: record_obligation_schedule_checkpoint_def method_reads)
  have n: "sc_checkpoint_number r = int (length cps) + 1" using der by (simp add: derives_checkpoint_def Let_def)
  note h = listed_checkpoints [OF assms(1) cps]
  have r: "reachable t" using reachable_step [OF assms(1) store_step.intros(27) [OF assms(2)]] .
  have sch': "get_obligation_schedule t ?i = Inr sch"
    and live': "require_live_case t (os_case_id sch) ''obligation checkpoint'' = Inr ()"
    using sch live by (simp_all add: t get_obligation_schedule_def require_live_case_def get_case_def)
  obtain cps' where cps': "list_obligation_schedule_checkpoints t ?i = Inr cps'"
    using sch' by (simp add: list_obligation_schedule_checkpoints_def)
  note h' = listed_checkpoints [OF r cps']
  have "r \<in> set (values_of d)" using put by (auto simp: put_idempotent_Inr values_of_def dest: row_in_values)
  then have "r \<in> set cps'" using h' by (simp add: t)
  then have "sc_checkpoint_number r \<in> set [1..int (length cps')]"
    using numbered_map [of sc_checkpoint_number _ _ cps'] h' by (metis imageI list.set_map)
  then have "\<not> derives_checkpoint t sch cps' r" by (simp add: derives_checkpoint_def Let_def)
  then show ?thesis
    by (simp add: record_obligation_schedule_checkpoint_def method_reads sch' live' cps' require_def)
qed

definition ex_first_checkpoint :: ObligationScheduleCheckpoint where
  "ex_first_checkpoint = \<lparr>sc_checkpoint_id = ''one'', sc_schedule_id = ex_schedule_id,
     sc_checkpoint_number = 1, sc_prior_checkpoint_id = None,
     sc_schedule_sha256 = schedule_sha256 ex_case_schedule, sc_dispatched = [], sc_completed = [],
     sc_pending = [ex_sha CHR ''b''],
     sc_authority_snapshot_sha256 = authority_sha256 ex_case_authority, sc_created_at = Aware 5\<rparr>"

theorem checkpoint_retry_is_refused_witness:
  "\<exists>e t. record_obligation_schedule_checkpoint ex_first_checkpoint ex_scheduled = (Inr ex_first_checkpoint, t) \<and>
     record_obligation_schedule_checkpoint ex_first_checkpoint t = (Inl e, t)"
proof -
  let ?t = "ex_scheduled\<lparr>st_obligation_schedule_checkpoints := [(''one'', ex_first_checkpoint)]\<rparr>"
  have f: "sc_schedule_id ex_first_checkpoint = ex_schedule_id" "sc_checkpoint_id ex_first_checkpoint = ''one''"
    "os_case_id ex_case_schedule = ''case''"
    by (simp_all add: ex_first_checkpoint_def ex_case_schedule_def)
  have no: "st_obligation_schedule_checkpoints ex_scheduled = []"
    "st_obligation_dispatch_records ex_scheduled = []"
    by (simp_all add: ex_scheduled_def ex_planned_def ex_posted_def ex_store_simps)
  have "require_live_case ex_scheduled ''case'' w = Inr ()" for w
    by (simp add: require_live_case_def same_tables opened_case_def terminal_lifecycle_def)
  moreover have "list_obligation_schedule_checkpoints ex_scheduled ex_schedule_id = Inr []"
    by (simp add: list_obligation_schedule_checkpoints_def same_tables no)
  moreover have "derives_checkpoint ex_scheduled ex_case_schedule [] ex_first_checkpoint"
    by (simp add: derives_checkpoint_def ex_first_checkpoint_def dispatched_ids_def completed_ids_def
        same_tables no ex_case_schedule_def ex_boundary_def)
  ultimately have run: "record_obligation_schedule_checkpoint ex_first_checkpoint ex_scheduled =
      (Inr ex_first_checkpoint, ?t)"
    by (simp add: record_obligation_schedule_checkpoint_def method_reads f same_tables no
        put_idempotent_immutable_def)
  then show ?thesis using checkpoint_retry_is_refused [OF ex_scheduled_reachable run] by blast
qed

end
