(* ===== verification/WorkflowAdapter.thy ===== *)
theory WorkflowAdapter imports ObligationAdmission Journal WorkflowModel begin

text \<open>
  \<open>domain/workflow_adapter.py\<close>: the closed policy of journal event types and the translation of an
  event, with the authority records it points to, into a Workflow fact.  The resolver of authority
  records is an argument, as in the code; the store's is \<open>resolve_workflow_event_authority\<close>
  (theory \<open>StoreProjection\<close>).
\<close>

section \<open>Authority of an event\<close>

record AcceptedPlanRecords =
  ap_plan :: WorkPlanRevision
  ap_adoption :: PlanAdoptionRecord
  ap_question :: QuestionRevision
  ap_frame :: FrameView
  ap_obligations :: "ResolvedEvidenceObligation list"

datatype WorkflowEventAuthority =
    AcceptedPlanAuthority AcceptedPlanRecords
  | SupersedingAuthority "QuestionRevision option" "FrameView option"
  | DispatchAuthority ObligationScheduleRecord ObligationDispatchRecord
  | CheckpointAuthority ObligationScheduleRecord ObligationScheduleCheckpoint
      "ObligationCompletionRecord list"
  | SatisfactionAuthority ObligationSatisfactionRecord
  | AnswerAuthority AnswerView
  | NoAuthority

fun check_event_authority :: "WorkflowEventAuthority \<Rightarrow> unit result" where
  "check_event_authority (SupersedingAuthority q f) =
     require ((q = None) \<noteq> (f = None))
       (ValueError ''superseding authority requires exactly one revision'')"
| "check_event_authority _ = Inr ()"

section \<open>Event policies\<close>

datatype EventPolicy =
    PolicyNoChange | PolicyAcceptPlan | PolicySupersedeQuestion | PolicySupersedeFrame
  | PolicyDispatch | PolicyCheckpoint | PolicySatisfaction | PolicyAnswer

definition no_change_events :: "JournalEventType list" where
  "no_change_events = [EvCaseOpened, EvMessageIngressed, EvActionAdmitted, EvActionRejected,
     EvUserDecisionRequested, EvCapabilityResultLanded, EvEvidenceRecorded,
     EvEvidenceAdmissionRecorded, EvMeasurementResolutionRecorded, EvEvidenceObligationRecorded,
     EvEvidenceValidityRecorded, EvEvidenceUseBound, EvObligationScheduleCreated,
     EvObligationCompletionAdmitted, EvSettlementPreconditionRecorded, EvAnswerCandidateRecorded,
     EvClaimPrecheckRecorded, EvInterpretationRecorded, EvUserDecisionRecorded,
     EvReviewerObjectionRecorded, EvWorkflowProjectionApplied, EvCheckpointRecorded, EvEffectEnqueued,
     EvEffectAttemptFailed, EvEffectCompleted, EvLlmJobEnqueued, EvLlmJobCompleted,
     EvMessageBindingJobEnqueued, EvMessageBindingCompleted, EvReviewerJobEnqueued,
     EvReviewerJobCompleted, EvJobSuperseded, EvJobTerminallyFailed, EvRunResumed, EvCaseStopped,
     EvCaseClosed]"

definition event_policies :: "(JournalEventType \<times> EventPolicy) list" where
  "event_policies = fold (\<lambda>(t, p) d. AList.update t p d)
     [(EvPlanAccepted, PolicyAcceptPlan), (EvQuestionAccepted, PolicySupersedeQuestion),
      (EvFrameAccepted, PolicySupersedeFrame), (EvObligationDispatchEnqueued, PolicyDispatch),
      (EvObligationScheduleCheckpointed, PolicyCheckpoint),
      (EvObligationSatisfactionRecorded, PolicySatisfaction), (EvAnswerAccepted, PolicyAnswer)]
     (map (\<lambda>t. (t, PolicyNoChange)) no_change_events)"

definition event_policy :: "JournalEventType \<Rightarrow> EventPolicy option" where
  "event_policy t = map_of event_policies t"

text \<open>The members of the enumeration, in their order.\<close>

definition journal_event_types :: "JournalEventType list" where
  "journal_event_types = [
     EvCaseOpened, EvMessageIngressed, EvActionAdmitted, EvActionRejected, EvUserDecisionRequested,
     EvQuestionAccepted, EvFrameAccepted, EvPlanAccepted, EvCapabilityResultLanded,
     EvEvidenceRecorded, EvEvidenceAdmissionRecorded, EvMeasurementResolutionRecorded,
     EvEvidenceObligationRecorded, EvEvidenceValidityRecorded, EvEvidenceUseBound,
     EvObligationSatisfactionRecorded, EvObligationScheduleCreated, EvObligationDispatchEnqueued,
     EvObligationCompletionAdmitted, EvObligationScheduleCheckpointed,
     EvSettlementPreconditionRecorded, EvAnswerCandidateRecorded, EvClaimPrecheckRecorded,
     EvInterpretationRecorded, EvUserDecisionRecorded, EvReviewerObjectionRecorded, EvAnswerAccepted,
     EvWorkflowProjectionApplied, EvCheckpointRecorded, EvEffectEnqueued, EvEffectAttemptFailed,
     EvEffectCompleted, EvLlmJobEnqueued, EvLlmJobCompleted, EvMessageBindingJobEnqueued,
     EvMessageBindingCompleted, EvReviewerJobEnqueued, EvReviewerJobCompleted, EvJobSuperseded,
     EvJobTerminallyFailed, EvRunResumed, EvCaseStopped, EvCaseClosed]"

definition validate_workflow_event_policy_coverage :: "unit result" where
  "validate_workflow_event_policy_coverage =
     require (set (map fst event_policies) = set journal_event_types)
       (WorkflowJournalEventUnsupported ''Workflow event policy is not closed'')"

section \<open>Facts\<close>

definition event_header :: "EventJournalEntry \<Rightarrow> FactHeader" where
  "event_header e = \<lparr>fact_case_id = ev_case_id e, fact_cursor = ev_cursor e,
     fact_source_event_id = ev_event_id e, fact_source_event_sha256 = journal_event_sha256 e\<rparr>"

definition no_change :: "EventJournalEntry \<Rightarrow> WorkflowFact result" where
  "no_change e = construct check_fact (WorkflowNoChangeFact (event_header e))"

definition require_payload :: "EventJournalEntry \<Rightarrow> (string \<times> json) list \<Rightarrow> unit result" where
  "require_payload e expected =
     bindR (freeze_json (JObj expected)) (\<lambda>f.
       require (py_eq (ev_payload e) f) (WorkflowJournalAdapterError
         (event_type_value (ev_event_type e) @ '' event payload differs from authority'')))"

definition lacks_authority :: "string \<Rightarrow> 'a result" where
  "lacks_authority type_name = Inl (WorkflowJournalAdapterError (''journal event lacks '' @ type_name))"

definition adapter_guard :: "bool \<Rightarrow> string \<Rightarrow> unit result" where
  "adapter_guard c m = require c (WorkflowJournalAdapterError m)"

subsection \<open>An accepted plan\<close>

definition plan_authority_chain :: "EventJournalEntry \<Rightarrow> AcceptedPlanRecords \<Rightarrow> bool" where
  "plan_authority_chain e a \<longleftrightarrow>
    (let p = ap_plan a; ad = ap_adoption a; q = ap_question a; f = ap_frame a in
     ev_authority_ref e = Some (wp_plan_revision_id p) \<and>
     ev_case_id e = wp_case_id p \<and>
     pd_case_id ad = wp_case_id p \<and>
     pd_plan_revision_id ad = wp_plan_revision_id p \<and>
     pd_frame_revision_id ad = wp_frame_revision_id p \<and>
     fr_frame_revision_id f = wp_frame_revision_id p \<and>
     fr_question_revision_id f = pd_question_revision_id ad \<and>
     qr_question_revision_id q = pd_question_revision_id ad \<and>
     pd_plan_content_sha256 ad = work_plan_sha256 p \<and>
     pd_frame_content_sha256 ad = fr_content_sha256 f \<and>
     au_question_revision_id (pd_authority_snapshot ad) = Some (pd_question_revision_id ad) \<and>
     au_frame_revision_id (pd_authority_snapshot ad) = Some (pd_frame_revision_id ad) \<and>
     au_plan_revision_id (pd_authority_snapshot ad) = wp_prior_plan_revision_id p)"

definition adopts_obligations :: "AcceptedPlanRecords \<Rightarrow> bool" where
  "adopts_obligations a \<longleftrightarrow>
     distinct (map ro_obligation_id (ap_obligations a)) \<and>
     map ro_obligation_id (ap_obligations a) = pd_obligation_ids (ap_adoption a) \<and>
     map obligation_sha256 (ap_obligations a) = pd_obligation_content_sha256s (ap_adoption a)"

definition by_obligation :: "(WorkTask \<Rightarrow> string) \<Rightarrow> WorkPlanRevision \<Rightarrow> (string \<times> string) list" where
  "by_obligation f p = dict_of [(b, f t). t \<leftarrow> wp_tasks p, b \<leftarrow> wt_obligation_ids t]"

definition workflow_task_definition :: "WorkTask \<Rightarrow> WorkflowTaskDefinition result" where
  "workflow_task_definition t = construct check_task_definition
     \<lparr>td_task_id = wt_task_id t, td_business_label = wt_business_purpose t\<rparr>"

definition workflow_obligation_definition ::
    "WorkPlanRevision \<Rightarrow> ResolvedEvidenceObligation \<Rightarrow> WorkflowObligationDefinition result" where
  "workflow_obligation_definition p b =
     bindR (item (by_obligation wt_task_id p) (ro_obligation_id b)) (\<lambda>t.
     bindR (item (by_obligation wt_business_purpose p) (ro_obligation_id b)) (\<lambda>l.
     construct check_obligation_definition
       \<lparr>od_obligation_id = ro_obligation_id b, od_task_id = t, od_business_label = l\<rparr>))"

definition accepted_plan_fact :: "EventJournalEntry \<Rightarrow> AcceptedPlanRecords \<Rightarrow> WorkflowFact result" where
  "accepted_plan_fact e a =
    (let p = ap_plan a; ad = ap_adoption a in
     bindR (adapter_guard (plan_authority_chain e a) ''accepted Plan authority chain is inconsistent'') (\<lambda>_.
     bindR (adapter_guard (adopts_obligations a) ''accepted Plan obligations differ from adoption'') (\<lambda>_.
     bindR (adapter_guard (set (concat (map wt_obligation_ids (wp_tasks p))) = set (pd_obligation_ids ad))
              ''accepted Plan task ownership differs from adoption'') (\<lambda>_.
     bindR (require_payload e [
       (''revision_number'', JInt (wp_revision_number p)),
       (''content_sha256'', JStr (work_plan_sha256 p)),
       (''plan_adoption_id'', JStr (pd_plan_adoption_id ad)),
       (''plan_adoption_sha256'', JStr (plan_adoption_sha256 ad)),
       (''query_binding_ids'', strs (pd_query_binding_ids ad)),
       (''head_version'', JInt (pd_expected_head_version ad + 1))]) (\<lambda>_.
     bindR (sequenceR (map workflow_task_definition (wp_tasks p))) (\<lambda>ts.
     bindR (sequenceR (map (workflow_obligation_definition p) (ap_obligations a))) (\<lambda>obs.
     construct check_fact (PlanAcceptedFact (event_header e)
       \<lparr>pa_question_revision_id = qr_question_revision_id (ap_question a),
        pa_question_content_sha256 = question_sha256 (ap_question a),
        pa_frame_revision_id = fr_frame_revision_id (ap_frame a),
        pa_frame_content_sha256 = fr_content_sha256 (ap_frame a),
        pa_plan_revision_id = wp_plan_revision_id p,
        pa_prior_plan_revision_id = wp_prior_plan_revision_id p,
        pa_plan_content_sha256 = work_plan_sha256 p,
        pa_plan_adoption_id = pd_plan_adoption_id ad,
        pa_plan_adoption_sha256 = plan_adoption_sha256 ad,
        pa_tasks = ts, pa_obligations = obs\<rparr>))))))))"

subsection \<open>A superseding question or frame\<close>

text \<open>\<open>isinstance(v, int) and v >= 1\<close>; a bool is an \<open>int\<close>.\<close>

fun valid_head_version :: "json option \<Rightarrow> bool" where
  "valid_head_version (Some (JInt i)) = (\<not> i < 1)"
| "valid_head_version (Some (JBool b)) = b"
| "valid_head_version _ = False"

definition superseded_by ::
    "EventJournalEntry \<Rightarrow> WorkflowReadModel \<Rightarrow> string \<Rightarrow> string \<Rightarrow> WorkflowFact result" where
  "superseded_by e m revision sha =
    (let s = wm_snapshot m in
     if active_plan s = None then no_change e
     else case (ws_plan_revision_id s, ws_plan_content_sha256 s, ws_plan_adoption_id s,
                ws_plan_adoption_sha256 s) of
       (Some p, Some psha, Some ad, Some adsha) \<Rightarrow>
         construct check_fact (AuthoritySupersededFact (event_header e)
           \<lparr>as_superseded_plan_revision_id = p, as_superseded_plan_content_sha256 = psha,
            as_superseded_plan_adoption_id = ad, as_superseded_plan_adoption_sha256 = adsha,
            as_superseding_authority_revision_id = revision,
            as_superseding_authority_content_sha256 = sha\<rparr>)
     | _ \<Rightarrow> Inl (WorkflowJournalAdapterError ''active Workflow Plan lacks accepted authority identity''))"

definition supersede_with ::
    "EventJournalEntry \<Rightarrow> WorkflowReadModel \<Rightarrow> string \<Rightarrow> string \<Rightarrow> string \<Rightarrow> int \<Rightarrow>
     (string \<times> json) list \<Rightarrow> json option \<Rightarrow> WorkflowFact result" where
  "supersede_with e m cid revision sha n extra head =
     bindR (adapter_guard (ev_authority_ref e = Some revision \<and> cid = ev_case_id e)
              ''superseding revision does not bind its journal event'') (\<lambda>_.
     bindR (adapter_guard (valid_head_version head)
              ''authority acceptance event lacks a valid head version'') (\<lambda>_.
     bindR (require_payload e ([(''revision_number'', JInt n), (''content_sha256'', JStr sha)] @ extra @
              [(''head_version'', the head)])) (\<lambda>_.
     superseded_by e m revision sha)))"

definition supersession_fact ::
    "EventJournalEntry \<Rightarrow> WorkflowReadModel \<Rightarrow> QuestionRevision option \<Rightarrow> FrameView option \<Rightarrow>
     EventPolicy \<Rightarrow> WorkflowFact result" where
  "supersession_fact e m q f policy =
     (if policy = PolicySupersedeQuestion
      then case (q, f) of
          (Some r, None) \<Rightarrow>
            supersede_with e m (qr_case_id r) (qr_question_revision_id r) (question_sha256 r)
              (qr_revision_number r) [(''analysis_cycle_id'', JStr (qr_analysis_cycle_id r))]
              (Some (JInt (qr_accepted_head_version r)))
        | _ \<Rightarrow> Inl (WorkflowJournalAdapterError ''question event lacks its Question authority'')
      else case (f, q) of
          (Some r, None) \<Rightarrow>
            supersede_with e m (fr_case_id r) (fr_frame_revision_id r) (fr_content_sha256 r)
              (fr_revision_number r) [] (obj_get (ev_payload e) ''head_version'')
        | _ \<Rightarrow> Inl (WorkflowJournalAdapterError ''Frame event lacks its Frame authority''))"

subsection \<open>Dispatches and checkpoints of a schedule\<close>

definition dispatch_fact ::
    "EventJournalEntry \<Rightarrow> ObligationScheduleRecord \<Rightarrow> ObligationDispatchRecord \<Rightarrow>
     WorkflowFact result" where
  "dispatch_fact e sch d =
    (let sealed = dr_dispatch d in
     bindR (adapter_guard (ev_authority_ref e = Some (dr_dispatch_record_id d) \<and>
              ev_case_id e = os_case_id sch \<and> dr_schedule_id d = os_schedule_id sch \<and>
              di_plan_revision_id sealed = os_plan_revision_id sch \<and>
              di_authority_snapshot sealed = os_authority_snapshot sch)
              ''obligation dispatch changes its schedule authority'') (\<lambda>_.
     bindR (require_payload e [
       (''schedule_id'', JStr (os_schedule_id sch)),
       (''obligation_id'', JStr (di_obligation_id sealed)),
       (''plan_revision_id'', JStr (os_plan_revision_id sch)),
       (''task_id'', JStr (di_task_id sealed)),
       (''query_binding_id'', JStr (di_query_binding_id sealed)),
       (''dispatch_id'', JStr (di_dispatch_id sealed)),
       (''outbox_message_id'', JStr (dr_outbox_message_id d))]) (\<lambda>_.
     construct check_fact (TaskExecutionFact (event_header e) (os_plan_revision_id sch)
       (di_task_id sealed) ExRunning))))"

text \<open>The obligations of each task: \<open>setdefault(task, []).append(obligation)\<close>, then sorted.\<close>

definition append_item :: "ObligationPlanBinding \<Rightarrow> (string \<times> string list) list \<Rightarrow> (string \<times> string list) list"
  where "append_item b d = AList.update (pb_task_id b)
    ((case map_of d (pb_task_id b) of None \<Rightarrow> [] | Some bs \<Rightarrow> bs) @ [pb_obligation_id b]) d"

definition schedule_task_definitions :: "ObligationScheduleRecord \<Rightarrow> (string \<times> string list) list" where
  "schedule_task_definitions sch =
     map (\<lambda>(t, bs). (t, sort bs)) (sort_key fst (fold append_item (os_plan_bindings sch) []))"

definition terminal_state :: "ObligationTerminalStatus list \<Rightarrow> ExecutionState" where
  "terminal_state sts =
     (if ObligationSuperseded \<in> set sts then ExSuperseded
      else if ObligationFailed \<in> set sts then ExFailed else ExSucceeded)"

text \<open>The completions that a checkpoint counts, by obligation: a dict comprehension.\<close>

definition completion_by_obligation ::
    "ObligationScheduleCheckpoint \<Rightarrow> ObligationCompletionRecord list \<Rightarrow>
     (string \<times> ObligationCompletionRecord) list" where
  "completion_by_obligation c crs =
     dict_of (map (\<lambda>r. (oc_obligation_id (cr_completion r), r))
       (filter (\<lambda>r. oc_obligation_id (cr_completion r) \<in> set (sc_completed c)) crs))"

text \<open>The update of one task; \<open>None\<close> is \<open>continue\<close>.\<close>

definition task_update ::
    "ObligationScheduleRecord \<Rightarrow> ObligationScheduleCheckpoint \<Rightarrow>
     (string \<times> ObligationCompletionRecord) list \<Rightarrow> WorkflowTaskProjection \<Rightarrow>
     TaskExecutionUpdate option result" where
  "task_update sch c done_by t =
     (if tp_plan_revision_id t \<noteq> os_plan_revision_id sch then Inr None
      else case List.find (\<lambda>d. fst d = tp_task_id t) (schedule_task_definitions sch) of
        None \<Rightarrow> Inl (WorkflowJournalAdapterError ''schedule lacks a Workflow task binding'')
      | Some (_, bs) \<Rightarrow>
          if set bs \<subseteq> set (sc_completed c)
          then bindR (sequenceR (map (item done_by) bs)) (\<lambda>rs.
                 Inr (Some \<lparr>tu_task_id = tp_task_id t,
                   tu_state = terminal_state (map (\<lambda>r. oc_status (cr_completion r)) rs)\<rparr>))
          else if set bs \<inter> (set (sc_completed c) \<union> set (sc_dispatched c)) \<noteq> {}
          then Inr (Some \<lparr>tu_task_id = tp_task_id t, tu_state = ExRunning\<rparr>)
          else Inr None)"

definition checkpoint_fact ::
    "EventJournalEntry \<Rightarrow> WorkflowReadModel \<Rightarrow> ObligationScheduleRecord \<Rightarrow>
     ObligationScheduleCheckpoint \<Rightarrow> ObligationCompletionRecord list \<Rightarrow> WorkflowFact result" where
  "checkpoint_fact e m sch c crs =
    (let done_by = completion_by_obligation c crs in
     bindR (adapter_guard (ev_authority_ref e = Some (sc_checkpoint_id c) \<and>
              ev_case_id e = os_case_id sch \<and> sc_schedule_id c = os_schedule_id sch \<and>
              sc_schedule_sha256 c = schedule_sha256 sch \<and>
              sc_authority_snapshot_sha256 c = os_authority_snapshot_sha256 sch)
              ''obligation checkpoint changes its schedule authority'') (\<lambda>_.
     bindR (require_payload e [
       (''schedule_id'', JStr (os_schedule_id sch)),
       (''checkpoint_id'', JStr (sc_checkpoint_id c)),
       (''checkpoint_number'', JInt (sc_checkpoint_number c)),
       (''dispatched'', strs (sc_dispatched c)),
       (''completed'', strs (sc_completed c)),
       (''pending'', strs (sc_pending c))]) (\<lambda>_.
     bindR (adapter_guard (set (map fst done_by) = set (sc_completed c))
              ''checkpoint completed set lacks immutable completion records'') (\<lambda>_.
     bindR (adapter_guard (\<forall>r \<in> set (map snd done_by). cr_schedule_id r = os_schedule_id sch)
              ''checkpoint completion belongs to another schedule'') (\<lambda>_.
     bindR (sequenceR (map (task_update sch c done_by) (ws_tasks (wm_snapshot m)))) (\<lambda>us.
       let updates = List.map_filter (\<lambda>u. u) us in
       if updates = [] then no_change e
       else construct check_fact
         (TaskExecutionBatchFact (event_header e) (os_plan_revision_id sch) updates)))))))"

subsection \<open>Satisfactions and answers\<close>

fun satisfaction_state :: "ObligationSatisfactionStatus \<Rightarrow> ObligationState" where
  "satisfaction_state SatOpen = ObOpen"
| "satisfaction_state SatSatisfied = ObSatisfied"
| "satisfaction_state SatBoundary = ObBoundary"
| "satisfaction_state SatBlocked = ObBlocked"
| "satisfaction_state SatSuperseded = ObSuperseded"

definition satisfaction_fact ::
    "EventJournalEntry \<Rightarrow> WorkflowReadModel \<Rightarrow> ObligationSatisfactionRecord \<Rightarrow>
     WorkflowFact result" where
  "satisfaction_fact e m r =
     bindR (adapter_guard (ev_authority_ref e = Some (sr_obligation_satisfaction_id r) \<and>
              py_eq (ev_payload e) (JObj [(''content_sha256'', JStr (satisfaction_sha256 r))]))
              ''satisfaction event does not bind its authority record'') (\<lambda>_.
     case List.find (\<lambda>t. op_obligation_id t = sr_obligation_id r) (ws_obligations (wm_snapshot m)) of
       None \<Rightarrow> Inl (WorkflowJournalAdapterError
         ''satisfaction targets an unknown Workflow obligation'')
     | Some t \<Rightarrow> construct check_fact (ObligationDispositionFact (event_header e)
         (op_plan_revision_id t) (sr_obligation_id r) (satisfaction_state (sr_status r))))"

definition answer_fact :: "EventJournalEntry \<Rightarrow> AnswerView \<Rightarrow> WorkflowFact result" where
  "answer_fact e a =
     bindR (adapter_guard (ev_authority_ref e = Some (an_answer_version_id a) \<and>
              ev_case_id e = an_case_id a \<and> an_status a = AnswerProvisional)
              ''Answer event does not bind a provisional Answer'') (\<lambda>_.
     bindR (require_payload e [
       (''version_number'', JInt (an_version_number a)),
       (''status'', JStr (answer_status_value (an_status a))),
       (''content_sha256'', JStr (an_content_sha256 a)),
       (''head_version'', JInt (an_accepted_head_version a + 1))]) (\<lambda>_.
     construct check_fact (PublicationDispositionFact (event_header e) PubProvisional
       (Some (an_answer_version_id a)))))"

section \<open>The translation\<close>

definition fact_from_authority ::
    "EventPolicy \<Rightarrow> EventJournalEntry \<Rightarrow> WorkflowReadModel \<Rightarrow> WorkflowEventAuthority \<Rightarrow>
     WorkflowFact result" where
  "fact_from_authority policy e m authority =
     (case policy of
        PolicyNoChange \<Rightarrow> no_change e
      | PolicyAcceptPlan \<Rightarrow> (case authority of AcceptedPlanAuthority a \<Rightarrow> accepted_plan_fact e a
          | _ \<Rightarrow> lacks_authority ''AcceptedPlanAuthority'')
      | PolicyDispatch \<Rightarrow> (case authority of DispatchAuthority sch d \<Rightarrow> dispatch_fact e sch d
          | _ \<Rightarrow> lacks_authority ''DispatchAuthority'')
      | PolicyCheckpoint \<Rightarrow>
          (case authority of CheckpointAuthority sch c crs \<Rightarrow> checkpoint_fact e m sch c crs
          | _ \<Rightarrow> lacks_authority ''CheckpointAuthority'')
      | PolicySatisfaction \<Rightarrow> (case authority of SatisfactionAuthority r \<Rightarrow> satisfaction_fact e m r
          | _ \<Rightarrow> lacks_authority ''SatisfactionAuthority'')
      | PolicyAnswer \<Rightarrow> (case authority of AnswerAuthority a \<Rightarrow> answer_fact e a
          | _ \<Rightarrow> lacks_authority ''AnswerAuthority'')
      | _ \<Rightarrow> (case authority of SupersedingAuthority q f \<Rightarrow> supersession_fact e m q f policy
          | _ \<Rightarrow> lacks_authority ''SupersedingAuthority''))"

definition journal_event_to_workflow_fact ::
    "(EventJournalEntry \<Rightarrow> WorkflowEventAuthority result) \<Rightarrow> EventJournalEntry \<Rightarrow>
     WorkflowReadModel \<Rightarrow> WorkflowFact result" where
  "journal_event_to_workflow_fact resolve e m =
     (if ev_case_id e \<noteq> wh_case_id (wm_head m)
      then Inl (WorkflowJournalAdapterError ''journal event belongs to another Workflow case'')
      else case event_policy (ev_event_type e) of
        None \<Rightarrow> Inl (WorkflowJournalEventUnsupported
          (''journal event type '' @ event_type_value (ev_event_type e) @ '' has no Workflow policy''))
      | Some policy \<Rightarrow>
          if policy = PolicyNoChange then no_change e
          else bindR (resolve e) (fact_from_authority policy e m))"

section \<open>Every event has a policy, and a fact binds its event\<close>

lemma event_policy_simps [simp]:
  "event_policy EvPlanAccepted = Some PolicyAcceptPlan"
  "event_policy EvQuestionAccepted = Some PolicySupersedeQuestion"
  "event_policy EvFrameAccepted = Some PolicySupersedeFrame"
  "event_policy EvObligationDispatchEnqueued = Some PolicyDispatch"
  "event_policy EvObligationScheduleCheckpointed = Some PolicyCheckpoint"
  "event_policy EvObligationSatisfactionRecorded = Some PolicySatisfaction"
  "event_policy EvAnswerAccepted = Some PolicyAnswer"
  by (simp_all add: event_policy_def event_policies_def no_change_events_def update_conv')

lemma event_policy_no_change [simp]: "t \<in> set no_change_events \<Longrightarrow> event_policy t = Some PolicyNoChange"
  by (auto simp: event_policy_def event_policies_def no_change_events_def update_conv')

lemma event_type_cases:
  "t \<in> set no_change_events \<or> t \<in> {EvPlanAccepted, EvQuestionAccepted, EvFrameAccepted,
     EvObligationDispatchEnqueued, EvObligationScheduleCheckpointed,
     EvObligationSatisfactionRecorded, EvAnswerAccepted}"
  by (cases t) (simp_all add: no_change_events_def)

lemma policy_coverage: "validate_workflow_event_policy_coverage = Inr ()"
  by (simp add: validate_workflow_event_policy_coverage_def event_policies_def no_change_events_def
      journal_event_types_def dom_update) auto

text \<open>The shape of the fact that each policy yields.\<close>

fun policy_allows :: "EventPolicy \<Rightarrow> WorkflowFact \<Rightarrow> bool" where
  "policy_allows PolicyNoChange f = (\<exists>h. f = WorkflowNoChangeFact h)"
| "policy_allows PolicyAcceptPlan f = (\<exists>h p. f = PlanAcceptedFact h p)"
| "policy_allows PolicySupersedeQuestion f =
     ((\<exists>h. f = WorkflowNoChangeFact h) \<or> (\<exists>h a. f = AuthoritySupersededFact h a))"
| "policy_allows PolicySupersedeFrame f =
     ((\<exists>h. f = WorkflowNoChangeFact h) \<or> (\<exists>h a. f = AuthoritySupersededFact h a))"
| "policy_allows PolicyDispatch f = (\<exists>h p t. f = TaskExecutionFact h p t ExRunning)"
| "policy_allows PolicyCheckpoint f =
     ((\<exists>h. f = WorkflowNoChangeFact h) \<or> (\<exists>h p us. f = TaskExecutionBatchFact h p us))"
| "policy_allows PolicySatisfaction f = (\<exists>h p b st. f = ObligationDispositionFact h p b st)"
| "policy_allows PolicyAnswer f = (\<exists>h a. f = PublicationDispositionFact h PubProvisional (Some a))"

definition fact_shape :: "EventPolicy \<Rightarrow> EventJournalEntry \<Rightarrow> WorkflowFact \<Rightarrow> bool" where
  "fact_shape p e f \<longleftrightarrow> valid_fact f \<and> header f = event_header e \<and> policy_allows p f"

lemma no_change_shape: "no_change e = Inr f \<Longrightarrow> fact_shape PolicyNoChange e f"
  unfolding no_change_def valid_fact_def Let_def fact_shape_def
  by (auto simp: bindR_Inr_iff construct_Inr_iff simp del: check_fact.simps split: if_splits option.splits)

lemma accepted_plan_shape: "accepted_plan_fact e a = Inr f \<Longrightarrow> fact_shape PolicyAcceptPlan e f"
  unfolding accepted_plan_fact_def valid_fact_def Let_def fact_shape_def
  by (auto simp: bindR_Inr_iff construct_Inr_iff simp del: check_fact.simps split: if_splits option.splits)

lemma superseded_by_shape: "superseded_by e m revision sha = Inr f \<Longrightarrow> fact_shape PolicySupersedeQuestion e f"
  unfolding superseded_by_def no_change_def valid_fact_def Let_def fact_shape_def
  by (auto simp: bindR_Inr_iff construct_Inr_iff simp del: check_fact.simps split: if_splits option.splits)

lemma dispatch_shape: "dispatch_fact e sch d = Inr f \<Longrightarrow> fact_shape PolicyDispatch e f"
  unfolding dispatch_fact_def valid_fact_def Let_def fact_shape_def
  by (auto simp: bindR_Inr_iff construct_Inr_iff simp del: check_fact.simps split: if_splits option.splits)

lemma checkpoint_shape: "checkpoint_fact e m sch c crs = Inr f \<Longrightarrow> fact_shape PolicyCheckpoint e f"
  unfolding checkpoint_fact_def no_change_def valid_fact_def Let_def fact_shape_def
  by (auto simp: bindR_Inr_iff construct_Inr_iff simp del: check_fact.simps split: if_splits option.splits)

lemma satisfaction_shape: "satisfaction_fact e m r = Inr f \<Longrightarrow> fact_shape PolicySatisfaction e f"
  unfolding satisfaction_fact_def valid_fact_def Let_def fact_shape_def
  by (auto simp: bindR_Inr_iff construct_Inr_iff simp del: check_fact.simps split: if_splits option.splits)

lemma answer_shape: "answer_fact e an = Inr f \<Longrightarrow> fact_shape PolicyAnswer e f"
  unfolding answer_fact_def valid_fact_def Let_def fact_shape_def
  by (auto simp: bindR_Inr_iff construct_Inr_iff simp del: check_fact.simps split: if_splits option.splits)

lemma supersede_with_shape:
  "supersede_with e m cid revision sha n extra head = Inr x \<Longrightarrow> fact_shape PolicySupersedeQuestion e x"
  unfolding supersede_with_def by (auto simp: bindR_Inr_iff intro: superseded_by_shape)

lemma supersession_shape:
  assumes "supersession_fact e m q f policy = Inr x"
  shows "fact_shape PolicySupersedeQuestion e x" "fact_shape PolicySupersedeFrame e x"
proof -
  show "fact_shape PolicySupersedeQuestion e x"
    using assms by (cases q; cases f) (simp_all add: supersession_fact_def supersede_with_shape split: if_splits)
  then show "fact_shape PolicySupersedeFrame e x" by (simp add: fact_shape_def)
qed

lemma authority_fact_shape: "fact_from_authority p e m a = Inr f \<Longrightarrow> fact_shape p e f"
  by (cases p; cases a)
     (simp_all add: fact_from_authority_def lacks_authority_def no_change_shape accepted_plan_shape
       dispatch_shape checkpoint_shape satisfaction_shape answer_shape supersession_shape)

lemma fact_of_event:
  assumes "journal_event_to_workflow_fact resolve e m = Inr f"
  shows "ev_case_id e = wh_case_id (wm_head m) \<and>
    (\<exists>p. event_policy (ev_event_type e) = Some p \<and> fact_shape p e f)"
  using assms no_change_shape [of e f] authority_fact_shape
  by (fastforce simp: journal_event_to_workflow_fact_def bindR_Inr_iff split: if_splits option.splits)

lemma no_change_fact:
  assumes "make_event e = Inr e" and "ev_case_id e = wh_case_id (wm_head m)"
    and "ev_event_type e \<in> set no_change_events"
  shows "journal_event_to_workflow_fact resolve e m = Inr (WorkflowNoChangeFact (event_header e))"
  using assms by (auto simp: journal_event_to_workflow_fact_def no_change_def make_event_def
      event_header_def validate_fact_header_def journal_event_sha256_def result_simps)

end
