(* ===== verification/StoreProjection.thy ===== *)
theory StoreProjection imports StoreSystem WorkflowAdapter begin

text \<open>
  The Workflow projection in \<open>InMemoryAuthorityStore\<close>: \<open>resolve_workflow_event_authority\<close>, the
  incremental \<open>project_workflow_read_model\<close> and \<open>rebuild_workflow_read_model\<close>, which replays the
  journal from cursor zero.
\<close>

section \<open>The authority of an event\<close>

definition resolve_accepted_plan :: "Store \<Rightarrow> string \<Rightarrow> WorkflowEventAuthority result" where
  "resolve_accepted_plan s ref =
     bindR (get_plan s ref) (\<lambda>p.
     bindR (get_plan_adoption s (wp_plan_revision_id p)) (\<lambda>ad.
     bindR (sequenceR (map (get_evidence_obligation s) (pd_obligation_ids ad))) (\<lambda>obs.
     bindR (get_question s (pd_question_revision_id ad)) (\<lambda>q.
     bindR (get_frame s (pd_frame_revision_id ad)) (\<lambda>f.
       Inr (AcceptedPlanAuthority \<lparr>ap_plan = p, ap_adoption = ad, ap_question = q, ap_frame = f,
              ap_obligations = obs\<rparr>))))))"

definition resolve_dispatch :: "Store \<Rightarrow> string \<Rightarrow> WorkflowEventAuthority result" where
  "resolve_dispatch s ref =
     bindR (get_row (st_obligation_dispatch_records s) ref ''Workflow dispatch authority'') (\<lambda>d.
     bindR (get_obligation_schedule s (dr_schedule_id d)) (\<lambda>sch. Inr (DispatchAuthority sch d)))"

definition resolve_checkpoint :: "Store \<Rightarrow> string \<Rightarrow> WorkflowEventAuthority result" where
  "resolve_checkpoint s ref =
     bindR (get_row (st_obligation_schedule_checkpoints s) ref ''obligation schedule checkpoint'') (\<lambda>c.
     bindR (get_obligation_schedule s (sc_schedule_id c)) (\<lambda>sch.
     bindR (list_obligation_completions s (sc_schedule_id c)) (\<lambda>crs.
       Inr (CheckpointAuthority sch c crs))))"

definition resolve_workflow_event_authority ::
    "Store \<Rightarrow> EventJournalEntry \<Rightarrow> WorkflowEventAuthority result" where
  "resolve_workflow_event_authority s e =
    (let ref = py_or (ev_authority_ref e) ''''; t = ev_event_type e in
     if map_option event_form (map_of (st_events_by_id s) (ev_event_id e)) \<noteq> Some (event_form e)
     then Inl (InvalidAuthorityTransition ''Workflow event is absent from the durable journal'')
     else if t = EvPlanAccepted then resolve_accepted_plan s ref
     else if t = EvQuestionAccepted
     then bindR (get_question s ref) (\<lambda>q. construct check_event_authority (SupersedingAuthority (Some q) None))
     else if t = EvFrameAccepted
     then bindR (get_frame s ref) (\<lambda>f. construct check_event_authority (SupersedingAuthority None (Some f)))
     else if t = EvObligationDispatchEnqueued then resolve_dispatch s ref
     else if t = EvObligationScheduleCheckpointed then resolve_checkpoint s ref
     else if t = EvObligationSatisfactionRecorded
     then bindR (get_row (st_obligation_satisfaction s) ref ''Gate 3.5 obligation satisfaction'') (\<lambda>r.
            Inr (SatisfactionAuthority r))
     else if t = EvAnswerAccepted
     then bindR (get_row (st_answers s) ref ''Gate 3.5 answer'') (\<lambda>a. Inr (AnswerAuthority a))
     else Inr NoAuthority)"

section \<open>Projection and rebuild\<close>

definition validate_projection_against_case :: "Store \<Rightarrow> WorkflowReadModel \<Rightarrow> unit result" where
  "validate_projection_against_case s m =
     bindR (get_case s (wh_case_id (wm_head m))) (\<lambda>c.
     checks [
       require (active_plan (wm_snapshot m) = ic_plan_revision_id c \<and>
                cp_accepted_answer_version_id (ws_case (wm_snapshot m)) = ic_answer_version_id c)
         (InvalidAuthorityTransition ''Workflow projection differs from current case authority''),
       require (\<not> (ic_plan_revision_id c \<noteq> None \<and>
                   (ws_question_revision_id (wm_snapshot m) \<noteq> ic_question_revision_id c \<or>
                    ws_frame_revision_id (wm_snapshot m) \<noteq> ic_frame_revision_id c)))
         (InvalidAuthorityTransition ''Workflow active Plan changes Question or Frame authority'')])"

text \<open>One event of the rebuild, and of the incremental projection.\<close>

definition replay_event :: "Store \<Rightarrow> EventJournalEntry \<Rightarrow> WorkflowReadModel \<Rightarrow> WorkflowReadModel result" where
  "replay_event s e m =
     bindR (journal_event_to_workflow_fact (resolve_workflow_event_authority s) e m) (apply_workflow_fact m)"

definition project_event ::
    "datetime \<Rightarrow> EventJournalEntry \<Rightarrow> WorkflowReadModel \<Rightarrow> (Store, WorkflowReadModel) prog" where
  "project_event at e m =
     bindP (readP (\<lambda>s. replay_event s e m)) (\<lambda>proposed.
       commit_workflow_read_model proposed (wh_version (wm_head m)) at)"

text \<open>The body of the transaction once the stored read model was read.\<close>

definition project_pending ::
    "datetime \<Rightarrow> string \<Rightarrow> WorkflowReadModel \<Rightarrow> (Store, WorkflowReadModel) prog" where
  "project_pending at case_id m =
     bindP (readP (\<lambda>s. list_events s case_id (last_cursor m))) (\<lambda>es.
     bindP (foldP (project_event at) es m) (\<lambda>m'.
     bindP (readP (\<lambda>s. validate_projection_against_case s m')) (\<lambda>_. returnP m')))"

definition project_workflow_read_model ::
    "string \<Rightarrow> ExecutionRealm \<Rightarrow> EvidenceAdmissionProfile \<Rightarrow> datetime \<Rightarrow>
     (Store, WorkflowReadModel) prog" where
  "project_workflow_read_model case_id realm profile at = atomic (
     bindP (get_workflow_read_model case_id realm profile) (project_pending at case_id))"

definition rebuild_workflow_read_model ::
    "Store \<Rightarrow> string \<Rightarrow> ExecutionRealm \<Rightarrow> EvidenceAdmissionProfile \<Rightarrow> WorkflowReadModel result" where
  "rebuild_workflow_read_model s case_id realm profile =
     bindR (get_case s case_id) (\<lambda>_.
     bindR (initial_workflow_read_model case_id realm profile) (\<lambda>m.
     bindR (list_events s case_id 0) (\<lambda>es.
     bindR (foldR (replay_event s) es m) (\<lambda>m'.
     bindR (validate_projection_against_case s m') (\<lambda>_. Inr m')))))"

end
