(* ===== verification/StoreProjectionSteps.thy ===== *)
theory StoreProjectionSteps imports StoreProjection StoreProperties begin

text \<open>
  What the Workflow projection of the store rests on: the authority of an event does not depend on
  the stored projections and does not change when the store grows, and a commit of the next event
  is the write of the replayed read model.
\<close>

section \<open>The tables a replay reads\<close>

lemma getters_ignore_models [simp]:
  "get_case (s\<lparr>st_workflow_read_models := d\<rparr>) = get_case s"
  "list_events (s\<lparr>st_workflow_read_models := d\<rparr>) = list_events s"
  "get_plan (s\<lparr>st_workflow_read_models := d\<rparr>) = get_plan s"
  "get_question (s\<lparr>st_workflow_read_models := d\<rparr>) = get_question s"
  "get_frame (s\<lparr>st_workflow_read_models := d\<rparr>) = get_frame s"
  "get_plan_adoption (s\<lparr>st_workflow_read_models := d\<rparr>) = get_plan_adoption s"
  "get_evidence_obligation (s\<lparr>st_workflow_read_models := d\<rparr>) = get_evidence_obligation s"
  "get_obligation_schedule (s\<lparr>st_workflow_read_models := d\<rparr>) = get_obligation_schedule s"
  "completions_of (s\<lparr>st_workflow_read_models := d\<rparr>) = completions_of s"
  by (intro ext, simp add: get_case_def list_events_def get_plan_def get_question_def get_frame_def
      get_plan_adoption_def get_evidence_obligation_def get_obligation_schedule_def completions_of_def)+

lemma resolvers_ignore_models [simp]:
  "resolve_accepted_plan (s\<lparr>st_workflow_read_models := d\<rparr>) = resolve_accepted_plan s"
  "resolve_dispatch (s\<lparr>st_workflow_read_models := d\<rparr>) = resolve_dispatch s"
  "resolve_checkpoint (s\<lparr>st_workflow_read_models := d\<rparr>) = resolve_checkpoint s"
  by (intro ext, simp add: resolve_accepted_plan_def resolve_dispatch_def resolve_checkpoint_def
      list_obligation_completions_def)+

lemma resolve_ignores_models [simp]:
  "resolve_workflow_event_authority (s\<lparr>st_workflow_read_models := d\<rparr>) = resolve_workflow_event_authority s"
  by (rule ext) (simp add: resolve_workflow_event_authority_def cong: if_cong)

lemma replay_ignores_models [simp]:
  "replay_event (s\<lparr>st_workflow_read_models := d\<rparr>) = replay_event s"
  by (intro ext) (simp add: replay_event_def)

lemma reads_ignore_models [simp]:
  "validate_projection_against_case (s\<lparr>st_workflow_read_models := d\<rparr>) = validate_projection_against_case s"
  "rebuild_workflow_read_model (s\<lparr>st_workflow_read_models := d\<rparr>) = rebuild_workflow_read_model s"
proof -
  show v: "validate_projection_against_case (s\<lparr>st_workflow_read_models := d\<rparr>) = validate_projection_against_case s"
    by (intro ext) (simp add: validate_projection_against_case_def)
  show "rebuild_workflow_read_model (s\<lparr>st_workflow_read_models := d\<rparr>) = rebuild_workflow_read_model s"
    by (intro ext) (simp add: rebuild_workflow_read_model_def v)
qed

section \<open>A growing store\<close>

definition store_grows :: "Store \<Rightarrow> Store \<Rightarrow> bool" where
  "store_grows s t \<longleftrightarrow>
     grown (st_questions s) (st_questions t) \<and> grown (st_frames s) (st_frames t) \<and>
     grown (st_plans s) (st_plans t) \<and> grown (st_plan_adoptions s) (st_plan_adoptions t) \<and>
     grown (st_plan_adoption_by_plan s) (st_plan_adoption_by_plan t) \<and>
     grown (st_evidence_obligations s) (st_evidence_obligations t) \<and>
     grown (st_obligation_satisfaction s) (st_obligation_satisfaction t) \<and>
     grown (st_answers s) (st_answers t) \<and>
     grown (st_obligation_schedules s) (st_obligation_schedules t) \<and>
     grown (st_obligation_dispatch_records s) (st_obligation_dispatch_records t) \<and>
     prefix (st_obligation_completion_records s) (st_obligation_completion_records t) \<and>
     grown (st_obligation_schedule_checkpoints s) (st_obligation_schedule_checkpoints t) \<and>
     grown (st_events_by_id s) (st_events_by_id t)"

lemma store_grows_refl [simp]: "store_grows s s"
  by (simp add: store_grows_def)

lemma store_grows_trans: "store_grows s t \<Longrightarrow> store_grows t u \<Longrightarrow> store_grows s u"
  unfolding store_grows_def by (meson grown_trans prefix_order.trans)

lemma foreign_grown:
  assumes "foreign_rows s t"
  shows "grown (st_questions s) (st_questions t)" "grown (st_frames s) (st_frames t)"
    "grown (st_plans s) (st_plans t)" "grown (st_plan_adoptions s) (st_plan_adoptions t)"
    "grown (st_plan_adoption_by_plan s) (st_plan_adoption_by_plan t)"
    "grown (st_evidence_obligations s) (st_evidence_obligations t)"
    "grown (st_obligation_satisfaction s) (st_obligation_satisfaction t)"
    "grown (st_answers s) (st_answers t)"
  using assms by (auto simp: foreign_rows_def)

lemma prefix_grown: "prefix d d' \<Longrightarrow> grown d d'"
  by (simp add: grown_def prefix_map_of)

lemma foreign_same:
  assumes "writes s t" and "\<not> foreign_rows s t"
  shows "st_questions t = st_questions s" "st_frames t = st_frames s" "st_plans t = st_plans s"
    "st_plan_adoptions t = st_plan_adoptions s"
    "st_plan_adoption_by_plan t = st_plan_adoption_by_plan s"
    "st_evidence_obligations t = st_evidence_obligations s"
    "st_obligation_satisfaction t = st_obligation_satisfaction s" "st_answers t = st_answers s"
  using assms by (cases rule: writes.cases; simp add: push_event_def)+

lemma writes_grow:
  assumes "writes s t"
  shows "store_grows s t"
proof -
  have w: "writes\<^sup>*\<^sup>* s t" using assms by simp
  have "grown (st_obligation_schedules s) (st_obligation_schedules t)"
    "grown (st_obligation_dispatch_records s) (st_obligation_dispatch_records t)"
    "prefix (st_obligation_completion_records s) (st_obligation_completion_records t)"
    "grown (st_obligation_schedule_checkpoints s) (st_obligation_schedule_checkpoints t)"
    using schedules.log_prefix [OF w] dispatches.log_prefix [OF w] completions.log_prefix [OF w]
      schedule_checkpoints.log_prefix [OF w] by (simp_all add: prefix_grown)
  moreover have "grown (st_events_by_id s) (st_events_by_id t)"
    using index_stays_step [OF assms] by (simp add: grown_def)
  moreover have "grown (st_questions s) (st_questions t)" "grown (st_frames s) (st_frames t)"
    "grown (st_plans s) (st_plans t)" "grown (st_plan_adoptions s) (st_plan_adoptions t)"
    "grown (st_plan_adoption_by_plan s) (st_plan_adoption_by_plan t)"
    "grown (st_evidence_obligations s) (st_evidence_obligations t)"
    "grown (st_obligation_satisfaction s) (st_obligation_satisfaction t)"
    "grown (st_answers s) (st_answers t)"
    by (cases "foreign_rows s t"; simp add: foreign_grown foreign_same [OF assms])+
  ultimately show ?thesis by (simp add: store_grows_def)
qed

lemma writes_steps_grow: "writes\<^sup>*\<^sup>* s t \<Longrightarrow> store_grows s t"
proof (induction rule: rtranclp_induct)
  case (step t u)
  then show ?case using writes_grow store_grows_trans by blast
qed simp

section \<open>The authority of an event is settled\<close>

lemma get_row_grown: "grown d d' \<Longrightarrow> get_row d k n = Inr v \<Longrightarrow> get_row d' k n = Inr v"
  by (simp add: get_row_def grown_def split: option.splits)

abbreviation completes :: "ObligationCompletionRecord \<Rightarrow> string" where
  "completes r \<equiv> oc_obligation_id (cr_completion r)"

definition completed_once :: "Store \<Rightarrow> bool" where
  "completed_once s \<longleftrightarrow> distinct (map (\<lambda>r. (cr_schedule_id r, completes r))
     (values_of (st_obligation_completion_records s)))"

lemma completions_once: "completed_once s \<Longrightarrow> distinct (map completes (completions_of s i))"
  by (auto simp: completed_once_def completions_of_def values_of_def distinct_map inj_on_def)

lemma writes_completed_once: "writes\<^sup>*\<^sup>* empty_store s \<Longrightarrow> completed_once s"
  unfolding completed_once_def
  by (erule completion_keys.keys_distinct) (simp add: empty_store_def values_of_def)

text \<open>
  The authority of an event in a store that has grown: only the completions of a schedule can have
  become more, one for each obligation.
\<close>

definition later_authority :: "WorkflowEventAuthority \<Rightarrow> WorkflowEventAuthority \<Rightarrow> bool" where
  "later_authority a a' \<longleftrightarrow> a' = a \<or> (\<exists>sch c crs crs'. a = CheckpointAuthority sch c crs \<and>
     a' = CheckpointAuthority sch c crs' \<and> set crs \<subseteq> set crs' \<and>
     distinct (map completes crs) \<and> distinct (map completes crs'))"

lemma later_authority_refl [simp]: "later_authority a a"
  by (simp add: later_authority_def)

lemma resolve_plan_grows:
  assumes "resolve_accepted_plan s ref = Inr a" and "store_grows s t"
  shows "resolve_accepted_plan t ref = Inr a"
proof -
  from assms(1) obtain p ad obs q f where
    p: "get_plan s ref = Inr p" and ad: "get_plan_adoption s (wp_plan_revision_id p) = Inr ad"
    and obs: "map (get_evidence_obligation s) (pd_obligation_ids ad) = map Inr obs"
    and q: "get_question s (pd_question_revision_id ad) = Inr q"
    and f: "get_frame s (pd_frame_revision_id ad) = Inr f"
    and a: "a = AcceptedPlanAuthority \<lparr>ap_plan = p, ap_adoption = ad, ap_question = q, ap_frame = f,
              ap_obligations = obs\<rparr>"
    by (auto simp: resolve_accepted_plan_def bindR_Inr_iff sequenceR_Inr_iff)
  have g0: "grown (st_plans s) (st_plans t)" "grown (st_questions s) (st_questions t)"
    "grown (st_frames s) (st_frames t)" "grown (st_plan_adoptions s) (st_plan_adoptions t)"
    "grown (st_plan_adoption_by_plan s) (st_plan_adoption_by_plan t)"
    "grown (st_evidence_obligations s) (st_evidence_obligations t)"
    using assms(2) by (simp_all add: store_grows_def)
  have g: "get_plan t ref = Inr p" "get_question t (pd_question_revision_id ad) = Inr q"
    "get_frame t (pd_frame_revision_id ad) = Inr f"
    "get_plan_adoption t (wp_plan_revision_id p) = Inr ad"
    using p q f ad get_row_grown [OF g0(1)] get_row_grown [OF g0(2)] get_row_grown [OF g0(3)]
      get_row_grown [OF g0(4)] get_row_grown [OF g0(5)]
    by (auto simp: get_plan_def get_question_def get_frame_def get_plan_adoption_def bindR_Inr_iff)
  have "get_evidence_obligation s i = Inr b \<Longrightarrow> get_evidence_obligation t i = Inr b" for i b
    using get_row_grown [OF g0(6)] by (simp add: get_evidence_obligation_def)
  then have "map (get_evidence_obligation t) (pd_obligation_ids ad) = map Inr obs"
    using obs by (auto simp: list_eq_iff_nth_eq)
  then show ?thesis using g a by (simp add: resolve_accepted_plan_def)
qed

lemma schedule_grows:
  "store_grows s t \<Longrightarrow> get_obligation_schedule s i = Inr sch \<Longrightarrow> get_obligation_schedule t i = Inr sch"
  using get_row_grown by (fastforce simp: store_grows_def get_obligation_schedule_def)

lemma resolve_dispatch_grows:
  assumes "resolve_dispatch s ref = Inr a" and g: "store_grows s t"
  shows "resolve_dispatch t ref = Inr a"
proof -
  have "grown (st_obligation_dispatch_records s) (st_obligation_dispatch_records t)"
    using g by (simp add: store_grows_def)
  then show ?thesis
    using assms(1) schedule_grows [OF g] get_row_grown by (auto simp: resolve_dispatch_def bindR_Inr_iff)
qed

lemma later_completions:
  assumes "set crs \<subseteq> set crs'" and "distinct (map completes crs)" and "distinct (map completes crs')"
  shows "later_authority (CheckpointAuthority sch c (sort_key completes crs))
    (CheckpointAuthority sch c (sort_key completes crs'))"
  unfolding later_authority_def
  by (rule disjI2, rule exI [of _ sch], rule exI [of _ c], rule exI [of _ "sort_key completes crs"],
      rule exI [of _ "sort_key completes crs'"]) (use assms in simp)

lemma resolve_checkpoint_Inr:
  "resolve_checkpoint s ref = Inr a \<longleftrightarrow> (\<exists>c sch.
     get_row (st_obligation_schedule_checkpoints s) ref ''obligation schedule checkpoint'' = Inr c \<and>
     get_obligation_schedule s (sc_schedule_id c) = Inr sch \<and>
     a = CheckpointAuthority sch c (sort_key completes (completions_of s (sc_schedule_id c))))"
  unfolding resolve_checkpoint_def list_obligation_completions_def bindR_Inr_iff by blast

lemma completions_grow: "store_grows s t \<Longrightarrow> set (completions_of s i) \<subseteq> set (completions_of t i)"
  unfolding completions_of_def store_grows_def using set_mono_prefix by force

lemma resolve_checkpoint_grows:
  assumes "resolve_checkpoint s ref = Inr a" and g: "store_grows s t"
    and once: "completed_once s" "completed_once t"
  shows "\<exists>a'. resolve_checkpoint t ref = Inr a' \<and> later_authority a a'"
proof -
  from assms(1) obtain c sch where
    c: "get_row (st_obligation_schedule_checkpoints s) ref ''obligation schedule checkpoint'' = Inr c"
    and sch: "get_obligation_schedule s (sc_schedule_id c) = Inr sch"
    and a: "a = CheckpointAuthority sch c (sort_key completes (completions_of s (sc_schedule_id c)))"
    unfolding resolve_checkpoint_Inr by blast
  have "grown (st_obligation_schedule_checkpoints s) (st_obligation_schedule_checkpoints t)"
    using g by (simp add: store_grows_def)
  then have "resolve_checkpoint t ref = Inr (CheckpointAuthority sch c
      (sort_key completes (completions_of t (sc_schedule_id c))))"
    unfolding resolve_checkpoint_Inr using get_row_grown [OF _ c] schedule_grows [OF g sch] by blast
  then show ?thesis
    using a later_completions [OF completions_grow [OF g] completions_once [OF once(1)]
        completions_once [OF once(2)]] by blast
qed

lemma resolve_grows:
  assumes "resolve_workflow_event_authority s e = Inr a" and g: "store_grows s t"
    and "completed_once s" and "completed_once t"
  shows "\<exists>a'. resolve_workflow_event_authority t e = Inr a' \<and> later_authority a a'"
proof -
  let ?ref = "py_or (ev_authority_ref e) ''''"
  have here: "map_option event_form (map_of (st_events_by_id s) (ev_event_id e)) = Some (event_form e)"
    using assms(1) by (auto simp: resolve_workflow_event_authority_def Let_def split: if_splits)
  then have there: "map_option event_form (map_of (st_events_by_id t) (ev_event_id e)) = Some (event_form e)"
    using g by (auto simp: store_grows_def grown_def)
  have rows: "get_question s ?ref = Inr q \<Longrightarrow> get_question t ?ref = Inr q"
    "get_frame s ?ref = Inr f \<Longrightarrow> get_frame t ?ref = Inr f"
    "get_row (st_obligation_satisfaction s) ?ref n = Inr r \<Longrightarrow>
       get_row (st_obligation_satisfaction t) ?ref n = Inr r"
    "get_row (st_answers s) ?ref n = Inr an \<Longrightarrow> get_row (st_answers t) ?ref n = Inr an" for q f n r an
    using get_row_grown [of "st_questions s" "st_questions t"] get_row_grown [of "st_frames s" "st_frames t"]
      get_row_grown [of "st_obligation_satisfaction s" "st_obligation_satisfaction t"]
      get_row_grown [of "st_answers s" "st_answers t"] g
    by (simp_all add: store_grows_def get_question_def get_frame_def)
  note defs = resolve_workflow_event_authority_def Let_def
  consider "ev_event_type e = EvPlanAccepted" | "ev_event_type e = EvQuestionAccepted"
    | "ev_event_type e = EvFrameAccepted" | "ev_event_type e = EvObligationDispatchEnqueued"
    | "ev_event_type e = EvObligationScheduleCheckpointed"
    | "ev_event_type e = EvObligationSatisfactionRecorded" | "ev_event_type e = EvAnswerAccepted"
    | "ev_event_type e \<notin> {EvPlanAccepted, EvQuestionAccepted, EvFrameAccepted,
         EvObligationDispatchEnqueued, EvObligationScheduleCheckpointed,
         EvObligationSatisfactionRecorded, EvAnswerAccepted}" by blast
  then show ?thesis
  proof cases
    case 1
    then show ?thesis using assms(1) here there resolve_plan_grows [OF _ g] by (simp add: defs)
  next
    case 2
    then show ?thesis using assms(1) here there rows(1) by (auto simp: defs bindR_Inr_iff)
  next
    case 3
    then show ?thesis using assms(1) here there rows(2) by (auto simp: defs bindR_Inr_iff)
  next
    case 4
    then show ?thesis using assms(1) here there resolve_dispatch_grows [OF _ g] by (simp add: defs)
  next
    case 5
    then show ?thesis using assms(1) here there resolve_checkpoint_grows [OF _ g assms(3,4)]
      by (simp add: defs)
  next
    case 6
    then show ?thesis using assms(1) here there rows(3) by (auto simp: defs bindR_Inr_iff)
  next
    case 7
    then show ?thesis using assms(1) here there rows(4) by (auto simp: defs bindR_Inr_iff)
  next
    case 8
    then show ?thesis using assms(1) here there by (simp add: defs)
  qed
qed

section \<open>The fact of an event is settled\<close>

lemma map_of_completions:
  assumes "distinct (map completes crs)"
  shows "map_of (completion_by_obligation c crs) b = Some r \<longleftrightarrow>
    r \<in> set crs \<and> completes r = b \<and> b \<in> set (sc_completed c)"
proof -
  have d: "distinct (map fst (map (\<lambda>r. (completes r, r)) (filter (\<lambda>r. completes r \<in> set (sc_completed c)) crs)))"
    using assms by (simp add: comp_def distinct_map_filter)
  show ?thesis
    unfolding completion_by_obligation_def map_of_dict_of map_of_distinct_rev [OF d] map_of_eq_Some_iff [OF d]
    by auto
qed

lemma checkpoint_fact_settled:
  assumes f: "checkpoint_fact e m sch c crs = Inr f" and sub: "set crs \<subseteq> set crs'"
    and d: "distinct (map completes crs)" and d': "distinct (map completes crs')"
  shows "checkpoint_fact e m sch c crs' = Inr f"
proof -
  let ?x = "completion_by_obligation c crs" and ?y = "completion_by_obligation c crs'"
  have keys: "set (map fst ?x) = set (sc_completed c)"
    using f by (auto simp: checkpoint_fact_def adapter_guard_def Let_def bindR_Inr_iff)
  have eq: "map_of ?y = map_of ?x"
  proof
    fix b
    show "map_of ?y b = map_of ?x b"
    proof (cases "b \<in> set (sc_completed c)")
      case True
      then obtain r where r: "map_of ?x b = Some r"
        using keys by (metis list.set_map map_of_eq_None_iff not_None_eq)
      then have "map_of ?y b = Some r"
        using sub by (auto simp: map_of_completions [OF d] map_of_completions [OF d'])
      then show ?thesis using r by simp
    next
      case False
      then show ?thesis
        by (metis map_of_completions [OF d] map_of_completions [OF d'] not_None_eq)
    qed
  qed
  have "distinct (map fst ?x)" "distinct (map fst ?y)"
    by (simp_all add: completion_by_obligation_def distinct_dict_of)
  then have s: "set ?y = set ?x" using eq map_of_inject_set by blast
  then have "set (map fst ?y) = set (map fst ?x)" "set (map snd ?y) = set (map snd ?x)" by simp_all
  moreover have "task_update sch c ?y = task_update sch c ?x"
  proof -
    have "item ?y = item ?x" by (intro ext) (simp add: item_def eq)
    then show ?thesis by (intro ext) (simp only: task_update_def)
  qed
  ultimately show ?thesis using f unfolding checkpoint_fact_def Let_def by simp
qed

lemma authority_fact_settled:
  assumes "fact_from_authority p e m a = Inr f" and "later_authority a a'"
  shows "fact_from_authority p e m a' = Inr f"
  using assms(2) unfolding later_authority_def
proof (elim disjE exE conjE)
  fix sch c crs crs' assume a: "a = CheckpointAuthority sch c crs" "a' = CheckpointAuthority sch c crs'"
    and r: "set crs \<subseteq> set crs'" "distinct (map completes crs)" "distinct (map completes crs')"
  show ?thesis
    using assms(1) checkpoint_fact_settled [OF _ r] unfolding a
    by (cases p) (simp_all add: fact_from_authority_def lacks_authority_def)
qed (use assms(1) in simp)

lemma replay_event_settled:
  assumes "replay_event s e m = Inr m'" and "store_grows s t" and "completed_once s" and "completed_once t"
  shows "replay_event t e m = Inr m'"
proof -
  obtain f where f: "journal_event_to_workflow_fact (resolve_workflow_event_authority s) e m = Inr f"
    and m': "apply_workflow_fact m f = Inr m'"
    using assms(1) by (auto simp: replay_event_def bindR_Inr_iff)
  have own: "ev_case_id e = wh_case_id (wm_head m)" using fact_of_event [OF f] by simp
  obtain p where p: "event_policy (ev_event_type e) = Some p" using fact_of_event [OF f] by blast
  have "journal_event_to_workflow_fact (resolve_workflow_event_authority t) e m = Inr f"
  proof (cases "p = PolicyNoChange")
    case True
    then show ?thesis using f own p by (simp add: journal_event_to_workflow_fact_def)
  next
    case False
    then obtain a where a: "resolve_workflow_event_authority s e = Inr a"
      and fa: "fact_from_authority p e m a = Inr f"
      using f own p by (auto simp: journal_event_to_workflow_fact_def bindR_Inr_iff)
    obtain a' where "resolve_workflow_event_authority t e = Inr a'" "later_authority a a'"
      using resolve_grows [OF a assms(2-4)] by blast
    then show ?thesis using False own p authority_fact_settled [OF fa]
      by (simp add: journal_event_to_workflow_fact_def)
  qed
  then show ?thesis using m' by (simp add: replay_event_def)
qed

end
