(* ===== verification/StoreProjectionProperties.thy ===== *)
theory StoreProjectionProperties imports StoreProjectionSteps begin

text \<open>
  The incremental Workflow projection of the store is the rebuild of its journal from cursor zero,
  and a stored read model is bound to the journal entries it was projected from.
\<close>

section \<open>Assignments to a dict\<close>

lemma update_same: "map_of d k = Some v \<Longrightarrow> AList.update k v d = d"
  by (induction d) (auto split: if_splits)

lemma update_twice: "AList.update k w (AList.update k v d) = AList.update k w d"
  by (induction d) auto

section \<open>The next event of a replay\<close>

lemma apply_next:
  assumes inv: "model_inv m" and f: "valid_fact f" and cur: "cursor_of f = last_cursor m + 1"
    and run: "apply_workflow_fact m f = Inr m'"
  obtains r where "model_inv m'" and "last_cursor m' = last_cursor m + 1"
    and "wh_case_id (wm_head m') = wh_case_id (wm_head m)"
    and "ws_realm (wm_snapshot m') = ws_realm (wm_snapshot m)"
    and "ws_evidence_profile (wm_snapshot m') = ws_evidence_profile (wm_snapshot m)"
    and "wm_receipts m' = wm_receipts m @ [r]" and "wr_cursor r = last_cursor m + 1"
    and "wr_source_event_id r = event_of f" and "wr_source_event_sha256 r = event_sha_of f"
  using inv f
proof (cases rule: apply_cases)
  case (extended u t r)
  have u: "u = m'" using extended(1) run by simp
  have si: "snapshot_inv (wm_snapshot m)" using inv by (simp add: model_inv_def)
  have "reduces (wm_snapshot m) (reduce_snapshot (wm_snapshot m) f)"
    using reduce_snapshot_reduces [OF si f] extended(13) model_inv_facts(1) [OF inv] by simp
  then have "same_frame (wm_snapshot m) t" using extended(3) by simp
  moreover have "wr_cursor r = last_cursor m + 1"
  proof -
    have "last (map wr_cursor (wm_receipts m')) = last_cursor m'"
      using model_inv_facts(3,6) [OF inv] model_inv_facts(6) [OF extended(2)] extended(12) u
      by (simp add: upto_rec2)
    then show ?thesis using extended(7,12) u by simp
  qed
  ultimately show ?thesis
    using extended u by (intro that [of r]) (simp_all add: same_frame_def)
qed (use cur run in \<open>auto simp: consumed_def\<close>)

lemma replay_next:
  assumes "model_inv m" and "ev_cursor e = last_cursor m + 1" and "replay_event s e m = Inr m'"
  obtains r where "model_inv m'" and "last_cursor m' = last_cursor m + 1"
    and "wh_case_id (wm_head m') = wh_case_id (wm_head m)"
    and "ws_realm (wm_snapshot m') = ws_realm (wm_snapshot m)"
    and "ws_evidence_profile (wm_snapshot m') = ws_evidence_profile (wm_snapshot m)"
    and "wm_receipts m' = wm_receipts m @ [r]" and "wr_cursor r = ev_cursor e"
    and "wr_source_event_id r = ev_event_id e" and "wr_source_event_sha256 r = journal_event_sha256 e"
proof -
  from assms(3) obtain f
    where f: "journal_event_to_workflow_fact (resolve_workflow_event_authority s) e m = Inr f"
      and run: "apply_workflow_fact m f = Inr m'" by (auto simp: replay_event_def bindR_Inr_iff)
  have h: "valid_fact f" "header f = event_header e"
    using fact_of_event [OF f] by (auto simp: fact_shape_def)
  then have c: "cursor_of f = last_cursor m + 1" using assms(2) by (simp add: event_header_def)
  obtain r where r: "wr_cursor r = last_cursor m + 1" "wr_source_event_id r = event_of f"
      "wr_source_event_sha256 r = event_sha_of f" "wm_receipts m' = wm_receipts m @ [r]"
    and m': "model_inv m'" "last_cursor m' = last_cursor m + 1"
      "wh_case_id (wm_head m') = wh_case_id (wm_head m)"
      "ws_realm (wm_snapshot m') = ws_realm (wm_snapshot m)"
      "ws_evidence_profile (wm_snapshot m') = ws_evidence_profile (wm_snapshot m)"
    using apply_next [OF assms(1) h(1) c run] by metis
  show thesis
    by (rule that [OF m' r(4)]) (use r h(2) assms(2) in \<open>simp_all add: event_header_def\<close>)
qed

lemma commit_next:
  assumes "is_aware at" and row: "map_of (st_workflow_read_models s) i = Some m"
    and m: "model_inv m" "wh_case_id (wm_head m) = i" and m': "model_inv m'"
      "last_cursor m' = last_cursor m + 1" "wh_case_id (wm_head m') = i"
      "ws_realm (wm_snapshot m') = ws_realm (wm_snapshot m)"
      "ws_evidence_profile (wm_snapshot m') = ws_evidence_profile (wm_snapshot m)"
      "wm_receipts m' = wm_receipts m @ [r]"
    and r: "wr_cursor r = ev_cursor e" "wr_source_event_id r = ev_event_id e"
      "wr_source_event_sha256 r = journal_event_sha256 e"
    and live: "get_case s i = Inr c" and e: "require_event_cursor s i (ev_cursor e) = Inr e"
  shows "commit_workflow_read_model m' (wh_version (wm_head m)) at s =
    (Inr m', s\<lparr>st_workflow_read_models := AList.update i m' (st_workflow_read_models s)\<rparr>)"
proof -
  have "m \<noteq> m'" using m'(2) by auto
  moreover have "appends_one_cursor m m' (wh_version (wm_head m))"
    using model_inv_facts(4) [OF m(1)] model_inv_facts(4) [OF m'(1)] m'(2,6)
    by (simp add: appends_one_cursor_def)
  ultimately show ?thesis
    using assms(1) row m m' r live e
    by (simp add: commit_workflow_read_model_def commit_onto_def method_reads current_workflow_model_def
        require_aware_datetime_def Let_def)
qed

section \<open>Projecting the rest of a journal\<close>

lemma event_at_cursor:
  assumes "journal_ok s" and es: "map_of (st_events s) i = Some (pre @ e # rest)"
    and "get_case s i = Inr c"
  shows "require_event_cursor s i (ev_cursor e) = Inr e" and "ev_cursor e = int (length pre) + 1"
    and "ev_case_id e = i"
proof -
  have ok: "map ev_cursor (pre @ e # rest) = [1..int (length (pre @ e # rest))]" "ev_case_id e = i"
    using journal_ok_entries [OF assms(1,2)] by (simp_all add: entries_ok_def)
  then show "ev_case_id e = i" by simp
  have "ev_cursor ((pre @ e # rest) ! length pre) = map ev_cursor (pre @ e # rest) ! length pre"
    by (rule nth_map [symmetric]) simp
  then show n: "ev_cursor e = int (length pre) + 1"
    unfolding ok(1) by (simp add: nth_upto)
  have d: "distinct (map ev_cursor (pre @ e # rest))" unfolding ok(1) by simp
  have "ev_cursor x \<noteq> ev_cursor e" if "x \<in> set pre" for x
    using d imageI [OF that, of ev_cursor] by auto
  then have "List.find (\<lambda>x. ev_cursor x = ev_cursor e) (pre @ e # rest) = Some e"
    by (induction pre) auto
  then show "require_event_cursor s i (ev_cursor e) = Inr e"
    using assms(2,3) by (simp add: require_event_cursor_def subscript_def)
qed

lemma project_rest:
  assumes "is_aware at" and ok: "journal_ok s" and live: "get_case s i = Inr c"
    and "map_of (st_events s) i = Some (pre @ rest)"
    and "map_of (st_workflow_read_models s) i = Some m"
    and "model_inv m" and "wh_case_id (wm_head m) = i" and "last_cursor m = int (length pre)"
  shows "case foldR (replay_event s) rest m of
      Inl e \<Rightarrow> \<exists>t. foldP (project_event at) rest m s = (Inl e, t)
    | Inr m' \<Rightarrow> foldP (project_event at) rest m s =
        (Inr m', s\<lparr>st_workflow_read_models := AList.update i m' (st_workflow_read_models s)\<rparr>)"
  using assms(2-8)
proof (induction rest arbitrary: s m pre)
  case Nil
  then show ?case by (simp add: update_same returnP_def)
next
  case (Cons e rest)
  note at = event_at_cursor [OF Cons.prems(1,3,2)]
  show ?case
  proof (cases "replay_event s e m")
    case (Inl x)
    then show ?thesis by (simp add: project_event_def bindP_def readP_def)
  next
    case (Inr u)
    have "ev_cursor e = last_cursor m + 1" using at(2) Cons.prems(7) by simp
    from replay_next [OF Cons.prems(5) this Inr] obtain r where u: "model_inv u"
      "last_cursor u = last_cursor m + 1" "wh_case_id (wm_head u) = wh_case_id (wm_head m)"
      "ws_realm (wm_snapshot u) = ws_realm (wm_snapshot m)"
      "ws_evidence_profile (wm_snapshot u) = ws_evidence_profile (wm_snapshot m)"
      "wm_receipts u = wm_receipts m @ [r]" and r: "wr_cursor r = ev_cursor e"
      "wr_source_event_id r = ev_event_id e" "wr_source_event_sha256 r = journal_event_sha256 e" .
    let ?s = "s\<lparr>st_workflow_read_models := AList.update i u (st_workflow_read_models s)\<rparr>"
    have "commit_workflow_read_model u (wh_version (wm_head m)) at s = (Inr u, ?s)"
      by (rule commit_next [OF assms(1) Cons.prems(4,5,6) u(1,2) _ u(4,5,6) r Cons.prems(2) at(1)])
        (simp add: u(3) Cons.prems(6))
    then have step: "project_event at e m s = (Inr u, ?s)"
      using Inr by (simp add: project_event_def)
    have "journal_ok ?s" using Cons.prems(1) by (simp add: journal_ok_def entries_ok_def)
    moreover have "get_case ?s i = Inr c" "map_of (st_events ?s) i = Some ((pre @ [e]) @ rest)"
      "map_of (st_workflow_read_models ?s) i = Some u" "last_cursor u = int (length (pre @ [e]))"
      using Cons.prems u(2) by simp_all
    ultimately have "case foldR (replay_event ?s) rest u of
        Inl x \<Rightarrow> \<exists>t. foldP (project_event at) rest u ?s = (Inl x, t)
      | Inr m' \<Rightarrow> foldP (project_event at) rest u ?s = (Inr m', ?s\<lparr>st_workflow_read_models :=
            AList.update i m' (st_workflow_read_models ?s)\<rparr>)"
      using Cons.IH [of ?s "pre @ [e]" u] u(1,3) Cons.prems(6) by simp
    then show ?thesis using Inr step
      by (simp add: bindP_def update_twice split: sum.splits)
  qed
qed

section \<open>Read models replay a prefix of the journal\<close>

text \<open>A receipt names the cursor, the ID and the digest of its event.\<close>

definition receipt_of :: "WorkflowApplicationReceipt \<Rightarrow> EventJournalEntry \<Rightarrow> bool" where
  "receipt_of r e \<longleftrightarrow> wr_cursor r = ev_cursor e \<and> wr_source_event_id r = ev_event_id e \<and>
     wr_source_event_sha256 r = journal_event_sha256 e"

definition replayed :: "Store \<Rightarrow> string \<Rightarrow> WorkflowReadModel \<Rightarrow> bool" where
  "replayed s i m \<longleftrightarrow> model_inv m \<and> wh_case_id (wm_head m) = i \<and>
     (\<exists>pre rest m0. map_of (st_events s) i = Some (pre @ rest) \<and> last_cursor m = int (length pre) \<and>
        initial_workflow_read_model i (ws_realm (wm_snapshot m)) (ws_evidence_profile (wm_snapshot m)) =
          Inr m0 \<and>
        foldR (replay_event s) pre m0 = Inr m \<and> list_all2 receipt_of (wm_receipts m) pre)"

definition replays_journal :: "Store \<Rightarrow> bool" where
  "replays_journal s \<longleftrightarrow> (\<forall>i m. map_of (st_workflow_read_models s) i = Some m \<longrightarrow> replayed s i m)"

lemma initial_model:
  assumes "initial_workflow_read_model i realm profile = Inr m"
  shows "model_inv m" "wm_receipts m = []" "last_cursor m = 0" "wh_case_id (wm_head m) = i"
    "ws_realm (wm_snapshot m) = realm" "ws_evidence_profile (wm_snapshot m) = profile"
proof -
  have "nonempty i" using assms by (simp add: initial_workflow_read_model_def result_simps)
  then obtain s where s: "initial_snapshot i realm profile = Inr s" "ws_realm s = realm"
    "ws_evidence_profile s = profile" by (rule initial_snapshot_total)
  from \<open>nonempty i\<close> obtain x where "initial_workflow_read_model i realm profile = Inr x" "model_inv x"
    "wm_receipts x = []" "last_cursor x = 0" "wh_case_id (wm_head x) = i"
    "initial_snapshot i realm profile = Inr (wm_snapshot x)"
    by (rule initial_model_total)
  then show "model_inv m" "wm_receipts m = []" "last_cursor m = 0" "wh_case_id (wm_head m) = i"
    "ws_realm (wm_snapshot m) = realm" "ws_evidence_profile (wm_snapshot m) = profile"
    using assms s by simp_all
qed

lemma replay_rest:
  assumes "journal_ok s" and "get_case s i = Inr c" and "map_of (st_events s) i = Some (pre @ rest)"
    and "model_inv m" and "wh_case_id (wm_head m) = i" and "last_cursor m = int (length pre)"
    and "foldR (replay_event s) rest m = Inr m'"
  shows "model_inv m' \<and> wh_case_id (wm_head m') = i \<and> last_cursor m' = int (length (pre @ rest)) \<and>
    ws_realm (wm_snapshot m') = ws_realm (wm_snapshot m) \<and>
    ws_evidence_profile (wm_snapshot m') = ws_evidence_profile (wm_snapshot m) \<and>
    (\<exists>rs. wm_receipts m' = wm_receipts m @ rs \<and> list_all2 receipt_of rs rest)"
  using assms(3-7)
proof (induction rest arbitrary: m pre)
  case (Cons e rest)
  then obtain u where u: "replay_event s e m = Inr u" "foldR (replay_event s) rest u = Inr m'"
    by (auto simp: bindR_Inr_iff)
  have "ev_cursor e = last_cursor m + 1"
    using event_at_cursor(2) [OF assms(1) Cons.prems(1) assms(2)] Cons.prems(4) by simp
  from replay_next [OF Cons.prems(2) this u(1)] obtain r where n: "model_inv u"
    "last_cursor u = last_cursor m + 1" "wh_case_id (wm_head u) = wh_case_id (wm_head m)"
    "ws_realm (wm_snapshot u) = ws_realm (wm_snapshot m)"
    "ws_evidence_profile (wm_snapshot u) = ws_evidence_profile (wm_snapshot m)"
    "wm_receipts u = wm_receipts m @ [r]" and r: "wr_cursor r = ev_cursor e"
    "wr_source_event_id r = ev_event_id e" "wr_source_event_sha256 r = journal_event_sha256 e" .
  from Cons.IH [of "pre @ [e]" u] Cons.prems(1,3,4) n u(2) obtain rs where
    "model_inv m'" "wh_case_id (wm_head m') = i" "last_cursor m' = int (length (pre @ e # rest))"
    "ws_realm (wm_snapshot m') = ws_realm (wm_snapshot m)"
    "ws_evidence_profile (wm_snapshot m') = ws_evidence_profile (wm_snapshot m)"
    "wm_receipts m' = wm_receipts u @ rs" "list_all2 receipt_of rs rest" by auto
  moreover have "receipt_of r e" using r by (simp add: receipt_of_def)
  ultimately show ?case using n(6) by (intro conjI exI [of _ "r # rs"]) simp_all
qed simp

lemma list_events_at:
  assumes "journal_ok s" and live: "get_case s i = Inr c" and es: "map_of (st_events s) i = Some (pre @ rest)"
  shows "list_events s i (int (length pre)) = Inr rest"
proof -
  have ok: "map ev_cursor (pre @ rest) = [1..int (length (pre @ rest))]"
    using journal_ok_entries [OF assms(1) es] by (simp add: entries_ok_def)
  have n: "ev_cursor ((pre @ rest) ! k) = int k + 1" if "k < length (pre @ rest)" for k
    using nth_map [OF that, of ev_cursor] that unfolding ok by (simp add: nth_upto)
  have "\<not> ev_cursor x > int (length pre)" if x: "x \<in> set pre" for x
  proof -
    from x obtain k where "k < length pre" "x = pre ! k" by (auto simp: in_set_conv_nth)
    then show ?thesis using n [of k] by (simp add: nth_append)
  qed
  moreover have "ev_cursor x > int (length pre)" if x: "x \<in> set rest" for x
  proof -
    from x obtain k where "k < length rest" "x = rest ! k" by (auto simp: in_set_conv_nth)
    then show ?thesis using n [of "length pre + k"] by (simp add: nth_append)
  qed
  ultimately have "filter (\<lambda>x. ev_cursor x > int (length pre)) (pre @ rest) = rest" by simp
  then show ?thesis using live es by (simp add: list_events_def subscript_def)
qed

section \<open>One projection\<close>

text \<open>The stored read model, when there is one, has the realm and the profile asked for.\<close>

definition same_projection ::
    "Store \<Rightarrow> string \<Rightarrow> ExecutionRealm \<Rightarrow> EvidenceAdmissionProfile \<Rightarrow> bool" where
  "same_projection s i realm profile \<longleftrightarrow> (\<forall>m. map_of (st_workflow_read_models s) i = Some m \<longrightarrow>
     ws_realm (wm_snapshot m) = realm \<and> ws_evidence_profile (wm_snapshot m) = profile)"

definition projection_outcome ::
    "Store \<Rightarrow> string \<Rightarrow> WorkflowReadModel result \<Rightarrow> WorkflowReadModel result \<times> Store" where
  "projection_outcome s i r = (case r of Inl e \<Rightarrow> (Inl e, s)
     | Inr m \<Rightarrow> (Inr m, s\<lparr>st_workflow_read_models := AList.update i m (st_workflow_read_models s)\<rparr>))"

text \<open>The body of the transaction from a stored read model on.\<close>

lemma project_from:
  assumes at: "is_aware at" and ok: "journal_ok s" and live: "get_case s i = Inr c"
    and es: "map_of (st_events s) i = Some (pre @ rest)"
    and row: "map_of (st_workflow_read_models s) i = Some m"
    and m: "model_inv m" "wh_case_id (wm_head m) = i" "last_cursor m = int (length pre)"
  shows "case bindR (foldR (replay_event s) rest m) (\<lambda>m'.
      bindR (validate_projection_against_case s m') (\<lambda>_. Inr m')) of
      Inl e \<Rightarrow> \<exists>t. project_pending at i m s = (Inl e, t)
    | Inr m' \<Rightarrow> project_pending at i m s =
        (Inr m', s\<lparr>st_workflow_read_models := AList.update i m' (st_workflow_read_models s)\<rparr>)"
proof (cases "foldR (replay_event s) rest m")
  case (Inl e)
  then show ?thesis
    using project_rest [OF at ok live es row m] list_events_at [OF ok live es] m(3)
    by (auto simp: project_pending_def bindP_def readP_def)
next
  case (Inr u)
  then show ?thesis
    using project_rest [OF at ok live es row m] list_events_at [OF ok live es] m(3)
    by (cases "validate_projection_against_case s u")
       (simp_all add: project_pending_def bindP_def readP_def returnP_def)
qed

lemma projection_is_rebuild:
  assumes at: "is_aware at" and ok: "journal_ok s" and models: "replays_journal s"
    and same: "same_projection s i realm profile"
  shows "project_workflow_read_model i realm profile at s =
    projection_outcome s i (rebuild_workflow_read_model s i realm profile)"
proof (cases "get_case s i")
  case (Inl e)
  then show ?thesis
    by (simp add: project_workflow_read_model_def rebuild_workflow_read_model_def projection_outcome_def
        get_workflow_read_model_def atomic_def bindP_def readP_def)
next
  case live: (Inr c)
  then obtain es where es: "map_of (st_events s) i = Some es"
    using journal_ok_case [OF ok, of i] by (auto simp: get_case_def get_row_def split: option.splits)
  have all: "list_events s i 0 = Inr es"
    using list_events_at [OF ok live, of "[]" es] es by simp
  show ?thesis
  proof (cases "map_of (st_workflow_read_models s) i")
    case None
    show ?thesis
    proof (cases "initial_workflow_read_model i realm profile")
      case (Inl e)
      then show ?thesis using live None
        by (simp add: project_workflow_read_model_def rebuild_workflow_read_model_def
            projection_outcome_def get_workflow_read_model_def atomic_def bindP_def readP_def)
    next
      case (Inr m0)
      note init = initial_model [OF Inr]
      let ?s = "s\<lparr>st_workflow_read_models := AList.update i m0 (st_workflow_read_models s)\<rparr>"
      have "journal_ok ?s" using ok by (simp add: journal_ok_def entries_ok_def)
      from project_from [OF at this, of i c "[]" es m0] show ?thesis
        using live None Inr init es all
        by (simp add: project_workflow_read_model_def rebuild_workflow_read_model_def
            projection_outcome_def get_workflow_read_model_def atomic_def bindP_def readP_def
            writeP_def returnP_def update_twice split: sum.splits) auto
    qed
  next
    case (Some m)
    then have rep: "replayed s i m" and realm: "ws_realm (wm_snapshot m) = realm"
        "ws_evidence_profile (wm_snapshot m) = profile"
      using models same by (simp_all add: replays_journal_def same_projection_def)
    then obtain pre rest m0 where pre: "es = pre @ rest" "last_cursor m = int (length pre)"
      "initial_workflow_read_model i realm profile = Inr m0" "foldR (replay_event s) pre m0 = Inr m"
      and m: "model_inv m" "wh_case_id (wm_head m) = i"
      using es by (auto simp: replayed_def)
    from project_from [OF at ok live es [unfolded pre(1)] Some m pre(2)] show ?thesis
      using live Some realm all pre
      by (simp add: project_workflow_read_model_def rebuild_workflow_read_model_def foldR_append
          projection_outcome_def get_workflow_read_model_def atomic_def bindP_def readP_def
          returnP_def split: sum.splits) auto
  qed
qed

section \<open>Runs\<close>

text \<open>
  A run of the store in which read models are written by \<open>get_workflow_read_model\<close> and
  \<open>project_workflow_read_model\<close> alone, as in the program: nothing else calls
  \<open>commit_workflow_read_model\<close>.
\<close>

inductive projection_step :: "Store \<Rightarrow> Store \<Rightarrow> bool" where
  other: "store_step s t \<Longrightarrow> st_workflow_read_models t = st_workflow_read_models s \<Longrightarrow> projection_step s t"
| get: "get_workflow_read_model i realm profile s = (r, t) \<Longrightarrow> projection_step s t"
| project: "project_workflow_read_model i realm profile at s = (r, t) \<Longrightarrow> projection_step s t"

definition projected :: "Store \<Rightarrow> bool" where
  "projected s \<longleftrightarrow> projection_step\<^sup>*\<^sup>* empty_store s"

lemma get_model_cases:
  assumes "get_workflow_read_model i realm profile s = (r, t)"
  obtains (raised) e where "r = Inl e" and "t = s"
  | (fresh) m c where "get_case s i = Inr c" and "map_of (st_workflow_read_models s) i = None"
      and "initial_workflow_read_model i realm profile = Inr m" and "r = Inr m"
      and "t = s\<lparr>st_workflow_read_models := AList.update i m (st_workflow_read_models s)\<rparr>"
  | (stored) m where "map_of (st_workflow_read_models s) i = Some m" and "r = Inr m" and "t = s"
      and "ws_realm (wm_snapshot m) = realm" and "ws_evidence_profile (wm_snapshot m) = profile"
proof (cases "get_case s i")
  case (Inl e)
  then have "r = Inl e \<and> t = s" using assms by (auto simp: get_workflow_read_model_def)
  then show ?thesis using raised by blast
next
  case (Inr c)
  show ?thesis
  proof (cases "map_of (st_workflow_read_models s) i")
    case None
    show ?thesis
    proof (cases "initial_workflow_read_model i realm profile")
      case (Inl e)
      then have "r = Inl e \<and> t = s" using assms None \<open>get_case s i = Inr c\<close>
        by (auto simp: get_workflow_read_model_def)
      then show ?thesis using raised by blast
    next
      case init: (Inr m)
      then have "r = Inr m" "t = s\<lparr>st_workflow_read_models := AList.update i m (st_workflow_read_models s)\<rparr>"
        using assms None Inr by (auto simp: get_workflow_read_model_def)
      then show ?thesis by (rule fresh [OF Inr None init])
    qed
  next
    case (Some m)
    show ?thesis
    proof (cases "ws_realm (wm_snapshot m) = realm \<and> ws_evidence_profile (wm_snapshot m) = profile")
      case True
      then have "r = Inr m" "t = s" using assms Inr Some by (auto simp: get_workflow_read_model_def)
      then show ?thesis using stored [OF Some] True by blast
    next
      case False
      then have "\<exists>e. r = Inl e \<and> t = s" using assms Inr Some by (auto simp: get_workflow_read_model_def)
      then show ?thesis using raised by blast
    qed
  qed
qed

lemma commit_any_time:
  "commit_workflow_read_model m n at s = (Inr x, t) \<Longrightarrow> commit_workflow_read_model m n (Aware 0) s = (Inr x, t)"
  by (auto simp: commit_workflow_read_model_def Let_def bindP_def readP_def require_aware_datetime_def
      split: sum.splits)

lemma project_event_run:
  "project_event at e m s = (case replay_event s e m of Inl x \<Rightarrow> (Inl x, s)
     | Inr u \<Rightarrow> commit_workflow_read_model u (wh_version (wm_head m)) at s)"
  by (simp add: project_event_def)

lemma fold_any_time:
  "foldP (project_event at) es m s = (Inr x, t) \<Longrightarrow> foldP (project_event (Aware 0)) es m s = (Inr x, t)"
proof (induction es arbitrary: m s)
  case (Cons e es)
  then obtain y u where "project_event at e m s = (Inr y, u)" "foldP (project_event at) es y u = (Inr x, t)"
    by (auto simp: bindP_Inr_iff)
  moreover from this(1) have "project_event (Aware 0) e m s = (Inr y, u)"
    using commit_any_time by (auto simp: project_event_run split: sum.splits)
  ultimately show ?case using Cons.IH by (simp add: bindP_Inr_iff)
qed simp

lemma atomic_Inr: "atomic body s = (Inr x, t) \<longleftrightarrow> body s = (Inr x, t)"
  by (auto simp: atomic_def split: prod.splits sum.splits)

lemma project_any_time:
  "project_workflow_read_model i realm profile at s = (Inr x, t) \<Longrightarrow>
     project_workflow_read_model i realm profile (Aware 0) s = (Inr x, t)"
  unfolding project_workflow_read_model_def atomic_Inr project_pending_def bindP_Inr_iff
  using fold_any_time by blast

lemma fold_writes:
  "foldP (project_event at) es m s = (r, t) \<Longrightarrow> model_inv m \<Longrightarrow> writes\<^sup>*\<^sup>* s t"
proof (induction es arbitrary: m s)
  case (Cons e es)
  show ?case
  proof (cases "replay_event s e m")
    case (Inl x)
    then show ?thesis using Cons.prems(1) by (simp add: project_event_run bindP_def)
  next
    case (Inr u)
    then obtain f where f: "journal_event_to_workflow_fact (resolve_workflow_event_authority s) e m = Inr f"
      and run: "apply_workflow_fact m f = Inr u" by (auto simp: replay_event_def bindR_Inr_iff)
    then have u: "model_inv u"
      using apply_keeps_inv [OF Cons.prems(2)] fact_of_event [OF f] by (auto simp: fact_shape_def)
    obtain q v where c: "commit_workflow_read_model u (wh_version (wm_head m)) at s = (q, v)"
      by fastforce
    have "check_read_model u = Inr ()" using u by (simp add: model_inv_def)
    then have w: "writes\<^sup>*\<^sup>* s v"
      using commit_workflow_read_model_refines c by (blast dest: refinesD)
    have pe: "project_event at e m s = (q, v)" using Inr c by (simp add: project_event_run)
    have same: "q = Inr x \<Longrightarrow> x = u" for x
      using c by (auto simp: commit_workflow_read_model_def commit_onto_def Let_def bindP_def readP_def
          writeP_def returnP_def raiseP_def split: sum.splits if_splits)
    show ?thesis
    proof (cases q)
      case (Inl x)
      then show ?thesis using Cons.prems(1) pe w by (simp add: bindP_def)
    next
      case (Inr x)
      then have "foldP (project_event at) es u v = (r, t)"
        using Cons.prems(1) pe same by (simp add: bindP_def)
      then show ?thesis using Cons.IH [OF _ u] w by (meson rtranclp_trans)
    qed
  qed
qed (simp add: returnP_def)

lemma pending_writes:
  assumes "project_pending at i m s = (r, t)" and m: "model_inv m"
  shows "writes\<^sup>*\<^sup>* s t"
proof (cases "list_events s i (last_cursor m)")
  case (Inl e)
  then show ?thesis using assms(1) by (simp add: project_pending_def)
next
  case (Inr es)
  obtain q u where f: "foldP (project_event at) es m s = (q, u)" by fastforce
  have "t = u"
    using assms(1) Inr f by (cases q) (auto simp: project_pending_def bindP_def readP_def returnP_def
      split: sum.splits)
  then show ?thesis using fold_writes [OF f m] by simp
qed

lemma project_writes:
  assumes "project_workflow_read_model i realm profile at s = (r, t)" and "replays_journal s"
  shows "writes\<^sup>*\<^sup>* s t"
proof (cases r)
  case (Inl e)
  then show ?thesis using assms(1)
    by (auto simp: project_workflow_read_model_def atomic_def split: prod.splits sum.splits)
next
  case (Inr x)
  then obtain m u where g: "get_workflow_read_model i realm profile s = (Inr m, u)"
    and p: "project_pending at i m u = (Inr x, t)"
    using assms(1) by (auto simp: project_workflow_read_model_def atomic_Inr bindP_Inr_iff)
  have "model_inv m"
    using g by (cases rule: get_model_cases)
      (use assms(2) initial_model(1) in \<open>auto simp: replays_journal_def replayed_def\<close>)
  then show ?thesis
    using pending_writes [OF p] refinesD [OF get_workflow_read_model_refines g] by (meson rtranclp_trans)
qed

lemma replayed_ignores_models [simp]:
  "replayed (s\<lparr>st_workflow_read_models := d\<rparr>) i m \<longleftrightarrow> replayed s i m"
  by (simp add: replayed_def)

lemma replays_update:
  "replays_journal s \<Longrightarrow> replayed s i m \<Longrightarrow>
     replays_journal (s\<lparr>st_workflow_read_models := AList.update i m (st_workflow_read_models s)\<rparr>)"
  by (simp add: replays_journal_def update_conv')

lemma events_of_case:
  assumes "journal_ok s" and "get_case s i = Inr c"
  obtains es where "map_of (st_events s) i = Some es"
  using assms journal_ok_case [OF assms(1), of i]
  by (auto simp: get_case_def get_row_def split: option.splits)

lemma replayed_initial:
  assumes "journal_ok s" and "get_case s i = Inr c" and "initial_workflow_read_model i realm profile = Inr m"
  shows "replayed s i m"
proof -
  obtain es where "map_of (st_events s) i = Some ([] @ es)" using events_of_case [OF assms(1,2)] by auto
  then show ?thesis using initial_model [OF assms(3)] assms(3) unfolding replayed_def
    by (intro conjI exI [of _ "[]"] exI [of _ es] exI [of _ m]) simp_all
qed

lemma rebuilt_replayed:
  assumes ok: "journal_ok s" and r: "rebuild_workflow_read_model s i realm profile = Inr m"
  shows "replayed s i m" and "validate_projection_against_case s m = Inr ()"
    and "\<exists>es. map_of (st_events s) i = Some es \<and> last_cursor m = int (length es)"
    and "ws_realm (wm_snapshot m) = realm" and "ws_evidence_profile (wm_snapshot m) = profile"
proof -
  obtain c m0 es where c: "get_case s i = Inr c"
    and m0: "initial_workflow_read_model i realm profile = Inr m0"
    and es: "list_events s i 0 = Inr es" and f: "foldR (replay_event s) es m0 = Inr m"
    and "validate_projection_against_case s m = Inr ()"
    using r by (auto simp: rebuild_workflow_read_model_def bindR_Inr_iff)
  then show "validate_projection_against_case s m = Inr ()" by simp
  obtain xs where xs: "map_of (st_events s) i = Some ([] @ xs)" using events_of_case [OF ok c] by auto
  then have x: "xs = es" using list_events_at [OF ok c xs] es by simp
  note i0 = initial_model [OF m0]
  have a: "model_inv m" "wh_case_id (wm_head m) = i" "last_cursor m = int (length es)"
    "ws_realm (wm_snapshot m) = realm" "ws_evidence_profile (wm_snapshot m) = profile"
    "list_all2 receipt_of (wm_receipts m) es"
    using replay_rest [OF ok c xs i0(1,4) _ f [folded x]] i0(2,3,5,6) x by auto
  then show "\<exists>es. map_of (st_events s) i = Some es \<and> last_cursor m = int (length es)"
    and "ws_realm (wm_snapshot m) = realm" and "ws_evidence_profile (wm_snapshot m) = profile"
    using xs x by simp_all
  show "replayed s i m" unfolding replayed_def
    using a xs x m0 f by (intro conjI exI [of _ es] exI [of _ "[]"] exI [of _ m0]) simp_all
qed

lemma replayed_later:
  assumes "replayed s i m" and s: "writes\<^sup>*\<^sup>* empty_store s" and st: "writes\<^sup>*\<^sup>* s t"
  shows "replayed t i m"
proof -
  from assms(1) obtain pre rest m0 where r: "map_of (st_events s) i = Some (pre @ rest)"
    "last_cursor m = int (length pre)" "initial_workflow_read_model i (ws_realm (wm_snapshot m))
       (ws_evidence_profile (wm_snapshot m)) = Inr m0"
    "foldR (replay_event s) pre m0 = Inr m" "list_all2 receipt_of (wm_receipts m) pre"
    and m: "model_inv m" "wh_case_id (wm_head m) = i"
    by (auto simp: replayed_def)
  have t: "writes\<^sup>*\<^sup>* empty_store t" using s st by (rule rtranclp_trans)
  have "foldR (replay_event s) es x = Inr y \<Longrightarrow> foldR (replay_event t) es x = Inr y" for es x y
    by (induction es arbitrary: x)
       (auto simp: bindR_Inr_iff dest: replay_event_settled [OF _ writes_steps_grow [OF st]
          writes_completed_once [OF s] writes_completed_once [OF t]])
  then have "foldR (replay_event t) pre m0 = Inr m" using r(4) by blast
  moreover obtain fs where "map_of (st_events t) i = Some (pre @ rest @ fs)"
    using events_prefix [OF st writes_journal_ok [OF s empty_journal_ok] r(1)] by auto
  ultimately show ?thesis unfolding replayed_def
    using m r(2,3,5) by (intro conjI exI [of _ pre] exI [of _ "rest @ fs"] exI [of _ m0]) simp_all
qed

lemma project_returns:
  assumes p: "project_workflow_read_model i realm profile at s = (Inr m, t)"
    and ok: "journal_ok s" and "replays_journal s"
  shows "rebuild_workflow_read_model s i realm profile = Inr m"
    and "t = s\<lparr>st_workflow_read_models := AList.update i m (st_workflow_read_models s)\<rparr>"
proof -
  have p0: "project_workflow_read_model i realm profile (Aware 0) s = (Inr m, t)"
    using project_any_time [OF p] .
  obtain x u where g: "get_workflow_read_model i realm profile s = (Inr x, u)"
    using p by (auto simp: project_workflow_read_model_def atomic_Inr bindP_Inr_iff)
  have "same_projection s i realm profile"
    using g by (cases rule: get_model_cases) (auto simp: same_projection_def)
  then have "project_workflow_read_model i realm profile (Aware 0) s =
      projection_outcome s i (rebuild_workflow_read_model s i realm profile)"
    using projection_is_rebuild [OF _ ok assms(3)] by simp
  then show "rebuild_workflow_read_model s i realm profile = Inr m"
    and "t = s\<lparr>st_workflow_read_models := AList.update i m (st_workflow_read_models s)\<rparr>"
    using p0 by (auto simp: projection_outcome_def split: sum.splits)
qed

lemma projected_inv: "projected s \<Longrightarrow> writes\<^sup>*\<^sup>* empty_store s \<and> replays_journal s"
  unfolding projected_def
proof (induction rule: rtranclp_induct)
  case base
  show ?case by (simp add: replays_journal_def empty_store_def)
next
  case (step s t)
  then have s: "writes\<^sup>*\<^sup>* empty_store s" and rep: "replays_journal s" by simp_all
  have ok: "journal_ok s" using writes_journal_ok [OF s empty_journal_ok] .
  from step.hyps(2) show ?case
  proof cases
    case other
    then have st: "writes\<^sup>*\<^sup>* s t" using store_step_writes by blast
    then show ?thesis
      using rep other(2) replayed_later [OF _ s st] s by (auto simp: replays_journal_def)
  next
    case (get i realm profile r)
    have "writes\<^sup>*\<^sup>* s t" using refinesD [OF get_workflow_read_model_refines get] .
    moreover have "replays_journal t"
      using get by (cases rule: get_model_cases)
        (use rep replays_update [OF rep replayed_initial [OF ok]] in auto)
    ultimately show ?thesis using s by (meson rtranclp_trans)
  next
    case (project i realm profile at r)
    have "writes\<^sup>*\<^sup>* s t" using project_writes [OF project rep] .
    moreover have "replays_journal t"
    proof (cases r)
      case (Inl e)
      then have "t = s" using project
        by (auto simp: project_workflow_read_model_def atomic_def split: prod.splits sum.splits)
      then show ?thesis using rep by simp
    next
      case (Inr m)
      then show ?thesis
        using project project_returns [OF _ ok rep] replays_update [OF rep rebuilt_replayed(1) [OF ok]]
        by blast
    qed
    ultimately show ?thesis using s by (meson rtranclp_trans)
  qed
qed

end
