(* ===== verification/StoreProjectionClaims.thy ===== *)
theory StoreProjectionClaims imports StoreProjectionProperties WorkflowProperties begin

text \<open>
  The properties of the Workflow projection of the journal: the type of the fact of an event, the
  equivalence of projection and rebuild, the binding of a read model to its journal, and the
  satisfaction that a replaced plan keeps from the plan that adopted its obligation.
\<close>

section \<open>The fact of an event\<close>

text \<open>
  C32: Every journal event is translated by a declared policy.  Every event type has one; a
  translation that returns yields a valid fact of the event's own case, whose header is the case,
  the cursor, the ID and the digest of the event and whose variant is one that the policy allows;
  and a stored event whose type has the policy \<open>no_change\<close> is always translated, whatever the
  resolver of authority records does.
\<close>

theorem fact_binds_its_event:
  "(\<exists>p. event_policy (ev_event_type e) = Some p \<and>
     (\<forall>f. journal_event_to_workflow_fact resolve e m = Inr f \<longrightarrow>
        valid_fact f \<and> ev_case_id e = wh_case_id (wm_head m) \<and> header f = event_header e \<and>
        policy_allows p f)) \<and>
   (ev_event_type e \<in> set no_change_events \<and> make_event e = Inr e \<and>
      ev_case_id e = wh_case_id (wm_head m) \<longrightarrow>
      journal_event_to_workflow_fact resolve e m = Inr (WorkflowNoChangeFact (event_header e)))"
proof -
  obtain p where p: "event_policy (ev_event_type e) = Some p"
    using event_type_cases [of "ev_event_type e"] by auto
  have "valid_fact f \<and> ev_case_id e = wh_case_id (wm_head m) \<and> header f = event_header e \<and>
      policy_allows p f" if "journal_event_to_workflow_fact resolve e m = Inr f" for f
    using fact_of_event [OF that] p by (auto simp: fact_shape_def)
  then show ?thesis using p no_change_fact by blast
qed

definition ex_opening :: EventJournalEntry where
  "ex_opening = opening_event ''case'' ''thread'' ''opened'' (Aware 0)"

lemma ex_opening [simp]:
  "make_event ex_opening = Inr ex_opening" "ev_event_type ex_opening = EvCaseOpened"
  "ev_case_id ex_opening = ''case''" "ev_cursor ex_opening = 1" "ev_event_id ex_opening = ''opened''"
  by (simp_all add: ex_opening_def make_opening_event) (simp_all add: opening_event_def Let_def)

lemma ex_initial:
  obtains m where "initial_workflow_read_model ''case'' RealmConformance ProfileConformance = Inr m"
    and "model_inv m" and "wm_receipts m = []" and "last_cursor m = 0" and "wh_case_id (wm_head m) = ''case''"
    and "initial_snapshot ''case'' RealmConformance ProfileConformance = Inr (wm_snapshot m)"
  by (rule initial_model_total [of "''case''" RealmConformance ProfileConformance]) simp

lemma fact_binds_its_event_witness:
  "\<exists>m. wh_case_id (wm_head m) = ''case'' \<and>
     journal_event_to_workflow_fact (\<lambda>_. Inl (KeyError [])) ex_opening m =
       Inr (WorkflowNoChangeFact (event_header ex_opening)) \<and>
     valid_fact (WorkflowNoChangeFact (event_header ex_opening))"
proof (rule ex_initial)
  fix m :: WorkflowReadModel assume m: "wh_case_id (wm_head m) = ''case''"
  have t: "ev_event_type ex_opening \<in> set no_change_events" by (simp add: no_change_events_def)
  let ?r = "\<lambda>_ :: EventJournalEntry. Inl (KeyError []) :: WorkflowEventAuthority result"
  note b = fact_binds_its_event [of ex_opening ?r m]
  from b obtain p where p: "\<forall>f. journal_event_to_workflow_fact ?r ex_opening m = Inr f \<longrightarrow>
      valid_fact f \<and> ev_case_id ex_opening = wh_case_id (wm_head m) \<and>
      header f = event_header ex_opening \<and> policy_allows p f" by (elim conjE exE)
  from b have "journal_event_to_workflow_fact ?r ex_opening m =
      Inr (WorkflowNoChangeFact (event_header ex_opening))"
    using t m by simp
  then show ?thesis using p m by blast
qed

section \<open>Projection and rebuild\<close>

text \<open>
  C1: The incremental projection is the rebuild.  In every run of the store in which read models
  are written by the projection itself, projecting a case (with an aware time, under the realm and
  profile of its stored read model, if there is one) returns or raises exactly what
  \<open>rebuild_workflow_read_model\<close> computes from cursor zero; it stores the model that it returns, and
  leaves the store as it was when it raises.
\<close>

theorem projection_equals_rebuild:
  assumes "projected s" and "is_aware at" and "same_projection s i realm profile"
  shows "project_workflow_read_model i realm profile at s =
    (case rebuild_workflow_read_model s i realm profile of
       Inl e \<Rightarrow> (Inl e, s)
     | Inr m \<Rightarrow> (Inr m, s\<lparr>st_workflow_read_models := AList.update i m (st_workflow_read_models s)\<rparr>))"
  using projection_is_rebuild [OF assms(2) _ _ assms(3)] projected_inv [OF assms(1)]
    writes_journal_ok [OF _ empty_journal_ok]
  by (simp add: projection_outcome_def)

lemma ex_projected: "projected ex_store"
proof -
  have "st_workflow_read_models ex_store = st_workflow_read_models empty_store"
    by (simp add: ex_store_def opened_store_def push_event_def empty_store_def)
  then show ?thesis
    unfolding projected_def using projection_step.other [OF store_step.intros(1) [OF ex_open]] by blast
qed

lemma ex_rebuild:
  obtains m where "rebuild_workflow_read_model ex_store ''case'' RealmConformance ProfileConformance = Inr m"
    and "last_cursor m = 1"
proof -
  obtain m0 where m0: "initial_workflow_read_model ''case'' RealmConformance ProfileConformance = Inr m0"
    "model_inv m0" "wm_receipts m0 = []" "last_cursor m0 = 0" "wh_case_id (wm_head m0) = ''case''"
    "initial_snapshot ''case'' RealmConformance ProfileConformance = Inr (wm_snapshot m0)"
    by (rule ex_initial)
  let ?f = "WorkflowNoChangeFact (event_header ex_opening)"
  have t: "EvCaseOpened \<in> set no_change_events" by (simp add: no_change_events_def)
  have f: "journal_event_to_workflow_fact r ex_opening m0 = Inr ?f" for r
    using no_change_fact [of ex_opening m0 r] m0(5) t by simp
  have v: "valid_fact ?f" using fact_of_event [OF f] by (auto simp: fact_shape_def)
  obtain m where m: "apply_workflow_fact m0 ?f = Inr m" "last_cursor m = 1"
    "wm_snapshot m = (wm_snapshot m0)\<lparr>ws_applied_cursor := 1\<rparr>" "wh_case_id (wm_head m) = ''case''"
    by (rule apply_extends [OF m0(2) v, of "wm_snapshot m0"])
      (use m0 in \<open>auto simp: event_header_def\<close>)
  have s: "active_plan (wm_snapshot m0) = None"
    "cp_accepted_answer_version_id (ws_case (wm_snapshot m0)) = None"
    using m0(6) by (auto simp: initial_snapshot_def result_simps)
  have "get_case ex_store ''case'' = Inr (opened_case ''case'' ''thread'' (Aware 0))"
    by (simp add: get_case_def get_row_def ex_store_def opened_store_def push_event_def empty_store_def)
  then show thesis
    using that [of m] m m0(1) f s ex_events
    by (simp add: rebuild_workflow_read_model_def replay_event_def ex_opening_def
        validate_projection_against_case_def opened_case_def)
qed

lemma projection_equals_rebuild_witness:
  "\<exists>m. rebuild_workflow_read_model ex_store ''case'' RealmConformance ProfileConformance = Inr m \<and>
     project_workflow_read_model ''case'' RealmConformance ProfileConformance (Aware 1) ex_store =
       (Inr m, ex_store\<lparr>st_workflow_read_models := [(''case'', m)]\<rparr>) \<and> last_cursor m = 1"
proof -
  obtain m where m: "rebuild_workflow_read_model ex_store ''case'' RealmConformance ProfileConformance = Inr m"
    "last_cursor m = 1" by (rule ex_rebuild)
  have none: "st_workflow_read_models ex_store = []"
    by (simp add: ex_store_def opened_store_def push_event_def empty_store_def)
  then have "same_projection ex_store ''case'' RealmConformance ProfileConformance"
    by (simp add: same_projection_def)
  from projection_equals_rebuild [OF ex_projected _ this, of "Aware 1"] show ?thesis
    using m none by simp
qed

text \<open>
  C33: A read model never leaves its journal.  In every such run, a stored read model is that of its
  case; its cursor lies between zero and the number of the case's events, and it has exactly one
  receipt for each event up to the cursor, in order, that names the cursor, the ID and the digest
  of that event.
\<close>

theorem read_model_binds_journal:
  assumes "projected s" and "map_of (st_workflow_read_models s) i = Some m"
  shows "\<exists>es. map_of (st_events s) i = Some es \<and> wh_case_id (wm_head m) = i \<and>
    0 \<le> last_cursor m \<and> last_cursor m \<le> int (length es) \<and>
    list_all2 receipt_of (wm_receipts m) (take (nat (last_cursor m)) es)"
proof -
  have "replayed s i m" using projected_inv [OF assms(1)] assms(2) by (simp add: replays_journal_def)
  then obtain pre rest where "map_of (st_events s) i = Some (pre @ rest)"
    "last_cursor m = int (length pre)" "list_all2 receipt_of (wm_receipts m) pre"
    "wh_case_id (wm_head m) = i" by (auto simp: replayed_def)
  then show ?thesis by simp
qed

lemma read_model_binds_journal_witness:
  "\<exists>t m es. projected t \<and> map_of (st_workflow_read_models t) ''case'' = Some m \<and>
     map_of (st_events t) ''case'' = Some es \<and> last_cursor m = 1 \<and>
     list_all2 receipt_of (wm_receipts m) (take 1 es)"
proof -
  obtain m where m: "rebuild_workflow_read_model ex_store ''case'' RealmConformance ProfileConformance = Inr m"
    "last_cursor m = 1" by (rule ex_rebuild)
  have none: "same_projection ex_store ''case'' RealmConformance ProfileConformance"
    by (simp add: same_projection_def ex_store_def opened_store_def push_event_def empty_store_def)
  let ?t = "ex_store\<lparr>st_workflow_read_models := AList.update ''case'' m (st_workflow_read_models ex_store)\<rparr>"
  have ok: "journal_ok ex_store" using reachable_journal_ok [OF ex_reachable] .
  have "project_workflow_read_model ''case'' RealmConformance ProfileConformance (Aware 1) ex_store =
      (Inr m, ?t)"
    using projection_is_rebuild [OF _ ok _ none, of "Aware 1"] projected_inv [OF ex_projected] m(1)
    by (simp add: projection_outcome_def)
  then have "projected ?t"
    using ex_projected projection_step.project unfolding projected_def by (meson rtranclp.rtrancl_into_rtrancl)
  moreover have "map_of (st_workflow_read_models ?t) ''case'' = Some m" by (simp add: update_conv')
  ultimately show ?thesis
    using read_model_binds_journal [of ?t "''case''" m] m(2) by auto
qed

section \<open>Satisfaction of an obligation that two plans adopted\<close>

lemma change_superseded_obligation:
  assumes "List.find (\<lambda>x. op_obligation_id x = b) (ws_obligations s) = Some t"
    and "op_obligation_state t = ObSuperseded"
  shows "change_obligation s (op_plan_revision_id t) b st = Inr s"
proof -
  from assms(1) obtain k where k: "k < length (ws_obligations s)" "op_obligation_id t = b"
    "t = ws_obligations s ! k" "\<forall>j < k. op_obligation_id (ws_obligations s ! j) \<noteq> b"
    by (auto simp: find_Some_iff)
  then have "find_index (\<lambda>x. op_plan_revision_id x = op_plan_revision_id t \<and> op_obligation_id x = b)
      (ws_obligations s) = Some k"
    by (auto simp: find_index_Some_iff)
  then show ?thesis using k assms(2) by (simp add: change_obligation_def find_obligation_def)
qed

text \<open>
  C34: A satisfaction does not reach the plan that is in force.  A satisfaction event is translated
  for the first projection, in canonical order, with the obligation's ID; when a replaced plan
  adopted the same obligation, as every plan revision under the same frame does, and its ID sorts
  before that of the plan that replaced it, the fact targets the replaced plan and the reducer
  drops it: the snapshot stays as it was, and the obligation of the plan in force stays open.
\<close>

theorem satisfaction_stops_at_replaced_plan:
  assumes "ev_event_type e = EvObligationSatisfactionRecorded"
    and "resolve e = Inr (SatisfactionAuthority r)"
    and "journal_event_to_workflow_fact resolve e m = Inr f"
    and "List.find (\<lambda>x. op_obligation_id x = sr_obligation_id r) (ws_obligations (wm_snapshot m)) = Some t"
    and "op_obligation_state t = ObSuperseded"
  shows "f = ObligationDispositionFact (event_header e) (op_plan_revision_id t) (sr_obligation_id r)
      (satisfaction_state (sr_status r)) \<and> reduce_snapshot (wm_snapshot m) f = Inr (wm_snapshot m)"
proof -
  have "satisfaction_fact e m r = Inr f"
    using assms(1-3) fact_of_event [OF assms(3)]
    by (simp add: journal_event_to_workflow_fact_def fact_from_authority_def)
  then have "f = ObligationDispositionFact (event_header e) (op_plan_revision_id t) (sr_obligation_id r)
      (satisfaction_state (sr_status r))"
    using assms(4) by (auto simp: satisfaction_fact_def bindR_Inr_iff)
  then show ?thesis using change_superseded_obligation [OF assms(4,5)] by simp
qed

text \<open>A plan \<open>p1\<close> in force, and its revision \<open>p2\<close>, which adopts the same obligation.\<close>

definition ex_adopted :: "string \<Rightarrow> ObligationState \<Rightarrow> WorkflowObligationProjection" where
  "ex_adopted p st = \<lparr>op_case_id = ''case-1'', op_plan_revision_id = p, op_obligation_id = ex_sha CHR ''b'',
     op_task_id = ''t1'', op_business_label = ''Paid'', op_obligation_state = st\<rparr>"

definition ex_task :: "string \<Rightarrow> ExecutionState \<Rightarrow> WorkflowTaskProjection" where
  "ex_task p st = \<lparr>tp_case_id = ''case-1'', tp_plan_revision_id = p, tp_task_id = ''t1'',
     tp_business_label = ''Payments'', tp_execution_state = st\<rparr>"

definition ex_in_force :: WorkflowSnapshot where
  "ex_in_force = (ex_snapshot 1 (Some ''p1'') NotDelivered ExPending ObOpen)
     \<lparr>ws_obligations := [ex_adopted ''p1'' ObOpen]\<rparr>"

definition ex_replanned :: WorkflowSnapshot where
  "ex_replanned = ex_in_force
     \<lparr>ws_case := (ws_case ex_in_force)\<lparr>cp_active_plan_revision_id := Some ''p2''\<rparr>,
      ws_plan_revision_id := Some ''p2'',
      ws_tasks := [ex_task ''p1'' ExSuperseded, ex_task ''p2'' ExPending],
      ws_obligations := [ex_adopted ''p1'' ObSuperseded, ex_adopted ''p2'' ObOpen]\<rparr>"

definition ex_revision :: PlanAccepted where
  "ex_revision =
     \<lparr>pa_question_revision_id = ''q1'', pa_question_content_sha256 = ex_sha CHR ''1'',
      pa_frame_revision_id = ''f1'', pa_frame_content_sha256 = ex_sha CHR ''2'',
      pa_plan_revision_id = ''p2'', pa_prior_plan_revision_id = Some ''p1'',
      pa_plan_content_sha256 = ex_sha CHR ''3'', pa_plan_adoption_id = ex_sha CHR ''4'',
      pa_plan_adoption_sha256 = ex_sha CHR ''5'',
      pa_tasks = [\<lparr>td_task_id = ''t1'', td_business_label = ''Payments''\<rparr>],
      pa_obligations = [\<lparr>od_obligation_id = ex_sha CHR ''b'', od_task_id = ''t1'',
        od_business_label = ''Paid''\<rparr>]\<rparr>"

lemma ex_replanned: "accept_plan ex_in_force (ex_header 2 ''e2'' CHR ''b'') ex_revision = Inr ex_replanned"
proof -
  have n: "nonempty ''p2''" and o: "(''p1'', ''t1'') \<le> (''p2'', ''t1'')" "\<not> (''p2'', ''t1'') \<le> (''p1'', ''t1'')"
    and q: "(''p1'', b) \<le> (''p2'', b)" "\<not> (''p2'', b) \<le> (''p1'', b)" for b :: string
    by (code_simp, code_simp, code_simp) (simp_all add: less_eq_prod_def)
  have "accept_plan ex_in_force (ex_header 2 ''e2'' CHR ''b'') ex_revision =
      construct check_snapshot ex_replanned"
    using n o q
    by (simp add: accept_plan_def expected_prior_plan_def ex_in_force_def ex_snapshot_def ex_revision_def
        ex_adopted_def ex_task_def supersede_task_def supersede_obligation_def accepted_task_def
        accepted_obligation_def check_task_projection_def check_obligation_projection_def
        check_case_projection_iff accepted_snapshot_def ex_header_def ex_replanned_def task_key_def
        obligation_key_def)
  moreover have "check_snapshot ex_replanned = Inr ()"
    using n o q
    by (simp add: check_snapshot_iff ex_replanned_def ex_in_force_def ex_snapshot_def ex_task_def
        ex_adopted_def plan_identity_ok_def accepted_plan_values_def task_key_def obligation_key_def)
  ultimately show ?thesis by simp
qed

definition ex_satisfaction :: ObligationSatisfactionRecord where
  "ex_satisfaction = \<lparr>sr_obligation_satisfaction_id = ex_sha CHR ''c'', sr_obligation_id = ex_sha CHR ''b'',
     sr_obligation_content_sha256 = ex_sha CHR ''d'', sr_prior_obligation_satisfaction_id = None,
     sr_prior_obligation_satisfaction_content_sha256 = None, sr_status = SatSatisfied,
     sr_evidence_admission_ids = [ex_sha CHR ''1''], sr_evidence_admission_content_sha256s = [ex_sha CHR ''2''],
     sr_evidence_validity_ids = [ex_sha CHR ''3''], sr_evidence_validity_content_sha256s = [ex_sha CHR ''4''],
     sr_boundary_resolution_outcome_id = None, sr_input_set_sha256 = ex_sha CHR ''e'',
     sr_reason_code = ''admitted'', sr_policy_version = obligation_satisfaction_policy_version,
     sr_recorded_at = Aware 5, sr_schema_epoch = 3\<rparr>"

lemma ex_satisfaction_ok: "check_satisfaction ex_satisfaction = Inr ()"
proof -
  have "nonempty ''admitted''" by code_simp
  then show ?thesis
    by (simp add: check_satisfaction_def ex_satisfaction_def check_unique_digests_def
        require_sha256_tuple_def schema_epoch_def)
qed

definition ex_satisfied :: EventJournalEntry where
  "ex_satisfied = ex_opening\<lparr>ev_event_id := ''e3'', ev_case_id := ''case-1'', ev_cursor := 3,
     ev_event_type := EvObligationSatisfactionRecorded, ev_authority_ref := Some (ex_sha CHR ''c''),
     ev_payload := JObj [(''content_sha256'', JStr (satisfaction_sha256 ex_satisfaction))]\<rparr>"

lemma satisfaction_stops_at_replaced_plan_witness:
  "\<exists>m f. wm_snapshot m = ex_replanned \<and>
     journal_event_to_workflow_fact (\<lambda>_. Inr (SatisfactionAuthority ex_satisfaction)) ex_satisfied m = Inr f \<and>
     reduce_snapshot ex_replanned f = Inr ex_replanned \<and> sr_status ex_satisfaction = SatSatisfied \<and>
     active_plan ex_replanned = Some ''p2'' \<and>
     (\<exists>x \<in> set (ws_obligations ex_replanned). op_plan_revision_id x = ''p2'' \<and>
        op_obligation_id x = sr_obligation_id ex_satisfaction \<and> op_obligation_state x = ObOpen)"
proof -
  let ?h = "\<lparr>wh_case_id = ''case-1'', wh_version = 2, wh_last_applied_cursor = 2,
    wh_snapshot_id = snapshot_id ex_replanned, wh_snapshot_sha256 = snapshot_sha256 ex_replanned,
    wh_last_receipt_id = None\<rparr>"
  let ?m = "\<lparr>wm_head = ?h, wm_snapshot = ex_replanned, wm_receipts = []\<rparr>"
  let ?f = "ObligationDispositionFact (event_header ex_satisfied) ''p1'' (ex_sha CHR ''b'') ObSatisfied"
  let ?r = "\<lambda>_ :: EventJournalEntry. Inr (SatisfactionAuthority ex_satisfaction) :: WorkflowEventAuthority result"
  have e: "ev_event_type ex_satisfied = EvObligationSatisfactionRecorded"
    "ev_case_id ex_satisfied = ''case-1''" "ev_authority_ref ex_satisfied = Some (ex_sha CHR ''c'')"
    "ev_payload ex_satisfied = JObj [(''content_sha256'', JStr (satisfaction_sha256 ex_satisfaction))]"
    by (simp_all add: ex_satisfied_def)
  have r: "sr_obligation_id ex_satisfaction = ex_sha CHR ''b''" "sr_status ex_satisfaction = SatSatisfied"
    "sr_obligation_satisfaction_id ex_satisfaction = ex_sha CHR ''c''"
    by (simp_all add: ex_satisfaction_def)
  have obs: "ws_obligations ex_replanned = [ex_adopted ''p1'' ObSuperseded, ex_adopted ''p2'' ObOpen]"
    "active_plan ex_replanned = Some ''p2''"
    by (simp_all add: ex_replanned_def)
  have v: "check_fact ?f = Inr ()"
    by (simp add: check_obligation_fact_def validate_fact_header_def event_header_def ex_satisfied_def
        journal_event_sha256_def)
  have f: "journal_event_to_workflow_fact ?r ex_satisfied ?m = Inr ?f"
    using e r obs v
    by (simp add: journal_event_to_workflow_fact_def fact_from_authority_def satisfaction_fact_def
        adapter_guard_def py_eq_def ex_adopted_def del: check_fact.simps)
  have "reduce_snapshot (wm_snapshot ?m) ?f = Inr (wm_snapshot ?m)"
    by (rule satisfaction_stops_at_replaced_plan [OF e(1) _ f, of ex_satisfaction
          "ex_adopted ''p1'' ObSuperseded", THEN conjunct2])
      (simp_all add: r obs ex_adopted_def)
  then show ?thesis
    using f obs r by (intro exI [of _ ?m] exI [of _ ?f]) (simp add: ex_adopted_def)
qed

end
