(* ===== verification/Dates.thy ===== *)
theory Dates imports RuntimeTypes begin

text \<open>
  The dates of Python's \<open>datetime\<close> module, as far as \<open>domain/measurement_resolver.py\<close> and
  \<open>domain/identity.py\<close> use them: the constructor \<open>date(y, m, d)\<close>, \<open>d + timedelta(days=n)\<close>,
  \<open>(b - a).days\<close>, comparison, \<open>d.weekday()\<close>, \<open>d.isoformat()\<close> and \<open>calendar.monthrange\<close>.  A date
  orders like the tuple of its year, month and day; the ordinal counts the days of the proleptic
  Gregorian calendar, and the lemmas show that both orders agree and that each ordinal is one date.
\<close>

section \<open>Calendar\<close>

datatype date = Date (date_year: int) (date_month: int) (date_day: int)

definition date_key :: "date \<Rightarrow> int \<times> int \<times> int" where
  "date_key d = (date_year d, date_month d, date_day d)"

instantiation date :: linorder
begin

definition less_eq_date :: "date \<Rightarrow> date \<Rightarrow> bool" where
  "less_eq_date a b \<longleftrightarrow> date_key a \<le> date_key b"

definition less_date :: "date \<Rightarrow> date \<Rightarrow> bool" where
  "less_date a b \<longleftrightarrow> date_key a < date_key b"

instance
proof
  fix a b c :: date
  show "a < b \<longleftrightarrow> a \<le> b \<and> \<not> b \<le> a" by (auto simp: less_eq_date_def less_date_def)
  show "a \<le> a" by (simp add: less_eq_date_def)
  show "a \<le> b \<Longrightarrow> b \<le> c \<Longrightarrow> a \<le> c" by (auto simp: less_eq_date_def)
  show "a \<le> b \<or> b \<le> a" by (auto simp: less_eq_date_def)
  assume "a \<le> b" "b \<le> a"
  then have "date_key a = date_key b" by (simp add: less_eq_date_def)
  then show "a = b" by (simp add: date_key_def date.expand)
qed

end

definition leap :: "int \<Rightarrow> bool" where
  "leap y \<longleftrightarrow> y mod 4 = 0 \<and> (y mod 100 \<noteq> 0 \<or> y mod 400 = 0)"

definition year_length :: "int \<Rightarrow> int" where
  "year_length y = (if leap y then 366 else 365)"

text \<open>\<open>calendar.monthrange(y, m)[1]\<close>\<close>

definition days_in_month :: "int \<Rightarrow> int \<Rightarrow> int" where
  "days_in_month y m =
     (if m = 2 then if leap y then 29 else 28 else if m \<in> {4, 6, 9, 11} then 30 else 31)"

definition days_before_year :: "int \<Rightarrow> int" where
  "days_before_year y = (let p = y - 1 in 365 * p + p div 4 - p div 100 + p div 400)"

definition days_before_month :: "int \<Rightarrow> int \<Rightarrow> int" where
  "days_before_month y m = sum_list (map (days_in_month y) [1..m - 1])"

definition gregorian :: "date \<Rightarrow> bool" where
  "gregorian d \<longleftrightarrow> 1 \<le> date_month d \<and> date_month d \<le> 12 \<and> 1 \<le> date_day d \<and>
     date_day d \<le> days_in_month (date_year d) (date_month d)"

text \<open>\<open>d.toordinal()\<close>: January 1st of year 1 is day 1.\<close>

definition ordinal :: "date \<Rightarrow> int" where
  "ordinal d = days_before_year (date_year d) + days_before_month (date_year d) (date_month d) + date_day d"

definition year_at :: "int \<Rightarrow> int \<times> int" where
  "year_at k =
     (let a = k div 146097; r = k mod 146097; b = min 3 (r div 36524); s = r - 36524 * b;
          c = s div 1461; t = s mod 1461; e = min 3 (t div 365)
      in (400 * a + 100 * b + 4 * c + e + 1, t - 365 * e))"

fun month_at :: "int \<Rightarrow> int list \<Rightarrow> int \<Rightarrow> int \<times> int" where
  "month_at y [] r = (12, r)"
| "month_at y (m # ms) r =
     (if r < days_in_month y m then (m, r) else month_at y ms (r - days_in_month y m))"

definition of_ordinal :: "int \<Rightarrow> date" where
  "of_ordinal n = (case year_at (n - 1) of (y, r) \<Rightarrow>
     (case month_at y [1..12] r of (m, k) \<Rightarrow> Date y m (k + 1)))"

section \<open>Operations\<close>

definition date_ok :: "date \<Rightarrow> bool" where
  "date_ok d \<longleftrightarrow> 1 \<le> date_year d \<and> date_year d \<le> 9999 \<and> gregorian d"

definition make_date :: "int \<Rightarrow> int \<Rightarrow> int \<Rightarrow> date result" where
  "make_date y m d =
     (if y < - (2 ^ 31) \<or> 2 ^ 31 \<le> y then Inl (OverflowError ''Python int too large to convert to C int'')
      else if y < 1 \<or> 9999 < y then Inl (ValueError (''year '' @ show_int y @ '' is out of range''))
      else if m < 1 \<or> 12 < m then Inl (ValueError ''month must be in 1..12'')
      else if d < 1 \<or> days_in_month y m < d then Inl (ValueError ''day is out of range for month'')
      else Inr (Date y m d))"

definition max_ordinal :: int where
  "max_ordinal = 3652059"

definition add_days :: "date \<Rightarrow> int \<Rightarrow> date result" where
  "add_days d n =
     (if 999999999 < \<bar>n\<bar> then Inl (OverflowError (''days='' @ show_int n @
        ''; must have magnitude <= 999999999''))
      else if ordinal d + n < 1 \<or> max_ordinal < ordinal d + n
        then Inl (OverflowError ''date value out of range'')
      else Inr (of_ordinal (ordinal d + n)))"

definition days_between :: "date \<Rightarrow> date \<Rightarrow> int" where
  "days_between a b = ordinal b - ordinal a"

definition weekday :: "date \<Rightarrow> int" where
  "weekday d = (ordinal d + 6) mod 7"

definition date_text :: "date \<Rightarrow> string" where
  "date_text d = pad_left 4 (show_int (date_year d)) @ ''-'' @ pad_left 2 (show_int (date_month d)) @
     ''-'' @ pad_left 2 (show_int (date_day d))"

section \<open>Ordinals\<close>

lemma div_step: "(0::int) < k \<Longrightarrow> y div k = (y - 1) div k + (if y mod k = 0 then 1 else 0)"
proof -
  assume k: "0 < k"
  have m: "0 \<le> y mod k" "y mod k < k" using k by simp_all
  have "y - 1 = k * (y div k) + (y mod k - 1)" by simp
  then have d: "(y - 1) div k = y div k + (y mod k - 1) div k"
    using k by (metis div_mult_self2 less_irrefl add.commute)
  show ?thesis
  proof (cases "y mod k = 0")
    case True
    then show ?thesis using d k by (simp add: div_eq_minus1)
  next
    case False
    then have "(y mod k - 1) div k = 0" using m by (intro div_pos_pos_trivial) auto
    then show ?thesis using d False by simp
  qed
qed

lemma multiples_of_400: "(y::int) mod 100 = 0 \<Longrightarrow> y mod 4 = 0" "y mod 400 = 0 \<Longrightarrow> y mod 100 = 0"
  using mod_mod_cancel [of 4 100 y] mod_mod_cancel [of 100 400 y] by simp_all

lemma days_before_next_year: "days_before_year (y + 1) = days_before_year y + year_length y"
proof -
  let ?p = "\<lambda>k :: int. if y mod k = 0 then 1 else 0 :: int"
  have sum: "365 * y + (a + p) - (b + q) + (c + r) = 365 * (y - 1) + a - b + c + (365 + p - q + r)"
    for a b c p q r :: int by simp
  have "days_before_year (y + 1) = 365 * y + y div 4 - y div 100 + y div 400"
    by (simp add: days_before_year_def)
  also have "\<dots> = 365 * y + ((y - 1) div 4 + ?p 4) - ((y - 1) div 100 + ?p 100) + ((y - 1) div 400 + ?p 400)"
    by (simp only: div_step [of 4 y] div_step [of 100 y] div_step [of 400 y] zero_less_numeral)
  also have "\<dots> = days_before_year y + (365 + ?p 4 - ?p 100 + ?p 400)"
    unfolding days_before_year_def Let_def by (rule sum)
  also have "365 + ?p 4 - ?p 100 + ?p 400 = year_length y"
    using multiples_of_400 [of y] unfolding year_length_def leap_def
    by (cases "y mod 4 = 0"; cases "y mod 100 = 0"; cases "y mod 400 = 0") simp_all
  finally show ?thesis .
qed

lemma days_before_later_year: "y < z \<Longrightarrow> days_before_year y + year_length y \<le> days_before_year z"
proof (induction z rule: int_gr_induct)
  case base
  then show ?case using days_before_next_year [of y] by simp
next
  case (step z)
  then show ?case using days_before_next_year [of z] by (simp add: year_length_def split: if_splits)
qed

lemma month_cases: "1 \<le> (m::int) \<Longrightarrow> m \<le> 12 \<Longrightarrow> m \<in> {1, 2, 3, 4, 5, 6, 7, 8, 9, 10, 11, 12}"
  by simp presburger

lemma days_before_month_values:
  "days_before_month y 1 = 0" "days_before_month y 2 = 31"
  "days_before_month y 3 = (if leap y then 60 else 59)"
  "days_before_month y 4 = (if leap y then 91 else 90)"
  "days_before_month y 5 = (if leap y then 121 else 120)"
  "days_before_month y 6 = (if leap y then 152 else 151)"
  "days_before_month y 7 = (if leap y then 182 else 181)"
  "days_before_month y 8 = (if leap y then 213 else 212)"
  "days_before_month y 9 = (if leap y then 244 else 243)"
  "days_before_month y 10 = (if leap y then 274 else 273)"
  "days_before_month y 11 = (if leap y then 305 else 304)"
  "days_before_month y 12 = (if leap y then 335 else 334)"
  by (simp_all add: days_before_month_def days_in_month_def upto_rec1)

lemma days_before_next_month: "1 \<le> m \<Longrightarrow> days_before_month y (m + 1) = days_before_month y m + days_in_month y m"
  by (simp add: days_before_month_def upto_rec2 [of 1 m])

lemma days_in_month_pos: "0 < days_in_month y m"
  by (simp add: days_in_month_def)

lemma days_before_later_month:
  assumes "1 \<le> m" "m < n"
  shows "days_before_month y m + days_in_month y m \<le> days_before_month y n"
  using assms(2)
proof (induction n rule: int_gr_induct)
  case base
  then show ?case using days_before_next_month [OF assms(1)] by simp
next
  case (step n)
  then show ?case using days_before_next_month [of n y] days_in_month_pos [of y n] assms(1) by simp
qed

lemma month_in_year:
  assumes "1 \<le> m" "m \<le> 12"
  shows "0 \<le> days_before_month y m" "days_before_month y m + days_in_month y m \<le> year_length y"
  using month_cases [OF assms] by (auto simp: days_before_month_values days_in_month_def year_length_def)

lemma ordinal_in_year:
  assumes "gregorian d"
  shows "days_before_year (date_year d) < ordinal d"
    and "ordinal d \<le> days_before_year (date_year d) + year_length (date_year d)"
  using assms month_in_year [of "date_month d" "date_year d"] by (auto simp: gregorian_def ordinal_def)

lemma ordinal_strict:
  assumes "gregorian a" "gregorian b" "a < b"
  shows "ordinal a < ordinal b"
proof -
  have "date_year a < date_year b \<or> date_year a = date_year b \<and>
      (date_month a < date_month b \<or> date_month a = date_month b \<and> date_day a < date_day b)"
    using assms(3) by (auto simp: less_date_def date_key_def less_prod_def)
  then consider "date_year a < date_year b"
    | "date_year a = date_year b" "date_month a < date_month b"
    | "date_year a = date_year b" "date_month a = date_month b" "date_day a < date_day b"
    by blast
  then show ?thesis
  proof cases
    case 1
    then show ?thesis
      using days_before_later_year [OF 1] ordinal_in_year(2) [OF assms(1)] ordinal_in_year(1) [OF assms(2)]
      by simp
  next
    case 2
    then show ?thesis
      using assms(1,2) days_before_later_month [of "date_month a" "date_month b" "date_year a"]
      by (auto simp: ordinal_def gregorian_def)
  next
    case 3
    then show ?thesis by (simp add: ordinal_def)
  qed
qed

lemma ordinal_less_iff:
  "gregorian a \<Longrightarrow> gregorian b \<Longrightarrow> ordinal a < ordinal b \<longleftrightarrow> a < b"
  by (metis less_asym linorder_neqE ordinal_strict less_irrefl)

lemma ordinal_le_iff:
  "gregorian a \<Longrightarrow> gregorian b \<Longrightarrow> ordinal a \<le> ordinal b \<longleftrightarrow> a \<le> b"
  using ordinal_less_iff [of b a] by (simp add: linorder_not_less [symmetric])

lemma ordinal_eq_iff: "gregorian a \<Longrightarrow> gregorian b \<Longrightarrow> ordinal a = ordinal b \<longleftrightarrow> a = b"
  by (metis linorder_neqE less_irrefl ordinal_strict)

text \<open>Four parts of length \<open>w\<close>, the last of which may have one day more.\<close>

lemma part_of_four:
  fixes q w :: int
  assumes "0 < w" "0 \<le> q" "q \<le> 4 * w" and b: "b = min 3 (q div w)"
  shows "0 \<le> b" "b \<le> 3" "0 \<le> q - w * b" "q - w * b \<le> w" "b < 3 \<Longrightarrow> q - w * b < w"
proof -
  have d: "0 \<le> q div w" "q = w * (q div w) + q mod w" "0 \<le> q mod w" "q mod w < w"
    using assms by (simp_all add: pos_imp_zdiv_nonneg_iff)
  show "0 \<le> b" "b \<le> 3" using d b by simp_all
  show "0 \<le> q - w * b" "q - w * b \<le> w" "b < 3 \<Longrightarrow> q - w * b < w"
  proof (atomize (full), cases "q div w \<le> 3")
    case True
    then have "b = q div w" using b by simp
    then show "0 \<le> q - w * b \<and> q - w * b \<le> w \<and> (b < 3 \<longrightarrow> q - w * b < w)"
      using d by (simp add: minus_mult_div_eq_mod)
  next
    case False
    then have "b = 3" using b by simp
    moreover have "w * 4 \<le> w * (q div w)" using False assms(1) by (intro mult_left_mono) auto
    then have "4 * w \<le> q" using d(2,3) by linarith
    ultimately show "0 \<le> q - w * b \<and> q - w * b \<le> w \<and> (b < 3 \<longrightarrow> q - w * b < w)"
      using assms by simp
  qed
qed

lemma year_at_bounds:
  assumes "year_at k = (y, r)"
  shows "k = days_before_year y + r" "0 \<le> r" "r < year_length y"
proof -
  define a q where "a = k div 146097" and "q = k mod 146097"
  define b where "b = min 3 (q div 36524)"
  define s where "s = q - 36524 * b"
  define c t where "c = s div 1461" and "t = s mod 1461"
  define e where "e = min 3 (t div 365)"
  have "year_at k = (400 * a + 100 * b + 4 * c + e + 1, t - 365 * e)"
    unfolding year_at_def Let_def a_def q_def b_def s_def c_def t_def e_def by (rule refl)
  then have y: "y = 400 * a + 100 * b + 4 * c + e + 1" and r: "r = t - 365 * e"
    using assms by simp_all
  have "k mod 146097 < 146097" by simp
  then have q: "k = 146097 * a + q" "0 \<le> q" "q \<le> 4 * 36524" unfolding a_def q_def by simp_all
  have b: "0 \<le> b" "b \<le> 3" "0 \<le> s" "s \<le> 36524" "b < 3 \<Longrightarrow> s < 36524"
    using part_of_four [OF _ q(2,3) b_def] by (simp_all add: s_def)
  have c: "s = 1461 * c + t" "0 \<le> t" "t \<le> 4 * 365" by (simp_all add: c_def t_def)
  have c': "0 \<le> c" "c \<le> 24" using b c by linarith+
  have e: "0 \<le> e" "e \<le> 3" "0 \<le> r" "r \<le> 365" "e < 3 \<Longrightarrow> r < 365"
    using part_of_four [OF _ c(2,3) e_def] by (simp_all add: r)
  have p: "(y - 1) div 4 = 100 * a + 25 * b + c" using e y by (intro int_div_pos_eq [of _ _ _ e]) simp_all
  have p': "(y - 1) div 100 = 4 * a + b"
    using c' e y by (intro int_div_pos_eq [of _ _ _ "4 * c + e"]) simp_all
  have p'': "(y - 1) div 400 = a"
    using b c' e y by (intro int_div_pos_eq [of _ _ _ "100 * b + 4 * c + e"]) simp_all
  show "k = days_before_year y + r"
    unfolding days_before_year_def Let_def p p' p'' using q(1) s_def c(1) r y by simp
  show "0 \<le> r" by (rule e)
  have "leap y" if "r = 365"
  proof -
    have *: "e = 3" "t = 1460" using e that r by linarith+
    have four: "y mod 4 = 0" using y * by (intro int_mod_pos_eq [of _ _ "100 * a + 25 * b + c + 1"]) simp_all
    show ?thesis
    proof (cases "c < 24")
      case True
      then have "y mod 100 = 4 * (c + 1)"
        using y * c' by (intro int_mod_pos_eq [of _ _ "4 * a + b"]) simp_all
      then show ?thesis using four c' by (simp add: leap_def)
    next
      case False
      then have "b = 3" "c = 24" using b c c' * by linarith+
      then have "y mod 400 = 0" using y * by (intro int_mod_pos_eq [of _ _ "a + 1"]) simp_all
      then show ?thesis using four by (simp add: leap_def)
    qed
  qed
  then show "r < year_length y"
    using e(4) by (cases "r = 365") (auto simp: year_length_def)
qed

lemma month_at_bounds:
  assumes "0 \<le> r" "r < year_length y" "month_at y [1..12] r = (m, k)"
  shows "1 \<le> m \<and> m \<le> 12 \<and> 0 \<le> k \<and> k < days_in_month y m \<and> r = days_before_month y m + k"
proof -
  have "[1..12] = [1, 2, 3, 4, 5, 6, 7, 8, 9, 10, 11, 12 :: int]" by (simp add: upto_rec1)
  then show ?thesis
    using assms
    by (auto simp: days_before_month_values days_in_month_def year_length_def split: if_splits)
qed

lemma of_ordinal_gregorian [simp]: "gregorian (of_ordinal n)"
  and ordinal_of_ordinal [simp]: "ordinal (of_ordinal n) = n"
proof -
  obtain y r where y: "year_at (n - 1) = (y, r)" by fastforce
  obtain m k where m: "month_at y [1..12] r = (m, k)" by fastforce
  note b = year_at_bounds [OF y] month_at_bounds [OF year_at_bounds(2,3) [OF y] m]
  then show "gregorian (of_ordinal n)" "ordinal (of_ordinal n) = n"
    using y m by (simp_all add: of_ordinal_def gregorian_def ordinal_def)
qed

lemma of_ordinal_ordinal [simp]: "gregorian d \<Longrightarrow> of_ordinal (ordinal d) = d"
  using ordinal_eq_iff [of "of_ordinal (ordinal d)" d] by simp

text \<open>The dates of Python are those whose ordinal lies between 1 and 3652059 (9999-12-31).\<close>

lemma days_before_year_less_iff: "days_before_year y < days_before_year z \<longleftrightarrow> y < z"
  using days_before_later_year [of y z] days_before_later_year [of z y]
  by (cases y z rule: linorder_cases) (auto simp: year_length_def split: if_splits)

lemma date_ok_iff: "date_ok d \<longleftrightarrow> gregorian d \<and> 1 \<le> ordinal d \<and> ordinal d \<le> max_ordinal"
proof (cases "gregorian d")
  case True
  note o = ordinal_in_year [OF True]
  have v: "days_before_year 1 = 0" "days_before_year 10000 = 3652059"
    by (simp_all add: days_before_year_def Let_def)
  have "1 \<le> ordinal d \<longleftrightarrow> 1 \<le> date_year d"
  proof (cases "1 \<le> date_year d")
    case False
    then show ?thesis using days_before_later_year [of "date_year d" 1] o v by simp
  next
    case True
    then show ?thesis using days_before_year_less_iff [of "date_year d" 1] o v by simp
  qed
  moreover have "ordinal d \<le> max_ordinal \<longleftrightarrow> date_year d \<le> 9999"
  proof (cases "date_year d \<le> 9999")
    case True
    then show ?thesis using days_before_later_year [of "date_year d" 10000] o v
      by (simp add: max_ordinal_def)
  next
    case False
    then show ?thesis using days_before_year_less_iff [of "date_year d" 10000] o v
      by (simp add: max_ordinal_def)
  qed
  ultimately show ?thesis using True by (auto simp: date_ok_def)
qed (simp add: date_ok_def)

lemma date_ok_gregorian: "date_ok d \<Longrightarrow> gregorian d"
  by (simp add: date_ok_def)

lemma make_date_Inr [result_simps]: "make_date y m d = Inr x \<longleftrightarrow> x = Date y m d \<and> date_ok x"
  by (auto simp: make_date_def date_ok_def gregorian_def)

lemma add_days_Inr [result_simps]:
  "add_days d n = Inr x \<longleftrightarrow>
     \<bar>n\<bar> \<le> 999999999 \<and> x = of_ordinal (ordinal d + n) \<and> date_ok x"
  by (auto simp: add_days_def date_ok_iff)

text \<open>A day of the calendar is a number: what \<open>add_days\<close> returns is the day with that ordinal.\<close>

lemma add_days_ordinal: "add_days d n = Inr x \<Longrightarrow> ordinal x = ordinal d + n \<and> date_ok x"
  by (auto simp: add_days_Inr)

end
