(* ===== verification/WindowTypes.thy ===== *)
theory WindowTypes imports Dates MeasurementTypes begin

text \<open>
  The records that the resolution of a measurement window reads and writes: the rule of a window and
  the resolved window of \<open>domain/measurement.py\<close>, the receipts and the request of
  \<open>domain/measurement_resolver.py\<close>.  A mapping that is only looked up is an association list.
\<close>

section \<open>The rule of a window\<close>

datatype WindowRuleKind = AbsoluteInterval | RelativeCalendar | RollingInterval | BusinessCalendar

datatype CalendarUnit = CalDay | CalWeek | CalMonth | CalQuarter | CalYear | CalFiscalPeriod

fun calendar_unit_value :: "CalendarUnit \<Rightarrow> string" where
  "calendar_unit_value CalDay = ''day''"
| "calendar_unit_value CalWeek = ''week''"
| "calendar_unit_value CalMonth = ''month''"
| "calendar_unit_value CalQuarter = ''quarter''"
| "calendar_unit_value CalYear = ''year''"
| "calendar_unit_value CalFiscalPeriod = ''fiscal_period''"

datatype WindowSelectionKind = CompletePeriod | FirstNCalendarDays | LastNCalendarDays
  | FirstNValidBusinessDays | LastNValidBusinessDays | OrdinalRange | RollingLength

datatype IntervalBoundary = InclusiveBoundary | ExclusiveBoundary

record WindowRuleSpec =
  rl_window_rule_id :: string
  rl_rule_kind :: WindowRuleKind
  rl_anchor_ref :: string
  rl_calendar_unit :: CalendarUnit
  rl_period_offset :: int
  rl_selection_kind :: WindowSelectionKind
  rl_selection_count :: "int option"
  rl_ordinal_start :: "int option"
  rl_ordinal_end :: "int option"
  rl_absolute_start :: "date option"
  rl_absolute_end :: "date option"
  rl_start_boundary :: IntervalBoundary
  rl_end_boundary :: IntervalBoundary
  rl_pairing_key_ref :: string
  rl_selection_rationale_refs :: "string list"

definition count_selections :: "WindowSelectionKind list" where
  "count_selections = [FirstNCalendarDays, LastNCalendarDays, FirstNValidBusinessDays,
     LastNValidBusinessDays, RollingLength]"

definition check_window_rule :: "WindowRuleSpec \<Rightarrow> unit result" where
  "check_window_rule r = checks [
     require_nonempty (rl_window_rule_id r) ''window_rule_id'',
     require_nonempty (rl_anchor_ref r) ''anchor_ref'',
     require_nonempty (rl_pairing_key_ref r) ''pairing_key_ref'',
     check_string_tuple (rl_selection_rationale_refs r) ''selection_rationale_refs'',
     (if rl_selection_kind r \<in> set count_selections
      then require (case rl_selection_count r of None \<Rightarrow> False | Some n \<Rightarrow> 1 \<le> n)
             (ValueError ''window selection requires positive count'')
      else require (rl_selection_count r = None)
             (ValueError ''window selection count is not applicable'')),
     (if rl_selection_kind r = OrdinalRange
      then require (case (rl_ordinal_start r, rl_ordinal_end r) of
               (Some a, Some b) \<Rightarrow> 1 \<le> a \<and> a \<le> b | _ \<Rightarrow> False)
             (ValueError ''ordinal window range is invalid'')
      else require (rl_ordinal_start r = None \<and> rl_ordinal_end r = None)
             (ValueError ''ordinal fields are not applicable'')),
     (if rl_rule_kind r = AbsoluteInterval
      then bindR (require (case (rl_absolute_start r, rl_absolute_end r) of
               (Some a, Some b) \<Rightarrow> a \<le> b | _ \<Rightarrow> False)
             (ValueError ''absolute window interval is invalid'')) (\<lambda>_.
           require (rl_period_offset r = 0)
             (ValueError ''absolute window cannot carry period offset''))
      else require (rl_absolute_start r = None \<and> rl_absolute_end r = None)
             (ValueError ''absolute dates require absolute interval rule''))]"

section \<open>The context and the request of a resolution\<close>

datatype AmbiguousLocalTimePolicy = EarliestFold | LatestFold | RejectFold

record ResolutionContext =
  rx_as_of_instant :: datetime
  rx_timezone :: string
  rx_business_day_cutoff :: string
  rx_ambiguous_local_time_policy :: AmbiguousLocalTimePolicy
  rx_calendar_version_ref :: string
  rx_holiday_version_ref :: "string option"
  rx_fiscal_version_ref :: "string option"
  rx_data_contract_version_ref :: string
  rx_snapshot_release_ref :: string
  rx_coverage_watermark_ref :: string
  rx_late_arrival_policy_ref :: string

definition resolver_string_tuple :: "string list \<Rightarrow> string \<Rightarrow> unit result" where
  "resolver_string_tuple xs field_name = checks [
     require (\<forall>x \<in> set xs. \<not> blank x) (ValueError (field_name @ '' must contain non-empty strings'')),
     require (distinct xs) (ValueError (field_name @ '' must be unique''))]"

record BusinessCalendarReceipt =
  bc_calendar_version_ref :: string
  bc_holiday_version_ref :: "string option"
  bc_fiscal_version_ref :: "string option"
  bc_valid_dates :: "date list"
  bc_source_receipt_sha256 :: string
  bc_inspection_evidence_refs :: "string list"

definition check_business_calendar :: "BusinessCalendarReceipt \<Rightarrow> unit result" where
  "check_business_calendar c = checks [
     require_nonempty (bc_calendar_version_ref c) ''calendar_version_ref'',
     check_optional_ref (bc_holiday_version_ref c) ''holiday_version_ref'',
     check_optional_ref (bc_fiscal_version_ref c) ''fiscal_version_ref'',
     require (sort (bc_valid_dates c) = bc_valid_dates c) (ValueError ''valid_dates must be sorted''),
     require (distinct (bc_valid_dates c)) (ValueError ''valid_dates must be unique''),
     require_sha256 (bc_source_receipt_sha256 c) ''source_receipt_sha256'',
     resolver_string_tuple (bc_inspection_evidence_refs c) ''inspection_evidence_refs'',
     require (bc_inspection_evidence_refs c \<noteq> [])
       (ValueError ''business calendar requires inspection evidence'')]"

text \<open>
  Of a \<open>CalendarResolutionRequest\<close>, a window's dates depend on the period it targets, the anchors
  and the business calendars.
\<close>

record CalendarRequestView =
  cq_target_period_ref :: string
  cq_anchor_dates :: "(string \<times> date) list"
  cq_business_calendar_receipts :: "(string \<times> BusinessCalendarReceipt) list"

section \<open>A resolved window\<close>

text \<open>The dates that \<open>ResolvedWindow\<close> records for its rule.\<close>

record ResolvedWindowDates =
  rw_window_rule_id :: string
  rw_anchor_date :: date
  rw_period_offset :: int
  rw_actual_start :: date
  rw_actual_end :: date
  rw_actual_calendar_days :: int
  rw_selected_calendar_dates_count :: int
  rw_selected_calendar_dates_sha256 :: string

definition dates_json :: "date list \<Rightarrow> json" where
  "dates_json ds = JTuple (map (\<lambda>d. JStr (date_text d)) ds)"

lemma check_window_rule_iff:
  "check_window_rule r = Inr () \<longleftrightarrow>
     nonempty (rl_window_rule_id r) \<and> nonempty (rl_anchor_ref r) \<and> nonempty (rl_pairing_key_ref r) \<and>
     check_string_tuple (rl_selection_rationale_refs r) ''selection_rationale_refs'' = Inr () \<and>
     (if rl_selection_kind r \<in> set count_selections
      then \<exists>n \<ge> 1. rl_selection_count r = Some n else rl_selection_count r = None) \<and>
     (if rl_selection_kind r = OrdinalRange
      then \<exists>a b. rl_ordinal_start r = Some a \<and> rl_ordinal_end r = Some b \<and> 1 \<le> a \<and> a \<le> b
      else rl_ordinal_start r = None \<and> rl_ordinal_end r = None) \<and>
     (if rl_rule_kind r = AbsoluteInterval
      then (\<exists>a b. rl_absolute_start r = Some a \<and> rl_absolute_end r = Some b \<and> a \<le> b) \<and>
        rl_period_offset r = 0
      else rl_absolute_start r = None \<and> rl_absolute_end r = None)"
  by (simp add: check_window_rule_def bindR_Inr_iff split: option.split)

end
