(* ===== verification/CalendarWindows.thy ===== *)
theory CalendarWindows imports WindowTypes begin

text \<open>
  The dates of a measurement window, twice: as \<open>domain/measurement_resolver.py\<close> resolves them from
  the rule (\<open>_calendar_interval\<close> and its helpers), and as \<open>domain/identity.py\<close> derives them again
  to check a resolved window (\<open>_validate_resolved_calendar_window\<close> and its helpers).  The resolver
  raises \<open>_ResolutionFailure\<close>, which its caller turns into a boundary; every other raise propagates.
\<close>

section \<open>Periods of the calendar, as resolved\<close>

definition shift_month :: "int \<Rightarrow> int \<Rightarrow> int \<Rightarrow> int \<times> int" where
  "shift_month year month offset =
     (let absolute = year * 12 + month - 1 + offset in (absolute div 12, absolute mod 12 + 1))"

definition shifted_period :: "date \<Rightarrow> CalendarUnit \<Rightarrow> int \<Rightarrow> (date \<times> date) result" where
  "shifted_period anchor unit offset = (case unit of
     CalDay \<Rightarrow> bindR (add_days anchor offset) (\<lambda>d. Inr (d, d))
   | CalWeek \<Rightarrow>
       bindR (add_days anchor (- weekday anchor)) (\<lambda>monday.
       bindR (add_days monday (7 * offset)) (\<lambda>start.
       bindR (add_days start 6) (\<lambda>end. Inr (start, end))))
   | CalMonth \<Rightarrow>
       (case shift_month (date_year anchor) (date_month anchor) offset of (year, month) \<Rightarrow>
       bindR (make_date year month 1) (\<lambda>start.
       bindR (make_date year month (days_in_month year month)) (\<lambda>end. Inr (start, end))))
   | CalQuarter \<Rightarrow>
       (let absolute = date_year anchor * 4 + (date_month anchor - 1) div 3 + offset;
            year = absolute div 4; month = absolute mod 4 * 3 + 1
        in bindR (make_date year month 1) (\<lambda>start.
           (case shift_month year month 2 of (end_year, end_month) \<Rightarrow>
           bindR (make_date end_year end_month (days_in_month end_year end_month)) (\<lambda>end.
             Inr (start, end)))))
   | CalYear \<Rightarrow>
       (let year = date_year anchor + offset
        in bindR (make_date year 1 1) (\<lambda>start. bindR (make_date year 12 31) (\<lambda>end. Inr (start, end))))
   | CalFiscalPeriod \<Rightarrow> Inl (ResolutionFailure UnsupportedCalendar
       [''calendar-unit:'' @ calendar_unit_value unit] [''calendar-resolver:gregorian.v1'']))"

definition clamped_date :: "int \<Rightarrow> int \<Rightarrow> int \<Rightarrow> date result" where
  "clamped_date year month day = make_date year month (min day (days_in_month year month))"

definition shift_anchor :: "date \<Rightarrow> CalendarUnit \<Rightarrow> int \<Rightarrow> date result" where
  "shift_anchor anchor unit offset = (case unit of
     CalDay \<Rightarrow> add_days anchor offset
   | CalWeek \<Rightarrow> add_days anchor (7 * offset)
   | CalMonth \<Rightarrow>
       (case shift_month (date_year anchor) (date_month anchor) offset of (year, month) \<Rightarrow>
        clamped_date year month (date_day anchor))
   | CalQuarter \<Rightarrow>
       (case shift_month (date_year anchor) (date_month anchor) (offset * 3) of (year, month) \<Rightarrow>
        clamped_date year month (date_day anchor))
   | CalYear \<Rightarrow> clamped_date (date_year anchor + offset) (date_month anchor) (date_day anchor)
   | CalFiscalPeriod \<Rightarrow> Inl (ResolutionFailure UnsupportedCalendar
       [''calendar-unit:'' @ calendar_unit_value unit] [''calendar-resolver:rolling-anchor.v1'']))"

section \<open>The dates of a rule\<close>

definition date_range :: "date \<Rightarrow> date \<Rightarrow> date list result" where
  "date_range start end = sequenceR (map (add_days start) [0..days_between start end])"

definition invalid_rule :: "WindowRuleSpec \<Rightarrow> string \<Rightarrow> py_error" where
  "invalid_rule r inspection =
     ResolutionFailure InvalidWindowRule [''window-rule:'' @ rl_window_rule_id r] [inspection]"

definition apply_interval_boundaries :: "date list \<Rightarrow> WindowRuleSpec \<Rightarrow> date list result" where
  "apply_interval_boundaries dates r =
     (let after = if rl_start_boundary r = ExclusiveBoundary then tl dates else dates;
          selected = if rl_end_boundary r = ExclusiveBoundary then butlast after else after
      in if selected = [] then Inl (invalid_rule r ''calendar-resolver:empty-window'') else Inr selected)"

text \<open>The slices \<open>xs[:n]\<close> and \<open>xs[-n:]\<close>.\<close>

definition slice_to :: "int \<Rightarrow> 'a list \<Rightarrow> 'a list" where
  "slice_to n xs = (if 0 \<le> n then take (nat n) xs else take (nat (int (length xs) + n)) xs)"

definition slice_last :: "int \<Rightarrow> 'a list \<Rightarrow> 'a list" where
  "slice_last n xs = (if 0 < n then drop (nat (int (length xs) - n)) xs else drop (nat (- n)) xs)"

definition assert_some :: "'a option \<Rightarrow> 'a result" where
  "assert_some v = (case v of None \<Rightarrow> Inl AssertionError | Some x \<Rightarrow> Inr x)"

definition or_else :: "string option \<Rightarrow> string \<Rightarrow> string" where
  "or_else v x = (case v of Some y \<Rightarrow> if y = '''' then x else y | None \<Rightarrow> x)"

definition business_dates ::
    "WindowRuleSpec \<Rightarrow> ResolutionContext \<Rightarrow> CalendarRequestView \<Rightarrow> date \<Rightarrow> date \<Rightarrow> date list result" where
  "business_dates r ctx q start end =
     (case map_of (cq_business_calendar_receipts q) (rx_calendar_version_ref ctx) of
        None \<Rightarrow> Inl (ResolutionFailure MissingCalendarContract [rx_calendar_version_ref ctx]
          [or_else (rx_holiday_version_ref ctx) ''holiday-calendar:missing''])
      | Some receipt \<Rightarrow>
          if bc_holiday_version_ref receipt \<noteq> rx_holiday_version_ref ctx \<or>
             bc_fiscal_version_ref receipt \<noteq> rx_fiscal_version_ref ctx
          then Inl (ResolutionFailure MissingCalendarContract
            [or_else (rx_holiday_version_ref ctx)
               (or_else (rx_fiscal_version_ref ctx) ''calendar-subversion:missing'')]
            (bc_inspection_evidence_refs receipt))
          else bindR (assert_some (rl_selection_count r)) (\<lambda>n.
            let candidates = filter (\<lambda>d. start \<le> d \<and> d \<le> end) (bc_valid_dates receipt)
            in if int (length candidates) < n
               then Inl (ResolutionFailure InvalidWindowRule [rx_calendar_version_ref ctx]
                 [''window-rule:'' @ rl_window_rule_id r])
               else Inr (if rl_selection_kind r = FirstNValidBusinessDays then slice_to n candidates
                 else slice_last n candidates)))"

text \<open>The part of \<open>_calendar_interval\<close> after the period of the rule is known.\<close>

definition select_dates ::
    "WindowRuleSpec \<Rightarrow> ResolutionContext \<Rightarrow> CalendarRequestView \<Rightarrow> date \<Rightarrow> date \<Rightarrow> date list result" where
  "select_dates r ctx q start end = (case rl_selection_kind r of
     CompletePeriod \<Rightarrow> date_range start end
   | FirstNCalendarDays \<Rightarrow>
       bindR (assert_some (rl_selection_count r)) (\<lambda>n.
       bindR (require (n \<le> days_between start end + 1) (invalid_rule r (cq_target_period_ref q))) (\<lambda>_.
       bindR (add_days start (n - 1)) (date_range start)))
   | LastNCalendarDays \<Rightarrow>
       bindR (assert_some (rl_selection_count r)) (\<lambda>n.
       bindR (require (n \<le> days_between start end + 1) (invalid_rule r (cq_target_period_ref q))) (\<lambda>_.
       bindR (add_days end (- (n - 1))) (\<lambda>first. date_range first end)))
   | OrdinalRange \<Rightarrow>
       bindR (assert_some (rl_ordinal_start r)) (\<lambda>a.
       bindR (assert_some (rl_ordinal_end r)) (\<lambda>b.
       bindR (add_days start (a - 1)) (\<lambda>first.
       bindR (add_days start (b - 1)) (\<lambda>last.
       bindR (require (last \<le> end) (invalid_rule r (cq_target_period_ref q))) (\<lambda>_.
         date_range first last)))))
   | FirstNValidBusinessDays \<Rightarrow> business_dates r ctx q start end
   | LastNValidBusinessDays \<Rightarrow> business_dates r ctx q start end
   | RollingLength \<Rightarrow> Inl (invalid_rule r (cq_target_period_ref q)))"

text \<open>The two rule kinds that select dates of a calendar period.\<close>

definition period_dates ::
    "WindowRuleSpec \<Rightarrow> date \<Rightarrow> ResolutionContext \<Rightarrow> CalendarRequestView \<Rightarrow> date list result" where
  "period_dates r anchor ctx q =
     bindR (require (rl_rule_kind r = BusinessCalendar \<longrightarrow>
         rl_selection_kind r \<in> {FirstNValidBusinessDays, LastNValidBusinessDays})
       (invalid_rule r (rx_calendar_version_ref ctx))) (\<lambda>_.
     bindR (require (rl_calendar_unit r \<noteq> CalFiscalPeriod)
       (ResolutionFailure UnsupportedCalendar
         [or_else (rx_fiscal_version_ref ctx) ''fiscal-calendar:missing'']
         [rx_calendar_version_ref ctx])) (\<lambda>_.
     bindR (shifted_period anchor (rl_calendar_unit r) (rl_period_offset r)) (\<lambda>(start, end).
     bindR (select_dates r ctx q start end) (\<lambda>ds. apply_interval_boundaries ds r))))"

definition rolling_dates :: "WindowRuleSpec \<Rightarrow> date \<Rightarrow> CalendarRequestView \<Rightarrow> date list result" where
  "rolling_dates r anchor q =
     (case rl_selection_count r of
        Some n \<Rightarrow>
          if rl_selection_kind r = RollingLength then
            bindR (shift_anchor anchor (rl_calendar_unit r) (rl_period_offset r)) (\<lambda>end.
            bindR (add_days end (- (n - 1))) (\<lambda>start.
            bindR (date_range start end) (\<lambda>ds. apply_interval_boundaries ds r)))
          else Inl (invalid_rule r (cq_target_period_ref q))
      | None \<Rightarrow> Inl (invalid_rule r (cq_target_period_ref q)))"

definition calendar_interval ::
    "WindowRuleSpec \<Rightarrow> date option \<Rightarrow> ResolutionContext \<Rightarrow> CalendarRequestView \<Rightarrow>
     (date list \<times> date) result" where
  "calendar_interval r anchor ctx q =
     (if rl_rule_kind r = AbsoluteInterval then
        bindR (assert_some (rl_absolute_start r)) (\<lambda>start.
        bindR (assert_some (rl_absolute_end r)) (\<lambda>end.
        bindR (date_range start end) (\<lambda>ds.
        bindR (apply_interval_boundaries ds r) (\<lambda>sel. Inr (sel, start)))))
      else bindR (assert_some anchor) (\<lambda>a.
        bindR (if rl_rule_kind r = RollingInterval then rolling_dates r a q else period_dates r a ctx q)
          (\<lambda>sel. Inr (sel, a))))"

text \<open>
  The dates of the \<open>ResolvedWindow\<close> that \<open>_resolve_window_rule\<close> returns for the rule and the dates
  selected for it.
\<close>

definition dated_window :: "WindowRuleSpec \<Rightarrow> date list \<Rightarrow> date \<Rightarrow> ResolvedWindowDates" where
  "dated_window r ds anchor = \<lparr>rw_window_rule_id = rl_window_rule_id r, rw_anchor_date = anchor,
     rw_period_offset = rl_period_offset r, rw_actual_start = hd ds, rw_actual_end = last ds,
     rw_actual_calendar_days = days_between (hd ds) (last ds) + 1,
     rw_selected_calendar_dates_count = int (length ds),
     rw_selected_calendar_dates_sha256 = digest (dates_json ds)\<rparr>"

text \<open>The beginning of \<open>_resolve_window_rule\<close>: a window's dates, or the boundary that replaces it.\<close>

datatype WindowBoundary = WindowBoundary ResolutionBoundaryCode "string list" "string list"

definition resolve_window_dates ::
    "WindowRuleSpec \<Rightarrow> ResolutionContext \<Rightarrow> CalendarRequestView \<Rightarrow>
     (WindowBoundary + ResolvedWindowDates) result" where
  "resolve_window_dates r ctx q =
     (let anchor = map_of (cq_anchor_dates q) (rl_anchor_ref r)
      in if rl_rule_kind r \<noteq> AbsoluteInterval \<and> anchor = None
         then Inr (Inl (WindowBoundary MissingAnchor [rl_anchor_ref r] [cq_target_period_ref q]))
         else (case calendar_interval r anchor ctx q of
             Inl (ResolutionFailure code refs inspection) \<Rightarrow> Inr (Inl (WindowBoundary code refs inspection))
           | Inl e \<Rightarrow> Inl e
           | Inr (ds, a) \<Rightarrow> Inr (Inr (dated_window r ds a))))"

section \<open>Periods of the calendar, as checked\<close>

definition identity_shift_month :: "int \<Rightarrow> int \<Rightarrow> int \<Rightarrow> int \<times> int" where
  "identity_shift_month year month offset =
     (let absolute = year * 12 + month - 1 + offset in (absolute div 12, absolute mod 12 + 1))"

definition identity_shifted_period :: "date \<Rightarrow> string \<Rightarrow> int \<Rightarrow> (date \<times> date) result" where
  "identity_shifted_period anchor unit offset =
     (if unit = ''day'' then bindR (add_days anchor offset) (\<lambda>d. Inr (d, d))
      else if unit = ''week'' then
        bindR (add_days anchor (- weekday anchor)) (\<lambda>monday.
        bindR (add_days monday (7 * offset)) (\<lambda>start.
        bindR (add_days start 6) (\<lambda>end. Inr (start, end))))
      else if unit = ''month'' then
        (case identity_shift_month (date_year anchor) (date_month anchor) offset of (year, month) \<Rightarrow>
        bindR (make_date year month 1) (\<lambda>start.
        bindR (make_date year month (days_in_month year month)) (\<lambda>end. Inr (start, end))))
      else if unit = ''quarter'' then
        (let absolute = date_year anchor * 4 + (date_month anchor - 1) div 3 + offset;
             year = absolute div 4; month = absolute mod 4 * 3 + 1
         in (case identity_shift_month year month 2 of (end_year, end_month) \<Rightarrow>
            bindR (make_date year month 1) (\<lambda>start.
            bindR (make_date end_year end_month (days_in_month end_year end_month)) (\<lambda>end.
              Inr (start, end)))))
      else if unit = ''year'' then
        (let year = date_year anchor + offset
         in bindR (make_date year 1 1) (\<lambda>start. bindR (make_date year 12 31) (\<lambda>end. Inr (start, end))))
      else Inl (ValueError ''Frame calendar unit requires a versioned resolver''))"

definition identity_shift_anchor :: "date \<Rightarrow> string \<Rightarrow> int \<Rightarrow> date result" where
  "identity_shift_anchor anchor unit offset =
     (if unit = ''day'' then add_days anchor offset
      else if unit = ''week'' then add_days anchor (7 * offset)
      else if unit = ''month'' then
        (case identity_shift_month (date_year anchor) (date_month anchor) offset of (year, month) \<Rightarrow>
         make_date year month (min (date_day anchor) (days_in_month year month)))
      else if unit = ''quarter'' then
        (case identity_shift_month (date_year anchor) (date_month anchor) (offset * 3) of (year, month) \<Rightarrow>
         make_date year month (min (date_day anchor) (days_in_month year month)))
      else if unit = ''year'' then
        (let year = date_year anchor + offset
         in make_date year (date_month anchor) (min (date_day anchor) (days_in_month year (date_month anchor))))
      else Inl (ValueError ''rolling calendar unit is unsupported''))"

section \<open>The check of a resolved window\<close>

definition boundary_loss :: "WindowRuleSpec \<Rightarrow> int" where
  "boundary_loss r = (if rl_start_boundary r = ExclusiveBoundary then 1 else 0) +
     (if rl_end_boundary r = ExclusiveBoundary then 1 else 0)"

definition check_business_window :: "WindowRuleSpec \<Rightarrow> ResolvedWindowDates \<Rightarrow> unit result" where
  "check_business_window r w =
     bindR (identity_shifted_period (rw_anchor_date w) (calendar_unit_value (rl_calendar_unit r))
       (rl_period_offset r)) (\<lambda>(start, end).
     require (case rl_selection_count r of None \<Rightarrow> False | Some n \<Rightarrow>
         rw_selected_calendar_dates_count w = n - boundary_loss r \<and>
         start \<le> rw_actual_start w \<and> rw_actual_end w \<le> end)
       (ValueError ''business-calendar resolution violates Frame bounds''))"

definition expected_period :: "WindowRuleSpec \<Rightarrow> date \<Rightarrow> (date \<times> date) result" where
  "expected_period r anchor = (case rl_rule_kind r of
     AbsoluteInterval \<Rightarrow> (case (rl_absolute_start r, rl_absolute_end r) of
         (Some a, Some b) \<Rightarrow> Inr (a, b)
       | _ \<Rightarrow> Inl (ValueError ''Frame window has no resolvable interval''))
   | RollingInterval \<Rightarrow> (case rl_selection_count r of
         Some n \<Rightarrow>
           if rl_selection_kind r = RollingLength then
             bindR (identity_shift_anchor anchor (calendar_unit_value (rl_calendar_unit r))
               (rl_period_offset r)) (\<lambda>end.
             bindR (add_days end (- (n - 1))) (\<lambda>start. Inr (start, end)))
           else Inl (ValueError ''rolling Frame window rule is invalid'')
       | None \<Rightarrow> Inl (ValueError ''rolling Frame window rule is invalid''))
   | _ \<Rightarrow> identity_shifted_period anchor (calendar_unit_value (rl_calendar_unit r)) (rl_period_offset r))"

definition expected_selection :: "WindowRuleSpec \<Rightarrow> date \<times> date \<Rightarrow> (date \<times> date) result" where
  "expected_selection r se = (case se of (start, end) \<Rightarrow> case rl_selection_kind r of
     FirstNCalendarDays \<Rightarrow>
       bindR (assert_some (rl_selection_count r)) (\<lambda>n.
       bindR (add_days start (n - 1)) (\<lambda>last. Inr (start, last)))
   | LastNCalendarDays \<Rightarrow>
       bindR (assert_some (rl_selection_count r)) (\<lambda>n.
       bindR (add_days end (- (n - 1))) (\<lambda>first. Inr (first, end)))
   | OrdinalRange \<Rightarrow>
       bindR (assert_some (rl_ordinal_start r)) (\<lambda>a.
       bindR (assert_some (rl_ordinal_end r)) (\<lambda>b.
       bindR (add_days start (a - 1)) (\<lambda>first.
       bindR (add_days start (b - 1)) (\<lambda>last. Inr (first, last)))))
   | _ \<Rightarrow> Inr (start, end))"

definition expected_bounds :: "WindowRuleSpec \<Rightarrow> date \<times> date \<Rightarrow> (date \<times> date) result" where
  "expected_bounds r se = (case se of (start, end) \<Rightarrow>
     bindR (if rl_start_boundary r = ExclusiveBoundary then add_days start 1 else Inr start) (\<lambda>a.
     bindR (if rl_end_boundary r = ExclusiveBoundary then add_days end (- 1) else Inr end) (\<lambda>b.
       Inr (a, b))))"

definition validate_resolved_calendar_window :: "WindowRuleSpec \<Rightarrow> ResolvedWindowDates \<Rightarrow> unit result" where
  "validate_resolved_calendar_window r w =
     (if rl_rule_kind r = BusinessCalendar then check_business_window r w
      else bindR (expected_period r (rw_anchor_date w)) (\<lambda>period.
        bindR (expected_selection r period) (\<lambda>selection.
        bindR (expected_bounds r selection) (\<lambda>(start, end).
        bindR (require (rw_actual_start w = start \<and> rw_actual_end w = end)
          (ValueError ''resolution dates do not derive from the Frame window rule'')) (\<lambda>_.
        bindR (date_range start end) (\<lambda>ds.
          require (rw_selected_calendar_dates_count w = int (length ds) \<and>
              rw_selected_calendar_dates_sha256 w = digest (dates_json ds))
            (ValueError ''resolution date-set proof does not match the Frame window rule'')))))))"

end
