(* ===== verification/CalendarPeriods.thy ===== *)
theory CalendarPeriods imports CalendarWindows begin

text \<open>
  What the periods of the calendar are: each unit divides the dates into numbered periods, and
  \<open>_shifted_period\<close> returns the first and the last date of the period with the number of the
  anchor's plus the offset.  The two modules compute the same periods.
\<close>

section \<open>Numbered periods\<close>

fun period_number :: "CalendarUnit \<Rightarrow> date \<Rightarrow> int" where
  "period_number CalDay d = ordinal d"
| "period_number CalWeek d = (ordinal d - 1) div 7"
| "period_number CalMonth d = 12 * date_year d + (date_month d - 1)"
| "period_number CalQuarter d = 4 * date_year d + (date_month d - 1) div 3"
| "period_number CalYear d = date_year d"
| "period_number CalFiscalPeriod d = 0"

lemma date_le_iff:
  "a \<le> b \<longleftrightarrow> date_year a < date_year b \<or> date_year a = date_year b \<and>
     (date_month a < date_month b \<or> date_month a = date_month b \<and> date_day a \<le> date_day b)"
  by (auto simp: less_eq_date_def date_key_def less_eq_prod_def less_prod_def)

lemma gregorian_fields:
  "gregorian d \<Longrightarrow> 1 \<le> date_month d" "gregorian d \<Longrightarrow> date_month d \<le> 12"
  "gregorian d \<Longrightarrow> 1 \<le> date_day d" "gregorian d \<Longrightarrow> date_day d \<le> days_in_month (date_year d) (date_month d)"
  by (simp_all add: gregorian_def)

lemma in_months:
  assumes "gregorian x"
  shows "Date y m 1 \<le> x \<and> x \<le> Date y n (days_in_month y n) \<longleftrightarrow>
    date_year x = y \<and> m \<le> date_month x \<and> date_month x \<le> n"
  using gregorian_fields [OF assms] by (auto simp: date_le_iff)

lemma ordinal_between:
  assumes "gregorian a" "gregorian b" "gregorian x"
  shows "a \<le> x \<and> x \<le> b \<longleftrightarrow> ordinal a \<le> ordinal x \<and> ordinal x \<le> ordinal b"
  using assms by (simp add: ordinal_le_iff)

lemma shifted_month: "shift_month y m k = (Y, M) \<Longrightarrow> 12 * Y + (M - 1) = 12 * y + (m - 1) + k \<and> 1 \<le> M \<and> M \<le> 12"
  by (auto simp: shift_month_def Let_def)

lemma mixed_radix_eq:
  fixes y z a b n :: int
  assumes "0 \<le> a" "a < n" "0 \<le> b" "b < n"
  shows "n * y + a = n * z + b \<longleftrightarrow> y = z \<and> a = b"
proof
  assume e: "n * y + a = n * z + b"
  have "(n * y + a) div n = y" "(n * z + b) div n = z"
    using assms by (simp_all add: div_pos_pos_trivial)
  then have "y = z" using e by simp
  then show "y = z \<and> a = b" using e by simp
qed simp

lemma third_of_year: "((m::int) - 1) div 3 = q \<longleftrightarrow> 3 * q + 1 \<le> m \<and> m \<le> 3 * q + 3"
  by presburger

lemma period_dates_ok:
  "shifted_period d u k = Inr (s, e) \<Longrightarrow> date_ok s \<and> date_ok e \<and> u \<noteq> CalFiscalPeriod"
  by (cases u) (auto simp: shifted_period_def Let_def result_simps split: prod.splits)

lemma week_period:
  assumes "shifted_period d CalWeek k = Inr (s, e)"
  shows "ordinal s = 7 * ((ordinal d - 1) div 7 + k) + 1 \<and> ordinal e = ordinal s + 6"
proof -
  have "ordinal s = ordinal d - weekday d + 7 * k" "ordinal e = ordinal s + 6"
    using assms by (auto simp: shifted_period_def result_simps)
  moreover have "ordinal d - weekday d = 7 * ((ordinal d - 1) div 7) + 1"
    unfolding weekday_def by presburger
  ultimately show ?thesis by simp
qed

lemma month_period:
  assumes "shifted_period d CalMonth k = Inr (s, e)"
  shows "\<exists>y m. s = Date y m 1 \<and> e = Date y m (days_in_month y m) \<and>
    12 * y + (m - 1) = period_number CalMonth d + k \<and> 1 \<le> m \<and> m \<le> 12"
  using assms shifted_month [of "date_year d" "date_month d" k]
  by (auto simp: shifted_period_def result_simps split: prod.splits)

lemma quarter_period:
  assumes "shifted_period d CalQuarter k = Inr (s, e)"
  shows "\<exists>y q. s = Date y (3 * q + 1) 1 \<and> e = Date y (3 * q + 3) (days_in_month y (3 * q + 3)) \<and>
    4 * y + q = period_number CalQuarter d + k \<and> 0 \<le> q \<and> q \<le> 3"
proof -
  let ?a = "date_year d * 4 + (date_month d - 1) div 3 + k"
  have bounds: "0 \<le> ?a mod 4" "?a mod 4 \<le> 3" "4 * (?a div 4) + ?a mod 4 = ?a"
    using pos_mod_bound [of 4 ?a] pos_mod_sign [of 4 ?a] by simp_all
  have "shift_month (?a div 4) (?a mod 4 * 3 + 1) 2 = (?a div 4, ?a mod 4 * 3 + 3)"
    unfolding shift_month_def Let_def using bounds(1,2)
    by (simp add: int_div_pos_eq [of _ 12 "?a div 4" "?a mod 4 * 3 + 2"]
        int_mod_pos_eq [of _ 12 "?a div 4" "?a mod 4 * 3 + 2"])
  then have "s = Date (?a div 4) (3 * (?a mod 4) + 1) 1"
    "e = Date (?a div 4) (3 * (?a mod 4) + 3) (days_in_month (?a div 4) (3 * (?a mod 4) + 3))"
    using assms by (auto simp: shifted_period_def Let_def result_simps algebra_simps)
  then show ?thesis using bounds by (intro exI [of _ "?a div 4"] exI [of _ "?a mod 4"]) simp
qed

lemma period_contains:
  assumes "shifted_period d u k = Inr (s, e)" and x: "gregorian x"
  shows "s \<le> x \<and> x \<le> e \<longleftrightarrow> period_number u x = period_number u d + k"
proof (cases u)
  case CalDay
  then have "s = e" "ordinal s = ordinal d + k" "gregorian s"
    using assms(1) by (auto simp: shifted_period_def result_simps)
  then show ?thesis using CalDay ordinal_between [of s s x] x by auto
next
  case CalWeek
  have "gregorian s" "gregorian e" using period_dates_ok [OF assms(1)] by (auto dest: date_ok_gregorian)
  then have "s \<le> x \<and> x \<le> e \<longleftrightarrow> ordinal s \<le> ordinal x \<and> ordinal x \<le> ordinal e"
    using x by (rule ordinal_between)
  also have "\<dots> \<longleftrightarrow> (ordinal x - 1) div 7 = (ordinal d - 1) div 7 + k"
  proof -
    have "ordinal s = 7 * ((ordinal d - 1) div 7 + k) + 1 \<and> ordinal e = ordinal s + 6"
      using assms(1) CalWeek by (intro week_period) simp
    then show ?thesis by presburger
  qed
  finally show ?thesis using CalWeek by simp
next
  case CalMonth
  then obtain y m where p: "s = Date y m 1" "e = Date y m (days_in_month y m)"
    "12 * y + (m - 1) = period_number CalMonth d + k" "1 \<le> m" "m \<le> 12"
    using month_period assms(1) by blast
  have "s \<le> x \<and> x \<le> e \<longleftrightarrow> date_year x = y \<and> date_month x = m"
    using in_months [OF x, of y m m] p by auto
  also have "\<dots> \<longleftrightarrow> 12 * date_year x + (date_month x - 1) = 12 * y + (m - 1)"
    using gregorian_fields(1,2) [OF x] p(4,5) by (subst mixed_radix_eq) auto
  finally show ?thesis using CalMonth p(3) by simp
next
  case CalQuarter
  then obtain y q where p: "s = Date y (3 * q + 1) 1"
    "e = Date y (3 * q + 3) (days_in_month y (3 * q + 3))"
    "4 * y + q = period_number CalQuarter d + k" "0 \<le> q" "q \<le> 3"
    using quarter_period assms(1) by blast
  have "s \<le> x \<and> x \<le> e \<longleftrightarrow> date_year x = y \<and> 3 * q + 1 \<le> date_month x \<and> date_month x \<le> 3 * q + 3"
    unfolding p(1,2) by (rule in_months [OF x])
  also have "\<dots> \<longleftrightarrow> date_year x = y \<and> (date_month x - 1) div 3 = q"
    by (simp only: third_of_year)
  also have "\<dots> \<longleftrightarrow> 4 * date_year x + (date_month x - 1) div 3 = 4 * y + q"
    using gregorian_fields(1,2) [OF x] p(4,5) by (subst mixed_radix_eq) auto
  finally show ?thesis using CalQuarter p(3) by simp
next
  case CalYear
  have "s = Date (date_year d + k) 1 1 \<and> e = Date (date_year d + k) 12 31"
    using assms(1) CalYear by (auto simp: shifted_period_def Let_def result_simps)
  then have "s \<le> x \<and> x \<le> e \<longleftrightarrow> date_year x = date_year d + k"
    using in_months [OF x, of "date_year d + k" 1 12] gregorian_fields(1,2) [OF x]
    by (auto simp: days_in_month_def)
  then show ?thesis using CalYear by simp
next
  case CalFiscalPeriod
  then show ?thesis using period_dates_ok [OF assms(1)] by simp
qed

lemma period_in_order:
  assumes "shifted_period d u k = Inr (s, e)"
  shows "s \<le> e"
proof (cases u)
  case CalDay
  then show ?thesis using assms by (auto simp: shifted_period_def result_simps)
next
  case CalWeek
  then show ?thesis
    using week_period [of d k s e] assms period_dates_ok [OF assms] ordinal_le_iff [of s e]
    by (auto dest!: date_ok_gregorian)
next
  case CalMonth
  then obtain y m where "s = Date y m 1" "e = Date y m (days_in_month y m)"
    using month_period assms by blast
  then show ?thesis using days_in_month_pos [of y m] by (simp add: date_le_iff)
next
  case CalQuarter
  then obtain y q n where "s = Date y (3 * q + 1) 1" "e = Date y (3 * q + 3) n"
    using quarter_period assms by blast
  then show ?thesis by (simp add: date_le_iff)
next
  case CalYear
  then show ?thesis using assms by (auto simp: shifted_period_def Let_def result_simps date_le_iff)
next
  case CalFiscalPeriod
  then show ?thesis using period_dates_ok [OF assms] by simp
qed

section \<open>The same periods in both modules\<close>

lemma identity_shift_month_eq [simp]: "identity_shift_month = shift_month"
  by (intro ext) (simp add: identity_shift_month_def shift_month_def)

lemma identity_period_eq:
  "u \<noteq> CalFiscalPeriod \<Longrightarrow> identity_shifted_period a (calendar_unit_value u) k = shifted_period a u k"
  by (cases u) (auto simp: identity_shifted_period_def shifted_period_def Let_def split: prod.splits)

lemma identity_anchor_eq:
  "u \<noteq> CalFiscalPeriod \<Longrightarrow> identity_shift_anchor a (calendar_unit_value u) k = shift_anchor a u k"
  by (cases u) (auto simp: identity_shift_anchor_def shift_anchor_def clamped_date_def Let_def
      split: prod.splits)

end
