(* ===== verification/CalendarSelection.thy ===== *)
theory CalendarSelection imports CalendarPeriods begin

text \<open>
  The dates that the resolver selects, as intervals of ordinals, and the check of the resolved
  window in the same terms.
\<close>

section \<open>Runs of consecutive dates\<close>

definition run :: "int \<Rightarrow> int \<Rightarrow> date list" where
  "run a b = map of_ordinal [a..b]"

lemma length_run [simp]: "length (run a b) = nat (b - a + 1)"
  by (simp add: run_def)

lemma run_Nil [simp]: "run a b = [] \<longleftrightarrow> b < a"
  by (simp add: run_def)

lemma hd_run: "a \<le> b \<Longrightarrow> hd (run a b) = of_ordinal a"
  by (simp add: run_def hd_map upto_rec1)

lemma last_run: "a \<le> b \<Longrightarrow> last (run a b) = of_ordinal b"
  by (simp add: run_def last_map upto_rec2)

lemma tl_run: "tl (run a b) = run (a + 1) b"
  by (cases "a \<le> b") (simp_all add: run_def map_tl [symmetric] upto_rec1)

lemma butlast_run: "butlast (run a b) = run a (b - 1)"
  by (cases "a \<le> b") (simp_all add: run_def map_butlast [symmetric] upto_rec2)

lemma set_run: "d \<in> set (run a b) \<Longrightarrow> a \<le> ordinal d \<and> ordinal d \<le> b \<and> gregorian d"
  by (auto simp: run_def)

lemma sorted_run: "sorted (run a b)"
  unfolding run_def sorted_map
  by (rule sorted_wrt_mono_rel [OF _ sorted_upto]) (simp add: ordinal_le_iff [symmetric])

lemma distinct_run: "distinct (run a b)"
  unfolding run_def distinct_map
  by (auto intro!: inj_onI dest: arg_cong [of _ _ ordinal])

lemma upto_shift: "[a..b] = map (\<lambda>k. a + k) [0..b - a]"
  by (rule nth_equalityI) auto

lemma date_range_Inr:
  assumes "date_ok s" "date_ok e"
  shows "date_range s e = Inr (run (ordinal s) (ordinal e))"
proof -
  have "add_days s k = Inr (of_ordinal (ordinal s + k))" if "k \<in> set [0..ordinal e - ordinal s]" for k
    using that assms by (simp add: add_days_Inr date_ok_iff max_ordinal_def)
  then have "map (add_days s) [0..ordinal e - ordinal s] = map Inr (run (ordinal s) (ordinal e))"
    by (simp add: run_def upto_shift [of "ordinal s"])
  then show ?thesis by (simp add: date_range_def days_between_def sequenceR_Inr_iff)
qed

section \<open>Exclusive boundaries\<close>

definition start_loss :: "WindowRuleSpec \<Rightarrow> int" where
  "start_loss r = (if rl_start_boundary r = ExclusiveBoundary then 1 else 0)"

definition end_loss :: "WindowRuleSpec \<Rightarrow> int" where
  "end_loss r = (if rl_end_boundary r = ExclusiveBoundary then 1 else 0)"

lemma losses: "0 \<le> start_loss r" "0 \<le> end_loss r" "boundary_loss r = start_loss r + end_loss r"
  by (simp_all add: start_loss_def end_loss_def boundary_loss_def)

lemma boundaries_of_run:
  "apply_interval_boundaries (run a b) r = Inr ds \<longleftrightarrow>
     a + start_loss r \<le> b - end_loss r \<and> ds = run (a + start_loss r) (b - end_loss r)"
  by (auto simp: apply_interval_boundaries_def Let_def start_loss_def end_loss_def tl_run butlast_run)

definition shortened :: "date list \<Rightarrow> date list \<Rightarrow> int \<Rightarrow> bool" where
  "shortened ds xs k \<longleftrightarrow> int (length ds) = int (length xs) - k \<and> set ds \<subseteq> set xs \<and>
     (sorted_wrt (<) xs \<longrightarrow> sorted_wrt (<) ds)"

lemma shortened_refl: "shortened xs xs 0"
  by (simp add: shortened_def)

lemma shortened_tl: "tl xs \<noteq> [] \<Longrightarrow> shortened (tl xs) xs 1"
  by (cases xs) (auto simp: shortened_def)

lemma shortened_butlast: "butlast xs \<noteq> [] \<Longrightarrow> shortened (butlast xs) xs 1"
  by (cases xs rule: rev_cases) (auto simp: shortened_def sorted_wrt_append)

lemma shortened_both: "butlast (tl xs) \<noteq> [] \<Longrightarrow> shortened (butlast (tl xs)) xs 2"
  using shortened_butlast [of "tl xs"] shortened_tl [of xs]
  by (cases "tl xs = []") (auto simp: shortened_def)

lemma boundaries_of_list:
  "apply_interval_boundaries xs r = Inr ds \<Longrightarrow> ds \<noteq> [] \<and> shortened ds xs (boundary_loss r)"
  using shortened_refl [of xs] shortened_tl [of xs] shortened_butlast [of xs] shortened_both [of xs]
  by (cases "rl_start_boundary r"; cases "rl_end_boundary r")
    (auto simp: apply_interval_boundaries_def Let_def boundary_loss_def split: if_splits)

section \<open>The selection that the check expects\<close>

text \<open>A rule whose kind and selection both modules read in the same way.\<close>

definition agreed :: "WindowRuleSpec \<Rightarrow> bool" where
  "agreed r \<longleftrightarrow>
     (rl_rule_kind r = AbsoluteInterval \<longrightarrow>
        rl_selection_kind r \<notin> {FirstNCalendarDays, LastNCalendarDays, OrdinalRange}) \<and>
     (rl_rule_kind r = RelativeCalendar \<longrightarrow>
        rl_selection_kind r \<notin> {FirstNValidBusinessDays, LastNValidBusinessDays})"

text \<open>The dates of a rule are dates of Python, whose years are 1 to 9999.\<close>

definition rule_dates :: "WindowRuleSpec \<Rightarrow> bool" where
  "rule_dates r \<longleftrightarrow> (\<forall>d. rl_absolute_start r = Some d \<or> rl_absolute_end r = Some d \<longrightarrow> date_ok d)"

lemma assert_some_Inr [simp, result_simps]: "assert_some v = Inr x \<longleftrightarrow> v = Some x"
  by (simp add: assert_some_def split: option.split)

text \<open>What both modules agree on before the boundaries of the interval apply.\<close>

definition spans :: "WindowRuleSpec \<Rightarrow> date \<Rightarrow> date list \<Rightarrow> bool" where
  "spans r a xs \<longleftrightarrow> (\<exists>p s e. expected_period r a = Inr p \<and> expected_selection r p = Inr (s, e) \<and>
     date_ok s \<and> date_ok e \<and> xs = run (ordinal s) (ordinal e))"

lemma absolute_spans:
  assumes "rl_rule_kind r = AbsoluteInterval" "agreed r" "rule_dates r"
    and "rl_absolute_start r = Some s" "rl_absolute_end r = Some e" "date_range s e = Inr xs"
  shows "spans r a xs"
  using assms date_range_Inr [of s e]
  by (cases "rl_selection_kind r")
    (auto simp: spans_def expected_period_def expected_selection_def agreed_def rule_dates_def)

lemma rolling_spans:
  assumes "rl_rule_kind r = RollingInterval" "rl_selection_kind r = RollingLength"
    and "rl_selection_count r = Some n"
    and "shift_anchor a (rl_calendar_unit r) (rl_period_offset r) = Inr e"
    and "add_days e (- (n - 1)) = Inr s" "date_range s e = Inr xs"
  shows "spans r a xs"
proof -
  have "rl_calendar_unit r \<noteq> CalFiscalPeriod" using assms(4) by (auto simp: shift_anchor_def)
  moreover have "date_ok e"
    using assms(4) by (auto simp: shift_anchor_def clamped_date_def result_simps
        split: CalendarUnit.splits prod.splits)
  moreover have "date_ok s" using assms(5) by (auto simp: result_simps)
  ultimately show ?thesis
    using assms date_range_Inr [of s e]
    by (auto simp: spans_def expected_period_def expected_selection_def identity_anchor_eq)
qed

lemma period_spans:
  assumes "rl_rule_kind r = RelativeCalendar" "agreed r"
    and p: "shifted_period a (rl_calendar_unit r) (rl_period_offset r) = Inr (s, e)"
    and "select_dates r ctx q s e = Inr xs"
  shows "spans r a xs"
proof -
  have ok: "date_ok s" "date_ok e" "rl_calendar_unit r \<noteq> CalFiscalPeriod"
    using period_dates_ok [OF p] by simp_all
  then have "expected_period r a = Inr (s, e)"
    using assms(1) p by (simp add: expected_period_def identity_period_eq)
  moreover have "\<exists>s' e'. expected_selection r (s, e) = Inr (s', e') \<and> date_ok s' \<and> date_ok e' \<and>
      xs = run (ordinal s') (ordinal e')"
    using assms(1,2,4) ok
    by (cases "rl_selection_kind r")
      (auto simp: select_dates_def expected_selection_def agreed_def result_simps date_range_Inr)
  ultimately show ?thesis unfolding spans_def by fastforce
qed

lemma spans_accepted:
  assumes "spans r a xs" "apply_interval_boundaries xs r = Inr ds" "rl_rule_kind r \<noteq> BusinessCalendar"
  shows "validate_resolved_calendar_window r (dated_window r ds a) = Inr ()"
proof -
  obtain p s e where p: "expected_period r a = Inr p" "expected_selection r p = Inr (s, e)"
    and ok: "date_ok s" "date_ok e" and xs: "xs = run (ordinal s) (ordinal e)"
    using assms(1) by (auto simp: spans_def)
  let ?a = "ordinal s + start_loss r" and ?b = "ordinal e - end_loss r"
  have ds: "?a \<le> ?b" "ds = run ?a ?b" using assms(2) xs by (simp_all add: boundaries_of_run)
  have ab: "date_ok (of_ordinal ?a)" "date_ok (of_ordinal ?b)"
    using ds(1) ok losses [of r] by (simp_all add: date_ok_iff)
  have "expected_bounds r (s, e) = Inr (of_ordinal ?a, of_ordinal ?b)"
    using ab ok by (auto simp: expected_bounds_def start_loss_def end_loss_def result_simps bindR_Inr_iff
        date_ok_iff)
  then show ?thesis
    using assms(3) p ds ab
    by (simp add: validate_resolved_calendar_window_def dated_window_def hd_run last_run date_range_Inr)
qed

end
