(* ===== verification/CalendarProperties.thy ===== *)
theory CalendarProperties imports CalendarSelection begin

text \<open>
  What the calendar resolution promises: the periods of a unit number the dates, the dates of a
  window lie in the period that its rule names, and the independent check of \<open>domain/identity.py\<close>
  accepts the windows of the resolver, for the rules that both modules read alike.
\<close>

section \<open>Periods\<close>

text \<open>
  C37: A period is exactly the set of dates with one number.  For every unit but the fiscal period,
  which the resolver refuses, the period at an offset from an anchor runs from its first to its last
  date, both dates of Python, and a date lies in it iff its period number (its day, week, month,
  quarter or year) is that of the anchor plus the offset; so the anchor lies in period 0, and each
  date in one period.
\<close>

theorem period_is_its_number:
  assumes "shifted_period anchor unit offset = Inr (s, e)"
  shows "s \<le> e \<and> date_ok s \<and> date_ok e \<and>
    (\<forall>d. date_ok d \<longrightarrow> s \<le> d \<and> d \<le> e \<longleftrightarrow> period_number unit d = period_number unit anchor + offset)"
  using period_contains [OF assms] period_in_order [OF assms] period_dates_ok [OF assms]
  by (auto dest: date_ok_gregorian)

lemma period_is_its_number_witness:
  "shifted_period (Date 2024 2 29) CalQuarter (- 1) = Inr (Date 2023 10 1, Date 2023 12 31) \<and>
   period_number CalQuarter (Date 2023 11 15) = 8095 \<and>
   period_number CalQuarter (Date 2024 1 1) \<noteq> 8095"
proof -
  have p: "shifted_period (Date 2024 2 29) CalQuarter (- 1) = Inr (Date 2023 10 1, Date 2023 12 31)"
    by code_simp
  have n: "period_number CalQuarter (Date 2024 2 29) + - 1 = 8095" by simp
  have d: "date_ok (Date 2023 11 15)" "date_ok (Date 2024 1 1)" by code_simp+
  have o: "Date 2023 10 1 \<le> Date 2023 11 15" "Date 2023 11 15 \<le> Date 2023 12 31"
    "\<not> Date 2024 1 1 \<le> Date 2023 12 31"
    by code_simp+
  show ?thesis using period_is_its_number [OF p] p d o unfolding n by blast
qed

section \<open>The dates of a window\<close>

definition receipts_ok :: "CalendarRequestView \<Rightarrow> bool" where
  "receipts_ok q \<longleftrightarrow> (\<forall>(i, c) \<in> set (cq_business_calendar_receipts q).
     check_business_calendar c = Inr () \<and> (\<forall>d \<in> set (bc_valid_dates c). date_ok d))"

lemma receipt_dates:
  assumes "receipts_ok q" "map_of (cq_business_calendar_receipts q) i = Some c"
  shows "sorted_wrt (<) (bc_valid_dates c) \<and> (\<forall>d \<in> set (bc_valid_dates c). date_ok d)"
proof -
  have "check_business_calendar c = Inr ()" "\<forall>d \<in> set (bc_valid_dates c). date_ok d"
    using assms map_of_SomeD [OF assms(2)] by (auto simp: receipts_ok_def)
  moreover from this(1) have "sort (bc_valid_dates c) = bc_valid_dates c" "distinct (bc_valid_dates c)"
    by (simp_all add: check_business_calendar_def)
  ultimately show ?thesis by (metis sorted_sort strict_sorted_iff)
qed

lemma slice_to_valid: "1 \<le> n \<Longrightarrow> n \<le> int (length xs) \<Longrightarrow> int (length (slice_to n xs)) = n"
  by (simp add: slice_to_def)

lemma slice_last_valid: "1 \<le> n \<Longrightarrow> n \<le> int (length xs) \<Longrightarrow> int (length (slice_last n xs)) = n"
  by (simp add: slice_last_def)

lemma slices_of: "set (slice_to n xs) \<subseteq> set xs" "set (slice_last n xs) \<subseteq> set xs"
  "sorted_wrt P xs \<Longrightarrow> sorted_wrt P (slice_to n xs)" "sorted_wrt P xs \<Longrightarrow> sorted_wrt P (slice_last n xs)"
  by (auto simp: slice_to_def slice_last_def sorted_wrt_take sorted_wrt_drop
      dest: in_set_takeD in_set_dropD)

lemma business_dates_Inr:
  assumes "business_dates r ctx q s e = Inr xs" "check_window_rule r = Inr ()" "receipts_ok q"
    and k: "rl_selection_kind r \<in> {FirstNValidBusinessDays, LastNValidBusinessDays}"
  shows "\<exists>n c. rl_selection_count r = Some n \<and> int (length xs) = n \<and>
    map_of (cq_business_calendar_receipts q) (rx_calendar_version_ref ctx) = Some c \<and>
    set xs \<subseteq> {d \<in> set (bc_valid_dates c). s \<le> d \<and> d \<le> e} \<and> sorted_wrt (<) xs"
proof -
  obtain n where n: "rl_selection_count r = Some n" "1 \<le> n"
    using assms(2) k by (auto simp: check_window_rule_iff count_selections_def)
  obtain c where c: "map_of (cq_business_calendar_receipts q) (rx_calendar_version_ref ctx) = Some c"
    using assms(1) by (auto simp: business_dates_def split: option.splits)
  let ?cs = "filter (\<lambda>d. s \<le> d \<and> d \<le> e) (bc_valid_dates c)"
  have xs: "xs = slice_to n ?cs \<or> xs = slice_last n ?cs" and len: "n \<le> int (length ?cs)"
    using assms(1) n c by (auto simp: business_dates_def result_simps Let_def split: if_splits)
  have "sorted_wrt (<) ?cs" using receipt_dates [OF assms(3) c] by (simp add: sorted_wrt_filter)
  then have "int (length xs) = n" "set xs \<subseteq> set ?cs" "sorted_wrt (<) xs"
    using xs slice_to_valid [OF n(2) len] slice_last_valid [OF n(2) len] slices_of(1,2) [where xs = ?cs]
      slices_of(3,4) [where xs = ?cs]
    by (elim disjE; blast)+
  then show ?thesis using n(1) c by auto
qed

lemma strict_run: "sorted_wrt (<) (run a b)"
  using sorted_run distinct_run by (simp add: strict_sorted_iff)

lemma run_within:
  assumes "d \<in> set (run (ordinal a) (ordinal b))" "gregorian a" "gregorian b"
  shows "gregorian d" "a \<le> d" "d \<le> b"
  using set_run [OF assms(1)] ordinal_le_iff assms(2,3) by auto

text \<open>The dates that a rule selects of the period from \<open>s\<close> to \<open>e\<close>, before its boundaries apply.\<close>

definition selected_in :: "WindowRuleSpec \<Rightarrow> date \<Rightarrow> date \<Rightarrow> date list \<Rightarrow> bool" where
  "selected_in r s e xs \<longleftrightarrow> sorted_wrt (<) xs \<and> (\<forall>d \<in> set xs. gregorian d \<and> s \<le> d \<and> d \<le> e) \<and>
     (\<forall>n. rl_selection_count r = Some n \<longrightarrow> int (length xs) = n)"

lemma range_selected:
  assumes "date_range a b = Inr xs" "date_ok a" "date_ok b" "s \<le> a" "b \<le> e"
    and "\<forall>n. rl_selection_count r = Some n \<longrightarrow> 0 \<le> n \<and> ordinal b = ordinal a + n - 1"
  shows "selected_in r s e xs"
proof -
  have xs: "xs = run (ordinal a) (ordinal b)" using assms(1-3) date_range_Inr by simp
  have "gregorian d \<and> s \<le> d \<and> d \<le> e" if "d \<in> set xs" for d
    using run_within [of d a b] that assms(2-5) xs date_ok_gregorian by (meson order_trans)
  moreover have "int (length xs) = n" if "rl_selection_count r = Some n" for n
    using assms(6) that xs by simp
  ultimately show ?thesis using strict_run xs by (simp add: selected_in_def)
qed

lemma count_of_selection:
  assumes "check_window_rule r = Inr ()"
  shows "rl_selection_kind r \<in> {FirstNCalendarDays, LastNCalendarDays} \<Longrightarrow>
      \<exists>n \<ge> 1. rl_selection_count r = Some n"
    and "rl_selection_kind r \<in> {OrdinalRange, CompletePeriod} \<Longrightarrow> rl_selection_count r = None"
    and "rl_selection_kind r = OrdinalRange \<Longrightarrow>
      \<exists>i j. rl_ordinal_start r = Some i \<and> rl_ordinal_end r = Some j \<and> 1 \<le> i \<and> i \<le> j"
  using assms by (auto simp: check_window_rule_iff count_selections_def)

lemma select_dates_within:
  assumes sel: "select_dates r ctx q s e = Inr xs" and ok: "check_window_rule r = Inr ()" "receipts_ok q"
    and "date_ok s" "date_ok e"
  shows "selected_in r s e xs"
proof -
  have g: "gregorian s" "gregorian e" using assms(4,5) by (simp_all add: date_ok_gregorian)
  consider (business) "rl_selection_kind r \<in> {FirstNValidBusinessDays, LastNValidBusinessDays}"
    | (firstn) "rl_selection_kind r = FirstNCalendarDays" | (lastn) "rl_selection_kind r = LastNCalendarDays"
    | (ordinals) "rl_selection_kind r = OrdinalRange" | (complete) "rl_selection_kind r = CompletePeriod"
    | (rolling) "rl_selection_kind r = RollingLength"
    by (cases "rl_selection_kind r") simp_all
  then show ?thesis
  proof cases
    case business
    then have "business_dates r ctx q s e = Inr xs" using sel by (auto simp: select_dates_def)
    then obtain n c where b: "rl_selection_count r = Some n" "int (length xs) = n"
      "map_of (cq_business_calendar_receipts q) (rx_calendar_version_ref ctx) = Some c"
      "set xs \<subseteq> {d \<in> set (bc_valid_dates c). s \<le> d \<and> d \<le> e}" "sorted_wrt (<) xs"
      using business_dates_Inr [OF _ ok business] by blast
    then show ?thesis
      using receipt_dates [OF ok(2) b(3)] date_ok_gregorian unfolding selected_in_def by auto
  next
    case firstn
    then obtain n where n: "rl_selection_count r = Some n" "1 \<le> n" using count_of_selection [OF ok(1)] by auto
    then obtain b where b: "n \<le> days_between s e + 1" "add_days s (n - 1) = Inr b" "date_range s b = Inr xs"
      using sel firstn by (auto simp: select_dates_def bindR_Inr_iff)
    have o: "ordinal b = ordinal s + n - 1" "date_ok b" using add_days_ordinal [OF b(2)] by simp_all
    then have "b \<le> e" using b(1) g ordinal_le_iff [of b e] by (simp add: days_between_def date_ok_gregorian)
    then show ?thesis using b(3) o n assms(4) by (intro range_selected [of s b]) simp_all
  next
    case lastn
    then obtain n where n: "rl_selection_count r = Some n" "1 \<le> n" using count_of_selection [OF ok(1)] by auto
    then obtain a where a: "n \<le> days_between s e + 1" "add_days e (- (n - 1)) = Inr a" "date_range a e = Inr xs"
      using sel lastn by (auto simp: select_dates_def bindR_Inr_iff)
    have o: "ordinal a = ordinal e - n + 1" "date_ok a" using add_days_ordinal [OF a(2)] by simp_all
    then have "s \<le> a" using a(1) g ordinal_le_iff [of s a] by (simp add: days_between_def date_ok_gregorian)
    then show ?thesis using a(3) o n assms(5) by (intro range_selected [of a e]) simp_all
  next
    case ordinals
    then obtain i j where n: "rl_ordinal_start r = Some i" "rl_ordinal_end r = Some j" "1 \<le> i"
      "rl_selection_count r = None" using count_of_selection [OF ok(1)] by auto
    then obtain a b where a: "add_days s (i - 1) = Inr a" "add_days s (j - 1) = Inr b" "b \<le> e"
      "date_range a b = Inr xs" using sel ordinals by (auto simp: select_dates_def bindR_Inr_iff)
    have o: "ordinal a = ordinal s + i - 1" "date_ok a" "date_ok b"
      using add_days_ordinal [OF a(1)] add_days_ordinal [OF a(2)] by simp_all
    then have "s \<le> a" using n(3) g ordinal_le_iff [of s a] by (simp add: date_ok_gregorian)
    then show ?thesis using a o n by (intro range_selected [of a b]) simp_all
  next
    case complete
    then have "rl_selection_count r = None" "date_range s e = Inr xs"
      using sel count_of_selection [OF ok(1)] by (auto simp: select_dates_def)
    then show ?thesis using assms(4,5) by (intro range_selected [of s e]) simp_all
  next
    case rolling
    then show ?thesis using sel by (simp add: select_dates_def)
  qed
qed

lemma interval_of_period:
  assumes "calendar_interval r anchor ctx q = Inr (ds, a)" "rl_rule_kind r \<in> {RelativeCalendar, BusinessCalendar}"
  obtains s e xs where "anchor = Some a" "shifted_period a (rl_calendar_unit r) (rl_period_offset r) = Inr (s, e)"
    and "select_dates r ctx q s e = Inr xs" "apply_interval_boundaries xs r = Inr ds"
    and "rl_rule_kind r = BusinessCalendar \<Longrightarrow>
      rl_selection_kind r \<in> {FirstNValidBusinessDays, LastNValidBusinessDays}"
proof -
  have "anchor = Some a" "period_dates r a ctx q = Inr ds"
    using assms by (auto simp: calendar_interval_def bindR_Inr_iff)
  then show thesis using that by (auto simp: period_dates_def bindR_Inr_iff)
qed

text \<open>
  C36: A window never leaves the period that its rule names.  The dates resolved for a relative or
  business rule are in strictly increasing order, at least one, and each has the period number of
  the anchor plus the rule's offset; when the rule counts dates, it gets as many as it counts, less
  one for each exclusive boundary; and a business rule gets only valid dates of the calendar that
  the context names.
\<close>

theorem window_dates_in_period:
  assumes "check_window_rule r = Inr ()" and "receipts_ok q"
    and "rl_rule_kind r \<in> {RelativeCalendar, BusinessCalendar}"
    and "calendar_interval r anchor ctx q = Inr (ds, a)"
  shows "anchor = Some a \<and> ds \<noteq> [] \<and> sorted_wrt (<) ds \<and>
    (\<forall>d \<in> set ds. period_number (rl_calendar_unit r) d =
      period_number (rl_calendar_unit r) a + rl_period_offset r) \<and>
    (\<forall>n. rl_selection_count r = Some n \<longrightarrow> int (length ds) = n - boundary_loss r) \<and>
    (rl_rule_kind r = BusinessCalendar \<longrightarrow>
      (\<exists>c. map_of (cq_business_calendar_receipts q) (rx_calendar_version_ref ctx) = Some c \<and>
         set ds \<subseteq> set (bc_valid_dates c)))"
proof (rule interval_of_period [OF assms(4,3)])
  fix s e xs
  assume a: "anchor = Some a"
    and p: "shifted_period a (rl_calendar_unit r) (rl_period_offset r) = Inr (s, e)"
    and sel: "select_dates r ctx q s e = Inr xs" and b: "apply_interval_boundaries xs r = Inr ds"
    and k: "rl_rule_kind r = BusinessCalendar \<Longrightarrow>
      rl_selection_kind r \<in> {FirstNValidBusinessDays, LastNValidBusinessDays}"
  have w: "selected_in r s e xs"
    using select_dates_within [OF sel assms(1,2)] period_dates_ok [OF p] by simp
  have d: "ds \<noteq> []" "shortened ds xs (boundary_loss r)" using boundaries_of_list [OF b] by simp_all
  have "\<exists>c. map_of (cq_business_calendar_receipts q) (rx_calendar_version_ref ctx) = Some c \<and>
      set ds \<subseteq> set (bc_valid_dates c)" if "rl_rule_kind r = BusinessCalendar"
  proof -
    have "business_dates r ctx q s e = Inr xs" using sel k [OF that] by (auto simp: select_dates_def)
    then show ?thesis
      using business_dates_Inr [OF _ assms(1,2) k [OF that]] d(2) unfolding shortened_def by blast
  qed
  moreover have "period_number (rl_calendar_unit r) d = period_number (rl_calendar_unit r) a +
      rl_period_offset r" if "d \<in> set ds" for d
    using that w d(2) period_contains [OF p, of d] unfolding selected_in_def shortened_def by blast
  ultimately show ?thesis
    using a w d unfolding selected_in_def shortened_def by simp
qed

text \<open>The last two business days of a quarter, with an exclusive end.\<close>

definition ex_rule :: WindowRuleSpec where
  "ex_rule = \<lparr>rl_window_rule_id = ''w'', rl_rule_kind = BusinessCalendar, rl_anchor_ref = ''anchor'',
     rl_calendar_unit = CalQuarter, rl_period_offset = - 1, rl_selection_kind = LastNValidBusinessDays,
     rl_selection_count = Some 2, rl_ordinal_start = None, rl_ordinal_end = None,
     rl_absolute_start = None, rl_absolute_end = None, rl_start_boundary = InclusiveBoundary,
     rl_end_boundary = ExclusiveBoundary, rl_pairing_key_ref = ''pair'', rl_selection_rationale_refs = []\<rparr>"

definition ex_calendar :: BusinessCalendarReceipt where
  "ex_calendar = \<lparr>bc_calendar_version_ref = ''cal'', bc_holiday_version_ref = None,
     bc_fiscal_version_ref = None,
     bc_valid_dates = [Date 2023 12 28, Date 2023 12 29, Date 2024 1 2],
     bc_source_receipt_sha256 = ex_sha CHR ''a'', bc_inspection_evidence_refs = [''seen'']\<rparr>"

definition ex_request :: CalendarRequestView where
  "ex_request = \<lparr>cq_target_period_ref = ''2024'', cq_anchor_dates = [(''anchor'', Date 2024 2 29)],
     cq_business_calendar_receipts = [(''cal'', ex_calendar)]\<rparr>"

definition ex_context :: ResolutionContext where
  "ex_context = \<lparr>rx_as_of_instant = Aware 0, rx_timezone = ''UTC'', rx_business_day_cutoff = ''00:00:00'',
     rx_ambiguous_local_time_policy = RejectFold, rx_calendar_version_ref = ''cal'',
     rx_holiday_version_ref = None, rx_fiscal_version_ref = None, rx_data_contract_version_ref = ''d'',
     rx_snapshot_release_ref = ''s'', rx_coverage_watermark_ref = ''c'', rx_late_arrival_policy_ref = ''l''\<rparr>"

lemma ex_rule_ok: "check_window_rule ex_rule = Inr ()"
  by code_simp

lemma ex_request_ok: "receipts_ok ex_request"
proof -
  have "check_business_calendar ex_calendar = Inr ()" by code_simp
  moreover have "\<forall>d \<in> set (bc_valid_dates ex_calendar). date_ok d" by code_simp
  ultimately show ?thesis by (simp add: receipts_ok_def ex_request_def)
qed

lemma ex_interval:
  "calendar_interval ex_rule (Some (Date 2024 2 29)) ex_context ex_request =
     Inr ([Date 2023 12 28], Date 2024 2 29)"
  by code_simp

lemma window_dates_in_period_witness:
  "calendar_interval ex_rule (Some (Date 2024 2 29)) ex_context ex_request =
     Inr ([Date 2023 12 28], Date 2024 2 29) \<and>
   period_number CalQuarter (Date 2023 12 28) = period_number CalQuarter (Date 2024 2 29) - 1"
proof -
  have f: "rl_rule_kind ex_rule = BusinessCalendar" "rl_calendar_unit ex_rule = CalQuarter"
    "rl_period_offset ex_rule = - 1" by (simp_all add: ex_rule_def)
  have "rl_rule_kind ex_rule \<in> {RelativeCalendar, BusinessCalendar}" using f by simp
  from window_dates_in_period [OF ex_rule_ok ex_request_ok this ex_interval] show ?thesis
    using ex_interval f by simp
qed

section \<open>The resolver and the check\<close>

lemma resolved_interval:
  assumes "resolve_window_dates r ctx q = Inr (Inr w)"
  obtains anchor ds a where "calendar_interval r anchor ctx q = Inr (ds, a)" "w = dated_window r ds a"
  using assms
  by (auto simp: resolve_window_dates_def Let_def split: if_splits sum.splits py_error.splits)

lemma business_accepted:
  assumes "check_window_rule r = Inr ()" "receipts_ok q" "rl_rule_kind r = BusinessCalendar"
    and c: "calendar_interval r anchor ctx q = Inr (ds, a)"
  shows "validate_resolved_calendar_window r (dated_window r ds a) = Inr ()"
proof (rule interval_of_period [OF c])
  show "rl_rule_kind r \<in> {RelativeCalendar, BusinessCalendar}" using assms(3) by simp
next
  fix s e xs
  assume p: "shifted_period a (rl_calendar_unit r) (rl_period_offset r) = Inr (s, e)"
    and sel: "select_dates r ctx q s e = Inr xs" and b: "apply_interval_boundaries xs r = Inr ds"
    and k: "rl_rule_kind r = BusinessCalendar \<Longrightarrow>
      rl_selection_kind r \<in> {FirstNValidBusinessDays, LastNValidBusinessDays}"
  have "business_dates r ctx q s e = Inr xs" using sel k [OF assms(3)] by (auto simp: select_dates_def)
  then obtain n where n: "rl_selection_count r = Some n" "int (length xs) = n"
    "\<forall>d \<in> set xs. s \<le> d \<and> d \<le> e"
    using business_dates_Inr [OF _ assms(1,2) k [OF assms(3)]] by blast
  have d: "ds \<noteq> []" "shortened ds xs (boundary_loss r)" using boundaries_of_list [OF b] by simp_all
  then have "hd ds \<in> set xs" "last ds \<in> set xs" "int (length ds) = n - boundary_loss r"
    using n(2) hd_in_set last_in_set unfolding shortened_def by auto
  moreover have "rl_calendar_unit r \<noteq> CalFiscalPeriod" using period_dates_ok [OF p] by simp
  ultimately show ?thesis
    using n assms(3) p
    by (simp add: validate_resolved_calendar_window_def check_business_window_def dated_window_def
        identity_period_eq)
qed

text \<open>
  C35: The check accepts what the resolver resolves.  \<open>domain/identity.py\<close> derives the dates of a
  window again, with code of its own, and refuses a window that differs.  For a valid rule whose
  kind and selection both modules read alike (\<open>agreed\<close>), it accepts every window that the resolver
  returns: the first and last date, the number of dates and the digest of the set of dates.
\<close>

theorem resolved_window_is_accepted:
  assumes "check_window_rule r = Inr ()" and "agreed r" and "rule_dates r" and "receipts_ok q"
    and "resolve_window_dates r ctx q = Inr (Inr w)"
  shows "validate_resolved_calendar_window r w = Inr ()"
proof (rule resolved_interval [OF assms(5)])
  fix anchor ds a
  assume c: "calendar_interval r anchor ctx q = Inr (ds, a)" and w: "w = dated_window r ds a"
  show ?thesis
  proof (cases "rl_rule_kind r")
    case AbsoluteInterval
    then obtain s e xs where "rl_absolute_start r = Some s" "rl_absolute_end r = Some e"
      "date_range s e = Inr xs" "apply_interval_boundaries xs r = Inr ds"
      using c by (auto simp: calendar_interval_def bindR_Inr_iff)
    then show ?thesis
      using w AbsoluteInterval assms(2,3) absolute_spans spans_accepted by (metis WindowRuleKind.distinct(5))
  next
    case RelativeCalendar
    then show ?thesis using interval_of_period [OF c] period_spans assms(2) w spans_accepted
      by (metis WindowRuleKind.distinct(9) insertCI)
  next
    case RollingInterval
    then obtain n e s xs where "rl_selection_kind r = RollingLength" "rl_selection_count r = Some n"
      "shift_anchor a (rl_calendar_unit r) (rl_period_offset r) = Inr e"
      "add_days e (- (n - 1)) = Inr s" "date_range s e = Inr xs" "apply_interval_boundaries xs r = Inr ds"
      using c by (auto simp: calendar_interval_def rolling_dates_def bindR_Inr_iff
          split: option.splits if_splits)
    then show ?thesis
      using w RollingInterval rolling_spans spans_accepted by (metis WindowRuleKind.distinct(11))
  next
    case BusinessCalendar
    then show ?thesis using business_accepted [OF assms(1,4) _ c] w by simp
  qed
qed

lemma resolved_window_is_accepted_witness:
  "resolve_window_dates ex_rule ex_context ex_request =
     Inr (Inr (dated_window ex_rule [Date 2023 12 28] (Date 2024 2 29))) \<and>
   validate_resolved_calendar_window ex_rule (dated_window ex_rule [Date 2023 12 28] (Date 2024 2 29)) = Inr ()"
proof -
  have r: "resolve_window_dates ex_rule ex_context ex_request =
      Inr (Inr (dated_window ex_rule [Date 2023 12 28] (Date 2024 2 29)))"
    using ex_interval by (simp add: resolve_window_dates_def ex_request_def) (simp add: ex_rule_def)
  have "agreed ex_rule" "rule_dates ex_rule" by (simp_all add: agreed_def rule_dates_def ex_rule_def)
  from resolved_window_is_accepted [OF ex_rule_ok this ex_request_ok r] r show ?thesis by simp
qed

section \<open>Rules that the two modules read differently\<close>

text \<open>
  A rule of an absolute interval that takes the first days of it is resolved and then refused.
  The resolver takes the whole interval, whatever the selection; the check expects the first \<open>n\<close>
  dates, so it refuses the window unless \<open>n\<close> is the length of the interval.  No guard of the rule
  excludes the combination.
\<close>

theorem absolute_selection_is_refused:
  assumes "check_window_rule r = Inr ()" and "rule_dates r"
    and kind: "rl_rule_kind r = AbsoluteInterval" "rl_selection_kind r = FirstNCalendarDays"
    and rule: "rl_absolute_start r = Some s" "rl_absolute_end r = Some e" "rl_selection_count r = Some n"
    and "resolve_window_dates r ctx q = Inr (Inr w)"
  shows "rw_selected_calendar_dates_count w = days_between s e + 1 - boundary_loss r \<and>
    (validate_resolved_calendar_window r w = Inr () \<longleftrightarrow> n = days_between s e + 1)"
proof (rule resolved_interval [OF assms(8)])
  fix anchor ds a
  assume c: "calendar_interval r anchor ctx q = Inr (ds, a)" and w: "w = dated_window r ds a"
  have ok: "date_ok s" "date_ok e" using assms(2) rule by (simp_all add: rule_dates_def)
  obtain xs where x: "date_range s e = Inr xs" "apply_interval_boundaries xs r = Inr ds"
    using c kind rule by (auto simp: calendar_interval_def bindR_Inr_iff)
  have xs: "xs = run (ordinal s) (ordinal e)" using x(1) ok date_range_Inr by simp
  then have ds: "ordinal s + start_loss r \<le> ordinal e - end_loss r"
    "ds = run (ordinal s + start_loss r) (ordinal e - end_loss r)"
    using x(2) by (simp_all add: boundaries_of_run)
  have p: "expected_period r i = Inr (s, e)" for i using kind rule by (simp add: expected_period_def)
  have count: "rw_selected_calendar_dates_count w = days_between s e + 1 - boundary_loss r"
    using ds w losses [of r] by (simp add: dated_window_def days_between_def)
  have "validate_resolved_calendar_window r w = Inr ()" if n: "n = days_between s e + 1"
  proof -
    have "add_days s (n - 1) = Inr e"
      using n ok unfolding add_days_Inr days_between_def date_ok_iff max_ordinal_def by auto
    then have "spans r a xs"
      using p kind rule ok xs by (auto simp: spans_def expected_selection_def assert_some_def)
    then show ?thesis using spans_accepted [OF _ x(2)] kind w by simp
  qed
  moreover have "n = days_between s e + 1" if v: "validate_resolved_calendar_window r w = Inr ()"
  proof -
    obtain b where b: "add_days s (n - 1) = Inr b" "expected_selection r (s, e) = Inr (s, b)"
      using v p kind rule
      by (auto simp: validate_resolved_calendar_window_def expected_selection_def bindR_Inr_iff)
    obtain s' b' where eb: "expected_bounds r (s, b) = Inr (s', b')" and "rw_actual_end w = b'"
      using v p kind b(2) by (auto simp: validate_resolved_calendar_window_def bindR_Inr_iff)
    moreover have "ordinal b' = ordinal b - end_loss r"
      using eb by (auto simp: expected_bounds_def end_loss_def bindR_Inr_iff add_days_Inr split: if_splits)
    moreover have "ordinal (rw_actual_end w) = ordinal e - end_loss r"
      using w ds by (simp add: dated_window_def last_run)
    ultimately have "ordinal b = ordinal e" by simp
    then show ?thesis using add_days_ordinal [OF b(1)] by (simp add: days_between_def)
  qed
  ultimately show ?thesis using count by blast
qed

definition ex_absolute :: WindowRuleSpec where
  "ex_absolute = ex_rule\<lparr>rl_rule_kind := AbsoluteInterval, rl_period_offset := 0,
     rl_selection_kind := FirstNCalendarDays, rl_absolute_start := Some (Date 2024 2 28),
     rl_absolute_end := Some (Date 2024 3 1), rl_end_boundary := InclusiveBoundary\<rparr>"

lemma ex_absolute_fields:
  "rl_rule_kind ex_absolute = AbsoluteInterval" "rl_selection_kind ex_absolute = FirstNCalendarDays"
  "rl_absolute_start ex_absolute = Some (Date 2024 2 28)" "rl_absolute_end ex_absolute = Some (Date 2024 3 1)"
  "rl_selection_count ex_absolute = Some 2"
  by (simp_all add: ex_absolute_def ex_rule_def)

lemma absolute_selection_is_refused_witness:
  "check_window_rule ex_absolute = Inr () \<and>
   (\<exists>w. resolve_window_dates ex_absolute ex_context ex_request = Inr (Inr w) \<and>
     rw_selected_calendar_dates_count w = 3 \<and> validate_resolved_calendar_window ex_absolute w \<noteq> Inr ())"
proof -
  let ?w = "dated_window ex_absolute [Date 2024 2 28, Date 2024 2 29, Date 2024 3 1] (Date 2024 2 28)"
  have "calendar_interval ex_absolute (Some (Date 2024 2 29)) ex_context ex_request =
      Inr ([Date 2024 2 28, Date 2024 2 29, Date 2024 3 1], Date 2024 2 28)" by code_simp
  moreover have "map_of (cq_anchor_dates ex_request) (rl_anchor_ref ex_absolute) = Some (Date 2024 2 29)"
    by code_simp
  ultimately have r: "resolve_window_dates ex_absolute ex_context ex_request = Inr (Inr ?w)"
    by (simp add: resolve_window_dates_def)
  have ok: "check_window_rule ex_absolute = Inr ()" by code_simp
  have "date_ok (Date 2024 2 28)" "date_ok (Date 2024 3 1)" by code_simp+
  then have d: "rule_dates ex_absolute" by (auto simp: rule_dates_def ex_absolute_fields)
  have "days_between (Date 2024 2 28) (Date 2024 3 1) = 2" "boundary_loss ex_absolute = 0" by code_simp+
  then show ?thesis
    using absolute_selection_is_refused [OF ok d ex_absolute_fields(1-5) r] r ok by auto
qed

end
