(* ===== verification/StoreAuthorityInvariants.thy ===== *)
theory StoreAuthorityInvariants imports StoreExamples begin

text \<open>
  The invariants of accepted authority: the head of a case is bound to stored revisions, every
  admission proof and every objection closure on record was admitted.
\<close>

section \<open>What a write may change\<close>

lemma authority_writes:
  assumes "writes s t"
  obtains (foreign) "foreign_rows s t"
  | (same) "st_questions t = st_questions s" "st_frames t = st_frames s" "st_plans t = st_plans s"
      "st_frame_candidates t = st_frame_candidates s" "st_frame_reviews t = st_frame_reviews s"
      "st_objection_closures t = st_objection_closures s"
      "st_frame_admission_proofs t = st_frame_admission_proofs s"
      "st_resolution_outcomes t = st_resolution_outcomes s"
      "st_evidence_obligations t = st_evidence_obligations s"
      "st_query_bindings t = st_query_bindings s"
      "\<And>i c. map_of (st_cases t) i = Some c \<Longrightarrow> map_of (st_cases s) i = Some c \<or>
         (\<exists>n x. c = opened_case i n x) \<or>
         (\<exists>b. map_of (st_cases s) i = Some b \<and> ic_case_id c = ic_case_id b \<and>
            (head_bound s b \<longrightarrow> head_bound s c))"
  using assms
proof (cases rule: writes.cases)
  case w_foreign
  then show ?thesis by (rule foreign)
next
  case (w_case i n x)
  show ?thesis by (rule same) (use w_case in \<open>auto simp: map_add_def split: option.splits if_splits\<close>)
next
  case (w_head i c c')
  show ?thesis by (rule same) (use w_head in \<open>auto split: if_splits\<close>)
qed (rule same, simp_all add: push_event_def)

lemma foreign_authority:
  assumes "foreign_rows s t"
  shows "st_cases t = st_cases s" "grown (st_questions s) (st_questions t)"
    "grown (st_frames s) (st_frames t)" "grown (st_plans s) (st_plans t)"
    "grown (st_frame_candidates s) (st_frame_candidates t)"
    "grown (st_frame_reviews s) (st_frame_reviews t)"
    "grown (st_objection_closures s) (st_objection_closures t)"
    "grown (st_frame_admission_proofs s) (st_frame_admission_proofs t)" "admitted_rows s t"
    "grown (st_resolution_outcomes s) (st_resolution_outcomes t)"
    "set (st_evidence_obligations s) \<subseteq> set (st_evidence_obligations t)"
    "grown (st_query_bindings s) (st_query_bindings t)"
  using assms by (auto simp: foreign_rows_def)

lemma plan_admitted_mono:
  assumes "plan_admitted s p" "grown (st_frames s) (st_frames t)"
    "grown (st_resolution_outcomes s) (st_resolution_outcomes t)"
    "set (st_evidence_obligations s) \<subseteq> set (st_evidence_obligations t)"
    "grown (st_query_bindings s) (st_query_bindings t)"
  shows "plan_admitted t p"
proof -
  obtain b c a f xs as bs where p: "bu_plan b = p" "map_of (st_frames s) (wp_frame_revision_id p) = Some f"
    "validate_plan_bundle b c a f (xs, as, bs) = Inr ()"
    "set xs \<subseteq> ran (map_of (st_resolution_outcomes s))" "set bs \<subseteq> snd ` set (st_evidence_obligations s)"
    "\<forall>q \<in> set (bu_query_bindings b). map_of (st_query_bindings s) (qb_query_binding_id q) = Some q"
    using assms(1) unfolding plan_admitted_def by blast
  have "set xs \<subseteq> ran (map_of (st_resolution_outcomes t))"
    using p(4) grownD [OF assms(3)] unfolding ran_def by fast
  moreover have "set bs \<subseteq> snd ` set (st_evidence_obligations t)" using p(5) assms(4) by blast
  ultimately show ?thesis
    unfolding plan_admitted_def using p(1,3,6) grownD [OF assms(2) p(2)] grownD [OF assms(5)] by blast
qed

lemma head_bound_mono:
  assumes "head_bound s c" "grown (st_questions s) (st_questions t)"
    "grown (st_frames s) (st_frames t)" "grown (st_plans s) (st_plans t)"
    "grown (st_frame_admission_proofs s) (st_frame_admission_proofs t)"
    "grown (st_resolution_outcomes s) (st_resolution_outcomes t)"
    "set (st_evidence_obligations s) \<subseteq> set (st_evidence_obligations t)"
    "grown (st_query_bindings s) (st_query_bindings t)"
  shows "head_bound t c"
proof -
  have "question_bound t c" using assms(1,2) unfolding head_bound_def question_bound_def
    by (meson grownD)
  moreover have "frame_bound t c" using assms(1,3,5) unfolding head_bound_def frame_bound_def
    by (meson grownD)
  moreover have "plan_bound t c"
    using assms(1,4) plan_admitted_mono [OF _ assms(3,6-8)] unfolding head_bound_def plan_bound_def
    by (meson grownD)
  ultimately show ?thesis by (simp add: head_bound_def)
qed

section \<open>The invariant\<close>

definition heads_ok :: "Store \<Rightarrow> bool" where
  "heads_ok s \<longleftrightarrow> (\<forall>i c. map_of (st_cases s) i = Some c \<longrightarrow> ic_case_id c = i \<and> head_bound s c)"

definition reviews_ok :: "Store \<Rightarrow> bool" where
  "reviews_ok s \<longleftrightarrow> (\<forall>k x. map_of (st_objection_closures s) k = Some x \<longrightarrow> closure_admitted s x) \<and>
     (\<forall>k p. map_of (st_frame_admission_proofs s) k = Some p \<longrightarrow> proof_admitted s p)"

lemma opened_head_bound: "head_bound s (opened_case i n x)"
  by (simp add: bound_defs opened_case_def)

lemma heads_ok_step:
  assumes "writes s t" "heads_ok s"
  shows "heads_ok t"
  using assms(1)
proof (cases rule: authority_writes)
  case foreign
  note f = foreign_authority [OF foreign]
  show ?thesis using assms(2) head_bound_mono [OF _ f(2-4,8,10-12)] by (simp add: heads_ok_def f(1))
next
  case same
  have mono: "head_bound s c \<Longrightarrow> head_bound t c" for c
    by (erule head_bound_mono) (simp_all add: same)
  have "ic_case_id c = i \<and> head_bound t c" if "map_of (st_cases t) i = Some c" for i c
    using same(11) [OF that] assms(2) mono opened_head_bound
    by (auto simp: heads_ok_def opened_case_def)
  then show ?thesis by (simp add: heads_ok_def)
qed

lemma reviews_ok_step:
  assumes "writes s t" "reviews_ok s"
  shows "reviews_ok t"
  using assms(1)
proof (cases rule: authority_writes)
  case foreign
  note f = foreign_authority [OF foreign]
  have "closure_admitted t x" if "map_of (st_objection_closures t) k = Some x" for k x
    using f(9) that assms(2) closure_admitted_mono [OF _ f(5,6)]
    unfolding admitted_rows_def reviews_ok_def by blast
  moreover have "proof_admitted t p" if "map_of (st_frame_admission_proofs t) k = Some p" for k p
    using f(9) that assms(2) proof_admitted_mono [OF _ f(5-7)]
    unfolding admitted_rows_def reviews_ok_def by blast
  ultimately show ?thesis unfolding reviews_ok_def by blast
next
  case same
  then show ?thesis using assms(2)
    by (simp add: reviews_ok_def closure_admitted_def proof_admitted_def)
qed

lemma reachable_authority:
  assumes "reachable s"
  shows "heads_ok s" "reviews_ok s"
proof -
  have "heads_ok s \<and> reviews_ok s"
    using reachable_writes [OF assms]
  proof (induction rule: rtranclp_induct)
    case base
    show ?case by (simp add: heads_ok_def reviews_ok_def empty_store_def)
  next
    case (step t u)
    then show ?case using heads_ok_step reviews_ok_step by blast
  qed
  then show "heads_ok s" "reviews_ok s" by simp_all
qed

lemma reachable_keyed: "reachable s \<Longrightarrow> cases_keyed s"
  using reachable_authority(1) by (simp add: heads_ok_def cases_keyed_def)

end
