(* ===== verification/PlanInputs.thy ===== *)
theory PlanInputs imports PlanCompiler begin

text \<open>
  What the validation of measurement inputs (\<open>_validate_measurement_inputs\<close>) returns: the outcomes and
  admissions in the order of the estimands, the obligations in the order of the slots of the frame's
  requirements.  Ordering is idempotent.
\<close>

section \<open>Dicts\<close>

lemma item_Inr [simp, result_simps]: "item d k = Inr v \<longleftrightarrow> map_of d k = Some v"
  by (simp add: item_def split: option.split)

lemma subscript_slot_Inr [simp, result_simps]: "subscript_slot d k = Inr v \<longleftrightarrow> map_of d k = Some v"
  by (simp add: subscript_slot_def split: option.split)

lemma lookup_keyed:
  assumes "distinct (map k xs)"
  shows "map_of (dict_of (map (\<lambda>x. (k x, v x)) xs)) i = Some y \<longleftrightarrow> (\<exists>x \<in> set xs. k x = i \<and> y = v x)"
proof -
  have d: "distinct (map fst (map (\<lambda>x. (k x, v x)) xs))" using assms by (simp add: comp_def)
  then show ?thesis unfolding map_of_dict_of map_of_distinct_rev [OF d]
    by (subst map_of_eq_Some_iff [OF d]) auto
qed

lemma lookup_in:
  assumes "map_of (dict_of (map (\<lambda>x. (k x, v x)) xs)) i = Some y"
  obtains x where "x \<in> set xs" "k x = i" "v x = y"
  using map_of_SomeD [OF assms [unfolded map_of_dict_of]] by auto

lemma keys_zip [simp]: "fst ` set (zip (map g xs) xs) = g ` set xs"
  by (induction xs) simp_all

lemma index_by_Inr:
  "index_by key e xs = Inr d \<longleftrightarrow> (\<forall>x \<in> set xs. \<exists>k. key x = Inr k) \<and>
     distinct (map (projr \<circ> key) xs) \<and> d = zip (map (projr \<circ> key) xs) xs"
proof (induction xs arbitrary: d rule: rev_induct)
  case (snoc x xs)
  have step: "index_by key e (xs @ [x]) = Inr d \<longleftrightarrow> (\<exists>d' k. index_by key e xs = Inr d' \<and> key x = Inr k \<and>
      k \<notin> set (map fst d') \<and> d = d' @ [(k, x)])"
    by (auto simp: index_by_def foldR_append result_simps split: if_splits)
  show ?case unfolding step snoc.IH by (auto simp: comp_def)
qed (auto simp: index_by_def)

lemma index_by_total:
  "index_by (Inr \<circ> f) e xs = Inr d \<longleftrightarrow> distinct (map f xs) \<and> d = zip (map f xs) xs"
  by (simp add: index_by_Inr comp_def)

lemma map_of_zip_keyed:
  assumes "distinct (map k xs)"
  shows "map_of (zip (map k xs) xs) i = Some x \<longleftrightarrow> x \<in> set xs \<and> k x = i"
proof -
  have "map_of (zip (map k xs) xs) i = Some x \<longleftrightarrow> (i, x) \<in> set (zip (map k xs) xs)"
    using assms by (intro map_of_eq_Some_iff) simp
  moreover have "(i, x) \<in> set (zip (map k xs) xs) \<longleftrightarrow> x \<in> set xs \<and> k x = i"
    by (induction xs) auto
  ultimately show ?thesis by simp
qed

section \<open>Ordering\<close>

text \<open>Items picked in the order of their keys: one for each key.\<close>

lemma picked:
  assumes "distinct (map k xs)" "list_all2 (\<lambda>i y. map_of (zip (map k xs) xs) i = Some y) ids ys"
  shows "map k ys = ids" "set ys \<subseteq> set xs"
proof -
  have "list_all2 (\<lambda>i y. y \<in> set xs \<and> k y = i) ids ys"
    using assms(2) unfolding map_of_zip_keyed [OF assms(1)] .
  then show "map k ys = ids" "set ys \<subseteq> set xs"
    by (auto simp: list_all2_conv_all_nth list_eq_iff_nth_eq in_set_conv_nth)
qed

lemma picked_again:
  assumes "distinct (map k ys)"
  shows "list_all2 (\<lambda>i y. map_of (zip (map k ys) ys) i = Some y) (map k ys) ys"
  unfolding map_of_zip_keyed [OF assms] by (simp add: list_all2_conv_all_nth)

text \<open>If no item was picked twice then no key was asked for twice.\<close>

lemma picked_distinct:
  assumes "list_all2 (\<lambda>i y. map_of d i = Some y) ids ys" "distinct ys"
  shows "distinct ids"
proof -
  have "ys = map (the \<circ> map_of d) ids"
    using assms(1) by (auto simp: list_all2_conv_all_nth list_eq_iff_nth_eq)
  then show ?thesis using assms(2) by (simp add: distinct_map)
qed

lemma order_outcomes_Inr:
  assumes "order_outcomes f xs = Inr ys"
  shows "map mo_estimand_id ys = map es_estimand_id (md_estimands (fr_design f))" "set ys \<subseteq> set xs"
  using assms picked [of mo_estimand_id xs "map es_estimand_id (md_estimands (fr_design f))" ys]
  by (auto simp: order_outcomes_def result_simps index_by_total sequenceR_rel simp del: map_map)

lemma order_outcomes_again:
  assumes "order_outcomes f xs = Inr ys" "distinct ys"
  shows "order_outcomes f ys = Inr ys"
proof -
  note k = order_outcomes_Inr(1) [OF assms(1)]
  obtain d where "list_all2 (\<lambda>i y. map_of d i = Some y) (map mo_estimand_id ys) ys"
    using assms(1) unfolding k order_outcomes_def by (auto simp: result_simps sequenceR_rel simp del: map_map)
  then have d: "distinct (map mo_estimand_id ys)" using assms(2) by (rule picked_distinct)
  then have "index_by (Inr \<circ> mo_estimand_id) e ys = Inr (zip (map mo_estimand_id ys) ys)" for e
    by (simp add: index_by_total)
  moreover have "sequenceR (map (item (zip (map mo_estimand_id ys) ys)) (map mo_estimand_id ys)) = Inr ys"
    unfolding sequenceR_rel item_Inr using d by (rule picked_again)
  ultimately show ?thesis
    unfolding order_outcomes_def k [symmetric] by (simp add: require_def comp_def del: map_map)
qed

lemma order_admissions_Inr:
  assumes "order_admissions xs as = Inr cs"
  shows "map ma_resolution_outcome_id cs = map mo_resolution_outcome_id xs" "set cs \<subseteq> set as"
  using assms picked [of ma_resolution_outcome_id as "map mo_resolution_outcome_id xs" cs]
  by (auto simp: order_admissions_def result_simps index_by_total sequenceR_rel simp del: map_map)

lemma order_admissions_again:
  assumes "order_admissions xs as = Inr cs" "distinct (map mo_resolution_outcome_id xs)"
  shows "order_admissions xs cs = Inr cs"
proof -
  note k = order_admissions_Inr(1) [OF assms(1)]
  have d: "distinct (map ma_resolution_outcome_id cs)" using assms(2) by (simp add: k)
  then have "index_by (Inr \<circ> ma_resolution_outcome_id) e cs =
      Inr (zip (map ma_resolution_outcome_id cs) cs)" for e
    by (simp add: index_by_total)
  moreover have "sequenceR (map (item (zip (map ma_resolution_outcome_id cs) cs))
      (map ma_resolution_outcome_id cs)) = Inr cs"
    unfolding sequenceR_rel item_Inr using d by (rule picked_again)
  ultimately show ?thesis
    unfolding order_admissions_def k [symmetric] by (simp add: require_def comp_def del: map_map)
qed

text \<open>A slot of the frame: an estimand, one of its requirements, one of the evidence types of that.\<close>

definition frame_slot :: "FrameView \<Rightarrow> slot \<Rightarrow> bool" where
  "frame_slot f = (\<lambda>(e, i, t). \<exists>x \<in> set (md_estimands (fr_design f)). es_estimand_id x = e \<and>
     i \<in> set (es_evidence_requirement_ids x) \<and>
     (\<exists>r. map_of (requirements_by_id f) i = Some r \<and> t \<in> set (er_required_evidence_type_refs r)))"

definition slot_of :: "ResolvedEvidenceObligation \<Rightarrow> slot" where
  "slot_of b = (ro_estimand_id b, ro_evidence_requirement_id b, hd (ro_evidence_type_refs b))"

lemma obligation_slot_Inr [simp, result_simps]:
  "obligation_slot b = Inr k \<longleftrightarrow> length (ro_evidence_type_refs b) = 1 \<and> k = slot_of b"
  by (auto simp: obligation_slot_def slot_of_def)

lemma sequenceR_concat_set:
  assumes "sequenceR [g x y. x \<leftarrow> xs, y \<leftarrow> ys x] = Inr zss"
  shows "set (concat zss) = {z. \<exists>x \<in> set xs. \<exists>y \<in> set (ys x). \<exists>zs. g x y = Inr zs \<and> z \<in> set zs}"
    "x \<in> set xs \<Longrightarrow> y \<in> set (ys x) \<Longrightarrow> \<exists>zs. g x y = Inr zs"
proof -
  define ps where "ps = [(x, y). x \<leftarrow> xs, y \<leftarrow> ys x]"
  have m: "[g x y. x \<leftarrow> xs, y \<leftarrow> ys x] = map (\<lambda>(x, y). g x y) ps"
    by (simp add: ps_def map_concat comp_def)
  have ps: "(x, y) \<in> set ps \<longleftrightarrow> x \<in> set xs \<and> y \<in> set (ys x)" for x y by (auto simp: ps_def)
  have r: "list_all2 (\<lambda>(x, y) zs. g x y = Inr zs) ps zss"
    using assms unfolding m sequenceR_rel by (simp add: case_prod_unfold)
  show "set (concat zss) = {z. \<exists>x \<in> set xs. \<exists>y \<in> set (ys x). \<exists>zs. g x y = Inr zs \<and> z \<in> set zs}"
  proof (intro equalityI subsetI)
    fix z assume "z \<in> set (concat zss)"
    then obtain zs where "zs \<in> set zss" "z \<in> set zs" by auto
    then obtain j where j: "j < length zss" "z \<in> set (zss ! j)" by (metis in_set_conv_nth)
    obtain x y where xy: "ps ! j = (x, y)" by fastforce
    have "(x, y) \<in> set ps" "g x y = Inr (zss ! j)"
      using r j xy by (auto simp: list_all2_conv_all_nth) (metis nth_mem)+
    then show "z \<in> {z. \<exists>x \<in> set xs. \<exists>y \<in> set (ys x). \<exists>zs. g x y = Inr zs \<and> z \<in> set zs}"
      using j ps by blast
  next
    fix z assume "z \<in> {z. \<exists>x \<in> set xs. \<exists>y \<in> set (ys x). \<exists>zs. g x y = Inr zs \<and> z \<in> set zs}"
    then obtain x y zs where *: "(x, y) \<in> set ps" "g x y = Inr zs" "z \<in> set zs" using ps by blast
    then obtain j where "j < length ps" "ps ! j = (x, y)" by (auto simp: in_set_conv_nth)
    then show "z \<in> set (concat zss)" using r * by (force simp: list_all2_conv_all_nth)
  qed
  assume "x \<in> set xs" "y \<in> set (ys x)"
  then have "(x, y) \<in> set ps" by (simp add: ps)
  then obtain j where "j < length ps" "ps ! j = (x, y)" by (auto simp: in_set_conv_nth)
  then show "\<exists>zs. g x y = Inr zs" using r by (force simp: list_all2_conv_all_nth)
qed

lemma expected_slots_frame:
  assumes "expected_slots f = Inr slots"
  shows "k \<in> set slots \<longleftrightarrow> frame_slot f k"
proof -
  obtain sss where s: "sequenceR [bindR (item (requirements_by_id f) i) (\<lambda>r.
      Inr (map (\<lambda>t. (es_estimand_id e, i, t)) (er_required_evidence_type_refs r))).
      e \<leftarrow> md_estimands (fr_design f), i \<leftarrow> es_evidence_requirement_ids e] = Inr sss"
    "slots = concat sss"
    using assms by (auto simp: expected_slots_def result_simps)
  have one: "(\<exists>zs. bindR (item (requirements_by_id f) i) (\<lambda>r.
        Inr (map (\<lambda>t. (es_estimand_id e, i, t)) (er_required_evidence_type_refs r))) = Inr zs \<and>
      (a, b, c) \<in> set zs) \<longleftrightarrow> (\<exists>r. map_of (requirements_by_id f) i = Some r \<and>
        c \<in> set (er_required_evidence_type_refs r) \<and> a = es_estimand_id e \<and> b = i)" for e i a b c
    by (auto simp: result_simps)
  obtain a b c where k: "k = (a, b, c)" by (cases k)
  show ?thesis
    unfolding s(2) sequenceR_concat_set(1) [OF s(1)] k frame_slot_def mem_Collect_eq one by auto
qed

lemma order_obligations_Inr:
  assumes "order_obligations f xs bs = Inr cs"
  shows "expected_slots f = Inr (map slot_of cs)" "set cs \<subseteq> set bs"
    "\<forall>c \<in> set cs. length (ro_evidence_type_refs c) = 1 \<and>
       ro_resolution_outcome_id c \<in> set (map mo_resolution_outcome_id xs)"
    "distinct cs \<Longrightarrow> distinct (map slot_of cs)"
proof -
  let ?bs = "filter (\<lambda>b. ro_resolution_outcome_id b \<in> set (map mo_resolution_outcome_id xs)) bs"
  obtain d slots where d: "index_by obligation_slot (ValueError ''resolved obligation slot is duplicated'') ?bs = Inr d"
    and slots: "expected_slots f = Inr slots"
    and l: "list_all2 (\<lambda>k c. map_of d k = Some c) slots cs"
    using assms by (auto simp: order_obligations_def result_simps sequenceR_rel simp del: set_map)
  have one: "\<forall>b \<in> set ?bs. length (ro_evidence_type_refs b) = 1" using d by (auto simp: index_by_Inr)
  then have same: "map (projr \<circ> obligation_slot) ?bs = map slot_of ?bs"
    by (intro map_cong refl) (simp add: obligation_slot_def slot_of_def)
  have dz: "distinct (map slot_of ?bs)" "d = zip (map slot_of ?bs) ?bs"
    using d unfolding index_by_Inr same by blast+
  note p = picked [OF dz(1) l [unfolded dz(2)]]
  show "expected_slots f = Inr (map slot_of cs)" using slots p(1) by simp
  show "set cs \<subseteq> set bs" "\<forall>c \<in> set cs. length (ro_evidence_type_refs c) = 1 \<and>
       ro_resolution_outcome_id c \<in> set (map mo_resolution_outcome_id xs)"
    using p(2) one by auto
  show "distinct cs \<Longrightarrow> distinct (map slot_of cs)" using picked_distinct [OF l] p(1) by simp
qed

lemma order_obligations_again:
  assumes "order_obligations f xs bs = Inr cs" "distinct cs"
  shows "order_obligations f xs cs = Inr cs"
proof -
  note o = order_obligations_Inr [OF assms(1)]
  note d = o(4) [OF assms(2)]
  have same: "filter (\<lambda>b. ro_resolution_outcome_id b \<in> set (map mo_resolution_outcome_id xs)) cs = cs"
    using o(3) by (simp add: filter_id_conv)
  have slots: "map (projr \<circ> obligation_slot) cs = map slot_of cs"
    using o(3) by (auto simp: obligation_slot_def slot_of_def)
  have "index_by obligation_slot e cs = Inr (zip (map slot_of cs) cs)" for e
    unfolding index_by_Inr slots using o(3) d by simp
  moreover have "sequenceR (map (subscript_slot (zip (map slot_of cs) cs)) (map slot_of cs)) = Inr cs"
    unfolding sequenceR_rel subscript_slot_Inr using d by (rule picked_again)
  ultimately show ?thesis unfolding order_obligations_def same o(1)
    by (simp add: require_def comp_def del: map_map)
qed

section \<open>The inputs\<close>

lemma inputs_Inr:
  assumes "validate_measurement_inputs f a (xs, as, bs) = Inr (ys, cs, ds)"
  shows "order_outcomes f xs = Inr ys" "order_admissions ys as = Inr cs" "order_obligations f ys bs = Inr ds"
    "\<forall>b \<in> set ds. \<exists>r. map_of (requirements_by_id f) (ro_evidence_requirement_id b) = Some r \<and>
       hd (ro_evidence_type_refs b) \<in> set (er_required_evidence_type_refs r) \<and>
       ro_evidence_requirement_sha256 b = evidence_requirement_sha256 r \<and>
       (\<exists>y \<in> set ys. mo_estimand_id y = ro_estimand_id b \<and>
          mo_resolution_outcome_id y = ro_resolution_outcome_id b)"
proof -
  show "order_outcomes f xs = Inr ys" "order_admissions ys as = Inr cs" "order_obligations f ys bs = Inr ds"
    using assms by (auto simp: validate_measurement_inputs_def result_simps)
  obtain e where c: "\<forall>b \<in> set ds. check_obligation_authority f ys e b = Inr ()"
    using assms by (auto simp: validate_measurement_inputs_def result_simps)
  show "\<forall>b \<in> set ds. \<exists>r. map_of (requirements_by_id f) (ro_evidence_requirement_id b) = Some r \<and>
       hd (ro_evidence_type_refs b) \<in> set (er_required_evidence_type_refs r) \<and>
       ro_evidence_requirement_sha256 b = evidence_requirement_sha256 r \<and>
       (\<exists>y \<in> set ys. mo_estimand_id y = ro_estimand_id b \<and>
          mo_resolution_outcome_id y = ro_resolution_outcome_id b)"
  proof
    fix b assume "b \<in> set ds"
    then have "check_obligation_authority f ys e b = Inr ()" using c by blast
    then obtain r where "map_of (requirements_by_id f) (ro_evidence_requirement_id b) = Some r"
      "hd (ro_evidence_type_refs b) \<in> set (er_required_evidence_type_refs r)"
      "ro_evidence_requirement_sha256 b = evidence_requirement_sha256 r"
      "map_of (dict_of (map (\<lambda>x. (mo_estimand_id x, mo_resolution_outcome_id x)) ys)) (ro_estimand_id b) =
        Some (ro_resolution_outcome_id b)"
      by (auto simp: check_obligation_authority_def result_simps)
    moreover from this(4) have "\<exists>y \<in> set ys. mo_estimand_id y = ro_estimand_id b \<and>
        mo_resolution_outcome_id y = ro_resolution_outcome_id b"
      by (rule lookup_in) blast
    ultimately show "\<exists>r. map_of (requirements_by_id f) (ro_evidence_requirement_id b) = Some r \<and>
       hd (ro_evidence_type_refs b) \<in> set (er_required_evidence_type_refs r) \<and>
       ro_evidence_requirement_sha256 b = evidence_requirement_sha256 r \<and>
       (\<exists>y \<in> set ys. mo_estimand_id y = ro_estimand_id b \<and>
          mo_resolution_outcome_id y = ro_resolution_outcome_id b)" by blast
  qed
qed

lemma inputs_again:
  assumes "validate_measurement_inputs f a inputs = Inr (xs, as, bs)"
    and "distinct (map mo_resolution_outcome_id xs)" "distinct (map ro_obligation_id bs)" "bs \<noteq> []"
  shows "validate_measurement_inputs f a (xs, as, bs) = Inr (xs, as, bs)"
proof -
  obtain us vs ws where i: "inputs = (us, vs, ws)" by (cases inputs)
  note v = assms(1) [unfolded i]
  note o = inputs_Inr [OF v]
  have d: "distinct xs" "distinct bs" using assms(2,3) by (simp_all add: distinct_map)
  have again: "order_outcomes f xs = Inr xs" "order_admissions xs as = Inr as"
    "order_obligations f xs bs = Inr bs"
    using order_outcomes_again [OF o(1) d(1)] order_admissions_again [OF o(2) assms(2)]
      order_obligations_again [OF o(3) d(2)] by blast+
  have "xs \<noteq> []"
  proof
    assume "xs = []"
    then have "set (map mo_estimand_id us) = {}"
      using o(1) order_outcomes_Inr(1) [OF o(1)] by (auto simp: order_outcomes_def result_simps index_by_total)
    then show False using v by (auto simp: validate_measurement_inputs_def result_simps)
  qed
  then show ?thesis using v again assms(4)
    by (auto simp: validate_measurement_inputs_def result_simps)
qed

end
