(* ===== verification/PlanAssembly.thy ===== *)
theory PlanAssembly imports PlanInputs begin

text \<open>
  What \<open>compile_plan_bundle\<close> assembles: how tasks, query bindings and adoption of the bundle follow from
  the proposal and the inputs.
\<close>

section \<open>Owners\<close>

text \<open>In a list of lists without repetition every member has one owner.\<close>

lemma owner_unique:
  "distinct (concat (map g ts)) \<Longrightarrow> t \<in> set ts \<Longrightarrow> u \<in> set ts \<Longrightarrow> i \<in> set (g t) \<Longrightarrow> i \<in> set (g u) \<Longrightarrow> t = u"
  by (induction ts) auto

lemma lookup_functional:
  assumes "\<And>v w. (i, v) \<in> set kvs \<Longrightarrow> (i, w) \<in> set kvs \<Longrightarrow> v = w"
  shows "map_of (dict_of kvs) i = Some v \<longleftrightarrow> (i, v) \<in> set kvs"
proof
  show "map_of (dict_of kvs) i = Some v \<Longrightarrow> (i, v) \<in> set kvs"
    using map_of_SomeD [of "rev kvs" i v] by (simp add: map_of_dict_of)
  assume v: "(i, v) \<in> set kvs"
  then have "i \<in> fst ` set kvs" by force
  then have "map_of (dict_of kvs) i \<noteq> None" by (simp add: map_of_eq_None_iff)
  then obtain w where w: "map_of (dict_of kvs) i = Some w" by blast
  then have "(i, w) \<in> set kvs" using map_of_SomeD [of "rev kvs" i w] by (simp add: map_of_dict_of)
  then show "map_of (dict_of kvs) i = Some v" using w v assms by blast
qed

lemma list_all2_memD:
  "list_all2 P xs ys \<Longrightarrow> x \<in> set xs \<Longrightarrow> \<exists>y \<in> set ys. P x y"
  "list_all2 P xs ys \<Longrightarrow> y \<in> set ys \<Longrightarrow> \<exists>x \<in> set xs. P x y"
  by (induction rule: list_all2_induct) auto

section \<open>Tasks\<close>

lemma build_work_task_Inr:
  assumes "build_work_task t i ids bids by_id f = Inr w"
  shows "wt_task_id w = i" "wt_proposal_task_key w = pt_proposal_task_key t"
    "wt_business_purpose w = pt_business_purpose t"
    "wt_capability_intent_ref w = pt_capability_intent_ref t"
    "wt_obligation_ids w = pt_obligation_ids t"
    "wt_query_binding_ids w = List.map_filter (map_of bids) (pt_obligation_ids t)"
    "list_all2 (\<lambda>k d. map_of ids k = Some d) (pt_depends_on_task_keys t) (wt_depends_on_task_ids w)"
    "check_work_task w = Inr ()"
  using assms by (auto simp: build_work_task_def Let_def result_simps sequenceR_rel)

lemma build_work_task_cong:
  assumes "\<And>i. i \<in> set (pt_obligation_ids t) \<Longrightarrow> map_of bids i = map_of bids' i"
  shows "build_work_task t i ids bids by_id f = build_work_task t i ids bids' by_id f"
proof -
  have "List.map_filter (map_of bids) (pt_obligation_ids t) = List.map_filter (map_of bids') (pt_obligation_ids t)"
    using assms by (auto simp: map_filter_def intro!: map_cong filter_cong)
  then show ?thesis by (simp add: build_work_task_def)
qed

section \<open>The parts of an assembled bundle\<close>

lemma proposed_tasks_Inr:
  assumes "validate_proposed_tasks ts bs f = Inr ()"
  shows "ts \<noteq> []" "distinct (map pt_proposal_task_key ts)" "distinct (concat (map pt_obligation_ids ts))"
    "set (concat (map pt_obligation_ids ts)) = set (map ro_obligation_id bs)"
  using assms by (auto simp: validate_proposed_tasks_def Let_def)

lemma assembled:
  assumes "assemble_plan_bundle c a f (xs, as, bs) p = Inr b"
  shows "validate_proposed_tasks (pp_tasks p) bs f = Inr ()"
    "\<exists>bids. proposed_binding_ids p (obligations_by_id bs) = Inr bids \<and>
       list_all2 (\<lambda>t w. compile_task p bids (obligations_by_id bs) f t = Inr w)
         (pp_tasks p) (wp_tasks (bu_plan b))"
    "check_work_plan (bu_plan b) = Inr ()"
    "list_all2 (\<lambda>x q. compile_binding (bu_plan b) f xs (pp_created_at p) x = Inr q)
       (filter (\<lambda>x. ro_execution_disposition x = DispExecutable) bs) (bu_query_bindings b)"
    "build_plan_adoption c a f (bu_plan b) (xs, as, bs) (bu_query_bindings b) (pp_created_at p) =
       Inr (bu_adoption b)"
    "wp_plan_revision_id (bu_plan b) = pp_plan_revision_id p" "wp_case_id (bu_plan b) = ic_case_id c"
    "wp_frame_revision_id (bu_plan b) = fr_frame_revision_id f"
    "wp_resolution_outcome_ids (bu_plan b) = map mo_resolution_outcome_id xs"
  using assms by (auto simp: assemble_plan_bundle_def result_simps sequenceR_rel)

lemma adoption_distinct:
  assumes "build_plan_adoption c a f p (xs, as, bs) qs at = Inr d"
  shows "distinct (map mo_resolution_outcome_id xs)" "distinct (map ro_obligation_id bs)"
    "distinct (map qb_query_binding_id qs)" "pd_created_at d = at"
  using assms by (auto simp: build_plan_adoption_def Let_def check_plan_adoption_def
      require_digest_tuple_def check_unique_nonempty_def result_simps)

lemma compiled_tasks:
  assumes "list_all2 (\<lambda>t w. compile_task p bids by_id f t = Inr w) ts ws"
  shows "map wt_proposal_task_key ws = map pt_proposal_task_key ts"
    "map wt_obligation_ids ws = map pt_obligation_ids ts"
  using assms by (induction rule: list_all2_induct)
    (auto simp: compile_task_def result_simps dest: build_work_task_Inr)

lemma compiled_task:
  assumes "compile_task p bids by_id f t = Inr w" "distinct (map pt_proposal_task_key (pp_tasks p))"
    "t \<in> set (pp_tasks p)"
  shows "build_work_task t (work_task_id (pp_plan_revision_id p) (pt_proposal_task_key t))
      (proposed_task_ids p) bids by_id f = Inr w"
    "wt_task_id w = work_task_id (pp_plan_revision_id p) (pt_proposal_task_key t)"
proof -
  have "map_of (proposed_task_ids p) (pt_proposal_task_key t) = Some i \<longleftrightarrow>
      i = work_task_id (pp_plan_revision_id p) (pt_proposal_task_key t)" for i
    unfolding proposed_task_ids_def lookup_keyed [OF assms(2)] using assms(3) by auto
  then show "build_work_task t (work_task_id (pp_plan_revision_id p) (pt_proposal_task_key t))
      (proposed_task_ids p) bids by_id f = Inr w"
    using assms(1) by (auto simp: compile_task_def result_simps)
  then show "wt_task_id w = work_task_id (pp_plan_revision_id p) (pt_proposal_task_key t)"
    by (rule build_work_task_Inr)
qed

text \<open>The IDs of the tasks are those the compiler gave the keys.\<close>

lemma task_ids_of_bundle:
  assumes "list_all2 (\<lambda>t w. compile_task p bids by_id f t = Inr w) (pp_tasks p) ws"
    "distinct (map pt_proposal_task_key (pp_tasks p))"
  shows "dict_of (map (\<lambda>w. (wt_proposal_task_key w, wt_task_id w)) ws) = proposed_task_ids p"
proof -
  have "map (\<lambda>w. (wt_proposal_task_key w, wt_task_id w)) ws =
      map (\<lambda>t. (pt_proposal_task_key t, work_task_id (pp_plan_revision_id p) (pt_proposal_task_key t)))
        (pp_tasks p)"
  proof (rule nth_equalityI)
    fix n assume n: "n < length (map (\<lambda>w. (wt_proposal_task_key w, wt_task_id w)) ws)"
    then have l: "n < length (pp_tasks p)" "compile_task p bids by_id f (pp_tasks p ! n) = Inr (ws ! n)"
      using assms(1) by (auto simp: list_all2_conv_all_nth)
    have "wt_proposal_task_key (ws ! n) = pt_proposal_task_key (pp_tasks p ! n)"
      using compiled_task(1) [OF l(2) assms(2)] l(1) build_work_task_Inr(2) by (metis nth_mem)
    then show "map (\<lambda>w. (wt_proposal_task_key w, wt_task_id w)) ws ! n =
      map (\<lambda>t. (pt_proposal_task_key t, work_task_id (pp_plan_revision_id p) (pt_proposal_task_key t)))
        (pp_tasks p) ! n"
      using compiled_task(2) [OF l(2) assms(2)] l n by simp
  qed (use list_all2_lengthD [OF assms(1)] in simp)
  then show ?thesis by (simp add: proposed_task_ids_def)
qed

section \<open>Query bindings\<close>

text \<open>The obligations of the bundle, by their ID.\<close>

lemma obligations_lookup:
  "distinct (map ro_obligation_id bs) \<Longrightarrow>
     map_of (obligations_by_id bs) i = Some x \<longleftrightarrow> x \<in> set bs \<and> ro_obligation_id x = i"
  unfolding obligations_by_id_def by (subst lookup_keyed) auto

lemma outcomes_lookup:
  "distinct (map mo_resolution_outcome_id xs) \<Longrightarrow>
     map_of (outcomes_by_id xs) i = Some x \<longleftrightarrow> x \<in> set xs \<and> mo_resolution_outcome_id x = i"
  unfolding outcomes_by_id_def by (subst lookup_keyed) auto

lemma task_lookup:
  assumes "distinct (concat (map wt_obligation_ids (wp_tasks p)))"
  shows "map_of (task_by_obligation p) i = Some w \<longleftrightarrow> w \<in> set (wp_tasks p) \<and> i \<in> set (wt_obligation_ids w)"
  unfolding task_by_obligation_def
  by (subst lookup_functional) (use owner_unique [OF assms] in auto)

lemma binding_ids_lookup:
  assumes "proposed_binding_ids p (obligations_by_id bs) = Inr bids"
    and "distinct (map ro_obligation_id bs)" "distinct (map pt_proposal_task_key (pp_tasks p))"
    and "distinct (concat (map pt_obligation_ids (pp_tasks p)))"
    and "t \<in> set (pp_tasks p)" "i \<in> set (pt_obligation_ids t)" "x \<in> set bs" "ro_obligation_id x = i"
  shows "map_of bids i = (if ro_execution_disposition x = DispExecutable
    then Some (query_binding_id (pp_plan_revision_id p)
      (work_task_id (pp_plan_revision_id p) (pt_proposal_task_key t)) x) else None)"
proof -
  let ?id = "\<lambda>t. work_task_id (pp_plan_revision_id p) (pt_proposal_task_key t)"
  let ?g = "\<lambda>t i. bindR (item (proposed_task_ids p) (pt_proposal_task_key t)) (\<lambda>task_id.
       bindR (item (obligations_by_id bs) i) (\<lambda>x.
         Inr (if ro_execution_disposition x = DispExecutable
              then [(i, query_binding_id (pp_plan_revision_id p) task_id x)] else [])))"
  obtain kvs where s: "sequenceR [?g t i. t \<leftarrow> pp_tasks p, i \<leftarrow> pt_obligation_ids t] = Inr kvs"
    and bids: "bids = dict_of (concat kvs)"
    using assms(1) by (auto simp: proposed_binding_ids_def result_simps)
  have g: "?g u j = Inr zs \<longleftrightarrow> (\<exists>y \<in> set bs. ro_obligation_id y = j \<and>
      zs = (if ro_execution_disposition y = DispExecutable
            then [(j, query_binding_id (pp_plan_revision_id p) (?id u) y)] else []))"
    if "u \<in> set (pp_tasks p)" for u j zs
  proof -
    have "map_of (proposed_task_ids p) (pt_proposal_task_key u) = Some k \<longleftrightarrow> k = ?id u" for k
      unfolding proposed_task_ids_def lookup_keyed [OF assms(3)] using that by auto
    then show ?thesis using obligations_lookup [OF assms(2)] by (auto simp: result_simps)
  qed
  have m: "(j, k) \<in> set (concat kvs) \<longleftrightarrow> (\<exists>u \<in> set (pp_tasks p). j \<in> set (pt_obligation_ids u) \<and>
      (\<exists>y \<in> set bs. ro_obligation_id y = j \<and> ro_execution_disposition y = DispExecutable \<and>
        k = query_binding_id (pp_plan_revision_id p) (?id u) y))" for j k
  proof -
    have "(\<exists>zs. ?g u n = Inr zs \<and> (j, k) \<in> set zs) \<longleftrightarrow> n = j \<and> (\<exists>y \<in> set bs. ro_obligation_id y = j \<and>
        ro_execution_disposition y = DispExecutable \<and>
        k = query_binding_id (pp_plan_revision_id p) (?id u) y)" if "u \<in> set (pp_tasks p)" for u n
      unfolding g [OF that] by (auto split: if_splits)
    then show ?thesis unfolding sequenceR_concat_set(1) [OF s] mem_Collect_eq by (simp cong: bex_cong)
  qed
  have own: "u = t" if "u \<in> set (pp_tasks p)" "i \<in> set (pt_obligation_ids u)" for u
    using owner_unique [OF assms(4)] that assms(5,6) by blast
  have same: "y = x" if "y \<in> set bs" "ro_obligation_id y = i" for y
    using assms(2,7,8) that by (metis inj_on_eq_iff distinct_map)
  have "map_of bids i = Some k \<longleftrightarrow> (i, k) \<in> set (concat kvs)" for k
    unfolding bids by (rule lookup_functional) (use m own same in metis)
  then have "map_of bids i = Some k \<longleftrightarrow> ro_execution_disposition x = DispExecutable \<and>
      k = query_binding_id (pp_plan_revision_id p) (?id t) x" for k
    using m own same assms(5-8) by metis
  then show ?thesis by (cases "map_of bids i") auto
qed

lemma build_query_binding_Inr:
  assumes "build_query_binding p f t b x at = Inr q"
  shows "qb_query_binding_id q = query_binding_id (wp_plan_revision_id p) (wt_task_id t) b"
    "qb_obligation_id q = ro_obligation_id b" "qb_created_at q = at"
    "qb_plan_revision_id q = wp_plan_revision_id p" "qb_task_id q = wt_task_id t"
    "mo_resolved_instance x = Some (qb_resolved_measurement_instance q)" "mo_kind x = ResolvedInstance"
    "qb_obligation_content_sha256 q = obligation_sha256 b"
    "qb_resolution_outcome_content_sha256 q = resolution_outcome_sha256 x"
    "qb_plan_content_sha256 q = work_plan_sha256 p"
  using assms by (auto simp: build_query_binding_def result_simps split: option.splits)

text \<open>Each executable obligation has its query binding, and there is no other.\<close>

lemma compiled_bindings:
  assumes "list_all2 (\<lambda>x q. compile_binding p f xs at x = Inr q)
      (filter (\<lambda>x. ro_execution_disposition x = DispExecutable) bs) qs"
    and "distinct (concat (map wt_obligation_ids (wp_tasks p)))"
  shows "map qb_obligation_id qs = map ro_obligation_id
      (filter (\<lambda>x. ro_execution_disposition x = DispExecutable) bs)"
    "q \<in> set qs \<Longrightarrow> \<exists>x \<in> set bs. ro_execution_disposition x = DispExecutable \<and>
       qb_obligation_id q = ro_obligation_id x \<and>
       (\<exists>w \<in> set (wp_tasks p). ro_obligation_id x \<in> set (wt_obligation_ids w) \<and>
          qb_query_binding_id q = query_binding_id (wp_plan_revision_id p) (wt_task_id w) x)"
    "x \<in> set bs \<Longrightarrow> ro_execution_disposition x = DispExecutable \<Longrightarrow> w \<in> set (wp_tasks p) \<Longrightarrow>
       ro_obligation_id x \<in> set (wt_obligation_ids w) \<Longrightarrow>
       \<exists>q \<in> set qs. \<exists>y. map_of (outcomes_by_id xs) (ro_resolution_outcome_id x) = Some y \<and>
         build_query_binding p f w x y at = Inr q"
proof -
  have one: "\<exists>w \<in> set (wp_tasks p). ro_obligation_id x \<in> set (wt_obligation_ids w) \<and>
      (\<exists>y. map_of (outcomes_by_id xs) (ro_resolution_outcome_id x) = Some y \<and>
        build_query_binding p f w x y at = Inr q)" if "compile_binding p f xs at x = Inr q" for x q
    using that by (auto simp: compile_binding_def result_simps task_lookup [OF assms(2)])
  have "list_all2 (\<lambda>x q. qb_obligation_id q = ro_obligation_id x)
      (filter (\<lambda>x. ro_execution_disposition x = DispExecutable) bs) qs"
    using assms(1) by (rule list_all2_mono) (use one build_query_binding_Inr(2) in blast)
  then show "map qb_obligation_id qs = map ro_obligation_id
      (filter (\<lambda>x. ro_execution_disposition x = DispExecutable) bs)"
    by (induction rule: list_all2_induct) auto
  show "\<exists>x \<in> set bs. ro_execution_disposition x = DispExecutable \<and>
       qb_obligation_id q = ro_obligation_id x \<and>
       (\<exists>w \<in> set (wp_tasks p). ro_obligation_id x \<in> set (wt_obligation_ids w) \<and>
          qb_query_binding_id q = query_binding_id (wp_plan_revision_id p) (wt_task_id w) x)"
    if q: "q \<in> set qs"
  proof -
    obtain x where x: "x \<in> set bs" "ro_execution_disposition x = DispExecutable"
      "compile_binding p f xs at x = Inr q"
      using list_all2_memD(2) [OF assms(1) q] by auto
    show ?thesis using x one [OF x(3)] build_query_binding_Inr(1,2) by blast
  qed
  show "\<exists>q \<in> set qs. \<exists>y. map_of (outcomes_by_id xs) (ro_resolution_outcome_id x) = Some y \<and>
         build_query_binding p f w x y at = Inr q"
    if x: "x \<in> set bs" "ro_execution_disposition x = DispExecutable" and w: "w \<in> set (wp_tasks p)"
      "ro_obligation_id x \<in> set (wt_obligation_ids w)"
  proof -
    have "x \<in> set (filter (\<lambda>x. ro_execution_disposition x = DispExecutable) bs)" using x by simp
    then obtain q where q: "q \<in> set qs" "compile_binding p f xs at x = Inr q"
      using list_all2_memD(1) [OF assms(1)] by blast
    then show ?thesis using one [OF q(2)] owner_unique [OF assms(2)] w by blast
  qed
qed

end
