(* ===== verification/PlanProperties.thy ===== *)
theory PlanProperties imports PlanAssembly begin

text \<open>
  What compilation and validation of plan bundles promise: the compiler's bundle is accepted, and an
  accepted bundle closes every requirement of its frame.
\<close>

section \<open>The compiler's bundle is accepted\<close>

lemma proposal_of_compiled:
  assumes tasks: "list_all2 (\<lambda>t w. compile_task p bids by_id f t = Inr w) (pp_tasks p) (wp_tasks (bu_plan b))"
    and keys: "distinct (map pt_proposal_task_key (pp_tasks p))"
    and ids: "distinct (map wt_task_id (wp_tasks (bu_plan b)))"
    and t: "t \<in> set (pp_tasks p)" "compile_task p bids by_id f t = Inr w" "check_proposed_task t = Inr ()"
  shows "proposal_of_task (index_bundle b (xs, as, bs)) w = Inr t"
proof -
  note c = compiled_task(1) [OF t(2) keys t(1)]
  note w = build_work_task_Inr [OF c]
  have "map_of (bx_key_by_task_id (index_bundle b (xs, as, bs))) d = Some k"
    if k: "map_of (proposed_task_ids p) k = Some d" for k d
  proof -
    obtain u where u: "u \<in> set (pp_tasks p)" "pt_proposal_task_key u = k"
      "d = work_task_id (pp_plan_revision_id p) k"
      using k unfolding proposed_task_ids_def lookup_keyed [OF keys] by auto
    obtain v where v: "v \<in> set (wp_tasks (bu_plan b))" "compile_task p bids by_id f u = Inr v"
      using list_all2_memD(1) [OF tasks u(1)] by blast
    have "wt_task_id v = d" "wt_proposal_task_key v = k"
      using compiled_task [OF v(2) keys u(1)] build_work_task_Inr(2) u by auto
    then show ?thesis unfolding index_bundle_def using lookup_keyed [OF ids] v(1) by force
  qed
  then have "list_all2 (\<lambda>d k. map_of (bx_key_by_task_id (index_bundle b (xs, as, bs))) d = Some k)
      (wt_depends_on_task_ids w) (pt_depends_on_task_keys t)"
    using w(7) by (auto simp: list_all2_conv_all_nth)
  then have keys_of: "sequenceR (map (item (bx_key_by_task_id (index_bundle b (xs, as, bs))))
      (wt_depends_on_task_ids w)) = Inr (pt_depends_on_task_keys t)"
    by (simp add: sequenceR_rel)
  have "\<lparr>pt_proposal_task_key = wt_proposal_task_key w, pt_business_purpose = wt_business_purpose w,
      pt_capability_intent_ref = wt_capability_intent_ref w, pt_obligation_ids = wt_obligation_ids w,
      pt_depends_on_task_keys = pt_depends_on_task_keys t\<rparr> = t"
    by (simp add: w)
  then show ?thesis using t(3) by (simp add: proposal_of_task_def keys_of construct_def)
qed

text \<open>
  The facts about an assembled bundle that the validation of its tasks rests on.
\<close>

lemma bundle_lookups:
  assumes a: "assemble_plan_bundle c a f (xs, as, bs) p = Inr b"
    and bids: "proposed_binding_ids p (obligations_by_id bs) = Inr bids"
    and t: "t \<in> set (pp_tasks p)" "compile_task p bids (obligations_by_id bs) f t = Inr w"
      "w \<in> set (wp_tasks (bu_plan b))"
    and i: "i \<in> set (wt_obligation_ids w)"
  obtains x where "x \<in> set bs" "ro_obligation_id x = i"
    "map_of (obligations_by_id bs) i = Some x"
    "map_of bids i = (if ro_execution_disposition x = DispExecutable
       then Some (query_binding_id (wp_plan_revision_id (bu_plan b)) (wt_task_id w) x) else None)"
    "map_of (bx_binding_by_obligation (index_bundle b (xs, as, bs))) i = map_of bids i"
proof -
  note A = assembled [OF a]
  note V = proposed_tasks_Inr [OF A(1)]
  note D = adoption_distinct [OF A(5)]
  note W = compiled_task [OF t(2) V(2) t(1)]
  have P: "distinct (concat (map wt_obligation_ids (wp_tasks (bu_plan b))))"
    using A(3) by (simp add: check_work_plan_def Let_def)
  note Q = compiled_bindings [OF A(4) P]
  have i': "i \<in> set (pt_obligation_ids t)" using i build_work_task_Inr(5) [OF W(1)] by simp
  then have "i \<in> set (concat (map pt_obligation_ids (pp_tasks p)))" using t(1) by auto
  then obtain x where x: "x \<in> set bs" "ro_obligation_id x = i" unfolding V(4) by auto
  let ?j = "query_binding_id (wp_plan_revision_id (bu_plan b)) (wt_task_id w) x"
  have b: "map_of bids i = (if ro_execution_disposition x = DispExecutable then Some ?j else None)"
    using binding_ids_lookup [OF bids D(2) V(2,3) t(1) i' x] W(2) A(6) by simp
  have dq: "distinct (map qb_obligation_id (bu_query_bindings b))"
    unfolding Q(1) using D(2) by (simp add: distinct_map_filter)
  have "map_of (bx_binding_by_obligation (index_bundle b (xs, as, bs))) i = Some j \<longleftrightarrow>
      ro_execution_disposition x = DispExecutable \<and> j = ?j" for j
  proof -
    have "map_of (bx_binding_by_obligation (index_bundle b (xs, as, bs))) i = Some j \<longleftrightarrow>
        (\<exists>q \<in> set (bu_query_bindings b). qb_obligation_id q = i \<and> j = qb_query_binding_id q)"
      unfolding index_bundle_def using lookup_keyed [OF dq] by simp
    also have "\<dots> \<longleftrightarrow> ro_execution_disposition x = DispExecutable \<and> j = ?j"
    proof
      assume "\<exists>q \<in> set (bu_query_bindings b). qb_obligation_id q = i \<and> j = qb_query_binding_id q"
      then obtain q y v where q: "q \<in> set (bu_query_bindings b)" "j = qb_query_binding_id q"
        and y: "y \<in> set bs" "ro_execution_disposition y = DispExecutable" "ro_obligation_id y = i"
        and v: "v \<in> set (wp_tasks (bu_plan b))" "i \<in> set (wt_obligation_ids v)"
          "qb_query_binding_id q = query_binding_id (wp_plan_revision_id (bu_plan b)) (wt_task_id v) y"
        using Q(2) by metis
      have "y = x" using D(2) x y(1,3) by (metis inj_on_eq_iff distinct_map)
      moreover have "v = w" using owner_unique [OF P v(1) t(3) v(2) i] .
      ultimately show "ro_execution_disposition x = DispExecutable \<and> j = ?j" using q y v by simp
    next
      assume e: "ro_execution_disposition x = DispExecutable \<and> j = ?j"
      then obtain q y where "q \<in> set (bu_query_bindings b)"
        "build_query_binding (bu_plan b) f w x y (pp_created_at p) = Inr q"
        using Q(3) [OF x(1) _ t(3)] x(2) i by blast
      then show "\<exists>q \<in> set (bu_query_bindings b). qb_obligation_id q = i \<and> j = qb_query_binding_id q"
        using build_query_binding_Inr(1,2) x(2) e by metis
    qed
    finally show ?thesis .
  qed
  then have "map_of (bx_binding_by_obligation (index_bundle b (xs, as, bs))) i = map_of bids i"
    unfolding b by (cases "map_of (bx_binding_by_obligation (index_bundle b (xs, as, bs))) i") auto
  moreover have "map_of (obligations_by_id bs) i = Some x" using obligations_lookup [OF D(2)] x by blast
  ultimately show thesis using that x b by blast
qed

lemma compiled_task_valid:
  assumes a: "assemble_plan_bundle c a f (xs, as, bs) p = Inr b"
    and valid: "\<forall>t \<in> set (pp_tasks p). check_proposed_task t = Inr ()"
    and w: "w \<in> set (wp_tasks (bu_plan b))"
  shows "validate_task b (index_bundle b (xs, as, bs)) f w = Inr (wt_query_binding_ids w)"
proof -
  let ?ix = "index_bundle b (xs, as, bs)"
  note A = assembled [OF a]
  obtain bids where bids: "proposed_binding_ids p (obligations_by_id bs) = Inr bids"
    and T: "list_all2 (\<lambda>t w. compile_task p bids (obligations_by_id bs) f t = Inr w)
      (pp_tasks p) (wp_tasks (bu_plan b))"
    using A(2) by blast
  note V = proposed_tasks_Inr [OF A(1)]
  note D = adoption_distinct [OF A(5)]
  have ids: "distinct (map wt_task_id (wp_tasks (bu_plan b)))"
    and P: "distinct (concat (map wt_obligation_ids (wp_tasks (bu_plan b))))"
    using A(3) by (simp_all add: check_work_plan_def Let_def)
  note Q = compiled_bindings [OF A(4) P]
  obtain t where t: "t \<in> set (pp_tasks p)" "compile_task p bids (obligations_by_id bs) f t = Inr w"
    using list_all2_memD(2) [OF T w] by blast
  note W = compiled_task [OF t(2) V(2) t(1)]
  note F = build_work_task_Inr [OF W(1)]
  have from_task: "proposal_of_task ?ix w = Inr t"
    using proposal_of_compiled [OF T V(2) ids t] valid t(1) by blast
  have ix: "bx_task_id_by_key ?ix = proposed_task_ids p" "bx_obligations ?ix = obligations_by_id bs"
    "bx_outcomes ?ix = outcomes_by_id xs"
    using task_ids_of_bundle [OF T V(2)] by (simp_all add: index_bundle_def)
  have "map_of (bx_binding_by_obligation ?ix) i = map_of bids i" if "i \<in> set (pt_obligation_ids t)" for i
    using bundle_lookups [OF a bids t w] that F(5) by metis
  then have "build_work_task t (wt_task_id w) (proposed_task_ids p) (bx_binding_by_obligation ?ix)
      (obligations_by_id bs) f = Inr w"
    using build_work_task_cong [of t "bx_binding_by_obligation ?ix" bids] W by simp
  then have again: "expected_work_task ?ix f w = Inr w" by (simp add: expected_work_task_def from_task ix)
  have one: "validate_task_obligation b ?ix f w i =
      Inr (case map_of bids i of None \<Rightarrow> [] | Some j \<Rightarrow> [j])" if i: "i \<in> set (wt_obligation_ids w)" for i
  proof -
    obtain x where x: "x \<in> set bs" "ro_obligation_id x = i" "map_of (obligations_by_id bs) i = Some x"
      "map_of bids i = (if ro_execution_disposition x = DispExecutable
         then Some (query_binding_id (wp_plan_revision_id (bu_plan b)) (wt_task_id w) x) else None)"
      using bundle_lookups [OF a bids t w i] by metis
    show ?thesis
    proof (cases "ro_execution_disposition x = DispExecutable")
      case True
      obtain q y where q: "q \<in> set (bu_query_bindings b)"
        "map_of (outcomes_by_id xs) (ro_resolution_outcome_id x) = Some y"
        "build_query_binding (bu_plan b) f w x y (pp_created_at p) = Inr q"
        using Q(3) [OF x(1) True w] x(2) i by blast
      note B = build_query_binding_Inr [OF q(3)]
      have "map_of (bx_bindings ?ix) (qb_query_binding_id q) = Some q"
        unfolding index_bundle_def using lookup_keyed [OF D(3), of id] q(1) by auto
      then show ?thesis using True x q B
        by (simp add: validate_task_obligation_def ix Let_def item_def require_def)
    next
      case False
      have "qb_obligation_id q \<noteq> i" if "q \<in> set (bu_query_bindings b)" for q
        using Q(2) [OF that] False x(1,2) D(2) by (metis inj_on_eq_iff distinct_map)
      then show ?thesis using False x by (simp add: validate_task_obligation_def ix require_def)
    qed
  qed
  have "sequenceR (map (validate_task_obligation b ?ix f w) (wt_obligation_ids w)) =
      Inr (map (\<lambda>i. case map_of bids i of None \<Rightarrow> [] | Some j \<Rightarrow> [j]) (wt_obligation_ids w))"
    using one by (simp add: sequenceR_rel list_all2_conv_all_nth)
  moreover have "concat (map (\<lambda>i. case map_of bids i of None \<Rightarrow> [] | Some j \<Rightarrow> [j]) is) =
      List.map_filter (map_of bids) is" for "is"
    by (induction "is") (auto simp: map_filter_simps split: option.splits)
  ultimately show ?thesis using again W(2) F A(6)
    by (simp add: validate_task_def require_def)
qed

lemma compiled_bundle_valid:
  assumes case_ok: "validate_case_and_snapshot c f a = Inr ()"
    and inputs: "validate_measurement_inputs f a given = Inr (xs, as, bs)"
    and a: "assemble_plan_bundle c a f (xs, as, bs) p = Inr b"
    and valid: "\<forall>t \<in> set (pp_tasks p). check_proposed_task t = Inr ()"
  shows "validate_plan_bundle b c a f given = Inr ()"
proof -
  let ?ix = "index_bundle b (xs, as, bs)"
  note A = assembled [OF a]
  obtain bids where bids: "proposed_binding_ids p (obligations_by_id bs) = Inr bids"
    and T: "list_all2 (\<lambda>t w. compile_task p bids (obligations_by_id bs) f t = Inr w)
      (pp_tasks p) (wp_tasks (bu_plan b))"
    using A(2) by blast
  note V = proposed_tasks_Inr [OF A(1)]
  note D = adoption_distinct [OF A(5)]
  have P: "distinct (concat (map wt_obligation_ids (wp_tasks (bu_plan b))))"
    using A(3) by (simp add: check_work_plan_def Let_def)
  note Q = compiled_bindings [OF A(4) P]
  have closure: "check_plan_closure b c f (xs, as, bs) = Inr ()"
    using A(7,8,9) V(3,4) D(3) compiled_tasks(2) [OF T]
    by (simp add: check_plan_closure_def Let_def del: set_concat set_map)
  have tasks: "sequenceR (map (validate_task b ?ix f) (wp_tasks (bu_plan b))) =
      Inr (map wt_query_binding_ids (wp_tasks (bu_plan b)))"
    using compiled_task_valid [OF a valid] by (simp add: sequenceR_rel list_all2_conv_all_nth)
  have owned: "set (map fst (bx_bindings ?ix)) = set (concat (map wt_query_binding_ids (wp_tasks (bu_plan b))))"
  proof -
    have "j \<in> set (concat (map wt_query_binding_ids (wp_tasks (bu_plan b)))) \<longleftrightarrow>
        j \<in> qb_query_binding_id ` set (bu_query_bindings b)" for j
    proof
      assume "j \<in> set (concat (map wt_query_binding_ids (wp_tasks (bu_plan b))))"
      then obtain w where w: "w \<in> set (wp_tasks (bu_plan b))" "j \<in> set (wt_query_binding_ids w)" by auto
      then obtain t where t: "t \<in> set (pp_tasks p)" "compile_task p bids (obligations_by_id bs) f t = Inr w"
        using list_all2_memD(2) [OF T w(1)] by blast
      note F = build_work_task_Inr [OF compiled_task(1) [OF t(2) V(2) t(1)]]
      obtain i where i: "i \<in> set (wt_obligation_ids w)" "map_of bids i = Some j"
        using w(2) unfolding F(5,6) by (force simp: map_filter_def)
      obtain x where x: "map_of (bx_binding_by_obligation ?ix) i = Some j"
        using bundle_lookups [OF a bids t w(1) i(1)] i(2) by metis
      show "j \<in> qb_query_binding_id ` set (bu_query_bindings b)"
        using lookup_in [of qb_obligation_id qb_query_binding_id "bu_query_bindings b" i j] x
        by (auto simp: index_bundle_def)
    next
      assume "j \<in> qb_query_binding_id ` set (bu_query_bindings b)"
      then obtain x w where x: "x \<in> set bs" "ro_execution_disposition x = DispExecutable"
        and w: "w \<in> set (wp_tasks (bu_plan b))" "ro_obligation_id x \<in> set (wt_obligation_ids w)"
          "j = query_binding_id (wp_plan_revision_id (bu_plan b)) (wt_task_id w) x"
        using Q(2) by (metis imageE)
      obtain t where t: "t \<in> set (pp_tasks p)" "compile_task p bids (obligations_by_id bs) f t = Inr w"
        using list_all2_memD(2) [OF T w(1)] by blast
      note F = build_work_task_Inr [OF compiled_task(1) [OF t(2) V(2) t(1)]]
      obtain y where y: "y \<in> set bs" "ro_obligation_id y = ro_obligation_id x"
        "map_of bids (ro_obligation_id x) = (if ro_execution_disposition y = DispExecutable
           then Some (query_binding_id (wp_plan_revision_id (bu_plan b)) (wt_task_id w) y) else None)"
        using bundle_lookups [OF a bids t w(1,2)] by metis
      have "y = x" using D(2) x(1) y(1,2) by (metis inj_on_eq_iff distinct_map)
      then have "map_of bids (ro_obligation_id x) = Some j" using y(3) x(2) w(3) by simp
      then have "j \<in> set (wt_query_binding_ids w)" using w(2) unfolding F(5,6)
        by (force simp: map_filter_def)
      then show "j \<in> set (concat (map wt_query_binding_ids (wp_tasks (bu_plan b))))" using w(1) by auto
    qed
    then show ?thesis by (simp add: index_bundle_def set_eq_iff image_image)
  qed
  have "pd_created_at (bu_adoption b) = pp_created_at p" using D(4) .
  then show ?thesis using case_ok inputs closure tasks owned A(5)
    by (simp add: validate_plan_bundle_def Let_def require_def)
qed

text \<open>
  C5: The compiler's last check never refuses its own work.  A bundle that was assembled from valid
  inputs and a proposal of valid tasks is returned, so that compilation fails only where the inputs or
  the proposal are refused or a record cannot be built; and what it returns is accepted by
  \<open>validate_plan_bundle\<close> for the inputs in the order they were given.
\<close>

theorem compiled_bundle_is_accepted:
  assumes "\<forall>t \<in> set (pp_tasks p). check_proposed_task t = Inr ()"
  shows "(compile_plan_bundle c a f inputs p = Inr b \<longleftrightarrow>
      check_plan_proposal p c = Inr () \<and> validate_case_and_snapshot c f a = Inr () \<and>
      (\<exists>ordered. validate_measurement_inputs f a inputs = Inr ordered \<and>
         assemble_plan_bundle c a f ordered p = Inr b)) \<and>
    (compile_plan_bundle c a f inputs p = Inr b \<longrightarrow> validate_plan_bundle b c a f inputs = Inr ())"
proof -
  have again: "validate_plan_bundle b c a f ordered = Inr () \<and> validate_plan_bundle b c a f inputs = Inr ()"
    if v: "validate_case_and_snapshot c f a = Inr ()" and i: "validate_measurement_inputs f a inputs = Inr ordered"
      and b: "assemble_plan_bundle c a f ordered p = Inr b" for ordered
  proof -
    obtain xs as bs where o: "ordered = (xs, as, bs)" by (cases ordered)
    note A = assembled [OF b [unfolded o]]
    note V = proposed_tasks_Inr [OF A(1)]
    note D = adoption_distinct [OF A(5)]
    have "\<exists>t \<in> set (pp_tasks p). pt_obligation_ids t \<noteq> []"
      using V(1) assms by (cases "pp_tasks p") (auto simp: check_proposed_task_def)
    then have "bs \<noteq> []" using V(4) by auto
    then have "validate_measurement_inputs f a (xs, as, bs) = Inr (xs, as, bs)"
      using inputs_again i D(1,2) unfolding o by blast
    then show ?thesis
      using compiled_bundle_valid [OF v _ b [unfolded o] assms] i unfolding o by blast
  qed
  then show ?thesis by (auto simp: compile_plan_bundle_def result_simps)
qed

section \<open>An accepted bundle closes its frame\<close>

lemma valid_bundle:
  assumes "validate_plan_bundle b c a f inputs = Inr ()"
  obtains xs as bs where "validate_measurement_inputs f a inputs = Inr (xs, as, bs)"
    "check_plan_closure b c f (xs, as, bs) = Inr ()"
    "\<And>w. w \<in> set (wp_tasks (bu_plan b)) \<Longrightarrow>
       validate_task b (index_bundle b (xs, as, bs)) f w = Inr (wt_query_binding_ids w)"
    "qb_query_binding_id ` set (bu_query_bindings b) =
       set (concat (map wt_query_binding_ids (wp_tasks (bu_plan b))))"
    "build_plan_adoption c a f (bu_plan b) (xs, as, bs) (bu_query_bindings b)
       (pd_created_at (bu_adoption b)) = Inr (bu_adoption b)"
proof -
  obtain xs as bs jss where i: "validate_measurement_inputs f a inputs = Inr (xs, as, bs)"
    "check_plan_closure b c f (xs, as, bs) = Inr ()"
    and t: "sequenceR (map (validate_task b (index_bundle b (xs, as, bs)) f) (wp_tasks (bu_plan b))) = Inr jss"
    and q: "set (map fst (bx_bindings (index_bundle b (xs, as, bs)))) = set (concat jss)"
    and d: "build_plan_adoption c a f (bu_plan b) (xs, as, bs) (bu_query_bindings b)
       (pd_created_at (bu_adoption b)) = Inr (bu_adoption b)"
    using assms by (auto simp: validate_plan_bundle_def Let_def result_simps simp del: set_map set_concat)
  have "list_all2 (\<lambda>w js. validate_task b (index_bundle b (xs, as, bs)) f w = Inr js)
      (wp_tasks (bu_plan b)) jss" using t by (simp add: sequenceR_rel)
  moreover have "js = wt_query_binding_ids w" if "validate_task b ix f w = Inr js" for ix w js
    using that by (auto simp: validate_task_def result_simps)
  ultimately have l: "list_all2 (\<lambda>w js. validate_task b (index_bundle b (xs, as, bs)) f w = Inr js \<and>
      js = wt_query_binding_ids w) (wp_tasks (bu_plan b)) jss" by (auto elim!: list_all2_mono)
  then have jss: "jss = map wt_query_binding_ids (wp_tasks (bu_plan b))"
    by (simp add: list_all2_conv_all_nth list_eq_iff_nth_eq)
  have each: "validate_task b (index_bundle b (xs, as, bs)) f w = Inr (wt_query_binding_ids w)"
    if "w \<in> set (wp_tasks (bu_plan b))" for w
    using list_all2_memD(1) [OF l that] by auto
  have owned: "qb_query_binding_id ` set (bu_query_bindings b) =
      set (concat (map wt_query_binding_ids (wp_tasks (bu_plan b))))"
    using q unfolding jss by (simp add: index_bundle_def image_image)
  show thesis by (rule that [OF i each owned d])
qed

text \<open>The query binding of a task for an obligation is the one that is built again from the inputs.\<close>

definition rebuilt ::
    "PlanBundle \<Rightarrow> FrameView \<Rightarrow> MeasurementResolutionOutcome list \<Rightarrow> WorkTask \<Rightarrow>
     ResolvedEvidenceObligation \<Rightarrow> QueryBindingEnvelope \<Rightarrow> bool" where
  "rebuilt b f xs w x q \<longleftrightarrow> q \<in> set (bu_query_bindings b) \<and> (\<exists>y \<in> set xs.
     mo_resolution_outcome_id y = ro_resolution_outcome_id x \<and>
     build_query_binding (bu_plan b) f w x y (qb_created_at q) = Inr q)"

lemma rebuilt_fields:
  assumes "rebuilt b f xs w x q"
  shows "qb_query_binding_id q = query_binding_id (wp_plan_revision_id (bu_plan b)) (wt_task_id w) x"
    "qb_obligation_id q = ro_obligation_id x" "q \<in> set (bu_query_bindings b)" "qb_task_id q = wt_task_id w"
    "\<exists>y \<in> set xs. mo_resolution_outcome_id y = ro_resolution_outcome_id x \<and>
       mo_resolved_instance y = Some (qb_resolved_measurement_instance q)"
proof -
  obtain y where y: "y \<in> set xs" "mo_resolution_outcome_id y = ro_resolution_outcome_id x"
    "build_query_binding (bu_plan b) f w x y (qb_created_at q) = Inr q" and q: "q \<in> set (bu_query_bindings b)"
    using assms by (auto simp: rebuilt_def)
  note B = build_query_binding_Inr [OF y(3)]
  show "qb_query_binding_id q = query_binding_id (wp_plan_revision_id (bu_plan b)) (wt_task_id w) x"
    "qb_obligation_id q = ro_obligation_id x" "q \<in> set (bu_query_bindings b)" "qb_task_id q = wt_task_id w"
    "\<exists>y \<in> set xs. mo_resolution_outcome_id y = ro_resolution_outcome_id x \<and>
       mo_resolved_instance y = Some (qb_resolved_measurement_instance q)"
    using B(1,2,5,6) q y(1,2) by blast+
qed

text \<open>What the validation of a task says of one of its obligations.\<close>

lemma valid_obligation:
  assumes k: "validate_task_obligation b (index_bundle b (xs, as, bs)) f w i = Inr ks"
    and d: "distinct (map ro_obligation_id bs)" "distinct (map mo_resolution_outcome_id xs)"
      "distinct (map qb_query_binding_id (bu_query_bindings b))"
  obtains x where "x \<in> set bs" "ro_obligation_id x = i"
    "ro_execution_disposition x = DispExecutable \<Longrightarrow> \<exists>q. rebuilt b f xs w x q \<and> ks = [qb_query_binding_id q]"
    "ro_execution_disposition x \<noteq> DispExecutable \<Longrightarrow>
       ks = [] \<and> (\<forall>q \<in> set (bu_query_bindings b). qb_obligation_id q \<noteq> i)"
proof -
  obtain x where x: "map_of (obligations_by_id bs) i = Some x"
    using k by (auto simp: validate_task_obligation_def index_bundle_def split: option.splits)
  then have m: "x \<in> set bs" "ro_obligation_id x = i" using obligations_lookup [OF d(1)] by auto
  show thesis
  proof (cases "ro_execution_disposition x = DispExecutable")
    case True
    let ?j = "query_binding_id (wp_plan_revision_id (bu_plan b)) (wt_task_id w) x"
    obtain q y where q: "map_of (bx_bindings (index_bundle b (xs, as, bs))) ?j = Some q"
      and y: "map_of (outcomes_by_id xs) (ro_resolution_outcome_id x) = Some y"
      and e: "build_query_binding (bu_plan b) f w x y (qb_created_at q) = Inr q" and ks: "ks = [?j]"
      using k True x by (auto simp: validate_task_obligation_def index_bundle_def Let_def result_simps
          split: option.splits)
    have "q \<in> set (bu_query_bindings b)" "qb_query_binding_id q = ?j"
      using q lookup_keyed [OF d(3), of id] by (auto simp: index_bundle_def)
    then have "rebuilt b f xs w x q \<and> ks = [qb_query_binding_id q]"
      using y e ks outcomes_lookup [OF d(2)] by (auto simp: rebuilt_def)
    then show ?thesis using that [OF m] True by blast
  next
    case False
    then have "ks = [] \<and> (\<forall>q \<in> set (bu_query_bindings b). qb_obligation_id q \<noteq> i)"
      using k x by (auto simp: validate_task_obligation_def index_bundle_def result_simps)
    then show ?thesis using that [OF m] False by simp
  qed
qed

text \<open>An accepted bundle: its tasks own the obligations, its query bindings are those rebuilt for them.\<close>

lemma accepted_bundle:
  assumes "validate_plan_bundle b c a f inputs = Inr ()"
  obtains xs as bs where "validate_measurement_inputs f a inputs = Inr (xs, as, bs)"
    "distinct (map mo_resolution_outcome_id xs)" "distinct (map ro_obligation_id bs)"
    "wp_resolution_outcome_ids (bu_plan b) = map mo_resolution_outcome_id xs"
    "set (concat (map wt_obligation_ids (wp_tasks (bu_plan b)))) = set (map ro_obligation_id bs)"
    "distinct (concat (map wt_obligation_ids (wp_tasks (bu_plan b))))"
    "distinct (map qb_query_binding_id (bu_query_bindings b))"
    "\<And>w i. w \<in> set (wp_tasks (bu_plan b)) \<Longrightarrow> i \<in> set (wt_obligation_ids w) \<Longrightarrow>
       \<exists>x \<in> set bs. ro_obligation_id x = i \<and>
         (if ro_execution_disposition x = DispExecutable then \<exists>q. rebuilt b f xs w x q
          else \<forall>q \<in> set (bu_query_bindings b). qb_obligation_id q \<noteq> i)"
    "\<And>q. q \<in> set (bu_query_bindings b) \<Longrightarrow> \<exists>w \<in> set (wp_tasks (bu_plan b)). \<exists>x \<in> set bs.
       ro_obligation_id x \<in> set (wt_obligation_ids w) \<and> rebuilt b f xs w x q"
proof -
  obtain xs as bs where v: "validate_measurement_inputs f a inputs = Inr (xs, as, bs)"
    and cl: "check_plan_closure b c f (xs, as, bs) = Inr ()"
    and t: "\<And>w. w \<in> set (wp_tasks (bu_plan b)) \<Longrightarrow>
       validate_task b (index_bundle b (xs, as, bs)) f w = Inr (wt_query_binding_ids w)"
    and own: "qb_query_binding_id ` set (bu_query_bindings b) =
       set (concat (map wt_query_binding_ids (wp_tasks (bu_plan b))))"
    and ad: "build_plan_adoption c a f (bu_plan b) (xs, as, bs) (bu_query_bindings b)
       (pd_created_at (bu_adoption b)) = Inr (bu_adoption b)"
    by (fact valid_bundle [OF assms])
  note D = adoption_distinct [OF ad]
  note ob = valid_obligation [OF _ D(2,1,3)]
  have l: "\<exists>kss. list_all2 (\<lambda>i ks. validate_task_obligation b (index_bundle b (xs, as, bs)) f w i = Inr ks)
      (wt_obligation_ids w) kss \<and> wt_query_binding_ids w = concat kss"
    if "w \<in> set (wp_tasks (bu_plan b))" for w
    using t [OF that] by (auto simp: validate_task_def result_simps sequenceR_rel)
  have task: "\<exists>x \<in> set bs. ro_obligation_id x = i \<and>
      (if ro_execution_disposition x = DispExecutable then \<exists>q. rebuilt b f xs w x q
       else \<forall>q \<in> set (bu_query_bindings b). qb_obligation_id q \<noteq> i)"
    if w: "w \<in> set (wp_tasks (bu_plan b))" "i \<in> set (wt_obligation_ids w)" for w i
  proof -
    obtain ks where ks: "validate_task_obligation b (index_bundle b (xs, as, bs)) f w i = Inr ks"
      using l [OF w(1)] list_all2_memD(1) [OF _ w(2)] by blast
    show ?thesis by (rule ob [OF ks]) auto
  qed
  have binding: "\<exists>w \<in> set (wp_tasks (bu_plan b)). \<exists>x \<in> set bs.
      ro_obligation_id x \<in> set (wt_obligation_ids w) \<and> rebuilt b f xs w x q"
    if q: "q \<in> set (bu_query_bindings b)" for q
  proof -
    have "qb_query_binding_id q \<in> set (concat (map wt_query_binding_ids (wp_tasks (bu_plan b))))"
      using own q by blast
    then obtain w where w: "w \<in> set (wp_tasks (bu_plan b))" "qb_query_binding_id q \<in> set (wt_query_binding_ids w)"
      by auto
    obtain kss where kss: "list_all2 (\<lambda>i ks. validate_task_obligation b (index_bundle b (xs, as, bs)) f w i = Inr ks)
        (wt_obligation_ids w) kss" "wt_query_binding_ids w = concat kss"
      using l [OF w(1)] by blast
    then obtain ks where "ks \<in> set kss" "qb_query_binding_id q \<in> set ks" using w(2) by auto
    then obtain i where i: "i \<in> set (wt_obligation_ids w)"
      "validate_task_obligation b (index_bundle b (xs, as, bs)) f w i = Inr ks"
      using list_all2_memD(2) [OF kss(1)] by blast
    show ?thesis
    proof (rule ob [OF i(2)])
      fix x assume x: "x \<in> set bs" "ro_obligation_id x = i"
        and e: "ro_execution_disposition x = DispExecutable \<Longrightarrow>
          \<exists>q. rebuilt b f xs w x q \<and> ks = [qb_query_binding_id q]"
        and n: "ro_execution_disposition x \<noteq> DispExecutable \<Longrightarrow>
          ks = [] \<and> (\<forall>q \<in> set (bu_query_bindings b). qb_obligation_id q \<noteq> i)"
      obtain r where r: "rebuilt b f xs w x r" "qb_query_binding_id r = qb_query_binding_id q"
        using e n \<open>qb_query_binding_id q \<in> set ks\<close> by (cases "ro_execution_disposition x = DispExecutable") auto
      have "r = q" using r D(3) q rebuilt_fields(3) [OF r(1)] by (metis inj_on_eq_iff distinct_map)
      then show ?thesis using w(1) x i(1) r(1) by blast
    qed
  qed
  have "set (concat (map wt_obligation_ids (wp_tasks (bu_plan b)))) = set (map ro_obligation_id bs)"
    "distinct (concat (map wt_obligation_ids (wp_tasks (bu_plan b))))"
    "wp_resolution_outcome_ids (bu_plan b) = map mo_resolution_outcome_id xs"
    using cl by (simp_all add: check_plan_closure_def Let_def)
  note ids = this
  show thesis by (rule that [OF v D(1,2) ids(3,1,2) D(3) task binding])
qed

text \<open>
  A plan that passes the validation closes its frame: for every slot of the frame (an estimand, a
  requirement of it, an evidence type of that) there is an obligation resolved by an outcome the plan
  adopts, and exactly one task owns it.  An executable obligation has exactly one query binding, which
  carries the measurement instance of that outcome and names that task; a boundary obligation has none.
\<close>

lemma inputs_of_frame:
  assumes "validate_measurement_inputs f a (xs, as, bs) = Inr (ys, cs, ds)" "b \<in> set ds"
  shows "ro_frame_revision_id b = fr_frame_revision_id f"
  using assms by (auto simp: validate_measurement_inputs_def check_obligation_authority_def result_simps)

lemma validated_plan_closes_frame:
  assumes "validate_plan_bundle b c a f (given_xs, given_as, given_bs) = Inr ()" "frame_slot f (e, i, t)"
  shows "\<exists>x \<in> set given_bs. \<exists>y \<in> set given_xs. slot_of x = (e, i, t) \<and> mo_estimand_id y = e \<and>
    ro_frame_revision_id x = fr_frame_revision_id f \<and>
    mo_resolution_outcome_id y = ro_resolution_outcome_id x \<and>
    ro_resolution_outcome_id x \<in> set (wp_resolution_outcome_ids (bu_plan b)) \<and>
    (\<exists>!w. w \<in> set (wp_tasks (bu_plan b)) \<and> ro_obligation_id x \<in> set (wt_obligation_ids w)) \<and>
    (if ro_execution_disposition x = DispExecutable
     then (\<exists>!q. q \<in> set (bu_query_bindings b) \<and> qb_obligation_id q = ro_obligation_id x) \<and>
       (\<exists>q w. q \<in> set (bu_query_bindings b) \<and> w \<in> set (wp_tasks (bu_plan b)) \<and>
          qb_obligation_id q = ro_obligation_id x \<and> ro_obligation_id x \<in> set (wt_obligation_ids w) \<and>
          qb_task_id q = wt_task_id w \<and>
          mo_resolved_instance y = Some (qb_resolved_measurement_instance q))
     else \<not> (\<exists>q \<in> set (bu_query_bindings b). qb_obligation_id q = ro_obligation_id x))"
proof -
  obtain xs as bs where v: "validate_measurement_inputs f a (given_xs, given_as, given_bs) = Inr (xs, as, bs)"
    and d: "distinct (map mo_resolution_outcome_id xs)" "distinct (map ro_obligation_id bs)"
    and r: "wp_resolution_outcome_ids (bu_plan b) = map mo_resolution_outcome_id xs"
    and ids: "set (concat (map wt_obligation_ids (wp_tasks (bu_plan b)))) = set (map ro_obligation_id bs)"
      "distinct (concat (map wt_obligation_ids (wp_tasks (bu_plan b))))"
    and dq: "distinct (map qb_query_binding_id (bu_query_bindings b))"
    and task: "\<And>w i. w \<in> set (wp_tasks (bu_plan b)) \<Longrightarrow> i \<in> set (wt_obligation_ids w) \<Longrightarrow>
       \<exists>x \<in> set bs. ro_obligation_id x = i \<and>
         (if ro_execution_disposition x = DispExecutable then \<exists>q. rebuilt b f xs w x q
          else \<forall>q \<in> set (bu_query_bindings b). qb_obligation_id q \<noteq> i)"
    and binding: "\<And>q. q \<in> set (bu_query_bindings b) \<Longrightarrow> \<exists>w \<in> set (wp_tasks (bu_plan b)). \<exists>x \<in> set bs.
       ro_obligation_id x \<in> set (wt_obligation_ids w) \<and> rebuilt b f xs w x q"
    by (fact accepted_bundle [OF assms(1)])
  note I = inputs_Inr [OF v]
  obtain x where x: "x \<in> set bs" "slot_of x = (e, i, t)"
    using expected_slots_frame [OF order_obligations_Inr(1) [OF I(3)], of "(e, i, t)"] assms(2) by auto
  obtain y where y: "y \<in> set xs" "mo_estimand_id y = ro_estimand_id x"
    "mo_resolution_outcome_id y = ro_resolution_outcome_id x"
    using I(4) x(1) by blast
  have "ro_obligation_id x \<in> set (concat (map wt_obligation_ids (wp_tasks (bu_plan b))))"
    unfolding ids(1) using x(1) by simp
  then obtain w where w: "w \<in> set (wp_tasks (bu_plan b))" "ro_obligation_id x \<in> set (wt_obligation_ids w)"
    by auto
  have same: "z = x" if "z \<in> set bs" "ro_obligation_id z = ro_obligation_id x" for z
    using d(2) x(1) that by (metis inj_on_eq_iff distinct_map)
  have one: "v = w" if "v \<in> set (wp_tasks (bu_plan b))" "ro_obligation_id x \<in> set (wt_obligation_ids v)" for v
    using owner_unique [OF ids(2) that(1) w(1) that(2) w(2)] .
  have "z = y" if "z \<in> set xs" "mo_resolution_outcome_id z = ro_resolution_outcome_id x" for z
    using d(1) y(1,3) that by (metis inj_on_eq_iff distinct_map)
  then have sealed: "mo_resolved_instance y = Some (qb_resolved_measurement_instance q)"
    if "rebuilt b f xs w x q" for q
    using rebuilt_fields(5) [OF that] by blast
  have only: "rebuilt b f xs w x q"
    if q: "q \<in> set (bu_query_bindings b)" "qb_obligation_id q = ro_obligation_id x" for q
    using binding [OF q(1)] rebuilt_fields(2) q(2) same one by metis
  have eq: "q = q'" if "rebuilt b f xs w x q" "rebuilt b f xs w x q'" for q q'
    using dq rebuilt_fields(1,3) that by (metis inj_on_eq_iff distinct_map)
  have some: "if ro_execution_disposition x = DispExecutable then \<exists>q. rebuilt b f xs w x q
      else \<forall>q \<in> set (bu_query_bindings b). qb_obligation_id q \<noteq> ro_obligation_id x"
    using task [OF w] same by blast
  have last: "if ro_execution_disposition x = DispExecutable
     then (\<exists>!q. q \<in> set (bu_query_bindings b) \<and> qb_obligation_id q = ro_obligation_id x) \<and>
       (\<exists>q w. q \<in> set (bu_query_bindings b) \<and> w \<in> set (wp_tasks (bu_plan b)) \<and>
          qb_obligation_id q = ro_obligation_id x \<and> ro_obligation_id x \<in> set (wt_obligation_ids w) \<and>
          qb_task_id q = wt_task_id w \<and>
          mo_resolved_instance y = Some (qb_resolved_measurement_instance q))
     else \<not> (\<exists>q \<in> set (bu_query_bindings b). qb_obligation_id q = ro_obligation_id x)"
  proof (cases "ro_execution_disposition x = DispExecutable")
    case True
    then obtain q where q: "rebuilt b f xs w x q" using some by auto
    note R = rebuilt_fields [OF q]
    have "\<exists>!q. q \<in> set (bu_query_bindings b) \<and> qb_obligation_id q = ro_obligation_id x"
      using R(2,3) only eq by blast
    then show ?thesis using True R sealed [OF q] w by auto
  qed (use some in auto)
  have "x \<in> set given_bs" "y \<in> set given_xs"
    using x y order_obligations_Inr(2) [OF I(3)] order_outcomes_Inr(2) [OF I(1)] by auto
  moreover have "mo_estimand_id y = e" using y(2) x(2) by (simp add: slot_of_def)
  moreover have "ro_resolution_outcome_id x \<in> set (wp_resolution_outcome_ids (bu_plan b))"
    using y(1,3) r by force
  moreover have "\<exists>!w. w \<in> set (wp_tasks (bu_plan b)) \<and> ro_obligation_id x \<in> set (wt_obligation_ids w)"
    using w one by blast
  moreover have "ro_frame_revision_id x = fr_frame_revision_id f" using inputs_of_frame [OF v x(1)] .
  ultimately show ?thesis using last x(2) y(3) by blast
qed

section \<open>Query bindings are sealed\<close>

lemma build_query_binding_any_time:
  assumes "build_query_binding p f w x y at = Inr q" "build_query_binding p f w x y at' = Inr q'"
  shows "q' = q\<lparr>qb_created_at := at'\<rparr>"
  using assms by (auto simp: build_query_binding_def result_simps split: option.splits)

text \<open>
  C6: The query bindings of a plan are sealed.  Two bundles that are accepted for the same plan and the
  same inputs carry the same query bindings, but for the time each was created at: nobody can change
  what an accepted plan measures without changing the plan.
\<close>

theorem accepted_bindings_are_sealed:
  assumes "validate_plan_bundle b c a f inputs = Inr ()" "validate_plan_bundle b' c' a f inputs = Inr ()"
    and "bu_plan b' = bu_plan b" "q \<in> set (bu_query_bindings b)"
  shows "\<exists>q' \<in> set (bu_query_bindings b'). q' = q\<lparr>qb_created_at := qb_created_at q'\<rparr>"
proof -
  obtain xs as bs where v: "validate_measurement_inputs f a inputs = Inr (xs, as, bs)"
    and d: "distinct (map mo_resolution_outcome_id xs)" "distinct (map ro_obligation_id bs)"
    and "wp_resolution_outcome_ids (bu_plan b) = map mo_resolution_outcome_id xs"
    and "set (concat (map wt_obligation_ids (wp_tasks (bu_plan b)))) = set (map ro_obligation_id bs)"
      "distinct (concat (map wt_obligation_ids (wp_tasks (bu_plan b))))"
    and "distinct (map qb_query_binding_id (bu_query_bindings b))"
    and task: "\<And>w i. w \<in> set (wp_tasks (bu_plan b)) \<Longrightarrow> i \<in> set (wt_obligation_ids w) \<Longrightarrow>
       \<exists>x \<in> set bs. ro_obligation_id x = i \<and>
         (if ro_execution_disposition x = DispExecutable then \<exists>q. rebuilt b f xs w x q
          else \<forall>q \<in> set (bu_query_bindings b). qb_obligation_id q \<noteq> i)"
    and binding: "\<And>q. q \<in> set (bu_query_bindings b) \<Longrightarrow> \<exists>w \<in> set (wp_tasks (bu_plan b)). \<exists>x \<in> set bs.
       ro_obligation_id x \<in> set (wt_obligation_ids w) \<and> rebuilt b f xs w x q"
    by (fact accepted_bundle [OF assms(1)])
  obtain us vs ws where v': "validate_measurement_inputs f a inputs = Inr (us, vs, ws)"
    and "distinct (map mo_resolution_outcome_id us)" "distinct (map ro_obligation_id ws)"
    and "wp_resolution_outcome_ids (bu_plan b') = map mo_resolution_outcome_id us"
    and "set (concat (map wt_obligation_ids (wp_tasks (bu_plan b')))) = set (map ro_obligation_id ws)"
      "distinct (concat (map wt_obligation_ids (wp_tasks (bu_plan b'))))"
    and "distinct (map qb_query_binding_id (bu_query_bindings b'))"
    and task': "\<And>w i. w \<in> set (wp_tasks (bu_plan b')) \<Longrightarrow> i \<in> set (wt_obligation_ids w) \<Longrightarrow>
       \<exists>x \<in> set ws. ro_obligation_id x = i \<and>
         (if ro_execution_disposition x = DispExecutable then \<exists>q. rebuilt b' f us w x q
          else \<forall>q \<in> set (bu_query_bindings b'). qb_obligation_id q \<noteq> i)"
    and "\<And>q. q \<in> set (bu_query_bindings b') \<Longrightarrow> \<exists>w \<in> set (wp_tasks (bu_plan b')). \<exists>x \<in> set ws.
       ro_obligation_id x \<in> set (wt_obligation_ids w) \<and> rebuilt b' f us w x q"
    by (fact accepted_bundle [OF assms(2)])
  have eq: "us = xs" "ws = bs" using v v' by simp_all
  obtain w x where w: "w \<in> set (wp_tasks (bu_plan b))" "x \<in> set bs"
    "ro_obligation_id x \<in> set (wt_obligation_ids w)" "rebuilt b f xs w x q"
    using binding [OF assms(4)] by blast
  have same: "z = x" if "z \<in> set bs" "ro_obligation_id z = ro_obligation_id x" for z
    using d(2) w(2) that by (metis inj_on_eq_iff distinct_map)
  have "\<exists>z \<in> set bs. ro_obligation_id z = ro_obligation_id x \<and>
      (if ro_execution_disposition z = DispExecutable then \<exists>q. rebuilt b f xs w z q
       else \<forall>q \<in> set (bu_query_bindings b). qb_obligation_id q \<noteq> ro_obligation_id x)"
    using task [OF w(1,3)] .
  then have e: "ro_execution_disposition x = DispExecutable"
    using same rebuilt_fields(2,3) [OF w(4)] by (auto split: if_splits)
  have "\<exists>z \<in> set bs. ro_obligation_id z = ro_obligation_id x \<and>
      (if ro_execution_disposition z = DispExecutable then \<exists>q. rebuilt b' f xs w z q
       else \<forall>q \<in> set (bu_query_bindings b'). qb_obligation_id q \<noteq> ro_obligation_id x)"
    using task' w(1,3) unfolding eq assms(3) by blast
  then obtain z where z: "z \<in> set bs" "ro_obligation_id z = ro_obligation_id x"
      "if ro_execution_disposition z = DispExecutable then \<exists>q. rebuilt b' f xs w z q
       else \<forall>q \<in> set (bu_query_bindings b'). qb_obligation_id q \<noteq> ro_obligation_id x" by blast
  then obtain q' where q': "rebuilt b' f xs w x q'" using same [OF z(1,2)] e by auto
  obtain y y' where y: "y \<in> set xs" "mo_resolution_outcome_id y = ro_resolution_outcome_id x"
      "build_query_binding (bu_plan b) f w x y (qb_created_at q) = Inr q"
    and y': "y' \<in> set xs" "mo_resolution_outcome_id y' = ro_resolution_outcome_id x"
      "build_query_binding (bu_plan b) f w x y' (qb_created_at q') = Inr q'"
    and m: "q' \<in> set (bu_query_bindings b')"
    using w(4) q' unfolding rebuilt_def assms(3) by blast
  have "y' = y" using d(1) y(1,2) y'(1,2) by (metis inj_on_eq_iff distinct_map)
  then have "q' = q\<lparr>qb_created_at := qb_created_at q'\<rparr>"
    using build_query_binding_any_time [OF y(3)] y'(3) by simp
  then show ?thesis using m by blast
qed

end
