(* ===== verification/PlanExamples.thy ===== *)
theory PlanExamples imports PlanProperties begin

text \<open>
  A plan over one estimand: the frame, the resolution and the obligation it works, the proposal of
  one task, and the run of the compiler on them.  The properties of plans are applied to it.
\<close>

section \<open>The frame\<close>

definition px_requirement :: EvidenceRequirementSpec where
  "px_requirement = \<lparr>er_evidence_requirement_id = ''rows'', er_target_estimand_ids = [''mean''],
     er_required_evidence_type_refs = [''evidence:rows''], er_composition = ComposeAll,
     er_minimum_count = None, er_minimum_strength = Descriptive, er_scope_id = ''all'',
     er_exposure_id = None, er_contradiction_policy_ref = ''report'', er_boundary_policy = BoundaryBlock,
     er_allowed_boundary_codes = [], er_linked_falsification_ids = [], er_linked_reversal_ids = []\<rparr>"

definition px_completion :: EpistemicCompletionSpec where
  "px_completion = \<lparr>ec_completion_spec_id = ''done'', ec_target_estimand_ids = [''mean''],
     ec_required_evidence_requirement_ids = [''rows''], ec_success_policy_ref = ''success'',
     ec_degrade_policy_ref = ''degrade'', ec_stop_policy_ref = ''stop''\<rparr>"

definition px_estimand :: EstimandSpec where
  "px_estimand = \<lparr>es_estimand_id = ''mean'', es_claim_target_kind = TargetDefinition,
     es_claim_target_spec = JObj [], es_variable_ids = [], es_event_ids = [], es_population_id = None,
     es_observation_unit_id = None, es_temporal_semantic_id = None, es_estimator_id = None,
     es_exposure_id = None, es_contrast_id = None, es_sequence_id = None, es_cohort_risk_set_id = None,
     es_reconciliation_id = None, es_relationship_id = None, es_eligibility_id = None,
     es_identification_id = None, es_evidence_requirement_ids = [''rows''], es_alternative_ids = [],
     es_sensitivity_ids = [], es_falsification_ids = [], es_reversal_ids = [],
     es_scope_ceiling_id = ''all'', es_claim_strength_ceiling = Descriptive\<rparr>"

definition px_design :: DesignView where
  "px_design = \<lparr>md_scopes = [\<lparr>sc_scope_id = ''all'', sc_time_window_rule_ids = [''week'']\<rparr>],
     md_evidence_requirements = [px_requirement], md_completion_specs = [px_completion],
     md_estimands = [px_estimand]\<rparr>"

definition ex_frame :: FrameView where
  "ex_frame = \<lparr>fr_frame_revision_id = ''frame'', fr_case_id = ''case'',
     fr_question_revision_id = ''question'', fr_revision_number = 1, fr_prior_frame_revision_id = None,
     fr_created_by_action_id = ''act'', fr_decision_record_ids = [],
     fr_measurement_design = JObj [(''grain'', JStr ''day'')], fr_design = px_design,
     fr_semantic_measurement_ids = [ex_sha CHR ''1''], fr_authority_binding_ids = [ex_sha CHR ''2''],
     fr_content_sha256 = ex_sha CHR ''f''\<rparr>"

section \<open>The resolution, the obligation and the proposal\<close>

definition px_derivation :: MeasurementDerivationAuthority where
  "px_derivation = \<lparr>da_case_id = ''case'', da_mailbox_authority_epoch = 1,
     da_question_revision_id = ''question'', da_frame_revision_id = ''frame''\<rparr>"

definition px_instance :: ResolvedInstanceView where
  "px_instance = \<lparr>ri_resolution_id = ex_sha CHR ''3'', ri_frame_revision_id = ''frame'',
     ri_estimand_id = ''mean'', ri_semantic_measurement_id = ex_sha CHR ''1'',
     ri_authority_binding_id = ex_sha CHR ''2'', ri_window_rule_ids = [''week''], ri_content = JObj []\<rparr>"

definition px_outcome :: MeasurementResolutionOutcome where
  "px_outcome = \<lparr>mo_resolution_outcome_id = ex_sha CHR ''4'', mo_case_id = ''case'',
     mo_question_revision_id = ''question'', mo_frame_revision_id = ''frame'', mo_estimand_id = ''mean'',
     mo_semantic_measurement_id = ex_sha CHR ''1'', mo_authority_binding_id = ex_sha CHR ''2'',
     mo_derivation_authority = px_derivation, mo_kind = ResolvedInstance,
     mo_resolved_instance = Some px_instance, mo_boundary = None, mo_requirement_boundaries = [],
     mo_created_at = Aware 7, mo_schema_epoch = schema_epoch\<rparr>"

definition px_admission :: MeasurementResolutionAdmission where
  "px_admission = \<lparr>ma_resolution_outcome_id = ex_sha CHR ''4'', ma_frame_revision_id = ''frame'',
     ma_estimand_id = ''mean'', ma_registry_content_sha256 = ex_sha CHR ''5'',
     ma_resolver_input_bundle_sha256 = ex_sha CHR ''6'', ma_resolution_context_sha256 = ex_sha CHR ''7'',
     ma_issuer_ref = ''issuer'', ma_issuer_signature_hex = replicate 128 CHR ''0''\<rparr>"

definition px_obligation :: ResolvedEvidenceObligation where
  "px_obligation = \<lparr>ro_obligation_id = ex_sha CHR ''8'', ro_case_id = ''case'',
     ro_frame_revision_id = ''frame'', ro_estimand_id = ''mean'', ro_evidence_requirement_id = ''rows'',
     ro_evidence_requirement_sha256 = evidence_requirement_sha256 px_requirement,
     ro_evidence_type_refs = [''evidence:rows''], ro_resolution_outcome_id = ex_sha CHR ''4'',
     ro_derivation_authority = px_derivation, ro_execution_disposition = DispExecutable,
     ro_boundary_code = None, ro_closure_definition_sha256 = ex_sha CHR ''9'',
     ro_field_derivation_proof_sha256 = ex_sha CHR ''a'', ro_created_at = Aware 7,
     ro_schema_epoch = schema_epoch\<rparr>"

definition px_authority :: AuthoritySnapshot where
  "px_authority = \<lparr>au_case_id = ''case'', au_head_version = 2, au_mailbox_authority_epoch = 1,
     au_question_revision_id = Some ''question'', au_frame_revision_id = Some ''frame'',
     au_plan_revision_id = None, au_candidate_generation = 1,
     au_candidate_sha256 = Some (ex_sha CHR ''f''), au_obligation_state_version = 1,
     au_evidence_admission_state_version = 0, au_contradiction_state_version = 0\<rparr>"

definition px_case :: InvestigationCase where
  "px_case = \<lparr>ic_case_id = ''case'', ic_thread_id = ''thread'', ic_lifecycle = CaseOpen,
     ic_head_version = 2, ic_question_revision_id = Some ''question'',
     ic_frame_revision_id = Some ''frame'', ic_plan_revision_id = None, ic_answer_version_id = None,
     ic_analysis_cycle_id = ''cycle'', ic_opened_at = Aware 0, ic_updated_at = Aware 6\<rparr>"

definition px_task :: ProposedWorkTask where
  "px_task = \<lparr>pt_proposal_task_key = ''measure'', pt_business_purpose = ''count the rows'',
     pt_capability_intent_ref = capability_intent_prefix @ ''measurement-evidence.v1'',
     pt_obligation_ids = [ex_sha CHR ''8''], pt_depends_on_task_keys = []\<rparr>"

definition px_proposal :: "string \<Rightarrow> PlanProposal" where
  "px_proposal plan = \<lparr>pp_tasks = [px_task], pp_plan_revision_id = plan, pp_revision_number = 1,
     pp_prior_plan_revision_id = None, pp_created_by_action_id = ''act'', pp_created_at = Aware 8,
     pp_revision_reason = ''first''\<rparr>"

abbreviation px_inputs :: plan_inputs where
  "px_inputs \<equiv> ([px_outcome], [px_admission], [px_obligation])"

lemmas px_defs = px_requirement_def px_completion_def px_estimand_def px_design_def ex_frame_def
  px_derivation_def px_instance_def px_outcome_def px_admission_def px_obligation_def px_authority_def
  px_task_def px_proposal_def

section \<open>The run\<close>

lemma px_fields [simp]:
  "md_estimands (fr_design ex_frame) = [px_estimand]"
  "md_evidence_requirements (fr_design ex_frame) = [px_requirement]"
  "md_completion_specs (fr_design ex_frame) = [px_completion]"
  "es_estimand_id px_estimand = ''mean''" "es_evidence_requirement_ids px_estimand = [''rows'']"
  "er_evidence_requirement_id px_requirement = ''rows''"
  "er_required_evidence_type_refs px_requirement = [''evidence:rows'']"
  "fr_case_id ex_frame = ''case''" "fr_question_revision_id ex_frame = ''question''"
  "fr_frame_revision_id ex_frame = ''frame''" "fr_content_sha256 ex_frame = ex_sha CHR ''f''"
  "fr_semantic_measurement_ids ex_frame = [ex_sha CHR ''1'']"
  "fr_authority_binding_ids ex_frame = [ex_sha CHR ''2'']"
  by (simp_all add: px_defs)

lemma px_outcome_fields [simp]:
  "mo_resolution_outcome_id px_outcome = ex_sha CHR ''4''" "mo_case_id px_outcome = ''case''"
  "mo_question_revision_id px_outcome = ''question''" "mo_frame_revision_id px_outcome = ''frame''"
  "mo_estimand_id px_outcome = ''mean''" "mo_semantic_measurement_id px_outcome = ex_sha CHR ''1''"
  "mo_authority_binding_id px_outcome = ex_sha CHR ''2''"
  "mo_derivation_authority px_outcome = px_derivation" "mo_kind px_outcome = ResolvedInstance"
  "mo_resolved_instance px_outcome = Some px_instance"
  "ma_resolution_outcome_id px_admission = ex_sha CHR ''4''"
  "ma_frame_revision_id px_admission = ''frame''" "ma_estimand_id px_admission = ''mean''"
  "ma_registry_content_sha256 px_admission = ex_sha CHR ''5''"
  "ma_resolver_input_bundle_sha256 px_admission = ex_sha CHR ''6''"
  "ma_resolution_context_sha256 px_admission = ex_sha CHR ''7''"
  by (simp_all add: px_outcome_def px_admission_def)

lemma px_obligation_fields [simp]:
  "ro_obligation_id px_obligation = ex_sha CHR ''8''" "ro_case_id px_obligation = ''case''"
  "ro_frame_revision_id px_obligation = ''frame''" "ro_estimand_id px_obligation = ''mean''"
  "ro_evidence_requirement_id px_obligation = ''rows''"
  "ro_evidence_requirement_sha256 px_obligation = evidence_requirement_sha256 px_requirement"
  "ro_evidence_type_refs px_obligation = [''evidence:rows'']"
  "ro_resolution_outcome_id px_obligation = ex_sha CHR ''4''"
  "ro_derivation_authority px_obligation = px_derivation"
  "ro_execution_disposition px_obligation = DispExecutable"
  by (simp_all add: px_obligation_def)

lemma px_task_fields [simp]:
  "pt_proposal_task_key px_task = ''measure''" "pt_business_purpose px_task = ''count the rows''"
  "pt_capability_intent_ref px_task = capability_intent_prefix @ ''measurement-evidence.v1''"
  "pt_obligation_ids px_task = [ex_sha CHR ''8'']" "pt_depends_on_task_keys px_task = []"
  "pp_tasks (px_proposal plan) = [px_task]" "pp_plan_revision_id (px_proposal plan) = plan"
  "pp_revision_number (px_proposal plan) = 1" "pp_prior_plan_revision_id (px_proposal plan) = None"
  "pp_created_by_action_id (px_proposal plan) = ''act''" "pp_created_at (px_proposal plan) = Aware 8"
  "pp_revision_reason (px_proposal plan) = ''first''"
  by (simp_all add: px_task_def px_proposal_def)

declare sha_nonempty [simp]

lemma px_derived: "derivation_of_snapshot px_authority = Inr px_derivation"
proof -
  have "check_derivation_authority px_derivation = Inr ()"
    by (simp add: check_derivation_authority_def px_derivation_def nonempty_def blank_def)
  then show ?thesis
    by (simp add: derivation_of_snapshot_def px_authority_def px_derivation_def construct_def)
qed

lemma px_task_ok: "check_proposed_task px_task = Inr ()"
  by (simp add: check_proposed_task_def registered_capability_intent_refs_def
      capability_intent_registry_def capability_intent_contracts_def check_unique_nonempty_def
      capability_intent_prefix_def sha_nonempty)
     (simp add: nonempty_def blank_def)

lemmas px_run = item_def map_of_dict_of checks.simps require_def

lemma px_inputs_ok: "validate_measurement_inputs ex_frame px_authority px_inputs = Inr px_inputs"
  by (simp add: validate_measurement_inputs_def order_outcomes_def order_admissions_def index_by_def
      px_run zip_strict_def px_derived check_outcome_authority_def order_obligations_def
      obligation_slot_def expected_slots_def requirements_by_id_def subscript_slot_def
      check_obligation_authority_def)

lemma px_proposed_ok: "validate_proposed_tasks [px_task] [px_obligation] ex_frame = Inr ()"
proof -
  have "get_capability_intent capability_intent_registry (capability_intent_prefix @ ''measurement-evidence.v1'') =
      Inr (hd capability_intent_contracts)"
    by (simp add: get_capability_intent_def capability_intent_registry_def capability_intent_contracts_def)
  then have "check_intent ex_frame (obligations_by_id [px_obligation]) px_task = Inr ()"
    by (simp add: check_intent_def check_intent_obligation_def obligations_by_id_def px_run
        capability_intent_contracts_def)
  then show ?thesis
    by (simp add: validate_proposed_tasks_def assert_acyclic_def px_run dict_of_def)
qed

text \<open>What the compiler builds.\<close>

definition px_work_task :: "string \<Rightarrow> WorkTask" where
  "px_work_task plan = \<lparr>wt_task_id = work_task_id plan ''measure'', wt_proposal_task_key = ''measure'',
     wt_business_purpose = ''count the rows'',
     wt_capability_intent_ref = capability_intent_prefix @ ''measurement-evidence.v1'',
     wt_target_estimand_ids = [''mean''], wt_obligation_ids = [ex_sha CHR ''8''],
     wt_query_binding_ids = [query_binding_id plan (work_task_id plan ''measure'') px_obligation],
     wt_completion_spec_ids = [''done''], wt_success_policy_refs = [''success''],
     wt_degrade_policy_refs = [''degrade''], wt_stop_policy_refs = [''stop''], wt_depends_on_task_ids = []\<rparr>"

definition px_plan :: "string \<Rightarrow> WorkPlanRevision" where
  "px_plan plan = \<lparr>wp_plan_revision_id = plan, wp_case_id = ''case'', wp_frame_revision_id = ''frame'',
     wp_revision_number = 1, wp_prior_plan_revision_id = None, wp_created_by_action_id = ''act'',
     wp_created_at = Aware 8, wp_revision_reason = ''first'',
     wp_resolution_outcome_ids = [ex_sha CHR ''4''], wp_tasks = [px_work_task plan]\<rparr>"

lemma built_ids [simp]: "is_sha256 (work_task_id p k)" "is_sha256 (query_binding_id p t b)"
  by (simp_all add: work_task_id_def query_binding_id_def)

lemma px_work_task_ok: "check_work_task (px_work_task plan) = Inr ()"
  by (simp add: check_work_task_def px_work_task_def require_nonempty_members_def
      capability_intent_prefix_def)
     (simp add: nonempty_def blank_def)

lemma px_plan_ok: "nonempty plan \<Longrightarrow> check_work_plan (px_plan plan) = Inr ()"
  by (simp add: check_work_plan_def px_plan_def px_work_task_def require_nonempty_members_def
      check_task_known_def require_acyclic_tasks_def task_dependencies_def assert_acyclic_def)
     (simp add: nonempty_def blank_def)

lemma px_task_run:
  "proposed_binding_ids (px_proposal plan) (obligations_by_id [px_obligation]) =
     Inr [(ex_sha CHR ''8'', query_binding_id plan (work_task_id plan ''measure'') px_obligation)]"
  "compile_task (px_proposal plan)
     [(ex_sha CHR ''8'', query_binding_id plan (work_task_id plan ''measure'') px_obligation)]
     (obligations_by_id [px_obligation]) ex_frame px_task = Inr (px_work_task plan)"
proof -
  show "proposed_binding_ids (px_proposal plan) (obligations_by_id [px_obligation]) =
     Inr [(ex_sha CHR ''8'', query_binding_id plan (work_task_id plan ''measure'') px_obligation)]"
    by (simp add: proposed_binding_ids_def proposed_task_ids_def obligations_by_id_def px_run dict_of_def)
  have "completion_specs_of ex_frame [px_obligation] = [px_completion]"
    by (simp add: completion_specs_of_def px_completion_def)
  then show "compile_task (px_proposal plan)
     [(ex_sha CHR ''8'', query_binding_id plan (work_task_id plan ''measure'') px_obligation)]
     (obligations_by_id [px_obligation]) ex_frame px_task = Inr (px_work_task plan)"
    using px_work_task_ok [of plan]
    by (simp add: compile_task_def build_work_task_def proposed_task_ids_def obligations_by_id_def px_run
        construct_def px_work_task_def px_completion_def ordered_unique_def map_filter_simps)
qed

definition px_binding :: "string \<Rightarrow> QueryBindingEnvelope" where
  "px_binding plan = \<lparr>qb_query_binding_id = query_binding_id plan (work_task_id plan ''measure'') px_obligation,
     qb_case_id = ''case'', qb_question_revision_id = ''question'', qb_frame_revision_id = ''frame'',
     qb_plan_revision_id = plan, qb_task_id = work_task_id plan ''measure'',
     qb_capability_intent_ref = capability_intent_prefix @ ''measurement-evidence.v1'',
     qb_estimand_id = ''mean'', qb_evidence_requirement_id = ''rows'',
     qb_obligation_id = ex_sha CHR ''8'', qb_resolution_outcome_id = ex_sha CHR ''4'',
     qb_semantic_measurement_id = ex_sha CHR ''1'', qb_authority_binding_id = ex_sha CHR ''2'',
     qb_frame_content_sha256 = ex_sha CHR ''f'', qb_plan_content_sha256 = work_plan_sha256 (px_plan plan),
     qb_resolution_outcome_content_sha256 = resolution_outcome_sha256 px_outcome,
     qb_obligation_content_sha256 = obligation_sha256 px_obligation,
     qb_measurement_binding = measurement_binding_of px_estimand,
     qb_requirement_binding = requirement_binding_of px_requirement px_obligation,
     qb_resolved_measurement_instance = px_instance,
     qb_query_binding_policy_version = query_binding_policy_version,
     qb_physical_compiler_contract_ref = gate4_compiler_contract_ref,
     qb_created_at = Aware 8, qb_schema_epoch = schema_epoch\<rparr>"

lemma px_distinct_ids: "ex_sha CHR ''3'' \<noteq> ex_sha CHR ''4''"
  by (simp add: ex_sha_def)

lemma px_binding_ok:
  assumes "nonempty plan"
  shows "check_query_binding (px_binding plan) = Inr ()"
    "check_measurement_binding (measurement_binding_of px_estimand) = Inr ()"
    "check_requirement_binding (requirement_binding_of px_requirement px_obligation) = Inr ()"
proof -
  show "check_query_binding (px_binding plan) = Inr ()"
    using assms
    by (simp add: check_query_binding_def px_binding_def px_instance_def px_distinct_ids
        resolution_outcome_sha256_def capability_intent_prefix_def query_binding_policy_version_def
        gate4_compiler_contract_ref_def)
       (simp add: nonempty_def blank_def)
  show "check_measurement_binding (measurement_binding_of px_estimand) = Inr ()"
    by (simp add: check_measurement_binding_def measurement_binding_of_def px_estimand_def
        check_unique_nonempty_def check_optional_ref_def)
       (simp add: nonempty_def blank_def)?
  show "check_requirement_binding (requirement_binding_of px_requirement px_obligation) = Inr ()"
    by (simp add: check_requirement_binding_def requirement_binding_of_def px_requirement_def
        check_unique_nonempty_def check_optional_ref_def check_minimum_count_def)
       (simp add: nonempty_def blank_def)?
qed

lemma px_binding_run:
  assumes "nonempty plan"
  shows "compile_binding (px_plan plan) ex_frame [px_outcome] (Aware 8) px_obligation = Inr (px_binding plan)"
proof -
  have "task_by_obligation (px_plan plan) = [(ex_sha CHR ''8'', px_work_task plan)]"
    by (simp add: task_by_obligation_def px_plan_def px_work_task_def dict_of_def)
  moreover have "next_item es_estimand_id [px_estimand] ''mean'' = Inr px_estimand"
    "next_item er_evidence_requirement_id [px_requirement] ''rows'' = Inr px_requirement"
    by (simp_all add: next_item_def)
  moreover have "wt_task_id (px_work_task plan) = work_task_id plan ''measure''"
    "wt_capability_intent_ref (px_work_task plan) = capability_intent_prefix @ ''measurement-evidence.v1''"
    "wp_plan_revision_id (px_plan plan) = plan"
    by (simp_all add: px_work_task_def px_plan_def)
  ultimately show ?thesis
    using px_binding_ok [OF assms]
    by (simp add: compile_binding_def outcomes_by_id_def px_run build_query_binding_def construct_def
        px_binding_def)
qed

definition px_adoption :: "string \<Rightarrow> PlanAdoptionRecord" where
  "px_adoption plan = \<lparr>pd_plan_adoption_id = digest (JObj [(''kind'', JStr ''plan-adoption-record.v1''),
       (''derivation_proof_sha256'', JStr (digest
          (plan_adoption_material px_case px_authority ex_frame (px_plan plan) px_inputs [px_binding plan])))]),
     pd_case_id = ''case'', pd_question_revision_id = ''question'', pd_frame_revision_id = ''frame'',
     pd_plan_revision_id = plan, pd_expected_head_version = 2, pd_authority_snapshot = px_authority,
     pd_authority_snapshot_sha256 = authority_sha256 px_authority,
     pd_frame_content_sha256 = ex_sha CHR ''f'', pd_plan_content_sha256 = work_plan_sha256 (px_plan plan),
     pd_resolution_outcome_ids = [ex_sha CHR ''4''],
     pd_resolution_outcome_content_sha256s = [resolution_outcome_sha256 px_outcome],
     pd_resolution_admission_content_sha256s = [resolution_admission_sha256 px_admission],
     pd_resolution_context_sha256s = [ex_sha CHR ''7''], pd_resolver_input_bundle_sha256s = [ex_sha CHR ''6''],
     pd_resolution_registry_content_sha256s = [ex_sha CHR ''5''],
     pd_obligation_ids = [ex_sha CHR ''8''],
     pd_obligation_content_sha256s = [obligation_sha256 px_obligation],
     pd_query_binding_ids = [query_binding_id plan (work_task_id plan ''measure'') px_obligation],
     pd_query_binding_content_sha256s = [query_binding_sha256 (px_binding plan)],
     pd_capability_intent_registry_version = capability_intent_registry_version,
     pd_capability_intent_registry_sha256 = capability_intent_registry_sha256,
     pd_adoption_policy_version = plan_adoption_policy_version,
     pd_derivation_proof_sha256 = digest
       (plan_adoption_material px_case px_authority ex_frame (px_plan plan) px_inputs [px_binding plan]),
     pd_created_at = Aware 8, pd_schema_epoch = schema_epoch\<rparr>"

definition px_bundle :: "string \<Rightarrow> PlanBundle" where
  "px_bundle plan = \<lparr>bu_plan = px_plan plan, bu_query_bindings = [px_binding plan],
     bu_adoption = px_adoption plan\<rparr>"

lemma px_adoption_ok: "nonempty plan \<Longrightarrow> check_plan_adoption (px_adoption plan) = Inr ()"
  by (simp add: check_plan_adoption_def px_adoption_def require_digest_tuple_def check_unique_nonempty_def
      require_sha256_tuple_def require_same_length_def resolution_outcome_sha256_def
      resolution_admission_sha256_def query_binding_sha256_def authority_sha256_def
      capability_intent_registry_version_def plan_adoption_policy_version_def)
     (simp add: nonempty_def blank_def)

text \<open>The compiler reads no more of the case than its identity, its head and its accepted revisions.\<close>

definition px_head :: "InvestigationCase \<Rightarrow> bool" where
  "px_head c \<longleftrightarrow> ic_case_id c = ''case'' \<and> ic_head_version c = 2 \<and>
     ic_question_revision_id c = Some ''question'' \<and> ic_frame_revision_id c = Some ''frame'' \<and>
     ic_plan_revision_id c = None"

lemma px_assembled:
  assumes "nonempty plan" "px_head c"
  shows "assemble_plan_bundle c px_authority ex_frame px_inputs (px_proposal plan) = Inr (px_bundle plan)"
proof -
  have "plan_adoption_material c px_authority ex_frame (px_plan plan) px_inputs [px_binding plan] =
      plan_adoption_material px_case px_authority ex_frame (px_plan plan) px_inputs [px_binding plan]"
    using assms(2) by (simp add: plan_adoption_material_def px_head_def px_case_def)
  then have "build_plan_adoption c px_authority ex_frame (px_plan plan) px_inputs [px_binding plan] (Aware 8) =
      Inr (px_adoption plan)"
    using px_adoption_ok [OF assms(1)] assms(2)
    by (simp add: build_plan_adoption_def Let_def construct_def px_head_def)
       (simp add: px_adoption_def px_plan_def px_binding_def)
  moreover have "\<lparr>wp_plan_revision_id = plan, wp_case_id = ''case'', wp_frame_revision_id = ''frame'',
     wp_revision_number = 1, wp_prior_plan_revision_id = None, wp_created_by_action_id = ''act'',
     wp_created_at = Aware 8, wp_revision_reason = ''first'',
     wp_resolution_outcome_ids = [ex_sha CHR ''4''], wp_tasks = [px_work_task plan]\<rparr> = px_plan plan"
    by (simp add: px_plan_def)
  ultimately show ?thesis
    using assms px_plan_ok [OF assms(1)]
    by (simp add: assemble_plan_bundle_def px_proposed_ok px_task_run px_binding_run construct_def px_head_def
        px_bundle_def)
qed

lemma px_case_ok: "px_head c \<Longrightarrow> validate_case_and_snapshot c ex_frame px_authority = Inr ()"
  by (simp add: validate_case_and_snapshot_def px_head_def px_authority_def)

lemma px_proposal_ok: "nonempty plan \<Longrightarrow> px_head c \<Longrightarrow> check_plan_proposal (px_proposal plan) c = Inr ()"
  by (simp add: check_plan_proposal_def px_head_def) (simp add: nonempty_def blank_def)

lemma px_compiled:
  assumes "nonempty plan" "px_head c"
  shows "compile_plan_bundle c px_authority ex_frame px_inputs (px_proposal plan) = Inr (px_bundle plan)"
    "validate_plan_bundle (px_bundle plan) c px_authority ex_frame px_inputs = Inr ()"
proof -
  have t: "\<forall>t \<in> set (pp_tasks (px_proposal plan)). check_proposed_task t = Inr ()" by (simp add: px_task_ok)
  show v: "validate_plan_bundle (px_bundle plan) c px_authority ex_frame px_inputs = Inr ()"
    using compiled_bundle_valid [OF px_case_ok [OF assms(2)] px_inputs_ok px_assembled [OF assms] t] .
  show "compile_plan_bundle c px_authority ex_frame px_inputs (px_proposal plan) = Inr (px_bundle plan)"
    using px_proposal_ok [OF assms] px_case_ok [OF assms(2)] px_inputs_ok px_assembled [OF assms] v
    by (simp add: compile_plan_bundle_def)
qed

section \<open>The properties at work\<close>

lemma px_case_head: "px_head px_case" "nonempty ''plan''" "nonempty ''other''"
  by (simp_all add: px_head_def px_case_def) (simp_all add: nonempty_def blank_def)

theorem compiled_bundle_is_accepted_witness:
  "\<exists>b. compile_plan_bundle px_case px_authority ex_frame px_inputs (px_proposal ''plan'') = Inr b \<and>
     validate_plan_bundle b px_case px_authority ex_frame px_inputs = Inr ()"
proof -
  have "\<forall>t \<in> set (pp_tasks (px_proposal ''plan'')). check_proposed_task t = Inr ()" by (simp add: px_task_ok)
  note C = compiled_bundle_is_accepted [OF this, of px_case px_authority ex_frame px_inputs]
  have "compile_plan_bundle px_case px_authority ex_frame px_inputs (px_proposal ''plan'') =
      Inr (px_bundle ''plan'')"
    using C px_proposal_ok px_case_ok px_inputs_ok px_assembled px_case_head by blast
  then show ?thesis using C by blast
qed

lemma px_slot: "frame_slot ex_frame (''mean'', ''rows'', ''evidence:rows'')"
  by (simp add: frame_slot_def requirements_by_id_def map_of_dict_of)

theorem accepted_bindings_are_sealed_witness:
  "\<exists>q. q \<in> set (bu_query_bindings (px_bundle ''plan'')) \<and>
     q = px_binding ''plan''\<lparr>qb_created_at := qb_created_at q\<rparr>"
  using accepted_bindings_are_sealed [OF px_compiled(2) [OF px_case_head(2,1)]
      px_compiled(2) [OF px_case_head(2,1)] refl, of "px_binding ''plan''"]
  by (simp add: px_bundle_def)

end
