(* ===== verification/StoreAuthorityExamples.thy ===== *)
theory StoreAuthorityExamples imports StoreAuthorityInvariants PlanExamples begin

text \<open>
  A run of the store from an empty table to an accepted frame: a message, the question it asks, the
  candidate that answers it, its review, its proof and its acceptance.
\<close>

declare bindP_readP [simp del]

section \<open>Events of an acceptance\<close>

lemma append_authority_ok:
  assumes "map_of (st_events_by_id s) e = None" "map_of (st_events s) i = Some es"
    and "nonempty i" "nonempty e" "nonempty ref" "\<forall>a. act = Some a \<longrightarrow> nonempty a" "is_aware at"
    and p: "freeze_json payload = Inr fp" "is_object fp" "payload_head_version payload \<ge> 0"
  shows "\<exists>x. append_authority_event_locked i e kind ref act at payload None s = (Inr x, push_event x es s) \<and>
    ev_event_id x = e \<and> ev_case_id x = i"
proof -
  let ?op = "\<lparr>oi_operation_id = py_or act ref, oi_idempotency_key = e, oi_causation_id = py_or act e,
    oi_correlation_id = i, oi_authority_revision = payload_head_version payload,
    oi_payload_sha256 = digest payload\<rparr>"
  let ?d = "\<lparr>ed_case_id = i, ed_event_id = e, ed_event_type = kind, ed_recorded_at = at,
    ed_action_id = act, ed_authority_ref = Some ref, ed_payload = payload,
    ed_customer_projection = Some (JObj [(''business_event'', JStr (event_type_value kind)),
      (''authority_ref'', JStr ref)]), ed_operation = None\<rparr>"
  have o: "py_or act (py_or (Some ref) e) = py_or act ref" "nonempty (py_or act ref)" "nonempty (py_or act e)"
    using assms(4-6) by (auto simp: py_or_def truthy_def nonempty_def)
  have "resolved_operation ?d = Inr ?op"
    using o assms(3,4) p freeze_digest [OF p(1)]
    by (simp add: resolved_operation_def derived_event_operation_def content_sha256_jsonable
        check_operation_def)
  moreover have "\<exists>x. draft_entry ?d ?op (int (length es) + 1) = Inr x"
    using assms(3,4,7) p freeze_digest [OF p(1)]
    by (simp add: draft_entry_def make_event_def bindR_Inr_iff frozen_payload_Inr freeze_object_Inr seq_pairs_def)
  ultimately obtain x where x: "resolved_operation ?d = Inr ?op"
    "draft_entry ?d ?op (int (length es) + 1) = Inr x" by blast
  have "append_event_locked (int (length es) + 1) ?d s = (Inr x, push_event x es s)"
    by (rule append_event_locked_new) (use assms(1,2) x in simp_all)
  then have "append_authority_event_locked i e kind ref act at payload None s = (Inr x, push_event x es s)"
    using assms(2) by (simp add: append_authority_event_locked_def method_reads event_operation_def
        subscript_def bindP_def readP_def)
  moreover have "ev_event_id x = e" "ev_case_id x = i"
    using make_event_fields [OF x(2) [unfolded draft_entry_def]] by simp_all
  ultimately show ?thesis by blast
qed

lemma put_head_run:
  "check_case c = Inr () \<Longrightarrow>
     bindP (put_head c) k s = k c (s\<lparr>st_cases := AList.update (ic_case_id c) c (st_cases s)\<rparr>)"
  by (simp add: bindP_def put_head_def readP_def writeP_def returnP_def)

section \<open>A question\<close>

definition ex_question :: QuestionRevision where
  "ex_question = \<lparr>qr_question_revision_id = ''question'', qr_case_id = ''case'', qr_revision_number = 1,
     qr_prior_question_revision_id = None,
     qr_source_messages = [\<lparr>sm_message_id = ''message'', sm_role = RoleUser, sm_sequence = 1,
       sm_content = ''hello'', sm_content_sha256 = digest (JStr ''hello'')\<rparr>],
     qr_explicit_scope_refs = [], qr_explicit_constraint_refs = [], qr_explicit_correction_refs = [],
     qr_explicit_challenge_refs = [], qr_accepted_clarification_refs = [],
     qr_acceptance_event_id = ''asked'', qr_accepted_head_version = 1, qr_analysis_cycle_id = ''cycle'',
     qr_created_at = Aware 2, qr_schema_epoch = schema_epoch\<rparr>"

definition ex_asked_case :: InvestigationCase where
  "ex_asked_case = (opened_case ''case'' ''thread'' (Aware 0))\<lparr>ic_head_version := 1,
     ic_question_revision_id := Some ''question'', ic_analysis_cycle_id := ''cycle'',
     ic_updated_at := Aware 2\<rparr>"

definition ex_asked :: "EventJournalEntry \<Rightarrow> Store" where
  "ex_asked x = push_event x [opening_event ''case'' ''thread'' ''opened'' (Aware 0)]
     (ex_posted\<lparr>st_questions := [(''question'', ex_question)], st_cases := [(''case'', ex_asked_case)]\<rparr>)"

lemma ex_words [simp]:
  "nonempty ''question''" "nonempty ''asked''" "nonempty ''cycle''" "nonempty ''frame''"
  "nonempty ''act''" "nonempty ''framed''" "nonempty ''candidate''" "nonempty ''review''" "nonempty ''proof''"
  by code_simp+

lemma ex_posted_more [simp]:
  "st_events_by_id ex_posted = [(''opened'', opening_event ''case'' ''thread'' ''opened'' (Aware 0))]"
  "st_mailbox_messages ex_posted = [(''message'', ex_message)]"
  "st_questions ex_posted = []" "st_frames ex_posted = []" "st_frame_candidates ex_posted = []"
  "st_active_frame_candidate_ids ex_posted = []" "st_frame_reviews ex_posted = []"
  "st_objection_closures ex_posted = []" "st_frame_admission_proofs ex_posted = []"
  "st_frame_admission_proof_by_frame ex_posted = []" "st_evidence_cases ex_posted = []"
  "st_evidence_obligations ex_posted = []" "st_obligation_satisfaction ex_posted = []"
  "st_evidence_validity ex_posted = []" "st_objection_cases ex_posted = []"
  by (simp_all add: ex_posted_def ex_store_simps)

lemma ex_ask:
  "\<exists>x. accept_question text_of ex_question 0 ''asked'' (Aware 2) None ex_posted =
     (Inr ex_asked_case, ex_asked x) \<and> ev_event_id x = ''asked'' \<and> ev_case_id x = ''case''"
proof -
  let ?s = "ex_posted\<lparr>st_questions := [(''question'', ex_question)], st_cases := [(''case'', ex_asked_case)]\<rparr>"
  let ?p = "JObj [(''revision_number'', JInt 1), (''content_sha256'', JStr (question_sha256 ex_question)),
    (''analysis_cycle_id'', JStr ''cycle''), (''head_version'', JInt 1)]"
  have fr: "freeze_json ?p = Inr (JObj [(''analysis_cycle_id'', JStr ''cycle''),
      (''content_sha256'', JStr (question_sha256 ex_question)), (''head_version'', JInt 1),
      (''revision_number'', JInt 1)])"
    by (simp add: seq_pairs_def)
  obtain x where x: "append_authority_event_locked ''case'' ''asked'' EvQuestionAccepted ''question'' None
      (Aware 2) ?p None ?s = (Inr x, ex_asked x)" "ev_event_id x = ''asked''" "ev_case_id x = ''case''"
    using append_authority_ok [of ?s "''asked''" "''case''" "[opening_event ''case'' ''thread'' ''opened'' (Aware 0)]"
        "''question''" None "Aware 2" ?p _ EvQuestionAccepted, OF _ _ _ _ _ _ _ fr]
    by (auto simp: ex_asked_def payload_head_version_def)
  have e: "bindP (append_authority_event_locked ''case'' ''asked'' EvQuestionAccepted ''question'' None
      (Aware 2) ?p None) k ?s = k x (ex_asked x)"
    for k :: "EventJournalEntry \<Rightarrow> (Store, InvestigationCase) prog"
    using x(1) by (simp add: bindP_def)
  have f: "qr_question_revision_id ex_question = ''question''" "qr_case_id ex_question = ''case''"
    "qr_revision_number ex_question = 1" "qr_prior_question_revision_id ex_question = None"
    "qr_acceptance_event_id ex_question = ''asked''" "qr_accepted_head_version ex_question = 1"
    "qr_analysis_cycle_id ex_question = ''cycle''"
    by (simp_all add: ex_question_def)
  have c: "check_case ex_asked_case = Inr ()"
    by (simp add: check_case_def ex_asked_case_def opened_case_def truthy_def)
  have a: "admit_question text_of ex_posted (opened_case ''case'' ''thread'' (Aware 0)) ex_question ''asked'' = Inr ()"
    by (simp add: admit_question_def f current_revision_def truthy_def opened_case_def)
       (simp add: check_source_def ex_question_def ex_message_def message_text_def ex_payload_def)
  have u: "(opened_case ''case'' ''thread'' (Aware 0))\<lparr>ic_head_version := 1,
     ic_question_revision_id := Some ''question'', ic_frame_revision_id := None,
     ic_plan_revision_id := None, ic_answer_version_id := None, ic_analysis_cycle_id := ''cycle'',
     ic_updated_at := Aware 2\<rparr> = ex_asked_case" "ic_case_id ex_asked_case = ''case''"
     "ic_head_version ex_asked_case = 1"
    by (simp_all add: ex_asked_case_def opened_case_def)
  have "ic_head_version (opened_case ''case'' ''thread'' (Aware 0)) = 0"
    "ic_case_id (opened_case ''case'' ''thread'' (Aware 0)) = ''case''"
    by (simp_all add: opened_case_def)
  then have "accept_question text_of ex_question 0 ''asked'' (Aware 2) None ex_posted = (Inr ex_asked_case, ex_asked x)"
    using a c x(1) u
    by (simp add: accept_question_def idempotent_head_result_def method_reads cas_case_def get_case_def
        get_row_def f put_immutable_def put_head_run e)
  then show ?thesis using x by blast
qed

section \<open>A candidate, its review and its proof\<close>

definition ex_candidate :: FrameCandidateRecord where
  "ex_candidate = \<lparr>fc_frame_candidate_id = ''candidate'', fc_case_id = ''case'',
     fc_message_binding_id = ''binding'', fc_question_revision_id = ''question'',
     fc_proposed_frame_revision_id = ''frame'', fc_proposed_frame_content_sha256 = ex_sha CHR ''f'',
     fc_proposed_frame = ex_frame, fc_candidate_generation = 1, fc_prior_frame_candidate_id = None,
     fc_addressed_objection_ids = [], fc_authority_epoch = 1, fc_source_action_id = ''act'',
     fc_source_operation_id = ''op'', fc_review_job_id = ''job'', fc_created_at = Aware 3\<rparr>"

definition ex_review :: FrameReviewRecord where
  "ex_review = \<lparr>rw_frame_review_id = ''review'', rw_frame_candidate_id = ''candidate'',
     rw_reviewer_job_id = ''job'', rw_authority_epoch = 1, rw_disposition = ReviewAccept,
     rw_objections = [\<lparr>mo_objection_id = ''objection'', mo_code = ''grain'', mo_severity = Advisory,
       mo_affected_node_ids = [''measurement_design.grain''], mo_explanation = ''coarse''\<rparr>],
     rw_closure_proof_refs = [], rw_reviewed_frame_content_sha256 = ex_sha CHR ''f'',
     rw_logical_model_job_id = ''job'', rw_created_at = Aware 4\<rparr>"

definition ex_review_authority :: AuthoritySnapshot where
  "ex_review_authority = \<lparr>au_case_id = ''case'', au_head_version = 1, au_mailbox_authority_epoch = 1,
     au_question_revision_id = Some ''question'', au_frame_revision_id = None, au_plan_revision_id = None,
     au_candidate_generation = 1, au_candidate_sha256 = Some (ex_sha CHR ''f''),
     au_obligation_state_version = 0, au_evidence_admission_state_version = 0,
     au_contradiction_state_version = 0\<rparr>"

definition ex_proof :: "string \<Rightarrow> FrameAdmissionProof" where
  "ex_proof i = \<lparr>fp_frame_admission_proof_id = i, fp_case_id = ''case'',
     fp_frame_candidate_id = ''candidate'', fp_candidate_generation = 1,
     fp_frame_revision_id = ''frame'', fp_frame_content_sha256 = ex_sha CHR ''f'',
     fp_frame_review_id = ''review'', fp_frame_review_content_sha256 = frame_review_sha256 ex_review,
     fp_objection_closure_record_ids = [], fp_authority_snapshot = ex_review_authority,
     fp_authority_snapshot_sha256 = authority_sha256 ex_review_authority, fp_created_at = Aware 5\<rparr>"

definition ex_proposed :: "EventJournalEntry \<Rightarrow> Store" where
  "ex_proposed x = (ex_asked x)\<lparr>st_frame_candidates := [(''candidate'', ex_candidate)],
     st_active_frame_candidate_ids := [(''case'', ''candidate'')]\<rparr>"

definition ex_reviewed :: "EventJournalEntry \<Rightarrow> Store" where
  "ex_reviewed x = (ex_proposed x)\<lparr>st_frame_reviews := [(''review'', ex_review)]\<rparr>"

definition ex_proved :: "EventJournalEntry \<Rightarrow> Store" where
  "ex_proved x = (ex_reviewed x)\<lparr>st_frame_admission_proofs := [(''proof'', ex_proof ''proof'')],
     st_frame_admission_proof_by_frame := [(''frame'', ''proof'')]\<rparr>"

lemmas ex_run = ex_asked_def ex_proposed_def ex_reviewed_def ex_proved_def push_event_def

lemma ex_propose: "record_frame_candidate ex_candidate (ex_asked x) = (Inr ex_candidate, ex_proposed x)"
proof -
  have f: "fc_case_id ex_candidate = ''case''" "fc_question_revision_id ex_candidate = ''question''"
    "fr_question_revision_id (fc_proposed_frame ex_candidate) = ''question''"
    "fc_frame_candidate_id ex_candidate = ''candidate''" "fc_candidate_generation ex_candidate = 1"
    "fc_prior_frame_candidate_id ex_candidate = None"
    by (simp_all add: ex_candidate_def ex_frame_def)
  show ?thesis
    by (simp add: record_frame_candidate_def method_reads get_case_def get_row_def ex_run f
        ex_asked_case_def active_candidate_def admit_replacement_def)
qed

lemma ex_review_run: "record_frame_review ex_review (ex_proposed x) = (Inr ex_review, ex_reviewed x)"
proof -
  have "rw_frame_candidate_id ex_review = ''candidate''" "rw_authority_epoch ex_review = 1"
    "rw_reviewed_frame_content_sha256 ex_review = ex_sha CHR ''f''" "rw_closure_proof_refs ex_review = []"
    "rw_frame_review_id ex_review = ''review''" "fc_case_id ex_candidate = ''case''"
    "fc_frame_candidate_id ex_candidate = ''candidate''"
    "fc_proposed_frame_content_sha256 ex_candidate = ex_sha CHR ''f''"
    by (simp_all add: ex_review_def ex_candidate_def)
  then show ?thesis
    by (simp add: record_frame_review_def method_reads get_row_def ex_run get_mailbox_head_def
        get_case_def subscript_def next_head_def ex_message_def put_idempotent_immutable_def)
qed

lemma ex_review_snapshot:
  assumes "st_cases s = [(''case'', ex_asked_case)]" "st_mailbox_heads s = [(''case'', next_head ex_message)]"
    "st_frame_candidates s = [(''candidate'', ex_candidate)]"
    "st_active_frame_candidate_ids s = [(''case'', ''candidate'')]" "st_evidence_cases s = []"
    "st_evidence_obligations s = []" "st_obligation_satisfaction s = []" "st_evidence_validity s = []"
    "st_objection_cases s = []"
  shows "get_authority_snapshot s ''case'' = Inr ex_review_authority"
proof -
  have "check_authority_snapshot ex_review_authority = Inr ()"
    by (simp add: check_authority_snapshot_def ex_review_authority_def)
  moreover have "fc_candidate_generation ex_candidate = 1"
    "fc_proposed_frame_content_sha256 ex_candidate = ex_sha CHR ''f''"
    by (simp_all add: ex_candidate_def)
  ultimately show ?thesis using assms
    by (simp add: get_authority_snapshot_def get_case_def get_row_def get_mailbox_head_def
        subscript_def active_candidate_def ex_asked_case_def opened_case_def next_head_def
        ex_message_def count_rows_def ex_review_authority_def)
qed

lemma ex_admit_proof:
  assumes "st_cases s = [(''case'', ex_asked_case)]" "st_mailbox_heads s = [(''case'', next_head ex_message)]"
    "st_frame_candidates s = [(''candidate'', ex_candidate)]"
    "st_active_frame_candidate_ids s = [(''case'', ''candidate'')]" "st_evidence_cases s = []"
    "st_evidence_obligations s = []" "st_obligation_satisfaction s = []" "st_evidence_validity s = []"
    "st_objection_cases s = []" "st_frame_reviews s = [(''review'', ex_review)]"
  shows "admit_proof s (ex_proof i) = Inr ()"
proof -
  have "fp_frame_review_content_sha256 (ex_proof i) = frame_review_sha256 ex_review"
    "fp_frame_candidate_id (ex_proof i) = ''candidate''" "fp_frame_review_id (ex_proof i) = ''review''"
    "fp_candidate_generation (ex_proof i) = 1" "fp_frame_revision_id (ex_proof i) = ''frame''"
    "fp_frame_content_sha256 (ex_proof i) = ex_sha CHR ''f''" "fp_case_id (ex_proof i) = ''case''"
    "fp_objection_closure_record_ids (ex_proof i) = []"
    "fp_authority_snapshot (ex_proof i) = ex_review_authority"
    by (simp_all add: ex_proof_def)
  moreover have "rw_frame_candidate_id ex_review = ''candidate''" "rw_disposition ex_review = ReviewAccept"
    "\<forall>b \<in> set (rw_objections ex_review). \<not> objection_blocks b"
    by (simp_all add: ex_review_def objection_blocks_def)
  moreover have "fc_frame_candidate_id ex_candidate = ''candidate''" "fc_candidate_generation ex_candidate = 1"
    "fc_proposed_frame_revision_id ex_candidate = ''frame''" "fc_addressed_objection_ids ex_candidate = []"
    "fc_proposed_frame_content_sha256 ex_candidate = ex_sha CHR ''f''"
    by (simp_all add: ex_candidate_def)
  ultimately show ?thesis using assms ex_review_snapshot [OF assms(1-9)]
    by (simp add: admit_proof_def get_row_def)
qed

lemma ex_prove:
  "record_frame_admission_proof (ex_proof ''proof'') (ex_reviewed x) = (Inr (ex_proof ''proof''), ex_proved x)"
proof -
  have "admit_proof (ex_reviewed x) (ex_proof ''proof'') = Inr ()"
    by (rule ex_admit_proof) (simp_all add: ex_run)
  moreover have "fp_frame_admission_proof_id (ex_proof ''proof'') = ''proof''"
    "fp_frame_revision_id (ex_proof ''proof'') = ''frame''"
    by (simp_all add: ex_proof_def)
  ultimately show ?thesis
    by (simp add: record_frame_admission_proof_def method_reads put_idempotent_immutable_def)
       (simp add: ex_run)
qed

section \<open>The accepted frame\<close>

definition ex_framed_case :: InvestigationCase where
  "ex_framed_case = ex_asked_case\<lparr>ic_head_version := 2, ic_frame_revision_id := Some ''frame'',
     ic_updated_at := Aware 6\<rparr>"

definition ex_framed :: "EventJournalEntry \<Rightarrow> EventJournalEntry \<Rightarrow> Store" where
  "ex_framed x y = push_event y [opening_event ''case'' ''thread'' ''opened'' (Aware 0), x]
     ((ex_proved x)\<lparr>st_frames := [(''frame'', ex_frame)], st_cases := [(''case'', ex_framed_case)]\<rparr>)"

lemma ex_accept:
  assumes "ev_event_id x = ''asked''" "ev_case_id x = ''case''"
  shows "\<exists>y. accept_frame (\<lambda>_ _. Inr ()) ex_frame ''proof'' 1 ''framed'' (Aware 6) None (ex_proved x) =
     (Inr ex_framed_case, ex_framed x y) \<and> ev_event_id y = ''framed'' \<and> ev_case_id y = ''case''"
proof -
  let ?s = "(ex_proved x)\<lparr>st_frames := [(''frame'', ex_frame)], st_cases := [(''case'', ex_framed_case)]\<rparr>"
  let ?p = "JObj [(''revision_number'', JInt 1), (''content_sha256'', JStr (ex_sha CHR ''f'')),
    (''head_version'', JInt 2)]"
  have fr: "freeze_json ?p = Inr (JObj [(''content_sha256'', JStr (ex_sha CHR ''f'')),
      (''head_version'', JInt 2), (''revision_number'', JInt 1)])"
    by (simp add: seq_pairs_def)
  have rows: "st_events ?s = [(''case'', [opening_event ''case'' ''thread'' ''opened'' (Aware 0), x])]"
    "st_events_by_id ?s = [(''opened'', opening_event ''case'' ''thread'' ''opened'' (Aware 0)), (''asked'', x)]"
    using assms by (simp_all add: ex_run)
  obtain y where "append_authority_event_locked ''case'' ''framed'' EvFrameAccepted ''frame'' (Some ''act'')
      (Aware 6) ?p None ?s = (Inr y, ex_framed x y)" "ev_event_id y = ''framed''" "ev_case_id y = ''case''"
    using append_authority_ok [of ?s "''framed''" "''case''"
        "[opening_event ''case'' ''thread'' ''opened'' (Aware 0), x]" "''frame''" "Some ''act''" "Aware 6"
        ?p _ EvFrameAccepted, OF _ _ _ _ _ _ _ fr]
    by (auto simp: rows ex_framed_def payload_head_version_def)
  note y = this
  have e: "bindP (append_authority_event_locked ''case'' ''framed'' EvFrameAccepted ''frame''
      (Some ''act'') (Aware 6) ?p None) k ?s = k y (ex_framed x y)"
    for k :: "EventJournalEntry \<Rightarrow> (Store, InvestigationCase) prog"
    using y(1) by (simp add: bindP_def)
  have f: "fr_frame_revision_id ex_frame = ''frame''" "fr_case_id ex_frame = ''case''"
    "fr_question_revision_id ex_frame = ''question''" "fr_revision_number ex_frame = 1"
    "fr_prior_frame_revision_id ex_frame = None" "fr_created_by_action_id ex_frame = ''act''"
    "fr_decision_record_ids ex_frame = []" "fr_content_sha256 ex_frame = ex_sha CHR ''f''"
    by (simp_all add: ex_frame_def)
  have p: "fp_case_id (ex_proof ''proof'') = ''case''" "fp_frame_revision_id (ex_proof ''proof'') = ''frame''"
    "fp_frame_content_sha256 (ex_proof ''proof'') = ex_sha CHR ''f''"
    "fp_authority_snapshot (ex_proof ''proof'') = ex_review_authority"
    by (simp_all add: ex_proof_def)
  have c: "ic_head_version ex_asked_case = 1" "ic_case_id ex_asked_case = ''case''"
    "ic_question_revision_id ex_asked_case = Some ''question''" "ic_frame_revision_id ex_asked_case = None"
    "ex_asked_case\<lparr>ic_head_version := 2, ic_frame_revision_id := Some ''frame'', ic_plan_revision_id := None,
       ic_answer_version_id := None, ic_updated_at := Aware 6\<rparr> = ex_framed_case"
    "ic_case_id ex_framed_case = ''case''" "ic_head_version ex_framed_case = 2"
    by (simp_all add: ex_asked_case_def ex_framed_case_def opened_case_def)
  have ok: "check_case ex_framed_case = Inr ()"
    by (simp add: check_case_def ex_framed_case_def ex_asked_case_def opened_case_def truthy_def)
  have a: "get_authority_snapshot (ex_proved x) ''case'' = Inr ex_review_authority"
    by (rule ex_review_snapshot) (simp_all add: ex_run)
  have t: "st_cases (ex_proved x) = [(''case'', ex_asked_case)]" "st_frames (ex_proved x) = []"
    "st_questions (ex_proved x) = [(''question'', ex_question)]"
    "st_frame_admission_proofs (ex_proved x) = [(''proof'', ex_proof ''proof'')]"
    "map_of (st_events_by_id (ex_proved x)) ''framed'' = None"
    using assms by (simp_all add: ex_run)
  have "admit_frame (\<lambda>_ _. Inr ()) (ex_proved x) ex_asked_case ex_frame ''proof'' = Inr ()"
    by (simp add: admit_frame_def get_row_def t f p a c current_revision_def truthy_def get_question_def)
  then have "accept_frame (\<lambda>_ _. Inr ()) ex_frame ''proof'' 1 ''framed'' (Aware 6) None (ex_proved x) =
     (Inr ex_framed_case, ex_framed x y)"
    using ok e c by (simp add: accept_frame_def idempotent_head_result_def method_reads cas_case_def
        get_case_def get_row_def t f put_immutable_def put_head_run)
  then show ?thesis using y(2,3) by blast
qed

lemma ex_framed_reachable:
  "\<exists>x y. reachable (ex_proved x) \<and> ev_event_id x = ''asked'' \<and> ev_case_id x = ''case'' \<and>
     accept_frame (\<lambda>_ _. Inr ()) ex_frame ''proof'' 1 ''framed'' (Aware 6) None (ex_proved x) =
       (Inr ex_framed_case, ex_framed x y) \<and> reachable (ex_framed x y)"
proof -
  obtain x where x: "accept_question (\<lambda>_. '''') ex_question 0 ''asked'' (Aware 2) None ex_posted =
     (Inr ex_asked_case, ex_asked x)" "ev_event_id x = ''asked''" "ev_case_id x = ''case''"
    using ex_ask by blast
  obtain y where y: "accept_frame (\<lambda>_ _. Inr ()) ex_frame ''proof'' 1 ''framed'' (Aware 6) None (ex_proved x) =
     (Inr ex_framed_case, ex_framed x y)"
    using ex_accept x by blast
  have "reachable (ex_asked x)"
    using reachable_step [OF ex_posted_reachable store_step.intros(38)
        [OF reachable_keyed [OF ex_posted_reachable] x(1)]] .
  then have "reachable (ex_reviewed x)"
    using reachable_step [OF reachable_step [OF _ store_step.intros(33) [OF ex_propose]]
        store_step.intros(36) [OF ex_review_run]] by blast
  then have p: "reachable (ex_proved x)"
    using reachable_step [OF _ store_step.intros(37) [OF ex_prove]] by blast
  then have "reachable (ex_framed x y)"
    using reachable_step [OF p store_step.intros(39) [OF reachable_keyed [OF p] y]] by blast
  then show ?thesis using x y p by blast
qed

end
