(* ===== verification/StoreAuthorityProperties.thy ===== *)
theory StoreAuthorityProperties imports StoreAuthorityExamples begin

text \<open>
  What the store promises about accepted authority: the heads of cases, the review behind an
  accepted frame, and the effect of an acceptance.
\<close>

section \<open>Heads\<close>

text \<open>
  C3: The head of a case names stored authority that belongs together.  Whatever calls were made, the
  accepted question of a case is on record and the case's own, its accepted frame answers that
  question, and its accepted plan works that frame.
\<close>

theorem heads_are_bound:
  assumes "reachable s" "get_case s i = Inr c"
  shows "ic_case_id c = i \<and>
    (\<forall>j. ic_question_revision_id c = Some j \<longrightarrow> (\<exists>q. get_question s j = Inr q \<and>
       qr_question_revision_id q = j \<and> qr_case_id q = i)) \<and>
    (\<forall>j. ic_frame_revision_id c = Some j \<longrightarrow> (\<exists>f. get_frame s j = Inr f \<and>
       fr_frame_revision_id f = j \<and> fr_case_id f = i \<and>
       ic_question_revision_id c = Some (fr_question_revision_id f))) \<and>
    (\<forall>j. ic_plan_revision_id c = Some j \<longrightarrow> (\<exists>p. get_plan s j = Inr p \<and>
       wp_plan_revision_id p = j \<and> wp_case_id p = i \<and>
       ic_frame_revision_id c = Some (wp_frame_revision_id p)))"
proof -
  have c: "ic_case_id c = i" "question_bound s c" "frame_bound s c" "plan_bound s c"
    using reachable_authority(1) [OF assms(1)] assms(2)
    by (auto simp: heads_ok_def head_bound_def get_case_def)
  then show ?thesis
    unfolding question_bound_def frame_bound_def plan_bound_def get_question_def get_frame_def
      get_plan_def get_row_Inr by metis
qed

theorem heads_are_bound_witness:
  "\<exists>s c f. get_case s ''case'' = Inr c \<and> ic_frame_revision_id c = Some ''frame'' \<and>
     get_frame s ''frame'' = Inr f \<and> fr_case_id f = ''case'' \<and>
     ic_question_revision_id c = Some (fr_question_revision_id f)"
proof -
  obtain x y where r: "reachable (ex_framed x y)" using ex_framed_reachable by blast
  have c: "get_case (ex_framed x y) ''case'' = Inr ex_framed_case"
    by (simp add: get_case_def get_row_def ex_framed_def push_event_def)
  have "ic_frame_revision_id ex_framed_case = Some ''frame''" by (simp add: ex_framed_case_def)
  with heads_are_bound [OF r c] c show ?thesis by blast
qed

section \<open>The review behind a frame\<close>

text \<open>
  C2: No frame is accepted unreviewed.  Behind the accepted frame of a case, in every state the store
  reaches, stand a candidate that proposed this frame with this content and a review of that
  candidate that accepts it and has no blocking objection; and every objection the candidate set out
  to answer has a closure that names the nodes at which the two designs differ.
\<close>

theorem accepted_frame_was_reviewed:
  assumes "reachable s" "get_case s i = Inr c" "ic_frame_revision_id c = Some j" "get_frame s j = Inr f"
  shows "\<exists>k a m r. get_frame_candidate s k = Inr a \<and> fc_proposed_frame_revision_id a = j \<and>
      fc_proposed_frame_content_sha256 a = fr_content_sha256 f \<and>
      get_frame_review s m = Inr r \<and> rw_frame_candidate_id r = fc_frame_candidate_id a \<and>
      rw_disposition r = ReviewAccept \<and> (\<forall>b \<in> set (rw_objections r). \<not> objection_blocks b) \<and>
      (\<forall>o' \<in> set (fc_addressed_objection_ids a). \<exists>n x. get_objection_closure s n = Inr x \<and>
         ol_objection_id x = o' \<and> ol_replacement_frame_candidate_id x = fc_frame_candidate_id a \<and>
         closure_admitted s x)"
proof -
  have b: "frame_bound s c"
    using reachable_authority(1) [OF assms(1)] assms(2)
    by (auto simp: heads_ok_def head_bound_def get_case_def)
  then obtain n p where p: "map_of (st_frame_admission_proofs s) n = Some p"
    "fp_frame_revision_id p = j" "fp_frame_content_sha256 p = fr_content_sha256 f"
    using assms(3,4) by (auto simp: frame_bound_def get_frame_def)
  note ok = reachable_authority(2) [OF assms(1)]
  have closed: "map_of (st_objection_closures s) k = Some x \<Longrightarrow> closure_admitted s x" for k x
    using ok unfolding reviews_ok_def by blast
  have "proof_admitted s p" using ok p(1) unfolding reviews_ok_def by blast
  then show ?thesis
    unfolding proof_admitted_def get_frame_candidate_def get_frame_review_def
      get_objection_closure_def get_row_Inr using p(2,3) closed by metis
qed

theorem accepted_frame_was_reviewed_witness:
  "\<exists>s c f k a m r. get_case s ''case'' = Inr c \<and> ic_frame_revision_id c = Some ''frame'' \<and>
     get_frame s ''frame'' = Inr f \<and> get_frame_candidate s k = Inr a \<and>
     fc_proposed_frame_content_sha256 a = fr_content_sha256 f \<and> get_frame_review s m = Inr r \<and>
     rw_frame_candidate_id r = fc_frame_candidate_id a \<and> rw_disposition r = ReviewAccept"
proof -
  obtain x y where r: "reachable (ex_framed x y)" using ex_framed_reachable by blast
  have c: "get_case (ex_framed x y) ''case'' = Inr ex_framed_case"
    "get_frame (ex_framed x y) ''frame'' = Inr ex_frame"
    by (simp_all add: get_case_def get_frame_def get_row_def ex_framed_def push_event_def)
  have i: "ic_frame_revision_id ex_framed_case = Some ''frame''" by (simp add: ex_framed_case_def)
  from accepted_frame_was_reviewed [OF r c(1) i c(2)] c i show ?thesis by blast
qed

section \<open>The effect of an acceptance\<close>

text \<open>
  The answer to a stale request: a new event is refused with StaleHead; an event on record is answered
  from the journal whatever version the request names, with the case if the event is this acceptance
  and with AuthorityConflict otherwise.
\<close>

definition stale_answer ::
    "Store \<Rightarrow> InvestigationCase \<Rightarrow> string \<Rightarrow> JournalEventType \<Rightarrow> string \<Rightarrow> string \<Rightarrow>
     InvestigationCase result \<Rightarrow> bool" where
  "stale_answer s c e kind ref i r \<longleftrightarrow>
     (case map_of (st_events_by_id s) e of
        None \<Rightarrow> \<exists>m. r = Inl (StaleHead m)
      | Some x \<Rightarrow> r = (if ev_event_type x = kind \<and> ev_authority_ref x = Some ref \<and> ev_case_id x = i
          then Inr c else Inl (AuthorityConflict ''event ID already has different content'')))"

text \<open>
  C39: An acceptance is a compare-and-set on the head of the case.  A question, a frame or a plan
  presented with another head version than the case has leaves the store as it was.  Under a new event
  it is refused with StaleHead.  Under an event on record the version is not looked at: a question or a
  frame that this event accepted returns the case, a plan is compared with the one on record
  (\<open>replay_plan_event\<close>), and any other use of the event is refused with AuthorityConflict.
\<close>

theorem stale_acceptance_is_refused:
  assumes "get_case s i = Inr c" "ic_head_version c \<noteq> n"
  shows "(qr_case_id q = i \<longrightarrow> (\<exists>r. accept_question text_of q n e at op s = (r, s) \<and>
         stale_answer s c e EvQuestionAccepted (qr_question_revision_id q) i r)) \<and>
     (fr_case_id f = i \<longrightarrow> (\<exists>r. accept_frame vf f pid n e at op s = (r, s) \<and>
         stale_answer s c e EvFrameAccepted (fr_frame_revision_id f) i r)) \<and>
     (wp_case_id (bu_plan b) = i \<longrightarrow> (\<exists>r. accept_plan_bundle b n e at op s = (r, s) \<and>
         (case map_of (st_events_by_id s) e of None \<Rightarrow> \<exists>m. r = Inl (StaleHead m)
          | Some x \<Rightarrow> r = replay_plan_event s b x op \<and>
              (\<not> (ev_event_type x = EvPlanAccepted \<and> ev_case_id x = i \<and>
                  ev_authority_ref x = Some (wp_plan_revision_id (bu_plan b))) \<longrightarrow>
               r = Inl (AuthorityConflict ''event ID already has different content'')))))"
proof -
  have "\<exists>m. cas_case s i n = Inl (StaleHead m)" using assms by (simp add: cas_case_def)
  then show ?thesis using assms(1)
    by (cases "map_of (st_events_by_id s) e")
      (auto simp: accept_question_def accept_frame_def accept_plan_bundle_def accept_plan_body_def
        atomic_def idempotent_head_result_def method_reads Let_def bindP_def readP_def returnP_def
        stale_answer_def replay_plan_event_def split: sum.splits)
qed

theorem stale_acceptance_is_refused_witness:
  "\<exists>m. accept_question (\<lambda>_. '''') ex_question 7 ''asked'' (Aware 2) None ex_posted =
     (Inl (StaleHead m), ex_posted)"
proof -
  let ?c = "opened_case ''case'' ''thread'' (Aware 0)"
  have c: "get_case ex_posted ''case'' = Inr ?c" by (simp add: get_case_def get_row_def)
  have v: "ic_head_version ?c \<noteq> 7" by (simp add: opened_case_def)
  have "\<exists>r. accept_question (\<lambda>_. '''') ex_question 7 ''asked'' (Aware 2) None ex_posted = (r, ex_posted) \<and>
      stale_answer ex_posted ?c ''asked'' EvQuestionAccepted (qr_question_revision_id ex_question) ''case'' r"
    by (rule conjunct1 [OF stale_acceptance_is_refused [OF c v], THEN mp]) (simp add: ex_question_def)
  moreover have "map_of (st_events_by_id ex_posted) ''asked'' = None" by simp
  ultimately show ?thesis by (auto simp: stale_answer_def)
qed

lemma put_head_Inr:
  "put_head c s = (Inr u, t) \<longleftrightarrow> check_case c = Inr () \<and> u = c \<and>
     t = s\<lparr>st_cases := AList.update (ic_case_id c) c (st_cases s)\<rparr>"
  by (auto simp: put_head_def method_reads)

lemma append_authority_new:
  assumes "append_authority_event_locked i e kind ref act at payload op s = (Inr x, t)"
    and "map_of (st_events_by_id s) e = None"
  obtains es where "map_of (st_events s) i = Some es" "t = push_event x es s"
    "ev_event_id x = e" "ev_case_id x = i" "ev_event_type x = kind" "ev_authority_ref x = Some ref"
proof -
  obtain n d where run: "append_event_locked n d s = (Inr x, t)" and d: "ed_case_id d = i"
    "ed_event_id d = e" "ed_event_type d = kind" "ed_authority_ref d = Some ref"
    using assms(1) by (auto simp: append_authority_event_locked_def method_reads)
  obtain p es where "draft_entry d p (int (length es) + 1) = Inr x"
    and es: "map_of (st_events s) i = Some es" "t = push_event x es s"
    using run assms(2) d by (auto simp: append_event_locked_def method_reads Let_def split: if_splits)
  then show thesis using that [OF es] make_event_fields d by (simp add: draft_entry_def)
qed

text \<open>
  C38: Accepting a frame moves the head by one, to that frame.  A call under a new event that returns
  has found the head at the expected version; the case it returns is the stored one, with the version
  one higher, the frame in place and no plan and no answer; the frame is on record, and the case's
  journal ends with the acceptance event.
\<close>

theorem accepting_a_frame_moves_the_head:
  assumes "reachable s" "accept_frame vf f pid n e at op s = (Inr c', t)"
    and "map_of (st_events_by_id s) e = None"
  shows "\<exists>c es x. get_case s (fr_case_id f) = Inr c \<and> ic_head_version c = n \<and>
    c' = c\<lparr>ic_head_version := n + 1, ic_frame_revision_id := Some (fr_frame_revision_id f),
      ic_plan_revision_id := None, ic_answer_version_id := None, ic_updated_at := at\<rparr> \<and>
    get_case t (fr_case_id f) = Inr c' \<and> get_frame t (fr_frame_revision_id f) = Inr f \<and>
    map_of (st_events s) (fr_case_id f) = Some es \<and>
    map_of (st_events t) (fr_case_id f) = Some (es @ [x]) \<and>
    ev_event_id x = e \<and> ev_event_type x = EvFrameAccepted \<and>
    ev_authority_ref x = Some (fr_frame_revision_id f)"
proof -
  let ?i = "fr_frame_revision_id f" and ?k = "fr_case_id f"
  let ?s = "s\<lparr>st_frames := st_frames s @ [(?i, f)]\<rparr>"
  have found: "idempotent_head_result s e EvFrameAccepted ?i ?k = Inr None"
    using assms(3) by (simp add: idempotent_head_result_def)
  let ?c = "\<lambda>c. c\<lparr>ic_head_version := ic_head_version c + 1, ic_frame_revision_id := Some ?i,
      ic_plan_revision_id := None, ic_answer_version_id := None, ic_updated_at := at\<rparr>"
  let ?k' = "\<lambda>c u. append_authority_event_locked (ic_case_id c) e EvFrameAccepted ?i
      (Some (fr_created_by_action_id f)) at
      (JObj [(''revision_number'', JInt (fr_revision_number f)),
             (''content_sha256'', JStr (fr_content_sha256 f)),
             (''head_version'', JInt (ic_head_version u))]) op"
  obtain c where c: "cas_case s ?k n = Inr c" and fresh: "map_of (st_frames s) ?i = None"
    and run': "bindP (put_head (?c c)) (\<lambda>u. bindP (?k' c u) (\<lambda>_. returnP u)) ?s = (Inr c', t)"
    using assms(2) found by (auto simp: accept_frame_def method_reads put_immutable_Inr)
  obtain x where c': "c' = ?c c" and
    run: "?k' c c' (?s\<lparr>st_cases := AList.update (ic_case_id c) c' (st_cases s)\<rparr>) = (Inr x, t)"
    using run' by (auto simp: bindP_Inr_iff put_head_Inr)
  have row: "map_of (st_cases s) ?k = Some c" "ic_head_version c = n"
    using cas_case_row [OF c] by simp_all
  then have k: "ic_case_id c = ?k" using reachable_keyed [OF assms(1)] by (auto simp: cases_keyed_def)
  obtain es where es: "map_of (st_events s) ?k = Some es" "ev_event_id x = e" "ev_case_id x = ?k"
      "ev_event_type x = EvFrameAccepted" "ev_authority_ref x = Some ?i"
    and t: "t = push_event x es (?s\<lparr>st_cases := AList.update (ic_case_id c) c' (st_cases s)\<rparr>)"
    using append_authority_new [OF run] assms(3) by (auto simp: k)
  have "map_of (st_frames t) ?i = Some f"
    using map_of_append_row [OF fresh, of f ?i] by (simp add: t push_event_def del: map_of_append)
  then show ?thesis using row es k
    by (intro exI [of _ c] exI [of _ es] exI [of _ x])
       (simp add: t push_event_def get_case_def get_frame_def c')
qed

theorem accepting_a_frame_moves_the_head_witness:
  "\<exists>s t c es x. accept_frame (\<lambda>_ _. Inr ()) ex_frame ''proof'' 1 ''framed'' (Aware 6) None s =
       (Inr ex_framed_case, t) \<and>
     get_case s ''case'' = Inr c \<and> ic_head_version c = 1 \<and> get_case t ''case'' = Inr ex_framed_case \<and>
     map_of (st_events t) ''case'' = Some (es @ [x]) \<and> ev_event_id x = ''framed''"
proof -
  obtain x y where r: "reachable (ex_proved x)" and x: "ev_event_id x = ''asked''" "ev_case_id x = ''case''"
    and run: "accept_frame (\<lambda>_ _. Inr ()) ex_frame ''proof'' 1 ''framed'' (Aware 6) None (ex_proved x) =
      (Inr ex_framed_case, ex_framed x y)"
    using ex_framed_reachable by blast
  have n: "map_of (st_events_by_id (ex_proved x)) ''framed'' = None" using x by (simp add: ex_run)
  have f: "fr_case_id ex_frame = ''case''" by (simp add: ex_frame_def)
  from accepting_a_frame_moves_the_head [OF r run n] run show ?thesis unfolding f by blast
qed

section \<open>A refused proof\<close>

text \<open>
  A second proof for a frame is refused after it was stored: outside a transaction the refused proof
  stays on record, and a frame is accepted on it as on the first.
\<close>

lemma proofs_of_update: "s\<lparr>st_frame_admission_proofs := d\<rparr> = s \<Longrightarrow> d = st_frame_admission_proofs s"
  by (drule arg_cong [of _ _ st_frame_admission_proofs]) simp

theorem refused_proof_is_stored:
  assumes "admit_proof s p = Inr ()"
    and "map_of (st_frame_admission_proofs s) (fp_frame_admission_proof_id p) = None"
    and "map_of (st_frame_admission_proof_by_frame s) (fp_frame_revision_id p) = Some i"
    and "i \<noteq> fp_frame_admission_proof_id p"
  shows "\<exists>t. record_frame_admission_proof p s =
      (Inl (AuthorityConflict ''Frame already has another admission proof''), t) \<and> t \<noteq> s \<and>
    map_of (st_frame_admission_proofs t) (fp_frame_admission_proof_id p) = Some p"
proof -
  let ?d = "AList.update (fp_frame_admission_proof_id p) p (st_frame_admission_proofs s)"
  let ?t = "s\<lparr>st_frame_admission_proofs := ?d\<rparr>"
  have "record_frame_admission_proof p s =
      (Inl (AuthorityConflict ''Frame already has another admission proof''), ?t)"
    using assms by (simp add: record_frame_admission_proof_def method_reads put_idempotent_immutable_def
        require_def)
  moreover have "?t \<noteq> s"
  proof
    assume "?t = s"
    then have "?d = st_frame_admission_proofs s" by (rule proofs_of_update)
    then show False using assms(2) map_of_update
      [of "fp_frame_admission_proof_id p" p "st_frame_admission_proofs s" "fp_frame_admission_proof_id p"] by simp
  qed
  ultimately show ?thesis by (intro exI [of _ ?t]) simp
qed

lemma ex_second_proof:
  "\<exists>x t. reachable (ex_proved x) \<and> record_frame_admission_proof (ex_proof ''second'') (ex_proved x) =
      (Inl (AuthorityConflict ''Frame already has another admission proof''), t) \<and>
    map_of (st_frame_admission_proofs t) ''second'' = Some (ex_proof ''second'')"
proof -
  obtain x where r: "reachable (ex_proved x)" using ex_framed_reachable by blast
  have a: "admit_proof (ex_proved x) (ex_proof ''second'') = Inr ()"
    by (rule ex_admit_proof) (simp_all add: ex_run)
  have f: "fp_frame_admission_proof_id (ex_proof ''second'') = ''second''"
    "fp_frame_revision_id (ex_proof ''second'') = ''frame''" by (simp_all add: ex_proof_def)
  have t: "map_of (st_frame_admission_proofs (ex_proved x)) ''second'' = None"
    "map_of (st_frame_admission_proof_by_frame (ex_proved x)) ''frame'' = Some ''proof''"
    by (simp_all add: ex_run)
  show ?thesis using refused_proof_is_stored [OF a, unfolded f, OF t] r by auto
qed

end
