(* ===== verification/StorePlanExamples.thy ===== *)
theory StorePlanExamples imports StoreAuthorityProperties begin

text \<open>
  The run of the store goes on: the resolution of the accepted frame and its obligation are on record,
  and the plan that was compiled for them is accepted.
\<close>

definition ex_resolved :: "EventJournalEntry \<Rightarrow> EventJournalEntry \<Rightarrow> Store" where
  "ex_resolved x y = (ex_framed x y)\<lparr>st_resolution_outcomes := [(ex_sha CHR ''4'', px_outcome)],
     st_resolution_admissions := [(ex_sha CHR ''4'', px_admission)],
     st_evidence_obligations := [(ex_sha CHR ''8'', px_obligation)]\<rparr>"

lemmas ex_plan_run = ex_resolved_def ex_framed_def ex_run

lemma ex_posted_plans [simp]:
  "st_plans ex_posted = []" "st_query_bindings ex_posted = []" "st_plan_adoptions ex_posted = []"
  "st_plan_adoption_by_plan ex_posted = []" "st_resolution_outcomes ex_posted = []"
  "st_resolution_admissions ex_posted = []"
  by (simp_all add: ex_posted_def ex_store_simps)

lemma ex_resolved_reachable:
  assumes "reachable (ex_framed x y)"
  shows "reachable (ex_resolved x y)"
proof -
  have "foreign_rows (ex_framed x y) (ex_resolved x y)"
    by (rule foreign_rowsI) (simp_all add: ex_plan_run same_rows_admitted)
  then show ?thesis by (rule reachable_step [OF assms store_step.intros(31)])
qed

lemma ex_framed_head: "px_head ex_framed_case"
  by (simp add: px_head_def ex_framed_case_def ex_asked_case_def opened_case_def)

lemma ex_resolved_rows [simp]:
  "st_cases (ex_resolved x y) = [(''case'', ex_framed_case)]"
  "st_frames (ex_resolved x y) = [(''frame'', ex_frame)]"
  "st_plans (ex_resolved x y) = []" "st_query_bindings (ex_resolved x y) = []"
  "st_plan_adoptions (ex_resolved x y) = []" "st_plan_adoption_by_plan (ex_resolved x y) = []"
  "st_resolution_outcomes (ex_resolved x y) = [(ex_sha CHR ''4'', px_outcome)]"
  "st_resolution_admissions (ex_resolved x y) = [(ex_sha CHR ''4'', px_admission)]"
  "st_evidence_obligations (ex_resolved x y) = [(ex_sha CHR ''8'', px_obligation)]"
  by (simp_all add: ex_plan_run)

lemma ex_plan_snapshot: "get_authority_snapshot (ex_resolved x y) ''case'' = Inr px_authority"
proof -
  have "check_authority_snapshot px_authority = Inr ()"
    by (simp add: check_authority_snapshot_def px_authority_def) (simp add: nonempty_def blank_def)?
  moreover have "st_mailbox_heads (ex_resolved x y) = [(''case'', next_head ex_message)]"
    "st_frame_candidates (ex_resolved x y) = [(''candidate'', ex_candidate)]"
    "st_active_frame_candidate_ids (ex_resolved x y) = [(''case'', ''candidate'')]"
    "st_evidence_cases (ex_resolved x y) = []" "st_obligation_satisfaction (ex_resolved x y) = []"
    "st_evidence_validity (ex_resolved x y) = []" "st_objection_cases (ex_resolved x y) = []"
    by (simp_all add: ex_plan_run)
  moreover have "fc_candidate_generation ex_candidate = 1"
    "fc_proposed_frame_content_sha256 ex_candidate = ex_sha CHR ''f''"
    by (simp_all add: ex_candidate_def)
  ultimately show ?thesis
    by (simp add: get_authority_snapshot_def get_case_def get_row_def get_mailbox_head_def
        subscript_def active_candidate_def ex_framed_case_def ex_asked_case_def opened_case_def
        next_head_def ex_message_def count_rows_def px_authority_def)
qed

definition ex_accepted_case :: InvestigationCase where
  "ex_accepted_case = ex_framed_case\<lparr>ic_head_version := 3, ic_plan_revision_id := Some ''plan'',
     ic_updated_at := Aware 9\<rparr>"

abbreviation ex_bundle :: PlanBundle where
  "ex_bundle \<equiv> px_bundle ''plan''"

lemma ex_bundle_fields [simp]:
  "bu_plan ex_bundle = px_plan ''plan''" "bu_query_bindings ex_bundle = [px_binding ''plan'']"
  "bu_adoption ex_bundle = px_adoption ''plan''"
  "wp_case_id (px_plan i) = ''case''" "wp_plan_revision_id (px_plan i) = i"
  "wp_frame_revision_id (px_plan i) = ''frame''" "wp_revision_number (px_plan i) = 1"
  "wp_prior_plan_revision_id (px_plan i) = None" "wp_created_by_action_id (px_plan i) = ''act''"
  "pd_expected_head_version (px_adoption i) = 2" "pd_authority_snapshot (px_adoption i) = px_authority"
  "pd_resolution_outcome_ids (px_adoption i) = [ex_sha CHR ''4'']"
  by (simp_all add: px_bundle_def px_plan_def px_adoption_def)

lemma ex_admit_plan: "admit_plan (ex_resolved x y) ex_framed_case ex_bundle 2 None = Inr ()"
proof -
  have "list_evidence_obligations (ex_resolved x y) ''frame'' = [px_obligation]"
    by (simp add: list_evidence_obligations_def)
  moreover have "ic_case_id ex_framed_case = ''case''" "ic_frame_revision_id ex_framed_case = Some ''frame''"
    "ic_plan_revision_id ex_framed_case = None"
    using ex_framed_head by (simp_all add: px_head_def)
  ultimately show ?thesis
    using px_compiled(2) [OF px_case_head(2) ex_framed_head]
    by (simp add: admit_plan_def Let_def ex_plan_snapshot max_by_def get_frame_def get_row_def
        get_measurement_resolution_def get_measurement_resolution_admission_def)
qed

definition ex_stored :: "EventJournalEntry \<Rightarrow> EventJournalEntry \<Rightarrow> Store" where
  "ex_stored x y = (ex_resolved x y)\<lparr>st_plans := [(''plan'', px_plan ''plan'')],
     st_query_bindings := [(qb_query_binding_id (px_binding ''plan''), px_binding ''plan'')],
     st_plan_adoptions := [(pd_plan_adoption_id (px_adoption ''plan''), px_adoption ''plan'')],
     st_plan_adoption_by_plan := [(''plan'', pd_plan_adoption_id (px_adoption ''plan''))],
     st_cases := [(''case'', ex_accepted_case)]\<rparr>"

definition ex_accepted :: "EventJournalEntry \<Rightarrow> EventJournalEntry \<Rightarrow> EventJournalEntry \<Rightarrow> Store" where
  "ex_accepted x y z = push_event z [opening_event ''case'' ''thread'' ''opened'' (Aware 0), x, y] (ex_stored x y)"

lemma ex_plan_event:
  assumes "ev_event_id x = ''asked''" "ev_case_id x = ''case''" "ev_event_id y = ''framed''" "ev_case_id y = ''case''"
  shows "\<exists>z. append_authority_event_locked ''case'' ''planned'' EvPlanAccepted ''plan'' (Some ''act'') (Aware 9)
    (JObj [(''revision_number'', JInt 1), (''content_sha256'', JStr (work_plan_sha256 (px_plan ''plan''))),
       (''plan_adoption_id'', JStr (pd_plan_adoption_id (px_adoption ''plan''))),
       (''plan_adoption_sha256'', JStr (plan_adoption_sha256 (px_adoption ''plan''))),
       (''query_binding_ids'', strs [qb_query_binding_id (px_binding ''plan'')]),
       (''head_version'', JInt 3)]) None (ex_stored x y) = (Inr z, ex_accepted x y z)"
proof -
  let ?p = "JObj [(''revision_number'', JInt 1), (''content_sha256'', JStr (work_plan_sha256 (px_plan ''plan''))),
       (''plan_adoption_id'', JStr (pd_plan_adoption_id (px_adoption ''plan''))),
       (''plan_adoption_sha256'', JStr (plan_adoption_sha256 (px_adoption ''plan''))),
       (''query_binding_ids'', strs [qb_query_binding_id (px_binding ''plan'')]),
       (''head_version'', JInt 3)]"
  have fr: "freeze_json ?p = Inr (JObj [(''content_sha256'', JStr (work_plan_sha256 (px_plan ''plan''))),
       (''head_version'', JInt 3), (''plan_adoption_id'', JStr (pd_plan_adoption_id (px_adoption ''plan''))),
       (''plan_adoption_sha256'', JStr (plan_adoption_sha256 (px_adoption ''plan''))),
       (''query_binding_ids'', strs [qb_query_binding_id (px_binding ''plan'')]),
       (''revision_number'', JInt 1)])"
    by (simp add: seq_pairs_def)
  have rows: "st_events (ex_stored x y) = [(''case'', [opening_event ''case'' ''thread'' ''opened'' (Aware 0), x, y])]"
    "map_of (st_events_by_id (ex_stored x y)) ''planned'' = None"
    using assms by (simp_all add: ex_stored_def ex_plan_run)
  have "nonempty ''planned''" "nonempty ''plan''" "nonempty ''act''" "nonempty ''case''"
    by (simp_all add: nonempty_def blank_def)
  then show ?thesis
    using append_authority_ok [of "ex_stored x y" "''planned''" "''case''"
        "[opening_event ''case'' ''thread'' ''opened'' (Aware 0), x, y]" "''plan''" "Some ''act''" "Aware 9"
        ?p _ EvPlanAccepted, OF _ _ _ _ _ _ _ fr]
    by (auto simp: rows ex_accepted_def payload_head_version_def)
qed

lemma ex_accept_plan:
  assumes "ev_event_id x = ''asked''" "ev_case_id x = ''case''" "ev_event_id y = ''framed''" "ev_case_id y = ''case''"
  shows "\<exists>z. accept_plan_bundle ex_bundle 2 ''planned'' (Aware 9) None (ex_resolved x y) =
    (Inr ex_accepted_case, ex_accepted x y z)"
proof -
  obtain z where z: "append_authority_event_locked ''case'' ''planned'' EvPlanAccepted ''plan'' (Some ''act'')
    (Aware 9)
    (JObj [(''revision_number'', JInt 1), (''content_sha256'', JStr (work_plan_sha256 (px_plan ''plan''))),
       (''plan_adoption_id'', JStr (pd_plan_adoption_id (px_adoption ''plan''))),
       (''plan_adoption_sha256'', JStr (plan_adoption_sha256 (px_adoption ''plan''))),
       (''query_binding_ids'', strs [qb_query_binding_id (px_binding ''plan'')]),
       (''head_version'', JInt 3)]) None (ex_stored x y) = (Inr z, ex_accepted x y z)"
    using ex_plan_event [OF assms] by blast
  have put: "put_bundle ex_bundle (ex_resolved x y) = (Inr (), (ex_resolved x y)\<lparr>st_plans := [(''plan'', px_plan ''plan'')],
     st_query_bindings := [(qb_query_binding_id (px_binding ''plan''), px_binding ''plan'')],
     st_plan_adoptions := [(pd_plan_adoption_id (px_adoption ''plan''), px_adoption ''plan'')],
     st_plan_adoption_by_plan := [(''plan'', pd_plan_adoption_id (px_adoption ''plan''))]\<rparr>)"
    by (simp add: put_bundle_def Let_def put_binding_def put_adoption_def method_reads bindP_eq put_immutable_def)
  have c: "ic_head_version ex_framed_case = 2" "ic_case_id ex_framed_case = ''case''"
    "ex_framed_case\<lparr>ic_head_version := 3, ic_plan_revision_id := Some ''plan'',
       ic_answer_version_id := None, ic_updated_at := Aware 9\<rparr> = ex_accepted_case"
    "ic_case_id ex_accepted_case = ''case''" "ic_head_version ex_accepted_case = 3"
    by (simp_all add: ex_accepted_case_def ex_framed_case_def ex_asked_case_def opened_case_def)
  have ok: "check_case ex_accepted_case = Inr ()"
    by (simp add: check_case_def ex_accepted_case_def ex_framed_case_def ex_asked_case_def opened_case_def truthy_def)
  let ?u = "(ex_resolved x y)\<lparr>st_plans := [(''plan'', px_plan ''plan'')],
     st_query_bindings := [(qb_query_binding_id (px_binding ''plan''), px_binding ''plan'')],
     st_plan_adoptions := [(pd_plan_adoption_id (px_adoption ''plan''), px_adoption ''plan'')],
     st_plan_adoption_by_plan := [(''plan'', pd_plan_adoption_id (px_adoption ''plan''))]\<rparr>"
  have run: "bindP (put_bundle ex_bundle) k (ex_resolved x y) = k () ?u"
    for k :: "unit \<Rightarrow> (Store, InvestigationCase) prog"
    by (simp add: bindP_def put)
  have head: "bindP (put_head ex_accepted_case) k ?u = k ex_accepted_case (ex_stored x y)"
    for k :: "InvestigationCase \<Rightarrow> (Store, InvestigationCase) prog"
    using ok by (simp add: put_head_run c ex_stored_def)
  have new: "map_of (st_events_by_id (ex_resolved x y)) ''planned'' = None"
    using assms by (simp add: ex_plan_run)
  have "accept_plan_body ex_bundle 2 ''planned'' (Aware 9) None (ex_resolved x y) =
      (Inr ex_accepted_case, ex_accepted x y z)"
    using z by (simp add: accept_plan_body_def Let_def method_reads new cas_case_def get_case_def
        get_row_def c ex_admit_plan run head ok bindP_eq [of "append_authority_event_locked a b d e g h i j" for a b d e g h i j]
        returnP_def)
  then show ?thesis by (auto simp: accept_plan_bundle_def atomic_def)
qed

lemma ex_accepted_reachable: "\<exists>x y z. reachable (ex_accepted x y z)"
proof -
  obtain x where x: "reachable (ex_proved x)" "ev_event_id x = ''asked''" "ev_case_id x = ''case''"
    using ex_framed_reachable by blast
  obtain y where y: "accept_frame (\<lambda>_ _. Inr ()) ex_frame ''proof'' 1 ''framed'' (Aware 6) None (ex_proved x) =
     (Inr ex_framed_case, ex_framed x y)" "ev_event_id y = ''framed''" "ev_case_id y = ''case''"
    using ex_accept x(2,3) by blast
  have "reachable (ex_framed x y)"
    using reachable_step [OF x(1) store_step.intros(39) [OF reachable_keyed [OF x(1)] y(1)]] .
  then have r: "reachable (ex_resolved x y)" by (rule ex_resolved_reachable)
  obtain z where "accept_plan_bundle ex_bundle 2 ''planned'' (Aware 9) None (ex_resolved x y) =
    (Inr ex_accepted_case, ex_accepted x y z)"
    using ex_accept_plan x(2,3) y(2,3) by blast
  then show ?thesis
    using reachable_step [OF r store_step.intros(40) [OF reachable_keyed [OF r]]] by blast
qed

end
