(* ===== verification/StorePlanProperties.thy ===== *)
theory StorePlanProperties imports StorePlanExamples begin

text \<open>
  What the store promises about an accepted plan: it closes its frame with the obligations, outcomes
  and query bindings on record.
\<close>

section \<open>An accepted plan\<close>

text \<open>
  C4: An accepted plan closes its frame, on record.  In every state the store reaches, for every slot of
  the frame that the accepted plan of a case works (an estimand, a requirement of it, an evidence type
  of that), there is a stored obligation, resolved by a stored outcome for that estimand; exactly
  one task of the plan owns it; and if it is executable, a stored query binding names that task and
  carries the measurement instance of that outcome.
\<close>

theorem accepted_plan_closes_frame:
  assumes "reachable s" "get_case s i = Inr c" "ic_plan_revision_id c = Some j" "get_plan s j = Inr p"
    and "get_frame s (wp_frame_revision_id p) = Inr f" "frame_slot f (e, r, t)"
  shows "\<exists>x k y. x \<in> set (list_evidence_obligations s (wp_frame_revision_id p)) \<and> slot_of x = (e, r, t) \<and>
    get_measurement_resolution s k = Inr y \<and> mo_estimand_id y = e \<and>
    mo_resolution_outcome_id y = ro_resolution_outcome_id x \<and>
    (\<exists>!w. w \<in> set (wp_tasks p) \<and> ro_obligation_id x \<in> set (wt_obligation_ids w)) \<and>
    (ro_execution_disposition x = DispExecutable \<longrightarrow>
       (\<exists>q w. get_query_binding s (qb_query_binding_id q) = Inr q \<and> qb_obligation_id q = ro_obligation_id x \<and>
          w \<in> set (wp_tasks p) \<and> ro_obligation_id x \<in> set (wt_obligation_ids w) \<and>
          qb_task_id q = wt_task_id w \<and>
          mo_resolved_instance y = Some (qb_resolved_measurement_instance q)))"
proof -
  have "plan_bound s c"
    using reachable_authority(1) [OF assms(1)] assms(2)
    by (auto simp: heads_ok_def head_bound_def get_case_def)
  then have "plan_admitted s p" using assms(3,4) by (auto simp: plan_bound_def get_plan_def)
  then obtain b c' a f' xs as bs where b: "bu_plan b = p"
    "map_of (st_frames s) (wp_frame_revision_id p) = Some f'"
    "validate_plan_bundle b c' a f' (xs, as, bs) = Inr ()"
    "set xs \<subseteq> ran (map_of (st_resolution_outcomes s))" "set bs \<subseteq> snd ` set (st_evidence_obligations s)"
    "\<forall>q \<in> set (bu_query_bindings b). map_of (st_query_bindings s) (qb_query_binding_id q) = Some q"
    unfolding plan_admitted_def by blast
  have f: "f' = f" using b(2) assms(5) by (simp add: get_frame_def)
  have w: "wp_frame_revision_id p = fr_frame_revision_id f"
    using b(1,3) f by (auto simp: validate_plan_bundle_def check_plan_closure_def Let_def result_simps)
  have pick: "\<exists>x \<in> A. \<exists>y \<in> B. P x y \<Longrightarrow> (\<And>x y. P x y \<Longrightarrow> Q x y) \<Longrightarrow>
      \<exists>x y. x \<in> A \<and> y \<in> B \<and> Q x y"
    for A :: "ResolvedEvidenceObligation set" and B :: "MeasurementResolutionOutcome set" and P Q by blast
  have cases: "(if P then A \<and> B else C) \<Longrightarrow> P \<longrightarrow> B" for P A B C by simp
  have "\<exists>x y. x \<in> set bs \<and> y \<in> set xs \<and> slot_of x = (e, r, t) \<and> mo_estimand_id y = e \<and>
    ro_frame_revision_id x = fr_frame_revision_id f \<and>
    mo_resolution_outcome_id y = ro_resolution_outcome_id x \<and>
    (\<exists>!w. w \<in> set (wp_tasks p) \<and> ro_obligation_id x \<in> set (wt_obligation_ids w)) \<and>
    (ro_execution_disposition x = DispExecutable \<longrightarrow> (\<exists>q w. q \<in> set (bu_query_bindings b) \<and>
       w \<in> set (wp_tasks p) \<and> qb_obligation_id q = ro_obligation_id x \<and>
       ro_obligation_id x \<in> set (wt_obligation_ids w) \<and> qb_task_id q = wt_task_id w \<and>
       mo_resolved_instance y = Some (qb_resolved_measurement_instance q)))"
    by (rule pick [OF validated_plan_closes_frame [OF b(3) [unfolded f] assms(6), unfolded b(1)]],
        elim conjE, intro conjI) (assumption | erule cases)+
  then obtain x y where x: "x \<in> set bs" "y \<in> set xs" "slot_of x = (e, r, t)" "mo_estimand_id y = e"
    "ro_frame_revision_id x = fr_frame_revision_id f"
    "mo_resolution_outcome_id y = ro_resolution_outcome_id x"
    "\<exists>!w. w \<in> set (wp_tasks p) \<and> ro_obligation_id x \<in> set (wt_obligation_ids w)"
    "ro_execution_disposition x = DispExecutable \<longrightarrow> (\<exists>q w. q \<in> set (bu_query_bindings b) \<and>
       w \<in> set (wp_tasks p) \<and> qb_obligation_id q = ro_obligation_id x \<and>
       ro_obligation_id x \<in> set (wt_obligation_ids w) \<and> qb_task_id q = wt_task_id w \<and>
       mo_resolved_instance y = Some (qb_resolved_measurement_instance q))"
    by (elim exE conjE)
  have "x \<in> set (list_evidence_obligations s (wp_frame_revision_id p))"
    using x(1,5) b(5) w by (auto simp: list_evidence_obligations_def)
  moreover obtain k where "get_measurement_resolution s k = Inr y"
    using x(2) b(4) by (auto simp: ran_def get_measurement_resolution_def)
  moreover have "get_query_binding s (qb_query_binding_id q) = Inr q" if "q \<in> set (bu_query_bindings b)" for q
    using b(6) that by (simp add: get_query_binding_def)
  ultimately show ?thesis using x(3,4,6,7,8) by blast
qed

theorem accepted_plan_closes_frame_witness:
  "\<exists>s q w. reachable s \<and> get_query_binding s (qb_query_binding_id q) = Inr q \<and>
     qb_obligation_id q = ex_sha CHR ''8'' \<and> w \<in> set (wp_tasks (px_plan ''plan'')) \<and> qb_task_id q = wt_task_id w"
proof -
  obtain x y z where r: "reachable (ex_accepted x y z)" using ex_accepted_reachable by blast
  let ?s = "ex_accepted x y z"
  have rows: "get_case ?s ''case'' = Inr ex_accepted_case" "get_plan ?s ''plan'' = Inr (px_plan ''plan'')"
    "get_frame ?s (wp_frame_revision_id (px_plan ''plan'')) = Inr ex_frame"
    "st_evidence_obligations ?s = [(ex_sha CHR ''8'', px_obligation)]"
    "ic_plan_revision_id ex_accepted_case = Some ''plan''"
    by (simp_all add: ex_accepted_def ex_stored_def push_event_def get_case_def get_plan_def get_frame_def
        get_row_def ex_accepted_case_def)
  note C = accepted_plan_closes_frame [OF r rows(1,5,2,3) px_slot]
  have "b = px_obligation" if "b \<in> set (list_evidence_obligations ?s i)" for b i
    using that rows(4) by (auto simp: list_evidence_obligations_def split: if_splits)
  moreover have "ro_execution_disposition px_obligation = DispExecutable"
    "ro_obligation_id px_obligation = ex_sha CHR ''8''" by simp_all
  ultimately show ?thesis using C r by metis
qed

end
