(* ===== verification/ObligationDerivation.thy ===== *)
theory ObligationDerivation imports ObligationCompiler PlanExamples begin

text \<open>
  The obligations that are compiled for an outcome are exactly those the replay accepts, but for the
  time they were created at.
\<close>

section \<open>The two readings of a frame and an outcome\<close>

lemma find_map_of:
  "map_of (map (\<lambda>b. (k b, v b)) bs) i = map_option v (List.find (\<lambda>b. k b = i) bs)"
  by (induction bs) auto

lemma requirement_lookup:
  assumes "distinct (map er_evidence_requirement_id (md_evidence_requirements (fr_design f)))"
  shows "item (requirements_by_id f) i = Inr r \<longleftrightarrow>
    next_item er_evidence_requirement_id (md_evidence_requirements (fr_design f)) i = Inr r"
proof -
  let ?rs = "md_evidence_requirements (fr_design f)"
  have "map_of (requirements_by_id f) = map_of (map (\<lambda>r. (er_evidence_requirement_id r, r)) ?rs)"
    using assms by (simp add: requirements_by_id_def map_of_dict_of map_of_distinct_rev comp_def)
  then show ?thesis
    by (auto simp: item_def next_item_def find_map_of split: option.splits)
qed

lemma next_item_Inr: "next_item key xs i = Inr x \<Longrightarrow> x \<in> set xs \<and> key x = i"
  by (auto simp: next_item_def find_Some_iff in_set_conv_nth split: option.splits)

lemma boundary_lookup:
  assumes "check_resolution_outcome x = Inr ()"
  shows "map_of (requirement_boundaries x) (er_evidence_requirement_id r) = obligation_boundary x r"
proof -
  let ?i = "er_evidence_requirement_id r"
  let ?bs = "map (\<lambda>b. (rb_evidence_requirement_id b, rb_boundary_code b)) (mo_requirement_boundaries x)"
  have d: "distinct (map rb_evidence_requirement_id (mo_requirement_boundaries x))"
    and one: "mo_boundary x = None \<or> mo_requirement_boundaries x = []"
    using assms by (cases "mo_kind x"; auto simp: check_resolution_outcome_def require_unique_ids_def result_simps)+
  have bs: "map_of (rev ?bs) = map_of ?bs" using d by (intro map_of_distinct_rev) (simp add: comp_def)
  show ?thesis
  proof (cases "mo_boundary x")
    case None
    then show ?thesis
      by (simp add: requirement_boundaries_def map_of_dict_of bs find_map_of obligation_boundary_def
          split: option.split)
  next
    case (Some b)
    have "map_of (map (\<lambda>i. (i, tb_boundary_code b)) is) ?i =
        (if ?i \<in> set is then Some (tb_boundary_code b) else None)" for "is"
      by (induction "is") auto
    then show ?thesis using Some one
      by (simp add: requirement_boundaries_def map_of_dict_of obligation_boundary_def rev_map)
  qed
qed

lemma frame_estimand_identity_Inr:
  "frame_estimand_identity f i = Inr (e, s, a) \<Longrightarrow> es_estimand_id e = i"
  by (auto simp: frame_estimand_identity_def find_Some_iff result_simps split: option.splits)

lemma requirement_scope_Inr:
  "check_requirement_scope w v f e x r = Inr () \<longleftrightarrow> check_requirement_scope w' v' f e x r = Inr ()"
  by (simp add: check_requirement_scope_def bindR_Inr_iff)

section \<open>The derivation of one obligation\<close>

lemma built_obligation:
  assumes "build_resolved_evidence_obligation f e s a x r ts c at = Inr b"
  shows "ro_case_id b = fr_case_id f" "ro_frame_revision_id b = fr_frame_revision_id f"
    "ro_estimand_id b = es_estimand_id e" "ro_resolution_outcome_id b = mo_resolution_outcome_id x"
    "ro_evidence_requirement_id b = er_evidence_requirement_id r" "ro_evidence_type_refs b = ts"
    "ro_created_at b = at" "length ts = 1"
  using assms
  by (auto simp: build_resolved_evidence_obligation_def Let_def construct_def result_simps check_obligation_def)

lemma built_at_another_time:
  assumes "build_resolved_evidence_obligation f e s a x r ts c at = Inr b"
    "build_resolved_evidence_obligation f e s a x r ts c at' = Inr b'"
  shows "b' = b\<lparr>ro_created_at := at'\<rparr>"
  using assms by (auto simp: build_resolved_evidence_obligation_def Let_def construct_def result_simps)

section \<open>Compiled and replayed\<close>

lemma compiled_requirement:
  assumes "compile_requirement f e s a x at i = Inr cs"
  obtains r where "item (requirements_by_id f) i = Inr r"
    "\<And>w v. check_requirement_scope w v f e x r = Inr ()"
    "list_all2 (\<lambda>t b. build_resolved_evidence_obligation f e s a x r [t]
       (map_of (requirement_boundaries x) i) at = Inr b) (er_required_evidence_type_refs r) cs"
proof -
  obtain r w v where "item (requirements_by_id f) i = Inr r" "check_requirement_scope w v f e x r = Inr ()"
    "list_all2 (\<lambda>t b. build_resolved_evidence_obligation f e s a x r [t]
       (map_of (requirement_boundaries x) i) at = Inr b) (er_required_evidence_type_refs r) cs"
    using assms by (auto simp: compile_requirement_def sequenceR_rel bindR_Inr_iff)
  then show thesis using that requirement_scope_Inr by blast
qed

lemma compiled_obligations:
  assumes "compile_evidence_obligations resolve vr f x at = Inr bs"
  obtains e s a where "vr f x = Inr ()" "frame_estimand_identity f (mo_estimand_id x) = Inr (e, s, a)"
    "mo_semantic_measurement_id x = s" "mo_authority_binding_id x = a"
    "\<And>b. b \<in> set bs \<longleftrightarrow> (\<exists>i \<in> set (es_evidence_requirement_ids e). \<exists>cs.
       compile_requirement f e s a x at i = Inr cs \<and> b \<in> set cs)"
    "\<And>i. i \<in> set (es_evidence_requirement_ids e) \<Longrightarrow> \<exists>cs. compile_requirement f e s a x at i = Inr cs"
proof -
  obtain e s a css where c: "vr f x = Inr ()" "frame_estimand_identity f (mo_estimand_id x) = Inr (e, s, a)"
    "mo_semantic_measurement_id x = s" "mo_authority_binding_id x = a"
    "sequenceR (map (compile_requirement f e s a x at) (es_evidence_requirement_ids e)) = Inr css"
    "bs = concat css"
    using assms by (auto simp: compile_evidence_obligations_def result_simps)
  have r: "list_all2 (\<lambda>i cs. compile_requirement f e s a x at i = Inr cs) (es_evidence_requirement_ids e) css"
    using c(5) by (simp add: sequenceR_rel)
  have each: "\<exists>cs. compile_requirement f e s a x at i = Inr cs" if "i \<in> set (es_evidence_requirement_ids e)" for i
    using list_all2_memD(1) [OF r that] by blast
  have "b \<in> set bs \<longleftrightarrow> (\<exists>i \<in> set (es_evidence_requirement_ids e). \<exists>cs.
      compile_requirement f e s a x at i = Inr cs \<and> b \<in> set cs)" for b
  proof
    assume "b \<in> set bs"
    then obtain cs where cs: "cs \<in> set css" "b \<in> set cs" using c(6) by auto
    then show "\<exists>i \<in> set (es_evidence_requirement_ids e). \<exists>cs.
        compile_requirement f e s a x at i = Inr cs \<and> b \<in> set cs"
      using list_all2_memD(2) [OF r cs(1)] by blast
  next
    assume "\<exists>i \<in> set (es_evidence_requirement_ids e). \<exists>cs.
        compile_requirement f e s a x at i = Inr cs \<and> b \<in> set cs"
    then obtain i cs where i: "i \<in> set (es_evidence_requirement_ids e)"
      "compile_requirement f e s a x at i = Inr cs" "b \<in> set cs" by blast
    then have "cs \<in> set css" using list_all2_memD(1) [OF r i(1)] by auto
    then show "b \<in> set bs" using i(3) c(6) by auto
  qed
  then show thesis using that c(1-4) each by blast
qed

text \<open>
  C7: Only what the compiler derives is ever accepted.  For an outcome that is well formed and a frame
  whose requirements have different IDs, the replay accepts every obligation that is compiled, and
  whatever it accepts is one of these, but for its time of creation: its identity, its
  disposition, its boundary and its digests cannot be chosen.
\<close>

theorem replay_accepts_what_is_compiled:
  assumes "compile_evidence_obligations resolve vr f x at = Inr bs" "check_resolution_outcome x = Inr ()"
    and "distinct (map er_evidence_requirement_id (md_evidence_requirements (fr_design f)))"
  shows "(\<forall>b \<in> set bs. validate_evidence_obligation_derivation vr f x b = Inr ()) \<and>
    (\<forall>b. validate_evidence_obligation_derivation vr f x b = Inr () \<longrightarrow> b\<lparr>ro_created_at := at\<rparr> \<in> set bs)"
proof -
  obtain e s a where c: "vr f x = Inr ()" "frame_estimand_identity f (mo_estimand_id x) = Inr (e, s, a)"
    "mo_semantic_measurement_id x = s" "mo_authority_binding_id x = a"
    and bs: "\<And>b. b \<in> set bs \<longleftrightarrow> (\<exists>i \<in> set (es_evidence_requirement_ids e). \<exists>cs.
       compile_requirement f e s a x at i = Inr cs \<and> b \<in> set cs)"
    and total: "\<And>i. i \<in> set (es_evidence_requirement_ids e) \<Longrightarrow> \<exists>cs. compile_requirement f e s a x at i = Inr cs"
    by (fact compiled_obligations [OF assms(1)])
  note e = frame_estimand_identity_Inr [OF c(2)]
  have "validate_evidence_obligation_derivation vr f x b = Inr ()" if b: "b \<in> set bs" for b
  proof -
    obtain i cs where i: "i \<in> set (es_evidence_requirement_ids e)"
      "compile_requirement f e s a x at i = Inr cs" "b \<in> set cs"
      using b bs by blast
    obtain r where r: "item (requirements_by_id f) i = Inr r"
      "\<And>w v. check_requirement_scope w v f e x r = Inr ()"
      "list_all2 (\<lambda>t b. build_resolved_evidence_obligation f e s a x r [t]
         (map_of (requirement_boundaries x) i) at = Inr b) (er_required_evidence_type_refs r) cs"
      by (fact compiled_requirement [OF i(2)])
    obtain t where t: "t \<in> set (er_required_evidence_type_refs r)"
      "build_resolved_evidence_obligation f e s a x r [t] (map_of (requirement_boundaries x) i) at = Inr b"
      using list_all2_memD(2) [OF r(3) i(3)] by blast
    note n = r(1) [unfolded requirement_lookup [OF assms(3)]]
    have id: "er_evidence_requirement_id r = i" using next_item_Inr [OF n] by simp
    note B = built_obligation [OF t(2)]
    show ?thesis
      using c e i(1) n r(2) t boundary_lookup [OF assms(2), of r] id B(1-7)
      by (simp add: validate_evidence_obligation_derivation_def)
  qed
  moreover have "b\<lparr>ro_created_at := at\<rparr> \<in> set bs"
    if v: "validate_evidence_obligation_derivation vr f x b = Inr ()" for b
  proof -
    let ?i = "ro_evidence_requirement_id b"
    obtain r where r: "next_item er_evidence_requirement_id (md_evidence_requirements (fr_design f)) ?i = Inr r"
      and i: "?i \<in> set (es_evidence_requirement_ids e)"
      and types: "set (ro_evidence_type_refs b) \<subseteq> set (er_required_evidence_type_refs r)"
      and built: "build_resolved_evidence_obligation f e s a x r (ro_evidence_type_refs b)
        (obligation_boundary x r) (ro_created_at b) = Inr b"
      using v c(2) by (auto simp: validate_evidence_obligation_derivation_def result_simps)
    obtain t where t: "ro_evidence_type_refs b = [t]"
      using built_obligation(8) [OF built] by (auto simp: length_Suc_conv)
    obtain cs where cs: "compile_requirement f e s a x at ?i = Inr cs" using total [OF i] by blast
    have "er_evidence_requirement_id r = ?i" using next_item_Inr [OF r] by simp
    then have bd: "map_of (requirement_boundaries x) ?i = obligation_boundary x r"
      using boundary_lookup [OF assms(2), of r] by simp
    have r': "item (requirements_by_id f) ?i = Inr r" using r requirement_lookup [OF assms(3)] by blast
    obtain r'' where r'': "item (requirements_by_id f) ?i = Inr r''"
      "\<And>w v. check_requirement_scope w v f e x r'' = Inr ()"
      "list_all2 (\<lambda>t b. build_resolved_evidence_obligation f e s a x r'' [t]
         (map_of (requirement_boundaries x) ?i) at = Inr b) (er_required_evidence_type_refs r'') cs"
      by (fact compiled_requirement [OF cs])
    have "t \<in> set (er_required_evidence_type_refs r'')" using types t r' r''(1) by simp
    then obtain b' where b': "b' \<in> set cs" "build_resolved_evidence_obligation f e s a x r'' [t]
        (map_of (requirement_boundaries x) ?i) at = Inr b'"
      using list_all2_memD(1) [OF r''(3)] by blast
    have "b' = b\<lparr>ro_created_at := at\<rparr>"
      using built_at_another_time [OF built] b'(2) t bd r' r''(1) by simp
    then show ?thesis using bs i cs b'(1) by blast
  qed
  ultimately show ?thesis by blast
qed

lemma px_compile_obligation:
  "\<exists>b. compile_evidence_obligations Inr (\<lambda>_ _. Inr ()) ex_frame px_outcome (Aware 7) = Inr [b]"
proof -
  have id: "frame_estimand_identity ex_frame ''mean'' = Inr (px_estimand, ex_sha CHR ''1'', ex_sha CHR ''2'')"
    by (simp add: frame_estimand_identity_def tuple_item_def enumerate_eq_zip)
  have b: "requirement_boundaries px_outcome = []"
    by (simp add: requirement_boundaries_def px_outcome_def dict_of_def)
  have sc: "check_requirement_scope w v ex_frame px_estimand px_outcome px_requirement = Inr ()" for w v
    by (simp add: check_requirement_scope_def next_item_def px_defs checks.simps require_def)
  have "nonempty ''evidence:rows''" "nonempty ''case''" "nonempty ''frame''" "nonempty ''mean''" "nonempty ''rows''"
    by (simp_all add: nonempty_def blank_def)
  then have "\<exists>b. build_resolved_evidence_obligation ex_frame px_estimand (ex_sha CHR ''1'') (ex_sha CHR ''2'')
      px_outcome px_requirement [''evidence:rows''] None (Aware 7) = Inr b"
    by (auto simp: build_resolved_evidence_obligation_def Let_def construct_def check_obligation_def
        px_derivation_def evidence_requirement_sha256_def bindR_Inr_iff)
  then obtain b where built: "build_resolved_evidence_obligation ex_frame px_estimand (ex_sha CHR ''1'')
      (ex_sha CHR ''2'') px_outcome px_requirement [''evidence:rows''] None (Aware 7) = Inr b" by blast
  have "compile_requirement ex_frame px_estimand (ex_sha CHR ''1'') (ex_sha CHR ''2'') px_outcome (Aware 7)
      ''rows'' = Inr [b]"
    by (simp add: compile_requirement_def requirements_by_id_def px_run sc b built)
  then show ?thesis
    by (simp add: compile_evidence_obligations_def id px_run)
qed

theorem replay_accepts_what_is_compiled_witness:
  "\<exists>b. compile_evidence_obligations Inr (\<lambda>_ _. Inr ()) ex_frame px_outcome (Aware 7) = Inr [b] \<and>
     validate_evidence_obligation_derivation (\<lambda>_ _. Inr ()) ex_frame px_outcome b = Inr ()"
proof -
  obtain b where b: "compile_evidence_obligations Inr (\<lambda>_ _. Inr ()) ex_frame px_outcome (Aware 7) = Inr [b]"
    using px_compile_obligation by blast
  have "nonempty ''case''" "nonempty ''question''" "nonempty ''frame''" "nonempty ''mean''"
    by (simp_all add: nonempty_def blank_def)
  then have "check_resolution_outcome px_outcome = Inr ()"
    by (simp add: check_resolution_outcome_def px_outcome_def px_derivation_def require_unique_ids_def)
  from replay_accepts_what_is_compiled [OF b this] b show ?thesis by simp
qed

end
