(* ===== verification/Spec2Isabelle.thy ===== *)
theory Spec2Isabelle
  imports WorkflowProperties CanonicalProperties Journal AuthorityTypes ObligationWorkers
    StoreProperties StoreWorkProperties StoreResults StoreProjectionClaims CalendarProperties
    StorePlanProperties ObligationDerivation
begin

text \<open>
  A model of the authority core of the vnext analysis service
  (\<open>src/vnext/services/analysis_core/src/waje_vnext\<close>).

  The service investigates a business question.  Every change of a case is an event of an
  append-only journal, with a cursor.  Read projections consume the journal one cursor at a time;
  an obligation scheduler decides which measurement obligations can run, closes the dependents of
  obligations that cannot succeed, and checks every completion before it is stored.  Records are
  frozen dataclasses whose \<open>__post_init__\<close> raises when a guard fails; their identity is the SHA-256
  digest of their canonical JSON text.

  Modelling conventions.
  \<^item> A frozen dataclass is a record; its \<open>__post_init__\<close> is a function \<open>check_...\<close> that returns
    \<open>Inr ()\<close> or the first error raised, and construction is \<open>construct check r\<close>.  A record whose
    guard also freezes a payload has a \<open>make_...\<close> function instead.  Guards that only test the class
    of a value (\<open>isinstance\<close>) are the types of the model.
  \<^item> A raised exception is \<open>Inl\<close> of a \<open>py_error\<close> (Prelude); \<open>bindR\<close> sequences, \<open>checks\<close> runs the guards in
    the order of the code.  \<open>int\<close> is Python's unbounded integer.
  \<^item> A \<open>str\<close> is the list of the bytes of its UTF-8 text.  Byte order and code point order agree on
    UTF-8, so sorting agrees with Python's.  Blank tests know the white space of Unicode (\<open>blank_codes\<close>).
  \<^item> A \<open>float\<close> of a JSON value is a finite literal carried with its \<open>repr\<close>, or one of the values that
    are not finite.
  \<^item> A \<open>datetime\<close> is an instant (aware) or a wall-clock reading (naive).  The offset of an aware value is
    not kept: comparisons do not see it, and \<open>isoformat\<close> is written out at offset zero.
  \<^item> A dict with a known insertion order is an association list built by \<open>dict_of\<close> (the last entry
    of a key wins at the position of the first).
  \<^item> Python's limit on the depth of recursion is not modelled.

  Theories, and the code they model.
  \<^item> Prelude: errors, results, guards, lists and dicts.  Sha256: FIPS 180-4 on 32-bit words
    (\<open>hashlib.sha256\<close>).  Canonical, CanonicalProperties: \<open>domain/canonical.py\<close> (\<open>freeze_json\<close>,
    \<open>to_jsonable\<close>, \<open>canonical_json_bytes\<close>, \<open>content_sha256\<close>, the \<open>require_\<close> guards).  The lemmas
    show that freezing is a normal form that keeps the digest.
  \<^item> WorkflowTypes, WorkflowReducer, WorkflowModel: \<open>domain/workflow.py\<close>: facts and projections,
    the reducer \<open>_reduce_snapshot\<close> with one handler for each fact, then \<open>apply_workflow_fact\<close> and
    \<open>replay_workflow\<close> with the receipt chain.  WorkflowInvariants proves the invariant of a
    snapshot under each handler and the errors each can raise; WorkflowTheorems the invariant of
    the read model; EventProjection is the contract of an idempotent consumer of a numbered log as
    a locale, interpreted on \<open>apply_workflow_fact\<close> in WorkflowTheorems; WorkflowProperties states
    what the projection promises.
  \<^item> RuntimeTypes: \<open>domain/async_runtime.py\<close> and \<open>domain/runtime_state.py\<close>.  Journal:
    \<open>domain/events.py\<close>.
  \<^item> Acyclic: the depth-first search both \<open>_assert_acyclic\<close> (scheduler) and
    \<open>_require_acyclic_tasks\<close> (plans) write as a nested function \<open>visit\<close>; it returns on every graph
    (its measure is the number of nodes that are not on the stack and not visited) and accepts
    exactly the acyclic ones.  AuthorityTypes: cases, tasks and plan revisions of
    \<open>domain/authority.py\<close>.
  \<^item> ObligationTypes: the records of \<open>domain/obligation_scheduler.py\<close> and the obligation of
    \<open>domain/measurement.py\<close>.  ObligationGraph: graph check, selection and propagation, whose loop
    \<open>while changed\<close> ends because each round that changes closes an obligation that was open.
    ObligationPropagation and ObligationClosure relate propagation to the inductive relation
    \<open>doomed\<close> and the inherited status to the greatest \<open>severity\<close> of what blocks an obligation
    (when obligations are not listed after their prerequisites, one may be closed before all of its
    prerequisites are, so the set that counts depends on the order).  ObligationAdmission:
    dispatch, admission of a worker's result, the replay of a schedule from its plan, and the check
    of a persisted completion.  ObligationOrder,
    ObligationProperties, ObligationPersistence, ObligationWorkers: selection and progress,
    what can be stored, one dispatch for each obligation.
  \<^item> AdoptionTypes: what a plan acceptance records (the capability registry and the intents of
    \<open>PlanAdoptionRecord\<close>, \<open>domain/authority.py\<close> and \<open>domain/planning.py\<close>), the accepted question
    revision, and the satisfaction of an obligation (\<open>domain/evidence.py\<close>).
  \<^item> MeasurementTypes: what plans and obligations read of the measurement language
    (\<open>domain/measurement.py\<close>): evidence requirements, completion specs and estimands with the guards
    of a design on them, and the outcome of a resolution with its boundaries and its admission
    (\<open>MeasurementResolutionAdmission\<close> of \<open>domain/measurement_resolver.py\<close>).
  \<^item> ObligationCompiler: the obligations that are derived from a frame and an outcome
    (\<open>_compile_evidence_obligations\<close>) and the replay of one (\<open>validate_evidence_obligation_derivation\<close>);
    ObligationDerivation: the replay accepts what is compiled, and nothing else.
  \<^item> PlanTypes, PlanCompiler: \<open>domain/planning.py\<close>: proposed tasks, query bindings and the bundle of a
    plan, its compilation from the accepted frame, its outcomes and its obligations
    (\<open>compile_plan_bundle\<close>), and its validation (\<open>validate_plan_bundle\<close>), which derives every part
    again.  PlanInputs: the inputs are put in the order of the frame, once and for all.
    PlanAssembly: what an assembled bundle is made of.  PlanProperties: validation accepts what is
    compiled, a validated plan closes its frame, its query bindings are sealed.  PlanExamples: a
    plan of one task, compiled and validated.
  \<^item> WorkflowAdapter: \<open>domain/workflow_adapter.py\<close>: the policy of each journal event type and the fact
    each event is translated into.  Its lemmas show that every event type has a policy, and that the
    fact carries the identity of its event and a variant its policy allows.
  \<^item> ControllerTypes: the records of \<open>domain/controller.py\<close> and those of \<open>domain/runtime_amendment.py\<close>
    about messages, jobs and model calls.  FrameReviewTypes: those about frames: candidates,
    reviews with their objections, closures of objections, and admission proofs.
  \<^item> MeasurementChanges: the paths at which two measurement designs differ
    (\<open>derive_changed_measurement_node_ids\<close>), which a closure has to name; there are none exactly when
    the designs have the same content.
  \<^item> StoreTypes: the tables of \<open>storage/in_memory.py\<close> as one record \<open>Store\<close> (a dict is an
    association list in insertion order) and the helpers \<open>_get\<close>, \<open>_put_immutable\<close> and
    \<open>_put_idempotent_immutable\<close>.  Then one theory for each group of methods of
    \<open>InMemoryAuthorityStore\<close>: StoreJournal (cases and their events), StoreMailbox (messages and the
    authority snapshot), StoreObligations (schedules, dispatches, completions, checkpoints),
    StoreJobs (outbox, dispositions, leases, the dispatcher's cursor), StoreCalls (model calls,
    effect attempts, actions, receipts, checkpoints, workflow projections, transactions),
    StoreFrames (candidates, their review, closures and proofs), StoreResolutions (outcomes of
    resolutions and the obligations derived from them), StoreAcceptance (a question, a frame
    or a plan becomes the head of its case).
    A method is a state transformer that returns a value or raises, with the store it leaves in
    both cases.  The lock of the store makes each call one step.  The clock a method reads
    (\<open>_trusted_now\<close>) is an argument.
  \<^item> StoreWrites: the contract of the store, an abstract transition system \<open>writes\<close> with a rule for
    each way a row may be written.  StoreMethods and StoreAuthorityMethods show that every method
    refines it, also when it raises; an acceptance does where cases are stored under their own ID
    (\<open>cases_keyed\<close>, an invariant).  StoreSystem collects the methods into the steps \<open>store_step\<close> and
    the \<open>reachable\<close> stores.
  \<^item> RowLogs: locales for the contracts tables keep (a log that is only appended to, one with unique
    keys, numbered histories, leases fenced by growing tokens).  StoreLogs and StoreLeases interpret
    them on the tables of the store; StoreInvariants proves the invariants of journal and mailbox.
  \<^item> StoreExamples, StoreProperties, StoreWorkProperties, StoreResults: what the store promises, in
    every reachable store: a journal and a mailbox without gaps, retries, fencing of workers and of
    older jobs, jobs that end once and are not lost, chains of attempts, results that are backed by
    what was recorded before them.
  \<^item> StoreAuthorityInvariants: the head of a case names records on file that belong together
    (\<open>heads_ok\<close>; the plan was validated against stored outcomes and obligations), and proofs and closures stay backed by the records they were admitted on
    (\<open>reviews_ok\<close>).  StoreAuthorityExamples runs the store from an empty one to an accepted frame.
    StoreAuthorityProperties: heads are bound, an accepted frame was reviewed, an acceptance is a
    compare-and-set on the head.  StorePlanExamples goes on to an accepted plan;
    StorePlanProperties: an accepted plan closes its frame with records on file.
  \<^item> StoreProjection: the methods of the store that resolve the authority records of an event and run
    the projection of a case (\<open>project_workflow_read_model\<close>, \<open>rebuild_workflow_read_model\<close>).
    StoreProjectionSteps: what resolution reads does not change while the store grows, so an event
    is translated the same way whenever it is replayed.  StoreProjectionProperties: the invariant
    \<open>replays_journal\<close> of the runs \<open>projected\<close>, in which read models are written by the projection only.
    StoreProjectionClaims: projection and rebuild agree.
  \<^item> Dates: the dates of Python's \<open>datetime\<close>, with the ordinal arithmetic of the proleptic Gregorian
    calendar and its overflows.  WindowTypes: window rules, resolution contexts and calendar
    receipts.  CalendarWindows: the dates of a window as \<open>domain/measurement_resolver.py\<close> resolves
    them (\<open>_calendar_interval\<close>) and as \<open>domain/identity.py\<close> derives them again to check a resolved
    window (\<open>_validate_resolved_calendar_window\<close>).  CalendarPeriods: a period is the set of dates
    with one number.  CalendarSelection, CalendarProperties: the selected dates lie in the period of
    the rule, and the check accepts what the resolver resolves, except for rules that the two
    modules read differently.

  Views: \<open>FrameView\<close> and \<open>AnswerView\<close> hold the identity, the digest and the attributes that are read of
  a frame and an answer (the design of a frame once as the JSON value \<open>to_jsonable\<close> makes of it, once
  as the \<open>DesignView\<close> of the collections plans and obligations are derived from);
  \<open>ResolvedInstanceView\<close> those of a resolved measurement instance, \<open>ScopeView\<close> those of a scope;
  \<open>ContextPacketView\<close> and \<open>ActionView\<close> those the modelled methods read of larger records.

  Arguments: \<open>bind_action\<close> of \<open>enqueue_outbox\<close> is its check of a message that carries an action;
  \<open>validate_frame\<close> is the check of a measurement design that \<open>accept_frame\<close> calls; \<open>validate_resolution\<close>
  stands for \<open>validate_resolution_identities\<close> and \<open>validate_resolution_against_frame\<close>, \<open>resolve\<close> for
  \<open>_resolve_measurement\<close> on the admitted inputs, \<open>verifier\<close> for the configured
  \<open>_resolution_input_verifier\<close>; \<open>text_of\<close> is Python's \<open>str\<close> of a message text that is
  not a string.  What is proved holds for whatever they accept.  The methods of the store that are
  not modelled (evidence, satisfaction, answers, decisions, message impact, traces) change the rows of their own tables and the answer in a case head; two rules of \<open>store_step\<close>
  stand for them.

  Not modelled: the PostgreSQL store (SQL run by an external database), the providers (network),
  the language-model prompts and the legacy \<open>bi_agent\<close> application (workflows around model calls),
  tools, tests, generated contracts and evaluation data.  Of the measurement language,
  requirements, estimands and the dates of windows are modelled: instants in a time zone depend on
  the tz database, and exposures on decimal arithmetic.  The execution of conformance specs
  (\<open>domain/planning.py\<close>), the evidence validators and the controller runtime are not modelled.
\<close>

end
